(* ===== verification/Gateway_Prelude.thy ===== *)
theory Gateway_Prelude
  imports Main "HOL-Library.Word" "HOL-Library.State_Monad" "HOL-Library.Monad_Syntax"
    "HOL-Library.Sublist"
begin

text \<open>
  Shared vocabulary of the development.

  A use case of the gateway talks to the outside only through its ports (Slack notifier, Cloud
  Run controller, Firestore, Pub/Sub publisher).  A call of a port is a value of an effect type;
  the world keeps the trace of the calls made so far, and the environment answers each call from
  that trace and the call itself: \<open>None\<close> is Go's \<open>nil\<close> error, \<open>Some e\<close> an error with text \<open>e\<close>.
  So an arbitrary environment covers every sequence of successes and failures of the services.

  The predicate \<open>emits\<close> and its closure rules carry the safety proofs: they bound the effects a
  monadic program can add to the trace.
\<close>

named_theorems go_consts \<open>unfold the string constants of the Go enumerations\<close>
named_theorems go_eval \<open>evaluation rules of the monadic primitives\<close>
named_theorems emits_intros \<open>closure rules of the effect bound\<close>
named_theorems preserves_intros \<open>closure rules of state components a program leaves alone\<close>

type_synonym int64 = "64 word"
type_synonym gerror = "string option"

record 'e env =
  reply :: "'e list \<Rightarrow> 'e \<Rightarrow> gerror"
  clock :: "'e list \<Rightarrow> int64"

record 'e world =
  trace :: "'e list"

section \<open>Effects\<close>

definition perform :: "'e env \<Rightarrow> 'e \<Rightarrow> (('e, 'z) world_scheme, gerror) state" where
  "perform E e = State (\<lambda>w. (reply E (trace w) e, w\<lparr>trace := trace w @ [e]\<rparr>))"

definition unix_now :: "'e env \<Rightarrow> (('e, 'z) world_scheme, int64) state" where
  "unix_now E = State (\<lambda>w. (clock E (trace w), w))"

definition ignore :: "('w, 'a) state \<Rightarrow> ('w, unit) state" where
  "ignore m = do { _ \<leftarrow> m; State_Monad.return () }"

lemma run_perform [simp, go_eval]:
  "run_state (perform E e) w = (reply E (trace w) e, w\<lparr>trace := trace w @ [e]\<rparr>)"
  by (simp add: perform_def)

lemma run_unix_now [simp, go_eval]:
  "run_state (unix_now E) w = (clock E (trace w), w)"
  by (simp add: unix_now_def)

lemma run_ignore [simp, go_eval]:
  "run_state (ignore m) w = ((), snd (run_state m w))"
  by (simp add: ignore_def split: prod.splits)

lemma run_return [simp, go_eval]:
  "run_state (State_Monad.return x) w = (x, w)"
  by (simp add: State_Monad.return_def)

section \<open>Bounding the effects of a program\<close>

definition emits :: "('e \<Rightarrow> bool) \<Rightarrow> (('e, 'z) world_scheme, 'a) state \<Rightarrow> bool" where
  "emits P m \<longleftrightarrow> (\<forall>w. \<exists>es. trace (snd (run_state m w)) = trace w @ es \<and> list_all P es)"

lemma emitsI:
  "(\<And>w. \<exists>es. trace (snd (run_state m w)) = trace w @ es \<and> list_all P es) \<Longrightarrow> emits P m"
  by (simp add: emits_def)

lemma emitsE:
  assumes "emits P m"
  obtains es where "trace (snd (run_state m w)) = trace w @ es" "list_all P es"
  using assms by (auto simp: emits_def)

lemma emits_return [emits_intros]: "emits P (State_Monad.return x)"
  by (rule emitsI) simp

lemma emits_perform [emits_intros]: "P e \<Longrightarrow> emits P (perform E e)"
  by (rule emitsI) simp

lemma emits_unix_now [emits_intros]: "emits P (unix_now E)"
  by (rule emitsI) simp

lemma emits_bind [emits_intros]:
  assumes "emits P m" "\<And>x. emits P (f x)"
  shows "emits P (m \<bind> f)"
proof (rule emitsI)
  fix w
  obtain a w1 where m: "run_state m w = (a, w1)" by fastforce
  from assms(1) m obtain es where "trace w1 = trace w @ es" "list_all P es"
    by (metis emitsE snd_conv)
  moreover from assms(2) obtain es' where
    "trace (snd (run_state (f a) w1)) = trace w1 @ es'" "list_all P es'"
    by (metis emitsE)
  ultimately show "\<exists>es. trace (snd (run_state (m \<bind> f) w)) = trace w @ es \<and> list_all P es"
    by (intro exI[of _ "es @ es'"]) (simp add: m)
qed

lemma emits_ignore [emits_intros]: "emits P m \<Longrightarrow> emits P (ignore m)"
  unfolding ignore_def by (intro emits_intros)

lemma emits_if [emits_intros]:
  "(b \<Longrightarrow> emits P m) \<Longrightarrow> (\<not> b \<Longrightarrow> emits P m') \<Longrightarrow> emits P (if b then m else m')"
  by simp

lemma emits_case_option [emits_intros]:
  "(x = None \<Longrightarrow> emits P m) \<Longrightarrow> (\<And>y. x = Some y \<Longrightarrow> emits P (f y)) \<Longrightarrow>
   emits P (case x of None \<Rightarrow> m | Some y \<Rightarrow> f y)"
  by (cases x) simp_all

lemma emits_case_sum [emits_intros]:
  "(\<And>l. x = Inl l \<Longrightarrow> emits P (f l)) \<Longrightarrow> (\<And>r. x = Inr r \<Longrightarrow> emits P (g r)) \<Longrightarrow>
   emits P (case x of Inl l \<Rightarrow> f l | Inr r \<Rightarrow> g r)"
  by (cases x) simp_all

lemma emits_case_prod [emits_intros]:
  "(\<And>a b. x = (a, b) \<Longrightarrow> emits P (f a b)) \<Longrightarrow> emits P (case x of (a, b) \<Rightarrow> f a b)"
  by (cases x) simp

lemma emits_mono: "emits P m \<Longrightarrow> (\<And>e. P e \<Longrightarrow> Q e) \<Longrightarrow> emits Q m"
  unfolding emits_def by (metis list_all_iff)

lemma emits_filter_empty:
  assumes "emits (\<lambda>e. \<not> Q e) m"
  shows "filter Q (trace (snd (run_state m w))) = filter Q (trace w)"
proof -
  obtain es where "trace (snd (run_state m w)) = trace w @ es" "list_all (\<lambda>e. \<not> Q e) es"
    using assms by (rule emitsE)
  then show ?thesis by (simp add: list_all_iff)
qed

lemma emits_prefix:
  assumes "emits P m"
  shows "prefix (trace w) (trace (snd (run_state m w)))"
  using assms by (metis emitsE prefixI)

section \<open>State components a program leaves alone\<close>

definition preserves :: "('w \<Rightarrow> 'b) \<Rightarrow> ('w, 'a) state \<Rightarrow> bool" where
  "preserves f m \<longleftrightarrow> (\<forall>w. f (snd (run_state m w)) = f w)"

lemma preservesD: "preserves f m \<Longrightarrow> f (snd (run_state m w)) = f w"
  by (simp add: preserves_def)

lemma preserves_return [preserves_intros]: "preserves f (State_Monad.return x)"
  by (simp add: preserves_def)

lemma preserves_perform [preserves_intros]:
  "(\<And>w t. f (w\<lparr>trace := t\<rparr>) = f w) \<Longrightarrow> preserves f (perform E e)"
  by (simp add: preserves_def)

lemma preserves_unix_now [preserves_intros]: "preserves f (unix_now E)"
  by (simp add: preserves_def)

lemma preserves_bind [preserves_intros]:
  "preserves f m \<Longrightarrow> (\<And>x. preserves f (g x)) \<Longrightarrow> preserves f (m \<bind> g)"
  by (auto simp: preserves_def split: prod.splits) (metis snd_conv)

lemma preserves_ignore [preserves_intros]: "preserves f m \<Longrightarrow> preserves f (ignore m)"
  by (simp add: preserves_def)

lemma preserves_if [preserves_intros]:
  "preserves f m \<Longrightarrow> preserves f m' \<Longrightarrow> preserves f (if b then m else m')"
  by simp

lemma preserves_case_option [preserves_intros]:
  "preserves f m \<Longrightarrow> (\<And>y. preserves f (g y)) \<Longrightarrow>
   preserves f (case x of None \<Rightarrow> m | Some y \<Rightarrow> g y)"
  by (cases x) simp_all

lemma preserves_case_sum [preserves_intros]:
  "(\<And>l. preserves f (g l)) \<Longrightarrow> (\<And>r. preserves f (h r)) \<Longrightarrow>
   preserves f (case x of Inl l \<Rightarrow> g l | Inr r \<Rightarrow> h r)"
  by (cases x) simp_all

lemma preserves_case_prod [preserves_intros]:
  "(\<And>a b. preserves f (g a b)) \<Longrightarrow> preserves f (case x of (a, b) \<Rightarrow> g a b)"
  by (cases x) simp

section \<open>Options, sums and lists\<close>

definition err_free :: "gerror \<Rightarrow> bool" where
  "err_free e \<longleftrightarrow> e = None"

fun sum_err :: "'e + 'a \<Rightarrow> 'e option" where
  "sum_err (Inl e) = Some e"
| "sum_err (Inr _) = None"

fun is_ok :: "'e + 'a \<Rightarrow> bool" where
  "is_ok (Inl _) = False"
| "is_ok (Inr _) = True"

lemma is_ok_iff: "is_ok r \<longleftrightarrow> (\<exists>x. r = Inr x)"
  by (cases r) simp_all

lemma sum_err_None_iff [simp]: "sum_err r = None \<longleftrightarrow> is_ok r"
  by (cases r) simp_all

definition non_empty :: "'a list \<Rightarrow> bool" where
  "non_empty s \<longleftrightarrow> s \<noteq> []"

lemma sint64_of_int:
  "- (2 ^ 63) \<le> n \<Longrightarrow> n < 2 ^ 63 \<Longrightarrow> sint (word_of_int n :: int64) = n"
  by (simp add: int_word_sint)

definition first_non_empty :: "string \<Rightarrow> string \<Rightarrow> string" where
  "first_non_empty a b = (if a \<noteq> [] then a else b)"

lemma first_non_empty_simps [simp]:
  "first_non_empty [] b = b"
  "a \<noteq> [] \<Longrightarrow> first_non_empty a b = a"
  by (simp_all add: first_non_empty_def)

end
