(* ===== verification/Go_Strings.thy ===== *)
theory Go_Strings
  imports Gateway_Prelude
begin

text \<open>
  The parts of Go's \<open>strings\<close> and \<open>strconv\<close> packages that the gateway uses, on byte strings.
  A Go string is a sequence of bytes, so \<open>string\<close> (a list of 8-bit characters) is the same
  data; the Unicode white space that \<open>strings.TrimSpace\<close> removes is written as its UTF-8
  sequences.
\<close>

section \<open>Prefixes, splitting and joining\<close>

definition trim_prefix :: "string \<Rightarrow> string \<Rightarrow> string" where
  "trim_prefix s p = (if prefix p s then drop (length p) s else s)"

definition trim_suffix :: "string \<Rightarrow> string \<Rightarrow> string" where
  "trim_suffix s p = (if suffix p s then take (length s - length p) s else s)"

fun split_chr :: "char \<Rightarrow> string \<Rightarrow> string list" where
  "split_chr c [] = [[]]"
| "split_chr c (x # xs) =
     (if x = c then [] # split_chr c xs
      else case split_chr c xs of [] \<Rightarrow> [[x]] | y # ys \<Rightarrow> (x # y) # ys)"

fun cut_chr :: "char \<Rightarrow> string \<Rightarrow> (string \<times> string) option" where
  "cut_chr c [] = None"
| "cut_chr c (x # xs) =
     (if x = c then Some ([], xs)
      else case cut_chr c xs of None \<Rightarrow> None | Some (a, b) \<Rightarrow> Some (x # a, b))"

fun cut_str :: "string \<Rightarrow> string \<Rightarrow> (string \<times> string) option" where
  "cut_str p [] = (if p = [] then Some ([], []) else None)"
| "cut_str p (x # xs) =
     (if prefix p (x # xs) then Some ([], drop (length p) (x # xs))
      else case cut_str p xs of None \<Rightarrow> None | Some (a, b) \<Rightarrow> Some (x # a, b))"

definition contains_str :: "string \<Rightarrow> string \<Rightarrow> bool" where
  "contains_str s p \<longleftrightarrow> cut_str p s \<noteq> None"

fun join :: "string \<Rightarrow> string list \<Rightarrow> string" where
  "join sep [] = []"
| "join sep [x] = x"
| "join sep (x # y # ys) = x @ sep @ join sep (y # ys)"

lemma trim_prefix_append [simp]: "trim_prefix (p @ s) p = s"
  by (simp add: trim_prefix_def)

lemma trim_prefix_id [simp]: "\<not> prefix p s \<Longrightarrow> trim_prefix s p = s"
  by (simp add: trim_prefix_def)

lemma split_chr_not_Nil [simp]: "split_chr c s \<noteq> []"
  by (induction s) (auto split: list.splits)

lemma split_chr_free [simp]: "c \<notin> set s \<Longrightarrow> split_chr c s = [s]"
  by (induction s) auto

lemma split_chr_append_sep:
  "c \<notin> set a \<Longrightarrow> split_chr c (a @ c # b) = a # split_chr c b"
  by (induction a) auto

lemma split_chr_members: "x \<in> set (split_chr c s) \<Longrightarrow> c \<notin> set x"
  by (induction s arbitrary: x) (auto split: list.splits if_splits)

lemma join_split_chr [simp]: "join [c] (split_chr c s) = s"
proof (induction s)
  case (Cons x xs)
  then show ?case
    by (cases "split_chr c xs" rule: list.exhaust)
       (auto split: list.splits elim: join.elims, metis join.simps list.exhaust append_Cons)
qed simp

lemma split_chr_join:
  "xs \<noteq> [] \<Longrightarrow> (\<And>x. x \<in> set xs \<Longrightarrow> c \<notin> set x) \<Longrightarrow> split_chr c (join [c] xs) = xs"
proof (induction xs)
  case (Cons x xs)
  then show ?case by (cases xs) (auto simp: split_chr_append_sep)
qed simp

lemma cut_chr_None_iff [simp]: "cut_chr c s = None \<longleftrightarrow> c \<notin> set s"
  by (induction s) (auto split: option.splits)

lemma cut_chr_Some: "cut_chr c s = Some (a, b) \<Longrightarrow> s = a @ c # b \<and> c \<notin> set a"
  by (induction s arbitrary: a) (auto split: if_splits option.splits)

lemma cut_chr_append [simp]: "c \<notin> set a \<Longrightarrow> cut_chr c (a @ c # b) = Some (a, b)"
  by (induction a) auto

lemma cut_str_Some: "cut_str p s = Some (a, b) \<Longrightarrow> s = a @ p @ b"
proof (induction s arbitrary: a)
  case (Cons x xs)
  show ?case
  proof (cases "prefix p (x # xs)")
    case True
    with Cons.prems have "a = []" "b = drop (length p) (x # xs)" by auto
    with True show ?thesis by (metis append_Nil append_eq_conv_conj prefix_def)
  next
    case False
    with Cons.prems obtain a' where "cut_str p xs = Some (a', b)" "a = x # a'"
      by (auto split: option.splits)
    with Cons.IH show ?thesis by simp
  qed
qed (simp split: if_splits)

lemma sep_unique:
  fixes c :: char
  assumes "c \<notin> set a" "c \<notin> set a'" "a @ c # b = a' @ c # b'"
  shows "a = a' \<and> b = b'"
proof -
  have "Some (a, b) = cut_chr c (a @ c # b)" by (rule cut_chr_append[OF assms(1), symmetric])
  also have "\<dots> = cut_chr c (a' @ c # b')" by (simp only: assms(3))
  also have "\<dots> = Some (a', b')" by (rule cut_chr_append[OF assms(2)])
  finally show ?thesis by simp
qed

section \<open>Trimming\<close>

text \<open>
  \<open>trim_left_seqs sps s\<close> removes leading occurrences of the byte sequences \<open>sps\<close> as long as one
  matches.  Empty sequences are ignored, so every step shortens the string.
\<close>

fun strip_one :: "string list \<Rightarrow> string \<Rightarrow> string option" where
  "strip_one [] s = None"
| "strip_one (p # ps) s =
     (if p \<noteq> [] \<and> prefix p s then Some (drop (length p) s) else strip_one ps s)"

lemma strip_one_shorter: "strip_one ps s = Some s' \<Longrightarrow> length s' < length s"
  by (induction ps) (auto split: if_splits simp: prefix_def)

function trim_left_seqs :: "string list \<Rightarrow> string \<Rightarrow> string" where
  "trim_left_seqs ps s =
     (case strip_one ps s of None \<Rightarrow> s | Some s' \<Rightarrow> trim_left_seqs ps s')"
  by pat_completeness auto
termination
  by (relation "measure (\<lambda>(ps, s). length s)") (auto dest: strip_one_shorter)

declare trim_left_seqs.simps [simp del]

definition go_spaces :: "string list" where
  "go_spaces =
    [[CHR 0x20], [CHR 0x09], [CHR 0x0A], [CHR 0x0B], [CHR 0x0C], [CHR 0x0D],
     [CHR 0xC2, CHR 0x85], [CHR 0xC2, CHR 0xA0], [CHR 0xE1, CHR 0x9A, CHR 0x80],
     [CHR 0xE2, CHR 0x80, CHR 0x80], [CHR 0xE2, CHR 0x80, CHR 0x81],
     [CHR 0xE2, CHR 0x80, CHR 0x82], [CHR 0xE2, CHR 0x80, CHR 0x83],
     [CHR 0xE2, CHR 0x80, CHR 0x84], [CHR 0xE2, CHR 0x80, CHR 0x85],
     [CHR 0xE2, CHR 0x80, CHR 0x86], [CHR 0xE2, CHR 0x80, CHR 0x87],
     [CHR 0xE2, CHR 0x80, CHR 0x88], [CHR 0xE2, CHR 0x80, CHR 0x89],
     [CHR 0xE2, CHR 0x80, CHR 0x8A], [CHR 0xE2, CHR 0x80, CHR 0xA8],
     [CHR 0xE2, CHR 0x80, CHR 0xA9], [CHR 0xE2, CHR 0x80, CHR 0xAF],
     [CHR 0xE2, CHR 0x81, CHR 0x9F], [CHR 0xE3, CHR 0x80, CHR 0x80]]"

definition trim_left_space :: "string \<Rightarrow> string" where
  "trim_left_space s = trim_left_seqs go_spaces s"

definition trim_right_space :: "string \<Rightarrow> string" where
  "trim_right_space s = rev (trim_left_seqs (map rev go_spaces) (rev s))"

definition trim_space :: "string \<Rightarrow> string" where
  "trim_space s = trim_right_space (trim_left_space s)"

definition space_free_ends :: "string \<Rightarrow> bool" where
  "space_free_ends s \<longleftrightarrow>
     strip_one go_spaces s = None \<and> strip_one (map rev go_spaces) (rev s) = None"

lemma trim_left_seqs_fix: "strip_one ps (trim_left_seqs ps s) = None"
proof (induction ps s rule: trim_left_seqs.induct)
  case (1 ps s)
  then show ?case
    by (cases "strip_one ps s") (simp_all add: trim_left_seqs.simps[of ps s])
qed

lemma trim_left_seqs_id [simp]: "strip_one ps s = None \<Longrightarrow> trim_left_seqs ps s = s"
  by (simp add: trim_left_seqs.simps)

lemma strip_one_suffix: "strip_one ps s = Some s' \<Longrightarrow> suffix s' s"
  by (induction ps) (auto split: if_splits simp: suffix_drop)

lemma trim_left_seqs_suffix: "suffix (trim_left_seqs ps s) s"
proof (induction ps s rule: trim_left_seqs.induct)
  case (1 ps s)
  then show ?case
    by (cases "strip_one ps s")
       (auto simp: trim_left_seqs.simps[of ps s] dest: strip_one_suffix
             intro: suffix_order.order_trans)
qed

lemma trim_space_id: "space_free_ends s \<Longrightarrow> trim_space s = s"
  by (simp add: space_free_ends_def trim_space_def trim_left_space_def trim_right_space_def)

lemma trim_space_set: "set (trim_space s) \<subseteq> set s"
proof -
  have "set (trim_right_space s') \<subseteq> set s'" for s'
    unfolding trim_right_space_def using trim_left_seqs_suffix set_mono_suffix by fastforce
  moreover have "set (trim_left_space s) \<subseteq> set s"
    unfolding trim_left_space_def using trim_left_seqs_suffix set_mono_suffix by blast
  ultimately show ?thesis unfolding trim_space_def by blast
qed

lemma strip_one_Nil [simp]: "strip_one ps [] = None"
  by (induction ps) auto

lemma trim_space_Nil [simp]: "trim_space [] = []"
  by (simp add: trim_space_def trim_left_space_def trim_right_space_def)

lemma strip_one_None_head:
  "(\<And>p. p \<in> set ps \<Longrightarrow> p = [] \<or> hd p \<noteq> c) \<Longrightarrow> strip_one ps (c # s) = None"
proof (induction ps)
  case (Cons p ps)
  from Cons.prems[of p] have "p = [] \<or> \<not> prefix p (c # s)" by (cases p) auto
  with Cons show ?case by auto
qed simp

section \<open>Decimal numbers\<close>

definition digit_chr :: "nat \<Rightarrow> char" where
  "digit_chr d = ''0123456789'' ! d"

definition digit_val :: "char \<Rightarrow> nat option" where
  "digit_val c = map_of (zip ''0123456789'' [0..<10]) c"

fun show_nat :: "nat \<Rightarrow> string" where
  "show_nat n = (if n < 10 then [digit_chr n] else show_nat (n div 10) @ [digit_chr (n mod 10)])"

declare show_nat.simps [simp del]

definition show_int :: "int \<Rightarrow> string" where
  "show_int i = (if i < 0 then ''-'' @ show_nat (nat (- i)) else show_nat (nat i))"

fun parse_digits :: "nat \<Rightarrow> string \<Rightarrow> nat option" where
  "parse_digits acc [] = Some acc"
| "parse_digits acc (c # cs) =
     (case digit_val c of None \<Rightarrow> None | Some d \<Rightarrow> parse_digits (10 * acc + d) cs)"

definition parse_nat :: "string \<Rightarrow> nat option" where
  "parse_nat s = (if s = [] then None else parse_digits 0 s)"

text \<open>\<open>strconv.ParseInt(s, 10, bits)\<close>: an optional sign, then decimal digits, then the range
  check; any failure is the one error value the callers distinguish.\<close>

definition parse_int :: "nat \<Rightarrow> string \<Rightarrow> int option" where
  "parse_int bits s =
     (let r = (case s of
                 [] \<Rightarrow> None
               | c # cs \<Rightarrow>
                   if c = CHR ''-'' then map_option (\<lambda>n. - int n) (parse_nat cs)
                   else if c = CHR ''+'' then map_option int (parse_nat cs)
                   else map_option int (parse_nat s))
      in case r of
           None \<Rightarrow> None
         | Some i \<Rightarrow> if - (2 ^ (bits - 1)) \<le> i \<and> i < 2 ^ (bits - 1) then Some i else None)"

lemma digit_val_chr [simp]: "d < 10 \<Longrightarrow> digit_val (digit_chr d) = Some d"
proof -
  assume "d < 10"
  then have "d \<in> {0, 1, 2, 3, 4, 5, 6, 7, 8, 9}" by auto
  then show ?thesis by (auto simp: digit_chr_def digit_val_def upt_rec)
qed

lemma digit_chr_in: "d < 10 \<Longrightarrow> digit_chr d \<in> set ''0123456789''"
  unfolding digit_chr_def by (rule nth_mem) simp

lemma parse_digits_append:
  "parse_digits acc (s @ t) =
     (case parse_digits acc s of None \<Rightarrow> None | Some a \<Rightarrow> parse_digits a t)"
  by (induction s arbitrary: acc) (auto split: option.splits)

lemma show_nat_not_Nil [simp]: "show_nat n \<noteq> []"
  by (subst show_nat.simps) simp

lemma show_nat_digits: "set (show_nat n) \<subseteq> set ''0123456789''"
proof (induction n rule: show_nat.induct)
  case (1 n)
  then show ?case
    by (subst show_nat.simps) (use digit_chr_in[of n] digit_chr_in[of "n mod 10"] in auto)
qed

lemma parse_digits_show [simp]: "parse_digits 0 (show_nat n) = Some n"
proof (induction n rule: show_nat.induct)
  case (1 n)
  show ?case
  proof (cases "n < 10")
    case True
    then show ?thesis by (subst show_nat.simps) simp
  next
    case False
    with 1 have "parse_digits 0 (show_nat (n div 10)) = Some (n div 10)" by simp
    with False show ?thesis
      by (subst show_nat.simps) (simp add: parse_digits_append)
  qed
qed

lemma parse_nat_show [simp]: "parse_nat (show_nat n) = Some n"
  by (simp add: parse_nat_def)

lemma show_nat_inject [simp]: "show_nat m = show_nat n \<longleftrightarrow> m = n"
  by (metis parse_nat_show option.inject)

lemma show_nat_hd: "\<exists>c cs. show_nat n = c # cs \<and> c \<in> set ''0123456789''"
proof (cases "show_nat n")
  case (Cons c cs)
  with show_nat_digits[of n] show ?thesis by simp
qed simp

lemma parse_int_show:
  assumes "- (2 ^ (bits - 1)) \<le> i" "i < 2 ^ (bits - 1)"
  shows "parse_int bits (show_int i) = Some i"
proof (cases "i < 0")
  case True
  with assms show ?thesis by (simp add: show_int_def parse_int_def)
next
  case False
  obtain c cs where c: "show_nat (nat i) = c # cs" "c \<in> set ''0123456789''"
    using show_nat_hd by blast
  then have "c \<noteq> CHR ''-''" "c \<noteq> CHR ''+''" by auto
  then have "parse_int bits (c # cs) =
      (case map_option int (parse_nat (c # cs)) of None \<Rightarrow> None
       | Some i \<Rightarrow> if - (2 ^ (bits - 1)) \<le> i \<and> i < 2 ^ (bits - 1) then Some i else None)"
    by (simp add: parse_int_def)
  moreover have "parse_nat (c # cs) = Some (nat i)" by (metis c(1) parse_nat_show)
  ultimately show ?thesis using False assms c(1) by (simp add: show_int_def)
qed

lemma parse_int_range:
  "parse_int bits s = Some i \<Longrightarrow> - (2 ^ (bits - 1)) \<le> i \<and> i < 2 ^ (bits - 1)"
  by (auto simp: parse_int_def Let_def split: option.splits if_splits)

lemma show_int_parts: "show_int i = (if i < 0 then CHR ''-'' # show_nat (nat (- i)) else show_nat (nat i))"
  by (simp add: show_int_def)

lemma show_nat_no_minus: "show_nat n \<noteq> CHR ''-'' # s"
  using show_nat_hd[of n] by auto

lemma show_int_inject [simp]: "show_int i = show_int j \<longleftrightarrow> i = j"
proof (cases "i < 0")
  case True
  then show ?thesis
    by (cases "j < 0") (auto simp: show_int_parts show_nat_no_minus[symmetric])
next
  case False
  then show ?thesis
    by (cases "j < 0") (auto simp: show_int_parts show_nat_no_minus)
qed

lemma show_int_chars: "set (show_int i) \<subseteq> insert CHR ''-'' (set ''0123456789'')"
proof (cases "i < 0")
  case True
  then have "show_int i = CHR ''-'' # show_nat (nat (- i))" by (simp only: show_int_parts if_True)
  then have "set (show_int i) = insert CHR ''-'' (set (show_nat (nat (- i))))"
    by (simp only: list.set)
  then show ?thesis using show_nat_digits[of "nat (- i)"] by blast
next
  case False
  then have "show_int i = show_nat (nat i)" by (simp only: show_int_parts if_False)
  then show ?thesis using show_nat_digits[of "nat i"] by (simp only: subset_insertI2)
qed

lemma show_int_not_Nil [simp]: "show_int i \<noteq> []"
  by (simp add: show_int_def)

text \<open>A decimal number holds none of the separators the gateway builds keys with.\<close>

lemma show_int_no_sep [simp]:
  "CHR ''/'' \<notin> set (show_int i)" "CHR ''_'' \<notin> set (show_int i)"
  "CHR '','' \<notin> set (show_int i)" "CHR ''|'' \<notin> set (show_int i)"
  using show_int_chars[of i] by auto

text \<open>Hexadecimal digits.\<close>

definition hex_digit :: "nat \<Rightarrow> char" where
  "hex_digit d = ''0123456789abcdef'' ! d"

definition hex_byte :: "char \<Rightarrow> string" where
  "hex_byte c = [hex_digit (of_char c div 16), hex_digit (of_char c mod 16)]"

end
