(* ===== verification/Approval_Domain.thy ===== *)
theory Approval_Domain
  imports Go_Strings
begin

text \<open>
  The domain types of an approval: resource types, actions and canary steps
  (\<open>internal/core/domain/domain.go\<close>), caller types and the four-eyes rules
  (\<open>internal/core/domain/broker_grant.go\<close>, \<open>approver_validator.go\<close>), the operation key
  (\<open>internal/core/port/port.go\<close>), the allow-list and expiry check
  (\<open>internal/adapter/output/auth/checker.go\<close>) and the classification of a Slack user
  (\<open>internal/adapter/input/slack/actor_classifier.go\<close>).  Go's string enumerations are open (any
  string is a value), so they are strings here, with the declared constants as definitions.
\<close>

section \<open>Enumerations\<close>

type_synonym ResourceType = string
type_synonym CallerType = string

definition ResourceTypeService :: ResourceType where
  [go_consts]: "ResourceTypeService = ''service''"
definition ResourceTypeJob :: ResourceType where
  [go_consts]: "ResourceTypeJob = ''job''"
definition ResourceTypeWorkerPool :: ResourceType where
  [go_consts]: "ResourceTypeWorkerPool = ''worker-pool''"

definition CallerHumanOperator :: CallerType where
  [go_consts]: "CallerHumanOperator = ''human-operator''"
definition CallerGatewayService :: CallerType where
  [go_consts]: "CallerGatewayService = ''gateway-service''"
definition CallerAIAgent :: CallerType where
  [go_consts]: "CallerAIAgent = ''ai-agent''"
definition CallerWorkspaceDaemon :: CallerType where
  [go_consts]: "CallerWorkspaceDaemon = ''workspace-daemon''"

definition AllCallerTypes :: "CallerType list" where
  "AllCallerTypes =
     [CallerHumanOperator, CallerGatewayService, CallerAIAgent, CallerWorkspaceDaemon]"

lemma resource_types_distinct [simp]:
  "ResourceTypeService \<noteq> ResourceTypeJob" "ResourceTypeJob \<noteq> ResourceTypeService"
  "ResourceTypeService \<noteq> ResourceTypeWorkerPool" "ResourceTypeWorkerPool \<noteq> ResourceTypeService"
  "ResourceTypeJob \<noteq> ResourceTypeWorkerPool" "ResourceTypeWorkerPool \<noteq> ResourceTypeJob"
  by (simp_all add: go_consts)

lemma caller_types_distinct: "distinct AllCallerTypes"
  by (simp add: AllCallerTypes_def go_consts)

lemma caller_types_neq [simp]:
  "CallerHumanOperator \<noteq> CallerGatewayService" "CallerGatewayService \<noteq> CallerHumanOperator"
  "CallerHumanOperator \<noteq> CallerAIAgent" "CallerAIAgent \<noteq> CallerHumanOperator"
  "CallerHumanOperator \<noteq> CallerWorkspaceDaemon" "CallerWorkspaceDaemon \<noteq> CallerHumanOperator"
  "CallerGatewayService \<noteq> CallerAIAgent" "CallerAIAgent \<noteq> CallerGatewayService"
  "CallerGatewayService \<noteq> CallerWorkspaceDaemon" "CallerWorkspaceDaemon \<noteq> CallerGatewayService"
  "CallerAIAgent \<noteq> CallerWorkspaceDaemon" "CallerWorkspaceDaemon \<noteq> CallerAIAgent"
  "CallerHumanOperator \<noteq> []" "[] \<noteq> CallerHumanOperator"
  "CallerAIAgent \<noteq> []" "[] \<noteq> CallerAIAgent"
  "CallerWorkspaceDaemon \<noteq> []" "[] \<noteq> CallerWorkspaceDaemon"
  "CallerGatewayService \<noteq> []" "[] \<noteq> CallerGatewayService"
  by (simp_all add: go_consts)

section \<open>Actions and canary steps\<close>

record action =
  act_Name :: string
  act_Percent :: int

datatype action_error = EmptyAction | PercentOutOfRange int

definition CanarySteps :: "int list" where
  "CanarySteps = [10, 30, 50, 80, 100]"

fun next_step :: "int list \<Rightarrow> int \<Rightarrow> int" where
  "next_step (v # w # rest) c = (if v = c then w else next_step (w # rest) c)"
| "next_step _ c = 0"

definition NextCanaryPercent :: "int \<Rightarrow> int" where
  "NextCanaryPercent current = next_step CanarySteps current"

definition ParseAction :: "string \<Rightarrow> action_error + action" where
  "ParseAction s =
     (if s = [] then Inl EmptyAction
      else case cut_chr CHR ''_'' s of
        None \<Rightarrow> Inr \<lparr>act_Name = s, act_Percent = 0\<rparr>
      | Some (nm, sfx) \<Rightarrow>
          (case parse_int 32 sfx of
             None \<Rightarrow> Inr \<lparr>act_Name = s, act_Percent = 0\<rparr>
           | Some n \<Rightarrow>
               if n < 0 \<or> n > 100 then Inl (PercentOutOfRange n)
               else Inr \<lparr>act_Name = nm, act_Percent = n\<rparr>))"

definition canary_action :: "int \<Rightarrow> string" where
  "canary_action n = ''canary_'' @ show_int n"

definition rollback_name :: string where [go_consts]: "rollback_name = ''rollback''"
definition migrate_apply_name :: string where [go_consts]: "migrate_apply_name = ''migrate_apply''"
definition deny_name :: string where [go_consts]: "deny_name = ''deny''"

lemma ParseAction_percent_range:
  "ParseAction s = Inr a \<Longrightarrow> 0 \<le> act_Percent a \<and> act_Percent a \<le> 100"
  by (auto simp: ParseAction_def split: if_splits option.splits)

lemma ParseAction_suffixed:
  assumes "CHR ''_'' \<notin> set nm" "nm \<noteq> []" "- (2 ^ 31) \<le> n" "n < 2 ^ 31"
  shows "ParseAction (nm @ CHR ''_'' # show_int n) =
           (if n < 0 \<or> n > 100 then Inl (PercentOutOfRange n)
            else Inr \<lparr>act_Name = nm, act_Percent = n\<rparr>)"
  using assms by (simp add: ParseAction_def parse_int_show)

lemma ParseAction_canary:
  assumes "0 \<le> n" "n \<le> 100"
  shows "ParseAction (canary_action n) = Inr \<lparr>act_Name = ''canary'', act_Percent = n\<rparr>"
proof -
  have "canary_action n = ''canary'' @ CHR ''_'' # show_int n" by (simp add: canary_action_def)
  with assms show ?thesis using ParseAction_suffixed[of "''canary''" n] by simp
qed

lemma ParseAction_Inl_iff:
  "ParseAction s = Inl e \<longleftrightarrow>
     (s = [] \<and> e = EmptyAction) \<or>
     (\<exists>nm sfx n. cut_chr CHR ''_'' s = Some (nm, sfx) \<and> parse_int 32 sfx = Some n \<and>
        (n < 0 \<or> n > 100) \<and> e = PercentOutOfRange n)"
  by (cases s) (auto simp: ParseAction_def split: if_splits option.splits prod.splits)

lemma ParseAction_rollback [simp]:
  "ParseAction rollback_name = Inr \<lparr>act_Name = rollback_name, act_Percent = 0\<rparr>"
  by (simp add: ParseAction_def rollback_name_def)

lemma NextCanaryPercent_cases:
  "NextCanaryPercent p =
     (if p = 10 then 30 else if p = 30 then 50 else if p = 50 then 80 else if p = 80 then 100 else 0)"
  by (simp add: NextCanaryPercent_def CanarySteps_def)

text \<open>The canary chain: how often the gateway can offer a next step from \<open>p\<close>.\<close>

fun canary_chain :: "nat \<Rightarrow> int \<Rightarrow> int list" where
  "canary_chain 0 p = []"
| "canary_chain (Suc k) p =
     (if NextCanaryPercent p > 0 then NextCanaryPercent p # canary_chain k (NextCanaryPercent p)
      else [])"

lemma NextCanaryPercent_step:
  "NextCanaryPercent p > 0 \<Longrightarrow>
     p \<in> set CanarySteps \<and> p < NextCanaryPercent p \<and> NextCanaryPercent p \<in> set CanarySteps"
  by (simp add: NextCanaryPercent_cases CanarySteps_def split: if_splits)

lemma canary_chain_sorted: "sorted_wrt (<) (p # canary_chain k p)"
proof (induction k arbitrary: p)
  case (Suc k)
  then show ?case
    using NextCanaryPercent_step[of p] by (auto simp: less_trans)
qed simp

lemma canary_chain_members: "q \<in> set (canary_chain k p) \<Longrightarrow> q \<in> set CanarySteps"
  by (induction k arbitrary: p) (auto simp: NextCanaryPercent_step split: if_splits)

lemma canary_chain_length: "length (canary_chain k p) < length CanarySteps"
proof -
  have srt: "sorted_wrt (<) (canary_chain k p)" using canary_chain_sorted[of p k] by simp
  have "set (canary_chain k p) \<subseteq> set CanarySteps - {10}"
  proof
    fix q assume q: "q \<in> set (canary_chain k p)"
    then have "q > p" using canary_chain_sorted[of p k] by auto
    moreover have "p \<in> set CanarySteps"
      using q by (cases k) (auto split: if_splits dest: NextCanaryPercent_step)
    ultimately show "q \<in> set CanarySteps - {10}"
      using canary_chain_members[OF q] by (auto simp: CanarySteps_def)
  qed
  then have "card (set (canary_chain k p)) \<le> card (set CanarySteps - {10})"
    by (intro card_mono) auto
  moreover have "card (set (canary_chain k p)) = length (canary_chain k p)"
    using srt by (simp add: distinct_card strict_sorted_iff)
  ultimately show ?thesis by (simp add: CanarySteps_def)
qed

section \<open>The approval request\<close>

record approval_request =
  ar_Project :: string
  ar_Location :: string
  ar_ResourceType :: ResourceType
  ar_ResourceNames :: string
  ar_Targets :: string
  ar_Action :: string
  ar_ApproverID :: string
  ar_IssuedAt :: int64
  ar_SQLInstanceName :: string
  ar_MigrationDone :: bool
  ar_NextServiceNames :: string
  ar_NextRevisions :: string
  ar_NextAction :: string
  ar_BuildInfo :: string
  ar_RequesterActorType :: CallerType
  ar_InitiatingActorType :: CallerType

definition zero_request :: approval_request where
  "zero_request =
     \<lparr>ar_Project = [], ar_Location = [], ar_ResourceType = [], ar_ResourceNames = [],
      ar_Targets = [], ar_Action = [], ar_ApproverID = [], ar_IssuedAt = 0,
      ar_SQLInstanceName = [], ar_MigrationDone = False, ar_NextServiceNames = [],
      ar_NextRevisions = [], ar_NextAction = [], ar_BuildInfo = [],
      ar_RequesterActorType = [], ar_InitiatingActorType = []\<rparr>"

definition OperationKey :: "approval_request \<Rightarrow> string" where
  "OperationKey req =
     ar_Project req @ ''/'' @ ar_ResourceType req @ ''/'' @ ar_ResourceNames req @ ''/'' @
     ar_Action req @ ''/'' @ show_int (sint (ar_IssuedAt req))"

text \<open>
  The key identifies the operation as long as its components hold no slash; location, targets
  and approver are not part of it.
\<close>

definition key_safe :: "approval_request \<Rightarrow> bool" where
  "key_safe req \<longleftrightarrow>
     CHR ''/'' \<notin> set (ar_Project req) \<and> CHR ''/'' \<notin> set (ar_ResourceType req) \<and>
     CHR ''/'' \<notin> set (ar_ResourceNames req) \<and> CHR ''/'' \<notin> set (ar_Action req)"

lemma OperationKey_inject:
  assumes "key_safe a" "key_safe b" "OperationKey a = OperationKey b"
  shows "ar_Project a = ar_Project b \<and> ar_ResourceType a = ar_ResourceType b \<and>
         ar_ResourceNames a = ar_ResourceNames b \<and> ar_Action a = ar_Action b \<and>
         ar_IssuedAt a = ar_IssuedAt b"
proof -
  have eq: "ar_Project a @ CHR ''/'' # ar_ResourceType a @ CHR ''/'' # ar_ResourceNames a @
        CHR ''/'' # ar_Action a @ CHR ''/'' # show_int (sint (ar_IssuedAt a)) =
      ar_Project b @ CHR ''/'' # ar_ResourceType b @ CHR ''/'' # ar_ResourceNames b @
        CHR ''/'' # ar_Action b @ CHR ''/'' # show_int (sint (ar_IssuedAt b))"
    using assms(3) by (simp only: OperationKey_def append_Cons append_Nil)
  from assms(1,2) have free:
    "CHR ''/'' \<notin> set (ar_Project a)" "CHR ''/'' \<notin> set (ar_Project b)"
    "CHR ''/'' \<notin> set (ar_ResourceType a)" "CHR ''/'' \<notin> set (ar_ResourceType b)"
    "CHR ''/'' \<notin> set (ar_ResourceNames a)" "CHR ''/'' \<notin> set (ar_ResourceNames b)"
    "CHR ''/'' \<notin> set (ar_Action a)" "CHR ''/'' \<notin> set (ar_Action b)"
    unfolding key_safe_def by blast+
  note p = sep_unique[OF free(1,2) eq]
  note t = sep_unique[OF free(3,4) conjunct2[OF p]]
  note n = sep_unique[OF free(5,6) conjunct2[OF t]]
  note c = sep_unique[OF free(7,8) conjunct2[OF n]]
  have "sint (ar_IssuedAt a) = sint (ar_IssuedAt b)" using conjunct2[OF c] by simp
  then have "ar_IssuedAt a = ar_IssuedAt b" by (rule signed_word_eqI)
  with p t n c show ?thesis by blast
qed

section \<open>Actor classification and the four-eyes rule\<close>

datatype domain_error =
    ErrAIAgentCannotApproveAIAgent
  | ErrInitiatingActorRequiredForDaemon

definition EffectiveRequesterActorType :: "approval_request \<Rightarrow> domain_error + CallerType" where
  "EffectiveRequesterActorType req =
     (if ar_RequesterActorType req = CallerWorkspaceDaemon then
        (if ar_InitiatingActorType req = [] then Inl ErrInitiatingActorRequiredForDaemon
         else Inr (ar_InitiatingActorType req))
      else Inr (ar_RequesterActorType req))"

definition ActorSourceBroker :: string where [go_consts]: "ActorSourceBroker = ''broker''"
definition ActorSourceEnv :: string where [go_consts]: "ActorSourceEnv = ''env''"
definition ActorSourceUnknown :: string where [go_consts]: "ActorSourceUnknown = ''unknown''"

definition GatewayClassificationBrokerVerified :: string where
  [go_consts]: "GatewayClassificationBrokerVerified = ''broker_verified''"
definition GatewayClassificationEnvAttested :: string where
  [go_consts]: "GatewayClassificationEnvAttested = ''env_attested''"
definition GatewayClassificationUnknown :: string where
  [go_consts]: "GatewayClassificationUnknown = ''unknown''"
definition GatewayClassificationSpoofedBroker :: string where
  [go_consts]: "GatewayClassificationSpoofedBroker = ''spoofed_broker''"

definition ClassifyRequesterActorSource :: "string \<Rightarrow> bool \<Rightarrow> string" where
  "ClassifyRequesterActorSource rawSource gatewayAttachedBroker =
     (if rawSource = ActorSourceBroker then
        (if gatewayAttachedBroker then GatewayClassificationBrokerVerified
         else GatewayClassificationSpoofedBroker)
      else if rawSource = ActorSourceEnv then GatewayClassificationEnvAttested
      else GatewayClassificationUnknown)"

definition ValidateApproverPermitted :: "approval_request \<Rightarrow> CallerType \<Rightarrow> domain_error option" where
  "ValidateApproverPermitted req approverType =
     (let requester = (if ar_RequesterActorType req = [] then CallerHumanOperator
                       else ar_RequesterActorType req);
          approver = (if approverType = [] then CallerHumanOperator else approverType)
      in if requester = CallerAIAgent \<and> approver = CallerAIAgent
         then Some ErrAIAgentCannotApproveAIAgent else None)"

definition ClassifyApproverActorType :: "string \<Rightarrow> string list \<Rightarrow> CallerType" where
  "ClassifyApproverActorType userID aiBotIDs =
     (if userID = [] then CallerHumanOperator
      else if userID \<in> set (map trim_space aiBotIDs) then CallerAIAgent
      else CallerHumanOperator)"

text \<open>\<open>parseAllowedUsers\<close>, \<open>ParseAIAgentBotUserIDs\<close> and \<open>splitCSV\<close> trim the fields of a CSV and
  drop the empty ones.\<close>

definition splitCSV :: "string \<Rightarrow> string list" where
  "splitCSV s = filter (\<lambda>t. t \<noteq> []) (map trim_space (split_chr CHR '','' s))"

definition ParseAIAgentBotUserIDs :: "string \<Rightarrow> string list" where
  "ParseAIAgentBotUserIDs csv =
     (if csv = [] then []
      else filter (\<lambda>t. t \<noteq> []) (map trim_space (split_chr CHR '','' csv)))"

definition parseAllowedUsers :: "string \<Rightarrow> string list" where
  "parseAllowedUsers raw =
     (if raw = [] then []
      else filter (\<lambda>t. t \<noteq> []) (map trim_space (split_chr CHR '','' raw)))"

lemma splitCSV_members: "n \<in> set (splitCSV s) \<Longrightarrow> n \<noteq> [] \<and> CHR '','' \<notin> set n"
  using trim_space_set split_chr_members by (fastforce simp: splitCSV_def)

lemma splitCSV_Nil [simp]: "splitCSV [] = []"
  by (simp add: splitCSV_def)

lemma parse_users_eq_splitCSV:
  "parseAllowedUsers s = splitCSV s" "ParseAIAgentBotUserIDs s = splitCSV s"
  by (simp_all add: parseAllowedUsers_def ParseAIAgentBotUserIDs_def splitCSV_def)

lemma ValidateApproverPermitted_None_iff:
  "ValidateApproverPermitted req t = None \<longleftrightarrow>
     \<not> (ar_RequesterActorType req = CallerAIAgent \<and> t = CallerAIAgent)"
  by (auto simp: ValidateApproverPermitted_def Let_def)

lemma ValidateApproverPermitted_Some:
  "ValidateApproverPermitted req t = Some e \<longleftrightarrow>
     e = ErrAIAgentCannotApproveAIAgent \<and>
     ar_RequesterActorType req = CallerAIAgent \<and> t = CallerAIAgent"
  by (auto simp: ValidateApproverPermitted_def Let_def)

lemma ClassifyRequesterActorSource_unattached [simp]:
  "ClassifyRequesterActorSource raw False \<noteq> GatewayClassificationBrokerVerified"
  by (simp add: ClassifyRequesterActorSource_def go_consts)

section \<open>The authorization checker\<close>

record auth_checker =
  ac_allowedUsers :: "string list"
  ac_expirySeconds :: int64

definition defaultExpirySeconds :: int64 where
  "defaultExpirySeconds = 7200"

definition NewEnvAuthChecker :: "string \<Rightarrow> string \<Rightarrow> auth_checker" where
  "NewEnvAuthChecker allowed_env expiry_env =
     \<lparr>ac_allowedUsers = parseAllowedUsers allowed_env,
      ac_expirySeconds =
        (if expiry_env \<noteq> [] then
           (case parse_int 64 expiry_env of
              Some n \<Rightarrow> if n > 0 then word_of_int n else defaultExpirySeconds
            | None \<Rightarrow> defaultExpirySeconds)
         else defaultExpirySeconds)\<rparr>"

definition IsAuthorized :: "auth_checker \<Rightarrow> string \<Rightarrow> bool" where
  "IsAuthorized c approverID \<longleftrightarrow> approverID \<in> set (ac_allowedUsers c)"

definition IsExpired :: "auth_checker \<Rightarrow> int64 \<Rightarrow> int64 \<Rightarrow> bool" where
  "IsExpired c now issuedAt \<longleftrightarrow>
     issuedAt \<noteq> 0 \<and> sint (ac_expirySeconds c) < sint (now - issuedAt)"

lemma IsAuthorized_Nil [simp]: "ac_allowedUsers c = [] \<Longrightarrow> \<not> IsAuthorized c u"
  by (simp add: IsAuthorized_def)

lemma empty_user_never_authorized: "\<not> IsAuthorized (NewEnvAuthChecker a e) []"
  by (simp add: IsAuthorized_def NewEnvAuthChecker_def parse_users_eq_splitCSV splitCSV_def)

lemma NewEnvAuthChecker_expiry_positive: "0 < sint (ac_expirySeconds (NewEnvAuthChecker a e))"
proof -
  have "sint (word_of_int n :: int64) = n" if "parse_int 64 e = Some n" for n
    using parse_int_range[OF that] by (intro sint64_of_int) simp_all
  then show ?thesis
    by (auto simp: NewEnvAuthChecker_def defaultExpirySeconds_def split: option.splits)
qed

lemma sint_sub_no_overflow:
  fixes a b :: int64
  assumes "0 \<le> sint a" "0 \<le> sint b"
  shows "sint (a - b) = sint a - sint b"
proof -
  have "sint a < 2 ^ 63" "sint b < 2 ^ 63"
    using sint_lt[of a] sint_lt[of b] by simp_all
  with assms show ?thesis
    by (simp add: sint_word_ariths signed_take_bit_int_eq_self)
qed

lemma IsExpired_iff:
  assumes "0 \<le> sint now" "0 \<le> sint issuedAt"
  shows "IsExpired c now issuedAt \<longleftrightarrow>
           issuedAt \<noteq> 0 \<and> sint issuedAt + sint (ac_expirySeconds c) < sint now"
  using sint_sub_no_overflow[OF assms] by (auto simp: IsExpired_def)

section \<open>Properties\<close>

text \<open>Parsing an action never yields a percentage outside 0 to 100, and the action string the
  gateway writes for a canary step is read back as that step; a percentage outside the range is
  rejected and not taken for a name.\<close>

theorem ParseAction_correct:
  "(\<forall>a. ParseAction s = Inr a \<longrightarrow> 0 \<le> act_Percent a \<and> act_Percent a \<le> 100) \<and>
   (0 \<le> n \<and> n \<le> 100 \<longrightarrow> ParseAction (canary_action n) = Inr \<lparr>act_Name = ''canary'', act_Percent = n\<rparr>) \<and>
   (100 < n \<and> n < 2 ^ 31 \<longrightarrow> ParseAction (canary_action n) = Inl (PercentOutOfRange n))"
proof -
  have "ParseAction (canary_action n) = Inl (PercentOutOfRange n)" if "100 < n" "n < 2 ^ 31"
    using ParseAction_suffixed[of "''canary''" n] that by (simp add: canary_action_def)
  then show ?thesis using ParseAction_percent_range ParseAction_canary by blast
qed

theorem ParseAction_correct_witness:
  "ParseAction ''canary_30'' = Inr \<lparr>act_Name = ''canary'', act_Percent = 30\<rparr>"
proof -
  have "canary_action 30 = ''canary_30''" by code_simp
  with ParseAction_correct[of "[]" 30] show ?thesis by simp
qed

text \<open>The canary rollout advances and ends: each offered percentage is a configured step above
  the current one, and from any percentage at most four further steps are ever offered.\<close>

theorem canary_progress:
  "sorted_wrt (<) (p # canary_chain k p) \<and> set (canary_chain k p) \<subseteq> set CanarySteps \<and>
   length (canary_chain k p) \<le> 4"
proof (intro conjI subsetI)
  show "length (canary_chain k p) \<le> 4"
    using canary_chain_length[of k p] by (simp add: CanarySteps_def)
qed (rule canary_chain_sorted canary_chain_members; assumption?)+

text \<open>Two requests share an operation key only if they are the same operation on the same
  resources of the same project, offered at the same time, as long as no component holds a
  slash.\<close>

theorem OperationKey_injective:
  assumes "key_safe a" "key_safe b" "OperationKey a = OperationKey b"
  shows "ar_Project a = ar_Project b \<and> ar_ResourceType a = ar_ResourceType b \<and>
         ar_ResourceNames a = ar_ResourceNames b \<and> ar_Action a = ar_Action b \<and>
         ar_IssuedAt a = ar_IssuedAt b"
  using OperationKey_inject[OF assms] .

theorem OperationKey_injective_witness:
  "OperationKey (zero_request\<lparr>ar_Project := ''p'', ar_Location := ''x''\<rparr>) =
     OperationKey (zero_request\<lparr>ar_Project := ''p'', ar_Location := ''y''\<rparr>) \<and>
   ar_Project (zero_request\<lparr>ar_Project := ''p'', ar_Location := ''x''\<rparr>) = ''p''"
proof -
  let ?a = "zero_request\<lparr>ar_Project := ''p'', ar_Location := ''x''\<rparr>"
  let ?b = "zero_request\<lparr>ar_Project := ''p'', ar_Location := ''y''\<rparr>"
  have eq: "OperationKey ?a = OperationKey ?b" by (simp add: OperationKey_def)
  have "key_safe ?a" "key_safe ?b" by (simp_all add: key_safe_def zero_request_def)
  from OperationKey_injective[OF this eq] eq show ?thesis by simp
qed

text \<open>A button issued at a time of the Unix epoch expires exactly when more than the configured
  number of seconds has passed, without wrap-around of the 64-bit subtraction; the timestamp 0 of
  the command line never expires, and the configured number of seconds is positive.\<close>

theorem IsExpired_window:
  assumes "0 \<le> sint now" "0 \<le> sint issuedAt"
  shows "(IsExpired c now issuedAt \<longleftrightarrow>
           issuedAt \<noteq> 0 \<and> sint issuedAt + sint (ac_expirySeconds c) < sint now) \<and>
         0 < sint (ac_expirySeconds (NewEnvAuthChecker users expiry))"
  using IsExpired_iff[OF assms] NewEnvAuthChecker_expiry_positive by simp

theorem IsExpired_window_witness:
  "IsExpired (NewEnvAuthChecker [] ''60'') 1061 1000 \<and> \<not> IsExpired (NewEnvAuthChecker [] ''60'') 1060 1000"
proof -
  have e: "sint (ac_expirySeconds (NewEnvAuthChecker [] ''60'')) = 60" by code_simp
  show ?thesis
    using IsExpired_window[of 1061 1000 "NewEnvAuthChecker [] ''60''"]
      IsExpired_window[of 1060 1000 "NewEnvAuthChecker [] ''60''"] by (simp add: e)
qed

end
