(* ===== verification/Lock_Store.thy ===== *)
theory Lock_Store
  imports Gateway_Prelude
begin

text \<open>
  The two in-memory stores behind the Slack handlers: the operation lock
  (\<open>internal/adapter/output/state/memory.go\<close>) and the single-use token store
  (\<open>internal/adapter/output/state/consumed.go\<close>), with the two interfaces of
  \<open>internal/core/port/port.go\<close> they implement as locales.  Every method holds the store's mutex
  for its whole body, so a method is one atomic step; the concurrent use of the lock is a step
  relation over several workers.
\<close>

section \<open>The interface StateStore\<close>

locale state_store =
  fixes try_lock :: "string \<Rightarrow> 's \<Rightarrow> bool \<times> 's"
    and release :: "string \<Rightarrow> 's \<Rightarrow> 's"
    and held :: "'s \<Rightarrow> string set"
  assumes try_lock_free: "k \<notin> held s \<Longrightarrow> fst (try_lock k s) \<and> held (snd (try_lock k s)) = insert k (held s)"
    and try_lock_busy: "k \<in> held s \<Longrightarrow> \<not> fst (try_lock k s) \<and> held (snd (try_lock k s)) = held s"
    and held_release: "held (release k s) = held s - {k}"
begin

lemma try_lock_iff: "fst (try_lock k s) \<longleftrightarrow> k \<notin> held s"
  using try_lock_free try_lock_busy by blast

lemma held_try_lock: "held (snd (try_lock k s)) = insert k (held s)"
  using try_lock_free try_lock_busy by (cases "k \<in> held s") auto

text \<open>The bracket of a use case: lock, a body that leaves the set of held keys alone, release.\<close>

lemma bracket_balanced:
  assumes "fst (try_lock k s)" "held s' = held (snd (try_lock k s))"
  shows "held (release k s') = held s"
  using assms by (auto simp: held_release held_try_lock try_lock_iff)

lemma second_lock_fails:
  assumes "held s' = held (snd (try_lock k s))"
  shows "\<not> fst (try_lock k s')"
  using assms by (simp add: held_try_lock try_lock_iff)

lemma relock_after_release: "fst (try_lock k (release k s))"
  by (simp add: try_lock_iff held_release)

lemma other_key_unaffected:
  assumes "k \<noteq> k'"
  shows "fst (try_lock k' (snd (try_lock k s))) = fst (try_lock k' s)"
    and "fst (try_lock k' (release k s)) = fst (try_lock k' s)"
  using assms by (auto simp: held_try_lock try_lock_iff held_release)

end

section \<open>MemoryStore\<close>

record memory_store =
  ms_keys :: "string set"

definition NewMemoryStore :: memory_store where
  "NewMemoryStore = \<lparr>ms_keys = {}\<rparr>"

definition TryLock :: "string \<Rightarrow> memory_store \<Rightarrow> bool \<times> memory_store" where
  "TryLock key s =
     (if key \<in> ms_keys s then (False, s) else (True, s\<lparr>ms_keys := insert key (ms_keys s)\<rparr>))"

definition Release :: "string \<Rightarrow> memory_store \<Rightarrow> memory_store" where
  "Release key s = s\<lparr>ms_keys := ms_keys s - {key}\<rparr>"

interpretation mem: state_store TryLock Release ms_keys
  by unfold_locales (auto simp: TryLock_def Release_def)

section \<open>Concurrent workers on one store\<close>

text \<open>
  A worker is a goroutine running \<open>ApproveAction\<close>: it tries the key of its request and returns
  at once when the key is taken, otherwise it runs the operation and releases the key on return
  (the deferred \<open>Release\<close>).
\<close>

record gate =
  g_store :: memory_store
  g_running :: "nat \<Rightarrow> string option"

definition gate_init :: gate where
  "gate_init = \<lparr>g_store = NewMemoryStore, g_running = (\<lambda>_. None)\<rparr>"

inductive gate_step :: "gate \<Rightarrow> gate \<Rightarrow> bool" where
  enter: "g_running g t = None \<Longrightarrow> TryLock k (g_store g) = (True, st) \<Longrightarrow>
     gate_step g (g\<lparr>g_store := st, g_running := (g_running g)(t := Some k)\<rparr>)"
| reject: "g_running g t = None \<Longrightarrow> TryLock k (g_store g) = (False, st) \<Longrightarrow>
     gate_step g (g\<lparr>g_store := st\<rparr>)"
| leave: "g_running g t = Some k \<Longrightarrow>
     gate_step g (g\<lparr>g_store := Release k (g_store g), g_running := (g_running g)(t := None)\<rparr>)"

inductive_cases gate_stepE: "gate_step g g'"

inductive gate_reachable :: "gate \<Rightarrow> bool" where
  start: "gate_reachable gate_init"
| step: "gate_reachable g \<Longrightarrow> gate_step g g' \<Longrightarrow> gate_reachable g'"

definition gate_inv :: "gate \<Rightarrow> bool" where
  "gate_inv g \<longleftrightarrow>
     ms_keys (g_store g) = {k. \<exists>t. g_running g t = Some k} \<and>
     (\<forall>t t' k. g_running g t = Some k \<and> g_running g t' = Some k \<longrightarrow> t = t')"

lemma gate_inv_step: "gate_inv g \<Longrightarrow> gate_step g g' \<Longrightarrow> gate_inv g'"
proof (erule gate_stepE)
  fix t k st
  assume inv: "gate_inv g" and *: "g' = g\<lparr>g_store := st, g_running := (g_running g)(t \<mapsto> k)\<rparr>"
    "g_running g t = None" "TryLock k (g_store g) = (True, st)"
  have "k \<notin> ms_keys (g_store g)" using mem.try_lock_iff[of k "g_store g"] *(3) by simp
  moreover have "ms_keys st = insert k (ms_keys (g_store g))"
    using mem.held_try_lock[of k "g_store g"] *(3) by simp
  moreover have "{k'. \<exists>t'. ((g_running g)(t \<mapsto> k)) t' = Some k'} =
      insert k {k'. \<exists>t'. g_running g t' = Some k'}"
    using *(2) by (auto simp: fun_upd_def) (metis option.distinct(1))
  ultimately show "gate_inv g'"
    using inv unfolding gate_inv_def *(1) by (auto simp: fun_upd_def split: if_splits)
next
  fix t k st
  assume "gate_inv g" "g' = g\<lparr>g_store := st\<rparr>" "TryLock k (g_store g) = (False, st)"
  then show "gate_inv g'"
    by (simp add: gate_inv_def TryLock_def split: if_splits)
next
  fix t k
  assume inv: "gate_inv g" and *: "g' = g\<lparr>g_store := Release k (g_store g), g_running := (g_running g)(t := None)\<rparr>"
    "g_running g t = Some k"
  have "{k'. \<exists>t'. ((g_running g)(t := None)) t' = Some k'} = {k'. \<exists>t'. g_running g t' = Some k'} - {k}"
    using inv *(2) unfolding gate_inv_def
    by (auto simp: fun_upd_def) (metis option.inject)+
  then show "gate_inv g'"
    using inv unfolding gate_inv_def *(1) by (auto simp: mem.held_release fun_upd_def split: if_splits)
qed

lemma gate_reachable_inv: "gate_reachable g \<Longrightarrow> gate_inv g"
proof (induction rule: gate_reachable.induct)
  case start
  then show ?case by (simp add: gate_inv_def gate_init_def NewMemoryStore_def)
qed (rule gate_inv_step)

section \<open>The interface ConsumedTokenStore\<close>

text \<open>
  \<open>live s n t\<close> says that at time \<open>n\<close> the token \<open>t\<close> is recorded and inside its window.  The laws
  are about times from the moment of the call on, since the clock does not run backwards.
\<close>

locale consumed_store =
  fixes mark :: "int \<Rightarrow> string \<Rightarrow> 's \<Rightarrow> bool \<times> 's"
    and live :: "'s \<Rightarrow> int \<Rightarrow> string \<Rightarrow> bool"
    and ttl :: "'s \<Rightarrow> int"
  assumes mark_first: "fst (mark n t s) \<longleftrightarrow> \<not> live s n t"
    and live_mark: "n \<le> n' \<Longrightarrow>
      live (snd (mark n t s)) n' t' \<longleftrightarrow>
        (if t' = t \<and> \<not> live s n t then n' < n + ttl s else live s n' t')"
    and live_antimono: "n \<le> n' \<Longrightarrow> live s n' t \<Longrightarrow> live s n t"
    and ttl_mark: "ttl (snd (mark n t s)) = ttl s"
begin

abbreviation marks :: "(int \<times> string) list \<Rightarrow> 's \<Rightarrow> 's" where
  "marks calls s \<equiv> fold (\<lambda>(n, t) s. snd (mark n t s)) calls s"

lemma live_marks:
  assumes "sorted (map fst calls @ [n'])" "live s n' t"
  shows "live (marks calls s) n' t"
  using assms
proof (induction calls arbitrary: s)
  case (Cons c calls)
  obtain n u where c: "c = (n, u)" by fastforce
  with Cons.prems have le: "n \<le> n'" by simp
  from le Cons.prems(2) have "live s n t" by (rule live_antimono)
  with Cons.prems(2) le have "live (snd (mark n u s)) n' t" by (auto simp: live_mark)
  with Cons c show ?case by simp
qed simp

lemma replay_rejected:
  assumes "fst (mark n t s)" "sorted (n # map fst calls @ [n'])" "n' < n + ttl s"
  shows "\<not> fst (mark n' t (marks calls (snd (mark n t s))))"
proof -
  have "n \<le> n'" using assms(2) by simp
  moreover have "\<not> live s n t" using assms(1) mark_first by blast
  ultimately have "live (snd (mark n t s)) n' t" using assms(3) by (simp add: live_mark)
  then have "live (marks calls (snd (mark n t s))) n' t"
    using assms(2) by (intro live_marks) auto
  then show ?thesis using mark_first by blast
qed

lemma fresh_marks:
  assumes "sorted (map fst calls @ [n'])" "\<not> live s n' t" "t \<notin> snd ` set calls"
  shows "\<not> live (marks calls s) n' t"
  using assms
proof (induction calls arbitrary: s)
  case (Cons c calls)
  obtain n u where c: "c = (n, u)" by fastforce
  with Cons.prems have "n \<le> n'" "t \<noteq> u" by auto
  with Cons.prems(2) have "\<not> live (snd (mark n u s)) n' t" by (simp add: live_mark)
  with Cons c show ?case by simp
qed simp

lemma fresh_accepted:
  assumes "sorted (map fst calls @ [n'])" "\<not> live s n' t" "t \<notin> snd ` set calls"
  shows "fst (mark n' t (marks calls s))"
  using fresh_marks[OF assms] mark_first by blast

end

section \<open>MemoryConsumedStore\<close>

record consumed_tokens =
  ct_tokens :: "string \<Rightarrow> int option"
  ct_ttl :: int
  ct_gcEvery :: int
  ct_gcCounter :: int

definition NewMemoryConsumedStore :: "int \<Rightarrow> consumed_tokens" where
  "NewMemoryConsumedStore ttl =
     \<lparr>ct_tokens = (\<lambda>_. None), ct_ttl = ttl, ct_gcEvery = 64, ct_gcCounter = 0\<rparr>"

definition gcLocked :: "int \<Rightarrow> consumed_tokens \<Rightarrow> consumed_tokens" where
  "gcLocked now s =
     s\<lparr>ct_tokens := (\<lambda>k. case ct_tokens s k of
                          None \<Rightarrow> None
                        | Some expiry \<Rightarrow> if \<not> now < expiry then None else Some expiry)\<rparr>"

definition MarkConsumed :: "int \<Rightarrow> string \<Rightarrow> consumed_tokens \<Rightarrow> bool \<times> consumed_tokens" where
  "MarkConsumed now token s =
     (let s1 = s\<lparr>ct_gcCounter := ct_gcCounter s + 1\<rparr>;
          s2 = (if ct_gcCounter s1 \<ge> ct_gcEvery s1 then gcLocked now (s1\<lparr>ct_gcCounter := 0\<rparr>)
                else s1)
      in if (case ct_tokens s2 token of Some expiry \<Rightarrow> now < expiry | None \<Rightarrow> False)
         then (False, s2)
         else (True, s2\<lparr>ct_tokens := (ct_tokens s2)(token \<mapsto> now + ct_ttl s2)\<rparr>))"

definition token_live :: "consumed_tokens \<Rightarrow> int \<Rightarrow> string \<Rightarrow> bool" where
  "token_live s now token \<longleftrightarrow>
     (case ct_tokens s token of Some expiry \<Rightarrow> now < expiry | None \<Rightarrow> False)"

lemma token_live_gcLocked [simp]:
  "n \<le> n' \<Longrightarrow> token_live (gcLocked n s) n' t = token_live s n' t"
  by (auto simp: token_live_def gcLocked_def split: option.splits)

lemma gcLocked_ttl [simp]: "ct_ttl (gcLocked n s) = ct_ttl s"
  by (simp add: gcLocked_def)

lemma token_live_counter [simp]: "token_live (s\<lparr>ct_gcCounter := c\<rparr>) n t = token_live s n t"
  by (simp add: token_live_def)

lemma MarkConsumed_alt:
  "MarkConsumed now token s =
     (let s2 = (if ct_gcCounter s + 1 \<ge> ct_gcEvery s then gcLocked now (s\<lparr>ct_gcCounter := 0\<rparr>)
                else s\<lparr>ct_gcCounter := ct_gcCounter s + 1\<rparr>)
      in if token_live s2 now token then (False, s2)
         else (True, s2\<lparr>ct_tokens := (ct_tokens s2)(token \<mapsto> now + ct_ttl s2)\<rparr>))"
  by (simp add: MarkConsumed_def token_live_def Let_def)

lemma token_live_upd [simp]:
  "token_live (s\<lparr>ct_tokens := (ct_tokens s)(t \<mapsto> e)\<rparr>) n t' = (if t' = t then n < e else token_live s n t')"
  by (simp add: token_live_def)

interpretation consumed: consumed_store MarkConsumed token_live ct_ttl
proof
  show "fst (MarkConsumed n t s) \<longleftrightarrow> \<not> token_live s n t" for n t s
    by (simp add: MarkConsumed_alt Let_def)
  show "token_live (snd (MarkConsumed n t s)) n' t' \<longleftrightarrow>
      (if t' = t \<and> \<not> token_live s n t then n' < n + ct_ttl s else token_live s n' t')"
    if "n \<le> n'" for n n' t t' s
    using that by (simp add: MarkConsumed_alt Let_def)
  show "token_live s n t" if "n \<le> n'" "token_live s n' t" for n n' s t
    using that by (auto simp: token_live_def split: option.splits)
  show "ct_ttl (snd (MarkConsumed n t s)) = ct_ttl s" for n t s
    by (simp add: MarkConsumed_alt Let_def)
qed

lemma token_live_fresh [simp]: "\<not> token_live (NewMemoryConsumedStore ttl) n t"
  by (simp add: token_live_def NewMemoryConsumedStore_def)

section \<open>Properties\<close>



text \<open>A consumed button token cannot be replayed: once a token was accepted, every later call
  with it inside the time to live is refused, whatever other tokens were marked in between and
  however often the lazy clean-up ran; a token that was never marked is accepted.\<close>

theorem MarkConsumed_no_replay:
  assumes "sorted (n # map fst calls @ [n'])"
  shows "(fst (MarkConsumed n t s) \<and> n' < n + ct_ttl s \<longrightarrow>
            \<not> fst (MarkConsumed n' t
                 (fold (\<lambda>(n, t) s. snd (MarkConsumed n t s)) calls (snd (MarkConsumed n t s))))) \<and>
         (t' \<notin> snd ` set calls \<longrightarrow>
            fst (MarkConsumed n' t'
                 (fold (\<lambda>(n, t) s. snd (MarkConsumed n t s)) calls (NewMemoryConsumedStore ttl))))"
proof (intro conjI impI)
  assume "fst (MarkConsumed n t s) \<and> n' < n + ct_ttl s"
  with assms show "\<not> fst (MarkConsumed n' t
      (fold (\<lambda>(n, t) s. snd (MarkConsumed n t s)) calls (snd (MarkConsumed n t s))))"
    by (intro consumed.replay_rejected) simp_all
next
  assume "t' \<notin> snd ` set calls"
  with assms show "fst (MarkConsumed n' t'
      (fold (\<lambda>(n, t) s. snd (MarkConsumed n t s)) calls (NewMemoryConsumedStore ttl)))"
    by (intro consumed.fresh_accepted) simp_all
qed

theorem MarkConsumed_no_replay_witness:
  "\<not> fst (MarkConsumed 9 ''a'' (snd (MarkConsumed 5 ''b'' (snd (MarkConsumed 3 ''a'' (NewMemoryConsumedStore 10))))))"
proof -
  have "fst (MarkConsumed 3 ''a'' (NewMemoryConsumedStore 10))"
    using MarkConsumed_no_replay[of 3 "[]" 3 "''a''" "NewMemoryConsumedStore 10" "''a''" 10] by simp
  then show ?thesis
    using MarkConsumed_no_replay[of 3 "[(5, ''b'')]" 9 "''a''" "NewMemoryConsumedStore 10" "''c''" 10]
    by (simp add: NewMemoryConsumedStore_def)
qed

end
