(* ===== verification/Runops.thy ===== *)
theory Runops
  imports Approval_Domain Lock_Store
begin

text \<open>
  The use case behind the approve and deny buttons: \<open>internal/usecase/runops.go\<close>.  Each call of
  the notifier and of the Cloud Run controller is an effect; the operation lock is a component of
  the world.  The texts shown to the operator are the constructors of \<open>message\<close>, one per format
  string of the source.
\<close>

section \<open>Effects, messages and errors\<close>

record notify_target =
  nt_CallbackURL :: string
  nt_Mode :: string
  nt_ChannelID :: string
  nt_ThreadTS :: string

definition ModeSlack :: string where [go_consts]: "ModeSlack = ''slack''"
definition ModeStdout :: string where [go_consts]: "ModeStdout = ''stdout''"

datatype shift_kind = TrafficShift | PoolShift

record shifted =
  sh_project :: string
  sh_location :: string
  sh_name :: string
  sh_target :: string

datatype gcp_call =
    ShiftTraffic string string string string int
  | UpdateWorkerPool string string string string int
  | TriggerBackup string string
  | ExecuteJob string string string "string list"

datatype rollback_note = NothingToRollBack | RolledBack | RollbackFailed "string list"

datatype message =
    MsgInProgress
  | MsgAINotPermitted
  | MsgUnauthorized
  | MsgExpired
  | MsgProgress shift_kind
  | MsgInvalidAction string
  | MsgShiftError string rollback_note
  | MsgShiftDone shift_kind string int
  | MsgNoJobName
  | MsgBackupRunning
  | MsgBackupError string
  | MsgMigrating
  | MsgMigrationError string
  | MsgMigrationDone string
  | MsgDenied string
  | MsgSlackUpdateFailed message
  | MsgTimedOut

datatype effect =
    UpdateMessage notify_target message
  | ReplaceMessage notify_target message
  | SendEphemeral notify_target string message
  | OfferContinuation notify_target message "approval_request option" "approval_request option"
  | RebuildInitialApproval notify_target message approval_request "approval_request option"
      approval_request
  | Gcp gcp_call

datatype usecase_error =
    InProgress string
  | NotPermitted domain_error
  | UnauthorizedUser string
  | RequestExpired int64
  | UnsupportedType string
  | BadAction action_error
  | GcpFailed string
  | EmptyJobName
  | NotifyFailed string

record runops_world = "effect world" +
  rw_store :: memory_store

type_synonym 'a runops = "(runops_world, 'a) state"

section \<open>The operations of RunOpsService\<close>

definition csvAt :: "string list \<Rightarrow> nat \<Rightarrow> string" where
  "csvAt ss i = (if i < length ss then ss ! i else [])"

definition shift_fn :: "shift_kind \<Rightarrow> shifted \<Rightarrow> int \<Rightarrow> gcp_call" where
  "shift_fn kind d percent =
     (case kind of
        TrafficShift \<Rightarrow> ShiftTraffic (sh_project d) (sh_location d) (sh_name d) (sh_target d) percent
      | PoolShift \<Rightarrow> UpdateWorkerPool (sh_project d) (sh_location d) (sh_name d) (sh_target d) percent)"

definition cloneRequest :: "effect env \<Rightarrow> approval_request \<Rightarrow> string \<Rightarrow> approval_request runops" where
  "cloneRequest E req action =
     do { now \<leftarrow> unix_now E;
          State_Monad.return (req\<lparr>ar_Action := action, ar_IssuedAt := now\<rparr>) }"

definition offerOrFallback ::
  "effect env \<Rightarrow> notify_target \<Rightarrow> message \<Rightarrow> approval_request option \<Rightarrow> approval_request option \<Rightarrow>
   unit runops" where
  "offerOrFallback E target summary nextReq stopReq =
     do { err \<leftarrow> perform E (OfferContinuation target summary nextReq stopReq);
          if err \<noteq> None
          then ignore (perform E (UpdateMessage target (MsgSlackUpdateFailed summary)))
          else State_Monad.return () }"

definition offerRetry ::
  "effect env \<Rightarrow> notify_target \<Rightarrow> approval_request \<Rightarrow> message \<Rightarrow> unit runops" where
  "offerRetry E target req errMsg =
     do { retryReq \<leftarrow> cloneRequest E req (ar_Action req);
          offerOrFallback E target errMsg (Some retryReq) None }"

fun rollback_loop :: "effect env \<Rightarrow> shift_kind \<Rightarrow> shifted list \<Rightarrow> string list \<Rightarrow> string list runops" where
  "rollback_loop E kind [] failed = State_Monad.return failed"
| "rollback_loop E kind (d # ds) failed =
     do { err \<leftarrow> perform E (Gcp (shift_fn kind d 0));
          rollback_loop E kind ds (if err \<noteq> None then failed @ [sh_name d] else failed) }"

definition compensateRollback :: "effect env \<Rightarrow> shift_kind \<Rightarrow> shifted list \<Rightarrow> rollback_note runops" where
  "compensateRollback E kind done =
     (if done = [] then State_Monad.return NothingToRollBack
      else do { failed \<leftarrow> rollback_loop E kind done [];
                State_Monad.return (if failed \<noteq> [] then RollbackFailed failed else RolledBack) })"

fun shift_loop ::
  "effect env \<Rightarrow> shift_kind \<Rightarrow> approval_request \<Rightarrow> string list \<Rightarrow> int \<Rightarrow> nat \<Rightarrow> string list \<Rightarrow>
   shifted list \<Rightarrow> (shifted list \<times> gerror) runops" where
  "shift_loop E kind req targets percent i [] done = State_Monad.return (done, None)"
| "shift_loop E kind req targets percent i (name # names) done =
     (let rev = csvAt targets i;
          item = \<lparr>sh_project = ar_Project req, sh_location = ar_Location req,
                  sh_name = name, sh_target = rev\<rparr>
      in do { err \<leftarrow> perform E (Gcp (shift_fn kind item percent));
              if err \<noteq> None then State_Monad.return (done, err)
              else shift_loop E kind req targets percent (Suc i) names (done @ [item]) })"

definition shift_percent :: "action \<Rightarrow> int" where
  "shift_percent act =
     (if act_Name act = rollback_name then 0
      else if act_Percent act = 0 then 10 else act_Percent act)"

definition approveShift ::
  "effect env \<Rightarrow> shift_kind \<Rightarrow> approval_request \<Rightarrow> notify_target \<Rightarrow> usecase_error option runops" where
  "approveShift E kind req target =
     do { _ \<leftarrow> perform E (UpdateMessage target (MsgProgress kind));
          case ParseAction (ar_Action req) of
            Inl e \<Rightarrow>
              do { _ \<leftarrow> perform E (UpdateMessage target (MsgInvalidAction (ar_Action req)));
                   State_Monad.return (Some (BadAction e)) }
          | Inr act \<Rightarrow>
              (let percent = shift_percent act;
                   names = splitCSV (ar_ResourceNames req);
                   targets = splitCSV (ar_Targets req)
               in do { (done, err) \<leftarrow> shift_loop E kind req targets percent 0 names [];
                       case err of
                         Some e \<Rightarrow>
                           do { note \<leftarrow> compensateRollback E kind done;
                                _ \<leftarrow> offerRetry E target req (MsgShiftError e note);
                                State_Monad.return (Some (GcpFailed e)) }
                       | None \<Rightarrow>
                           (let summary = MsgShiftDone kind (ar_ResourceNames req) percent;
                                nextPercent = NextCanaryPercent percent
                            in if act_Name act \<noteq> rollback_name \<and> nextPercent > 0
                               then do { nextReq \<leftarrow> cloneRequest E req (canary_action nextPercent);
                                         stopReq \<leftarrow> cloneRequest E req rollback_name;
                                         _ \<leftarrow> offerOrFallback E target summary (Some nextReq) (Some stopReq);
                                         State_Monad.return None }
                               else do { _ \<leftarrow> offerOrFallback E target summary None None;
                                         State_Monad.return None }) }) }"

definition rebuildInitial ::
  "effect env \<Rightarrow> notify_target \<Rightarrow> approval_request \<Rightarrow> message \<Rightarrow> unit runops" where
  "rebuildInitial E target req errMsg =
     do { now \<leftarrow> unix_now E;
          let jobReq = req\<lparr>ar_Action := migrate_apply_name, ar_IssuedAt := now\<rparr>;
              svcReq = (if ar_NextServiceNames req \<noteq> []
                        then Some (req\<lparr>ar_ResourceType := ResourceTypeService,
                                       ar_ResourceNames := ar_NextServiceNames req,
                                       ar_Targets := ar_NextRevisions req,
                                       ar_Action := canary_action 10,
                                       ar_IssuedAt := now,
                                       ar_MigrationDone := False\<rparr>)
                        else None);
              denyBase = (case svcReq of
                            None \<Rightarrow> req
                          | Some svc \<Rightarrow> req\<lparr>ar_ResourceType := ResourceTypeService,
                                            ar_ResourceNames := ar_ResourceNames svc,
                                            ar_Targets := ar_Targets svc\<rparr>);
              denyReq = denyBase\<lparr>ar_Action := deny_name, ar_IssuedAt := now\<rparr>
          in do { err \<leftarrow> perform E (RebuildInitialApproval target errMsg jobReq svcReq denyReq);
                  if err \<noteq> None
                  then ignore (perform E (UpdateMessage target (MsgSlackUpdateFailed errMsg)))
                  else State_Monad.return () } }"

definition migrate_args :: "string list" where
  "migrate_args = [''--mode=apply'']"

definition sql_instance :: "approval_request \<Rightarrow> string" where
  "sql_instance req =
     (if ar_SQLInstanceName req = [] then ar_ResourceNames req else ar_SQLInstanceName req)"

definition approveJob ::
  "effect env \<Rightarrow> approval_request \<Rightarrow> notify_target \<Rightarrow> usecase_error option runops" where
  "approveJob E req target =
     (if ar_ResourceNames req = [] then
        do { _ \<leftarrow> rebuildInitial E target req MsgNoJobName;
             State_Monad.return (Some EmptyJobName) }
      else
        do { _ \<leftarrow> perform E (UpdateMessage target MsgBackupRunning);
             backup \<leftarrow> perform E (Gcp (TriggerBackup (ar_Project req) (sql_instance req)));
             case backup of
               Some e \<Rightarrow>
                 do { _ \<leftarrow> rebuildInitial E target req (MsgBackupError e);
                      State_Monad.return (Some (GcpFailed e)) }
             | None \<Rightarrow>
                 do { _ \<leftarrow> perform E (UpdateMessage target MsgMigrating);
                      job \<leftarrow> perform E (Gcp (ExecuteJob (ar_Project req) (ar_Location req)
                                                       (ar_ResourceNames req) migrate_args));
                      case job of
                        Some e \<Rightarrow>
                          do { _ \<leftarrow> rebuildInitial E target req (MsgMigrationError e);
                               State_Monad.return (Some (GcpFailed e)) }
                      | None \<Rightarrow>
                          (let summary = MsgMigrationDone (ar_ResourceNames req)
                           in if ar_NextServiceNames req \<noteq> []
                              then do { n \<leftarrow> cloneRequest E req (ar_NextAction req);
                                        let nextReq = n\<lparr>ar_ResourceType := ResourceTypeService,
                                                        ar_ResourceNames := ar_NextServiceNames req,
                                                        ar_Targets := ar_NextRevisions req,
                                                        ar_MigrationDone := True\<rparr>
                                        in do { d \<leftarrow> cloneRequest E req (ar_NextAction req);
                                                let denyReq = d\<lparr>ar_ResourceType := ResourceTypeService,
                                                                ar_ResourceNames := ar_NextServiceNames req,
                                                                ar_Targets := ar_NextRevisions req\<rparr>
                                                in do { _ \<leftarrow> offerOrFallback E target summary
                                                               (Some nextReq) (Some denyReq);
                                                        State_Monad.return None } } }
                              else do { _ \<leftarrow> perform E (ReplaceMessage target summary);
                                        State_Monad.return None }) } })"

definition lock_op :: "string \<Rightarrow> bool runops" where
  "lock_op key = State (\<lambda>w. let (ok, st) = TryLock key (rw_store w) in (ok, w\<lparr>rw_store := st\<rparr>))"

definition release_op :: "string \<Rightarrow> unit runops" where
  "release_op key = State (\<lambda>w. ((), w\<lparr>rw_store := Release key (rw_store w)\<rparr>))"

definition approve_locked ::
  "effect env \<Rightarrow> auth_checker \<Rightarrow> approval_request \<Rightarrow> notify_target \<Rightarrow> CallerType \<Rightarrow>
   usecase_error option runops" where
  "approve_locked E chk req target approverType =
     (case ValidateApproverPermitted req approverType of
        Some e \<Rightarrow>
          do { _ \<leftarrow> perform E (SendEphemeral target (ar_ApproverID req) MsgAINotPermitted);
               State_Monad.return (Some (NotPermitted e)) }
      | None \<Rightarrow>
          (if \<not> IsAuthorized chk (ar_ApproverID req) then
             do { _ \<leftarrow> perform E (SendEphemeral target (ar_ApproverID req) MsgUnauthorized);
                  State_Monad.return (Some (UnauthorizedUser (ar_ApproverID req))) }
           else do { now \<leftarrow> unix_now E;
             if IsExpired chk now (ar_IssuedAt req) then
               do { _ \<leftarrow> perform E (SendEphemeral target (ar_ApproverID req) MsgExpired);
                    State_Monad.return (Some (RequestExpired (ar_IssuedAt req))) }
             else if ar_ResourceType req = ResourceTypeService then
               approveShift E TrafficShift req target
             else if ar_ResourceType req = ResourceTypeJob then
               approveJob E req target
             else if ar_ResourceType req = ResourceTypeWorkerPool then
               approveShift E PoolShift req target
             else State_Monad.return (Some (UnsupportedType (ar_ResourceType req))) }))"

definition ApproveAction ::
  "effect env \<Rightarrow> auth_checker \<Rightarrow> approval_request \<Rightarrow> notify_target \<Rightarrow> CallerType \<Rightarrow>
   usecase_error option runops" where
  "ApproveAction E chk req target approverType =
     (let key = OperationKey req
      in do { ok \<leftarrow> lock_op key;
              if \<not> ok then
                do { _ \<leftarrow> perform E (SendEphemeral target (ar_ApproverID req) MsgInProgress);
                     State_Monad.return (Some (InProgress key)) }
              else
                do { r \<leftarrow> approve_locked E chk req target approverType;
                     _ \<leftarrow> release_op key;
                     State_Monad.return r } })"

definition DenyAction ::
  "effect env \<Rightarrow> approval_request \<Rightarrow> notify_target \<Rightarrow> usecase_error option runops" where
  "DenyAction E req target =
     do { err \<leftarrow> perform E (ReplaceMessage target (MsgDenied (ar_ResourceNames req)));
          State_Monad.return (map_option NotifyFailed err) }"

section \<open>What each operation adds to the trace\<close>

fun gcp_of :: "effect \<Rightarrow> gcp_call option" where
  "gcp_of (Gcp c) = Some c"
| "gcp_of _ = None"

definition gcp_calls :: "effect list \<Rightarrow> gcp_call list" where
  "gcp_calls es = List.map_filter gcp_of es"

lemma gcp_calls_simps [simp]:
  "gcp_calls [] = []"
  "gcp_calls (e # es) = (case gcp_of e of Some c \<Rightarrow> c # gcp_calls es | None \<Rightarrow> gcp_calls es)"
  "gcp_calls (es @ es') = gcp_calls es @ gcp_calls es'"
  by (simp_all add: gcp_calls_def List.map_filter_def split: option.splits)

lemma gcp_calls_map_Gcp: "gcp_calls (map (\<lambda>x. Gcp (f x)) xs) = map f xs"
  by (induction xs) simp_all

abbreviation no_gcp :: "effect \<Rightarrow> bool" where
  "no_gcp e \<equiv> gcp_of e = None"

lemma gcp_calls_no_gcp: "list_all no_gcp es \<Longrightarrow> gcp_calls es = []"
  by (induction es) simp_all

lemma emits_no_gcp:
  assumes "emits no_gcp m"
  shows "gcp_calls (trace (snd (run_state m w))) = gcp_calls (trace w)"
  using assms gcp_calls_no_gcp by (metis append.right_neutral emitsE gcp_calls_simps(3))

lemma cloneRequest_run [simp]:
  "run_state (cloneRequest E req a) w = (req\<lparr>ar_Action := a, ar_IssuedAt := clock E (trace w)\<rparr>, w)"
  by (simp add: cloneRequest_def)

lemma cloneRequest_emits [emits_intros]: "emits P (cloneRequest E req a)"
  unfolding cloneRequest_def by (intro emits_intros)

lemma offerOrFallback_emits [emits_intros]: "emits no_gcp (offerOrFallback E target m n s)"
  unfolding offerOrFallback_def by (intro emits_intros) simp_all

lemma offerRetry_emits [emits_intros]: "emits no_gcp (offerRetry E target req m)"
  unfolding offerRetry_def by (intro emits_intros)

lemma rebuildInitial_emits [emits_intros]: "emits no_gcp (rebuildInitial E target req m)"
  unfolding rebuildInitial_def Let_def by (intro emits_intros) simp_all

lemma no_gcp_runs:
  "run_state (offerOrFallback E t m n s) w = (u, w') \<Longrightarrow> gcp_calls (trace w') = gcp_calls (trace w)"
  "run_state (offerRetry E t req m) w = (u, w') \<Longrightarrow> gcp_calls (trace w') = gcp_calls (trace w)"
  "run_state (rebuildInitial E t req m) w = (u, w') \<Longrightarrow> gcp_calls (trace w') = gcp_calls (trace w)"
  using emits_no_gcp[OF offerOrFallback_emits, of E t m n s w]
    emits_no_gcp[OF offerRetry_emits, of E t req m w]
    emits_no_gcp[OF rebuildInitial_emits, of E t req m w] by simp_all

text \<open>No operation below \<open>ApproveAction\<close> touches the lock store.\<close>

lemma store_perform [preserves_intros]: "preserves rw_store (perform E e :: gerror runops)"
  by (rule preserves_perform) simp

lemma store_cloneRequest [preserves_intros]: "preserves rw_store (cloneRequest E req a)"
  unfolding cloneRequest_def by (intro preserves_intros)

lemma store_offerOrFallback [preserves_intros]: "preserves rw_store (offerOrFallback E t m n s)"
  unfolding offerOrFallback_def by (intro preserves_intros)

lemma store_offerRetry [preserves_intros]: "preserves rw_store (offerRetry E t req m)"
  unfolding offerRetry_def by (intro preserves_intros)

lemma store_rollback_loop [preserves_intros]: "preserves rw_store (rollback_loop E kind ds failed)"
  by (induction ds arbitrary: failed) (simp_all, (intro preserves_intros | simp)+)

lemma store_compensateRollback [preserves_intros]: "preserves rw_store (compensateRollback E kind ds)"
  unfolding compensateRollback_def by (intro preserves_intros)

lemma store_shift_loop [preserves_intros]:
  "preserves rw_store (shift_loop E kind req targets p i names done)"
  by (induction names arbitrary: i "done") (simp_all add: Let_def, (intro preserves_intros | simp)+)

lemma store_approveShift [preserves_intros]: "preserves rw_store (approveShift E kind req t)"
  unfolding approveShift_def Let_def by (intro preserves_intros)

lemma store_rebuildInitial [preserves_intros]: "preserves rw_store (rebuildInitial E t req m)"
  unfolding rebuildInitial_def Let_def by (intro preserves_intros)

lemma store_approveJob [preserves_intros]: "preserves rw_store (approveJob E req t)"
  unfolding approveJob_def Let_def by (intro preserves_intros)

lemma store_approve_locked [preserves_intros]: "preserves rw_store (approve_locked E chk req t a)"
  unfolding approve_locked_def by (intro preserves_intros)

lemma run_lock_op [simp]:
  "run_state (lock_op key) w =
     (fst (TryLock key (rw_store w)), w\<lparr>rw_store := snd (TryLock key (rw_store w))\<rparr>)"
  by (simp add: lock_op_def split: prod.splits)

lemma run_release_op [simp]:
  "run_state (release_op key) w = ((), w\<lparr>rw_store := Release key (rw_store w)\<rparr>)"
  by (simp add: release_op_def)

section \<open>The shift loop and its compensation\<close>

fun shift_items :: "approval_request \<Rightarrow> string list \<Rightarrow> nat \<Rightarrow> string list \<Rightarrow> shifted list" where
  "shift_items req targets i [] = []"
| "shift_items req targets i (name # names) =
     \<lparr>sh_project = ar_Project req, sh_location = ar_Location req, sh_name = name,
      sh_target = csvAt targets i\<rparr> # shift_items req targets (Suc i) names"

definition plan :: "approval_request \<Rightarrow> shifted list" where
  "plan req = shift_items req (splitCSV (ar_Targets req)) 0 (splitCSV (ar_ResourceNames req))"

lemma length_shift_items [simp]: "length (shift_items req targets i names) = length names"
  by (induction names arbitrary: i) simp_all

lemma nth_shift_items:
  "j < length names \<Longrightarrow> shift_items req targets i names ! j =
     \<lparr>sh_project = ar_Project req, sh_location = ar_Location req, sh_name = names ! j,
      sh_target = csvAt targets (i + j)\<rparr>"
  by (induction names arbitrary: i j) (auto simp: nth_Cons split: nat.split)

lemma rollback_loop_run:
  "run_state (rollback_loop E kind ds failed) w = (r, w') \<Longrightarrow>
     trace w' = trace w @ map (\<lambda>d. Gcp (shift_fn kind d 0)) ds \<and>
     (\<exists>fs. r = failed @ fs \<and>
        (fs = [] \<longleftrightarrow> (\<forall>j < length ds.
           reply E (trace w @ map (\<lambda>d. Gcp (shift_fn kind d 0)) (take j ds))
                   (Gcp (shift_fn kind (ds ! j) 0)) = None)))"
proof (induction ds arbitrary: failed w)
  case Nil
  then show ?case by simp
next
  case (Cons d ds)
  let ?c = "Gcp (shift_fn kind d 0)"
  let ?w = "w\<lparr>trace := trace w @ [?c]\<rparr>"
  let ?f = "if reply E (trace w) ?c \<noteq> None then [sh_name d] else []"
  have "run_state (rollback_loop E kind ds (failed @ ?f)) ?w = (r, w')"
    using Cons.prems by (simp split: if_splits)
  from Cons.IH[OF this] obtain fs where
    tr: "trace w' = trace w @ map (\<lambda>d. Gcp (shift_fn kind d 0)) (d # ds)"
    and r: "r = failed @ ?f @ fs"
    and fs: "fs = [] \<longleftrightarrow> (\<forall>j < length ds.
        reply E ((trace w @ [?c]) @ map (\<lambda>d. Gcp (shift_fn kind d 0)) (take j ds))
                (Gcp (shift_fn kind (ds ! j) 0)) = None)" by auto
  have "?f @ fs = [] \<longleftrightarrow> (\<forall>j < length (d # ds).
      reply E (trace w @ map (\<lambda>d. Gcp (shift_fn kind d 0)) (take j (d # ds)))
              (Gcp (shift_fn kind ((d # ds) ! j) 0)) = None)"
    using fs by (auto simp: All_less_Suc2)
  with tr r show ?case by blast
qed

lemma shift_loop_run:
  assumes "run_state (shift_loop E kind req targets p i names done) w = ((done', err), w')"
  defines "items \<equiv> shift_items req targets i names"
  defines "call \<equiv> \<lambda>d. Gcp (shift_fn kind d p)"
  shows "\<exists>k \<le> length names. done' = done @ take k items \<and>
    (\<forall>j < k. reply E (trace w @ map call (take j items)) (call (items ! j)) = None) \<and>
    (case err of
       None \<Rightarrow> k = length names \<and> trace w' = trace w @ map call items
     | Some e \<Rightarrow> k < length names \<and> trace w' = trace w @ map call (take (Suc k) items) \<and>
         reply E (trace w @ map call (take k items)) (call (items ! k)) = Some e)"
  using assms(1) unfolding items_def
proof (induction names arbitrary: i "done" w)
  case Nil
  then show ?case by simp
next
  case (Cons name names)
  let ?it = "\<lparr>sh_project = ar_Project req, sh_location = ar_Location req, sh_name = name,
      sh_target = csvAt targets i\<rparr>"
  let ?c = "Gcp (shift_fn kind ?it p)"
  let ?rest = "shift_items req targets (Suc i) names"
  show ?case
  proof (cases "reply E (trace w) ?c")
    case (Some e)
    with Cons.prems have "done' = done" "err = Some e" "trace w' = trace w @ [?c]"
      by (auto simp: Let_def)
    with Some show ?thesis by (intro exI[of _ 0]) (simp add: call_def)
  next
    case None
    let ?w = "w\<lparr>trace := trace w @ [?c]\<rparr>"
    have tr: "trace ?w = trace w @ [?c]" by simp
    from None Cons.prems have
      "run_state (shift_loop E kind req targets p (Suc i) names (done @ [?it])) ?w = ((done', err), w')"
      by (simp add: Let_def)
    from Cons.IH[OF this, unfolded tr] obtain k where k: "k \<le> length names"
      "done' = (done @ [?it]) @ take k ?rest"
      "\<forall>j < k. reply E ((trace w @ [?c]) @ map call (take j ?rest)) (call (?rest ! j)) = None"
      "case err of
         None \<Rightarrow> k = length names \<and> trace w' = (trace w @ [?c]) @ map call ?rest
       | Some e \<Rightarrow> k < length names \<and> trace w' = (trace w @ [?c]) @ map call (take (Suc k) ?rest) \<and>
           reply E ((trace w @ [?c]) @ map call (take k ?rest)) (call (?rest ! k)) = Some e"
      by blast
    have c: "call ?it = ?c" by (simp add: call_def)
    show ?thesis
      by (intro exI[of _ "Suc k"])
         (use k None in \<open>auto simp: c All_less_Suc2 split: option.splits\<close>)
  qed
qed

end
