(* ===== verification/Runops_Correct.thy ===== *)
theory Runops_Correct
  imports Runops
begin

text \<open>
  Correctness of the approval use case: which Cloud Run, Cloud SQL and job calls an approval can
  make, in which order, under which guards, what is compensated after a failure, and which
  follow-up buttons are offered.
\<close>

section \<open>approveShift\<close>

definition shift_calls :: "shift_kind \<Rightarrow> int \<Rightarrow> shifted list \<Rightarrow> gcp_call list" where
  "shift_calls kind p ds = map (\<lambda>d. shift_fn kind d p) ds"

lemma gcp_calls_shift [simp]:
  "gcp_calls (map (\<lambda>d. Gcp (shift_fn kind d p)) ds) = shift_calls kind p ds"
  by (simp add: shift_calls_def gcp_calls_map_Gcp)

lemma length_plan [simp]: "length (plan req) = length (splitCSV (ar_ResourceNames req))"
  by (simp add: plan_def)

lemma compensateRollback_trace:
  "run_state (compensateRollback E kind ds) w = (note, w') \<Longrightarrow>
     gcp_calls (trace w') = gcp_calls (trace w) @ shift_calls kind 0 ds"
proof (cases "ds = []")
  case False
  assume run: "run_state (compensateRollback E kind ds) w = (note, w')"
  obtain failed w1 where l: "run_state (rollback_loop E kind ds []) w = (failed, w1)" by fastforce
  with run False have "w' = w1" by (simp add: compensateRollback_def)
  with rollback_loop_run[OF l] show ?thesis by (simp add: shift_calls_def)
qed (simp add: compensateRollback_def shift_calls_def)

lemma compensateRollback_clean:
  assumes "run_state (compensateRollback E kind ds) w = (RolledBack, w')"
  shows "\<forall>j < length ds. reply E (trace w @ map (\<lambda>d. Gcp (shift_fn kind d 0)) (take j ds))
                           (Gcp (shift_fn kind (ds ! j) 0)) = None"
proof -
  obtain failed w1 where l: "run_state (rollback_loop E kind ds []) w = (failed, w1)" by fastforce
  with assms have "failed = []"
    by (auto simp: compensateRollback_def split: if_splits)
  with rollback_loop_run[OF l] show ?thesis by auto
qed

lemma approveShift_loop:
  assumes act: "ParseAction (ar_Action req) = Inr act"
    and run: "run_state (approveShift E kind req target) w = (r, w')"
  obtains d e w1 where
    "run_state (shift_loop E kind req (splitCSV (ar_Targets req)) (shift_percent act) 0
       (splitCSV (ar_ResourceNames req)) [])
       (w\<lparr>trace := trace w @ [UpdateMessage target (MsgProgress kind)]\<rparr>) = ((d, e), w1)"
    "r = map_option GcpFailed e"
    "gcp_calls (trace w') = gcp_calls (trace w1) @ (if e = None then [] else shift_calls kind 0 d)"
proof -
  let ?w0 = "w\<lparr>trace := trace w @ [UpdateMessage target (MsgProgress kind)]\<rparr>"
  obtain d e w1 where l:
    "run_state (shift_loop E kind req (splitCSV (ar_Targets req)) (shift_percent act) 0
       (splitCSV (ar_ResourceNames req)) []) ?w0 = ((d, e), w1)" by (metis surj_pair)
  show ?thesis
  proof (cases e)
    case None
    have "r = None \<and> gcp_calls (trace w') = gcp_calls (trace w1)"
      using run act l None
      by (auto simp: approveShift_def Let_def split: if_splits prod.splits dest!: no_gcp_runs)
    with None l that show ?thesis by simp
  next
    case (Some err)
    obtain nt w2 where c: "run_state (compensateRollback E kind d) w1 = (nt, w2)" by fastforce
    have "r = Some (GcpFailed err) \<and> gcp_calls (trace w') = gcp_calls (trace w2)"
      using run act l Some c
      by (auto simp: approveShift_def Let_def split: prod.splits dest!: no_gcp_runs)
    with Some compensateRollback_trace[OF c] l that show ?thesis by simp
  qed
qed

text \<open>
  The exact effect of a shift, in terms of the environment's answers: \<open>shift_ok n\<close> says that the
  first \<open>n\<close> calls of the plan succeeded when each was made.
\<close>

definition after_progress :: "effect list \<Rightarrow> notify_target \<Rightarrow> shift_kind \<Rightarrow> effect list" where
  "after_progress t target kind = t @ [UpdateMessage target (MsgProgress kind)]"

definition shift_reply ::
  "effect env \<Rightarrow> shift_kind \<Rightarrow> int \<Rightarrow> shifted list \<Rightarrow> effect list \<Rightarrow> nat \<Rightarrow> gerror" where
  "shift_reply E kind p ds t j =
     reply E (t @ map (\<lambda>d. Gcp (shift_fn kind d p)) (take j ds)) (Gcp (shift_fn kind (ds ! j) p))"

lemma approveShift_calls:
  assumes act: "ParseAction (ar_Action req) = Inr act"
    and run: "run_state (approveShift E kind req target) w = (r, w')"
  defines "ans \<equiv> shift_reply E kind (shift_percent act) (plan req) (after_progress (trace w) target kind)"
  shows "(r = None \<and> (\<forall>j < length (plan req). ans j = None) \<and>
            gcp_calls (trace w') = gcp_calls (trace w) @ shift_calls kind (shift_percent act) (plan req)) \<or>
         (\<exists>k e. k < length (plan req) \<and> (\<forall>j < k. ans j = None) \<and> ans k = Some e \<and>
            r = Some (GcpFailed e) \<and>
            gcp_calls (trace w') = gcp_calls (trace w) @
              shift_calls kind (shift_percent act) (take (Suc k) (plan req)) @
              shift_calls kind 0 (take k (plan req)))"
proof -
  let ?w0 = "w\<lparr>trace := after_progress (trace w) target kind\<rparr>"
  let ?call = "\<lambda>d. Gcp (shift_fn kind d (shift_percent act))"
  let ?names = "splitCSV (ar_ResourceNames req)"
  from approveShift_loop[OF act run] obtain d e w1 where l:
    "run_state (shift_loop E kind req (splitCSV (ar_Targets req)) (shift_percent act) 0 ?names []) ?w0
       = ((d, e), w1)"
    and r: "r = map_option GcpFailed e"
    and g: "gcp_calls (trace w') = gcp_calls (trace w1) @ (if e = None then [] else shift_calls kind 0 d)"
    unfolding after_progress_def by blast
  from shift_loop_run[OF l] obtain k where k: "d = [] @ take k (plan req)"
    and pre: "\<forall>j < k. reply E (trace ?w0 @ map ?call (take j (plan req))) (?call (plan req ! j)) = None"
    and res: "case e of
       None \<Rightarrow> k = length ?names \<and> trace w1 = trace ?w0 @ map ?call (plan req)
     | Some e \<Rightarrow> k < length ?names \<and> trace w1 = trace ?w0 @ map ?call (take (Suc k) (plan req)) \<and>
         reply E (trace ?w0 @ map ?call (take k (plan req))) (?call (plan req ! k)) = Some e"
    unfolding plan_def by blast
  from pre have pre': "\<forall>j < k. ans j = None" by (simp add: ans_def shift_reply_def)
  show ?thesis
  proof (cases e)
    case None
    with k pre' res r g show ?thesis by (simp add: after_progress_def)
  next
    case (Some x)
    with res have "ans k = Some x" by (simp add: ans_def shift_reply_def)
    with Some k pre' res r g show ?thesis
      by (intro disjI2 exI[of _ k] exI[of _ x]) (simp add: after_progress_def)
  qed
qed

lemma approveShift_bad_action:
  assumes "ParseAction (ar_Action req) = Inl e"
  shows "run_state (approveShift E kind req target) w =
    (Some (BadAction e),
     w\<lparr>trace := trace w @ [UpdateMessage target (MsgProgress kind),
                            UpdateMessage target (MsgInvalidAction (ar_Action req))]\<rparr>)"
  using assms by (simp add: approveShift_def)

section \<open>approveJob\<close>

lemma approveJob_calls:
  assumes "run_state (approveJob E req target) w = (r, w')"
  shows "gcp_calls (trace w') = gcp_calls (trace w) @
    (if ar_ResourceNames req = [] then []
     else let t1 = trace w @ [UpdateMessage target MsgBackupRunning];
              bk = TriggerBackup (ar_Project req) (sql_instance req);
              ex = ExecuteJob (ar_Project req) (ar_Location req) (ar_ResourceNames req) migrate_args
          in if reply E t1 (Gcp bk) = None then [bk, ex] else [bk]) \<and>
    (r = None \<longrightarrow> ar_ResourceNames req \<noteq> [] \<and>
       reply E (trace w @ [UpdateMessage target MsgBackupRunning])
         (Gcp (TriggerBackup (ar_Project req) (sql_instance req))) = None)"
  using assms
  by (auto simp: approveJob_def Let_def split: if_splits option.splits prod.splits
      dest!: no_gcp_runs)

lemma approveJob_result:
  "run_state (approveJob E req target) w = (r, w') \<Longrightarrow> r \<noteq> Some (InProgress k)"
  by (auto simp: approveJob_def Let_def split: if_splits option.splits prod.splits)

lemma approveShift_result:
  assumes "run_state (approveShift E kind req target) w = (r, w')"
  shows "r \<noteq> Some (InProgress k)"
proof (cases "ParseAction (ar_Action req)")
  case (Inl e)
  with assms show ?thesis by (auto simp: approveShift_bad_action)
next
  case (Inr act)
  from approveShift_calls[OF this assms] show ?thesis by auto
qed

section \<open>ApproveAction\<close>

lemma approve_locked_result:
  "run_state (approve_locked E chk req target a) w = (r, w') \<Longrightarrow> r \<noteq> Some (InProgress k)"
  by (auto simp: approve_locked_def split: option.splits if_splits
      dest: approveShift_result approveJob_result)

definition guards_hold ::
  "effect env \<Rightarrow> auth_checker \<Rightarrow> approval_request \<Rightarrow> CallerType \<Rightarrow> effect list \<Rightarrow> bool" where
  "guards_hold E chk req approverType t \<longleftrightarrow>
     ValidateApproverPermitted req approverType = None \<and>
     IsAuthorized chk (ar_ApproverID req) \<and>
     \<not> IsExpired chk (clock E t) (ar_IssuedAt req) \<and>
     ar_ResourceType req \<in> {ResourceTypeService, ResourceTypeJob, ResourceTypeWorkerPool}"

lemma approve_locked_blocked:
  assumes "\<not> guards_hold E chk req a (trace w)"
    and "run_state (approve_locked E chk req target a) w = (r, w')"
  shows "r \<noteq> None \<and> gcp_calls (trace w') = gcp_calls (trace w)"
  using assms
  by (auto simp: approve_locked_def guards_hold_def split: option.splits if_splits)

lemma approve_locked_passed:
  assumes "guards_hold E chk req a (trace w)"
  shows "run_state (approve_locked E chk req target a) w =
    (if ar_ResourceType req = ResourceTypeJob then run_state (approveJob E req target) w
     else if ar_ResourceType req = ResourceTypeService
     then run_state (approveShift E TrafficShift req target) w
     else run_state (approveShift E PoolShift req target) w)"
  using assms by (auto simp: approve_locked_def guards_hold_def)

lemma ApproveAction_unlocked:
  assumes "OperationKey req \<notin> ms_keys (rw_store w)"
    and "run_state (ApproveAction E chk req target a) w = (r, w')"
  obtains w1 where
    "run_state (approve_locked E chk req target a)
       (w\<lparr>rw_store := snd (TryLock (OperationKey req) (rw_store w))\<rparr>) = (r, w1)"
    "w' = w1\<lparr>rw_store := Release (OperationKey req) (rw_store w1)\<rparr>"
  using assms mem.try_lock_iff[of "OperationKey req" "rw_store w"]
  by (auto simp: ApproveAction_def Let_def split: prod.splits)

lemma ApproveAction_locked:
  assumes "OperationKey req \<in> ms_keys (rw_store w)"
  shows "run_state (ApproveAction E chk req target a) w =
    (Some (InProgress (OperationKey req)),
     w\<lparr>trace := trace w @ [SendEphemeral target (ar_ApproverID req) MsgInProgress]\<rparr>)"
  using assms by (simp add: ApproveAction_def Let_def TryLock_def)

section \<open>The follow-up message\<close>

text \<open>\<open>closes t target m n s t'\<close>: the trace \<open>t'\<close> is \<open>t\<close> extended by the offer \<open>m\<close> with its two buttons
  and, exactly when that offer failed, by the plain text fallback.\<close>

definition closes ::
  "effect env \<Rightarrow> effect list \<Rightarrow> notify_target \<Rightarrow> message \<Rightarrow> approval_request option \<Rightarrow>
   approval_request option \<Rightarrow> effect list \<Rightarrow> bool" where
  "closes E t target m n s t' \<longleftrightarrow>
     t' = t @ OfferContinuation target m n s #
       (if reply E t (OfferContinuation target m n s) = None then []
        else [UpdateMessage target (MsgSlackUpdateFailed m)])"

lemma offerOrFallback_closes:
  "run_state (offerOrFallback E target m n s) w = (u, w') \<Longrightarrow> closes E (trace w) target m n s (trace w')"
  by (auto simp: offerOrFallback_def closes_def split: if_splits)

lemma offerRetry_closes:
  "run_state (offerRetry E target req m) w = (u, w') \<Longrightarrow>
     closes E (trace w) target m (Some (req\<lparr>ar_IssuedAt := clock E (trace w)\<rparr>)) None (trace w')"
  by (auto simp: offerRetry_def dest: offerOrFallback_closes)

definition next_offer ::
  "action \<Rightarrow> approval_request \<Rightarrow> int64 \<Rightarrow> approval_request option \<times> approval_request option" where
  "next_offer act req now =
     (if act_Name act \<noteq> rollback_name \<and> NextCanaryPercent (shift_percent act) > 0
      then (Some (req\<lparr>ar_Action := canary_action (NextCanaryPercent (shift_percent act)), ar_IssuedAt := now\<rparr>),
            Some (req\<lparr>ar_Action := rollback_name, ar_IssuedAt := now\<rparr>))
      else (None, None))"

lemma approveShift_closes:
  assumes act: "ParseAction (ar_Action req) = Inr act"
    and run: "run_state (approveShift E kind req target) w = (r, w')"
  shows "\<exists>t. case r of
      None \<Rightarrow> closes E t target (MsgShiftDone kind (ar_ResourceNames req) (shift_percent act))
               (fst (next_offer act req (clock E t))) (snd (next_offer act req (clock E t))) (trace w')
    | Some _ \<Rightarrow> \<exists>e nt. r = Some (GcpFailed e) \<and>
               closes E t target (MsgShiftError e nt) (Some (req\<lparr>ar_IssuedAt := clock E t\<rparr>)) None (trace w')"
proof -
  let ?w0 = "w\<lparr>trace := trace w @ [UpdateMessage target (MsgProgress kind)]\<rparr>"
  obtain d e w1 where l:
    "run_state (shift_loop E kind req (splitCSV (ar_Targets req)) (shift_percent act) 0
       (splitCSV (ar_ResourceNames req)) []) ?w0 = ((d, e), w1)" by (metis surj_pair)
  show ?thesis
  proof (cases e)
    case None
    show ?thesis
      by (rule exI[of _ "trace w1"])
         (use run act l None in
           \<open>auto simp: approveShift_def Let_def next_offer_def split: if_splits prod.splits
                 dest!: offerOrFallback_closes\<close>)
  next
    case (Some err)
    obtain nt w2 where c: "run_state (compensateRollback E kind d) w1 = (nt, w2)" by fastforce
    show ?thesis
      by (rule exI[of _ "trace w2"])
         (use run act l Some c in
           \<open>auto simp: approveShift_def Let_def split: prod.splits dest!: offerRetry_closes\<close>)
  qed
qed

section \<open>Properties\<close>

definition sample_env :: "effect env" where
  "sample_env = \<lparr>reply = (\<lambda>_ _. None), clock = (\<lambda>_. 1000)\<rparr>"

definition failing_env :: "effect env" where
  "failing_env =
     \<lparr>reply = (\<lambda>_ e. if e = Gcp (ShiftTraffic ''p'' ''l'' ''b'' ''r2'' 30) then Some ''quota'' else None),
      clock = (\<lambda>_. 1000)\<rparr>"

definition sample_checker :: auth_checker where
  "sample_checker = \<lparr>ac_allowedUsers = [''U1''], ac_expirySeconds = 7200\<rparr>"

definition sample_target :: notify_target where
  "sample_target = \<lparr>nt_CallbackURL = ''https'', nt_Mode = ''slack'', nt_ChannelID = [], nt_ThreadTS = []\<rparr>"

definition sample_request :: approval_request where
  "sample_request = zero_request\<lparr>ar_Project := ''p'', ar_Location := ''l'',
     ar_ResourceType := ResourceTypeService, ar_ResourceNames := ''a,b'', ar_Targets := ''r1,r2'',
     ar_Action := ''canary_30'', ar_ApproverID := ''U1'', ar_IssuedAt := 500\<rparr>"

definition sample_job :: approval_request where
  "sample_job = sample_request\<lparr>ar_ResourceType := ResourceTypeJob, ar_ResourceNames := ''mig'',
     ar_Action := migrate_apply_name, ar_SQLInstanceName := ''db''\<rparr>"

definition empty_world :: runops_world where
  "empty_world = \<lparr>trace = [], rw_store = NewMemoryStore\<rparr>"

lemmas sample_defs = sample_env_def failing_env_def sample_checker_def sample_target_def
  sample_request_def sample_job_def empty_world_def zero_request_def NewMemoryStore_def go_consts

lemma sample_job_run:
  "gcp_calls (trace (snd (run_state (ApproveAction sample_env sample_checker sample_job sample_target
       CallerHumanOperator) empty_world)))
     = [TriggerBackup ''p'' ''db'', ExecuteJob ''p'' ''l'' ''mig'' [''--mode=apply'']]"
  by code_simp

text \<open>C2. No Cloud Run, Cloud SQL or job call is made by an approval unless the operation was not
  already running, the approver is allowed to approve this requester, is on the allow-list, the
  button has not expired, and the resource type is one of the three the gateway handles.\<close>

theorem approve_calls_guarded:
  assumes run: "run_state (ApproveAction E chk req target a) w = (r, w')"
    and calls: "gcp_calls (trace w') \<noteq> gcp_calls (trace w)"
  shows "OperationKey req \<notin> ms_keys (rw_store w) \<and>
    ValidateApproverPermitted req a = None \<and>
    IsAuthorized chk (ar_ApproverID req) \<and>
    \<not> IsExpired chk (clock E (trace w)) (ar_IssuedAt req) \<and>
    ar_ResourceType req \<in> {ResourceTypeService, ResourceTypeJob, ResourceTypeWorkerPool}"
proof -
  have free: "OperationKey req \<notin> ms_keys (rw_store w)"
    using run calls ApproveAction_locked[of req w E chk target a] by auto
  from ApproveAction_unlocked[OF this run] obtain w1 where
    "run_state (approve_locked E chk req target a)
       (w\<lparr>rw_store := snd (TryLock (OperationKey req) (rw_store w))\<rparr>) = (r, w1)"
    "w' = w1\<lparr>rw_store := Release (OperationKey req) (rw_store w1)\<rparr>" by blast
  with calls have "guards_hold E chk req a (trace w)"
    using approve_locked_blocked[of E chk req a
        "w\<lparr>rw_store := snd (TryLock (OperationKey req) (rw_store w))\<rparr>" target r w1] by auto
  with free show ?thesis by (simp add: guards_hold_def)
qed

theorem approve_calls_guarded_witness:
  "IsAuthorized sample_checker (ar_ApproverID sample_job) \<and>
   \<not> IsExpired sample_checker (clock sample_env (trace empty_world)) (ar_IssuedAt sample_job)"
proof -
  obtain r w' where run: "run_state (ApproveAction sample_env sample_checker sample_job sample_target
      CallerHumanOperator) empty_world = (r, w')" by fastforce
  with sample_job_run have "gcp_calls (trace w') \<noteq> gcp_calls (trace empty_world)"
    by (simp add: empty_world_def)
  from approve_calls_guarded[OF run this] show ?thesis by blast
qed

text \<open>The operation lock is balanced: whatever branch an approval takes, the set of held keys
  afterwards is the set before, and "already in progress" is returned exactly when the key of the
  request was held.\<close>

theorem approve_lock_balanced:
  "ms_keys (rw_store (snd (run_state (ApproveAction E chk req target a) w))) = ms_keys (rw_store w) \<and>
   ((\<exists>k. fst (run_state (ApproveAction E chk req target a) w) = Some (InProgress k)) \<longleftrightarrow>
      OperationKey req \<in> ms_keys (rw_store w))"
proof (cases "OperationKey req \<in> ms_keys (rw_store w)")
  case True
  then show ?thesis by (simp add: ApproveAction_locked)
next
  case False
  let ?k = "OperationKey req"
  obtain r w' where run: "run_state (ApproveAction E chk req target a) w = (r, w')" by fastforce
  from ApproveAction_unlocked[OF False this] obtain w1 where w1:
    "run_state (approve_locked E chk req target a) (w\<lparr>rw_store := snd (TryLock ?k (rw_store w))\<rparr>) = (r, w1)"
    "w' = w1\<lparr>rw_store := Release ?k (rw_store w1)\<rparr>" by blast
  have "rw_store w1 = snd (TryLock ?k (rw_store w))"
    using preservesD[OF store_approve_locked[of E chk req target a],
        of "w\<lparr>rw_store := snd (TryLock ?k (rw_store w))\<rparr>"] w1(1) by simp
  then have "ms_keys (rw_store w') = ms_keys (rw_store w)"
    using mem.bracket_balanced[of ?k "rw_store w" "rw_store w1"] False mem.try_lock_iff w1(2) by simp
  with run False approve_locked_result[OF w1(1)] show ?thesis by auto
qed

text \<open>C5. A shift of several services or worker pools is all or nothing.  Either every call of the
  plan succeeds, each resource is shifted once, in order, to the requested percentage, and the
  action returns no error; or the calls up to the first failing one are made, exactly the
  resources shifted before it are put back to 0 percent in the same order, and the error of the
  failing call is returned.\<close>

theorem approveShift_all_or_nothing:
  assumes act: "ParseAction (ar_Action req) = Inr act"
    and run: "run_state (approveShift E kind req target) w = (r, w')"
  shows "(r = None \<and>
            (\<forall>j < length (plan req).
               shift_reply E kind (shift_percent act) (plan req) (after_progress (trace w) target kind) j = None) \<and>
            gcp_calls (trace w') = gcp_calls (trace w) @ shift_calls kind (shift_percent act) (plan req)) \<or>
         (\<exists>k e. k < length (plan req) \<and>
            (\<forall>j < k.
               shift_reply E kind (shift_percent act) (plan req) (after_progress (trace w) target kind) j = None) \<and>
            shift_reply E kind (shift_percent act) (plan req) (after_progress (trace w) target kind) k = Some e \<and>
            r = Some (GcpFailed e) \<and>
            gcp_calls (trace w') = gcp_calls (trace w) @
              shift_calls kind (shift_percent act) (take (Suc k) (plan req)) @
              shift_calls kind 0 (take k (plan req)))"
  using approveShift_calls[OF act run] .

theorem approveShift_all_or_nothing_witness:
  "\<exists>w'. run_state (approveShift failing_env TrafficShift sample_request sample_target) empty_world
           = (Some (GcpFailed ''quota''), w') \<and>
         gcp_calls (trace w') =
           [ShiftTraffic ''p'' ''l'' ''a'' ''r1'' 30, ShiftTraffic ''p'' ''l'' ''b'' ''r2'' 30,
            ShiftTraffic ''p'' ''l'' ''a'' ''r1'' 0]"
proof -
  obtain r w' where run: "run_state (approveShift failing_env TrafficShift sample_request sample_target)
      empty_world = (r, w')" by fastforce
  have act: "ParseAction (ar_Action sample_request) = Inr \<lparr>act_Name = ''canary'', act_Percent = 30\<rparr>"
    by code_simp
  have pl: "plan sample_request =
      [\<lparr>sh_project = ''p'', sh_location = ''l'', sh_name = ''a'', sh_target = ''r1''\<rparr>,
       \<lparr>sh_project = ''p'', sh_location = ''l'', sh_name = ''b'', sh_target = ''r2''\<rparr>]" by code_simp
  have p: "shift_percent \<lparr>act_Name = ''canary'', act_Percent = 30\<rparr> = 30" by code_simp
  have a1: "shift_reply failing_env TrafficShift 30 (plan sample_request) t 1 = Some ''quota''" for t
    by (simp add: shift_reply_def pl failing_env_def shift_fn_def)
  have a0: "shift_reply failing_env TrafficShift 30 (plan sample_request) t 0 = None" for t
    by (simp add: shift_reply_def pl failing_env_def shift_fn_def)
  from approveShift_all_or_nothing[OF act run] a1 a0
  have "r = Some (GcpFailed ''quota'') \<and>
      gcp_calls (trace w') = shift_calls TrafficShift 30 (take 2 (plan sample_request)) @
        shift_calls TrafficShift 0 (take 1 (plan sample_request))"
    unfolding p by (auto simp: pl less_Suc_eq empty_world_def numeral_2_eq_2)
  with run show ?thesis by (simp add: pl shift_calls_def shift_fn_def numeral_2_eq_2)
qed

text \<open>The operator is never left with a progress placeholder: after a shift with a valid action
  the message is replaced by the outcome.  A success offers the next canary step and a rollback
  (nothing after the last step or after a rollback), a failure offers the same action again with a
  fresh timestamp, and a failing Slack update is followed by a plain text message.\<close>

theorem approveShift_offers:
  assumes act: "ParseAction (ar_Action req) = Inr act"
    and run: "run_state (approveShift E kind req target) w = (r, w')"
  shows "\<exists>t. case r of
      None \<Rightarrow> closes E t target (MsgShiftDone kind (ar_ResourceNames req) (shift_percent act))
               (fst (next_offer act req (clock E t))) (snd (next_offer act req (clock E t))) (trace w')
    | Some _ \<Rightarrow> \<exists>e nt. r = Some (GcpFailed e) \<and>
               closes E t target (MsgShiftError e nt) (Some (req\<lparr>ar_IssuedAt := clock E t\<rparr>)) None (trace w')"
  using approveShift_closes[OF act run] .

theorem approveShift_offers_witness:
  "\<exists>t. closes sample_env t sample_target (MsgShiftDone TrafficShift ''a,b'' 30)
     (Some (sample_request\<lparr>ar_Action := ''canary_50'', ar_IssuedAt := 1000\<rparr>))
     (Some (sample_request\<lparr>ar_Action := ''rollback'', ar_IssuedAt := 1000\<rparr>))
     (trace (snd (run_state (approveShift sample_env TrafficShift sample_request sample_target) empty_world)))"
proof -
  let ?act = "\<lparr>act_Name = ''canary'', act_Percent = 30\<rparr>"
  obtain w' where run: "run_state (approveShift sample_env TrafficShift sample_request sample_target)
      empty_world = (None, w')"
  proof -
    have "fst (run_state (approveShift sample_env TrafficShift sample_request sample_target)
        empty_world) = None" by code_simp
    then show ?thesis using that by (metis prod.collapse)
  qed
  have act: "ParseAction (ar_Action sample_request) = Inr ?act" by code_simp
  have p: "shift_percent ?act = 30" by code_simp
  have c: "canary_action 50 = ''canary_50''" by code_simp
  have "next_offer ?act sample_request (clock sample_env t) =
      (Some (sample_request\<lparr>ar_Action := ''canary_50'', ar_IssuedAt := 1000\<rparr>),
       Some (sample_request\<lparr>ar_Action := ''rollback'', ar_IssuedAt := 1000\<rparr>))" for t
    by (simp add: next_offer_def p c NextCanaryPercent_cases sample_env_def rollback_name_def)
  then show ?thesis
    using approveShift_offers[OF act run] run by (simp add: p sample_request_def)
qed

text \<open>C22. A migration job runs only behind a successful backup of its database: an approved job
  makes either no call (no job name), or the backup alone when the backup failed, or the backup
  followed by the job with the argument --mode=apply; it never reports success without both.\<close>

theorem approveJob_backup_first:
  assumes "run_state (approveJob E req target) w = (r, w')"
  shows "gcp_calls (trace w') = gcp_calls (trace w) @
    (if ar_ResourceNames req = [] then []
     else let t1 = trace w @ [UpdateMessage target MsgBackupRunning];
              bk = TriggerBackup (ar_Project req) (sql_instance req);
              ex = ExecuteJob (ar_Project req) (ar_Location req) (ar_ResourceNames req) [''--mode=apply'']
          in if reply E t1 (Gcp bk) = None then [bk, ex] else [bk]) \<and>
    (r = None \<longrightarrow> ar_ResourceNames req \<noteq> [] \<and>
       reply E (trace w @ [UpdateMessage target MsgBackupRunning])
         (Gcp (TriggerBackup (ar_Project req) (sql_instance req))) = None)"
  using approveJob_calls[OF assms] by (simp add: migrate_args_def)

theorem approveJob_backup_first_witness:
  "gcp_calls (trace (snd (run_state (approveJob sample_env sample_job sample_target) empty_world))) =
     [TriggerBackup ''p'' ''db'', ExecuteJob ''p'' ''l'' ''mig'' [''--mode=apply'']]"
proof -
  obtain r w' where run: "run_state (approveJob sample_env sample_job sample_target) empty_world = (r, w')"
    by fastforce
  from approveJob_backup_first[OF run] show ?thesis
    unfolding run by (simp add: sample_defs Let_def sql_instance_def)
qed

text \<open>The compensation after a failed shift touches exactly the resources already shifted, in
  order, with 0 percent, whether or not single calls of it fail; it reports "rolled back" only if
  every one of these calls succeeded and "nothing to roll back" only if nothing was shifted.\<close>

theorem compensateRollback_report:
  assumes "run_state (compensateRollback E kind ds) w = (nt, w')"
  shows "gcp_calls (trace w') = gcp_calls (trace w) @ shift_calls kind 0 ds \<and>
    (nt = NothingToRollBack \<longleftrightarrow> ds = []) \<and>
    (nt = RolledBack \<longrightarrow> (\<forall>j < length ds. shift_reply E kind 0 ds (trace w) j = None))"
proof (intro conjI impI)
  show "gcp_calls (trace w') = gcp_calls (trace w) @ shift_calls kind 0 ds"
    using compensateRollback_trace[OF assms] .
  show "nt = NothingToRollBack \<longleftrightarrow> ds = []"
    using assms by (auto simp: compensateRollback_def split: if_splits prod.splits)
  show "\<forall>j < length ds. shift_reply E kind 0 ds (trace w) j = None" if "nt = RolledBack"
    using compensateRollback_clean assms that by (simp add: shift_reply_def)
qed

theorem compensateRollback_report_witness:
  "gcp_calls (trace (snd (run_state (compensateRollback sample_env PoolShift
      [\<lparr>sh_project = ''p'', sh_location = ''l'', sh_name = ''a'', sh_target = ''r''\<rparr>]) empty_world))) =
     [UpdateWorkerPool ''p'' ''l'' ''a'' ''r'' 0]"
proof -
  let ?ds = "[\<lparr>sh_project = ''p'', sh_location = ''l'', sh_name = ''a'', sh_target = ''r''\<rparr>]"
  obtain nt w' where run: "run_state (compensateRollback sample_env PoolShift ?ds) empty_world = (nt, w')"
    by fastforce
  from compensateRollback_report[OF run] show ?thesis
    unfolding run by (simp add: shift_calls_def shift_fn_def empty_world_def)
qed

end
