(* ===== verification/Document_Store.thy ===== *)
theory Document_Store
  imports Go_Strings "HOL-Library.AList"
begin

text \<open>
  What the storage adapters rely on of SQLite and Firestore.  A table (or collection) is an
  association list from the primary key (or document id) to the row; an insert refuses a taken key, a read or an
  update of a missing key reports that it is missing, and one transaction acts on the map in one
  step.  Every call can fail: the fault oracle says for the \<open>n\<close>-th call of the service whether it is
  carried out, lost before it took effect, or carried out with its answer lost.

  Instants are nanoseconds since Go's zero time, so \<open>IsZero\<close> is \<open>t = 0\<close>; SQLite keeps whole
  seconds and Firestore microseconds.
\<close>

type_synonym gotime = int

definition second :: gotime where "second = 10 ^ 9"
definition microsecond :: gotime where "microsecond = 10 ^ 3"

definition sqlite_time :: "gotime \<Rightarrow> gotime" where
  "sqlite_time t = t div second * second"

definition firestore_time :: "gotime \<Rightarrow> gotime" where
  "firestore_time t = t div microsecond * microsecond"

datatype fault = Fine | LostRequest string | LostReply string

type_synonym faults = "nat \<Rightarrow> fault"

record env_store =
  es_faults :: faults
  es_now :: gotime

record 'row table =
  rows :: "(string \<times> 'row) list"
  ncalls :: nat

definition empty_table :: "'row table" where
  "empty_table = \<lparr>rows = [], ncalls = 0\<rparr>"

datatype svc_error = AlreadyExists | NotFound | Infra string

definition svc ::
  "env_store \<Rightarrow> ((string \<times> 'row) list \<Rightarrow> (svc_error + 'a) \<times> (string \<times> 'row) list) \<Rightarrow>
   'row table \<Rightarrow> (svc_error + 'a) \<times> 'row table" where
  "svc env f t =
     (let t' = t\<lparr>ncalls := Suc (ncalls t)\<rparr>
      in case es_faults env (ncalls t) of
           Fine \<Rightarrow> (fst (f (rows t)), t'\<lparr>rows := snd (f (rows t))\<rparr>)
         | LostRequest e \<Rightarrow> (Inl (Infra e), t')
         | LostReply e \<Rightarrow> (Inl (Infra e), t'\<lparr>rows := snd (f (rows t))\<rparr>))"

definition row_create ::
  "string \<Rightarrow> 'row \<Rightarrow> (string \<times> 'row) list \<Rightarrow> (svc_error + unit) \<times> (string \<times> 'row) list" where
  "row_create k r m = (case map_of m k of None \<Rightarrow> (Inr (), AList.update k r m) | Some _ \<Rightarrow> (Inl AlreadyExists, m))"

definition row_get ::
  "string \<Rightarrow> (string \<times> 'row) list \<Rightarrow> (svc_error + 'row) \<times> (string \<times> 'row) list" where
  "row_get k m = (case map_of m k of None \<Rightarrow> (Inl NotFound, m) | Some r \<Rightarrow> (Inr r, m))"

definition row_update ::
  "string \<Rightarrow> ('row \<Rightarrow> 'row) \<Rightarrow> (string \<times> 'row) list \<Rightarrow>
   (svc_error + unit) \<times> (string \<times> 'row) list" where
  "row_update k f m = (case map_of m k of
       None \<Rightarrow> (Inl NotFound, m)
     | Some r \<Rightarrow> (Inr (), AList.update k (f r) m))"

text \<open>The rows after a call are the old ones or the ones the operation produces; a value is returned
  only by a call that was carried out.\<close>

lemma svc_rows: "rows (snd (svc env f t)) = rows t \<or> rows (snd (svc env f t)) = snd (f (rows t))"
  by (simp add: svc_def Let_def split: fault.split)

lemma svc_Inr:
  "fst (svc env f t) = Inr x \<Longrightarrow> f (rows t) = (Inr x, rows (snd (svc env f t)))"
  by (simp add: svc_def Let_def prod_eq_iff split: fault.splits)

lemma svc_Inl_known:
  "fst (svc env f t) = Inl e \<Longrightarrow> (\<And>x. e \<noteq> Infra x) \<Longrightarrow>
     f (rows t) = (Inl e, rows (snd (svc env f t)))"
  by (auto simp: svc_def Let_def prod_eq_iff split: fault.splits)

text \<open>The adapters map the service's error codes to their sentinel errors.\<close>

definition map_err :: "(svc_error \<Rightarrow> 'e) \<Rightarrow> (svc_error + 'a) \<times> 't \<Rightarrow> ('e + 'a) \<times> 't" where
  "map_err g r = (case fst r of Inl e \<Rightarrow> Inl (g e) | Inr x \<Rightarrow> Inr x, snd r)"

lemma map_err_simps [simp]:
  "snd (map_err g r) = snd r"
  "fst (map_err g r) = Inr x \<longleftrightarrow> fst r = Inr x"
  "fst (map_err g r) = Inl e \<longleftrightarrow> (\<exists>c. fst r = Inl c \<and> g c = e)"
  by (simp_all add: map_err_def split: sum.splits)

lemma svc_reads:
  "(\<And>m. snd (f m) = m) \<Longrightarrow> rows (snd (svc env f t)) = rows t"
  using svc_rows[of env f t] by auto

lemma row_get_reads [simp]: "snd (row_get k m) = m"
  by (simp add: row_get_def split: option.splits)

lemma svc_Fine:
  "es_faults env (ncalls t) = Fine \<Longrightarrow>
     svc env f t = (fst (f (rows t)), t\<lparr>ncalls := Suc (ncalls t), rows := snd (f (rows t))\<rparr>)"
  by (simp add: svc_def Let_def)

abbreviation row :: "'row table \<Rightarrow> string \<Rightarrow> 'row option" where
  "row t k \<equiv> map_of (rows t) k"

lemma map_of_row_create:
  "map_of (snd (row_create k r m)) =
     (if map_of m k = None then (map_of m)(k \<mapsto> r) else map_of m)"
  by (auto simp: row_create_def update_conv' split: option.splits)

lemma map_of_row_update:
  "map_of (snd (row_update k f m)) =
     (case map_of m k of None \<Rightarrow> map_of m | Some r \<Rightarrow> (map_of m)(k \<mapsto> f r))"
  by (auto simp: row_update_def update_conv' split: option.splits)

text \<open>The two changes of a table, whatever the faults.\<close>

lemma svc_create_keeps:
  "row t k' = Some x \<Longrightarrow> row (snd (svc env (row_create k r) t)) k' = Some x"
  using svc_rows[of env "row_create k r" t] by (auto simp: map_of_row_create)

lemma svc_create_new:
  "row (snd (svc env (row_create k r) t)) k' = Some x \<Longrightarrow>
     row t k' = Some x \<or> (row t k' = None \<and> k' = k \<and> x = r)"
  using svc_rows[of env "row_create k r" t] by (auto simp: map_of_row_create split: if_splits)

lemma svc_update_cases:
  "row (snd (svc env (row_update k f) t)) k' = row t k' \<or>
     (k' = k \<and> (\<exists>x. row t k = Some x \<and> row (snd (svc env (row_update k f) t)) k = Some (f x)))"
  using svc_rows[of env "row_update k f" t] by (auto simp: map_of_row_update split: option.splits if_splits)

lemma svc_get_rows [simp]: "rows (snd (svc env (row_get k) t)) = rows t"
  by (rule svc_reads) simp

end
