(* ===== verification/Project_Registry.thy ===== *)
theory Project_Registry
  imports Document_Store "HOL-Library.List_Lexorder" "HOL-Library.Char_ord"
begin

text \<open>
  The project registry: the domain value and its identifier rule
  (\<open>internal/core/domain/project.go\<close>), the port as a locale (\<open>internal/core/port/port.go\<close>), and its
  two adapters, \<open>sqlite_project_registry.go\<close> and \<open>firestore_project_registry.go\<close> of
  \<open>internal/adapter/output/state\<close>.
\<close>

section \<open>Projects\<close>

definition ProjectStatusActive :: string where [go_consts]: "ProjectStatusActive = ''active''"
definition ProjectStatusArchived :: string where [go_consts]: "ProjectStatusArchived = ''archived''"

lemma project_status_distinct [simp]:
  "ProjectStatusActive \<noteq> ProjectStatusArchived" "ProjectStatusArchived \<noteq> ProjectStatusActive"
  "ProjectStatusActive \<noteq> []" "ProjectStatusArchived \<noteq> []"
  by (simp_all add: go_consts)

record project =
  pj_ID :: string
  pj_GitHubOrg :: string
  pj_GitHubRepo :: string
  pj_WorkspacePath :: string
  pj_SlackDefaultChannel :: string
  pj_GitHubAppInstallationID :: int64
  pj_Status :: string
  pj_CreatedAt :: gotime
  pj_ArchivedAt :: "gotime option"

datatype project_error =
    ErrProjectNotFound
  | ErrProjectAlreadyExists
  | ErrInvalidProjectID
  | ProjectInfra string

definition projectIDMaxLen :: nat where
  "projectIDMaxLen = 64"

definition project_id_chars :: string where
  "project_id_chars =
     ''abcdefghijklmnopqrstuvwxyzABCDEFGHIJKLMNOPQRSTUVWXYZ0123456789_-''"

definition ValidateProjectID :: "string \<Rightarrow> project_error option" where
  "ValidateProjectID pid =
     (if pid = [] then Some ErrInvalidProjectID
      else if length pid > projectIDMaxLen then Some ErrInvalidProjectID
      else if \<not> list_all (\<lambda>c. c \<in> set project_id_chars) pid then Some ErrInvalidProjectID
      else None)"

lemma ValidateProjectID_None_iff:
  "ValidateProjectID pid = None \<longleftrightarrow>
     pid \<noteq> [] \<and> length pid \<le> 64 \<and> set pid \<subseteq> set project_id_chars"
  by (auto simp: ValidateProjectID_def projectIDMaxLen_def list_all_iff)

type_synonym registry = "project table"

section \<open>SQLite adapter\<close>

text \<open>The row an insert creates: status and creation time are column defaults.\<close>

definition sqlite_project_row :: "gotime \<Rightarrow> project \<Rightarrow> project" where
  "sqlite_project_row now p =
     p\<lparr>pj_Status := ProjectStatusActive, pj_CreatedAt := sqlite_time now, pj_ArchivedAt := None\<rparr>"

fun add_error :: "svc_error \<Rightarrow> project_error" where
  "add_error AlreadyExists = ErrProjectAlreadyExists"
| "add_error NotFound = ProjectInfra ''not found''"
| "add_error (Infra e) = ProjectInfra e"

fun lookup_error :: "svc_error \<Rightarrow> project_error" where
  "lookup_error NotFound = ErrProjectNotFound"
| "lookup_error AlreadyExists = ProjectInfra ''already exists''"
| "lookup_error (Infra e) = ProjectInfra e"

fun other_error :: "svc_error \<Rightarrow> project_error" where
  "other_error NotFound = ProjectInfra ''not found''"
| "other_error AlreadyExists = ProjectInfra ''already exists''"
| "other_error (Infra e) = ProjectInfra e"

definition sqlite_Add :: "env_store \<Rightarrow> project \<Rightarrow> registry \<Rightarrow> (project_error + unit) \<times> registry" where
  "sqlite_Add env p t =
     (case ValidateProjectID (pj_ID p) of
        Some e \<Rightarrow> (Inl e, t)
      | None \<Rightarrow> map_err add_error (svc env (row_create (pj_ID p) (sqlite_project_row (es_now env) p)) t))"

definition sqlite_Get :: "env_store \<Rightarrow> string \<Rightarrow> registry \<Rightarrow> (project_error + project) \<times> registry" where
  "sqlite_Get env pid t = map_err lookup_error (svc env (row_get pid) t)"

text \<open>\<open>ORDER BY id\<close> is the bytewise order.\<close>

definition select_rows :: "string \<Rightarrow> (string \<times> project) list \<Rightarrow> project list" where
  "select_rows status m =
     filter (\<lambda>p. status = [] \<or> pj_Status p = status) (map snd (sort_key fst m))"

definition sqlite_List ::
  "env_store \<Rightarrow> string \<Rightarrow> registry \<Rightarrow> (project_error + project list) \<times> registry" where
  "sqlite_List env status t = map_err other_error (svc env (\<lambda>m. (Inr (select_rows status m), m)) t)"

definition sqlite_archive_row :: "gotime \<Rightarrow> project \<Rightarrow> project" where
  "sqlite_archive_row now p =
     p\<lparr>pj_Status := ProjectStatusArchived,
       pj_ArchivedAt := (case pj_ArchivedAt p of Some a \<Rightarrow> Some a | None \<Rightarrow> Some (sqlite_time now))\<rparr>"

definition sqlite_Archive :: "env_store \<Rightarrow> string \<Rightarrow> registry \<Rightarrow> (project_error + unit) \<times> registry" where
  "sqlite_Archive env pid t =
     map_err lookup_error (svc env (row_update pid (sqlite_archive_row (es_now env))) t)"

section \<open>Firestore adapter\<close>

definition firestore_project_doc :: "gotime \<Rightarrow> project \<Rightarrow> project" where
  "firestore_project_doc now p =
     (let p1 = (if pj_Status p = [] then p\<lparr>pj_Status := ProjectStatusActive\<rparr> else p);
          p2 = (if pj_CreatedAt p1 = 0 then p1\<lparr>pj_CreatedAt := now\<rparr> else p1)
      in p2\<lparr>pj_CreatedAt := firestore_time (pj_CreatedAt p2),
            pj_ArchivedAt := map_option firestore_time (pj_ArchivedAt p2)\<rparr>)"

definition firestore_Add :: "env_store \<Rightarrow> project \<Rightarrow> registry \<Rightarrow> (project_error + unit) \<times> registry" where
  "firestore_Add env p t =
     (case ValidateProjectID (pj_ID p) of
        Some e \<Rightarrow> (Inl e, t)
      | None \<Rightarrow> map_err add_error (svc env (row_create (pj_ID p) (firestore_project_doc (es_now env) p)) t))"

definition firestore_Get :: "env_store \<Rightarrow> string \<Rightarrow> registry \<Rightarrow> (project_error + project) \<times> registry" where
  "firestore_Get env pid t = map_err lookup_error (svc env (row_get pid) t)"

definition firestore_List ::
  "env_store \<Rightarrow> string \<Rightarrow> registry \<Rightarrow> (project_error + project list) \<times> registry" where
  "firestore_List env status t = map_err other_error (svc env (\<lambda>m. (Inr (select_rows status m), m)) t)"

text \<open>Read first, then update: two calls of the service, not one transaction.\<close>

definition firestore_archive_fields :: "gotime \<Rightarrow> project \<Rightarrow> project" where
  "firestore_archive_fields now p =
     p\<lparr>pj_Status := ProjectStatusArchived, pj_ArchivedAt := Some (firestore_time now)\<rparr>"

definition firestore_Archive :: "env_store \<Rightarrow> string \<Rightarrow> registry \<Rightarrow> (project_error + unit) \<times> registry" where
  "firestore_Archive env pid t =
     (let r = svc env (row_get pid) t
      in case fst r of
           Inl e \<Rightarrow> (Inl (lookup_error e), snd r)
         | Inr existing \<Rightarrow>
             if pj_Status existing = ProjectStatusArchived then (Inr (), snd r)
             else map_err other_error
                    (svc env (row_update pid (firestore_archive_fields (es_now env))) (snd r)))"

section \<open>The interface ProjectRegistry\<close>

text \<open>What an approval may not change: everything but status and dates of a project.\<close>

definition same_project :: "project \<Rightarrow> project \<Rightarrow> bool" where
  "same_project p q \<longleftrightarrow>
     pj_ID q = pj_ID p \<and> pj_GitHubOrg q = pj_GitHubOrg p \<and> pj_GitHubRepo q = pj_GitHubRepo p \<and>
     pj_WorkspacePath q = pj_WorkspacePath p \<and> pj_SlackDefaultChannel q = pj_SlackDefaultChannel p \<and>
     pj_GitHubAppInstallationID q = pj_GitHubAppInstallationID p"

lemma same_project_refl [simp]: "same_project p p"
  by (simp add: same_project_def)

lemma same_project_trans: "same_project p q \<Longrightarrow> same_project q r \<Longrightarrow> same_project p r"
  by (simp add: same_project_def)

definition settled :: "project \<Rightarrow> bool" where
  "settled q \<longleftrightarrow> pj_Status q = ProjectStatusArchived \<and> pj_ArchivedAt q \<noteq> None"

datatype registry_op = OpAdd project | OpGet string | OpArchive string

locale project_registry =
  fixes add :: "'e \<Rightarrow> project \<Rightarrow> 's \<Rightarrow> (project_error + unit) \<times> 's"
    and get :: "'e \<Rightarrow> string \<Rightarrow> 's \<Rightarrow> (project_error + project) \<times> 's"
    and archive :: "'e \<Rightarrow> string \<Rightarrow> 's \<Rightarrow> (project_error + unit) \<times> 's"
    and find :: "'s \<Rightarrow> string \<Rightarrow> project option"
  assumes add_rejects: "ValidateProjectID (pj_ID p) = Some e \<Longrightarrow> add E p s = (Inl e, s)"
    and add_keeps: "find s k = Some q \<Longrightarrow> find (snd (add E p s)) k = Some q"
    and add_new: "find (snd (add E p s)) k = Some q \<Longrightarrow> find s k = None \<Longrightarrow>
      k = pj_ID p \<and> ValidateProjectID k = None \<and> same_project p q"
    and add_ok: "fst (add E p s) = Inr () \<Longrightarrow>
      find s (pj_ID p) = None \<and> find (snd (add E p s)) (pj_ID p) \<noteq> None"
    and add_exists: "fst (add E p s) = Inl ErrProjectAlreadyExists \<Longrightarrow> find s (pj_ID p) \<noteq> None"
    and get_find: "find (snd (get E k s)) = find s"
    and get_value: "fst (get E k s) = Inr q \<Longrightarrow> find s k = Some q"
    and archive_none: "find s k' = None \<Longrightarrow> find (snd (archive E k s)) k' = None"
    and archive_keeps: "find s k' = Some q \<Longrightarrow>
      \<exists>q'. find (snd (archive E k s)) k' = Some q' \<and> same_project q q' \<and>
           pj_CreatedAt q' = pj_CreatedAt q \<and> (k' \<noteq> k \<or> settled q \<longrightarrow> q' = q)"
    and archive_ok: "fst (archive E k s) = Inr () \<Longrightarrow>
      \<exists>q. find (snd (archive E k s)) k = Some q \<and> pj_Status q = ProjectStatusArchived"
begin

fun after :: "'e \<times> registry_op \<Rightarrow> 's \<Rightarrow> 's" where
  "after (E, OpAdd p) s = snd (add E p s)"
| "after (E, OpGet k) s = snd (get E k s)"
| "after (E, OpArchive k) s = snd (archive E k s)"

lemma after_keeps:
  "find s k = Some q \<Longrightarrow>
     \<exists>q'. find (after op s) k = Some q' \<and> same_project q q' \<and> pj_CreatedAt q' = pj_CreatedAt q \<and>
          (settled q \<longrightarrow> q' = q)"
proof (cases "(op, s)" rule: after.cases)
  case (3 E k' s')
  assume "find s k = Some q"
  with 3 archive_keeps[of s k q E k'] show ?thesis by auto
qed (auto simp: add_keeps get_find)

text \<open>Whatever is done to the registry, a project stays, keeps its identity, and an archived
  project keeps its archive date.\<close>

lemma permanence:
  "find s k = Some q \<Longrightarrow>
     \<exists>q'. find (fold after ops s) k = Some q' \<and> same_project q q' \<and> pj_CreatedAt q' = pj_CreatedAt q \<and>
          (settled q \<longrightarrow> q' = q)"
proof (induction ops arbitrary: s q)
  case Nil
  then show ?case by simp
next
  case (Cons op ops)
  from after_keeps[OF Cons.prems] obtain q1 where q1: "find (after op s) k = Some q1"
    "same_project q q1" "pj_CreatedAt q1 = pj_CreatedAt q" "settled q \<longrightarrow> q1 = q" by blast
  from Cons.IH[OF q1(1)] obtain q2 where q2: "find (fold after ops (after op s)) k = Some q2"
    "same_project q1 q2" "pj_CreatedAt q2 = pj_CreatedAt q1" "settled q1 \<longrightarrow> q2 = q1" by blast
  from q1 q2 show ?case by (auto intro: same_project_trans)
qed

definition ids_valid :: "'s \<Rightarrow> bool" where
  "ids_valid s \<longleftrightarrow> (\<forall>k q. find s k = Some q \<longrightarrow> pj_ID q = k \<and> ValidateProjectID k = None)"

lemma after_ids_valid: "ids_valid s \<Longrightarrow> ids_valid (after op s)"
proof (cases "(op, s)" rule: after.cases)
  case (1 E p s')
  assume v: "ids_valid s"
  show ?thesis unfolding ids_valid_def
  proof (intro allI impI)
    fix k' q' assume "find (after op s) k' = Some q'"
    with 1 have q': "find (snd (add E p s)) k' = Some q'" by simp
    show "pj_ID q' = k' \<and> ValidateProjectID k' = None"
    proof (cases "find s k'")
      case None
      from add_new[OF q' None] show ?thesis by (auto simp: same_project_def)
    next
      case (Some q)
      with add_keeps[OF Some, of E p] q' v show ?thesis by (simp add: ids_valid_def)
    qed
  qed
next
  case (3 E k s')
  assume v: "ids_valid s"
  show ?thesis unfolding ids_valid_def
  proof (intro allI impI)
    fix k' q' assume q': "find (after op s) k' = Some q'"
    with 3 archive_none[of s k' E k] obtain q where q: "find s k' = Some q" by fastforce
    from archive_keeps[OF q, of E k] 3 q' have "same_project q q'" by auto
    with v q show "pj_ID q' = k' \<and> ValidateProjectID k' = None"
      by (auto simp: ids_valid_def same_project_def)
  qed
qed (auto simp: ids_valid_def get_find)

lemma reachable_ids_valid: "ids_valid s \<Longrightarrow> ids_valid (fold after ops s)"
  by (induction ops arbitrary: s) (simp_all add: after_ids_valid)

end

section \<open>Both adapters provide the interface\<close>

lemma sqlite_row_same [simp]: "same_project p (sqlite_project_row now p)"
  by (simp add: same_project_def sqlite_project_row_def)

lemma firestore_doc_same [simp]: "same_project p (firestore_project_doc now p)"
  by (simp add: same_project_def firestore_project_doc_def Let_def)

text \<open>An insert behind the identifier check, for either row.\<close>

definition checked_insert ::
  "(project \<Rightarrow> project) \<Rightarrow> env_store \<Rightarrow> project \<Rightarrow> registry \<Rightarrow> (project_error + unit) \<times> registry" where
  "checked_insert doc env p t =
     (case ValidateProjectID (pj_ID p) of
        Some e \<Rightarrow> (Inl e, t)
      | None \<Rightarrow> map_err add_error (svc env (row_create (pj_ID p) (doc p)) t))"

lemma add_checked_insert:
  "sqlite_Add env = checked_insert (sqlite_project_row (es_now env)) env"
  "firestore_Add env = checked_insert (firestore_project_doc (es_now env)) env"
  by (simp_all add: fun_eq_iff sqlite_Add_def firestore_Add_def checked_insert_def)

lemma add_error_iff [simp]: "add_error c = ErrProjectAlreadyExists \<longleftrightarrow> c = AlreadyExists"
  by (cases c) simp_all

lemma lookup_error_iff [simp]: "lookup_error c = ErrProjectNotFound \<longleftrightarrow> c = NotFound"
  by (cases c) simp_all

lemma row_create_results:
  "fst (row_create k r m) = Inr u \<longleftrightarrow> map_of m k = None"
  "fst (row_create k r m) = Inl AlreadyExists \<longleftrightarrow> map_of m k \<noteq> None"
  by (simp_all add: row_create_def split: option.splits)

lemma ValidateProjectID_only: "ValidateProjectID k = Some e \<Longrightarrow> e = ErrInvalidProjectID"
  by (simp add: ValidateProjectID_def split: if_splits)

lemma checked_insert_laws:
  assumes doc: "\<And>p. same_project p (doc p)"
  shows "ValidateProjectID (pj_ID p) = Some e \<Longrightarrow> checked_insert doc env p t = (Inl e, t)"
    and "row t k = Some q \<Longrightarrow> row (snd (checked_insert doc env p t)) k = Some q"
    and "row (snd (checked_insert doc env p t)) k = Some q \<Longrightarrow> row t k = None \<Longrightarrow>
      k = pj_ID p \<and> ValidateProjectID k = None \<and> same_project p q"
    and "fst (checked_insert doc env p t) = Inr () \<Longrightarrow>
      row t (pj_ID p) = None \<and> row (snd (checked_insert doc env p t)) (pj_ID p) \<noteq> None"
    and "fst (checked_insert doc env p t) = Inl ErrProjectAlreadyExists \<Longrightarrow> row t (pj_ID p) \<noteq> None"
proof -
  let ?c = "svc env (row_create (pj_ID p) (doc p)) t"
  show "ValidateProjectID (pj_ID p) = Some e \<Longrightarrow> checked_insert doc env p t = (Inl e, t)"
    by (simp add: checked_insert_def)
  show "row t k = Some q \<Longrightarrow> row (snd (checked_insert doc env p t)) k = Some q"
    by (simp add: checked_insert_def svc_create_keeps split: option.split)
  show "row (snd (checked_insert doc env p t)) k = Some q \<Longrightarrow> row t k = None \<Longrightarrow>
      k = pj_ID p \<and> ValidateProjectID k = None \<and> same_project p q"
    using doc svc_create_new[of env "pj_ID p" "doc p" t k q]
    by (cases "ValidateProjectID (pj_ID p)") (auto simp: checked_insert_def)
  show "row t (pj_ID p) = None \<and> row (snd (checked_insert doc env p t)) (pj_ID p) \<noteq> None"
    if ok: "fst (checked_insert doc env p t) = Inr ()"
  proof -
    from ok have v: "ValidateProjectID (pj_ID p) = None" and "fst ?c = Inr ()"
      by (simp_all add: checked_insert_def split: option.splits)
    from svc_Inr[OF this(2)] have c: "row_create (pj_ID p) (doc p) (rows t) = (Inr (), rows (snd ?c))" .
    then have "row t (pj_ID p) = None" using row_create_results(1)[of "pj_ID p" "doc p" "rows t" "()"] by simp
    moreover have "row (snd ?c) = map_of (snd (row_create (pj_ID p) (doc p) (rows t)))" using c by simp
    ultimately show ?thesis using v by (simp add: checked_insert_def map_of_row_create)
  qed
  show "row t (pj_ID p) \<noteq> None" if ex: "fst (checked_insert doc env p t) = Inl ErrProjectAlreadyExists"
  proof -
    from ex have "fst ?c = Inl AlreadyExists"
      by (auto simp: checked_insert_def dest: ValidateProjectID_only split: option.splits)
    from svc_Inl_known[OF this] show ?thesis
      using row_create_results(2)[of "pj_ID p" "doc p" "rows t"] by simp
  qed
qed

lemma row_get_Inr [simp]: "fst (row_get k m) = Inr q \<longleftrightarrow> map_of m k = Some q"
  by (simp add: row_get_def split: option.splits)

lemma svc_get_Inr: "fst (svc env (row_get k) t) = Inr q \<Longrightarrow> row t k = Some q"
  using svc_Inr[of env "row_get k" t q] row_get_Inr[of k "rows t" q] by simp

lemma svc_update_Inr:
  assumes "fst (svc env (row_update k f) t) = Inr ()"
  obtains q where "row t k = Some q" "row (snd (svc env (row_update k f) t)) k = Some (f q)"
proof -
  have r: "row_update k f (rows t) = (Inr (), rows (snd (svc env (row_update k f) t)))"
    by (rule svc_Inr[OF assms])
  then obtain q where q: "row t k = Some q" by (auto simp: row_update_def split: option.splits)
  moreover have "row (snd (svc env (row_update k f) t)) = map_of (snd (row_update k f (rows t)))"
    using r by simp
  ultimately show ?thesis using that by (simp add: map_of_row_update)
qed

text \<open>An update of one row by a function that respects the contract.\<close>

lemma update_keeps:
  assumes "\<And>x. same_project x (f x) \<and> pj_CreatedAt (f x) = pj_CreatedAt x \<and> (settled x \<longrightarrow> f x = x)"
    and "row t k' = Some q"
  shows "\<exists>q'. row (snd (svc env (row_update k f) t)) k' = Some q' \<and> same_project q q' \<and>
      pj_CreatedAt q' = pj_CreatedAt q \<and> (k' \<noteq> k \<or> settled q \<longrightarrow> q' = q)"
  using svc_update_cases[of env k f t k'] assms by (auto dest: sym)

lemma update_none: "row t k' = None \<Longrightarrow> row (snd (svc env (row_update k f) t)) k' = None"
  using svc_update_cases[of env k f t k'] by auto

lemma sqlite_archive_row_ok:
  "same_project x (sqlite_archive_row now x) \<and> pj_CreatedAt (sqlite_archive_row now x) = pj_CreatedAt x \<and>
     (settled x \<longrightarrow> sqlite_archive_row now x = x)"
  by (cases x) (auto simp: sqlite_archive_row_def same_project_def settled_def)

interpretation sqlite_reg: project_registry sqlite_Add sqlite_Get sqlite_Archive row
proof unfold_locales
  fix env :: env_store and t :: registry and p q k k' e
  note laws = checked_insert_laws[of "sqlite_project_row (es_now env)", OF sqlite_row_same]
  show "ValidateProjectID (pj_ID p) = Some e \<Longrightarrow> sqlite_Add env p t = (Inl e, t)"
    "row t k = Some q \<Longrightarrow> row (snd (sqlite_Add env p t)) k = Some q"
    "row (snd (sqlite_Add env p t)) k = Some q \<Longrightarrow> row t k = None \<Longrightarrow>
      k = pj_ID p \<and> ValidateProjectID k = None \<and> same_project p q"
    "fst (sqlite_Add env p t) = Inr () \<Longrightarrow>
      row t (pj_ID p) = None \<and> row (snd (sqlite_Add env p t)) (pj_ID p) \<noteq> None"
    "fst (sqlite_Add env p t) = Inl ErrProjectAlreadyExists \<Longrightarrow> row t (pj_ID p) \<noteq> None"
    unfolding add_checked_insert by (fact laws)+
  show "row (snd (sqlite_Get env k t)) = row t" by (simp add: sqlite_Get_def)
  show "fst (sqlite_Get env k t) = Inr q \<Longrightarrow> row t k = Some q"
    by (simp add: sqlite_Get_def svc_get_Inr)
  show "row t k' = None \<Longrightarrow> row (snd (sqlite_Archive env k t)) k' = None"
    by (simp add: sqlite_Archive_def update_none)
  show "row t k' = Some q \<Longrightarrow>
      \<exists>q'. row (snd (sqlite_Archive env k t)) k' = Some q' \<and> same_project q q' \<and>
           pj_CreatedAt q' = pj_CreatedAt q \<and> (k' \<noteq> k \<or> settled q \<longrightarrow> q' = q)"
    using update_keeps[of "sqlite_archive_row (es_now env)", OF sqlite_archive_row_ok]
    by (simp add: sqlite_Archive_def)
  show "\<exists>q. row (snd (sqlite_Archive env k t)) k = Some q \<and> pj_Status q = ProjectStatusArchived"
    if "fst (sqlite_Archive env k t) = Inr ()"
  proof -
    from that have "fst (svc env (row_update k (sqlite_archive_row (es_now env))) t) = Inr ()"
      by (simp add: sqlite_Archive_def)
    then show ?thesis
      by (rule svc_update_Inr) (simp add: sqlite_Archive_def sqlite_archive_row_def)
  qed
qed

lemma firestore_Archive_cases:
  obtains (unchanged) "row (snd (firestore_Archive env k t)) = row t"
      "\<And>u. fst (firestore_Archive env k t) = Inr u \<Longrightarrow>
         \<exists>q. row t k = Some q \<and> pj_Status q = ProjectStatusArchived"
  | (updated) t1 q where "row t1 = row t" "row t k = Some q" "pj_Status q \<noteq> ProjectStatusArchived"
      "firestore_Archive env k t =
         map_err other_error (svc env (row_update k (firestore_archive_fields (es_now env))) t1)"
proof (cases "fst (svc env (row_get k) t)")
  case (Inl e)
  then show ?thesis using unchanged by (simp add: firestore_Archive_def)
next
  case (Inr q)
  note q = svc_get_Inr[OF Inr]
  show ?thesis
  proof (cases "pj_Status q = ProjectStatusArchived")
    case True
    with Inr q show ?thesis by (intro unchanged) (simp_all add: firestore_Archive_def)
  next
    case False
    with Inr q show ?thesis
      using updated[of "snd (svc env (row_get k) t)" q] by (simp add: firestore_Archive_def)
  qed
qed

lemma firestore_fields_ok:
  "same_project x (firestore_archive_fields now x) \<and>
   pj_CreatedAt (firestore_archive_fields now x) = pj_CreatedAt x"
  by (simp add: firestore_archive_fields_def same_project_def)

interpretation firestore_reg: project_registry firestore_Add firestore_Get firestore_Archive row
proof unfold_locales
  fix env :: env_store and t :: registry and p q k k' e
  note laws = checked_insert_laws[of "firestore_project_doc (es_now env)", OF firestore_doc_same]
  show "ValidateProjectID (pj_ID p) = Some e \<Longrightarrow> firestore_Add env p t = (Inl e, t)"
    "row t k = Some q \<Longrightarrow> row (snd (firestore_Add env p t)) k = Some q"
    "row (snd (firestore_Add env p t)) k = Some q \<Longrightarrow> row t k = None \<Longrightarrow>
      k = pj_ID p \<and> ValidateProjectID k = None \<and> same_project p q"
    "fst (firestore_Add env p t) = Inr () \<Longrightarrow>
      row t (pj_ID p) = None \<and> row (snd (firestore_Add env p t)) (pj_ID p) \<noteq> None"
    "fst (firestore_Add env p t) = Inl ErrProjectAlreadyExists \<Longrightarrow> row t (pj_ID p) \<noteq> None"
    unfolding add_checked_insert by (fact laws)+
  show "row (snd (firestore_Get env k t)) = row t" by (simp add: firestore_Get_def)
  show "fst (firestore_Get env k t) = Inr q \<Longrightarrow> row t k = Some q"
    by (simp add: firestore_Get_def svc_get_Inr)
  let ?f = "firestore_archive_fields (es_now env)"
  show "row (snd (firestore_Archive env k t)) k' = None" if "row t k' = None"
    by (rule firestore_Archive_cases[of env k t]) (simp_all add: that update_none)
  show "\<exists>q'. row (snd (firestore_Archive env k t)) k' = Some q' \<and> same_project q q' \<and>
           pj_CreatedAt q' = pj_CreatedAt q \<and> (k' \<noteq> k \<or> settled q \<longrightarrow> q' = q)"
    if q: "row t k' = Some q"
  proof (rule firestore_Archive_cases[of env k t])
    fix t1 q0 assume t1: "row t1 = row t" "row t k = Some q0" "pj_Status q0 \<noteq> ProjectStatusArchived"
      "firestore_Archive env k t = map_err other_error (svc env (row_update k ?f) t1)"
    show ?thesis
      using svc_update_cases[of env k ?f t1 k'] t1 q firestore_fields_ok[of q "es_now env"]
      by (auto simp: settled_def)
  qed (use q in auto)
  show "\<exists>q. row (snd (firestore_Archive env k t)) k = Some q \<and> pj_Status q = ProjectStatusArchived"
    if ok: "fst (firestore_Archive env k t) = Inr ()"
  proof (rule firestore_Archive_cases[of env k t])
    fix t1 q0 assume t1: "firestore_Archive env k t = map_err other_error (svc env (row_update k ?f) t1)"
    with ok have "fst (svc env (row_update k ?f) t1) = Inr ()" by simp
    then show ?thesis
      by (rule svc_update_Inr) (simp add: t1 firestore_archive_fields_def)
  next
    assume "row (snd (firestore_Archive env k t)) = row t"
      "\<And>u. fst (firestore_Archive env k t) = Inr u \<Longrightarrow>
         \<exists>q. row t k = Some q \<and> pj_Status q = ProjectStatusArchived"
    with ok show ?thesis by simp
  qed
qed

section \<open>The adapters agree\<close>

text \<open>
  Two tables are twins when they hold the same projects in the same order up to the recorded
  instants (SQLite sets its own, at another precision).  A project of a twin is active without an
  archive date or archived with one.
\<close>

definition view :: "project \<Rightarrow> project" where
  "view p = p\<lparr>pj_CreatedAt := 0, pj_ArchivedAt := map_option (\<lambda>_. 0) (pj_ArchivedAt p)\<rparr>"

definition dated :: "project \<Rightarrow> bool" where
  "dated p \<longleftrightarrow>
     (pj_Status p = ProjectStatusActive \<and> pj_ArchivedAt p = None) \<or>
     (pj_Status p = ProjectStatusArchived \<and> pj_ArchivedAt p \<noteq> None)"

definition views :: "registry \<Rightarrow> (string \<times> project) list" where
  "views t = map (\<lambda>(k, p). (k, view p)) (rows t)"

definition twins :: "registry \<Rightarrow> registry \<Rightarrow> bool" where
  "twins t u \<longleftrightarrow> views t = views u \<and> (\<forall>p \<in> snd ` set (views t). dated p)"

definition calm :: "env_store \<Rightarrow> bool" where
  "calm env \<longleftrightarrow> (\<forall>n. es_faults env n = Fine)"

lemma calm_svc:
  "calm env \<Longrightarrow> fst (svc env f t) = fst (f (rows t))"
  "calm env \<Longrightarrow> rows (snd (svc env f t)) = snd (f (rows t))"
  by (simp_all add: calm_def svc_Fine)

lemma map_update: "map (\<lambda>(k, p). (k, g p)) (AList.update k v al) = AList.update k (g v) (map (\<lambda>(k, p). (k, g p)) al)"
  by (induction al) auto

lemma map_of_views: "map_of (views t) k = map_option view (row t k)"
  by (simp add: views_def map_of_map)

lemma row_views_None: "views t = views u \<Longrightarrow> row t k = None \<longleftrightarrow> row u k = None"
  by (metis map_of_views option.map_disc_iff)

lemma row_views_Some:
  "views t = views u \<Longrightarrow> row t k = Some p \<Longrightarrow> \<exists>q. row u k = Some q \<and> view q = view p"
  by (metis map_of_views map_option_eq_Some)

lemma dated_view [simp]: "dated (view p) = dated p"
  by (simp add: dated_def view_def)

lemma snd_update: "x \<in> snd ` set (AList.update k v al) \<Longrightarrow> x = v \<or> x \<in> snd ` set al"
  by (induction al) (auto split: if_splits)

lemma twins_None: "twins t u \<Longrightarrow> row t k = None \<longleftrightarrow> row u k = None"
  by (rule row_views_None) (simp add: twins_def)

lemma twins_Some: "twins t u \<Longrightarrow> row t k = Some p \<Longrightarrow> \<exists>q. row u k = Some q \<and> view q = view p"
  by (rule row_views_Some) (simp_all add: twins_def)

lemma twins_update:
  assumes "twins t u" "view p = view q" "dated p"
    and "rows t' = AList.update k p (rows t)" "rows u' = AList.update k q (rows u)"
  shows "twins t' u'"
proof -
  have v: "views t' = AList.update k (view p) (views t)" "views u' = AList.update k (view q) (views u)"
    using assms(4,5) by (simp_all add: views_def map_update)
  have "\<forall>x \<in> snd ` set (AList.update k (view p) (views t)). dated x"
  proof
    fix x assume "x \<in> snd ` set (AList.update k (view p) (views t))"
    then have "x = view p \<or> x \<in> snd ` set (views t)" by (rule snd_update)
    with assms(1,3) show "dated x" by (auto simp: twins_def)
  qed
  with v assms(1,2) show ?thesis by (simp add: twins_def)
qed

lemma twins_row_dated: "twins t u \<Longrightarrow> row t k = Some p \<Longrightarrow> dated p"
  by (auto simp: twins_def views_def dest!: map_of_SomeD)

lemma twins_rows: "twins t u \<Longrightarrow> rows t' = rows t \<Longrightarrow> rows u' = rows u \<Longrightarrow> twins t' u'"
proof -
  assume "twins t u" and r: "rows t' = rows t" "rows u' = rows u"
  from r have "views t' = views t" "views u' = views u" by (simp_all add: views_def)
  with \<open>twins t u\<close> show "twins t' u'" by (simp add: twins_def)
qed

lemma twins_add:
  assumes "calm E" "calm F" "twins t u" "pj_Status p \<in> {[], ProjectStatusActive}" "pj_ArchivedAt p = None"
  shows "fst (sqlite_Add E p t) = fst (firestore_Add F p u) \<and>
         twins (snd (sqlite_Add E p t)) (snd (firestore_Add F p u))"
proof (cases "ValidateProjectID (pj_ID p)")
  case (Some e)
  with assms(3) show ?thesis by (simp add: sqlite_Add_def firestore_Add_def)
next
  case None
  let ?s = "sqlite_project_row (es_now E) p" and ?d = "firestore_project_doc (es_now F) p"
  have vw: "view ?s = view ?d" "dated ?s"
    using assms(4,5) by (auto simp: view_def dated_def sqlite_project_row_def firestore_project_doc_def Let_def)
  have n: "row t (pj_ID p) = None \<longleftrightarrow> row u (pj_ID p) = None"
    by (rule twins_None[OF assms(3)])
  show ?thesis
  proof (cases "row t (pj_ID p)")
    case None
    with n have "row u (pj_ID p) = None" by simp
    note r = this None
    have "rows (snd (svc E (row_create (pj_ID p) ?s) t)) = AList.update (pj_ID p) ?s (rows t)"
      "rows (snd (svc F (row_create (pj_ID p) ?d) u)) = AList.update (pj_ID p) ?d (rows u)"
      using r by (simp_all add: calm_svc assms(1,2) row_create_def)
    from twins_update[OF assms(3) vw this] show ?thesis
      using \<open>ValidateProjectID (pj_ID p) = None\<close> r
      by (simp add: sqlite_Add_def firestore_Add_def map_err_def calm_svc assms(1,2) row_create_def)
  next
    case (Some x)
    with n obtain y where "row u (pj_ID p) = Some y" by auto
    with Some \<open>ValidateProjectID (pj_ID p) = None\<close> show ?thesis
      by (auto simp: sqlite_Add_def firestore_Add_def map_err_def calm_svc assms(1,2) row_create_def
          intro: twins_rows[OF assms(3)])
  qed
qed

lemma twins_get:
  assumes "calm E" "calm F" "twins t u"
  shows "map_sum (\<lambda>e. e) view (fst (sqlite_Get E k t)) = map_sum (\<lambda>e. e) view (fst (firestore_Get F k u)) \<and>
         twins (snd (sqlite_Get E k t)) (snd (firestore_Get F k u))"
proof (cases "row t k")
  case None
  with assms(3) have "row u k = None" using twins_None by blast
  with None show ?thesis
    by (auto simp: sqlite_Get_def firestore_Get_def map_err_def calm_svc assms(1,2) row_get_def
        intro: twins_rows[OF assms(3)])
next
  case (Some p)
  with assms(3) obtain q where "row u k = Some q" "view q = view p"
    using twins_Some by blast
  with Some show ?thesis
    by (auto simp: sqlite_Get_def firestore_Get_def map_err_def calm_svc assms(1,2) row_get_def
        intro: twins_rows[OF assms(3)])
qed

lemma view_fields: "view p = view q \<longleftrightarrow>
  same_project p q \<and> pj_Status p = pj_Status q \<and> (pj_ArchivedAt p = None \<longleftrightarrow> pj_ArchivedAt q = None)"
  by (cases p; cases q; cases "pj_ArchivedAt p"; cases "pj_ArchivedAt q")
     (auto simp: view_def same_project_def)

lemma update_same_row: "row t k = Some p \<Longrightarrow> AList.update k p (rows t) = rows t"
  by (simp add: update_triv)

lemma twins_archive:
  assumes "calm E" "calm F" "twins t u"
  shows "fst (sqlite_Archive E k t) = fst (firestore_Archive F k u) \<and>
         twins (snd (sqlite_Archive E k t)) (snd (firestore_Archive F k u))"
proof (cases "row t k")
  case None
  with assms(3) have "row u k = None" using twins_None by blast
  with None show ?thesis
    by (auto simp: sqlite_Archive_def firestore_Archive_def map_err_def Let_def calm_svc assms(1,2)
        row_update_def row_get_def intro: twins_rows[OF assms(3)])
next
  case (Some p)
  with assms(3) obtain q where q: "row u k = Some q" "view p = view q"
    using twins_Some by metis
  have dp: "dated p" using twins_row_dated[OF assms(3) Some] .
  let ?g = "svc F (row_get k) u"
  have g: "fst ?g = Inr q" "rows (snd ?g) = rows u"
    using q(1) by (simp_all add: calm_svc assms(2) row_get_def)
  have st: "pj_Status p = pj_Status q" using q(2) by (simp add: view_fields)
  let ?s = "sqlite_archive_row (es_now E) p"
  have rt: "rows (snd (sqlite_Archive E k t)) = AList.update k ?s (rows t)"
    and ft: "fst (sqlite_Archive E k t) = Inr ()"
    using Some by (simp_all add: sqlite_Archive_def calm_svc assms(1) row_update_def)
  show ?thesis
  proof (cases "pj_Status q = ProjectStatusArchived")
    case True
    then have "?s = p" using dp st by (cases p) (auto simp: sqlite_archive_row_def dated_def)
    with rt Some have "rows (snd (sqlite_Archive E k t)) = rows t" by (simp add: update_same_row)
    moreover have "firestore_Archive F k u = (Inr (), snd ?g)"
      using g True by (simp add: firestore_Archive_def)
    ultimately show ?thesis using ft g twins_rows[OF assms(3)] by simp
  next
    case False
    let ?f = "firestore_archive_fields (es_now F) q"
    have fs: "firestore_Archive F k u = map_err other_error
        (svc F (row_update k (firestore_archive_fields (es_now F))) (snd ?g))"
      using g False by (simp add: firestore_Archive_def)
    then have "rows (snd (firestore_Archive F k u)) = AList.update k ?f (rows u)"
      and ff: "fst (firestore_Archive F k u) = Inr ()"
      using g q(1) by (simp_all add: calm_svc assms(2) row_update_def)
    moreover have "view ?s = view ?f" "dated ?s"
      using q(2) by (auto simp: view_fields same_project_def sqlite_archive_row_def
          firestore_archive_fields_def dated_def split: option.splits)
    ultimately show ?thesis using twins_update[OF assms(3) _ _ rt] ft by simp
  qed
qed

section \<open>Properties\<close>

fun sqlite_apply :: "env_store \<times> registry_op \<Rightarrow> registry \<Rightarrow> (project_error + project option) \<times> registry" where
  "sqlite_apply (E, OpAdd p) t = map_prod (map_sum (\<lambda>e. e) (\<lambda>_. None)) (\<lambda>t. t) (sqlite_Add E p t)"
| "sqlite_apply (E, OpGet k) t = map_prod (map_sum (\<lambda>e. e) Some) (\<lambda>t. t) (sqlite_Get E k t)"
| "sqlite_apply (E, OpArchive k) t = map_prod (map_sum (\<lambda>e. e) (\<lambda>_. None)) (\<lambda>t. t) (sqlite_Archive E k t)"

fun firestore_apply :: "env_store \<times> registry_op \<Rightarrow> registry \<Rightarrow> (project_error + project option) \<times> registry" where
  "firestore_apply (E, OpAdd p) t = map_prod (map_sum (\<lambda>e. e) (\<lambda>_. None)) (\<lambda>t. t) (firestore_Add E p t)"
| "firestore_apply (E, OpGet k) t = map_prod (map_sum (\<lambda>e. e) Some) (\<lambda>t. t) (firestore_Get E k t)"
| "firestore_apply (E, OpArchive k) t = map_prod (map_sum (\<lambda>e. e) (\<lambda>_. None)) (\<lambda>t. t) (firestore_Archive E k t)"

fun outcomes :: "('x \<Rightarrow> registry \<Rightarrow> 'r \<times> registry) \<Rightarrow> 'x list \<Rightarrow> registry \<Rightarrow> 'r list" where
  "outcomes f [] t = []"
| "outcomes f (x # xs) t = fst (f x t) # outcomes f xs (snd (f x t))"

lemma apply_after:
  "snd (sqlite_apply op t) = sqlite_reg.after op t"
  "snd (firestore_apply op t) = firestore_reg.after op t"
  by (cases "(op, t)" rule: sqlite_apply.cases; simp)+

text \<open>In both adapters, and whatever calls of the database fail or lose their answers, a
  registered project is never lost, never replaced and never changes its identity, repository,
  workspace, channel, installation or creation date; once archived it stays archived with its
  archive date; and every registered identifier is a valid one.\<close>

theorem registry_permanence:
  assumes "row t k = Some q"
  shows "(\<exists>q'. row (fold (\<lambda>op t. snd (sqlite_apply op t)) ops t) k = Some q' \<and> same_project q q' \<and>
            pj_CreatedAt q' = pj_CreatedAt q \<and> (settled q \<longrightarrow> q' = q)) \<and>
         (\<exists>q'. row (fold (\<lambda>op t. snd (firestore_apply op t)) ops t) k = Some q' \<and> same_project q q' \<and>
            pj_CreatedAt q' = pj_CreatedAt q \<and> (settled q \<longrightarrow> q' = q)) \<and>
         (row (fold (\<lambda>op t. snd (sqlite_apply op t)) ops empty_table) pid \<noteq> None \<longrightarrow>
            ValidateProjectID pid = None) \<and>
         (row (fold (\<lambda>op t. snd (firestore_apply op t)) ops empty_table) pid \<noteq> None \<longrightarrow>
            ValidateProjectID pid = None)"
proof -
  have e: "sqlite_reg.ids_valid empty_table"
    by (simp add: sqlite_reg.ids_valid_def empty_table_def)
  have "sqlite_reg.ids_valid (fold sqlite_reg.after ops empty_table)"
    by (rule sqlite_reg.reachable_ids_valid[OF e])
  moreover have "firestore_reg.ids_valid (fold firestore_reg.after ops empty_table)"
    by (rule firestore_reg.reachable_ids_valid[OF e])
  ultimately show ?thesis
    using sqlite_reg.permanence[OF assms, of ops] firestore_reg.permanence[OF assms, of ops]
    by (auto simp: apply_after sqlite_reg.ids_valid_def firestore_reg.ids_valid_def)
qed

definition sample_project :: project where
  "sample_project =
     \<lparr>pj_ID = ''web'', pj_GitHubOrg = ''o'', pj_GitHubRepo = ''r'', pj_WorkspacePath = ''/w'',
      pj_SlackDefaultChannel = [], pj_GitHubAppInstallationID = 7, pj_Status = ProjectStatusActive,
      pj_CreatedAt = 5, pj_ArchivedAt = None\<rparr>"

definition calm_store :: env_store where
  "calm_store = \<lparr>es_faults = (\<lambda>_. Fine), es_now = 3000000000\<rparr>"

theorem registry_permanence_witness:
  "\<exists>q'. row (snd (sqlite_apply (calm_store, OpArchive ''web'')
      \<lparr>rows = [(''web'', sample_project)], ncalls = 0\<rparr>)) ''web'' = Some q' \<and>
     pj_GitHubRepo q' = ''r''"
proof -
  have "row \<lparr>rows = [(''web'', sample_project)], ncalls = 0\<rparr> ''web'' = Some sample_project" by simp
  from conjunct1[OF registry_permanence[OF this, of "[(calm_store, OpArchive ''web'')]" "[]"]]
  obtain q' where
    "row (snd (sqlite_apply (calm_store, OpArchive ''web'')
      \<lparr>rows = [(''web'', sample_project)], ncalls = 0\<rparr>)) ''web'' = Some q'"
    "same_project sample_project q'" by (auto simp del: sqlite_apply.simps)
  then show ?thesis by (auto simp: same_project_def sample_project_def)
qed



end
