(* ===== verification/Go_Json.thy ===== *)
theory Go_Json
  imports Go_Strings
begin

text \<open>
  JSON values and the rules by which \<open>encoding/json\<close> stores an object into a Go struct: a member goes
  to the field of that name, else to one that differs in letter case only; of several members for
  one field the last wins; \<open>null\<close> leaves the field alone; a member of the wrong type is an error;
  other members are ignored.  The text level (bytes to value) is an argument of the definitions
  that read JSON text.
\<close>

datatype json =
    JNull
  | JBool bool
  | JInt int
  | JDec string
  | JStr string
  | JArr "json list"
  | JObj "(string \<times> json) list"

type_synonym json_text = "string \<Rightarrow> json option"

definition lower_chr :: "char \<Rightarrow> char" where
  "lower_chr c =
     (case map_of (zip ''ABCDEFGHIJKLMNOPQRSTUVWXYZ'' ''abcdefghijklmnopqrstuvwxyz'') c of
        Some d \<Rightarrow> d | None \<Rightarrow> c)"

definition lower :: "string \<Rightarrow> string" where
  "lower s = map lower_chr s"

text \<open>The field of a struct with fields \<open>names\<close> that a member named \<open>k\<close> is stored to.\<close>

definition struct_field :: "string list \<Rightarrow> string \<Rightarrow> string option" where
  "struct_field names k =
     (if k \<in> set names then Some k else find (\<lambda>n. lower n = lower k) names)"

fun as_string :: "json \<Rightarrow> string \<Rightarrow> string option" where
  "as_string (JStr s) old = Some s"
| "as_string JNull old = Some old"
| "as_string _ old = None"

fun as_bool :: "json \<Rightarrow> bool \<Rightarrow> bool option" where
  "as_bool (JBool b) old = Some b"
| "as_bool JNull old = Some old"
| "as_bool _ old = None"

fun as_int64 :: "json \<Rightarrow> int64 \<Rightarrow> int64 option" where
  "as_int64 (JInt i) old = (if - (2 ^ 63) \<le> i \<and> i < 2 ^ 63 then Some (word_of_int i) else None)"
| "as_int64 JNull old = Some old"
| "as_int64 _ old = None"

text \<open>Reading one field: fold over the members in order.\<close>

fun read_field ::
  "('v \<Rightarrow> 'a \<Rightarrow> 'a option) \<Rightarrow> string list \<Rightarrow> string \<Rightarrow> (string \<times> 'v) list \<Rightarrow> 'a \<Rightarrow> 'a option" where
  "read_field conv names f [] acc = Some acc"
| "read_field conv names f ((k, v) # kvs) acc =
     (if struct_field names k = Some f
      then (case conv v acc of None \<Rightarrow> None | Some acc' \<Rightarrow> read_field conv names f kvs acc')
      else read_field conv names f kvs acc)"

abbreviation str_field :: "string list \<Rightarrow> string \<Rightarrow> (string \<times> json) list \<Rightarrow> string option" where
  "str_field names f kvs \<equiv> read_field as_string names f kvs []"

abbreviation int_field :: "string list \<Rightarrow> string \<Rightarrow> (string \<times> json) list \<Rightarrow> int64 option" where
  "int_field names f kvs \<equiv> read_field as_int64 names f kvs 0"

abbreviation bool_field :: "string list \<Rightarrow> string \<Rightarrow> (string \<times> json) list \<Rightarrow> bool option" where
  "bool_field names f kvs \<equiv> read_field as_bool names f kvs False"

text \<open>The members of a top-level value read into a struct: \<open>null\<close> is the empty object, any other
  value but an object is a type error.\<close>

fun members :: "json \<Rightarrow> (string \<times> json) list option" where
  "members (JObj kvs) = Some kvs"
| "members JNull = Some []"
| "members _ = None"

lemma struct_field_exact [simp]: "k \<in> set names \<Longrightarrow> struct_field names k = Some k"
  by (simp add: struct_field_def)

lemma read_field_append:
  "read_field conv names f (xs @ ys) acc =
     (case read_field conv names f xs acc of None \<Rightarrow> None | Some a \<Rightarrow> read_field conv names f ys a)"
  by (induction xs arbitrary: acc) (auto split: option.splits if_splits)

lemma read_field_absent:
  "\<forall>(k, v) \<in> set kvs. struct_field names k \<noteq> Some f \<Longrightarrow>
     read_field conv names f kvs acc = Some acc"
  by (induction kvs) auto

end
