(* ===== verification/Broker.thy ===== *)
theory Broker
  imports Project_Registry Go_Json Approval_Domain
begin

text \<open>
  The credential broker (\<open>POST /broker/token\<close>): the grant matrix, agent sessions and identity tokens
  (\<open>internal/core/domain\<close>), the verifiers of the four kinds of callers and their dispatcher
  (\<open>internal/adapter/output/auth\<close>), the session registries (\<open>output/registry\<close>), the token cache
  (\<open>output/cache\<close>), the GitHub adapter (\<open>output/github/installation_token_broker.go\<close>), the use case
  (\<open>internal/usecase/broker_token.go\<close>) and the handler (\<open>internal/adapter/input/broker\<close>).  Signature
  verification, base64, JSON text, SHA-256 and the GitHub API are arguments.
\<close>

section \<open>The grant matrix\<close>

definition ToolPaintress :: string where [go_consts]: "ToolPaintress = ''paintress''"
definition ToolSightjack :: string where [go_consts]: "ToolSightjack = ''sightjack''"
definition ToolAmadeus :: string where [go_consts]: "ToolAmadeus = ''amadeus''"
definition ToolDominator :: string where [go_consts]: "ToolDominator = ''dominator''"
definition ToolPhonewave :: string where [go_consts]: "ToolPhonewave = ''phonewave''"

definition PermNone :: string where [go_consts]: "PermNone = []"
definition PermRead :: string where [go_consts]: "PermRead = ''read''"
definition PermWrite :: string where [go_consts]: "PermWrite = ''write''"

record repository_permissions =
  rp_Contents :: string
  rp_PullRequests :: string

datatype broker_error =
    ErrToolNotPermitted
  | BrokerProject project_error
  | ErrProjectNotActive
  | ErrProjectInstallationMissing
  | UpstreamMint string

definition PermissionsFor :: "string \<Rightarrow> broker_error + repository_permissions" where
  "PermissionsFor tool =
     (if tool = ToolPaintress then Inr \<lparr>rp_Contents = PermWrite, rp_PullRequests = PermWrite\<rparr>
      else if tool = ToolSightjack then Inr \<lparr>rp_Contents = PermRead, rp_PullRequests = PermNone\<rparr>
      else if tool = ToolAmadeus then Inr \<lparr>rp_Contents = PermRead, rp_PullRequests = PermRead\<rparr>
      else if tool = ToolDominator then Inr \<lparr>rp_Contents = PermRead, rp_PullRequests = PermNone\<rparr>
      else if tool = ToolPhonewave then Inl ErrToolNotPermitted
      else Inl ErrToolNotPermitted)"

definition IsAllowed :: "string \<Rightarrow> string \<Rightarrow> broker_error option" where
  "IsAllowed caller tool = (case PermissionsFor tool of Inl e \<Rightarrow> Some e | Inr _ \<Rightarrow> None)"

datatype request_error = ErrRequestSchemaViolation | ErrUnknownRequestField

definition allowedRequestFields :: "string list" where
  "allowedRequestFields = [''project_id'', ''tool'', ''session_id'']"

definition knownEscalationFields :: "string list" where
  "knownEscalationFields =
     [''repo'', ''repository'', ''repositories'', ''permissions'', ''installation_id'', ''actor_type'', ''actor'']"

text \<open>The keys of the decoded map, in the order of its iteration.\<close>

fun ValidateBrokerRequest :: "string list \<Rightarrow> request_error option" where
  "ValidateBrokerRequest [] = None"
| "ValidateBrokerRequest (k # ks) =
     (if k \<in> set allowedRequestFields then ValidateBrokerRequest ks
      else if k \<in> set knownEscalationFields then Some ErrRequestSchemaViolation
      else Some ErrUnknownRequestField)"

section \<open>Agent sessions\<close>

record agent_session =
  as_SessionID :: string
  as_WorkspaceDaemonSA :: string
  as_ProjectID :: string
  as_Tool :: string
  as_IssuedAt :: gotime
  as_ExpiresAt :: gotime
  as_RevokedAt :: "gotime option"

datatype session_error =
    SessionInvalid string
  | ErrAgentSessionRevoked
  | ErrAgentSessionExpired
  | ErrAgentSessionSAMismatch
  | ErrAgentSessionProjectMismatch
  | ErrAgentSessionToolMismatch
  | ErrAgentSessionNotFound
  | SessionExists string
  | SessionInfra string

definition newSessionID :: "string option \<Rightarrow> string option" where
  "newSessionID random = map_option (\<lambda>b. concat (map hex_byte b)) random"

definition NewAgentSession ::
  "string option \<Rightarrow> string \<Rightarrow> string \<Rightarrow> string \<Rightarrow> int64 \<Rightarrow> gotime \<Rightarrow> session_error + agent_session" where
  "NewAgentSession random workspaceDaemonSA projectID tool ttl now =
     (if workspaceDaemonSA = [] then Inl (SessionInvalid ''workspace_daemon_sa is required'')
      else if projectID = [] then Inl (SessionInvalid ''project_id is required'')
      else case PermissionsFor tool of
        Inl _ \<Rightarrow> Inl (SessionInvalid ''tool not permitted'')
      | Inr _ \<Rightarrow>
          if ttl \<le>s 0 then Inl (SessionInvalid ''ttl must be positive'')
          else (case newSessionID random of
             None \<Rightarrow> Inl (SessionInvalid ''cannot generate session id'')
           | Some sid \<Rightarrow>
               Inr \<lparr>as_SessionID = sid, as_WorkspaceDaemonSA = workspaceDaemonSA, as_ProjectID = projectID,
                    as_Tool = tool, as_IssuedAt = now, as_ExpiresAt = now + sint ttl, as_RevokedAt = None\<rparr>))"

definition VerifyAgentSession ::
  "agent_session \<Rightarrow> string \<Rightarrow> string \<Rightarrow> string \<Rightarrow> gotime \<Rightarrow> session_error option" where
  "VerifyAgentSession sess claimedSA projectID tool now =
     (if as_RevokedAt sess \<noteq> None then Some ErrAgentSessionRevoked
      else if \<not> now < as_ExpiresAt sess then Some ErrAgentSessionExpired
      else if as_WorkspaceDaemonSA sess \<noteq> claimedSA then Some ErrAgentSessionSAMismatch
      else if as_ProjectID sess \<noteq> projectID then Some ErrAgentSessionProjectMismatch
      else if as_Tool sess \<noteq> tool then Some ErrAgentSessionToolMismatch
      else None)"

subsection \<open>The registries\<close>

text \<open>In memory: a map under a mutex, so every method is one step.\<close>

type_synonym sessions = "string \<Rightarrow> agent_session option"

definition memory_Register :: "agent_session \<Rightarrow> sessions \<Rightarrow> session_error option \<times> sessions" where
  "memory_Register sess m =
     (if m (as_SessionID sess) \<noteq> None then (Some (SessionExists (as_SessionID sess)), m)
      else (None, m(as_SessionID sess \<mapsto> sess)))"

definition memory_Get :: "string \<Rightarrow> sessions \<Rightarrow> (session_error + agent_session) \<times> sessions" where
  "memory_Get sid m = (case m sid of None \<Rightarrow> Inl ErrAgentSessionNotFound | Some s \<Rightarrow> Inr s, m)"

definition memory_Revoke :: "gotime \<Rightarrow> string \<Rightarrow> sessions \<Rightarrow> session_error option \<times> sessions" where
  "memory_Revoke now sid m =
     (case m sid of
        None \<Rightarrow> (Some ErrAgentSessionNotFound, m)
      | Some s \<Rightarrow>
          if as_RevokedAt s \<noteq> None then (None, m)
          else (None, m(sid \<mapsto> s\<lparr>as_RevokedAt := Some now\<rparr>)))"

text \<open>Firestore keeps microseconds.  A revocation is two calls, a read and an update.\<close>

type_synonym session_table = "agent_session table"

definition session_doc :: "agent_session \<Rightarrow> agent_session" where
  "session_doc s =
     s\<lparr>as_IssuedAt := firestore_time (as_IssuedAt s), as_ExpiresAt := firestore_time (as_ExpiresAt s),
       as_RevokedAt := map_option firestore_time (as_RevokedAt s)\<rparr>"

fun session_create_error :: "string \<Rightarrow> svc_error \<Rightarrow> session_error" where
  "session_create_error sid AlreadyExists = SessionExists sid"
| "session_create_error sid NotFound = SessionInfra ''not found''"
| "session_create_error sid (Infra e) = SessionInfra e"

fun session_get_error :: "svc_error \<Rightarrow> session_error" where
  "session_get_error NotFound = ErrAgentSessionNotFound"
| "session_get_error AlreadyExists = SessionInfra ''already exists''"
| "session_get_error (Infra e) = SessionInfra e"

fun session_update_error :: "svc_error \<Rightarrow> session_error" where
  "session_update_error NotFound = SessionInfra ''not found''"
| "session_update_error AlreadyExists = SessionInfra ''already exists''"
| "session_update_error (Infra e) = SessionInfra e"

definition firestore_Register ::
  "env_store \<Rightarrow> agent_session \<Rightarrow> session_table \<Rightarrow> session_error option \<times> session_table" where
  "firestore_Register env sess t =
     (if as_SessionID sess = [] then (Some (SessionInvalid ''SessionID is required''), t)
      else (let r = map_err (session_create_error (as_SessionID sess))
                      (svc env (row_create (as_SessionID sess) (session_doc sess)) t)
            in (sum_err (fst r), snd r)))"

definition firestore_session_Get ::
  "env_store \<Rightarrow> string \<Rightarrow> session_table \<Rightarrow> (session_error + agent_session) \<times> session_table" where
  "firestore_session_Get env sid t = map_err session_get_error (svc env (row_get sid) t)"

definition firestore_Revoke ::
  "env_store \<Rightarrow> string \<Rightarrow> session_table \<Rightarrow> session_error option \<times> session_table" where
  "firestore_Revoke env sid t =
     (let r = map_err session_get_error (svc env (row_get sid) t)
      in case fst r of
           Inl e \<Rightarrow> (Some e, snd r)
         | Inr existing \<Rightarrow>
             if as_RevokedAt existing \<noteq> None then (None, snd r)
             else
               (let u = map_err session_update_error
                          (svc env (row_update sid
                             (\<lambda>s. s\<lparr>as_RevokedAt := Some (firestore_time (es_now env))\<rparr>)) (snd r))
                in (sum_err (fst u), snd u)))"

section \<open>Identity tokens\<close>

record identity_claims =
  ic_Issuer :: string
  ic_Audience :: string
  ic_Subject :: string
  ic_Email :: string
  ic_ExpiresAt :: gotime

datatype auth_error =
    ErrIdentityTokenMalformed
  | ErrIdentityTokenAudienceMismatch
  | ErrIdentityTokenExpired
  | JwksVerify string
  | ErrJWKSTokenInvalid
  | ErrIssuerMismatch
  | ErrEmailNotInAllowlist
  | AuthSession session_error
  | ErrBearerMissing
  | ErrBearerMalformed
  | ErrCallerTypeMissing
  | ErrCallerTypeUnknown
  | ErrAIAgentMissingSessionID

definition claim_fields :: "string list" where
  "claim_fields = [''iss'', ''aud'', ''sub'', ''email'', ''exp'']"

text \<open>A field of type \<open>any\<close> holds the last value, \<open>null\<close> included.\<close>

fun as_any :: "json \<Rightarrow> json \<Rightarrow> json option" where
  "as_any v old = Some v"

fun normaliseAudience :: "json \<Rightarrow> auth_error + string" where
  "normaliseAudience (JStr s) = Inr s"
| "normaliseAudience (JArr vs) =
     (case vs of JStr s # _ \<Rightarrow> Inr s | _ \<Rightarrow> Inl ErrIdentityTokenMalformed)"
| "normaliseAudience JNull = Inr []"
| "normaliseAudience _ = Inl ErrIdentityTokenMalformed"

text \<open>\<open>time.Unix\<close>: 62135596800 seconds lie between the zero time and 1970; the sum wraps.\<close>

definition time_Unix :: "int64 \<Rightarrow> gotime" where
  "time_Unix sec = sint (sec + 62135596800) * second"

record token_text =
  tt_base64 :: "string \<Rightarrow> string option"
  tt_json :: json_text

definition ParseIdentityClaims :: "token_text \<Rightarrow> string \<Rightarrow> auth_error + identity_claims" where
  "ParseIdentityClaims T jwt =
     (case split_chr CHR ''.'' jwt of
        [_, payload, _] \<Rightarrow>
          (case do { body \<leftarrow> tt_base64 T payload; j \<leftarrow> tt_json T body; kvs \<leftarrow> members j;
                     iss \<leftarrow> str_field claim_fields ''iss'' kvs;
                     aud \<leftarrow> read_field as_any claim_fields ''aud'' kvs JNull;
                     sub \<leftarrow> str_field claim_fields ''sub'' kvs;
                     email \<leftarrow> str_field claim_fields ''email'' kvs;
                     exp \<leftarrow> int_field claim_fields ''exp'' kvs;
                     Some (iss, aud, sub, email, exp) } of
             None \<Rightarrow> Inl ErrIdentityTokenMalformed
           | Some (iss, aud, sub, email, exp) \<Rightarrow>
               (case normaliseAudience aud of
                  Inl e \<Rightarrow> Inl e
                | Inr a \<Rightarrow>
                    Inr \<lparr>ic_Issuer = iss, ic_Audience = a, ic_Subject = sub, ic_Email = email,
                         ic_ExpiresAt = time_Unix exp\<rparr>))
      | _ \<Rightarrow> Inl ErrIdentityTokenMalformed)"

definition claims_Validate :: "identity_claims \<Rightarrow> gotime \<Rightarrow> string \<Rightarrow> auth_error option" where
  "claims_Validate c now expectedAudience =
     (if ic_Audience c \<noteq> expectedAudience then Some ErrIdentityTokenAudienceMismatch
      else if \<not> now < ic_ExpiresAt c then Some ErrIdentityTokenExpired
      else None)"

section \<open>Verifiers\<close>

text \<open>What \<open>jwt.Parse\<close> says of a token: an error, a token that is not valid, or a valid one.\<close>

datatype jwt_result = JwtError string | JwtNotValid | JwtValid

record jwks_verifier =
  jv_Parse :: "string \<Rightarrow> jwt_result"
  jv_Audience :: string

definition VerifyAndParse ::
  "token_text \<Rightarrow> jwks_verifier \<Rightarrow> gotime \<Rightarrow> string \<Rightarrow> auth_error + identity_claims" where
  "VerifyAndParse T v now jwt =
     (case jv_Parse v jwt of
        JwtError e \<Rightarrow> Inl (JwksVerify e)
      | JwtNotValid \<Rightarrow> Inl ErrJWKSTokenInvalid
      | JwtValid \<Rightarrow>
          (case ParseIdentityClaims T jwt of
             Inl e \<Rightarrow> Inl e
           | Inr claims \<Rightarrow>
               (case claims_Validate claims now (jv_Audience v) of
                  Some e \<Rightarrow> Inl e
                | None \<Rightarrow> Inr claims)))"

record broker_actor =
  ba_Type :: CallerType
  ba_UserEmail :: string
  ba_SessionID :: string

text \<open>No list of operators means that every identity of the issuer is accepted; the two verifiers of
  service accounts cannot be built without a list.\<close>

record operator_verifier =
  ov_signature :: jwks_verifier
  ov_issuer :: string
  ov_emailAllowlist :: "string list option"

record service_verifier =
  sv_signature :: jwks_verifier
  sv_issuer :: string
  sv_saAllowlist :: "string list"

definition NewGcloudIdentityTokenVerifier :: "jwks_verifier \<Rightarrow> string \<Rightarrow> string list \<Rightarrow> operator_verifier" where
  "NewGcloudIdentityTokenVerifier jwks issuer emails =
     \<lparr>ov_signature = jwks, ov_issuer = issuer,
      ov_emailAllowlist = (if emails \<noteq> [] then Some emails else None)\<rparr>"

definition NewCloudRunIAMVerifier :: "jwks_verifier \<Rightarrow> string \<Rightarrow> string list \<Rightarrow> string + service_verifier" where
  "NewCloudRunIAMVerifier jwks issuer emails =
     (if emails = [] then Inl ''cloudrun_iam: service-account allowlist must be non-empty''
      else Inr \<lparr>sv_signature = jwks, sv_issuer = issuer, sv_saAllowlist = emails\<rparr>)"

definition NewWorkloadIdentityVerifier :: "jwks_verifier \<Rightarrow> string \<Rightarrow> string list \<Rightarrow> string + service_verifier" where
  "NewWorkloadIdentityVerifier jwks issuer emails =
     (if emails = [] then Inl ''workload_identity: SA allowlist must be non-empty''
      else Inr \<lparr>sv_signature = jwks, sv_issuer = issuer, sv_saAllowlist = emails\<rparr>)"

definition operator_VerifyBearerToken ::
  "token_text \<Rightarrow> operator_verifier \<Rightarrow> gotime \<Rightarrow> string \<Rightarrow> auth_error + broker_actor" where
  "operator_VerifyBearerToken T v now jwt =
     (case VerifyAndParse T (ov_signature v) now jwt of
        Inl e \<Rightarrow> Inl e
      | Inr claims \<Rightarrow>
          if ic_Issuer claims \<noteq> ov_issuer v then Inl ErrIssuerMismatch
          else if (case ov_emailAllowlist v of Some allow \<Rightarrow> ic_Email claims \<notin> set allow | None \<Rightarrow> False)
          then Inl ErrEmailNotInAllowlist
          else Inr \<lparr>ba_Type = CallerHumanOperator, ba_UserEmail = ic_Email claims, ba_SessionID = []\<rparr>)"

definition cloudrun_VerifyBearerToken ::
  "token_text \<Rightarrow> service_verifier \<Rightarrow> gotime \<Rightarrow> string \<Rightarrow> auth_error + broker_actor" where
  "cloudrun_VerifyBearerToken T v now jwt =
     (case VerifyAndParse T (sv_signature v) now jwt of
        Inl e \<Rightarrow> Inl e
      | Inr claims \<Rightarrow>
          if ic_Issuer claims \<noteq> sv_issuer v then Inl ErrIssuerMismatch
          else if ic_Email claims \<notin> set (sv_saAllowlist v) then Inl ErrEmailNotInAllowlist
          else Inr \<lparr>ba_Type = CallerGatewayService, ba_UserEmail = ic_Email claims, ba_SessionID = []\<rparr>)"

definition workload_VerifyBearerToken ::
  "token_text \<Rightarrow> service_verifier \<Rightarrow> gotime \<Rightarrow> string \<Rightarrow> auth_error + broker_actor" where
  "workload_VerifyBearerToken T v now jwt =
     (case VerifyAndParse T (sv_signature v) now jwt of
        Inl e \<Rightarrow> Inl e
      | Inr claims \<Rightarrow>
          if ic_Issuer claims \<noteq> sv_issuer v then Inl ErrIssuerMismatch
          else if ic_Email claims \<notin> set (sv_saAllowlist v) then Inl ErrEmailNotInAllowlist
          else Inr \<lparr>ba_Type = CallerWorkspaceDaemon, ba_UserEmail = ic_Email claims, ba_SessionID = []\<rparr>)"

text \<open>The verifier of agents reads the claims without any look at the signature.\<close>

type_synonym 's session_get = "string \<Rightarrow> 's \<Rightarrow> (session_error + agent_session) \<times> 's"

definition VerifyAndResolve ::
  "token_text \<Rightarrow> 's session_get \<Rightarrow> string \<Rightarrow> gotime \<Rightarrow> string \<Rightarrow> string \<Rightarrow> string \<Rightarrow> string \<Rightarrow> 's \<Rightarrow>
   (auth_error + broker_actor) \<times> 's" where
  "VerifyAndResolve T get audience now bearerJWT sessionID projectID tool st =
     (case ParseIdentityClaims T bearerJWT of
        Inl e \<Rightarrow> (Inl e, st)
      | Inr claims \<Rightarrow>
          (case claims_Validate claims now audience of
             Some e \<Rightarrow> (Inl e, st)
           | None \<Rightarrow>
               (let r = get sessionID st
                in case fst r of
                     Inl e \<Rightarrow> (Inl (AuthSession e), snd r)
                   | Inr sess \<Rightarrow>
                       (case VerifyAgentSession sess (ic_Email claims) projectID tool now of
                          Some e \<Rightarrow> (Inl (AuthSession e), snd r)
                        | None \<Rightarrow>
                            (Inr \<lparr>ba_Type = CallerAIAgent, ba_UserEmail = ic_Email claims,
                                  ba_SessionID = sessionID\<rparr>, snd r)))))"

section \<open>The dispatcher of callers\<close>

record 's chain =
  ch_humanOperator :: operator_verifier
  ch_gatewayService :: service_verifier
  ch_workspaceDaemon :: service_verifier
  ch_audience :: string
  ch_session_get :: "'s session_get"

record broker_http =
  bq_Method :: string
  bq_Body :: "string option"
  bq_Authorization :: string
  bq_CallerType :: string
  bq_SessionID :: string

definition bearerPrefix :: string where "bearerPrefix = ''Bearer ''"

definition extractBearer :: "string \<Rightarrow> auth_error + string" where
  "extractBearer raw =
     (if raw = [] then Inl ErrBearerMissing
      else if \<not> prefix bearerPrefix raw then Inl ErrBearerMalformed
      else (let bearer = trim_space (trim_prefix raw bearerPrefix)
            in if bearer = [] then Inl ErrBearerMalformed else Inr bearer))"

definition Authenticate ::
  "token_text \<Rightarrow> 's chain \<Rightarrow> gotime \<Rightarrow> broker_http \<Rightarrow> string \<Rightarrow> string \<Rightarrow> 's \<Rightarrow>
   (auth_error + broker_actor) \<times> 's" where
  "Authenticate T c now r projectID tool st =
     (case extractBearer (bq_Authorization r) of
        Inl e \<Rightarrow> (Inl e, st)
      | Inr bearer \<Rightarrow>
          (let callerType = trim_space (bq_CallerType r)
           in if callerType = [] then (Inl ErrCallerTypeMissing, st)
              else if callerType = CallerHumanOperator
              then (operator_VerifyBearerToken T (ch_humanOperator c) now bearer, st)
              else if callerType = CallerGatewayService
              then (cloudrun_VerifyBearerToken T (ch_gatewayService c) now bearer, st)
              else if callerType = CallerWorkspaceDaemon
              then (workload_VerifyBearerToken T (ch_workspaceDaemon c) now bearer, st)
              else if callerType = CallerAIAgent
              then (let sessionID = trim_space (bq_SessionID r)
                    in if sessionID = [] then (Inl ErrAIAgentMissingSessionID, st)
                       else VerifyAndResolve T (ch_session_get c) (ch_audience c) now bearer sessionID projectID tool st)
              else (Inl ErrCallerTypeUnknown, st)))"

section \<open>Minting\<close>

text \<open>The GitHub API: the scope that is asked for, and the answers so far.\<close>

record mint_request =
  mr_InstallationID :: int64
  mr_Repositories :: "string list"
  mr_Contents :: "string option"
  mr_PullRequests :: "string option"

record github_token =
  gt_Token :: string
  gt_ExpiresAt :: gotime

record broker_request =
  br_ProjectID :: string
  br_Tool :: string
  br_SessionID :: string

record installation_token =
  it_Token :: string
  it_ExpiresAt :: gotime
  it_Actor :: broker_actor
  it_ProjectID :: string
  it_Tool :: string
  it_Permissions :: repository_permissions
  it_AuditFingerprint :: string

definition opt_permission :: "string \<Rightarrow> string option" where
  "opt_permission p = (if p \<noteq> PermNone then Some p else None)"

definition mint_options :: "int64 \<Rightarrow> string \<Rightarrow> repository_permissions \<Rightarrow> mint_request" where
  "mint_options installation repo perms =
     \<lparr>mr_InstallationID = installation, mr_Repositories = [repo],
      mr_Contents = opt_permission (rp_Contents perms),
      mr_PullRequests = opt_permission (rp_PullRequests perms)\<rparr>"

text \<open>What the broker works on: the projects as the registry answers at a call, the sessions, the token
  cache, and the requests sent to GitHub with their answers.\<close>

record 's broker_state =
  bs_sessions :: 's
  bs_items :: "string \<Rightarrow> installation_token option"
  bs_minted :: "(mint_request \<times> (string + github_token)) list"

record broker_env =
  be_project :: "string \<Rightarrow> project_error + project"
  be_project_at_mint :: "string \<Rightarrow> project_error + project"
  be_mint :: "mint_request \<Rightarrow> string + github_token"
  be_now :: gotime
  be_lookup :: gotime
  be_recheck :: gotime

definition AuditFingerprint :: "(string \<Rightarrow> string) \<Rightarrow> string \<Rightarrow> string" where
  "AuditFingerprint sha256_hex token = take 16 (sha256_hex token)"

definition github_Mint ::
  "(string \<Rightarrow> string) \<Rightarrow> broker_env \<Rightarrow> broker_request \<Rightarrow> broker_actor \<Rightarrow> ('s, 'z) broker_state_scheme \<Rightarrow>
   (broker_error + installation_token) \<times> ('s, 'z) broker_state_scheme" where
  "github_Mint sha256_hex E req actor st =
     (case PermissionsFor (br_Tool req) of
        Inl e \<Rightarrow> (Inl e, st)
      | Inr perms \<Rightarrow>
          (case be_project_at_mint E (br_ProjectID req) of
             Inl e \<Rightarrow> (Inl (BrokerProject e), st)
           | Inr project \<Rightarrow>
               (let opts = mint_options (pj_GitHubAppInstallationID project) (pj_GitHubRepo project) perms;
                    answer = be_mint E opts;
                    st' = st\<lparr>bs_minted := bs_minted st @ [(opts, answer)]\<rparr>
                in case answer of
                     Inl e \<Rightarrow> (Inl (UpstreamMint e), st')
                   | Inr tok \<Rightarrow>
                       (Inr \<lparr>it_Token = gt_Token tok, it_ExpiresAt = gt_ExpiresAt tok, it_Actor = actor,
                             it_ProjectID = br_ProjectID req, it_Tool = br_Tool req, it_Permissions = perms,
                             it_AuditFingerprint = AuditFingerprint sha256_hex (gt_Token tok)\<rparr>, st'))))"

section \<open>The token cache\<close>

definition safetyMargin :: int where "safetyMargin = 5 * 60 * second"

type_synonym items = "string \<Rightarrow> installation_token option"

definition cache_lookup :: "gotime \<Rightarrow> string \<Rightarrow> items \<Rightarrow> installation_token option \<times> items" where
  "cache_lookup now key items =
     (case items key of
        None \<Rightarrow> (None, items)
      | Some tok \<Rightarrow>
          if it_ExpiresAt tok - now \<le> safetyMargin then (None, items(key := None)) else (Some tok, items))"

definition cache_store :: "string \<Rightarrow> installation_token \<Rightarrow> items \<Rightarrow> items" where
  "cache_store key tok items = items(key \<mapsto> tok)"

definition cacheKey :: "broker_request \<Rightarrow> broker_actor \<Rightarrow> string" where
  "cacheKey req actor =
     br_ProjectID req @ ''|'' @ br_Tool req @ ''|'' @ ba_Type actor @ ''|'' @ ba_UserEmail actor"

text \<open>One call of \<open>GetOrFetch\<close> on its own, whose flight nobody shares.\<close>

definition GetOrFetch ::
  "broker_env \<Rightarrow> string \<Rightarrow>
   (('s, 'z) broker_state_scheme \<Rightarrow> (broker_error + installation_token) \<times> ('s, 'z) broker_state_scheme) \<Rightarrow>
   ('s, 'z) broker_state_scheme \<Rightarrow> (broker_error + installation_token) \<times> ('s, 'z) broker_state_scheme" where
  "GetOrFetch E key fetch st =
     (let hit = cache_lookup (be_lookup E) key (bs_items st);
          st1 = st\<lparr>bs_items := snd hit\<rparr>
      in case fst hit of
           Some tok \<Rightarrow> (Inr tok, st1)
         | None \<Rightarrow>
             (let again = cache_lookup (be_recheck E) key (bs_items st1);
                  st2 = st1\<lparr>bs_items := snd again\<rparr>
              in case fst again of
                   Some tok \<Rightarrow> (Inr tok, st2)
                 | None \<Rightarrow>
                     (let r = fetch st2
                      in case fst r of
                           Inl e \<Rightarrow> (Inl e, snd r)
                         | Inr tok \<Rightarrow> (Inr tok, (snd r)\<lparr>bs_items := cache_store key tok (bs_items (snd r))\<rparr>))))"

definition cached_Mint ::
  "(string \<Rightarrow> string) \<Rightarrow> broker_env \<Rightarrow> broker_request \<Rightarrow> broker_actor \<Rightarrow> ('s, 'z) broker_state_scheme \<Rightarrow>
   (broker_error + installation_token) \<times> ('s, 'z) broker_state_scheme" where
  "cached_Mint sha256_hex E req actor =
     GetOrFetch E (cacheKey req actor) (github_Mint sha256_hex E req actor)"

section \<open>The use case and the handler\<close>

definition service_Mint ::
  "(string \<Rightarrow> string) \<Rightarrow> broker_env \<Rightarrow> broker_request \<Rightarrow> broker_actor \<Rightarrow> ('s, 'z) broker_state_scheme \<Rightarrow>
   (broker_error + installation_token) \<times> ('s, 'z) broker_state_scheme" where
  "service_Mint sha256_hex E req actor st =
     (case IsAllowed (ba_Type actor) (br_Tool req) of
        Some e \<Rightarrow> (Inl e, st)
      | None \<Rightarrow>
          (case be_project E (br_ProjectID req) of
             Inl e \<Rightarrow> (Inl (BrokerProject e), st)
           | Inr project \<Rightarrow>
               if pj_Status project \<noteq> ProjectStatusActive then (Inl ErrProjectNotActive, st)
               else if pj_GitHubAppInstallationID project = 0 then (Inl ErrProjectInstallationMissing, st)
               else cached_Mint sha256_hex E req actor st))"

datatype broker_response =
    BrokerError nat string
  | BrokerToken installation_token

fun writeServiceError :: "broker_error \<Rightarrow> broker_response" where
  "writeServiceError ErrToolNotPermitted = BrokerError 403 ''tool not permitted for this caller''"
| "writeServiceError (BrokerProject e) =
     (if e = ErrProjectNotFound then BrokerError 404 ''project not found''
      else BrokerError 502 ''upstream token mint failed'')"
| "writeServiceError ErrProjectNotActive = BrokerError 422 ''project is not active''"
| "writeServiceError ErrProjectInstallationMissing =
     BrokerError 422 ''project has no GitHub App installation bound''"
| "writeServiceError (UpstreamMint e) = BrokerError 502 ''upstream token mint failed''"

definition payload_fields :: "string list" where
  "payload_fields = [''project_id'', ''tool'', ''session_id'']"

text \<open>\<open>order\<close> is the order in which Go visits the keys of the decoded map.\<close>

record broker_text =
  bt_token :: token_text
  bt_sha256_hex :: "string \<Rightarrow> string"
  bt_order :: "string list \<Rightarrow> string list"

definition decode_broker_request :: "(string \<times> json) list \<Rightarrow> broker_request option" where
  "decode_broker_request kvs =
     do { pid \<leftarrow> str_field payload_fields ''project_id'' kvs;
          tool \<leftarrow> str_field payload_fields ''tool'' kvs;
          sid \<leftarrow> str_field payload_fields ''session_id'' kvs;
          Some \<lparr>br_ProjectID = pid, br_Tool = tool, br_SessionID = sid\<rparr> }"

definition broker_ServeHTTP ::
  "broker_text \<Rightarrow> 's chain \<Rightarrow> broker_env \<Rightarrow> broker_http \<Rightarrow> ('s, 'z) broker_state_scheme \<Rightarrow>
   broker_response \<times> ('s, 'z) broker_state_scheme" where
  "broker_ServeHTTP T c E r st =
     (if bq_Method r \<noteq> ''POST'' then (BrokerError 405 ''POST required'', st)
      else case bq_Body r of
        None \<Rightarrow> (BrokerError 400 ''cannot read request body'', st)
      | Some body \<Rightarrow>
          (case do { j \<leftarrow> tt_json (bt_token T) body; members j } of
             None \<Rightarrow> (BrokerError 400 ''request body is not valid JSON'', st)
           | Some kvs \<Rightarrow>
               (case ValidateBrokerRequest (bt_order T (remdups (map fst kvs))) of
                  Some ErrRequestSchemaViolation \<Rightarrow>
                    (BrokerError 403 ''request contains caller-supplied escalation field'', st)
                | Some ErrUnknownRequestField \<Rightarrow> (BrokerError 400 ''request contains unknown field'', st)
                | None \<Rightarrow>
                    (case decode_broker_request kvs of
                       None \<Rightarrow> (BrokerError 400 ''request body cannot be decoded'', st)
                     | Some req \<Rightarrow>
                         (let a = Authenticate (bt_token T) c (be_now E) r (br_ProjectID req) (br_Tool req) (bs_sessions st);
                              st' = st\<lparr>bs_sessions := snd a\<rparr>
                          in case fst a of
                               Inl e \<Rightarrow> (BrokerError 401 ''authentication failed'', st')
                             | Inr actor \<Rightarrow>
                                 (let m = service_Mint (bt_sha256_hex T) E req actor st'
                                  in case fst m of
                                       Inl e \<Rightarrow> (writeServiceError e, snd m)
                                     | Inr tok \<Rightarrow> (BrokerToken tok, snd m)))))))"

end
