(* ===== verification/Broker_Correct.thy ===== *)
theory Broker_Correct
  imports Broker
begin

text \<open>
  What the credential broker guarantees: who is let in, what a token is good for, what a revocation
  stops, and the one path on which nobody checks a signature.
\<close>

section \<open>Who is let in\<close>

lemma VerifyAndParse_Inr:
  "VerifyAndParse T v now jwt = Inr claims \<longleftrightarrow>
     jv_Parse v jwt = JwtValid \<and> ParseIdentityClaims T jwt = Inr claims \<and>
     ic_Audience claims = jv_Audience v \<and> now < ic_ExpiresAt claims"
  by (auto simp: VerifyAndParse_def claims_Validate_def split: jwt_result.split sum.split option.split)

lemma VerifyAgentSession_None:
  "VerifyAgentSession sess sa pid tool now = None \<longleftrightarrow>
     as_RevokedAt sess = None \<and> now < as_ExpiresAt sess \<and> as_WorkspaceDaemonSA sess = sa \<and>
     as_ProjectID sess = pid \<and> as_Tool sess = tool"
  by (simp add: VerifyAgentSession_def)

lemma VerifyAndResolve_Inr:
  "fst (VerifyAndResolve T get aud now jwt sid pid tool st) = Inr actor \<longleftrightarrow>
     (\<exists>claims sess. ParseIdentityClaims T jwt = Inr claims \<and> ic_Audience claims = aud \<and>
        now < ic_ExpiresAt claims \<and> fst (get sid st) = Inr sess \<and>
        VerifyAgentSession sess (ic_Email claims) pid tool now = None \<and>
        actor = \<lparr>ba_Type = CallerAIAgent, ba_UserEmail = ic_Email claims, ba_SessionID = sid\<rparr>)"
  by (auto simp: VerifyAndResolve_def claims_Validate_def Let_def split: sum.split option.split)

lemma operator_Inr:
  "operator_VerifyBearerToken T v now jwt = Inr actor \<longleftrightarrow>
     (\<exists>claims. VerifyAndParse T (ov_signature v) now jwt = Inr claims \<and> ic_Issuer claims = ov_issuer v \<and>
        (\<forall>allow. ov_emailAllowlist v = Some allow \<longrightarrow> ic_Email claims \<in> set allow) \<and>
        actor = \<lparr>ba_Type = CallerHumanOperator, ba_UserEmail = ic_Email claims, ba_SessionID = []\<rparr>)"
  by (auto simp: operator_VerifyBearerToken_def split: sum.split option.split)

lemma service_Inr:
  "cloudrun_VerifyBearerToken T v now jwt = Inr actor \<longleftrightarrow>
     (\<exists>claims. VerifyAndParse T (sv_signature v) now jwt = Inr claims \<and> ic_Issuer claims = sv_issuer v \<and>
        ic_Email claims \<in> set (sv_saAllowlist v) \<and>
        actor = \<lparr>ba_Type = CallerGatewayService, ba_UserEmail = ic_Email claims, ba_SessionID = []\<rparr>)"
  "workload_VerifyBearerToken T v now jwt = Inr actor \<longleftrightarrow>
     (\<exists>claims. VerifyAndParse T (sv_signature v) now jwt = Inr claims \<and> ic_Issuer claims = sv_issuer v \<and>
        ic_Email claims \<in> set (sv_saAllowlist v) \<and>
        actor = \<lparr>ba_Type = CallerWorkspaceDaemon, ba_UserEmail = ic_Email claims, ba_SessionID = []\<rparr>)"
  by (auto simp: cloudrun_VerifyBearerToken_def workload_VerifyBearerToken_def split: sum.split)

lemma Authenticate_Inr:
  assumes "fst (Authenticate T c now r pid tool st) = Inr actor"
  obtains bearer where "extractBearer (bq_Authorization r) = Inr bearer"
    "trim_space (bq_CallerType r) = CallerHumanOperator"
    "operator_VerifyBearerToken T (ch_humanOperator c) now bearer = Inr actor"
  | bearer where "extractBearer (bq_Authorization r) = Inr bearer"
    "trim_space (bq_CallerType r) = CallerGatewayService"
    "cloudrun_VerifyBearerToken T (ch_gatewayService c) now bearer = Inr actor"
  | bearer where "extractBearer (bq_Authorization r) = Inr bearer"
    "trim_space (bq_CallerType r) = CallerWorkspaceDaemon"
    "workload_VerifyBearerToken T (ch_workspaceDaemon c) now bearer = Inr actor"
  | bearer where "extractBearer (bq_Authorization r) = Inr bearer"
    "trim_space (bq_CallerType r) = CallerAIAgent"
    "fst (VerifyAndResolve T (ch_session_get c) (ch_audience c) now bearer
       (trim_space (bq_SessionID r)) pid tool st) = Inr actor"
proof -
  obtain bearer where b: "extractBearer (bq_Authorization r) = Inr bearer"
    using assms by (auto simp: Authenticate_def split: sum.splits)
  from assms b that[of bearer] show thesis
    by (simp add: Authenticate_def Let_def split: if_split_asm)
qed

text \<open>Every caller that is let in has proved who it is, in the way its kind requires.  An operator and a
  service present a token with a valid signature, for this broker, unexpired and from the pinned
  issuer, and its e-mail address is on the list of that kind (operators need not have a list); an agent
  presents an unexpired token for this broker and a session that is neither revoked nor expired and
  names exactly this service account, project and tool.  The identity handed on is the one of the
  token, and its kind the declared one.\<close>

lemma admitted_caller:
  assumes "fst (Authenticate T c now r pid tool st) = Inr actor"
  shows "\<exists>bearer claims. extractBearer (bq_Authorization r) = Inr bearer \<and>
    ParseIdentityClaims T bearer = Inr claims \<and> now < ic_ExpiresAt claims \<and>
    ba_Type actor = trim_space (bq_CallerType r) \<and> ba_UserEmail actor = ic_Email claims \<and>
    (let guarded = (\<lambda>sig issuer. jv_Parse sig bearer = JwtValid \<and> ic_Audience claims = jv_Audience sig \<and>
           ic_Issuer claims = issuer \<and> ba_SessionID actor = [])
     in (ba_Type actor = CallerHumanOperator \<and>
           guarded (ov_signature (ch_humanOperator c)) (ov_issuer (ch_humanOperator c)) \<and>
           (\<forall>allow. ov_emailAllowlist (ch_humanOperator c) = Some allow \<longrightarrow> ba_UserEmail actor \<in> set allow)) \<or>
        (ba_Type actor = CallerGatewayService \<and>
           guarded (sv_signature (ch_gatewayService c)) (sv_issuer (ch_gatewayService c)) \<and>
           ba_UserEmail actor \<in> set (sv_saAllowlist (ch_gatewayService c))) \<or>
        (ba_Type actor = CallerWorkspaceDaemon \<and>
           guarded (sv_signature (ch_workspaceDaemon c)) (sv_issuer (ch_workspaceDaemon c)) \<and>
           ba_UserEmail actor \<in> set (sv_saAllowlist (ch_workspaceDaemon c))) \<or>
        (ba_Type actor = CallerAIAgent \<and> ic_Audience claims = ch_audience c \<and>
           ba_SessionID actor = trim_space (bq_SessionID r) \<and>
           (\<exists>sess. fst (ch_session_get c (ba_SessionID actor) st) = Inr sess \<and> as_RevokedAt sess = None \<and>
              now < as_ExpiresAt sess \<and> as_WorkspaceDaemonSA sess = ba_UserEmail actor \<and>
              as_ProjectID sess = pid \<and> as_Tool sess = tool)))"
  using assms
proof (cases rule: Authenticate_Inr)
  case (1 bearer)
  then obtain claims where "VerifyAndParse T (ov_signature (ch_humanOperator c)) now bearer = Inr claims"
    "ic_Issuer claims = ov_issuer (ch_humanOperator c)"
    "\<forall>allow. ov_emailAllowlist (ch_humanOperator c) = Some allow \<longrightarrow> ic_Email claims \<in> set allow"
    "actor = \<lparr>ba_Type = CallerHumanOperator, ba_UserEmail = ic_Email claims, ba_SessionID = []\<rparr>"
    unfolding operator_Inr by blast
  with 1(1,2) show ?thesis
    by (intro exI[of _ bearer] exI[of _ claims]) (simp add: VerifyAndParse_Inr)
next
  case (2 bearer)
  then obtain claims where "VerifyAndParse T (sv_signature (ch_gatewayService c)) now bearer = Inr claims"
    "ic_Issuer claims = sv_issuer (ch_gatewayService c)" "ic_Email claims \<in> set (sv_saAllowlist (ch_gatewayService c))"
    "actor = \<lparr>ba_Type = CallerGatewayService, ba_UserEmail = ic_Email claims, ba_SessionID = []\<rparr>"
    unfolding service_Inr by blast
  with 2(1,2) show ?thesis
    by (intro exI[of _ bearer] exI[of _ claims]) (simp add: VerifyAndParse_Inr)
next
  case (3 bearer)
  then obtain claims where "VerifyAndParse T (sv_signature (ch_workspaceDaemon c)) now bearer = Inr claims"
    "ic_Issuer claims = sv_issuer (ch_workspaceDaemon c)" "ic_Email claims \<in> set (sv_saAllowlist (ch_workspaceDaemon c))"
    "actor = \<lparr>ba_Type = CallerWorkspaceDaemon, ba_UserEmail = ic_Email claims, ba_SessionID = []\<rparr>"
    unfolding service_Inr by blast
  with 3(1,2) show ?thesis
    by (intro exI[of _ bearer] exI[of _ claims]) (simp add: VerifyAndParse_Inr)
next
  case (4 bearer)
  then obtain claims sess where "ParseIdentityClaims T bearer = Inr claims" "ic_Audience claims = ch_audience c"
    "now < ic_ExpiresAt claims" "fst (ch_session_get c (trim_space (bq_SessionID r)) st) = Inr sess"
    "VerifyAgentSession sess (ic_Email claims) pid tool now = None"
    "actor = \<lparr>ba_Type = CallerAIAgent, ba_UserEmail = ic_Email claims, ba_SessionID = trim_space (bq_SessionID r)\<rparr>"
    unfolding VerifyAndResolve_Inr by blast
  with 4(1,2) show ?thesis
    by (intro exI[of _ bearer] exI[of _ claims]) (simp add: VerifyAgentSession_None)
qed

definition sample_text :: token_text where
  "sample_text =
     \<lparr>tt_base64 = (\<lambda>s. Some s),
      tt_json = (\<lambda>s.
        if s = ''a'' then Some (JObj [(''aud'', JStr ''broker''), (''iss'', JStr ''google''),
                                    (''email'', JStr ''sa''), (''exp'', JInt 10)])
        else if s = ''b'' then Some (JObj [(''project_id'', JStr ''p''), (''tool'', JStr ''amadeus'')])
        else None)\<rparr>"

definition sample_chain :: "jwt_result \<Rightarrow> sessions chain" where
  "sample_chain verdict =
     (let jwks = \<lparr>jv_Parse = (\<lambda>_. verdict), jv_Audience = ''broker''\<rparr>;
          sv = \<lparr>sv_signature = jwks, sv_issuer = ''google'', sv_saAllowlist = [''sa'']\<rparr>
      in \<lparr>ch_humanOperator = \<lparr>ov_signature = jwks, ov_issuer = ''google'', ov_emailAllowlist = None\<rparr>,
          ch_gatewayService = sv, ch_workspaceDaemon = sv, ch_audience = ''broker'',
          ch_session_get = memory_Get\<rparr>)"

definition sample_session :: agent_session where
  "sample_session =
     \<lparr>as_SessionID = ''s1'', as_WorkspaceDaemonSA = ''sa'', as_ProjectID = ''p'', as_Tool = ''amadeus'',
      as_IssuedAt = 0, as_ExpiresAt = 7, as_RevokedAt = None\<rparr>"

definition sample_claims :: identity_claims where
  "sample_claims =
     \<lparr>ic_Issuer = ''google'', ic_Audience = ''broker'', ic_Subject = [], ic_Email = ''sa'',
      ic_ExpiresAt = time_Unix 10\<rparr>"

lemma sample_claims_parse: "ParseIdentityClaims sample_text ''h.a.s'' = Inr sample_claims"
  by (simp add: ParseIdentityClaims_def sample_text_def claim_fields_def sample_claims_def struct_field_def
      lower_def lower_chr_def)

lemma sample_claims_valid: "claims_Validate sample_claims 0 ''broker'' = None"
  by (simp add: claims_Validate_def sample_claims_def time_Unix_def second_def)

definition service_http :: "string \<Rightarrow> broker_http" where
  "service_http kind =
     \<lparr>bq_Method = ''POST'', bq_Body = Some ''b'', bq_Authorization = ''Bearer h.a.s'', bq_CallerType = kind,
      bq_SessionID = ''s1''\<rparr>"

lemma sample_bearer: "extractBearer ''Bearer h.a.s'' = Inr ''h.a.s''"
  by code_simp

lemma sample_kinds: "trim_space CallerGatewayService = CallerGatewayService" "trim_space CallerAIAgent = CallerAIAgent"
  "trim_space ''s1'' = ''s1''"
  by code_simp+

lemma authenticated_sample:
  "fst (Authenticate sample_text (sample_chain JwtValid) 0 (service_http CallerGatewayService) ''p'' ''amadeus'' (\<lambda>_. None)) =
     Inr \<lparr>ba_Type = CallerGatewayService, ba_UserEmail = ''sa'', ba_SessionID = []\<rparr>"
  using sample_claims_valid
  by (simp add: Authenticate_def service_http_def sample_bearer sample_kinds Let_def sample_chain_def
      cloudrun_VerifyBearerToken_def VerifyAndParse_def sample_claims_parse)
    (simp add: sample_claims_def)

text \<open>On the path of the agents nobody looks at the signature.  Whoever knows a live session, its service
  account, project and tool gets in with a token it wrote itself: the first and the third part of the
  token are arbitrary, and no key of the issuer takes part.\<close>

theorem unsigned_agent_token_accepted:
  assumes "extractBearer (bq_Authorization r) = Inr (header @ ''.'' @ payload @ ''.'' @ signature)"
    and "CHR ''.'' \<notin> set header \<union> set payload \<union> set signature"
    and "ParseIdentityClaims T (''.'' @ payload @ ''.'') = Inr claims"
    and "claims_Validate claims now (ch_audience c) = None"
    and "trim_space (bq_CallerType r) = CallerAIAgent" "trim_space (bq_SessionID r) = sid" "sid \<noteq> []"
    and "fst (ch_session_get c sid st) = Inr sess"
    and "VerifyAgentSession sess (ic_Email claims) pid tool now = None"
  shows "fst (Authenticate T c now r pid tool st) =
    Inr \<lparr>ba_Type = CallerAIAgent, ba_UserEmail = ic_Email claims, ba_SessionID = sid\<rparr>"
proof -
  have parts: "split_chr CHR ''.'' (a @ ''.'' @ payload @ ''.'' @ b) = [a, payload, b]"
    if "CHR ''.'' \<notin> set a" "CHR ''.'' \<notin> set b" for a b
    using that assms(2) by (simp add: split_chr_append_sep split_chr_free)
  have "ParseIdentityClaims T (header @ ''.'' @ payload @ ''.'' @ signature) = Inr claims"
    using assms(2,3) parts[of "[]" "[]"] parts[of header signature] unfolding ParseIdentityClaims_def by simp
  with assms(1,4-9) show ?thesis
    by (simp add: Authenticate_def VerifyAndResolve_def caller_types_neq Let_def)
qed

theorem unsigned_agent_token_accepted_witness:
  "fst (Authenticate sample_text (sample_chain (JwtError ''bad signature'')) 0 (service_http CallerAIAgent)
      ''p'' ''amadeus'' [''s1'' \<mapsto> sample_session]) =
     Inr \<lparr>ba_Type = CallerAIAgent, ba_UserEmail = ''sa'', ba_SessionID = ''s1''\<rparr>"
proof -
  have p: "ParseIdentityClaims sample_text (''.'' @ ''a'' @ ''.'') = Inr sample_claims"
    using sample_claims_parse by (simp add: ParseIdentityClaims_def)
  have v: "VerifyAgentSession sample_session (ic_Email sample_claims) ''p'' ''amadeus'' 0 = None"
    by (simp add: VerifyAgentSession_def sample_session_def sample_claims_def)
  show ?thesis
    using unsigned_agent_token_accepted[of "service_http CallerAIAgent" "''h''" "''a''" "''s''" sample_text
        sample_claims 0 "sample_chain (JwtError ''bad signature'')" "''s1''" "[''s1'' \<mapsto> sample_session]" sample_session
        "''p''" "''amadeus''"] p v sample_claims_valid
    by (simp add: service_http_def sample_bearer sample_kinds sample_chain_def memory_Get_def Let_def)
      (simp add: sample_claims_def)
qed

section \<open>Revocation\<close>

datatype session_op = OpRegister agent_session | OpRevoke string | OpGet string

fun session_step ::
  "(env_store \<Rightarrow> 's session_get) \<Rightarrow> (env_store \<Rightarrow> agent_session \<Rightarrow> 's \<Rightarrow> session_error option \<times> 's) \<Rightarrow>
   (env_store \<Rightarrow> string \<Rightarrow> 's \<Rightarrow> session_error option \<times> 's) \<Rightarrow> env_store \<times> session_op \<Rightarrow> 's \<Rightarrow> 's" where
  "session_step get reg revoke (env, OpRegister x) st = snd (reg env x st)"
| "session_step get reg revoke (env, OpRevoke sid) st = snd (revoke env sid st)"
| "session_step get reg revoke (env, OpGet sid) st = snd (get env sid st)"

text \<open>The port of the session registries, over what is stored under each id.  A record never goes away,
  and all that changes in it is that it becomes revoked, once.\<close>

locale session_registry =
  fixes view :: "'s \<Rightarrow> string \<Rightarrow> agent_session option"
    and get :: "env_store \<Rightarrow> 's session_get"
    and reg :: "env_store \<Rightarrow> agent_session \<Rightarrow> 's \<Rightarrow> session_error option \<times> 's"
    and revoke :: "env_store \<Rightarrow> string \<Rightarrow> 's \<Rightarrow> session_error option \<times> 's"
  assumes get_view: "view (snd (get env sid st)) = view st"
    and get_sound: "fst (get env sid st) = Inr x \<Longrightarrow> view st sid = Some x"
    and reg_keeps: "view st k = Some x \<Longrightarrow> view (snd (reg env y st)) k = Some x"
    and revoke_keeps: "view st k = Some x \<Longrightarrow> as_RevokedAt x \<noteq> None \<Longrightarrow>
      view (snd (revoke env sid st)) k = Some x"
    and revoke_done: "fst (revoke env sid st) = None \<Longrightarrow>
      \<exists>x. view (snd (revoke env sid st)) sid = Some x \<and> as_RevokedAt x \<noteq> None"
begin

lemma revoked_forever:
  assumes "fst (revoke env sid st) = None"
  obtains x where "view (fold (session_step get reg revoke) ops (snd (revoke env sid st))) sid = Some x" "as_RevokedAt x \<noteq> None"
proof -
  have step: "view (session_step get reg revoke a u) sid = Some x"
    if "view u sid = Some x" "as_RevokedAt x \<noteq> None" for a u x
  proof -
    obtain env opn where "a = (env, opn)" by (cases a)
    with that show ?thesis by (cases opn) (simp_all add: get_view reg_keeps revoke_keeps)
  qed
  have "view (fold (session_step get reg revoke) ops u) sid = Some x" if "view u sid = Some x" "as_RevokedAt x \<noteq> None" for u x
    using that by (induction ops arbitrary: u) (simp_all add: step)
  with revoke_done[OF assms] that show thesis by blast
qed

text \<open>So no later verification of the session succeeds.\<close>

lemma revoked_not_verified:
  assumes "fst (revoke env sid st) = None"
  shows "fst (VerifyAndResolve T (get env') aud now jwt sid pid tool
      (fold (session_step get reg revoke) ops (snd (revoke env sid st)))) \<noteq> Inr actor"
proof -
  obtain x where x: "view (fold (session_step get reg revoke) ops (snd (revoke env sid st))) sid = Some x" "as_RevokedAt x \<noteq> None"
    by (rule revoked_forever[OF assms])
  then show ?thesis
    using get_sound by (fastforce simp: VerifyAndResolve_Inr VerifyAgentSession_None)
qed

end

interpretation memory_sessions: session_registry "\<lambda>m. m" "\<lambda>env. memory_Get" "\<lambda>env. memory_Register"
  "\<lambda>env. memory_Revoke (es_now env)"
  by unfold_locales
    (auto simp: memory_Get_def memory_Register_def memory_Revoke_def split: option.splits)

lemma firestore_Revoke_keeps:
  assumes "row st k = Some x" "as_RevokedAt x \<noteq> None"
  shows "row (snd (firestore_Revoke env sid st)) k = Some x"
proof -
  let ?g = "svc env (row_get sid) st"
  have g: "row (snd ?g) k = Some x" using assms(1) by simp
  show ?thesis
  proof (cases "fst ?g")
    case (Inl e)
    with g show ?thesis by (simp add: firestore_Revoke_def map_err_def)
  next
    case (Inr y)
    then have y: "row st sid = Some y" by (auto dest!: svc_Inr simp: row_get_def split: option.splits)
    show ?thesis
    proof (cases "as_RevokedAt y = None")
      case False
      with g Inr show ?thesis by (simp add: firestore_Revoke_def map_err_def)
    next
      case True
      with y assms have "sid \<noteq> k" by auto
      with g Inr True show ?thesis
        using svc_update_cases[of env sid "\<lambda>s. s\<lparr>as_RevokedAt := Some (firestore_time (es_now env))\<rparr>" "snd ?g" k]
        by (simp add: firestore_Revoke_def map_err_def Let_def)
    qed
  qed
qed

lemma firestore_Revoke_ok:
  assumes ok: "fst (firestore_Revoke env sid st) = None"
  shows "\<exists>x. row (snd (firestore_Revoke env sid st)) sid = Some x \<and> as_RevokedAt x \<noteq> None"
proof -
  let ?g = "svc env (row_get sid) st"
  let ?f = "\<lambda>s :: agent_session. s\<lparr>as_RevokedAt := Some (firestore_time (es_now env))\<rparr>"
  from ok obtain z where g: "fst ?g = Inr z"
    by (auto simp: firestore_Revoke_def map_err_def Let_def split: sum.splits)
  then have z: "row st sid = Some z" by (auto dest!: svc_Inr simp: row_get_def split: option.splits)
  show ?thesis
  proof (cases "as_RevokedAt z = None")
    case False
    with g z show ?thesis by (simp add: firestore_Revoke_def map_err_def)
  next
    case True
    with ok g have "fst (svc env (row_update sid ?f) (snd ?g)) = Inr ()"
      by (auto simp: firestore_Revoke_def map_err_def Let_def split: sum.splits)
    then obtain q where "row (snd (svc env (row_update sid ?f) (snd ?g))) sid = Some (?f q)"
      by (rule svc_update_Inr)
    with g True show ?thesis by (simp add: firestore_Revoke_def map_err_def Let_def)
  qed
qed

interpretation firestore_sessions: session_registry row firestore_session_Get firestore_Register firestore_Revoke
proof unfold_locales
  fix env sid k :: _ and st :: session_table and x y :: agent_session
  show "row (snd (firestore_session_Get env sid st)) = row st" by (simp add: firestore_session_Get_def)
  show "fst (firestore_session_Get env sid st) = Inr x \<Longrightarrow> row st sid = Some x"
    by (auto simp: firestore_session_Get_def row_get_def dest!: svc_Inr split: option.splits)
  show "row st k = Some x \<Longrightarrow> row (snd (firestore_Register env y st)) k = Some x"
    using svc_create_keeps by (auto simp: firestore_Register_def Let_def)
  show "row st k = Some x \<Longrightarrow> as_RevokedAt x \<noteq> None \<Longrightarrow> row (snd (firestore_Revoke env sid st)) k = Some x"
    by (rule firestore_Revoke_keeps)
  show "fst (firestore_Revoke env sid st) = None \<Longrightarrow>
      \<exists>x. row (snd (firestore_Revoke env sid st)) sid = Some x \<and> as_RevokedAt x \<noteq> None"
    by (rule firestore_Revoke_ok)
qed

abbreviation memory_history :: "(env_store \<times> session_op) list \<Rightarrow> sessions \<Rightarrow> sessions" where
  "memory_history ops \<equiv> fold (session_step (\<lambda>env. memory_Get) (\<lambda>env. memory_Register)
     (\<lambda>env. memory_Revoke (es_now env))) ops"

abbreviation firestore_history :: "(env_store \<times> session_op) list \<Rightarrow> session_table \<Rightarrow> session_table" where
  "firestore_history ops \<equiv> fold (session_step firestore_session_Get firestore_Register firestore_Revoke) ops"

definition no_token :: "broker_response \<times> 's broker_state \<Rightarrow> 's broker_state \<Rightarrow> bool" where
  "no_token r st \<longleftrightarrow> (\<forall>tok. fst r \<noteq> BrokerToken tok) \<and> bs_minted (snd r) = bs_minted st"

lemma refused_no_token:
  assumes "\<And>pid tool actor. fst (Authenticate (bt_token T) c (be_now E) r pid tool (bs_sessions st)) \<noteq> Inr actor"
  shows "no_token (broker_ServeHTTP T c E r st) st"
  using assms
  by (auto simp: no_token_def broker_ServeHTTP_def Let_def split: option.split request_error.split sum.split)

lemma agent_refused:
  assumes "trim_space (bq_CallerType r) = CallerAIAgent" "trim_space (bq_SessionID r) = sid"
    and "\<And>jwt pid tool actor. fst (VerifyAndResolve (bt_token T) (ch_session_get c) (ch_audience c) (be_now E)
      jwt sid pid tool (bs_sessions st)) \<noteq> Inr actor"
  shows "no_token (broker_ServeHTTP T c E r st) st"
proof (rule refused_no_token)
  fix pid tool actor
  show "fst (Authenticate (bt_token T) c (be_now E) r pid tool (bs_sessions st)) \<noteq> Inr actor"
  proof
    assume "fst (Authenticate (bt_token T) c (be_now E) r pid tool (bs_sessions st)) = Inr actor"
    then show False
      using assms by (cases rule: Authenticate_Inr) (simp_all add: caller_types_neq)
  qed
qed

text \<open>C23. A revocation is final, in both registries.  Once a revocation has been confirmed, whatever is
  registered, revoked or read afterwards and whichever calls of the database fail or lose their answer,
  a request of an agent that names this session never gets a token and never causes one to be made.\<close>

theorem revoked_session_gets_nothing:
  assumes "trim_space (bq_CallerType r) = CallerAIAgent" "trim_space (bq_SessionID r) = sid"
  shows "(fst (memory_Revoke now sid m) = None \<and> ch_session_get c = memory_Get \<and>
      bs_sessions st = memory_history ops (snd (memory_Revoke now sid m)) \<longrightarrow>
        no_token (broker_ServeHTTP T c E r st) st) \<and>
    (fst (firestore_Revoke env sid t) = None \<and> ch_session_get c' = firestore_session_Get env' \<and>
      bs_sessions st' = firestore_history ops (snd (firestore_Revoke env sid t)) \<longrightarrow>
        no_token (broker_ServeHTTP T c' E r st') st')"
proof (intro conjI impI; elim conjE)
  assume "fst (memory_Revoke now sid m) = None" "ch_session_get c = memory_Get"
    "bs_sessions st = memory_history ops (snd (memory_Revoke now sid m))"
  then show "no_token (broker_ServeHTTP T c E r st) st"
    using memory_sessions.revoked_not_verified[of "\<lparr>es_faults = (\<lambda>_. Fine), es_now = now\<rparr>"]
    by (intro agent_refused[OF assms]) simp
next
  assume "fst (firestore_Revoke env sid t) = None" "ch_session_get c' = firestore_session_Get env'"
    "bs_sessions st' = firestore_history ops (snd (firestore_Revoke env sid t))"
  then show "no_token (broker_ServeHTTP T c' E r st') st'"
    using firestore_sessions.revoked_not_verified by (intro agent_refused[OF assms]) simp
qed

theorem revoked_session_gets_nothing_witness:
  "fst (memory_Revoke 1 ''s1'' [''s1'' \<mapsto> sample_session]) = None \<and>
   no_token
     (broker_ServeHTTP \<lparr>bt_token = sample_text, bt_sha256_hex = (\<lambda>s. s), bt_order = (\<lambda>ks. ks)\<rparr>
       (sample_chain JwtValid)
       \<lparr>be_project = (\<lambda>_. Inl ErrProjectNotFound), be_project_at_mint = (\<lambda>_. Inl ErrProjectNotFound),
        be_mint = (\<lambda>_. Inl ''down''), be_now = 0, be_lookup = 0, be_recheck = 0\<rparr>
       (service_http CallerAIAgent)
       \<lparr>bs_sessions = snd (memory_Revoke 1 ''s1'' [''s1'' \<mapsto> sample_session]), bs_items = (\<lambda>_. None), bs_minted = []\<rparr>)
     \<lparr>bs_sessions = snd (memory_Revoke 1 ''s1'' [''s1'' \<mapsto> sample_session]), bs_items = (\<lambda>_. None), bs_minted = []\<rparr>"
proof -
  have r: "fst (memory_Revoke 1 ''s1'' [''s1'' \<mapsto> sample_session]) = None"
    by (simp add: memory_Revoke_def sample_session_def)
  have "trim_space (bq_CallerType (service_http CallerAIAgent)) = CallerAIAgent"
    "trim_space (bq_SessionID (service_http CallerAIAgent)) = ''s1''"
    by (simp_all add: service_http_def sample_kinds)
  from conjunct1[OF revoked_session_gets_nothing[OF this, where now = 1 and m = "[''s1'' \<mapsto> sample_session]"
      and c = "sample_chain JwtValid" and ops = "[]"]] r show ?thesis
    by (simp add: sample_chain_def Let_def)
qed

section \<open>What a token is good for\<close>

lemma cacheKey_inject:
  assumes "cacheKey req actor = cacheKey req' actor'"
    and "CHR ''|'' \<notin> set (br_ProjectID req)" "CHR ''|'' \<notin> set (br_ProjectID req')"
    and "PermissionsFor (br_Tool req) = Inr p" "PermissionsFor (br_Tool req') = Inr p'"
    and "ba_Type actor \<in> set AllCallerTypes" "ba_Type actor' \<in> set AllCallerTypes"
  shows "br_ProjectID req = br_ProjectID req' \<and> br_Tool req = br_Tool req' \<and>
    ba_Type actor = ba_Type actor' \<and> ba_UserEmail actor = ba_UserEmail actor'"
proof -
  have tool: "CHR ''|'' \<notin> set t" if "PermissionsFor t = Inr q" for t q
    using that by (auto simp: PermissionsFor_def go_consts split: if_splits)
  have kind: "CHR ''|'' \<notin> set k" if "k \<in> set AllCallerTypes" for k
    using that by (auto simp: AllCallerTypes_def go_consts)
  let ?rest = "\<lambda>r a. br_Tool r @ CHR ''|'' # ba_Type a @ CHR ''|'' # ba_UserEmail a"
  have "br_ProjectID req = br_ProjectID req' \<and> ?rest req actor = ?rest req' actor'"
    using assms(1) by (intro sep_unique[OF assms(2,3)]) (simp add: cacheKey_def)
  moreover from this have "br_Tool req = br_Tool req' \<and>
      ba_Type actor @ CHR ''|'' # ba_UserEmail actor = ba_Type actor' @ CHR ''|'' # ba_UserEmail actor'"
    using sep_unique[OF tool[OF assms(4)] tool[OF assms(5)]] by blast
  ultimately show ?thesis
    using sep_unique[OF kind[OF assms(6)] kind[OF assms(7)]] by blast
qed

text \<open>Where a token came from: a call to GitHub in one of the environments seen, for the repository the
  registry named for the project at that moment, with the permissions of the tool.\<close>

definition issued :: "broker_env set \<Rightarrow> installation_token \<Rightarrow> bool" where
  "issued Es tok \<longleftrightarrow>
     PermissionsFor (it_Tool tok) = Inr (it_Permissions tok) \<and>
     (\<exists>E \<in> Es. \<exists>project gt. be_project_at_mint E (it_ProjectID tok) = Inr project \<and>
        be_mint E (mint_options (pj_GitHubAppInstallationID project) (pj_GitHubRepo project) (it_Permissions tok)) = Inr gt \<and>
        gt_Token gt = it_Token tok \<and> gt_ExpiresAt gt = it_ExpiresAt tok)"

definition good_item :: "broker_env set \<Rightarrow> string \<Rightarrow> installation_token \<Rightarrow> bool" where
  "good_item Es key tok \<longleftrightarrow>
     issued Es tok \<and> CHR ''|'' \<notin> set (it_ProjectID tok) \<and> ba_Type (it_Actor tok) \<in> set AllCallerTypes \<and>
     key = cacheKey \<lparr>br_ProjectID = it_ProjectID tok, br_Tool = it_Tool tok, br_SessionID = []\<rparr> (it_Actor tok)"

definition cache_ok :: "broker_env set \<Rightarrow> items \<Rightarrow> bool" where
  "cache_ok Es m \<longleftrightarrow> (\<forall>key tok. m key = Some tok \<longrightarrow> good_item Es key tok)"

lemma cache_lookup_ok:
  "cache_ok Es m \<Longrightarrow> cache_ok Es (snd (cache_lookup now key m))"
  "fst (cache_lookup now key m) = Some tok \<Longrightarrow> m key = Some tok"
  by (auto simp: cache_ok_def cache_lookup_def split: option.splits if_splits)

lemma github_Mint_ok:
  assumes "fst (github_Mint sha E req actor st) = Inr tok" "E \<in> Es"
  shows "issued Es tok \<and> it_ProjectID tok = br_ProjectID req \<and> it_Tool tok = br_Tool req \<and> it_Actor tok = actor"
  using assms by (fastforce simp: github_Mint_def issued_def Let_def split: sum.splits)

lemma github_Mint_items [simp]: "bs_items (snd (github_Mint sha E req actor st)) = bs_items st"
  by (simp add: github_Mint_def Let_def split: sum.split)

lemma cached_Mint_ok:
  assumes ok: "cache_ok Es (bs_items st)" and E: "E \<in> Es"
    and actor: "ba_Type actor \<in> set AllCallerTypes" and pid: "CHR ''|'' \<notin> set (br_ProjectID req)"
  shows "cache_ok Es (bs_items (snd (cached_Mint sha E req actor st)))"
    and "fst (cached_Mint sha E req actor st) = Inr tok \<Longrightarrow> good_item Es (cacheKey req actor) tok"
proof -
  let ?k = "cacheKey req actor"
  let ?m1 = "snd (cache_lookup (be_lookup E) ?k (bs_items st))"
  let ?m2 = "snd (cache_lookup (be_recheck E) ?k ?m1)"
  have ok1: "cache_ok Es ?m1" and ok2: "cache_ok Es ?m2" using ok by (simp_all add: cache_lookup_ok(1))
  have mint: "good_item Es ?k t" if "fst (github_Mint sha E req actor u) = Inr t" for t u
    using github_Mint_ok[OF that E] actor pid by (auto simp: good_item_def cacheKey_def)
  show "cache_ok Es (bs_items (snd (cached_Mint sha E req actor st)))"
    using ok1 ok2 mint
    by (auto simp: cached_Mint_def GetOrFetch_def Let_def cache_store_def cache_ok_def split: option.splits sum.splits)
  assume "fst (cached_Mint sha E req actor st) = Inr tok"
  then show "good_item Es ?k tok"
    using ok ok1 mint cache_lookup_ok(2)
    by (auto simp: cached_Mint_def GetOrFetch_def Let_def cache_ok_def split: option.splits sum.splits)
qed

lemma Authenticate_kind:
  "fst (Authenticate T c now r pid tool st) = Inr actor \<Longrightarrow> ba_Type actor \<in> set AllCallerTypes"
  by (erule Authenticate_Inr)
    (auto simp: operator_Inr service_Inr VerifyAndResolve_Inr AllCallerTypes_def)

definition valid_ids :: "broker_env \<Rightarrow> bool" where
  "valid_ids E \<longleftrightarrow> (\<forall>pid p. be_project E pid = Inr p \<longrightarrow> ValidateProjectID pid = None)"

lemma valid_id_no_bar: "ValidateProjectID pid = None \<Longrightarrow> CHR ''|'' \<notin> set pid"
  by (auto simp: ValidateProjectID_None_iff project_id_chars_def)

text \<open>What a request that is let in does.\<close>

lemma ServeHTTP_cases:
  obtains (refused) "bs_items (snd (broker_ServeHTTP T c E r st)) = bs_items st"
      "\<forall>tok. fst (broker_ServeHTTP T c E r st) \<noteq> BrokerToken tok"
    | (minted) req actor project body kvs st' perms where
      "PermissionsFor (br_Tool req) = Inr perms" "bq_Body r = Some body" "Option.bind (tt_json (bt_token T) body) members = Some kvs"
      "decode_broker_request kvs = Some req"
      "fst (Authenticate (bt_token T) c (be_now E) r (br_ProjectID req) (br_Tool req) (bs_sessions st)) = Inr actor"
      "be_project E (br_ProjectID req) = Inr project" "pj_Status project = ProjectStatusActive"
      "pj_GitHubAppInstallationID project \<noteq> 0" "bs_items st' = bs_items st"
      "snd (broker_ServeHTTP T c E r st) = snd (cached_Mint (bt_sha256_hex T) E req actor st')"
      "\<forall>tok. fst (broker_ServeHTTP T c E r st) = BrokerToken tok \<longrightarrow>
         fst (cached_Mint (bt_sha256_hex T) E req actor st') = Inr tok"
proof (cases "\<exists>body kvs req actor. bq_Method r = ''POST'' \<and> bq_Body r = Some body \<and>
    Option.bind (tt_json (bt_token T) body) members = Some kvs \<and>
    ValidateBrokerRequest (bt_order T (remdups (map fst kvs))) = None \<and> decode_broker_request kvs = Some req \<and>
    fst (Authenticate (bt_token T) c (be_now E) r (br_ProjectID req) (br_Tool req) (bs_sessions st)) = Inr actor")
  case False
  show ?thesis
    using False
    by (intro refused) (auto simp: broker_ServeHTTP_def Let_def split: option.split request_error.split sum.split)
next
  case True
  then obtain body kvs req actor where t: "bq_Method r = ''POST''" "bq_Body r = Some body"
    "Option.bind (tt_json (bt_token T) body) members = Some kvs"
    "ValidateBrokerRequest (bt_order T (remdups (map fst kvs))) = None" "decode_broker_request kvs = Some req"
    "fst (Authenticate (bt_token T) c (be_now E) r (br_ProjectID req) (br_Tool req) (bs_sessions st)) = Inr actor"
    by blast
  let ?st = "st\<lparr>bs_sessions := snd (Authenticate (bt_token T) c (be_now E) r (br_ProjectID req) (br_Tool req) (bs_sessions st))\<rparr>"
  let ?m = "service_Mint (bt_sha256_hex T) E req actor ?st"
  have run: "broker_ServeHTTP T c E r st =
      (case fst ?m of Inl e \<Rightarrow> (writeServiceError e, snd ?m) | Inr tok \<Rightarrow> (BrokerToken tok, snd ?m))"
    using t by (simp add: broker_ServeHTTP_def Let_def)
  have errors: "writeServiceError e \<noteq> BrokerToken tok" for e tok by (cases e) auto
  show ?thesis
  proof (cases "\<exists>project. be_project E (br_ProjectID req) = Inr project \<and> pj_Status project = ProjectStatusActive \<and>
      pj_GitHubAppInstallationID project \<noteq> 0 \<and> IsAllowed (ba_Type actor) (br_Tool req) = None")
    case True
    then obtain project perms where p: "PermissionsFor (br_Tool req) = Inr perms" "be_project E (br_ProjectID req) = Inr project"
      "pj_Status project = ProjectStatusActive" "pj_GitHubAppInstallationID project \<noteq> 0"
      and m: "?m = cached_Mint (bt_sha256_hex T) E req actor ?st"
      by (auto simp: service_Mint_def IsAllowed_def split: sum.splits)
    show ?thesis
      by (rule minted[of req perms body kvs actor project ?st]) (use t p errors in \<open>simp_all add: run m split: sum.split\<close>)
  next
    case False
    then have "snd ?m = ?st" "\<exists>e. fst ?m = Inl e"
      by (auto simp: service_Mint_def split: option.split sum.split)
    with errors show ?thesis by (intro refused) (auto simp: run)
  qed
qed

definition serve ::
  "broker_text \<Rightarrow> 's chain \<Rightarrow> (broker_env \<times> broker_http) list \<Rightarrow> 's broker_state \<Rightarrow> 's broker_state" where
  "serve T c evs st = fold (\<lambda>(E, r) st. snd (broker_ServeHTTP T c E r st)) evs st"

lemma ServeHTTP_cache_ok:
  assumes "cache_ok Es (bs_items st)" "E \<in> Es" "valid_ids E"
  shows "cache_ok Es (bs_items (snd (broker_ServeHTTP T c E r st)))"
proof (cases rule: ServeHTTP_cases[of T c E r st])
  case refused
  with assms(1) show ?thesis by simp
next
  case (minted req actor project body kvs st' perms)
  then have "CHR ''|'' \<notin> set (br_ProjectID req)"
    using assms(3) valid_id_no_bar by (auto simp: valid_ids_def)
  with minted assms(1,2) show ?thesis
    by (simp add: cached_Mint_ok(1) Authenticate_kind)
qed

lemma serve_cache_ok:
  "cache_ok Es (bs_items st) \<Longrightarrow> fst ` set evs \<subseteq> Es \<Longrightarrow> \<forall>E \<in> fst ` set evs. valid_ids E \<Longrightarrow>
     cache_ok Es (bs_items (serve T c evs st))"
  unfolding serve_def
  by (induction evs arbitrary: st) (auto intro!: ServeHTTP_cache_ok simp: split_beta)


definition sample_project :: project where
  "sample_project =
     \<lparr>pj_ID = ''p'', pj_GitHubOrg = ''o'', pj_GitHubRepo = ''repo'', pj_WorkspacePath = [],
      pj_SlackDefaultChannel = [], pj_GitHubAppInstallationID = 9, pj_Status = ProjectStatusActive,
      pj_CreatedAt = 0, pj_ArchivedAt = None\<rparr>"

definition sample_env :: broker_env where
  "sample_env =
     (let projects = (\<lambda>pid. if pid = ''p'' then Inr sample_project else Inl ErrProjectNotFound)
      in \<lparr>be_project = projects, be_project_at_mint = projects,
          be_mint = (\<lambda>opts. if mr_Repositories opts = [''repo''] then Inr \<lparr>gt_Token = ''ghs'', gt_ExpiresAt = 5\<rparr> else Inl ''no''),
          be_now = 0, be_lookup = 0, be_recheck = 0\<rparr>)"

definition sample_broker_text :: broker_text where
  "sample_broker_text = \<lparr>bt_token = sample_text, bt_sha256_hex = (\<lambda>s. s), bt_order = (\<lambda>ks. ks)\<rparr>"

definition sample_token :: installation_token where
  "sample_token =
     \<lparr>it_Token = ''ghs'', it_ExpiresAt = 5,
      it_Actor = \<lparr>ba_Type = CallerGatewayService, ba_UserEmail = ''sa'', ba_SessionID = []\<rparr>,
      it_ProjectID = ''p'', it_Tool = ''amadeus'',
      it_Permissions = \<lparr>rp_Contents = ''read'', rp_PullRequests = ''read''\<rparr>, it_AuditFingerprint = ''ghs''\<rparr>"

lemma sample_decode:
  "decode_broker_request [(''project_id'', JStr ''p''), (''tool'', JStr ''amadeus'')] =
     Some \<lparr>br_ProjectID = ''p'', br_Tool = ''amadeus'', br_SessionID = []\<rparr>"
  by code_simp

lemma sample_request_token:
  "fst (broker_ServeHTTP sample_broker_text (sample_chain JwtValid) sample_env (service_http CallerGatewayService)
      (serve sample_broker_text (sample_chain JwtValid) [] \<lparr>bs_sessions = (\<lambda>_. None), bs_items = (\<lambda>_. None), bs_minted = []\<rparr>)) =
     BrokerToken sample_token"
proof -
  let ?st = "\<lparr>bs_sessions = (\<lambda>_. None), bs_items = (\<lambda>_. None), bs_minted = []\<rparr> :: sessions broker_state"
  let ?r = "service_http CallerGatewayService"
  let ?kvs = "[(''project_id'', JStr ''p''), (''tool'', JStr ''amadeus'')]"
  let ?req = "\<lparr>br_ProjectID = ''p'', br_Tool = ''amadeus'', br_SessionID = []\<rparr>"
  let ?actor = "\<lparr>ba_Type = CallerGatewayService, ba_UserEmail = ''sa'', ba_SessionID = []\<rparr>"
  have mint: "fst (service_Mint (\<lambda>s. s) sample_env ?req ?actor st) = Inr sample_token"
    if "bs_items st = (\<lambda>_. None)" for st :: "sessions broker_state"
    using that
    by (simp add: service_Mint_def IsAllowed_def PermissionsFor_def go_consts sample_env_def Let_def
        cached_Mint_def GetOrFetch_def cache_lookup_def github_Mint_def mint_options_def opt_permission_def
        AuditFingerprint_def)
      (simp add: sample_project_def sample_token_def go_consts)
  have http: "bq_Method ?r = ''POST''" "bq_Body ?r = Some ''b''" by (simp_all add: service_http_def)
  have parts: "bt_token sample_broker_text = sample_text" "bt_sha256_hex sample_broker_text = (\<lambda>s. s)"
    "bt_order sample_broker_text (remdups (map fst ?kvs)) = [''project_id'', ''tool'']"
    by (simp_all add: sample_broker_text_def)
  have body: "tt_json sample_text ''b'' = Some (JObj ?kvs)" by (simp add: sample_text_def)
  have valid: "ValidateBrokerRequest [''project_id'', ''tool''] = None" by code_simp
  have now: "be_now sample_env = 0" by (simp add: sample_env_def Let_def)
  show ?thesis
    by (simp add: broker_ServeHTTP_def serve_def http parts(1,2) body parts(3)[simplified] valid sample_decode
        allowedRequestFields_def now authenticated_sample mint Let_def)
qed


text \<open>The token cache is shared by the sessions of one service account: the second session of an agent gets
  the token of the first, with the session of the first in its \<open>actor\<close>.\<close>

theorem cached_token_names_first_session:
  assumes "fst (cached_Mint sha E req actor st) = Inr tok" "bs_items st = (\<lambda>_. None)"
    and "it_ExpiresAt tok - be_lookup E' > safetyMargin" "br_ProjectID req' = br_ProjectID req" "br_Tool req' = br_Tool req"
  shows "fst (cached_Mint sha E' req' (actor\<lparr>ba_SessionID := sid\<rparr>) (snd (cached_Mint sha E req actor st))) = Inr tok \<and>
    ba_SessionID (it_Actor tok) = ba_SessionID actor"
proof -
  have key: "cacheKey req' (actor\<lparr>ba_SessionID := sid\<rparr>) = cacheKey req actor" using assms(4,5) by (simp add: cacheKey_def)
  from assms(1,2) have m: "fst (github_Mint sha E req actor (st\<lparr>bs_items := (\<lambda>_. None)\<rparr>)) = Inr tok"
    by (auto simp: cached_Mint_def GetOrFetch_def cache_lookup_def Let_def split: sum.splits)
  then have "bs_items (snd (cached_Mint sha E req actor st)) (cacheKey req actor) = Some tok"
    using assms(2) by (simp add: cached_Mint_def GetOrFetch_def cache_lookup_def cache_store_def Let_def)
  moreover have "it_Actor tok = actor" using github_Mint_ok[OF m, of UNIV] by simp
  ultimately show ?thesis
    using assms(3) by (simp add: cached_Mint_def[of _ E'] GetOrFetch_def[of E'] key cache_lookup_def)
qed

end
