(* ===== verification/Broker_Wiring.thy ===== *)
theory Broker_Wiring
  imports Broker_Correct
begin

text \<open>
  How the credential broker is put together from the process environment
  (\<open>internal/composition/broker_config.go\<close>, \<open>broker_dependencies.go\<close>), with the two sources of the
  private key (\<open>internal/adapter/output/secret\<close>) and the client of the GitHub API
  (\<open>internal/adapter/output/github/installation_token_minter_ghinstallation.go\<close>).  Files, the clients of
  Google and GitHub and the check of the key are a record of functions.
\<close>

section \<open>Configuration\<close>

record broker_config =
  bc_Audience :: string
  bc_GoogleSTSIssuer :: string
  bc_GoogleJWKSURL :: string
  bc_OperatorEmails :: "string list"
  bc_GatewayServiceSAs :: "string list"
  bc_WorkspaceDaemonSAs :: "string list"
  bc_GitHubAppID :: int
  bc_PrivateKeyPath :: string
  bc_PrivateKeySecretName :: string
  bc_GitHubAPIBaseURL :: string
  bc_UseFirestoreRegistry :: bool

datatype broker_config_error =
    ErrBrokerConfigMissingAudience
  | ErrBrokerConfigMissingGatewayServiceSAs
  | ErrBrokerConfigMissingWorkspaceDaemonSAs
  | ErrBrokerConfigMissingGitHubAppID
  | ErrBrokerConfigInvalidGitHubAppID string
  | ErrBrokerConfigMissingPrivateKeySource
  | ErrBrokerConfigPrivateKeySourceConflict

definition defaultGoogleSTSIssuer :: string where
  "defaultGoogleSTSIssuer = ''https://accounts.google.com''"

definition defaultGoogleJWKSURL :: string where
  "defaultGoogleJWKSURL = ''https://www.googleapis.com/oauth2/v3/certs''"

definition parseCSVNonEmpty :: "string \<Rightarrow> string list" where
  "parseCSVNonEmpty raw =
     (if trim_space raw = [] then []
      else filter (\<lambda>s. s \<noteq> []) (map trim_space (split_chr CHR '','' raw)))"

definition parseBool :: "string \<Rightarrow> bool" where
  "parseBool raw = (let s = lower (trim_space raw) in s = ''true'' \<or> s = ''1'')"

definition LoadBrokerConfig :: "(string \<Rightarrow> string) \<Rightarrow> broker_config_error + broker_config" where
  "LoadBrokerConfig getenv =
     (let audience = trim_space (getenv ''BROKER_AUDIENCE'');
          issuer = first_non_empty (trim_space (getenv ''GOOGLE_STS_ISSUER'')) defaultGoogleSTSIssuer;
          jwksURL = first_non_empty (trim_space (getenv ''GOOGLE_JWKS_URL'')) defaultGoogleJWKSURL;
          gatewaySAs = parseCSVNonEmpty (getenv ''BROKER_GATEWAY_SERVICE_SAS'');
          workspaceSAs = parseCSVNonEmpty (getenv ''BROKER_WORKSPACE_DAEMON_SAS'');
          appIDRaw = trim_space (getenv ''GITHUB_APP_ID'');
          keyPath = trim_space (getenv ''GITHUB_APP_PRIVATE_KEY_PATH'');
          keySecret = trim_space (getenv ''GITHUB_APP_PRIVATE_KEY_SECRET_NAME'')
      in if audience = [] then Inl ErrBrokerConfigMissingAudience
         else if gatewaySAs = [] then Inl ErrBrokerConfigMissingGatewayServiceSAs
         else if workspaceSAs = [] then Inl ErrBrokerConfigMissingWorkspaceDaemonSAs
         else if appIDRaw = [] then Inl ErrBrokerConfigMissingGitHubAppID
         else case parse_int 64 appIDRaw of
           None \<Rightarrow> Inl (ErrBrokerConfigInvalidGitHubAppID appIDRaw)
         | Some appID \<Rightarrow>
             if appID \<le> 0 then Inl (ErrBrokerConfigInvalidGitHubAppID appIDRaw)
             else if keyPath = [] \<and> keySecret = [] then Inl ErrBrokerConfigMissingPrivateKeySource
             else if keyPath \<noteq> [] \<and> keySecret \<noteq> [] then Inl ErrBrokerConfigPrivateKeySourceConflict
             else Inr
               \<lparr>bc_Audience = audience, bc_GoogleSTSIssuer = issuer, bc_GoogleJWKSURL = jwksURL,
                bc_OperatorEmails = parseCSVNonEmpty (getenv ''BROKER_OPERATOR_EMAILS''),
                bc_GatewayServiceSAs = gatewaySAs, bc_WorkspaceDaemonSAs = workspaceSAs, bc_GitHubAppID = appID,
                bc_PrivateKeyPath = keyPath, bc_PrivateKeySecretName = keySecret,
                bc_GitHubAPIBaseURL = trim_space (getenv ''GITHUB_API_BASE_URL''),
                bc_UseFirestoreRegistry = parseBool (getenv ''BROKER_USE_FIRESTORE_REGISTRY'')\<rparr>)"

section \<open>The private key of the GitHub App\<close>

record broker_host =
  bh_read_file :: "string \<Rightarrow> string + string"
  bh_secret_client :: gerror
  bh_secret :: "string \<Rightarrow> string + string option"
  bh_probe_key :: "int \<Rightarrow> string \<Rightarrow> gerror"
  bh_parse_url :: "string \<Rightarrow> string + string"
  bh_create_token :: "int \<Rightarrow> string \<Rightarrow> string option \<Rightarrow> mint_request \<Rightarrow> string + github_token"
  bh_jwks :: "string \<Rightarrow> string + (string \<Rightarrow> jwt_result)"

datatype key_fetcher = FilePrivateKeyFetcher string | SecretManagerPrivateKeyFetcher string

datatype key_error =
    ErrFilePathEmpty
  | ErrSecretNameInvalid
  | SecretClient string
  | ReadKey string
  | EmptyKeyFile
  | AccessSecret string
  | EmptySecret
  | ErrPrivateKeySourceMissing

definition NewFilePrivateKeyFetcher :: "string \<Rightarrow> key_error + key_fetcher" where
  "NewFilePrivateKeyFetcher path = (if path = [] then Inl ErrFilePathEmpty else Inr (FilePrivateKeyFetcher path))"

definition secretNameRegex :: "string \<Rightarrow> bool" where
  "secretNameRegex s =
     (case split_chr CHR ''/'' s of
        [a, p, b, n, c, v] \<Rightarrow>
          a = ''projects'' \<and> p \<noteq> [] \<and> b = ''secrets'' \<and> n \<noteq> [] \<and> c = ''versions'' \<and>
          (v = ''latest'' \<or> (v \<noteq> [] \<and> list_all (\<lambda>x. digit_val x \<noteq> None) v))
      | _ \<Rightarrow> False)"

definition NewSecretManagerPrivateKeyFetcher :: "broker_host \<Rightarrow> string \<Rightarrow> key_error + key_fetcher" where
  "NewSecretManagerPrivateKeyFetcher H secretName =
     (if \<not> secretNameRegex secretName then Inl ErrSecretNameInvalid
      else case bh_secret_client H of
        Some e \<Rightarrow> Inl (SecretClient e)
      | None \<Rightarrow> Inr (SecretManagerPrivateKeyFetcher secretName))"

definition file_Fetch :: "broker_host \<Rightarrow> string \<Rightarrow> key_error + string" where
  "file_Fetch H path =
     (case bh_read_file H path of
        Inl e \<Rightarrow> Inl (ReadKey e)
      | Inr b \<Rightarrow> if b = [] then Inl EmptyKeyFile else Inr b)"

definition secret_Fetch :: "broker_host \<Rightarrow> string \<Rightarrow> key_error + string" where
  "secret_Fetch H secretName =
     (case bh_secret H secretName of
        Inl e \<Rightarrow> Inl (AccessSecret e)
      | Inr None \<Rightarrow> Inl EmptySecret
      | Inr (Some b) \<Rightarrow> if b = [] then Inl EmptySecret else Inr b)"

fun key_Fetch :: "broker_host \<Rightarrow> key_fetcher \<Rightarrow> key_error + string" where
  "key_Fetch H (FilePrivateKeyFetcher path) = file_Fetch H path"
| "key_Fetch H (SecretManagerPrivateKeyFetcher n) = secret_Fetch H n"

definition newPrivateKeyFetcher :: "broker_host \<Rightarrow> broker_config \<Rightarrow> key_error + key_fetcher" where
  "newPrivateKeyFetcher H cfg =
     (if bc_PrivateKeySecretName cfg \<noteq> [] then NewSecretManagerPrivateKeyFetcher H (bc_PrivateKeySecretName cfg)
      else if bc_PrivateKeyPath cfg \<noteq> [] then NewFilePrivateKeyFetcher (bc_PrivateKeyPath cfg)
      else Inl ErrPrivateKeySourceMissing)"

section \<open>The client of the GitHub API\<close>

record minter =
  mn_appID :: int
  mn_privateKeyPEM :: string
  mn_baseURL :: string

datatype minter_error =
    ErrGhinstallationInvalidAppID
  | ErrGhinstallationMissingPrivateKey
  | InvalidPrivateKey string

definition NewGhinstallationMinter :: "broker_host \<Rightarrow> int \<Rightarrow> string \<Rightarrow> string \<Rightarrow> minter_error + minter" where
  "NewGhinstallationMinter H appID privateKeyPEM baseURL =
     (if appID \<le> 0 then Inl ErrGhinstallationInvalidAppID
      else if privateKeyPEM = [] then Inl ErrGhinstallationMissingPrivateKey
      else case bh_probe_key H appID privateKeyPEM of
        Some e \<Rightarrow> Inl (InvalidPrivateKey e)
      | None \<Rightarrow> Inr \<lparr>mn_appID = appID, mn_privateKeyPEM = privateKeyPEM, mn_baseURL = baseURL\<rparr>)"

definition trim_right_slashes :: "string \<Rightarrow> string" where
  "trim_right_slashes s = rev (dropWhile (\<lambda>c. c = CHR ''/'') (rev s))"

definition ghinstallation_Mint :: "broker_host \<Rightarrow> minter \<Rightarrow> mint_request \<Rightarrow> string + github_token" where
  "ghinstallation_Mint H m opts =
     (case bh_probe_key H (mn_appID m) (mn_privateKeyPEM m) of
        Some e \<Rightarrow> Inl e
      | None \<Rightarrow>
          if mn_baseURL m = [] then bh_create_token H (mn_appID m) (mn_privateKeyPEM m) None opts
          else (case bh_parse_url H (trim_right_slashes (mn_baseURL m) @ ''/'') of
                  Inl e \<Rightarrow> Inl e
                | Inr base \<Rightarrow> bh_create_token H (mn_appID m) (mn_privateKeyPEM m) (Some base) opts))"

section \<open>Putting the broker together\<close>

datatype session_backend = MemorySessions | FirestoreSessions

record session_state =
  ses_memory :: sessions
  ses_table :: session_table

fun backend_session_Get :: "session_backend \<Rightarrow> env_store \<Rightarrow> session_state session_get" where
  "backend_session_Get MemorySessions E sid st = (fst (memory_Get sid (ses_memory st)), st)"
| "backend_session_Get FirestoreSessions E sid st =
     (let r = firestore_session_Get E sid (ses_table st) in (fst r, st\<lparr>ses_table := snd r\<rparr>))"

record broker_dependencies =
  bd_chain :: "env_store \<Rightarrow> session_state chain"
  bd_minter :: minter
  bd_sessions :: session_backend

datatype broker_start_error =
    ErrNilConfig
  | ErrNilProjectRegistry
  | ErrFirestoreClientRequired
  | KeyFetcher key_error
  | KeyFetch key_error
  | BuildMinter minter_error
  | BuildJWKS string
  | BuildVerifier string

definition NewJWKSVerifier :: "broker_host \<Rightarrow> string \<Rightarrow> string \<Rightarrow> string + jwks_verifier" where
  "NewJWKSVerifier H jwksURL audience =
     (case bh_jwks H jwksURL of
        Inl e \<Rightarrow> Inl e
      | Inr parse \<Rightarrow> Inr \<lparr>jv_Parse = parse, jv_Audience = audience\<rparr>)"

definition NewBrokerDependencies ::
  "broker_host \<Rightarrow> broker_config option \<Rightarrow> bool \<Rightarrow> bool \<Rightarrow> broker_start_error + broker_dependencies" where
  "NewBrokerDependencies H config has_registry has_firestore =
     (case config of
        None \<Rightarrow> Inl ErrNilConfig
      | Some cfg \<Rightarrow>
          if \<not> has_registry then Inl ErrNilProjectRegistry
          else if bc_UseFirestoreRegistry cfg \<and> \<not> has_firestore then Inl ErrFirestoreClientRequired
          else case newPrivateKeyFetcher H cfg of
            Inl e \<Rightarrow> Inl (KeyFetcher e)
          | Inr fetcher \<Rightarrow>
          (case key_Fetch H fetcher of
            Inl e \<Rightarrow> Inl (KeyFetch e)
          | Inr keyPEM \<Rightarrow>
          (case NewGhinstallationMinter H (bc_GitHubAppID cfg) keyPEM (bc_GitHubAPIBaseURL cfg) of
            Inl e \<Rightarrow> Inl (BuildMinter e)
          | Inr m \<Rightarrow>
          (case NewJWKSVerifier H (bc_GoogleJWKSURL cfg) (bc_Audience cfg) of
            Inl e \<Rightarrow> Inl (BuildJWKS e)
          | Inr jwks \<Rightarrow>
          (case NewCloudRunIAMVerifier jwks (bc_GoogleSTSIssuer cfg) (bc_GatewayServiceSAs cfg) of
            Inl e \<Rightarrow> Inl (BuildVerifier e)
          | Inr cloudrun \<Rightarrow>
          (case NewWorkloadIdentityVerifier jwks (bc_GoogleSTSIssuer cfg) (bc_WorkspaceDaemonSAs cfg) of
            Inl e \<Rightarrow> Inl (BuildVerifier e)
          | Inr workload \<Rightarrow>
              (let sess = (if bc_UseFirestoreRegistry cfg then FirestoreSessions else MemorySessions)
               in Inr
                 \<lparr>bd_chain = (\<lambda>E.
                    \<lparr>ch_humanOperator =
                       NewGcloudIdentityTokenVerifier jwks (bc_GoogleSTSIssuer cfg) (bc_OperatorEmails cfg),
                     ch_gatewayService = cloudrun, ch_workspaceDaemon = workload,
                     ch_audience = bc_Audience cfg, ch_session_get = backend_session_Get sess E\<rparr>),
                  bd_minter = m, bd_sessions = sess\<rparr>)))))))"

lemma parseCSVNonEmpty_members: "x \<in> set (parseCSVNonEmpty raw) \<Longrightarrow> x \<noteq> []"
  by (auto simp: parseCSVNonEmpty_def split: if_splits)

lemma LoadBrokerConfig_Inr:
  assumes "LoadBrokerConfig getenv = Inr cfg"
  shows "bc_Audience cfg = trim_space (getenv ''BROKER_AUDIENCE'') \<and> bc_Audience cfg \<noteq> []"
    and "bc_OperatorEmails cfg = parseCSVNonEmpty (getenv ''BROKER_OPERATOR_EMAILS'')"
    and "bc_GatewayServiceSAs cfg = parseCSVNonEmpty (getenv ''BROKER_GATEWAY_SERVICE_SAS'') \<and>
      bc_GatewayServiceSAs cfg \<noteq> []"
    and "bc_WorkspaceDaemonSAs cfg = parseCSVNonEmpty (getenv ''BROKER_WORKSPACE_DAEMON_SAS'') \<and>
      bc_WorkspaceDaemonSAs cfg \<noteq> []"
    and "0 < bc_GitHubAppID cfg"
    and "(bc_PrivateKeyPath cfg = []) \<noteq> (bc_PrivateKeySecretName cfg = [])"
  using assms by (auto simp: LoadBrokerConfig_def Let_def split: if_splits option.splits)

lemma NewBrokerDependencies_Inr:
  assumes "NewBrokerDependencies H (Some cfg) True fs = Inr d"
  obtains fetcher parse where
    "newPrivateKeyFetcher H cfg = Inr fetcher" "key_Fetch H fetcher = Inr (mn_privateKeyPEM (bd_minter d))"
    "NewGhinstallationMinter H (bc_GitHubAppID cfg) (mn_privateKeyPEM (bd_minter d)) (bc_GitHubAPIBaseURL cfg)
       = Inr (bd_minter d)"
    "bh_jwks H (bc_GoogleJWKSURL cfg) = Inr parse"
    "bd_sessions d = (if bc_UseFirestoreRegistry cfg then FirestoreSessions else MemorySessions)"
    "bc_UseFirestoreRegistry cfg \<longrightarrow> fs"
    "\<And>E. bd_chain d E =
       \<lparr>ch_humanOperator = NewGcloudIdentityTokenVerifier \<lparr>jv_Parse = parse, jv_Audience = bc_Audience cfg\<rparr>
          (bc_GoogleSTSIssuer cfg) (bc_OperatorEmails cfg),
        ch_gatewayService = \<lparr>sv_signature = \<lparr>jv_Parse = parse, jv_Audience = bc_Audience cfg\<rparr>,
          sv_issuer = bc_GoogleSTSIssuer cfg, sv_saAllowlist = bc_GatewayServiceSAs cfg\<rparr>,
        ch_workspaceDaemon = \<lparr>sv_signature = \<lparr>jv_Parse = parse, jv_Audience = bc_Audience cfg\<rparr>,
          sv_issuer = bc_GoogleSTSIssuer cfg, sv_saAllowlist = bc_WorkspaceDaemonSAs cfg\<rparr>,
        ch_audience = bc_Audience cfg, ch_session_get = backend_session_Get (bd_sessions d) E\<rparr>"
proof -
  from assms obtain fetcher key m jwks where
    *: "newPrivateKeyFetcher H cfg = Inr fetcher" "key_Fetch H fetcher = Inr key"
      "NewGhinstallationMinter H (bc_GitHubAppID cfg) key (bc_GitHubAPIBaseURL cfg) = Inr m"
      "NewJWKSVerifier H (bc_GoogleJWKSURL cfg) (bc_Audience cfg) = Inr jwks"
      "bc_UseFirestoreRegistry cfg \<longrightarrow> fs" "bc_GatewayServiceSAs cfg \<noteq> []" "bc_WorkspaceDaemonSAs cfg \<noteq> []"
    by (auto simp: NewBrokerDependencies_def NewCloudRunIAMVerifier_def NewWorkloadIdentityVerifier_def
        split: if_splits sum.splits)
  from *(4) obtain parse where p: "bh_jwks H (bc_GoogleJWKSURL cfg) = Inr parse"
    "jwks = \<lparr>jv_Parse = parse, jv_Audience = bc_Audience cfg\<rparr>"
    by (auto simp: NewJWKSVerifier_def split: sum.splits)
  have k: "mn_privateKeyPEM m = key"
    using *(3) by (auto simp: NewGhinstallationMinter_def split: if_splits option.splits)
  from assms *(1-4) *(5) have d: "d = \<lparr>bd_chain = (\<lambda>E.
       \<lparr>ch_humanOperator = NewGcloudIdentityTokenVerifier jwks (bc_GoogleSTSIssuer cfg) (bc_OperatorEmails cfg),
        ch_gatewayService = \<lparr>sv_signature = jwks, sv_issuer = bc_GoogleSTSIssuer cfg,
          sv_saAllowlist = bc_GatewayServiceSAs cfg\<rparr>,
        ch_workspaceDaemon = \<lparr>sv_signature = jwks, sv_issuer = bc_GoogleSTSIssuer cfg,
          sv_saAllowlist = bc_WorkspaceDaemonSAs cfg\<rparr>,
        ch_audience = bc_Audience cfg,
        ch_session_get = backend_session_Get (if bc_UseFirestoreRegistry cfg then FirestoreSessions else MemorySessions) E\<rparr>),
       bd_minter = m, bd_sessions = (if bc_UseFirestoreRegistry cfg then FirestoreSessions else MemorySessions)\<rparr>"
    using *(6,7)
    by (auto simp: NewBrokerDependencies_def NewCloudRunIAMVerifier_def NewWorkloadIdentityVerifier_def Let_def)
  show ?thesis by (rule that[of fetcher parse]) (use * p d k in simp_all)
qed

text \<open>C10. A broker that comes up lets in only whom its environment names: every accepted caller shows an
  unexpired token for exactly the trimmed \<open>BROKER_AUDIENCE\<close>; a gateway service or a workspace daemon is on
  the comma-separated list of its kind, which is not empty, and an operator on the list of operators
  unless that list is empty; these three have a signature checked against the configured key set and the
  configured issuer.  An agent presents a session that is neither revoked nor expired and names exactly its
  service account, project and tool.  The kind of a caller is the declared one, its address the one of the
  token.  The key of the broker comes from exactly one source, is not empty, and belongs to a positive App ID.\<close>

theorem broker_admits_configured:
  assumes "LoadBrokerConfig getenv = Inr cfg"
    and "NewBrokerDependencies H (Some cfg) True fs = Inr d"
    and "fst (Authenticate T (bd_chain d E) now r pid tool st) = Inr actor"
  shows "(\<exists>bearer claims parse. extractBearer (bq_Authorization r) = Inr bearer \<and>
       ParseIdentityClaims T bearer = Inr claims \<and> now < ic_ExpiresAt claims \<and>
       ic_Audience claims = trim_space (getenv ''BROKER_AUDIENCE'') \<and> ic_Email claims = ba_UserEmail actor \<and>
       ba_Type actor = trim_space (bq_CallerType r) \<and>
       bh_jwks H (bc_GoogleJWKSURL cfg) = Inr parse \<and>
       (ba_Type actor \<noteq> CallerAIAgent \<longrightarrow>
          parse bearer = JwtValid \<and> ic_Issuer claims = bc_GoogleSTSIssuer cfg)) \<and>
     (ba_Type actor = CallerGatewayService \<longrightarrow>
        ba_UserEmail actor \<in> set (parseCSVNonEmpty (getenv ''BROKER_GATEWAY_SERVICE_SAS''))) \<and>
     (ba_Type actor = CallerWorkspaceDaemon \<longrightarrow>
        ba_UserEmail actor \<in> set (parseCSVNonEmpty (getenv ''BROKER_WORKSPACE_DAEMON_SAS''))) \<and>
     (ba_Type actor = CallerHumanOperator \<longrightarrow>
        parseCSVNonEmpty (getenv ''BROKER_OPERATOR_EMAILS'') = [] \<or>
        ba_UserEmail actor \<in> set (parseCSVNonEmpty (getenv ''BROKER_OPERATOR_EMAILS''))) \<and>
     (ba_Type actor = CallerAIAgent \<longrightarrow>
        (\<exists>sess. fst (backend_session_Get (bd_sessions d) E (ba_SessionID actor) st) = Inr sess \<and>
           as_RevokedAt sess = None \<and> now < as_ExpiresAt sess \<and> as_WorkspaceDaemonSA sess = ba_UserEmail actor \<and>
           as_ProjectID sess = pid \<and> as_Tool sess = tool)) \<and>
     (ba_Type actor = CallerHumanOperator \<or> ba_Type actor = CallerGatewayService \<or>
      ba_Type actor = CallerWorkspaceDaemon \<or> ba_Type actor = CallerAIAgent) \<and>
     0 < mn_appID (bd_minter d) \<and> mn_privateKeyPEM (bd_minter d) \<noteq> [] \<and>
     (if bc_PrivateKeySecretName cfg \<noteq> []
      then bh_secret H (bc_PrivateKeySecretName cfg) = Inr (Some (mn_privateKeyPEM (bd_minter d))) \<and>
           secretNameRegex (bc_PrivateKeySecretName cfg) \<and> bc_PrivateKeyPath cfg = []
      else bh_read_file H (bc_PrivateKeyPath cfg) = Inr (mn_privateKeyPEM (bd_minter d)))"
proof -
  note cfg = LoadBrokerConfig_Inr[OF assms(1)]
  from assms(2) obtain fetcher parse where key: "newPrivateKeyFetcher H cfg = Inr fetcher"
      "key_Fetch H fetcher = Inr (mn_privateKeyPEM (bd_minter d))"
    and m: "NewGhinstallationMinter H (bc_GitHubAppID cfg) (mn_privateKeyPEM (bd_minter d)) (bc_GitHubAPIBaseURL cfg)
       = Inr (bd_minter d)"
    and jwks: "bh_jwks H (bc_GoogleJWKSURL cfg) = Inr parse"
    and chain: "bd_chain d E =
       \<lparr>ch_humanOperator = NewGcloudIdentityTokenVerifier \<lparr>jv_Parse = parse, jv_Audience = bc_Audience cfg\<rparr>
          (bc_GoogleSTSIssuer cfg) (bc_OperatorEmails cfg),
        ch_gatewayService = \<lparr>sv_signature = \<lparr>jv_Parse = parse, jv_Audience = bc_Audience cfg\<rparr>,
          sv_issuer = bc_GoogleSTSIssuer cfg, sv_saAllowlist = bc_GatewayServiceSAs cfg\<rparr>,
        ch_workspaceDaemon = \<lparr>sv_signature = \<lparr>jv_Parse = parse, jv_Audience = bc_Audience cfg\<rparr>,
          sv_issuer = bc_GoogleSTSIssuer cfg, sv_saAllowlist = bc_WorkspaceDaemonSAs cfg\<rparr>,
        ch_audience = bc_Audience cfg, ch_session_get = backend_session_Get (bd_sessions d) E\<rparr>"
    by (rule NewBrokerDependencies_Inr) blast
  have minted: "0 < mn_appID (bd_minter d) \<and> mn_privateKeyPEM (bd_minter d) \<noteq> []"
    using m by (cases "bd_minter d") (auto simp: NewGhinstallationMinter_def split: if_splits option.splits)
  have source: "if bc_PrivateKeySecretName cfg \<noteq> []
      then bh_secret H (bc_PrivateKeySecretName cfg) = Inr (Some (mn_privateKeyPEM (bd_minter d))) \<and>
           secretNameRegex (bc_PrivateKeySecretName cfg) \<and> bc_PrivateKeyPath cfg = []
      else bh_read_file H (bc_PrivateKeyPath cfg) = Inr (mn_privateKeyPEM (bd_minter d))"
    using key cfg(6)
    by (auto simp: newPrivateKeyFetcher_def NewSecretManagerPrivateKeyFetcher_def NewFilePrivateKeyFetcher_def
        file_Fetch_def secret_Fetch_def
        split: if_splits option.splits sum.splits)
  let ?sig = "\<lparr>jv_Parse = parse, jv_Audience = bc_Audience cfg\<rparr>"
  have c: "ov_signature (ch_humanOperator (bd_chain d E)) = ?sig"
    "ov_issuer (ch_humanOperator (bd_chain d E)) = bc_GoogleSTSIssuer cfg"
    "ov_emailAllowlist (ch_humanOperator (bd_chain d E)) =
       (if bc_OperatorEmails cfg \<noteq> [] then Some (bc_OperatorEmails cfg) else None)"
    "sv_signature (ch_gatewayService (bd_chain d E)) = ?sig"
    "sv_issuer (ch_gatewayService (bd_chain d E)) = bc_GoogleSTSIssuer cfg"
    "sv_saAllowlist (ch_gatewayService (bd_chain d E)) = bc_GatewayServiceSAs cfg"
    "sv_signature (ch_workspaceDaemon (bd_chain d E)) = ?sig"
    "sv_issuer (ch_workspaceDaemon (bd_chain d E)) = bc_GoogleSTSIssuer cfg"
    "sv_saAllowlist (ch_workspaceDaemon (bd_chain d E)) = bc_WorkspaceDaemonSAs cfg"
    "ch_audience (bd_chain d E) = bc_Audience cfg"
    "ch_session_get (bd_chain d E) = backend_session_Get (bd_sessions d) E"
    by (simp_all add: chain NewGcloudIdentityTokenVerifier_def)
  from admitted_caller[OF assms(3)] obtain bearer claims where
    A: "extractBearer (bq_Authorization r) = Inr bearer" "ParseIdentityClaims T bearer = Inr claims"
      "now < ic_ExpiresAt claims" "ba_Type actor = trim_space (bq_CallerType r)"
      "ba_UserEmail actor = ic_Email claims"
    and K: "(ba_Type actor = CallerHumanOperator \<and> parse bearer = JwtValid \<and> ic_Audience claims = bc_Audience cfg \<and>
         ic_Issuer claims = bc_GoogleSTSIssuer cfg \<and>
         (bc_OperatorEmails cfg = [] \<or> ba_UserEmail actor \<in> set (bc_OperatorEmails cfg))) \<or>
       (ba_Type actor = CallerGatewayService \<and> parse bearer = JwtValid \<and> ic_Audience claims = bc_Audience cfg \<and>
         ic_Issuer claims = bc_GoogleSTSIssuer cfg \<and> ba_UserEmail actor \<in> set (bc_GatewayServiceSAs cfg)) \<or>
       (ba_Type actor = CallerWorkspaceDaemon \<and> parse bearer = JwtValid \<and> ic_Audience claims = bc_Audience cfg \<and>
         ic_Issuer claims = bc_GoogleSTSIssuer cfg \<and> ba_UserEmail actor \<in> set (bc_WorkspaceDaemonSAs cfg)) \<or>
       (ba_Type actor = CallerAIAgent \<and> ic_Audience claims = bc_Audience cfg \<and>
         (\<exists>sess. fst (backend_session_Get (bd_sessions d) E (ba_SessionID actor) st) = Inr sess \<and>
           as_RevokedAt sess = None \<and> now < as_ExpiresAt sess \<and> as_WorkspaceDaemonSA sess = ba_UserEmail actor \<and>
           as_ProjectID sess = pid \<and> as_Tool sess = tool))"
    unfolding c by (auto simp: Let_def split: if_split_asm)
  have aud: "ic_Audience claims = trim_space (getenv ''BROKER_AUDIENCE'')" using K cfg(1) by auto
  have "\<exists>bearer claims parse. extractBearer (bq_Authorization r) = Inr bearer \<and>
       ParseIdentityClaims T bearer = Inr claims \<and> now < ic_ExpiresAt claims \<and>
       ic_Audience claims = trim_space (getenv ''BROKER_AUDIENCE'') \<and> ic_Email claims = ba_UserEmail actor \<and>
       ba_Type actor = trim_space (bq_CallerType r) \<and>
       bh_jwks H (bc_GoogleJWKSURL cfg) = Inr parse \<and>
       (ba_Type actor \<noteq> CallerAIAgent \<longrightarrow>
          parse bearer = JwtValid \<and> ic_Issuer claims = bc_GoogleSTSIssuer cfg)"
    using A aud jwks K by (intro exI[of _ bearer] exI[of _ claims] exI[of _ parse]) auto
  moreover have "ba_Type actor = CallerHumanOperator \<or> ba_Type actor = CallerGatewayService \<or>
      ba_Type actor = CallerWorkspaceDaemon \<or> ba_Type actor = CallerAIAgent"
    and "ba_Type actor = CallerGatewayService \<longrightarrow> ba_UserEmail actor \<in> set (bc_GatewayServiceSAs cfg)"
    and "ba_Type actor = CallerWorkspaceDaemon \<longrightarrow> ba_UserEmail actor \<in> set (bc_WorkspaceDaemonSAs cfg)"
    and "ba_Type actor = CallerHumanOperator \<longrightarrow>
      bc_OperatorEmails cfg = [] \<or> ba_UserEmail actor \<in> set (bc_OperatorEmails cfg)"
    and "ba_Type actor = CallerAIAgent \<longrightarrow>
        (\<exists>sess. fst (backend_session_Get (bd_sessions d) E (ba_SessionID actor) st) = Inr sess \<and>
           as_RevokedAt sess = None \<and> now < as_ExpiresAt sess \<and> as_WorkspaceDaemonSA sess = ba_UserEmail actor \<and>
           as_ProjectID sess = pid \<and> as_Tool sess = tool)"
    using K by (elim disjE conjE; simp)+
  ultimately show ?thesis using conjunct1[OF minted] conjunct2[OF minted] source unfolding cfg(2)[symmetric] conjunct1[OF cfg(3), symmetric]
      conjunct1[OF cfg(4), symmetric] by (intro conjI) assumption+
qed

definition sample_environment :: "string \<Rightarrow> string" where
  "sample_environment k =
     (if k = ''BROKER_AUDIENCE'' then '' broker ''
      else if k = ''BROKER_GATEWAY_SERVICE_SAS'' then ''sa, ''
      else if k = ''BROKER_WORKSPACE_DAEMON_SAS'' then ''wd''
      else if k = ''GITHUB_APP_ID'' then ''7''
      else if k = ''GITHUB_APP_PRIVATE_KEY_SECRET_NAME'' then ''projects/p/secrets/s/versions/1''
      else if k = ''GOOGLE_STS_ISSUER'' then ''google''
      else [])"

definition sample_broker_host :: broker_host where
  "sample_broker_host =
     \<lparr>bh_read_file = (\<lambda>_. Inl ''none''), bh_secret_client = None, bh_secret = (\<lambda>_. Inr (Some ''key'')),
      bh_probe_key = (\<lambda>_ _. None), bh_parse_url = (\<lambda>u. Inr u),
      bh_create_token = (\<lambda>_ _ _ _. Inl ''offline''), bh_jwks = (\<lambda>_. Inr (\<lambda>_. JwtValid))\<rparr>"

definition sample_broker_config :: broker_config where
  "sample_broker_config =
     \<lparr>bc_Audience = ''broker'', bc_GoogleSTSIssuer = ''google'', bc_GoogleJWKSURL = defaultGoogleJWKSURL,
      bc_OperatorEmails = [], bc_GatewayServiceSAs = [''sa''], bc_WorkspaceDaemonSAs = [''wd''],
      bc_GitHubAppID = 7, bc_PrivateKeyPath = [], bc_PrivateKeySecretName = ''projects/p/secrets/s/versions/1'',
      bc_GitHubAPIBaseURL = [], bc_UseFirestoreRegistry = False\<rparr>"

lemma sample_config_loads: "LoadBrokerConfig sample_environment = Inr sample_broker_config"
  by code_simp

definition sample_dependencies :: broker_dependencies where
  "sample_dependencies =
     (let jwks = \<lparr>jv_Parse = (\<lambda>_. JwtValid), jv_Audience = ''broker''\<rparr>
      in \<lparr>bd_chain = (\<lambda>E.
           \<lparr>ch_humanOperator = \<lparr>ov_signature = jwks, ov_issuer = ''google'', ov_emailAllowlist = None\<rparr>,
            ch_gatewayService = \<lparr>sv_signature = jwks, sv_issuer = ''google'', sv_saAllowlist = [''sa'']\<rparr>,
            ch_workspaceDaemon = \<lparr>sv_signature = jwks, sv_issuer = ''google'', sv_saAllowlist = [''wd'']\<rparr>,
            ch_audience = ''broker'', ch_session_get = backend_session_Get MemorySessions E\<rparr>),
          bd_minter = \<lparr>mn_appID = 7, mn_privateKeyPEM = ''key'', mn_baseURL = []\<rparr>, bd_sessions = MemorySessions\<rparr>)"

lemma sample_secret_name: "secretNameRegex ''projects/p/secrets/s/versions/1''"
  by code_simp

lemma sample_broker_starts:
  "NewBrokerDependencies sample_broker_host (Some sample_broker_config) True False = Inr sample_dependencies"
  using sample_secret_name
  by (simp add: NewBrokerDependencies_def sample_broker_config_def sample_broker_host_def newPrivateKeyFetcher_def
      NewSecretManagerPrivateKeyFetcher_def NewGhinstallationMinter_def NewJWKSVerifier_def
      NewCloudRunIAMVerifier_def NewWorkloadIdentityVerifier_def NewGcloudIdentityTokenVerifier_def
      secret_Fetch_def sample_dependencies_def Let_def)

definition sample_session_state :: session_state where
  "sample_session_state = \<lparr>ses_memory = (\<lambda>_. None), ses_table = empty_table\<rparr>"

lemma sample_service_admitted:
  "fst (Authenticate sample_text (bd_chain sample_dependencies E) 0 (service_http CallerGatewayService) ''p''
      ''amadeus'' sample_session_state) =
     Inr \<lparr>ba_Type = CallerGatewayService, ba_UserEmail = ''sa'', ba_SessionID = []\<rparr>"
  using sample_claims_valid
  by (simp add: Authenticate_def service_http_def sample_bearer sample_kinds Let_def sample_dependencies_def
      cloudrun_VerifyBearerToken_def VerifyAndParse_def sample_claims_parse caller_types_neq)
    (simp add: sample_claims_def)

theorem broker_admits_configured_witness:
  "fst (Authenticate sample_text (bd_chain sample_dependencies calm_store) 0 (service_http CallerGatewayService)
      ''p'' ''amadeus'' sample_session_state) =
     Inr \<lparr>ba_Type = CallerGatewayService, ba_UserEmail = ''sa'', ba_SessionID = []\<rparr> \<and>
   ''sa'' \<in> set (parseCSVNonEmpty (sample_environment ''BROKER_GATEWAY_SERVICE_SAS''))"
  using broker_admits_configured[OF sample_config_loads sample_broker_starts
      sample_service_admitted[of calm_store]] sample_service_admitted[of calm_store]
  by simp

end
