(* ===== verification/Dmail.thy ===== *)
theory Dmail
  imports Go_Strings "HOL-Library.AList" "HOL-Library.List_Lexorder" "HOL-Library.Char_ord"
begin

text \<open>
  The D-Mail value and its Markdown form (\<open>internal/core/domain/dmail.go\<close>).  The metadata map is
  an association list: writing a key is \<open>AList.update\<close>, reading it is \<open>map_of\<close>, and Go's
  \<open>sort.Strings\<close> is the bytewise lexicographic order of \<open>List_Lexorder\<close> over \<open>Char_ord\<close>.
\<close>

section \<open>Kinds\<close>

type_synonym DMailKind = string

definition DMailKindSpecification :: DMailKind where
  [go_consts]: "DMailKindSpecification = ''specification''"
definition DMailKindReport :: DMailKind where
  [go_consts]: "DMailKindReport = ''report''"
definition DMailKindDesignFeedback :: DMailKind where
  [go_consts]: "DMailKindDesignFeedback = ''design-feedback''"
definition DMailKindImplementationFeedback :: DMailKind where
  [go_consts]: "DMailKindImplementationFeedback = ''implementation-feedback''"
definition DMailKindConvergence :: DMailKind where
  [go_consts]: "DMailKindConvergence = ''convergence''"
definition DMailKindCIResult :: DMailKind where
  [go_consts]: "DMailKindCIResult = ''ci-result''"

definition dmail_kinds :: "DMailKind list" where
  "dmail_kinds = [DMailKindSpecification, DMailKindReport, DMailKindDesignFeedback,
     DMailKindImplementationFeedback, DMailKindConvergence, DMailKindCIResult]"

datatype dmail_error =
    MissingOpening
  | MissingClosing
  | UnknownKind string
  | UnsupportedSchema string
  | KindRequired

definition ParseDMailKind :: "string \<Rightarrow> dmail_error + DMailKind" where
  "ParseDMailKind s = (if s \<in> set dmail_kinds then Inr s else Inl (UnknownKind s))"

section \<open>The message\<close>

type_synonym metadata = "(string \<times> string) list"

record dmail =
  dm_ID :: string
  dm_Kind :: DMailKind
  dm_Target :: string
  dm_Source :: string
  dm_IdempotencyKey :: string
  dm_Body :: string
  dm_Metadata :: metadata

definition empty_dmail :: dmail where
  "empty_dmail =
     \<lparr>dm_ID = [], dm_Kind = [], dm_Target = [], dm_Source = [], dm_IdempotencyKey = [],
      dm_Body = [], dm_Metadata = []\<rparr>"

text \<open>Indexing a Go map yields the zero value when the key is absent.\<close>

definition meta :: "dmail \<Rightarrow> string \<Rightarrow> string" where
  "meta m k = (case map_of (dm_Metadata m) k of None \<Rightarrow> [] | Some v \<Rightarrow> v)"

definition dmail_OperationKey :: "dmail \<Rightarrow> string" where
  "dmail_OperationKey m =
     ''dmail/'' @ dm_Kind m @ ''/'' @ dm_Target m @ ''/'' @ dm_IdempotencyKey m"

definition MetadataKeyRequesterActorType :: string where
  [go_consts]: "MetadataKeyRequesterActorType = ''requester_actor_type''"
definition MetadataKeyInitiatingActorType :: string where
  [go_consts]: "MetadataKeyInitiatingActorType = ''initiating_actor_type''"
definition MetadataKeyRequesterActorSource :: string where
  [go_consts]: "MetadataKeyRequesterActorSource = ''requester_actor_source''"

definition canonicalDMailKeys :: "string list" where
  "canonicalDMailKeys =
     [''dmail-schema-version'', ''id'', ''kind'', ''target'', ''source'', ''idempotency_key'']"

section \<open>Parsing\<close>

abbreviation nl :: char where "nl \<equiv> CHR 0x0A"
abbreviation cr :: char where "cr \<equiv> CHR 0x0D"
abbreviation quote_chr :: char where "quote_chr \<equiv> CHR 0x22"

definition index_str :: "string \<Rightarrow> string \<Rightarrow> nat option" where
  "index_str s p = map_option (\<lambda>(a, b). length a) (cut_str p s)"

definition trim_quotes :: "string \<Rightarrow> string" where
  "trim_quotes s = rev (dropWhile ((=) quote_chr) (rev (dropWhile ((=) quote_chr) s)))"

definition close_index :: "string \<Rightarrow> nat option" where
  "close_index rest =
     (case index_str rest (nl # ''---'' @ [nl]) of
        Some i \<Rightarrow> Some i
      | None \<Rightarrow>
          (case index_str rest (nl # ''---'' @ [cr, nl]) of
             Some i \<Rightarrow> Some i
           | None \<Rightarrow>
               if suffix (nl # ''---'') rest then Some (length rest - 4) else None))"

definition parse_line :: "string \<Rightarrow> dmail \<Rightarrow> dmail_error + dmail" where
  "parse_line line0 m =
     (let line = trim_space line0
      in if line = [] then Inr m
         else case cut_chr CHR '':'' line of
           None \<Rightarrow> Inr m
         | Some (k0, v0) \<Rightarrow>
             (let key = trim_space k0;
                  val = trim_quotes (trim_space v0)
              in if key \<in> set canonicalDMailKeys then
                   (if key = ''id'' then Inr (m\<lparr>dm_ID := val\<rparr>)
                    else if key = ''kind'' then
                      (case ParseDMailKind val of
                         Inl e \<Rightarrow> Inl e
                       | Inr k \<Rightarrow> Inr (m\<lparr>dm_Kind := k\<rparr>))
                    else if key = ''target'' then Inr (m\<lparr>dm_Target := val\<rparr>)
                    else if key = ''source'' then Inr (m\<lparr>dm_Source := val\<rparr>)
                    else if key = ''idempotency_key'' then Inr (m\<lparr>dm_IdempotencyKey := val\<rparr>)
                    else if val \<noteq> ''1'' then Inl (UnsupportedSchema val)
                    else Inr m)
                 else Inr (m\<lparr>dm_Metadata := AList.update key val (dm_Metadata m)\<rparr>)))"

fun parse_lines :: "string list \<Rightarrow> dmail \<Rightarrow> dmail_error + dmail" where
  "parse_lines [] m = Inr m"
| "parse_lines (l # ls) m =
     (case parse_line l m of Inl e \<Rightarrow> Inl e | Inr m' \<Rightarrow> parse_lines ls m')"

definition ParseDMail :: "string \<Rightarrow> dmail_error + dmail" where
  "ParseDMail s =
     (if \<not> prefix (''---'' @ [nl]) s \<and> \<not> prefix (''---'' @ [cr, nl]) s then Inl MissingOpening
      else
        (let rest = trim_prefix (trim_prefix s (''---'' @ [nl])) (''---'' @ [cr, nl])
         in case close_index rest of
              None \<Rightarrow> Inl MissingClosing
            | Some i \<Rightarrow>
                (let frontmatter = take i rest;
                     body = trim_prefix (trim_prefix (trim_prefix (trim_prefix (drop i rest)
                              (nl # ''---'' @ [nl])) (nl # ''---'' @ [cr, nl])) (nl # ''---'')) [nl]
                 in case parse_lines (split_chr nl frontmatter) empty_dmail of
                      Inl e \<Rightarrow> Inl e
                    | Inr m \<Rightarrow>
                        if dm_Kind m = [] then Inl KindRequired
                        else Inr (m\<lparr>dm_Body := body\<rparr>))))"

section \<open>Rendering\<close>

definition field :: "string \<Rightarrow> string \<Rightarrow> string" where
  "field k v = k @ '': '' @ v @ [nl]"

definition opt_field :: "string \<Rightarrow> string \<Rightarrow> string" where
  "opt_field k v = (if v \<noteq> [] then field k v else [])"

definition RenderMarkdown :: "dmail \<Rightarrow> string" where
  "RenderMarkdown m =
     ''---'' @ [nl] @
     field ''dmail-schema-version'' ([quote_chr] @ ''1'' @ [quote_chr]) @
     opt_field ''id'' (dm_ID m) @
     field ''kind'' (dm_Kind m) @
     opt_field ''target'' (dm_Target m) @
     opt_field ''source'' (dm_Source m) @
     opt_field ''idempotency_key'' (dm_IdempotencyKey m) @
     concat (map (\<lambda>k. field k (meta m k)) (sort (map fst (dm_Metadata m)))) @
     ''---'' @ [nl, nl] @
     dm_Body m @ (if suffix [nl] (dm_Body m) then [] else [nl])"

section \<open>What parsing accepts\<close>

lemma canonical_cases:
  "key \<in> set canonicalDMailKeys \<longleftrightarrow>
     key \<in> {''dmail-schema-version'', ''id'', ''kind'', ''target'', ''source'', ''idempotency_key''}"
  by (simp only: canonicalDMailKeys_def list.set)

text \<open>No canonical key ever reaches the metadata, and the kind is empty or one of the six.\<close>

definition parsed_ok :: "dmail \<Rightarrow> bool" where
  "parsed_ok m \<longleftrightarrow>
     (\<forall>k \<in> fst ` set (dm_Metadata m). k \<notin> set canonicalDMailKeys) \<and>
     (dm_Kind m = [] \<or> dm_Kind m \<in> set dmail_kinds) \<and> distinct (map fst (dm_Metadata m))"

lemma ParseDMailKind_Inr: "ParseDMailKind s = Inr k \<longleftrightarrow> k = s \<and> s \<in> set dmail_kinds"
  by (auto simp: ParseDMailKind_def)

lemma parsed_ok_metadata:
  assumes "parsed_ok m" "key \<notin> set canonicalDMailKeys"
  shows "parsed_ok (m\<lparr>dm_Metadata := AList.update key val (dm_Metadata m)\<rparr>)"
  using assms by (simp add: parsed_ok_def dom_update distinct_update)

lemma parsed_ok_upd [simp]:
  "parsed_ok (m\<lparr>dm_ID := v\<rparr>) = parsed_ok m"
  "parsed_ok (m\<lparr>dm_Target := v\<rparr>) = parsed_ok m"
  "parsed_ok (m\<lparr>dm_Source := v\<rparr>) = parsed_ok m"
  "parsed_ok (m\<lparr>dm_IdempotencyKey := v\<rparr>) = parsed_ok m"
  "parsed_ok (m\<lparr>dm_Body := v\<rparr>) = parsed_ok m"
  "k \<in> set dmail_kinds \<Longrightarrow> parsed_ok m \<Longrightarrow> parsed_ok (m\<lparr>dm_Kind := k\<rparr>)"
  by (simp_all add: parsed_ok_def)

lemma parse_line_ok: "parse_line l m = Inr m' \<Longrightarrow> parsed_ok m \<Longrightarrow> parsed_ok m'"
  unfolding parse_line_def Let_def
  by (auto simp: ParseDMailKind_Inr parsed_ok_metadata simp del: canonical_cases
      split: if_splits option.splits sum.splits prod.splits)

lemma parse_lines_ok: "parse_lines ls m = Inr m' \<Longrightarrow> parsed_ok m \<Longrightarrow> parsed_ok m'"
  by (induction ls arbitrary: m) (auto split: sum.splits dest: parse_line_ok)

lemma ParseDMail_ok: "ParseDMail s = Inr m \<Longrightarrow> parsed_ok m \<and> dm_Kind m \<in> set dmail_kinds"
proof -
  assume "ParseDMail s = Inr m"
  then obtain ls m0 b where p: "parse_lines ls empty_dmail = Inr m0" "dm_Kind m0 \<noteq> []"
    "m = m0\<lparr>dm_Body := b\<rparr>"
    by (auto simp: ParseDMail_def Let_def split: if_splits option.splits sum.splits)
  have "parsed_ok empty_dmail" by (simp add: parsed_ok_def empty_dmail_def)
  with p(1) have "parsed_ok m0" by (rule parse_lines_ok)
  with p(2,3) show ?thesis by (auto simp: parsed_ok_def)
qed

lemma meta_canonical_absent:
  assumes "parsed_ok m" "k \<in> set canonicalDMailKeys"
  shows "meta m k = []"
proof -
  have "k \<notin> fst ` set (dm_Metadata m)" using assms by (auto simp: parsed_ok_def)
  then have "map_of (dm_Metadata m) k = None" by (simp add: map_of_eq_None_iff)
  then show ?thesis by (simp add: meta_def)
qed

section \<open>Round trip\<close>

text \<open>
  A field survives the round trip when it holds no line break and its first and last bytes are
  graphic ASCII other than the double quote; inside, any bytes may occur.
\<close>

definition graphic :: "char \<Rightarrow> bool" where
  "graphic c \<longleftrightarrow> 33 \<le> (of_char c :: nat) \<and> (of_char c :: nat) \<le> 126 \<and> c \<noteq> quote_chr"

definition clean :: "string \<Rightarrow> bool" where
  "clean s \<longleftrightarrow> s = [] \<or> (nl \<notin> set s \<and> graphic (hd s) \<and> graphic (last s))"

definition clean_key :: "string \<Rightarrow> bool" where
  "clean_key k \<longleftrightarrow> clean k \<and> k \<noteq> [] \<and> CHR '':'' \<notin> set k \<and> k \<notin> set canonicalDMailKeys"

definition well_formed :: "dmail \<Rightarrow> bool" where
  "well_formed m \<longleftrightarrow>
     dm_Kind m \<in> set dmail_kinds \<and> clean (dm_ID m) \<and> clean (dm_Target m) \<and>
     clean (dm_Source m) \<and> clean (dm_IdempotencyKey m) \<and>
     distinct (map fst (dm_Metadata m)) \<and>
     (\<forall>(k, v) \<in> set (dm_Metadata m). clean_key k \<and> clean v)"

definition body_text :: "dmail \<Rightarrow> string" where
  "body_text m = dm_Body m @ (if suffix [nl] (dm_Body m) then [] else [nl])"

lemma spaces_not_graphic:
  "p \<in> set go_spaces \<Longrightarrow> p \<noteq> [] \<and> \<not> graphic (hd p) \<and> \<not> graphic (last p)"
proof -
  have "list_all (\<lambda>p. p \<noteq> [] \<and> \<not> graphic (hd p) \<and> \<not> graphic (last p)) go_spaces"
    by code_simp
  then show "p \<in> set go_spaces \<Longrightarrow> ?thesis" unfolding list_all_iff by blast
qed

lemma strip_graphic:
  "graphic c \<Longrightarrow> strip_one go_spaces (c # s) = None"
  "graphic c \<Longrightarrow> strip_one (map rev go_spaces) (c # s) = None"
proof -
  assume "graphic c"
  then show "strip_one go_spaces (c # s) = None"
    using spaces_not_graphic by (intro strip_one_None_head) blast
  show "strip_one (map rev go_spaces) (c # s) = None"
    using \<open>graphic c\<close> spaces_not_graphic
    by (intro strip_one_None_head) (auto simp del: strip_one.simps simp: hd_rev)
qed

lemma trim_space_edges:
  assumes "s \<noteq> []" "graphic (hd s)" "graphic (last s)"
  shows "trim_space s = s"
proof -
  obtain c t where "s = c # t" using assms(1) by (cases s) auto
  then have "strip_one go_spaces s = None" using assms(2) strip_graphic(1) by simp
  moreover obtain d u where "rev s = d # u" using assms(1) by (cases "rev s") auto
  then have "last s = d" by (metis hd_rev list.sel(1) rev_rev_ident last_rev rev_is_Nil_conv assms(1))
  with \<open>rev s = d # u\<close> have "strip_one (map rev go_spaces) (rev s) = None"
    using assms(3) strip_graphic(2) by simp
  ultimately show ?thesis by (intro trim_space_id) (simp only: space_free_ends_def)
qed

lemma trim_space_clean: "clean s \<Longrightarrow> trim_space s = s"
  by (cases "s = []") (auto simp: clean_def trim_space_edges)

lemma trim_space_lead:
  assumes "clean v" shows "trim_space (CHR 0x20 # v) = v"
proof -
  have "strip_one go_spaces (CHR 0x20 # v) = Some v"
    by (simp add: go_spaces_def)
  then have "trim_left_space (CHR 0x20 # v) = trim_left_space v"
    unfolding trim_left_space_def by (subst trim_left_seqs.simps) simp
  then have "trim_space (CHR 0x20 # v) = trim_space v" by (simp add: trim_space_def)
  with assms show ?thesis by (simp add: trim_space_clean)
qed

lemma trim_space_trail:
  assumes "s \<noteq> []" "graphic (hd s)" "graphic (last s)"
  shows "trim_space (s @ [CHR 0x20]) = s"
proof -
  obtain c t where s: "s = c # t" using assms(1) by (cases s) auto
  then have l: "trim_left_space (s @ [CHR 0x20]) = s @ [CHR 0x20]"
    using strip_graphic(1)[of c "t @ [CHR 0x20]"] assms(2)
    unfolding trim_left_space_def by simp
  have "strip_one (map rev go_spaces) (CHR 0x20 # rev s) = Some (rev s)"
    by (simp add: go_spaces_def)
  then have "trim_left_seqs (map rev go_spaces) (rev (s @ [CHR 0x20])) =
      trim_left_seqs (map rev go_spaces) (rev s)"
    by (subst trim_left_seqs.simps) simp
  then have "trim_right_space (s @ [CHR 0x20]) = trim_right_space s"
    by (simp only: trim_right_space_def)
  moreover have "trim_left_space s = s"
    using strip_graphic(1)[of c t] assms(2) unfolding trim_left_space_def s by simp
  ultimately have "trim_space (s @ [CHR 0x20]) = trim_space s"
    unfolding trim_space_def l by simp
  with trim_space_edges[OF assms] show ?thesis by simp
qed

lemma trim_quotes_clean: "clean v \<Longrightarrow> trim_quotes v = v"
proof (cases v)
  case (Cons c t)
  assume "clean v"
  with Cons have c: "c \<noteq> quote_chr" and l: "last v \<noteq> quote_chr" by (auto simp: clean_def graphic_def)
  from c Cons have "dropWhile ((=) quote_chr) v = v" by simp
  moreover obtain d u where r: "rev v = d # u" using Cons by (cases "rev v") auto
  then have "d = last v" using Cons by (metis hd_rev list.sel(1))
  with l r have "dropWhile ((=) quote_chr) (rev v) = rev v" by (metis (full_types) dropWhile.simps(2))
  ultimately show ?thesis by (simp add: trim_quotes_def)
qed (simp add: trim_quotes_def)

definition key_ok :: "string \<Rightarrow> bool" where
  "key_ok k \<longleftrightarrow> clean k \<and> k \<noteq> [] \<and> CHR '':'' \<notin> set k"

text \<open>A rendered field line is read back as its key and value.\<close>

lemma parse_field_line:
  assumes "key_ok k" "clean v"
  shows "trim_space (k @ '': '' @ v) = (if v = [] then k @ '':'' else k @ '': '' @ v) \<and>
    cut_chr CHR '':'' (trim_space (k @ '': '' @ v)) = Some (k, if v = [] then [] else CHR 0x20 # v) \<and>
    trim_space (if v = [] then [] else CHR 0x20 # v) = v"
proof -
  have k: "k \<noteq> []" "graphic (hd k)" "CHR '':'' \<notin> set k" using assms(1) by (auto simp: key_ok_def clean_def)
  have colon: "graphic CHR '':''" by (simp add: graphic_def)
  have t: "trim_space (k @ '': '' @ v) = (if v = [] then k @ '':'' else k @ '': '' @ v)"
  proof (cases "v = []")
    case True
    have "trim_space ((k @ '':'') @ [CHR 0x20]) = k @ '':''"
      using k colon by (intro trim_space_trail) simp_all
    with True show ?thesis by simp
  next
    case False
    with assms(2) have "graphic (last v)" by (simp add: clean_def)
    with False k show ?thesis by (simp add: trim_space_edges)
  qed
  show ?thesis using t k trim_space_lead[OF assms(2)] cut_chr_append[OF k(3), of "[]"]
      cut_chr_append[OF k(3), of "CHR 0x20 # v"] by simp
qed

lemma clean_canonical_keys:
  "key_ok ''id''" "key_ok ''kind''" "key_ok ''target''" "key_ok ''source''" "key_ok ''idempotency_key''"
  by (simp_all add: key_ok_def clean_def graphic_def)

lemma clean_key_ok: "clean_key k \<Longrightarrow> key_ok k"
  by (simp add: clean_key_def key_ok_def)

lemma parse_field:
  assumes "key_ok k" "clean v"
  shows "parse_line (k @ '': '' @ v) m =
    (if k \<in> set canonicalDMailKeys then
       (if k = ''id'' then Inr (m\<lparr>dm_ID := v\<rparr>)
        else if k = ''kind'' then
          (case ParseDMailKind v of Inl e \<Rightarrow> Inl e | Inr k \<Rightarrow> Inr (m\<lparr>dm_Kind := k\<rparr>))
        else if k = ''target'' then Inr (m\<lparr>dm_Target := v\<rparr>)
        else if k = ''source'' then Inr (m\<lparr>dm_Source := v\<rparr>)
        else if k = ''idempotency_key'' then Inr (m\<lparr>dm_IdempotencyKey := v\<rparr>)
        else if v \<noteq> ''1'' then Inl (UnsupportedSchema v) else Inr m)
     else Inr (m\<lparr>dm_Metadata := AList.update k v (dm_Metadata m)\<rparr>))"
proof -
  note f = parse_field_line[OF assms]
  have ne: "trim_space (k @ '': '' @ v) \<noteq> []" using f by simp
  have tk: "trim_space k = k" using assms(1) by (simp add: key_ok_def trim_space_clean)
  show ?thesis
    unfolding parse_line_def Let_def if_not_P[OF ne] conjunct1[OF conjunct2[OF f]]
    by (simp only: option.case prod.case tk conjunct2[OF conjunct2[OF f]] trim_quotes_clean[OF assms(2)])
qed

lemma version_line: "parse_line (''dmail-schema-version: '' @ [quote_chr] @ ''1'' @ [quote_chr]) m = Inr m"
proof -
  let ?l = "''dmail-schema-version: '' @ [quote_chr] @ ''1'' @ [quote_chr]"
  have t: "trim_space ?l = ?l" and k: "trim_space ''dmail-schema-version'' = ''dmail-schema-version''"
    and v: "trim_quotes (trim_space (CHR 0x20 # [quote_chr] @ ''1'' @ [quote_chr])) = ''1''"
    and c: "cut_chr CHR '':'' ?l =
      Some (''dmail-schema-version'', CHR 0x20 # [quote_chr] @ ''1'' @ [quote_chr])"
    by code_simp+
  have n: "?l \<noteq> []" by simp
  show ?thesis
    unfolding parse_line_def Let_def t if_not_P[OF n] c
    by (simp only: option.case prod.case k v) (simp add: canonicalDMailKeys_def)
qed

section \<open>The lines of a rendered message\<close>

definition opt_line :: "string \<Rightarrow> string \<Rightarrow> string list" where
  "opt_line k v = (if v \<noteq> [] then [k @ '': '' @ v] else [])"

definition meta_lines :: "dmail \<Rightarrow> string list" where
  "meta_lines m = map (\<lambda>k. k @ '': '' @ meta m k) (sort (map fst (dm_Metadata m)))"

definition front_lines :: "dmail \<Rightarrow> string list" where
  "front_lines m =
     [''dmail-schema-version: '' @ [quote_chr] @ ''1'' @ [quote_chr]] @
     opt_line ''id'' (dm_ID m) @ [''kind: '' @ dm_Kind m] @ opt_line ''target'' (dm_Target m) @
     opt_line ''source'' (dm_Source m) @ opt_line ''idempotency_key'' (dm_IdempotencyKey m) @
     meta_lines m"

abbreviation terminated :: "string list \<Rightarrow> string" where
  "terminated ls \<equiv> concat (map (\<lambda>l. l @ [nl]) ls)"

lemma terminated_opt_line [simp]: "terminated (opt_line k v) = opt_field k v"
  by (simp add: opt_line_def opt_field_def field_def)

lemma RenderMarkdown_lines:
  "RenderMarkdown m = ''---'' @ [nl] @ terminated (front_lines m) @ ''---'' @ [nl, nl] @ body_text m"
  by (simp add: RenderMarkdown_def front_lines_def meta_lines_def field_def body_text_def comp_def)

lemma terminated_join: "ls \<noteq> [] \<Longrightarrow> terminated ls = join [nl] ls @ [nl]"
proof (induction ls)
  case (Cons x xs)
  then show ?case by (cases xs) simp_all
qed simp

text \<open>The closing delimiter is found right behind the last line.\<close>

lemma cut_str_skip:
  assumes "p \<noteq> []" "hd p \<notin> set x"
  shows "cut_str p (x @ s) = (case cut_str p s of None \<Rightarrow> None | Some (a, b) \<Rightarrow> Some (x @ a, b))"
  using assms
proof (induction x)
  case Nil
  then show ?case by (simp split: option.splits prod.splits)
next
  case (Cons c x)
  obtain q p' where p: "p = q # p'" using Cons.prems(1) by (cases p) auto
  with Cons.prems have "\<not> prefix p (c # x @ s)" by auto
  with Cons p show ?case by (auto split: option.splits prod.splits)
qed

lemma cut_str_here: "p \<noteq> [] \<Longrightarrow> cut_str p (p @ s) = Some ([], s)"
  by (cases p) auto

abbreviation delim :: string where "delim \<equiv> nl # ''---'' @ [nl]"

lemma cut_delim:
  assumes "ls \<noteq> []" "\<forall>l \<in> set ls. nl \<notin> set l \<and> l \<noteq> ''---''"
  shows "cut_str delim (join [nl] ls @ delim @ t) = Some (join [nl] ls, t)"
  using assms
proof (induction ls)
  case (Cons x xs)
  show ?case
  proof (cases xs)
    case Nil
    have "cut_str delim (x @ (delim @ t)) = Some (x, t)"
      using cut_str_skip[of delim x "delim @ t"] Cons.prems(2) cut_str_here[of delim t] by simp
    with Nil show ?thesis by simp
  next
    case (Cons y ys)
    let ?tl = "join [nl] (y # ys) @ delim @ t"
    have y: "nl \<notin> set y" "y \<noteq> ''---''" using Cons \<open>\<forall>l \<in> set (x # xs). _\<close> by auto
    have "\<exists>z. ?tl = y @ nl # z" by (cases ys) simp_all
    then obtain z where z: "?tl = y @ nl # z" by blast
    have "\<not> prefix (''---'' @ [nl]) ?tl"
    proof
      assume "prefix (''---'' @ [nl]) ?tl"
      then obtain w where "?tl = ''---'' @ nl # w" by (auto simp: prefix_def)
      then have "y @ nl # z = ''---'' @ nl # w" using z by simp
      then have "y = ''---''" using sep_unique[of nl y "''---''" z w] y(1) by simp
      with y(2) show False by simp
    qed
    then have np: "\<not> prefix delim (nl # ?tl)" by simp
    have ih: "cut_str delim ?tl = Some (join [nl] (y # ys), t)"
      using Cons.IH Cons \<open>\<forall>l \<in> set (x # xs). _\<close> by simp
    have "cut_str delim (nl # ?tl) = Some (nl # join [nl] (y # ys), t)"
      using np ih by (simp only: cut_str.simps if_False option.case prod.case)
    then have "cut_str delim (x @ nl # ?tl) = Some (x @ nl # join [nl] (y # ys), t)"
      using cut_str_skip[of delim x "nl # ?tl"] Cons.prems(2) by simp
    with Cons show ?thesis by simp
  qed
qed simp

lemma parse_lines_append:
  "parse_lines (xs @ ys) m = (case parse_lines xs m of Inl e \<Rightarrow> Inl e | Inr m' \<Rightarrow> parse_lines ys m')"
  by (induction xs arbitrary: m) (auto split: sum.splits)

lemma parse_opt_lines:
  "clean v \<Longrightarrow> dm_ID m = [] \<Longrightarrow> parse_lines (opt_line ''id'' v) m = Inr (m\<lparr>dm_ID := v\<rparr>)"
  "clean v \<Longrightarrow> dm_Target m = [] \<Longrightarrow> parse_lines (opt_line ''target'' v) m = Inr (m\<lparr>dm_Target := v\<rparr>)"
  "clean v \<Longrightarrow> dm_Source m = [] \<Longrightarrow> parse_lines (opt_line ''source'' v) m = Inr (m\<lparr>dm_Source := v\<rparr>)"
  "clean v \<Longrightarrow> dm_IdempotencyKey m = [] \<Longrightarrow>
     parse_lines (opt_line ''idempotency_key'' v) m = Inr (m\<lparr>dm_IdempotencyKey := v\<rparr>)"
  using parse_field[of "''id''" v m] parse_field[of "''target''" v m] parse_field[of "''source''" v m]
    parse_field[of "''idempotency_key''" v m]
  by (simp_all add: opt_line_def clean_canonical_keys canonicalDMailKeys_def)

lemma kinds_clean: "k \<in> set dmail_kinds \<Longrightarrow> clean k \<and> k \<noteq> []"
proof -
  have "list_all (\<lambda>k. nl \<notin> set k \<and> graphic (hd k) \<and> graphic (last k) \<and> k \<noteq> []) dmail_kinds"
    by code_simp
  then show "k \<in> set dmail_kinds \<Longrightarrow> ?thesis" unfolding list_all_iff clean_def by blast
qed

lemma parse_kind_line:
  "k \<in> set dmail_kinds \<Longrightarrow> parse_line (''kind: '' @ k) m = Inr (m\<lparr>dm_Kind := k\<rparr>)"
  using parse_field[of "''kind''" k m] kinds_clean[of k]
  by (simp add: clean_canonical_keys canonicalDMailKeys_def ParseDMailKind_def)

lemma update_fresh: "k \<notin> fst ` set al \<Longrightarrow> AList.update k v al = al @ [(k, v)]"
  by (induction al) auto

lemma parse_meta_lines:
  assumes "distinct ks" "\<forall>k \<in> set ks. clean_key k \<and> clean (f k)"
    "\<forall>k \<in> set ks. k \<notin> fst ` set (dm_Metadata m)"
  shows "parse_lines (map (\<lambda>k. k @ '': '' @ f k) ks) m =
    Inr (m\<lparr>dm_Metadata := dm_Metadata m @ map (\<lambda>k. (k, f k)) ks\<rparr>)"
  using assms
proof (induction ks arbitrary: m)
  case (Cons k ks)
  let ?m = "m\<lparr>dm_Metadata := dm_Metadata m @ [(k, f k)]\<rparr>"
  have k: "clean_key k" "clean (f k)" "k \<notin> set canonicalDMailKeys" "k \<notin> fst ` set (dm_Metadata m)"
    using Cons.prems by (simp_all add: clean_key_def)
  have "parse_line (k @ '': '' @ f k) m = Inr ?m"
    unfolding parse_field[OF clean_key_ok[OF k(1)] k(2)] if_not_P[OF k(3)] update_fresh[OF k(4)] ..
  moreover have "parse_lines (map (\<lambda>k. k @ '': '' @ f k) ks) ?m =
      Inr (?m\<lparr>dm_Metadata := dm_Metadata ?m @ map (\<lambda>k. (k, f k)) ks\<rparr>)"
    using Cons.prems by (intro Cons.IH) auto
  ultimately show ?case by simp
qed simp

definition sorted_metadata :: "dmail \<Rightarrow> metadata" where
  "sorted_metadata m = map (\<lambda>k. (k, meta m k)) (sort (map fst (dm_Metadata m)))"

lemma well_formed_meta:
  assumes "well_formed m" "k \<in> set (map fst (dm_Metadata m))"
  shows "clean_key k \<and> clean (meta m k)"
proof -
  from assms(2) obtain v where v: "(k, v) \<in> set (dm_Metadata m)" by auto
  with assms(1) have "map_of (dm_Metadata m) k = Some v"
    by (intro map_of_is_SomeI) (simp_all add: well_formed_def)
  with v assms(1) show ?thesis by (auto simp: meta_def well_formed_def)
qed

lemma map_of_graph: "map_of (map (\<lambda>k. (k, f k)) ks) k = (if k \<in> set ks then Some (f k) else None)"
  by (induction ks) auto

lemma sorted_metadata_map_of:
  assumes "distinct (map fst (dm_Metadata m))"
  shows "map_of (sorted_metadata m) = map_of (dm_Metadata m)"
proof
  fix k
  have "map_of (sorted_metadata m) k =
      (if k \<in> set (map fst (dm_Metadata m)) then Some (meta m k) else None)"
    by (simp add: sorted_metadata_def map_of_graph)
  then show "map_of (sorted_metadata m) k = map_of (dm_Metadata m) k"
    by (auto simp: meta_def map_of_eq_None_iff split: option.splits)
       (metis map_of_eq_None_iff not_None_eq image_eqI fst_conv)+
qed

lemma parse_front_lines:
  assumes "well_formed m"
  shows "parse_lines (front_lines m) empty_dmail = Inr (m\<lparr>dm_Body := [], dm_Metadata := sorted_metadata m\<rparr>)"
proof -
  from assms have c: "clean (dm_ID m)" "clean (dm_Target m)" "clean (dm_Source m)"
    "clean (dm_IdempotencyKey m)" "dm_Kind m \<in> set dmail_kinds" "distinct (map fst (dm_Metadata m))"
    by (simp_all add: well_formed_def)
  have ml: "parse_lines (meta_lines m) x = Inr (x\<lparr>dm_Metadata := sorted_metadata m\<rparr>)"
    if "dm_Metadata x = []" for x
    using parse_meta_lines[of "sort (map fst (dm_Metadata m))" "meta m" x] well_formed_meta[OF assms]
      c(6) that by (simp add: meta_lines_def sorted_metadata_def)
  have "parse_lines (front_lines m) empty_dmail =
     Inr (empty_dmail\<lparr>dm_ID := dm_ID m, dm_Kind := dm_Kind m, dm_Target := dm_Target m,
       dm_Source := dm_Source m, dm_IdempotencyKey := dm_IdempotencyKey m,
       dm_Metadata := sorted_metadata m\<rparr>)"
    unfolding front_lines_def parse_lines_append empty_dmail_def
    by (simp only: parse_lines.simps version_line sum.case parse_kind_line[OF c(5)] append_Nil
        parse_opt_lines c(1-4) ml dmail.select_convs dmail.update_convs)
  then show ?thesis by (simp add: empty_dmail_def)
qed

section \<open>Properties\<close>

lemma front_lines_ok:
  assumes "well_formed m"
  shows "front_lines m \<noteq> [] \<and> (\<forall>l \<in> set (front_lines m). nl \<notin> set l \<and> l \<noteq> ''---'')"
proof -
  have line: "nl \<notin> set (k @ '': '' @ v) \<and> k @ '': '' @ v \<noteq> ''---''"
    if "nl \<notin> set k" "nl \<notin> set v" for k v
  proof -
    have "CHR '':'' \<in> set (k @ '': '' @ v)" by simp
    moreover have "CHR '':'' \<notin> set ''---''" by simp
    ultimately have "k @ '': '' @ v \<noteq> ''---''" by metis
    with that show ?thesis by simp
  qed
  have cl: "clean v \<Longrightarrow> nl \<notin> set v" for v by (auto simp: clean_def)
  have opt: "nl \<notin> set k \<Longrightarrow> clean v \<Longrightarrow> l \<in> set (opt_line k v) \<Longrightarrow> nl \<notin> set l \<and> l \<noteq> ''---''" for k v l
    using line[of k v] cl[of v] by (simp add: opt_line_def split: if_splits)
  have mt: "l \<in> set (meta_lines m) \<Longrightarrow> nl \<notin> set l \<and> l \<noteq> ''---''" for l
  proof -
    assume "l \<in> set (meta_lines m)"
    then obtain k where k: "k \<in> set (map fst (dm_Metadata m))" "l = k @ '': '' @ meta m k"
      unfolding meta_lines_def by auto
    from well_formed_meta[OF assms k(1)] have "nl \<notin> set k" "nl \<notin> set (meta m k)"
      using cl by (simp_all add: clean_key_def)
    from line[OF this] show ?thesis unfolding k(2) .
  qed
  have kd: "nl \<notin> set (''kind'' @ '': '' @ dm_Kind m) \<and> ''kind'' @ '': '' @ dm_Kind m \<noteq> ''---''"
    using assms kinds_clean cl by (intro line) (auto simp: well_formed_def)
  from assms have c: "clean (dm_ID m)" "clean (dm_Target m)" "clean (dm_Source m)"
    "clean (dm_IdempotencyKey m)" by (simp_all add: well_formed_def)
  have v: "nl \<notin> set (''dmail-schema-version: '' @ [quote_chr] @ ''1'' @ [quote_chr]) \<and>
      ''dmail-schema-version: '' @ [quote_chr] @ ''1'' @ [quote_chr] \<noteq> ''---''" by simp
  have o: "\<forall>l \<in> set (opt_line k v). nl \<notin> set l \<and> l \<noteq> ''---''"
    if "nl \<notin> set k" "clean v" for k v using opt that by blast
  have ids: "\<forall>l \<in> set (opt_line ''id'' (dm_ID m)). nl \<notin> set l \<and> l \<noteq> ''---''"
    "\<forall>l \<in> set (opt_line ''target'' (dm_Target m)). nl \<notin> set l \<and> l \<noteq> ''---''"
    "\<forall>l \<in> set (opt_line ''source'' (dm_Source m)). nl \<notin> set l \<and> l \<noteq> ''---''"
    "\<forall>l \<in> set (opt_line ''idempotency_key'' (dm_IdempotencyKey m)). nl \<notin> set l \<and> l \<noteq> ''---''"
    by (intro o c; simp)+
  have mts: "\<forall>l \<in> set (meta_lines m). nl \<notin> set l \<and> l \<noteq> ''---''" using mt by blast
  have kds: "\<forall>l \<in> set [''kind: '' @ dm_Kind m]. nl \<notin> set l \<and> l \<noteq> ''---''" using kd by simp
  have vs: "\<forall>l \<in> set [''dmail-schema-version: '' @ [quote_chr] @ ''1'' @ [quote_chr]].
      nl \<notin> set l \<and> l \<noteq> ''---''" using v by simp
  have "\<forall>l \<in> set (front_lines m). nl \<notin> set l \<and> l \<noteq> ''---''"
    unfolding front_lines_def set_append ball_Un using ids mts kds vs by blast
  moreover have "front_lines m \<noteq> []" by (simp add: front_lines_def)
  ultimately show ?thesis by blast
qed

definition body_after_strips :: "string \<Rightarrow> string" where
  "body_after_strips b =
     trim_prefix (trim_prefix (trim_prefix (nl # b) (nl # ''---'' @ [cr, nl])) (nl # ''---'')) [nl]"

lemma ParseDMail_Render:
  assumes "well_formed m"
  shows "ParseDMail (RenderMarkdown m) =
    Inr (m\<lparr>dm_Body := body_after_strips (body_text m), dm_Metadata := sorted_metadata m\<rparr>)"
proof -
  let ?f = "join [nl] (front_lines m)"
  let ?rest = "?f @ delim @ nl # body_text m"
  note ok = front_lines_ok[OF assms]
  have r: "RenderMarkdown m = (''---'' @ [nl]) @ ?rest"
    unfolding RenderMarkdown_lines terminated_join[OF conjunct1[OF ok]] by simp
  have "\<exists>t. ?rest = CHR ''d'' # t"
    unfolding front_lines_def by (cases "opt_line ''id'' (dm_ID m) @ [''kind: '' @ dm_Kind m] @
      opt_line ''target'' (dm_Target m) @ opt_line ''source'' (dm_Source m) @
      opt_line ''idempotency_key'' (dm_IdempotencyKey m) @ meta_lines m") simp_all
  then have t2: "trim_prefix ?rest (''---'' @ [cr, nl]) = ?rest" by auto
  have cut: "cut_str delim ?rest = Some (?f, nl # body_text m)"
    using cut_delim[of "front_lines m"] ok by blast
  have ci: "close_index ?rest = Some (length ?f)"
    by (simp only: close_index_def index_str_def cut option.map prod.case option.case)
  have tk: "take (length ?f) ?rest = ?f" "drop (length ?f) ?rest = delim @ nl # body_text m" by simp_all
  have sp: "split_chr nl ?f = front_lines m" using ok by (intro split_chr_join) auto
  have kind: "dm_Kind m \<noteq> []" using assms kinds_clean by (auto simp: well_formed_def)
  have pre: "prefix (''---'' @ [nl]) ((''---'' @ [nl]) @ ?rest)" by (rule prefixI) simp
  show ?thesis
    unfolding ParseDMail_def r Let_def trim_prefix_append t2 ci option.case tk sp
      parse_front_lines[OF assms] sum.case
    using pre kind by (simp add: body_after_strips_def)
qed

lemma body_after_strips_id: "\<not> prefix ''---'' b \<Longrightarrow> body_after_strips b = b"
  by (auto simp: body_after_strips_def trim_prefix_def prefix_def)

lemma body_text_no_dashes:
  assumes "\<not> prefix ''---'' (dm_Body m)"
  shows "\<not> prefix ''---'' (body_text m)"
proof
  assume "prefix ''---'' (body_text m)"
  with assms show False
    by (cases "dm_Body m" rule: list.exhaust; cases "tl (dm_Body m)"; cases "tl (tl (dm_Body m))")
       (auto simp: body_text_def split: if_splits)
qed

text \<open>C19. Writing a D-Mail to Markdown and reading it back gives the same message: identifier, kind,
  target, source, idempotency key and every metadata entry, and the body up to the final line break
  the renderer adds, for fields without line breaks that start and end with graphic characters and
  a body that does not start with three dashes.\<close>

theorem dmail_roundtrip:
  assumes "well_formed m" "\<not> prefix ''---'' (dm_Body m)"
  shows "\<exists>md. ParseDMail (RenderMarkdown m) = Inr (m\<lparr>dm_Body := body_text m, dm_Metadata := md\<rparr>) \<and>
    map_of md = map_of (dm_Metadata m)"
proof (intro exI conjI)
  have "\<not> prefix ''---'' (body_text m)" using assms(2) by (rule body_text_no_dashes)
  then show "ParseDMail (RenderMarkdown m) =
      Inr (m\<lparr>dm_Body := body_text m, dm_Metadata := sorted_metadata m\<rparr>)"
    using ParseDMail_Render[OF assms(1)] body_after_strips_id by simp
  show "map_of (sorted_metadata m) = map_of (dm_Metadata m)"
    using assms(1) by (intro sorted_metadata_map_of) (simp add: well_formed_def)
qed

definition sample_dmail :: dmail where
  "sample_dmail =
     \<lparr>dm_ID = ''m-1'', dm_Kind = DMailKindConvergence, dm_Target = ''sightjack'',
      dm_Source = ''amadeus'', dm_IdempotencyKey = ''k:1'', dm_Body = ''hello world'',
      dm_Metadata = [(''requester_id'', ''U1''), (''note'', ''a b'')]\<rparr>"

lemma sample_dmail_well_formed: "well_formed sample_dmail"
  by code_simp

theorem dmail_roundtrip_witness:
  "\<exists>md. ParseDMail (RenderMarkdown sample_dmail) =
      Inr (sample_dmail\<lparr>dm_Body := body_text sample_dmail, dm_Metadata := md\<rparr>) \<and>
    map_of md ''requester_id'' = Some ''U1''"
proof -
  have "\<not> prefix ''---'' (dm_Body sample_dmail)" by (simp add: sample_dmail_def)
  from dmail_roundtrip[OF sample_dmail_well_formed this] show ?thesis
    by (metis (no_types, lifting) sample_dmail_def dmail.select_convs(7) map_of_Cons_code(2))
qed

text \<open>A body that starts with three dashes (a Markdown rule) does not survive: the parser strips
  the closing delimiter several times in a row, so the body comes back without its dashes.\<close>

theorem dmail_body_dashes_lost:
  assumes "well_formed m" "dm_Body m = ''---'' @ c # b @ [nl]" "c \<noteq> nl" "c \<noteq> cr"
  shows "ParseDMail (RenderMarkdown m) =
    Inr (m\<lparr>dm_Body := c # b @ [nl], dm_Metadata := sorted_metadata m\<rparr>)"
proof -
  have "suffix [nl] (''---'' @ c # b @ [nl])" by (simp add: suffix_def)
  then have "body_text m = ''---'' @ c # b @ [nl]" by (simp add: body_text_def assms(2))
  then have "body_after_strips (body_text m) = c # b @ [nl]"
    using assms(3,4) by (simp add: body_after_strips_def trim_prefix_def)
  with ParseDMail_Render[OF assms(1)] show ?thesis by simp
qed

theorem dmail_body_dashes_lost_witness:
  "\<exists>m'. ParseDMail (RenderMarkdown (sample_dmail\<lparr>dm_Body := ''--- x'' @ [nl]\<rparr>)) = Inr m' \<and>
     dm_Body m' = '' x'' @ [nl]"
proof -
  let ?m = "sample_dmail\<lparr>dm_Body := ''--- x'' @ [nl]\<rparr>"
  have w: "well_formed ?m" using sample_dmail_well_formed by (simp add: well_formed_def)
  have b: "dm_Body ?m = ''---'' @ CHR 0x20 # ''x'' @ [nl]" by simp
  from dmail_body_dashes_lost[OF w b] show ?thesis by simp
qed

text \<open>Whatever bytes arrive, a parsed D-Mail has one of the six kinds and its metadata holds none
  of the six canonical keys, so no outside producer can set the metadata entry "kind" that routes a
  button to the admin-mutation flow.\<close>

theorem ParseDMail_metadata_free_of_kind:
  assumes "ParseDMail s = Inr m"
  shows "dm_Kind m \<in> set dmail_kinds \<and> meta m ''kind'' = [] \<and>
    (\<forall>k \<in> fst ` set (dm_Metadata m). k \<notin> set canonicalDMailKeys)"
  using ParseDMail_ok[OF assms] meta_canonical_absent[of m "''kind''"]
  by (simp add: parsed_ok_def canonicalDMailKeys_def)

theorem ParseDMail_metadata_free_of_kind_witness:
  "\<exists>m. ParseDMail (''---'' @ [nl] @ ''kind: report'' @ [nl] @ ''---'') = Inr m \<and> meta m ''kind'' = []"
proof -
  have "is_ok (ParseDMail (''---'' @ [nl] @ ''kind: report'' @ [nl] @ ''---''))" by code_simp
  then obtain m where m: "ParseDMail (''---'' @ [nl] @ ''kind: report'' @ [nl] @ ''---'') = Inr m"
    unfolding is_ok_iff by blast
  with ParseDMail_metadata_free_of_kind[OF m] show ?thesis by blast
qed

end
