(* ===== verification/Pending_Store.thy ===== *)
theory Pending_Store
  imports Document_Store
begin

text \<open>
  Pending admin approvals: the record and its life cycle
  (\<open>internal/core/domain/pending_approval.go\<close>), the port as a locale
  (\<open>internal/core/port/pending_store.go\<close>) and its two adapters,
  \<open>sqlite_pending_store.go\<close> and \<open>firestore_pending_store.go\<close> of \<open>internal/adapter/output/state\<close>.
  A transaction of the database is one call of the service.
\<close>

section \<open>The record\<close>

type_synonym PendingStatus = string

definition PendingOpAdd :: string where [go_consts]: "PendingOpAdd = ''add''"
definition PendingOpArchive :: string where [go_consts]: "PendingOpArchive = ''archive''"

definition PendingStatusPendingApproval :: PendingStatus where
  [go_consts]: "PendingStatusPendingApproval = ''pending_approval''"
definition PendingStatusApprovedApplied :: PendingStatus where
  [go_consts]: "PendingStatusApprovedApplied = ''approved_applied''"
definition PendingStatusDenied :: PendingStatus where
  [go_consts]: "PendingStatusDenied = ''denied''"
definition PendingStatusTimeout :: PendingStatus where
  [go_consts]: "PendingStatusTimeout = ''timeout''"

definition IsTerminal :: "PendingStatus \<Rightarrow> bool" where
  "IsTerminal s \<longleftrightarrow>
     s = PendingStatusApprovedApplied \<or> s = PendingStatusDenied \<or> s = PendingStatusTimeout"

lemma pending_consts_distinct [simp]:
  "PendingOpAdd \<noteq> PendingOpArchive" "PendingOpArchive \<noteq> PendingOpAdd"
  "PendingStatusPendingApproval \<noteq> []" "[] \<noteq> PendingStatusPendingApproval"
  "PendingStatusApprovedApplied \<noteq> PendingStatusDenied" "PendingStatusDenied \<noteq> PendingStatusApprovedApplied"
  "PendingStatusApprovedApplied \<noteq> PendingStatusTimeout" "PendingStatusTimeout \<noteq> PendingStatusApprovedApplied"
  "PendingStatusDenied \<noteq> PendingStatusTimeout" "PendingStatusTimeout \<noteq> PendingStatusDenied"
  by (simp_all add: go_consts)

lemma IsTerminal_simps [simp]:
  "IsTerminal PendingStatusApprovedApplied" "IsTerminal PendingStatusDenied"
  "IsTerminal PendingStatusTimeout" "\<not> IsTerminal PendingStatusPendingApproval" "\<not> IsTerminal []"
  by (simp_all add: IsTerminal_def go_consts)

record pending =
  pa_IdempotencyKey :: string
  pa_Op :: string
  pa_BodyJSON :: string
  pa_EffectiveRequesterID :: string
  pa_RequesterActorType :: string
  pa_CreatedAt :: gotime
  pa_Status :: PendingStatus
  pa_AppliedAt :: "gotime option"

definition zero_pending :: pending where
  "zero_pending =
     \<lparr>pa_IdempotencyKey = [], pa_Op = [], pa_BodyJSON = [], pa_EffectiveRequesterID = [],
      pa_RequesterActorType = [], pa_CreatedAt = 0, pa_Status = [], pa_AppliedAt = None\<rparr>"

datatype pending_error =
    PendingKeyRequired
  | ErrPendingAlreadyExists
  | ErrPendingNotFound
  | ErrPendingTerminalTransition
  | AppliedAtRequired
  | AppliedAtForbidden
  | PendingInfra string

type_synonym pendings = "pending table"

fun get_error :: "svc_error \<Rightarrow> pending_error" where
  "get_error NotFound = ErrPendingNotFound"
| "get_error AlreadyExists = PendingInfra ''already exists''"
| "get_error (Infra e) = PendingInfra e"

fun insert_error :: "svc_error \<Rightarrow> pending_error" where
  "insert_error AlreadyExists = ErrPendingAlreadyExists"
| "insert_error NotFound = PendingInfra ''not found''"
| "insert_error (Infra e) = PendingInfra e"

section \<open>SQLite adapter\<close>

text \<open>The CHECK constraints of the table \<open>pending_approvals\<close>.\<close>

definition valid_status :: "PendingStatus \<Rightarrow> bool" where
  "valid_status s \<longleftrightarrow>
     s \<in> {PendingStatusPendingApproval, PendingStatusApprovedApplied, PendingStatusDenied, PendingStatusTimeout}"

definition checked ::
  "bool \<Rightarrow> ((string \<times> 'row) list \<Rightarrow> (svc_error + 'a) \<times> (string \<times> 'row) list) \<Rightarrow>
   (string \<times> 'row) list \<Rightarrow> (svc_error + 'a) \<times> (string \<times> 'row) list" where
  "checked ok f m = (if ok then f m else (Inl (Infra ''CHECK constraint failed''), m))"

definition sqlite_pending_Get ::
  "env_store \<Rightarrow> string \<Rightarrow> pendings \<Rightarrow> (pending_error + pending) \<times> pendings" where
  "sqlite_pending_Get env key t = map_err get_error (svc env (row_get key) t)"

text \<open>The record returned by a create, next to its error.\<close>

definition with_defaults :: "gotime \<Rightarrow> pending \<Rightarrow> pending" where
  "with_defaults now p =
     (let p1 = (if pa_Status p = [] then p\<lparr>pa_Status := PendingStatusPendingApproval\<rparr> else p)
      in if pa_CreatedAt p1 = 0 then p1\<lparr>pa_CreatedAt := now\<rparr> else p1)"

definition sqlite_CreateIfNotExists ::
  "env_store \<Rightarrow> pending \<Rightarrow> pendings \<Rightarrow> (pending \<times> pending_error option) \<times> pendings" where
  "sqlite_CreateIfNotExists env p0 t =
     (if pa_IdempotencyKey p0 = [] then ((zero_pending, Some PendingKeyRequired), t)
      else
        (let p = with_defaults (es_now env) p0;
             key = pa_IdempotencyKey p;
             ok = (pa_Op p \<in> {PendingOpAdd, PendingOpArchive} \<and> valid_status (pa_Status p));
             rec = p\<lparr>pa_CreatedAt := sqlite_time (pa_CreatedAt p), pa_AppliedAt := None\<rparr>;
             r = svc env (checked ok (row_create key rec)) t
         in case fst r of
              Inr _ \<Rightarrow> ((p, None), snd r)
            | Inl AlreadyExists \<Rightarrow>
                (let g = sqlite_pending_Get env key (snd r)
                 in case fst g of
                      Inl e \<Rightarrow> ((zero_pending, Some e), snd g)
                    | Inr existing \<Rightarrow> ((existing, Some ErrPendingAlreadyExists), snd g))
            | Inl e \<Rightarrow> ((zero_pending, Some (insert_error e)), snd r)))"

text \<open>The transaction: read the status, refuse a terminal one, update, commit.\<close>

definition transition_tx ::
  "bool \<Rightarrow> string \<Rightarrow> (pending \<Rightarrow> pending) \<Rightarrow> (string \<times> pending) list \<Rightarrow>
   (svc_error + pending_error option) \<times> (string \<times> pending) list" where
  "transition_tx ok key upd m =
     (case map_of m key of
        None \<Rightarrow> (Inr (Some ErrPendingNotFound), m)
      | Some p \<Rightarrow>
          if IsTerminal (pa_Status p) then (Inr (Some ErrPendingTerminalTransition), m)
          else if \<not> ok then (Inl (Infra ''CHECK constraint failed''), m)
          else (Inr None, AList.update key (upd p) m))"

definition tx_result :: "(svc_error + pending_error option) \<times> pendings \<Rightarrow> pending_error option \<times> pendings" where
  "tx_result r = (case fst r of Inl e \<Rightarrow> Some (get_error e) | Inr x \<Rightarrow> x, snd r)"

definition sqlite_status_update :: "PendingStatus \<Rightarrow> gotime option \<Rightarrow> pending \<Rightarrow> pending" where
  "sqlite_status_update st at p =
     (case at of
        Some a \<Rightarrow> p\<lparr>pa_Status := st, pa_AppliedAt := Some (sqlite_time a)\<rparr>
      | None \<Rightarrow> p\<lparr>pa_Status := st\<rparr>)"

definition sqlite_Transition ::
  "env_store \<Rightarrow> string \<Rightarrow> PendingStatus \<Rightarrow> gotime option \<Rightarrow> pendings \<Rightarrow> pending_error option \<times> pendings" where
  "sqlite_Transition env key st at t =
     (if st = PendingStatusApprovedApplied \<and> at = None then (Some AppliedAtRequired, t)
      else if st \<noteq> PendingStatusApprovedApplied \<and> at \<noteq> None then (Some AppliedAtForbidden, t)
      else tx_result (svc env (transition_tx (valid_status st) key (sqlite_status_update st at)) t))"

section \<open>Firestore adapter\<close>

definition firestore_pending_Get ::
  "env_store \<Rightarrow> string \<Rightarrow> pendings \<Rightarrow> (pending_error + pending) \<times> pendings" where
  "firestore_pending_Get env key t = map_err get_error (svc env (row_get key) t)"

definition firestore_CreateIfNotExists ::
  "env_store \<Rightarrow> pending \<Rightarrow> pendings \<Rightarrow> (pending \<times> pending_error option) \<times> pendings" where
  "firestore_CreateIfNotExists env p0 t =
     (if pa_IdempotencyKey p0 = [] then ((zero_pending, Some PendingKeyRequired), t)
      else
        (let p = with_defaults (es_now env) p0;
             key = pa_IdempotencyKey p;
             doc = p\<lparr>pa_CreatedAt := firestore_time (pa_CreatedAt p),
                     pa_AppliedAt := map_option firestore_time (pa_AppliedAt p)\<rparr>;
             r = svc env (row_create key doc) t
         in case fst r of
              Inr _ \<Rightarrow> ((p, None), snd r)
            | Inl AlreadyExists \<Rightarrow>
                (let g = firestore_pending_Get env key (snd r)
                 in case fst g of
                      Inl e \<Rightarrow> ((zero_pending, Some e), snd g)
                    | Inr existing \<Rightarrow> ((existing, Some ErrPendingAlreadyExists), snd g))
            | Inl e \<Rightarrow> ((zero_pending, Some (insert_error e)), snd r)))"

definition firestore_status_update :: "PendingStatus \<Rightarrow> gotime option \<Rightarrow> pending \<Rightarrow> pending" where
  "firestore_status_update st at p =
     (case at of
        Some a \<Rightarrow> p\<lparr>pa_Status := st, pa_AppliedAt := Some (firestore_time a)\<rparr>
      | None \<Rightarrow> p\<lparr>pa_Status := st\<rparr>)"

definition firestore_Transition ::
  "env_store \<Rightarrow> string \<Rightarrow> PendingStatus \<Rightarrow> gotime option \<Rightarrow> pendings \<Rightarrow> pending_error option \<times> pendings" where
  "firestore_Transition env key st at t =
     (if st = PendingStatusApprovedApplied \<and> at = None then (Some AppliedAtRequired, t)
      else if st \<noteq> PendingStatusApprovedApplied \<and> at \<noteq> None then (Some AppliedAtForbidden, t)
      else tx_result (svc env (transition_tx True key (firestore_status_update st at)) t))"

section \<open>The interface PendingStore\<close>

definition same_request :: "pending \<Rightarrow> pending \<Rightarrow> bool" where
  "same_request p q \<longleftrightarrow>
     pa_IdempotencyKey q = pa_IdempotencyKey p \<and> pa_Op q = pa_Op p \<and> pa_BodyJSON q = pa_BodyJSON p \<and>
     pa_EffectiveRequesterID q = pa_EffectiveRequesterID p \<and>
     pa_RequesterActorType q = pa_RequesterActorType p"

lemma same_request_refl [simp]: "same_request p p"
  by (simp add: same_request_def)

lemma same_request_trans: "same_request p q \<Longrightarrow> same_request q r \<Longrightarrow> same_request p r"
  by (simp add: same_request_def)

datatype pending_op =
    OpCreate pending
  | OpFetch string
  | OpTransition string PendingStatus "gotime option"

locale pending_store =
  fixes create :: "'e \<Rightarrow> pending \<Rightarrow> 's \<Rightarrow> (pending \<times> pending_error option) \<times> 's"
    and fetch :: "'e \<Rightarrow> string \<Rightarrow> 's \<Rightarrow> (pending_error + pending) \<times> 's"
    and transition :: "'e \<Rightarrow> string \<Rightarrow> PendingStatus \<Rightarrow> gotime option \<Rightarrow> 's \<Rightarrow> pending_error option \<times> 's"
    and find :: "'s \<Rightarrow> string \<Rightarrow> pending option"
  assumes create_keeps: "find s k = Some p \<Longrightarrow> find (snd (create E x s)) k = Some p"
    and create_new: "find s k = None \<Longrightarrow> find (snd (create E x s)) k = Some p \<Longrightarrow>
      k = pa_IdempotencyKey x \<and> k \<noteq> [] \<and> same_request x p \<and>
      pa_Status p = (if pa_Status x = [] then PendingStatusPendingApproval else pa_Status x)"
    and create_ok: "snd (fst (create E x s)) = None \<Longrightarrow>
      find s (pa_IdempotencyKey x) = None \<and> find (snd (create E x s)) (pa_IdempotencyKey x) \<noteq> None"
    and create_exists: "snd (fst (create E x s)) = Some ErrPendingAlreadyExists \<Longrightarrow>
      find s (pa_IdempotencyKey x) = Some (fst (fst (create E x s)))"
    and fetch_find: "find (snd (fetch E k s)) = find s"
    and fetch_value: "fst (fetch E k s) = Inr p \<Longrightarrow> find s k = Some p"
    and transition_none: "find s k' = None \<Longrightarrow> find (snd (transition E k st at s)) k' = None"
    and transition_keeps: "find s k' = Some p \<Longrightarrow>
      \<exists>p'. find (snd (transition E k st at s)) k' = Some p' \<and> same_request p p' \<and>
           pa_CreatedAt p' = pa_CreatedAt p \<and>
           (p' = p \<or> (k' = k \<and> \<not> IsTerminal (pa_Status p) \<and> pa_Status p' = st \<and>
                      (st = PendingStatusApprovedApplied \<longleftrightarrow> at \<noteq> None)))"
    and transition_ok: "fst (transition E k st at s) = None \<Longrightarrow>
      \<exists>p p'. find s k = Some p \<and> \<not> IsTerminal (pa_Status p) \<and>
             find (snd (transition E k st at s)) k = Some p' \<and> pa_Status p' = st"
begin

fun after :: "'e \<times> pending_op \<Rightarrow> 's \<Rightarrow> 's" where
  "after (E, OpCreate p) s = snd (create E p s)"
| "after (E, OpFetch k) s = snd (fetch E k s)"
| "after (E, OpTransition k st at) s = snd (transition E k st at s)"

lemma after_keeps:
  "find s k = Some p \<Longrightarrow>
     \<exists>p'. find (after op s) k = Some p' \<and> same_request p p' \<and> pa_CreatedAt p' = pa_CreatedAt p \<and>
          (IsTerminal (pa_Status p) \<longrightarrow> p' = p)"
proof (cases "(op, s)" rule: after.cases)
  case (3 E k' st at s')
  assume "find s k = Some p"
  with 3 transition_keeps[of s k p E k' st at] show ?thesis by fastforce
qed (auto simp: create_keeps fetch_find)

text \<open>A recorded request keeps its content, and a terminal record is frozen.\<close>

lemma frozen:
  "find s k = Some p \<Longrightarrow>
     \<exists>p'. find (fold after ops s) k = Some p' \<and> same_request p p' \<and> pa_CreatedAt p' = pa_CreatedAt p \<and>
          (IsTerminal (pa_Status p) \<longrightarrow> p' = p)"
proof (induction ops arbitrary: s p)
  case (Cons op ops)
  from after_keeps[OF Cons.prems] obtain q where q: "find (after op s) k = Some q"
    "same_request p q" "pa_CreatedAt q = pa_CreatedAt p" "IsTerminal (pa_Status p) \<longrightarrow> q = p" by blast
  from Cons.IH[OF q(1)] obtain r where "find (fold after ops (after op s)) k = Some r"
    "same_request q r" "pa_CreatedAt r = pa_CreatedAt q" "IsTerminal (pa_Status q) \<longrightarrow> r = q" by blast
  with q show ?case by (auto intro: same_request_trans)
qed simp

text \<open>At most one terminal transition of a record ever succeeds.\<close>

lemma terminal_once:
  assumes "fst (transition E k st at s) = None" "IsTerminal st"
  shows "fst (transition E' k st' at' (fold after ops (snd (transition E k st at s)))) \<noteq> None"
proof
  assume second: "fst (transition E' k st' at' (fold after ops (snd (transition E k st at s)))) = None"
  from transition_ok[OF assms(1)] obtain p' where
    p': "find (snd (transition E k st at s)) k = Some p'" "pa_Status p' = st" by blast
  with frozen[OF p'(1), of ops] assms(2)
  have "find (fold after ops (snd (transition E k st at s))) k = Some p'" by auto
  with transition_ok[OF second] p'(2) assms(2) show False by auto
qed

end

section \<open>Both adapters provide the interface\<close>

text \<open>The common shape of the two creates.\<close>

definition generic_create ::
  "(pending \<Rightarrow> bool) \<Rightarrow> (pending \<Rightarrow> pending) \<Rightarrow> env_store \<Rightarrow> pending \<Rightarrow> pendings \<Rightarrow>
   (pending \<times> pending_error option) \<times> pendings" where
  "generic_create ok doc env p0 t =
     (if pa_IdempotencyKey p0 = [] then ((zero_pending, Some PendingKeyRequired), t)
      else
        (let p = with_defaults (es_now env) p0;
             key = pa_IdempotencyKey p;
             r = svc env (checked (ok p) (row_create key (doc p))) t
         in case fst r of
              Inr _ \<Rightarrow> ((p, None), snd r)
            | Inl AlreadyExists \<Rightarrow>
                (let g = map_err get_error (svc env (row_get key) (snd r))
                 in case fst g of
                      Inl e \<Rightarrow> ((zero_pending, Some e), snd g)
                    | Inr existing \<Rightarrow> ((existing, Some ErrPendingAlreadyExists), snd g))
            | Inl e \<Rightarrow> ((zero_pending, Some (insert_error e)), snd r)))"

lemma sqlite_create_generic:
  "sqlite_CreateIfNotExists = generic_create
     (\<lambda>p. pa_Op p \<in> {PendingOpAdd, PendingOpArchive} \<and> valid_status (pa_Status p))
     (\<lambda>p. p\<lparr>pa_CreatedAt := sqlite_time (pa_CreatedAt p), pa_AppliedAt := None\<rparr>)"
  by (simp only: fun_eq_iff sqlite_CreateIfNotExists_def generic_create_def sqlite_pending_Get_def Let_def)
     simp

lemma checked_True [simp]: "checked True f = f"
  by (simp add: checked_def fun_eq_iff)

lemma firestore_create_generic:
  "firestore_CreateIfNotExists = generic_create (\<lambda>_. True)
     (\<lambda>p. p\<lparr>pa_CreatedAt := firestore_time (pa_CreatedAt p),
            pa_AppliedAt := map_option firestore_time (pa_AppliedAt p)\<rparr>)"
  by (simp only: fun_eq_iff firestore_CreateIfNotExists_def generic_create_def firestore_pending_Get_def
      checked_True) simp

lemma with_defaults_same [simp]:
  "same_request p (with_defaults now p)"
  "pa_IdempotencyKey (with_defaults now p) = pa_IdempotencyKey p"
  "pa_Status (with_defaults now p) = (if pa_Status p = [] then PendingStatusPendingApproval else pa_Status p)"
  by (simp_all add: with_defaults_def same_request_def Let_def)

lemma checked_cases: "checked ok f m = f m \<or> checked ok f m = (Inl (Infra ''CHECK constraint failed''), m)"
  by (simp add: checked_def)

lemma svc_checked_cases:
  "svc env (checked ok f) t = svc env f t \<or>
   (rows (snd (svc env (checked ok f) t)) = rows t \<and> (\<exists>e. fst (svc env (checked ok f) t) = Inl (Infra e)))"
  by (cases ok) (auto simp: checked_def svc_def Let_def split: fault.splits)

lemma map_err_fst: "fst (map_err g r) = (case fst r of Inl e \<Rightarrow> Inl (g e) | Inr x \<Rightarrow> Inr x)"
  by (simp add: map_err_def)

text \<open>Which rows a create leaves, and what its result says.\<close>

lemma generic_create_cases:
  fixes t :: pendings and env :: env_store and p0 :: pending and doc :: "pending \<Rightarrow> pending"
  defines "p \<equiv> with_defaults (es_now env) p0"
  defines "c \<equiv> svc env (row_create (pa_IdempotencyKey p0) (doc p)) t"
  obtains
    (rejected) e where "rows (snd (generic_create ok doc env p0 t)) = rows t"
      "snd (fst (generic_create ok doc env p0 t)) = Some e" "e \<noteq> ErrPendingAlreadyExists"
  | (created) "pa_IdempotencyKey p0 \<noteq> []" "fst c = Inr ()"
      "generic_create ok doc env p0 t = ((p, None), snd c)"
  | (exists) existing where "rows (snd (generic_create ok doc env p0 t)) = rows t"
      "row t (pa_IdempotencyKey p0) = Some existing"
      "fst (generic_create ok doc env p0 t) = (existing, Some ErrPendingAlreadyExists)"
  | (failed) e where "pa_IdempotencyKey p0 \<noteq> []" "rows (snd (generic_create ok doc env p0 t)) = rows (snd c)"
      "snd (fst (generic_create ok doc env p0 t)) = Some e" "e \<noteq> ErrPendingAlreadyExists"
proof (cases "pa_IdempotencyKey p0 = []")
  case True
  then show ?thesis using rejected by (simp add: generic_create_def)
next
  case False
  let ?r = "svc env (checked (ok p) (row_create (pa_IdempotencyKey p0) (doc p))) t"
  have gc: "generic_create ok doc env p0 t =
      (case fst ?r of
         Inr _ \<Rightarrow> ((p, None), snd ?r)
       | Inl AlreadyExists \<Rightarrow>
           (let g = map_err get_error (svc env (row_get (pa_IdempotencyKey p0)) (snd ?r))
            in case fst g of
                 Inl e \<Rightarrow> ((zero_pending, Some e), snd g)
               | Inr existing \<Rightarrow> ((existing, Some ErrPendingAlreadyExists), snd g))
       | Inl e \<Rightarrow> ((zero_pending, Some (insert_error e)), snd ?r))"
    unfolding p_def generic_create_def Let_def with_defaults_same(2) if_not_P[OF False] ..
  from svc_checked_cases[of env "ok p" "row_create (pa_IdempotencyKey p0) (doc p)" t]
  show ?thesis
  proof (elim disjE conjE exE)
    fix e assume "rows (snd ?r) = rows t" "fst ?r = Inl (Infra e)"
    then show ?thesis using rejected[of "PendingInfra e"] gc by simp
  next
    assume rc: "?r = svc env (row_create (pa_IdempotencyKey p0) (doc p)) t"
    show ?thesis
    proof (cases "fst c")
      case (Inr u)
      then show ?thesis using created False gc rc by (simp add: c_def)
    next
      case (Inl code)
      show ?thesis
      proof (cases code)
        case (Infra e)
        then show ?thesis using failed[of "PendingInfra e"] Inl False gc rc by (simp add: c_def)
      next
        case NotFound
        then show ?thesis using failed[of "PendingInfra ''not found''"] Inl False gc rc by (simp add: c_def)
      next
        case AlreadyExists
        let ?g = "svc env (row_get (pa_IdempotencyKey p0)) (snd c)"
        from AlreadyExists Inl have "fst c = Inl AlreadyExists" by simp
        from svc_Inl_known[OF this[unfolded c_def]]
        have rt: "rows (snd c) = rows t" by (auto simp: c_def row_create_def split: option.splits)
        have g: "generic_create ok doc env p0 t =
            (let g = map_err get_error ?g
             in case fst g of
                  Inl e \<Rightarrow> ((zero_pending, Some e), snd g)
                | Inr existing \<Rightarrow> ((existing, Some ErrPendingAlreadyExists), snd g))"
          unfolding gc rc[folded c_def] Inl AlreadyExists by simp
        show ?thesis
        proof (cases "fst ?g")
          case (Inl e)
          moreover have "get_error e \<noteq> ErrPendingAlreadyExists" by (cases e) simp_all
          ultimately show ?thesis using rejected[of "get_error e"] g rt by (simp add: map_err_fst Let_def)
        next
          case (Inr existing)
          have "row (snd c) (pa_IdempotencyKey p0) = Some existing"
            using svc_Inr[OF Inr] by (auto simp: row_get_def split: option.splits)
          with Inr show ?thesis using exists[of existing] g rt by (simp add: map_err_fst Let_def)
        qed
      qed
    qed
  qed
qed

lemma generic_create_laws:
  assumes doc: "\<And>p. same_request p (doc p)" "\<And>p. pa_Status (doc p) = pa_Status p"
  shows "row t k = Some q \<Longrightarrow> row (snd (generic_create ok doc env x t)) k = Some q"
    and "row t k = None \<Longrightarrow> row (snd (generic_create ok doc env x t)) k = Some q \<Longrightarrow>
      k = pa_IdempotencyKey x \<and> k \<noteq> [] \<and> same_request x q \<and>
      pa_Status q = (if pa_Status x = [] then PendingStatusPendingApproval else pa_Status x)"
    and "snd (fst (generic_create ok doc env x t)) = None \<Longrightarrow>
      row t (pa_IdempotencyKey x) = None \<and>
      row (snd (generic_create ok doc env x t)) (pa_IdempotencyKey x) \<noteq> None"
    and "snd (fst (generic_create ok doc env x t)) = Some ErrPendingAlreadyExists \<Longrightarrow>
      row t (pa_IdempotencyKey x) = Some (fst (fst (generic_create ok doc env x t)))"
proof -
  let ?p = "with_defaults (es_now env) x"
  let ?c = "svc env (row_create (pa_IdempotencyKey x) (doc ?p)) t"
  have keep: "row t k = Some q \<Longrightarrow> row (snd ?c) k = Some q" for k q by (rule svc_create_keeps)
  have new: "row (snd ?c) k = Some q \<Longrightarrow> row t k = None \<Longrightarrow> k = pa_IdempotencyKey x \<and> q = doc ?p" for k q
    by (auto dest: svc_create_new)
  have sr: "same_request x (doc ?p)" using doc(1) with_defaults_same(1) same_request_trans by blast
  show "row (snd (generic_create ok doc env x t)) k = Some q" if "row t k = Some q"
    by (rule generic_create_cases[where env=env and doc=doc and ?p0.0=x and t=t and ok=ok]) (simp_all add: that keep)
  show "k = pa_IdempotencyKey x \<and> k \<noteq> [] \<and> same_request x q \<and>
      pa_Status q = (if pa_Status x = [] then PendingStatusPendingApproval else pa_Status x)"
    if n: "row t k = None" "row (snd (generic_create ok doc env x t)) k = Some q"
    by (rule generic_create_cases[where env=env and doc=doc and ?p0.0=x and t=t and ok=ok])
       (use n new[of k q] sr doc(2) in \<open>auto simp: with_defaults_same(3)\<close>)
  show "row t (pa_IdempotencyKey x) = None \<and>
      row (snd (generic_create ok doc env x t)) (pa_IdempotencyKey x) \<noteq> None"
    if res: "snd (fst (generic_create ok doc env x t)) = None"
  proof (rule generic_create_cases[where env=env and doc=doc and ?p0.0=x and t=t and ok=ok])
    assume c: "fst ?c = Inr ()" "generic_create ok doc env x t = ((?p, None), snd ?c)"
    from svc_Inr[OF c(1)] have r: "row_create (pa_IdempotencyKey x) (doc ?p) (rows t) = (Inr (), rows (snd ?c))" .
    then have "row t (pa_IdempotencyKey x) = None" by (auto simp: row_create_def split: option.splits)
    moreover have "row (snd ?c) = map_of (snd (row_create (pa_IdempotencyKey x) (doc ?p) (rows t)))"
      using r by simp
    ultimately show ?thesis using c(2) by (simp add: map_of_row_create)
  qed (use res in simp_all)
  show "row t (pa_IdempotencyKey x) = Some (fst (fst (generic_create ok doc env x t)))"
    if ex: "snd (fst (generic_create ok doc env x t)) = Some ErrPendingAlreadyExists"
    by (rule generic_create_cases[where env=env and doc=doc and ?p0.0=x and t=t and ok=ok]) (use ex in simp_all)
qed

lemma transition_tx_cases:
  "rows (snd (svc env (transition_tx ok key upd) t)) = rows t \<or>
   (\<exists>p. row t key = Some p \<and> \<not> IsTerminal (pa_Status p) \<and>
        rows (snd (svc env (transition_tx ok key upd) t)) = AList.update key (upd p) (rows t))"
  using svc_rows[of env "transition_tx ok key upd" t]
  by (auto simp: transition_tx_def split: option.splits if_splits)

lemma transition_tx_ok:
  assumes "fst (tx_result (svc env (transition_tx ok key upd) t)) = None"
  shows "\<exists>p. row t key = Some p \<and> \<not> IsTerminal (pa_Status p) \<and>
    rows (snd (svc env (transition_tx ok key upd) t)) = AList.update key (upd p) (rows t)"
proof -
  have "fst (svc env (transition_tx ok key upd) t) = Inr None"
    using assms by (auto simp: tx_result_def split: sum.splits)
  from svc_Inr[OF this] show ?thesis by (auto simp: transition_tx_def split: option.splits if_splits)
qed

text \<open>The shape of the two transitions.\<close>

definition generic_transition ::
  "(PendingStatus \<Rightarrow> bool) \<Rightarrow> (PendingStatus \<Rightarrow> gotime option \<Rightarrow> pending \<Rightarrow> pending) \<Rightarrow> env_store \<Rightarrow> string \<Rightarrow>
   PendingStatus \<Rightarrow> gotime option \<Rightarrow> pendings \<Rightarrow> pending_error option \<times> pendings" where
  "generic_transition ok upd env key st at t =
     (if st = PendingStatusApprovedApplied \<and> at = None then (Some AppliedAtRequired, t)
      else if st \<noteq> PendingStatusApprovedApplied \<and> at \<noteq> None then (Some AppliedAtForbidden, t)
      else tx_result (svc env (transition_tx (ok st) key (upd st at)) t))"

lemma transitions_generic:
  "sqlite_Transition = generic_transition valid_status sqlite_status_update"
  "firestore_Transition = generic_transition (\<lambda>_. True) firestore_status_update"
  by (simp_all add: fun_eq_iff sqlite_Transition_def firestore_Transition_def generic_transition_def)

lemma generic_transition_laws:
  assumes upd: "\<And>p. same_request p (upd st at p) \<and> pa_Status (upd st at p) = st \<and>
      pa_CreatedAt (upd st at p) = pa_CreatedAt p"
  shows "row t k' = None \<Longrightarrow> row (snd (generic_transition ok upd env k st at t)) k' = None"
    and "row t k' = Some p \<Longrightarrow>
      \<exists>p'. row (snd (generic_transition ok upd env k st at t)) k' = Some p' \<and> same_request p p' \<and>
           pa_CreatedAt p' = pa_CreatedAt p \<and>
           (p' = p \<or> (k' = k \<and> \<not> IsTerminal (pa_Status p) \<and> pa_Status p' = st \<and>
                      (st = PendingStatusApprovedApplied \<longleftrightarrow> at \<noteq> None)))"
    and "fst (generic_transition ok upd env k st at t) = None \<Longrightarrow>
      \<exists>p p'. row t k = Some p \<and> \<not> IsTerminal (pa_Status p) \<and>
             row (snd (generic_transition ok upd env k st at t)) k = Some p' \<and> pa_Status p' = st"
proof -
  let ?tx = "svc env (transition_tx (ok st) k (upd st at)) t"
  have snd_tx: "snd (tx_result r) = snd r" for r by (simp add: tx_result_def)
  note cases = transition_tx_cases[of env "ok st" k "upd st at" t]
  show "row (snd (generic_transition ok upd env k st at t)) k' = None" if "row t k' = None"
    using cases that by (auto simp: generic_transition_def snd_tx update_conv')
  show "\<exists>p'. row (snd (generic_transition ok upd env k st at t)) k' = Some p' \<and> same_request p p' \<and>
           pa_CreatedAt p' = pa_CreatedAt p \<and>
           (p' = p \<or> (k' = k \<and> \<not> IsTerminal (pa_Status p) \<and> pa_Status p' = st \<and>
                      (st = PendingStatusApprovedApplied \<longleftrightarrow> at \<noteq> None)))"
    if p: "row t k' = Some p"
  proof (cases "(st = PendingStatusApprovedApplied) = (at \<noteq> None)")
    case False
    with p show ?thesis by (auto simp: generic_transition_def)
  next
    case True
    then have g: "generic_transition ok upd env k st at t = tx_result ?tx"
      by (auto simp: generic_transition_def)
    from cases True p show ?thesis
      unfolding g snd_tx using upd by (auto simp: update_conv')
  qed
  show "\<exists>p p'. row t k = Some p \<and> \<not> IsTerminal (pa_Status p) \<and>
             row (snd (generic_transition ok upd env k st at t)) k = Some p' \<and> pa_Status p' = st"
    if res: "fst (generic_transition ok upd env k st at t) = None"
  proof -
    from res have g: "generic_transition ok upd env k st at t = tx_result ?tx"
      by (auto simp: generic_transition_def split: if_splits)
    with res transition_tx_ok[of env "ok st" k "upd st at" t] upd show ?thesis
      by (auto simp: snd_tx update_conv')
  qed
qed

lemma status_updates_ok:
  "same_request p (sqlite_status_update st at p) \<and> pa_Status (sqlite_status_update st at p) = st \<and>
     pa_CreatedAt (sqlite_status_update st at p) = pa_CreatedAt p"
  "same_request p (firestore_status_update st at p) \<and> pa_Status (firestore_status_update st at p) = st \<and>
     pa_CreatedAt (firestore_status_update st at p) = pa_CreatedAt p"
  by (simp_all add: sqlite_status_update_def firestore_status_update_def same_request_def split: option.split)

lemma fetch_laws:
  "rows (snd (map_err get_error (svc env (row_get k) t))) = rows t"
  "fst (map_err get_error (svc env (row_get k) t)) = Inr p \<Longrightarrow> row t k = Some p"
  using svc_Inr[of env "row_get k" t p] by (auto simp: row_get_def split: option.splits)

interpretation sqlite_pending: pending_store sqlite_CreateIfNotExists sqlite_pending_Get
    sqlite_Transition row
  unfolding sqlite_create_generic firestore_create_generic transitions_generic
    sqlite_pending_Get_def[abs_def] firestore_pending_Get_def[abs_def]
proof unfold_locales
qed ((rule generic_create_laws; (assumption | simp add: same_request_def))
      | (rule generic_transition_laws[OF status_updates_ok(1)]; assumption)
      | (rule fetch_laws(2), assumption) | simp only: fetch_laws(1))+

interpretation firestore_pending: pending_store firestore_CreateIfNotExists firestore_pending_Get
    firestore_Transition row
  unfolding sqlite_create_generic firestore_create_generic transitions_generic
    sqlite_pending_Get_def[abs_def] firestore_pending_Get_def[abs_def]
proof unfold_locales
qed ((rule generic_create_laws; (assumption | simp add: same_request_def))
      | (rule generic_transition_laws[OF status_updates_ok(2)]; assumption)
      | (rule fetch_laws(2), assumption) | simp only: fetch_laws(1))+

section \<open>Properties\<close>

fun sqlite_pending_apply :: "env_store \<times> pending_op \<Rightarrow> pendings \<Rightarrow> pendings" where
  "sqlite_pending_apply (E, OpCreate p) t = snd (sqlite_CreateIfNotExists E p t)"
| "sqlite_pending_apply (E, OpFetch k) t = snd (sqlite_pending_Get E k t)"
| "sqlite_pending_apply (E, OpTransition k st at) t = snd (sqlite_Transition E k st at t)"

fun firestore_pending_apply :: "env_store \<times> pending_op \<Rightarrow> pendings \<Rightarrow> pendings" where
  "firestore_pending_apply (E, OpCreate p) t = snd (firestore_CreateIfNotExists E p t)"
| "firestore_pending_apply (E, OpFetch k) t = snd (firestore_pending_Get E k t)"
| "firestore_pending_apply (E, OpTransition k st at) t = snd (firestore_Transition E k st at t)"

lemma pending_apply_after:
  "sqlite_pending_apply op t = sqlite_pending.after op t"
  "firestore_pending_apply op t = firestore_pending.after op t"
  by (cases "(op, t)" rule: sqlite_pending_apply.cases; simp)+

text \<open>C20. In both stores, under any failures of the database: a recorded request keeps its operation,
  body, requester and creation date for ever, a record in a terminal state never changes again, and
  after one successful transition to a terminal state every later transition of that record is
  refused, so a request is resolved at most once.\<close>

theorem pending_resolved_once:
  assumes "row t k = Some p"
  shows "(\<exists>p'. row (fold sqlite_pending_apply ops t) k = Some p' \<and> same_request p p' \<and>
            pa_CreatedAt p' = pa_CreatedAt p \<and> (IsTerminal (pa_Status p) \<longrightarrow> p' = p)) \<and>
         (\<exists>p'. row (fold firestore_pending_apply ops t) k = Some p' \<and> same_request p p' \<and>
            pa_CreatedAt p' = pa_CreatedAt p \<and> (IsTerminal (pa_Status p) \<longrightarrow> p' = p)) \<and>
         (IsTerminal st \<and> fst (sqlite_Transition E k st at t) = None \<longrightarrow>
            fst (sqlite_Transition E' k st' at'
              (fold sqlite_pending_apply ops (snd (sqlite_Transition E k st at t)))) \<noteq> None) \<and>
         (IsTerminal st \<and> fst (firestore_Transition E k st at t) = None \<longrightarrow>
            fst (firestore_Transition E' k st' at'
              (fold firestore_pending_apply ops (snd (firestore_Transition E k st at t)))) \<noteq> None)"
proof -
  have "sqlite_pending_apply = sqlite_pending.after" "firestore_pending_apply = firestore_pending.after"
    by (simp_all add: fun_eq_iff pending_apply_after del: split_paired_All)
  then show ?thesis
    using sqlite_pending.frozen[OF assms, of ops] firestore_pending.frozen[OF assms, of ops]
      sqlite_pending.terminal_once[of E k st at t E' st' at' ops]
      firestore_pending.terminal_once[of E k st at t E' st' at' ops] by simp
qed

definition sample_pending :: pending where
  "sample_pending = zero_pending\<lparr>pa_IdempotencyKey := ''k'', pa_Op := PendingOpAdd, pa_BodyJSON := ''{}'',
     pa_EffectiveRequesterID := ''U1'', pa_RequesterActorType := ''human-operator'', pa_CreatedAt := 9,
     pa_Status := PendingStatusPendingApproval\<rparr>"

definition calm_db :: env_store where
  "calm_db = \<lparr>es_faults = (\<lambda>_. Fine), es_now = 3000000000\<rparr>"

theorem pending_resolved_once_witness:
  "fst (firestore_Transition calm_db ''k'' PendingStatusApprovedApplied (Some 5)
     (snd (firestore_Transition calm_db ''k'' PendingStatusDenied None
        \<lparr>rows = [(''k'', sample_pending)], ncalls = 0\<rparr>))) \<noteq> None"
proof -
  let ?t = "\<lparr>rows = [(''k'', sample_pending)], ncalls = 0\<rparr>"
  have "row ?t ''k'' = Some sample_pending" by simp
  moreover have "fst (firestore_Transition calm_db ''k'' PendingStatusDenied None ?t) = None"
    by code_simp
  ultimately show ?thesis
    using pending_resolved_once[of ?t "''k''" sample_pending "[]" PendingStatusDenied calm_db None
        calm_db PendingStatusApprovedApplied "Some 5"] by simp
qed

end
