(* ===== verification/Rpc_Core.thy ===== *)
theory Rpc_Core
  imports Approval_Domain Dmail Pending_Store Project_Registry Go_Json
begin

text \<open>
  The JSON-RPC endpoint of the administrators: the envelope
  (\<open>internal/core/domain/rpc/envelope.go\<close>, \<open>operator.go\<close>), the dispatcher
  (\<open>internal/usecase/rpc/dispatcher.go\<close>, \<open>context.go\<close>) and the five methods
  (\<open>internal/usecase/rpc/methods\<close>).  The text level of JSON is the record \<open>codec\<close>: the first value of
  an input with the rest of the input, the value of a text, and the members of an object with their
  texts.  A method handler may return or panic.  An error text that the code extends with the text of an
  underlying error keeps its fixed prefix only.
\<close>

section \<open>Envelope\<close>

record codec =
  jc_first :: "string \<Rightarrow> (string \<times> string) option"
  jc_value :: "string \<Rightarrow> json option"
  jc_members :: "string \<Rightarrow> (string \<times> string) list"
  jc_any :: "string \<Rightarrow> json option"
  jc_marshal :: "json \<Rightarrow> string"

definition CodeParseError :: int where [go_consts]: "CodeParseError = - 32700"
definition CodeInvalidRequest :: int where [go_consts]: "CodeInvalidRequest = - 32600"
definition CodeMethodNotFound :: int where [go_consts]: "CodeMethodNotFound = - 32601"
definition CodeInvalidParams :: int where [go_consts]: "CodeInvalidParams = - 32602"
definition CodeInternalError :: int where [go_consts]: "CodeInternalError = - 32603"
definition CodeApplicationErrorBase :: int where [go_consts]: "CodeApplicationErrorBase = - 32000"
definition codeProjectNotFound :: int where [go_consts]: "codeProjectNotFound = - 32001"
definition codePendingNotFound :: int where [go_consts]: "codePendingNotFound = - 32002"

definition JSONRPCVersion :: string where "JSONRPCVersion = ''2.0''"

record rpc_request =
  rq_Method :: string
  rq_Params :: string
  rq_ID :: string

record rpc_error =
  er_Code :: int
  er_Message :: string

record rpc_response =
  rs_JSONRPC :: string
  rs_Result :: string
  rs_Error :: "rpc_error option"
  rs_ID :: string

definition IsNotification :: "rpc_request \<Rightarrow> bool" where
  "IsNotification r \<longleftrightarrow> rq_ID r = []"

definition json_ws :: "string list" where
  "json_ws = [[CHR 0x20], [CHR 0x09], [CHR 0x0D], [CHR 0x0A]]"

definition probe_fields :: "string list" where
  "probe_fields = [''jsonrpc'', ''method'', ''params'', ''id'']"

text \<open>Conversions of a member's text: a string, an optional string (\<open>*string\<close>), raw JSON.\<close>

definition conv_string :: "codec \<Rightarrow> string \<Rightarrow> string \<Rightarrow> string option" where
  "conv_string C txt old = (case jc_value C txt of None \<Rightarrow> None | Some v \<Rightarrow> as_string v old)"

definition conv_string_ptr :: "codec \<Rightarrow> string \<Rightarrow> string option \<Rightarrow> string option option" where
  "conv_string_ptr C txt old =
     (case jc_value C txt of
        Some (JStr s) \<Rightarrow> Some (Some s)
      | Some JNull \<Rightarrow> Some None
      | _ \<Rightarrow> None)"

definition conv_raw :: "string \<Rightarrow> string \<Rightarrow> string option" where
  "conv_raw txt old = Some txt"

definition raw_members :: "codec \<Rightarrow> string \<Rightarrow> (string \<times> string) list option" where
  "raw_members C txt =
     (case jc_value C txt of
        Some (JObj _) \<Rightarrow> Some (jc_members C txt)
      | Some JNull \<Rightarrow> Some []
      | _ \<Rightarrow> None)"

definition rpc_err :: "int \<Rightarrow> string \<Rightarrow> rpc_error" where
  "rpc_err c m = \<lparr>er_Code = c, er_Message = m\<rparr>"

definition ParseRequest :: "codec \<Rightarrow> string \<Rightarrow> rpc_error + rpc_request" where
  "ParseRequest C raw =
     (if trim_space raw = [] then Inl (rpc_err CodeInvalidRequest ''empty request body'')
      else if (case trim_left_seqs json_ws raw of [] \<Rightarrow> False | c # _ \<Rightarrow> c = CHR 0x5B)
      then Inl (rpc_err CodeInvalidRequest ''batch requests are not supported'')
      else case jc_first C raw of
        None \<Rightarrow> Inl (rpc_err CodeParseError ''invalid JSON'')
      | Some (txt, rest) \<Rightarrow>
          (case do { kvs \<leftarrow> raw_members C txt;
                     ver \<leftarrow> read_field (conv_string C) probe_fields ''jsonrpc'' kvs [];
                     meth \<leftarrow> read_field (conv_string_ptr C) probe_fields ''method'' kvs None;
                     prm \<leftarrow> read_field conv_raw probe_fields ''params'' kvs [];
                     rid \<leftarrow> read_field conv_raw probe_fields ''id'' kvs [];
                     Some (ver, meth, prm, rid) } of
             None \<Rightarrow> Inl (rpc_err CodeParseError ''invalid JSON'')
           | Some (ver, meth, prm, rid) \<Rightarrow>
               if trim_left_seqs json_ws rest \<noteq> []
               then Inl (rpc_err CodeParseError ''trailing data after JSON-RPC envelope'')
               else if ver \<noteq> JSONRPCVersion
               then Inl (rpc_err CodeInvalidRequest ''jsonrpc must be 2.0'')
               else (case meth of
                       None \<Rightarrow> Inl (rpc_err CodeInvalidRequest ''method is required'')
                     | Some nm \<Rightarrow>
                         if nm = [] then Inl (rpc_err CodeInvalidRequest ''method is required'')
                         else Inr \<lparr>rq_Method = nm, rq_Params = prm, rq_ID = rid\<rparr>)))"

definition null_text :: string where "null_text = ''null''"

text \<open>The value handed to \<open>json.Marshal\<close>, or the refusal.\<close>

definition EncodeResponse :: "rpc_response \<Rightarrow> rpc_response option" where
  "EncodeResponse resp =
     (let resp1 = (if rs_JSONRPC resp = [] then resp\<lparr>rs_JSONRPC := JSONRPCVersion\<rparr> else resp)
      in if (rs_Result resp1 \<noteq> []) = (rs_Error resp1 \<noteq> None) then None
         else Some (if rs_ID resp1 = [] then resp1\<lparr>rs_ID := null_text\<rparr> else resp1))"

definition NewErrorResponse :: "string \<Rightarrow> int \<Rightarrow> string \<Rightarrow> rpc_response" where
  "NewErrorResponse rid code msg =
     \<lparr>rs_JSONRPC = JSONRPCVersion, rs_Result = [], rs_Error = Some (rpc_err code msg), rs_ID = rid\<rparr>"

definition Error_text :: "rpc_error \<Rightarrow> string" where
  "Error_text e = ''rpc error '' @ show_int (er_Code e) @ '': '' @ er_Message e"

section \<open>Operator\<close>

record operator =
  op_OperatorID :: string
  op_Email :: string
  op_ActorType :: string

definition ActorTypeHumanOperator :: string where
  [go_consts]: "ActorTypeHumanOperator = ''human-operator''"

definition NewOperator :: "string \<Rightarrow> string \<Rightarrow> operator option" where
  "NewOperator operatorID email =
     (if operatorID = [] then None
      else Some \<lparr>op_OperatorID = operatorID, op_Email = email, op_ActorType = ActorTypeHumanOperator\<rparr>)"

section \<open>Dispatcher\<close>

datatype 'r outcome = Returns "rpc_error + 'r" | Panics string

type_synonym ('r, 's) rpc_method = "operator option \<Rightarrow> string \<Rightarrow> 's \<Rightarrow> 'r outcome \<times> 's"
type_synonym ('r, 's) dispatcher = "(string \<times> ('r, 's) rpc_method) list"

definition NewDispatcher :: "('r, 's) dispatcher" where
  "NewDispatcher = []"

text \<open>\<open>None\<close> is the panic on a duplicate name.\<close>

definition Register :: "string \<Rightarrow> ('r, 's) rpc_method \<Rightarrow> ('r, 's) dispatcher \<Rightarrow> ('r, 's) dispatcher option" where
  "Register nm m d = (if map_of d nm \<noteq> None then None else Some (AList.update nm m d))"

definition invoke :: "('r, 's) rpc_method \<Rightarrow> operator option \<Rightarrow> string \<Rightarrow> 's \<Rightarrow> (rpc_error + 'r) \<times> 's" where
  "invoke m ctx params s =
     (case m ctx params s of
        (Returns r, s') \<Rightarrow> (r, s')
      | (Panics p, s') \<Rightarrow> (Inl (rpc_err CodeInternalError (''handler panic: '' @ p)), s'))"

definition ServeRPC ::
  "codec \<Rightarrow> ('r \<Rightarrow> string + string) \<Rightarrow> ('r, 's) dispatcher \<Rightarrow> operator option \<Rightarrow> string \<Rightarrow> 's \<Rightarrow>
   rpc_response option \<times> 's" where
  "ServeRPC C marshal d ctx raw s =
     (case ParseRequest C raw of
        Inl e \<Rightarrow> (EncodeResponse (NewErrorResponse [] (er_Code e) (Error_text e)), s)
      | Inr req \<Rightarrow>
          if IsNotification req
          then (EncodeResponse (NewErrorResponse [] CodeInvalidRequest ''notifications are not supported''), s)
          else (case map_of d (rq_Method req) of
            None \<Rightarrow>
              (EncodeResponse (NewErrorResponse (rq_ID req) CodeMethodNotFound
                 (''method not found: '' @ rq_Method req)), s)
          | Some m \<Rightarrow>
              (case invoke m ctx (rq_Params req) s of
                 (Inl e, s') \<Rightarrow>
                   (EncodeResponse (\<lparr>rs_JSONRPC = [], rs_Result = [], rs_Error = Some e, rs_ID = rq_ID req\<rparr>), s')
               | (Inr result, s') \<Rightarrow>
                   (case marshal result of
                      Inl err \<Rightarrow>
                        (EncodeResponse (NewErrorResponse (rq_ID req) CodeInternalError
                           (''result marshal failed: '' @ err)), s')
                    | Inr txt \<Rightarrow>
                        (EncodeResponse (\<lparr>rs_JSONRPC = [], rs_Result = txt, rs_Error = None,
                           rs_ID = rq_ID req\<rparr>), s')))))"

section \<open>Severity and idempotency key\<close>

definition MethodNameProjectGet :: string where [go_consts]: "MethodNameProjectGet = ''runops.admin.project.get''"
definition MethodNameProjectList :: string where [go_consts]: "MethodNameProjectList = ''runops.admin.project.list''"
definition MethodNamePendingGet :: string where [go_consts]: "MethodNamePendingGet = ''runops.admin.project.pending.get''"
definition MethodNameProjectAdd :: string where [go_consts]: "MethodNameProjectAdd = ''runops.admin.project.add''"
definition MethodNameProjectArchive :: string where [go_consts]: "MethodNameProjectArchive = ''runops.admin.project.archive''"

datatype Severity = SeverityLow | SeverityHigh

instantiation Severity :: linorder
begin
definition less_eq_Severity :: "Severity \<Rightarrow> Severity \<Rightarrow> bool" where
  "less_eq_Severity a b \<longleftrightarrow> (a = SeverityLow \<or> b = SeverityHigh)"
definition less_Severity :: "Severity \<Rightarrow> Severity \<Rightarrow> bool" where
  "less_Severity a b \<longleftrightarrow> (a = SeverityLow \<and> b = SeverityHigh)"
instance
proof
  fix x y z :: Severity
  show "(x < y) = (x \<le> y \<and> \<not> y \<le> x)" "x \<le> x" "x \<le> y \<or> y \<le> x"
    by (cases x; cases y; simp add: less_eq_Severity_def less_Severity_def)+
  show "x \<le> y \<Longrightarrow> y \<le> z \<Longrightarrow> x \<le> z" "x \<le> y \<Longrightarrow> y \<le> x \<Longrightarrow> x = y"
    by (cases x; cases y; cases z; simp add: less_eq_Severity_def)+
qed
end

definition severityByMethod :: "(string \<times> Severity) list" where
  "severityByMethod =
     [(MethodNameProjectGet, SeverityLow), (MethodNameProjectList, SeverityLow),
      (MethodNamePendingGet, SeverityLow), (MethodNameProjectAdd, SeverityHigh),
      (MethodNameProjectArchive, SeverityHigh)]"

definition Classify :: "string \<Rightarrow> Severity option" where
  "Classify methodName = map_of severityByMethod methodName"

definition ListBySeverity :: "Severity \<Rightarrow> string list" where
  "ListBySeverity sev = sort (map fst (filter (\<lambda>(_, s). s = sev) severityByMethod))"

text \<open>\<open>json.Marshal\<close> of a decoded value writes the members of an object in key order.\<close>

definition last_wins :: "(string \<times> 'v) list \<Rightarrow> (string \<times> 'v) list" where
  "last_wins kvs = fold (\<lambda>(k, v). AList.update k v) kvs []"

fun normal_json :: "json \<Rightarrow> json" where
  "normal_json (JArr xs) = JArr (map normal_json xs)"
| "normal_json (JObj kvs) = JObj (sort_key fst (last_wins (map (\<lambda>(k, v). (k, normal_json v)) kvs)))"
| "normal_json v = v"

definition canonicalizeParams :: "codec \<Rightarrow> string \<Rightarrow> string option" where
  "canonicalizeParams C params =
     (if params = [] then Some ''null''
      else map_option (\<lambda>v. jc_marshal C (normal_json v)) (jc_any C params))"

text \<open>\<open>digest\<close> is the first 16 bytes of SHA-256 in hexadecimal.\<close>

definition ComputeIdempotencyKey ::
  "codec \<Rightarrow> (string \<Rightarrow> string) \<Rightarrow> string \<Rightarrow> string \<Rightarrow> string \<Rightarrow> string option" where
  "ComputeIdempotencyKey C digest requester method params =
     map_option (\<lambda>canonical. digest (requester @ [CHR 0x00] @ method @ [CHR 0x00] @ canonical))
       (canonicalizeParams C params)"

section \<open>The methods\<close>

datatype method_result =
    ResProject project
  | ResProjects "project list"
  | ResPending string string string gotime "gotime option"
  | ResCreated string string

datatype posted = Posted string dmail

record rpc_state =
  rp_registry :: registry
  rp_pendings :: pendings
  rp_posted :: "posted list"

definition buildAdminApprovalDMail :: "string \<Rightarrow> pending \<Rightarrow> dmail" where
  "buildAdminApprovalDMail method pa =
     \<lparr>dm_ID = [], dm_Kind = DMailKindConvergence, dm_Target = ''admin-approver'',
      dm_Source = ''runops-gateway'', dm_IdempotencyKey = [],
      dm_Body = ''Admin approval requested'' @ [nl, nl] @ ''- method: `'' @ method @ ''`'' @ [nl] @
        ''- op: `'' @ pa_Op pa @ ''`'' @ [nl] @ ''- requester: `'' @ pa_EffectiveRequesterID pa @ ''`'' @ [nl] @
        ''- idempotency_key: `'' @ pa_IdempotencyKey pa @ ''`'',
      dm_Metadata =
        [(''kind'', ''admin_mutation''),
         (''parent_idempotency_key'', pa_IdempotencyKey pa),
         (''requester_id'', pa_EffectiveRequesterID pa),
         (MetadataKeyRequesterActorType, pa_RequesterActorType pa),
         (MetadataKeyRequesterActorSource, ''env_attested'')]\<rparr>"

text \<open>The publisher is absent, or posts to the configured target and ignores a failure.\<close>

definition publish :: "bool \<Rightarrow> string \<Rightarrow> pending \<Rightarrow> rpc_state \<Rightarrow> rpc_state" where
  "publish enabled method pa s =
     (if enabled then s\<lparr>rp_posted := rp_posted s @ [Posted method (buildAdminApprovalDMail method pa)]\<rparr>
      else s)"

record rpc_config =
  rc_codec :: codec
  rc_digest :: "string \<Rightarrow> string"
  rc_env :: env_store
  rc_highMutation :: bool
  rc_publish :: bool

type_synonym pending_create =
  "env_store \<Rightarrow> pending \<Rightarrow> pendings \<Rightarrow> (pending \<times> pending_error option) \<times> pendings"

definition createPending ::
  "rpc_config \<Rightarrow> pending_create \<Rightarrow> operator \<Rightarrow> string \<Rightarrow> string \<Rightarrow> string \<Rightarrow> rpc_state \<Rightarrow>
   method_result outcome \<times> rpc_state" where
  "createPending cf create opr method pendingOp rawParams s =
     (case ComputeIdempotencyKey (rc_codec cf) (rc_digest cf) (op_OperatorID opr) method rawParams of
        None \<Rightarrow> (Returns (Inl (rpc_err CodeInternalError ''compute idempotency key'')), s)
      | Some key \<Rightarrow>
          (let pending0 = \<lparr>pa_IdempotencyKey = key, pa_Op = pendingOp, pa_BodyJSON = rawParams,
                           pa_EffectiveRequesterID = op_OperatorID opr,
                           pa_RequesterActorType = op_ActorType opr,
                           pa_CreatedAt = es_now (rc_env cf),
                           pa_Status = PendingStatusPendingApproval, pa_AppliedAt = None\<rparr>;
               r = create (rc_env cf) pending0 (rp_pendings s);
               s1 = s\<lparr>rp_pendings := snd r\<rparr>
           in case snd (fst r) of
                None \<Rightarrow>
                  (Returns (Inr (ResCreated key PendingStatusPendingApproval)),
                   publish (rc_publish cf) method pending0 s1)
              | Some ErrPendingAlreadyExists \<Rightarrow>
                  (Returns (Inr (ResCreated (pa_IdempotencyKey (fst (fst r))) PendingStatusPendingApproval)), s1)
              | Some e \<Rightarrow> (Returns (Inl (rpc_err CodeInternalError ''create pending approval'')), s1)))"

text \<open>Decoding the params object of a method; \<open>None\<close> is the unmarshal error.\<close>

definition param_members :: "codec \<Rightarrow> string \<Rightarrow> (string \<times> json) list option" where
  "param_members C params =
     (if params = [] then Some []
      else case jc_value C params of None \<Rightarrow> None | Some v \<Rightarrow> members v)"

definition decode_add_params :: "codec \<Rightarrow> string \<Rightarrow> string option" where
  "decode_add_params C params =
     (let fs = [''id'', ''github_org'', ''github_repo'', ''workspace_path'',
                ''slack_default_channel'', ''github_app_installation_id'']
      in do { kvs \<leftarrow> param_members C params;
              i \<leftarrow> str_field fs ''id'' kvs;
              _ \<leftarrow> str_field fs ''github_org'' kvs;
              _ \<leftarrow> str_field fs ''github_repo'' kvs;
              _ \<leftarrow> str_field fs ''workspace_path'' kvs;
              _ \<leftarrow> str_field fs ''slack_default_channel'' kvs;
              _ \<leftarrow> int_field fs ''github_app_installation_id'' kvs;
              Some i })"

definition decode_one_param :: "string \<Rightarrow> codec \<Rightarrow> string \<Rightarrow> string option" where
  "decode_one_param f C params =
     do { kvs \<leftarrow> param_members C params; str_field [f] f kvs }"

definition high_method ::
  "(codec \<Rightarrow> string \<Rightarrow> string option) \<Rightarrow> string \<Rightarrow> string \<Rightarrow> rpc_config \<Rightarrow> pending_create \<Rightarrow>
   (method_result, rpc_state) rpc_method" where
  "high_method decode method pendingOp cf create ctx params s =
     (if \<not> rc_highMutation cf
      then (Returns (Inl (rpc_err CodeApplicationErrorBase
              ''HIGH mutation disabled (RUNOPS_RPC_HIGH_MUTATION_ENABLED unset)'')), s)
      else case ctx of
        None \<Rightarrow> (Returns (Inl (rpc_err CodeInternalError ''operator identity missing from context'')), s)
      | Some opr \<Rightarrow>
          (case decode (rc_codec cf) params of
             None \<Rightarrow> (Returns (Inl (rpc_err CodeInvalidParams ''invalid params: '')), s)
           | Some i \<Rightarrow>
               if i = [] then (Returns (Inl (rpc_err CodeInvalidParams ''id is required'')), s)
               else createPending cf create opr method pendingOp params s))"

definition ProjectAdd_Handle :: "rpc_config \<Rightarrow> pending_create \<Rightarrow> (method_result, rpc_state) rpc_method" where
  "ProjectAdd_Handle = high_method decode_add_params MethodNameProjectAdd PendingOpAdd"

definition ProjectArchive_Handle :: "rpc_config \<Rightarrow> pending_create \<Rightarrow> (method_result, rpc_state) rpc_method" where
  "ProjectArchive_Handle = high_method (decode_one_param ''id'') MethodNameProjectArchive PendingOpArchive"

definition ProjectGet_Handle ::
  "rpc_config \<Rightarrow> (env_store \<Rightarrow> string \<Rightarrow> registry \<Rightarrow> (project_error + project) \<times> registry) \<Rightarrow>
   (method_result, rpc_state) rpc_method" where
  "ProjectGet_Handle cf get ctx params s =
     (case decode_one_param ''id'' (rc_codec cf) params of
        None \<Rightarrow> (Returns (Inl (rpc_err CodeInvalidParams ''invalid params: '')), s)
      | Some i \<Rightarrow>
          if i = [] then (Returns (Inl (rpc_err CodeInvalidParams ''id is required'')), s)
          else (let r = get (rc_env cf) i (rp_registry s);
                    s1 = s\<lparr>rp_registry := snd r\<rparr>
                in case fst r of
                     Inr proj \<Rightarrow> (Returns (Inr (ResProject proj)), s1)
                   | Inl ErrProjectNotFound \<Rightarrow>
                       (Returns (Inl (rpc_err codeProjectNotFound ''project not found'')), s1)
                   | Inl _ \<Rightarrow> (Returns (Inl (rpc_err CodeInternalError ''registry.Get failed'')), s1)))"

definition resolveListFilter :: "string \<Rightarrow> rpc_error + string" where
  "resolveListFilter status =
     (if status = [] \<or> status = ''active'' then Inr ProjectStatusActive
      else if status = ''archived'' then Inr ProjectStatusArchived
      else if status = ''all'' then Inr []
      else Inl (rpc_err CodeInvalidParams (''status must be '' @ [CHR 0x27] @ ''active'' @ [CHR 0x27] @ '', '' @ [CHR 0x27] @ ''archived'' @ [CHR 0x27] @
                 '', or '' @ [CHR 0x27] @ ''all'' @ [CHR 0x27])))"

definition ProjectList_Handle ::
  "rpc_config \<Rightarrow> (env_store \<Rightarrow> string \<Rightarrow> registry \<Rightarrow> (project_error + project list) \<times> registry) \<Rightarrow>
   (method_result, rpc_state) rpc_method" where
  "ProjectList_Handle cf list ctx params s =
     (case decode_one_param ''status'' (rc_codec cf) params of
        None \<Rightarrow> (Returns (Inl (rpc_err CodeInvalidParams ''invalid params: '')), s)
      | Some st \<Rightarrow>
          (case resolveListFilter st of
             Inl e \<Rightarrow> (Returns (Inl e), s)
           | Inr filt \<Rightarrow>
               (let r = list (rc_env cf) filt (rp_registry s);
                    s1 = s\<lparr>rp_registry := snd r\<rparr>
                in case fst r of
                     Inr ps \<Rightarrow> (Returns (Inr (ResProjects ps)), s1)
                   | Inl _ \<Rightarrow> (Returns (Inl (rpc_err CodeInternalError ''registry.List failed'')), s1))))"

definition redactPendingApproval :: "pending \<Rightarrow> method_result" where
  "redactPendingApproval pa =
     ResPending (pa_IdempotencyKey pa) (pa_Op pa) (pa_Status pa) (pa_CreatedAt pa) (pa_AppliedAt pa)"

definition PendingGet_Handle ::
  "rpc_config \<Rightarrow> (env_store \<Rightarrow> string \<Rightarrow> pendings \<Rightarrow> (pending_error + pending) \<times> pendings) \<Rightarrow>
   (method_result, rpc_state) rpc_method" where
  "PendingGet_Handle cf fetch ctx params s =
     (case decode_one_param ''idempotency_key'' (rc_codec cf) params of
        None \<Rightarrow> (Returns (Inl (rpc_err CodeInvalidParams ''invalid params: '')), s)
      | Some k \<Rightarrow>
          if k = [] then (Returns (Inl (rpc_err CodeInvalidParams ''idempotency_key is required'')), s)
          else (let r = fetch (rc_env cf) k (rp_pendings s);
                    s1 = s\<lparr>rp_pendings := snd r\<rparr>
                in case fst r of
                     Inr pa \<Rightarrow> (Returns (Inr (redactPendingApproval pa)), s1)
                   | Inl ErrPendingNotFound \<Rightarrow>
                       (Returns (Inl (rpc_err codePendingNotFound ''pending approval not found'')), s1)
                   | Inl _ \<Rightarrow> (Returns (Inl (rpc_err CodeInternalError ''store.Get failed'')), s1)))"

end
