(* ===== verification/Rpc_Http.thy ===== *)
theory Rpc_Http
  imports Rpc_Core
begin

text \<open>
  The HTTP transport of the JSON-RPC endpoint (\<open>internal/adapter/input/rpc/handler.go\<close>), the token
  registry that authenticates it (\<open>internal/adapter/output/auth/admin_tokens_registry.go\<close>) and the
  wiring of the endpoint (\<open>cmd/server/rpc_wiring.go\<close>).  SHA-256, the YAML reader and
  \<open>mime.ParseMediaType\<close> are arguments.
\<close>

section \<open>Token registry\<close>

record token_entry =
  te_OperatorID :: string
  te_TokenHash :: string
  te_Email :: string

type_synonym token_registry = "(string \<times> operator) list"

datatype registry_error =
    Unreadable
  | EmptyRegistry
  | EmptyOperatorID nat
  | BadTokenHash nat
  | DuplicateOperatorID string
  | DuplicateTokenHash string

definition isLowerHex64 :: "string \<Rightarrow> bool" where
  "isLowerHex64 s \<longleftrightarrow> length s = 64 \<and> list_all (\<lambda>c. c \<in> set ''0123456789abcdef'') s"

fun load_tokens ::
  "nat \<Rightarrow> token_entry list \<Rightarrow> string list \<Rightarrow> token_registry \<Rightarrow> registry_error + token_registry" where
  "load_tokens i [] seen byHash = Inr byHash"
| "load_tokens i (e # es) seen byHash =
     (if te_OperatorID e = [] then Inl (EmptyOperatorID i)
      else if \<not> isLowerHex64 (te_TokenHash e) then Inl (BadTokenHash i)
      else if te_OperatorID e \<in> set seen then Inl (DuplicateOperatorID (te_OperatorID e))
      else if map_of byHash (te_TokenHash e) \<noteq> None then Inl (DuplicateTokenHash (te_OperatorID e))
      else case NewOperator (te_OperatorID e) (te_Email e) of
             None \<Rightarrow> Inl (EmptyOperatorID i)
           | Some opr \<Rightarrow>
               load_tokens (Suc i) es (te_OperatorID e # seen) (AList.update (te_TokenHash e) opr byHash))"

definition LoadAdminTokensRegistry ::
  "(string \<Rightarrow> token_entry list option) \<Rightarrow> string \<Rightarrow> registry_error + token_registry" where
  "LoadAdminTokensRegistry read_yaml path =
     (case read_yaml path of
        None \<Rightarrow> Inl Unreadable
      | Some tokens \<Rightarrow> if tokens = [] then Inl EmptyRegistry else load_tokens 0 tokens [] [])"

definition Lookup :: "(string \<Rightarrow> string) \<Rightarrow> token_registry \<Rightarrow> string \<Rightarrow> operator option" where
  "Lookup sha256_hex r submittedToken = map_of r (sha256_hex submittedToken)"

section \<open>HTTP handler\<close>

text \<open>The body is what arrives; \<open>hq_BodyFails\<close> says that the connection breaks after it.\<close>

record http_request =
  hq_Method :: string
  hq_ContentType :: string
  hq_Authorization :: string
  hq_Body :: string
  hq_BodyFails :: bool

datatype http_response =
    MethodNotAllowed
  | HttpError nat string
  | HttpOK rpc_response

definition maxRequestBodyBytes :: nat where
  "maxRequestBodyBytes = 1048576"

text \<open>\<open>io.ReadAll\<close> of an \<open>io.LimitReader\<close>.\<close>

definition read_limited :: "nat \<Rightarrow> string \<Rightarrow> bool \<Rightarrow> string option" where
  "read_limited n body fails =
     (if n \<le> length body then Some (take n body) else if fails then None else Some body)"

definition isJSONContentType :: "(string \<Rightarrow> string option) \<Rightarrow> string \<Rightarrow> bool" where
  "isJSONContentType parse_media header =
     (if header = [] then False
      else case parse_media header of
             None \<Rightarrow> False
           | Some mt \<Rightarrow> lower mt = ''application/json'')"

text \<open>\<open>unicode.IsControl\<close>: the ASCII controls, and U+0080 to U+009F in UTF-8.\<close>

definition control_seqs :: "string list" where
  "control_seqs =
     map (\<lambda>n. [char_of n]) ([0..<32] @ [127]) @ map (\<lambda>n. [CHR 0xC2, char_of n]) [128..<(160::nat)]"

definition parseStrictBearer :: "string \<Rightarrow> string option" where
  "parseStrictBearer raw =
     (if length raw < 7 then None
      else if lower (take 6 raw) \<noteq> ''bearer'' \<or> raw ! 6 \<noteq> CHR 0x20 then None
      else
        (let token = drop 7 raw
         in if token = [] then None
            else if list_ex (\<lambda>u. contains_str token u) (go_spaces @ control_seqs) then None
            else Some token))"

definition authenticate ::
  "(string \<Rightarrow> string) \<Rightarrow> token_registry \<Rightarrow> http_request \<Rightarrow> operator option" where
  "authenticate sha256_hex lookup r =
     (case parseStrictBearer (hq_Authorization r) of
        None \<Rightarrow> None
      | Some token \<Rightarrow> Lookup sha256_hex lookup token)"

definition rpc_ServeHTTP ::
  "(string \<Rightarrow> string) \<Rightarrow> (string \<Rightarrow> string option) \<Rightarrow>
   (operator option \<Rightarrow> string \<Rightarrow> 's \<Rightarrow> rpc_response option \<times> 's) \<Rightarrow> token_registry \<Rightarrow> http_request \<Rightarrow>
   's \<Rightarrow> http_response \<times> 's" where
  "rpc_ServeHTTP sha256_hex parse_media transport lookup r s =
     (if hq_Method r \<noteq> ''POST'' then (MethodNotAllowed, s)
      else if \<not> isJSONContentType parse_media (hq_ContentType r)
      then (HttpError 415 ''unsupported media type'', s)
      else case authenticate sha256_hex lookup r of
        None \<Rightarrow> (HttpError 401 ''unauthorized'', s)
      | Some opr \<Rightarrow>
          (case read_limited (maxRequestBodyBytes + 1) (hq_Body r) (hq_BodyFails r) of
             None \<Rightarrow> (HttpError 500 ''internal error'', s)
           | Some body \<Rightarrow>
               if maxRequestBodyBytes < length body
               then (HttpError 413 ''request body too large'', s)
               else (case transport (Some opr) body s of
                       (None, s') \<Rightarrow> (HttpError 500 ''internal error'', s')
                     | (Some resp, s') \<Rightarrow> (HttpOK resp, s'))))"

section \<open>Wiring\<close>

record registry_port =
  rg_Get :: "env_store \<Rightarrow> string \<Rightarrow> registry \<Rightarrow> (project_error + project) \<times> registry"
  rg_List :: "env_store \<Rightarrow> string \<Rightarrow> registry \<Rightarrow> (project_error + project list) \<times> registry"

record pending_port =
  pp_Create :: pending_create
  pp_Get :: "env_store \<Rightarrow> string \<Rightarrow> pendings \<Rightarrow> (pending_error + pending) \<times> pendings"

record rpc_wiring =
  wc_flagEnabled :: bool
  wc_registryPath :: string
  wc_projectRegistry :: "registry_port option"
  wc_pendingStore :: "pending_port option"
  wc_highMutationEnabled :: bool
  wc_hasApprovalRequester :: bool

datatype wiring =
    WireSkipped
  | WireError string
  | Wired "(method_result, rpc_state) dispatcher" token_registry

definition production_dispatcher ::
  "rpc_config \<Rightarrow> registry_port \<Rightarrow> pending_port \<Rightarrow> (method_result, rpc_state) dispatcher option" where
  "production_dispatcher cf R P =
     do { d1 \<leftarrow> Register MethodNameProjectGet (ProjectGet_Handle cf (rg_Get R)) NewDispatcher;
          d2 \<leftarrow> Register MethodNameProjectList (ProjectList_Handle cf (rg_List R)) d1;
          d3 \<leftarrow> Register MethodNamePendingGet (PendingGet_Handle cf (pp_Get P)) d2;
          d4 \<leftarrow> Register MethodNameProjectAdd (ProjectAdd_Handle cf (pp_Create P)) d3;
          Register MethodNameProjectArchive (ProjectArchive_Handle cf (pp_Create P)) d4 }"

text \<open>The codec, the digest and the environment of a request are arguments; a panic of \<open>Register\<close> is
  \<open>None\<close>.\<close>

definition wireRPCEndpoint ::
  "codec \<Rightarrow> (string \<Rightarrow> string) \<Rightarrow> (string \<Rightarrow> token_entry list option) \<Rightarrow> rpc_wiring \<Rightarrow> env_store \<Rightarrow>
   wiring option" where
  "wireRPCEndpoint C digest read_yaml cfg E =
     (if \<not> wc_flagEnabled cfg then Some WireSkipped
      else if wc_registryPath cfg = [] then Some WireSkipped
      else case wc_projectRegistry cfg of
        None \<Rightarrow> Some (WireError ''rpc endpoint: projectRegistry must not be nil when flag is enabled'')
      | Some R \<Rightarrow>
          (case wc_pendingStore cfg of
             None \<Rightarrow> Some (WireError ''rpc endpoint: pendingStore must not be nil when flag is enabled'')
           | Some P \<Rightarrow>
               (case LoadAdminTokensRegistry read_yaml (wc_registryPath cfg) of
                  Inl _ \<Rightarrow> Some (WireError ''rpc endpoint: load admin tokens registry'')
                | Inr reg \<Rightarrow>
                    map_option (\<lambda>d. Wired d reg)
                      (production_dispatcher
                         \<lparr>rc_codec = C, rc_digest = digest, rc_env = E,
                          rc_highMutation = wc_highMutationEnabled cfg,
                          rc_publish = wc_hasApprovalRequester cfg\<rparr> R P))))"

end
