(* ===== verification/Admin_Rest.thy ===== *)
theory Admin_Rest
  imports Rpc_Http
begin

text \<open>
  The REST endpoint for administrators (\<open>internal/adapter/input/admin/handler.go\<close>), the older way to
  change the project registry.  A registry is the record of its four operations; JSON text and the text
  form of instants are arguments, the responses are values.  Log lines are left out.
\<close>

section \<open>The registry as the handlers see it\<close>

record project_port =
  po_Add :: "env_store \<Rightarrow> project \<Rightarrow> registry \<Rightarrow> (project_error + unit) \<times> registry"
  po_Get :: "env_store \<Rightarrow> string \<Rightarrow> registry \<Rightarrow> (project_error + project) \<times> registry"
  po_List :: "env_store \<Rightarrow> string \<Rightarrow> registry \<Rightarrow> (project_error + project list) \<times> registry"
  po_Archive :: "env_store \<Rightarrow> string \<Rightarrow> registry \<Rightarrow> (project_error + unit) \<times> registry"

definition sqlite_port :: project_port where
  "sqlite_port = \<lparr>po_Add = sqlite_Add, po_Get = sqlite_Get, po_List = sqlite_List, po_Archive = sqlite_Archive\<rparr>"

definition firestore_port :: project_port where
  "firestore_port =
     \<lparr>po_Add = firestore_Add, po_Get = firestore_Get, po_List = firestore_List, po_Archive = firestore_Archive\<rparr>"

section \<open>Requests\<close>

datatype rest_route =
    RouteAdd "string option"
  | RouteList string
  | RouteGet string
  | RouteArchive string

record rest_request =
  rr_Authorization :: string
  rr_Route :: rest_route

datatype rest_response =
    RestError nat string
  | GoneToRPC
  | RestProject nat project
  | RestProjects "project list"

record admin_handler =
  ah_registry :: project_port
  ah_token :: string
  ah_writeDisabled :: bool

definition NewHandler :: "project_port \<Rightarrow> string \<Rightarrow> admin_handler" where
  "NewHandler registry token = \<lparr>ah_registry = registry, ah_token = token, ah_writeDisabled = False\<rparr>"

definition WithWriteDisabled :: "admin_handler \<Rightarrow> admin_handler" where
  "WithWriteDisabled h = h\<lparr>ah_writeDisabled := True\<rparr>"

text \<open>The header is taken apart as in the RPC transport.\<close>

definition authorize :: "admin_handler \<Rightarrow> string \<Rightarrow> bool" where
  "authorize h raw = (case parseStrictBearer raw of None \<Rightarrow> False | Some claimed \<Rightarrow> claimed = ah_token h)"

fun writeRegistryError :: "project_error \<Rightarrow> rest_response" where
  "writeRegistryError ErrInvalidProjectID = RestError 400 ''invalid project id''"
| "writeRegistryError ErrProjectNotFound = RestError 404 ''project not found''"
| "writeRegistryError ErrProjectAlreadyExists = RestError 409 ''project already exists''"
| "writeRegistryError (ProjectInfra e) = RestError 500 ''registry operation failed''"

definition project_fields :: "string list" where
  "project_fields =
     [''id'', ''github_org'', ''github_repo'', ''workspace_path'', ''slack_default_channel'',
      ''github_app_installation_id'', ''status'', ''created_at'', ''archived_at'']"

text \<open>The decoder of the body: the JSON value at its start, and instants.\<close>

record rest_text =
  rt_first_json :: json_text
  rt_time :: "string \<Rightarrow> bool"

fun time_ok :: "(string \<Rightarrow> bool) \<Rightarrow> json \<Rightarrow> unit \<Rightarrow> unit option" where
  "time_ok parse (JStr s) u = (if parse s then Some () else None)"
| "time_ok parse JNull u = Some ()"
| "time_ok parse _ u = None"

definition decode_project :: "rest_text \<Rightarrow> string \<Rightarrow> project option" where
  "decode_project T body =
     do { j \<leftarrow> rt_first_json T body; kvs \<leftarrow> members j;
          pid \<leftarrow> str_field project_fields ''id'' kvs;
          org \<leftarrow> str_field project_fields ''github_org'' kvs;
          repo \<leftarrow> str_field project_fields ''github_repo'' kvs;
          wsp \<leftarrow> str_field project_fields ''workspace_path'' kvs;
          chan \<leftarrow> str_field project_fields ''slack_default_channel'' kvs;
          inst \<leftarrow> int_field project_fields ''github_app_installation_id'' kvs;
          status \<leftarrow> str_field project_fields ''status'' kvs;
          _ \<leftarrow> read_field (time_ok (rt_time T)) project_fields ''created_at'' kvs ();
          _ \<leftarrow> read_field (time_ok (rt_time T)) project_fields ''archived_at'' kvs ();
          Some \<lparr>pj_ID = pid, pj_GitHubOrg = org, pj_GitHubRepo = repo, pj_WorkspacePath = wsp,
                pj_SlackDefaultChannel = chan, pj_GitHubAppInstallationID = inst, pj_Status = status,
                pj_CreatedAt = 0, pj_ArchivedAt = None\<rparr> }"

section \<open>Handlers\<close>

definition handleAdd ::
  "rest_text \<Rightarrow> admin_handler \<Rightarrow> env_store \<Rightarrow> string option \<Rightarrow> registry \<Rightarrow> rest_response \<times> registry" where
  "handleAdd T h E body t =
     (if ah_writeDisabled h then (GoneToRPC, t)
      else case Option.bind body (decode_project T) of
        None \<Rightarrow> (RestError 400 ''invalid request body'', t)
      | Some p0 \<Rightarrow>
          (let p = p0\<lparr>pj_Status := ProjectStatusActive, pj_CreatedAt := es_now E, pj_ArchivedAt := None\<rparr>;
               r = po_Add (ah_registry h) E p t
           in case fst r of
                Inl e \<Rightarrow> (writeRegistryError e, snd r)
              | Inr _ \<Rightarrow> (RestProject 201 p, snd r)))"

definition parseStatusFilter :: "string \<Rightarrow> string option" where
  "parseStatusFilter q =
     (let s = lower (trim_space q)
      in if s = [] \<or> s = ''all'' then Some []
         else if s = ''active'' then Some ProjectStatusActive
         else if s = ''archived'' then Some ProjectStatusArchived
         else None)"

definition handleList :: "admin_handler \<Rightarrow> env_store \<Rightarrow> string \<Rightarrow> registry \<Rightarrow> rest_response \<times> registry" where
  "handleList h E status t =
     (case parseStatusFilter status of
        None \<Rightarrow> (RestError 400 ''invalid status filter (want active|archived|all)'', t)
      | Some filt \<Rightarrow>
          (let r = po_List (ah_registry h) E filt t
           in case fst r of
                Inl e \<Rightarrow> (writeRegistryError e, snd r)
              | Inr ps \<Rightarrow> (RestProjects ps, snd r)))"

definition handleGet :: "admin_handler \<Rightarrow> env_store \<Rightarrow> string \<Rightarrow> registry \<Rightarrow> rest_response \<times> registry" where
  "handleGet h E pid t =
     (let r = po_Get (ah_registry h) E pid t
      in case fst r of
           Inl e \<Rightarrow> (writeRegistryError e, snd r)
         | Inr p \<Rightarrow> (RestProject 200 p, snd r))"

definition handleArchive :: "admin_handler \<Rightarrow> env_store \<Rightarrow> string \<Rightarrow> registry \<Rightarrow> rest_response \<times> registry" where
  "handleArchive h E pid t =
     (if ah_writeDisabled h then (GoneToRPC, t)
      else
        (let r = po_Archive (ah_registry h) E pid t
         in case fst r of
              Inl e \<Rightarrow> (writeRegistryError e, snd r)
            | Inr _ \<Rightarrow> handleGet h E pid (snd r)))"

definition admin_ServeHTTP ::
  "rest_text \<Rightarrow> admin_handler \<Rightarrow> env_store \<Rightarrow> rest_request \<Rightarrow> registry \<Rightarrow> rest_response \<times> registry" where
  "admin_ServeHTTP T h E r t =
     (if \<not> authorize h (rr_Authorization r) then (RestError 401 ''unauthorized'', t)
      else case rr_Route r of
        RouteAdd body \<Rightarrow> handleAdd T h E body t
      | RouteList status \<Rightarrow> handleList h E status t
      | RouteGet pid \<Rightarrow> handleGet h E pid t
      | RouteArchive pid \<Rightarrow> handleArchive h E pid t)"

section \<open>What an administrator can change\<close>

text \<open>What the endpoint asks of a registry beyond the laws of the RPC methods: listing only reads, and an added
  active project is stored as an active one.\<close>

locale rest_registry = project_registry add get archive find
  for add :: "env_store \<Rightarrow> project \<Rightarrow> registry \<Rightarrow> (project_error + unit) \<times> registry"
    and get :: "env_store \<Rightarrow> string \<Rightarrow> registry \<Rightarrow> (project_error + project) \<times> registry"
    and archive :: "env_store \<Rightarrow> string \<Rightarrow> registry \<Rightarrow> (project_error + unit) \<times> registry"
    and find :: "registry \<Rightarrow> string \<Rightarrow> project option" +
  fixes listing :: "env_store \<Rightarrow> string \<Rightarrow> registry \<Rightarrow> (project_error + project list) \<times> registry"
    and port :: project_port
  assumes port_is: "port = \<lparr>po_Add = add, po_Get = get, po_List = listing, po_Archive = archive\<rparr>"
    and listing_reads: "find (snd (listing E filt s)) = find s"
    and add_active: "fst (add E p s) = Inr () \<Longrightarrow> pj_Status p = ProjectStatusActive \<Longrightarrow> pj_ArchivedAt p = None \<Longrightarrow>
      \<exists>q. find (snd (add E p s)) (pj_ID p) = Some q \<and> same_project p q \<and> pj_Status q = ProjectStatusActive \<and>
          pj_ArchivedAt q = None"
begin

lemma port_ops [simp]:
  "po_Add port = add" "po_Get port = get" "po_List port = listing" "po_Archive port = archive"
  by (simp_all add: port_is)

lemma get_only_reads: "ah_registry h = port \<Longrightarrow> find (snd (handleGet h E pid s)) = find s"
  by (simp add: handleGet_def Let_def get_find split: sum.split)

lemma list_only_reads: "ah_registry h = port \<Longrightarrow> find (snd (handleList h E status s)) = find s"
  by (simp add: handleList_def Let_def listing_reads split: sum.split option.split)

lemma get_answers:
  "ah_registry h = port \<Longrightarrow> fst (handleGet h E pid s) = RestProject n p \<Longrightarrow> find s pid = Some p"
  by (cases "fst (get E pid s)") (auto simp: handleGet_def Let_def get_value elim: writeRegistryError.elims)

text \<open>Only an authorised request to one of the two writing routes, with writing enabled, changes the
  registry.\<close>

lemma writes_need:
  assumes "ah_registry h = port" "find (snd (admin_ServeHTTP T h E r s)) \<noteq> find s"
  shows "authorize h (rr_Authorization r) \<and> \<not> ah_writeDisabled h \<and>
     ((\<exists>b. rr_Route r = RouteAdd (Some b)) \<or> (\<exists>pid. rr_Route r = RouteArchive pid))"
proof (cases "rr_Route r")
  case (RouteAdd body)
  with assms show ?thesis
    by (cases body) (auto simp: admin_ServeHTTP_def handleAdd_def split: if_splits)
qed (use assms in \<open>auto simp: admin_ServeHTTP_def get_only_reads list_only_reads handleArchive_def
       split: if_splits\<close>)

lemma add_answers:
  assumes "ah_registry h = port" "fst (handleAdd T h E body s) = RestProject n p"
  shows "n = 201 \<and> find s (pj_ID p) = None \<and> ValidateProjectID (pj_ID p) = None \<and> pj_CreatedAt p = es_now E \<and>
     (\<exists>q. find (snd (handleAdd T h E body s)) (pj_ID p) = Some q \<and> same_project p q \<and>
        pj_Status q = ProjectStatusActive \<and> pj_ArchivedAt q = None)"
proof -
  from assms obtain p0 where p0: "\<not> ah_writeDisabled h" "Option.bind body (decode_project T) = Some p0"
    by (auto simp: handleAdd_def split: if_splits option.splits)
  define p1 where "p1 = p0\<lparr>pj_Status := ProjectStatusActive, pj_CreatedAt := es_now E, pj_ArchivedAt := None\<rparr>"
  have *: "handleAdd T h E body s = (case fst (add E p1 s) of Inl e \<Rightarrow> (writeRegistryError e, snd (add E p1 s))
      | Inr _ \<Rightarrow> (RestProject 201 p1, snd (add E p1 s)))"
    using assms(1) p0 by (simp add: handleAdd_def p1_def Let_def split: sum.split)
  with assms(2) have ok: "fst (add E p1 s) = Inr ()" "p = p1" "n = 201"
    by (auto split: sum.splits elim: writeRegistryError.elims)
  from add_active[OF ok(1)] obtain q where "find (snd (add E p1 s)) (pj_ID p1) = Some q" "same_project p1 q"
    "pj_Status q = ProjectStatusActive" "pj_ArchivedAt q = None" by (auto simp: p1_def)
  moreover from add_rejects[of p1 _ E s] ok(1) have "ValidateProjectID (pj_ID p1) = None"
    by (cases "ValidateProjectID (pj_ID p1)") auto
  ultimately show ?thesis using add_ok[OF ok(1)] ok * by (auto simp: p1_def)
qed

lemma archive_answers:
  assumes "ah_registry h = port" "fst (handleArchive h E pid s) = RestProject n p"
  shows "find (snd (handleArchive h E pid s)) pid = Some p \<and> pj_Status p = ProjectStatusArchived"
proof -
  from assms have *: "handleArchive h E pid s = handleGet h E pid (snd (archive E pid s))"
    and ok: "fst (archive E pid s) = Inr ()"
    by (auto simp: handleArchive_def Let_def split: if_splits sum.splits elim: writeRegistryError.elims)
  from get_answers[OF assms(1)] assms(2) * have "find (snd (archive E pid s)) pid = Some p" by simp
  with archive_ok[OF ok] * get_only_reads[OF assms(1)] show ?thesis by simp
qed

text \<open>A request leaves every other project alone, and none is lost.\<close>

lemma others_kept:
  assumes "ah_registry h = port" "find s k = Some q"
  shows "\<exists>q'. find (snd (admin_ServeHTTP T h E r s)) k = Some q' \<and> same_project q q' \<and>
     (rr_Route r \<noteq> RouteArchive k \<or> settled q \<longrightarrow> q' = q)"
proof (cases "rr_Route r")
  case (RouteAdd body)
  with assms add_keeps[OF assms(2)] show ?thesis
    by (auto simp: admin_ServeHTTP_def handleAdd_def Let_def split: option.split sum.split)
next
  case (RouteArchive pid)
  from archive_keeps[OF assms(2), of E pid] assms RouteArchive show ?thesis
    by (auto simp: admin_ServeHTTP_def handleArchive_def Let_def get_only_reads split: sum.split)
qed (use assms in \<open>auto simp: admin_ServeHTTP_def get_only_reads list_only_reads\<close>)

lemma ServeHTTP_simps:
  assumes "authorize h (rr_Authorization r)"
  shows "rr_Route r = RouteAdd body \<Longrightarrow> admin_ServeHTTP T h E r s = handleAdd T h E body s"
    "rr_Route r = RouteArchive pid \<Longrightarrow> admin_ServeHTTP T h E r s = handleArchive h E pid s"
  using assms by (simp_all add: admin_ServeHTTP_def)

lemma answers_are_stored:
  assumes "ah_registry h = port" "fst (admin_ServeHTTP T h E r s) = RestProject n p"
  shows "rr_Route r = RouteAdd body \<Longrightarrow> find s (pj_ID p) = None \<and> ValidateProjectID (pj_ID p) = None \<and>
      pj_CreatedAt p = es_now E \<and>
      (\<exists>q. find (snd (admin_ServeHTTP T h E r s)) (pj_ID p) = Some q \<and> same_project p q \<and>
         pj_Status q = ProjectStatusActive \<and> pj_ArchivedAt q = None)"
    and "rr_Route r = RouteArchive pid \<Longrightarrow> find (snd (admin_ServeHTTP T h E r s)) pid = Some p \<and>
      pj_Status p = ProjectStatusArchived"
proof -
  from assms(2) have au: "authorize h (rr_Authorization r)"
    by (auto simp: admin_ServeHTTP_def split: if_splits)
  note go = ServeHTTP_simps[OF au]
  show "rr_Route r = RouteAdd body \<Longrightarrow> find s (pj_ID p) = None \<and> ValidateProjectID (pj_ID p) = None \<and>
      pj_CreatedAt p = es_now E \<and>
      (\<exists>q. find (snd (admin_ServeHTTP T h E r s)) (pj_ID p) = Some q \<and> same_project p q \<and>
         pj_Status q = ProjectStatusActive \<and> pj_ArchivedAt q = None)"
    using add_answers[OF assms(1)] assms(2) by (metis go(1))
  show "rr_Route r = RouteArchive pid \<Longrightarrow> find (snd (admin_ServeHTTP T h E r s)) pid = Some p \<and>
      pj_Status p = ProjectStatusArchived"
    using archive_answers[OF assms(1)] assms(2) by (metis go(2))
qed

lemma served:
  assumes "ah_registry h = port"
  shows "(find (snd (admin_ServeHTTP T h E r t)) \<noteq> find t \<longrightarrow>
       authorize h (rr_Authorization r) \<and> \<not> ah_writeDisabled h \<and>
       ((\<exists>b. rr_Route r = RouteAdd (Some b)) \<or> (\<exists>pid. rr_Route r = RouteArchive pid))) \<and>
     (\<not> authorize h (rr_Authorization r) \<longrightarrow> admin_ServeHTTP T h E r t = (RestError 401 ''unauthorized'', t)) \<and>
     (\<forall>k q. find t k = Some q \<longrightarrow> (\<exists>q'. find (snd (admin_ServeHTTP T h E r t)) k = Some q' \<and> same_project q q' \<and>
        (rr_Route r \<noteq> RouteArchive k \<or> settled q \<longrightarrow> q' = q))) \<and>
     (\<forall>body n p. rr_Route r = RouteAdd body \<and> fst (admin_ServeHTTP T h E r t) = RestProject n p \<longrightarrow>
        find t (pj_ID p) = None \<and> ValidateProjectID (pj_ID p) = None \<and> pj_CreatedAt p = es_now E \<and>
        (\<exists>q. find (snd (admin_ServeHTTP T h E r t)) (pj_ID p) = Some q \<and> same_project p q \<and> pj_Status q = ProjectStatusActive \<and>
           pj_ArchivedAt q = None)) \<and>
     (\<forall>pid n p. rr_Route r = RouteArchive pid \<and> fst (admin_ServeHTTP T h E r t) = RestProject n p \<longrightarrow>
        find (snd (admin_ServeHTTP T h E r t)) pid = Some p \<and> pj_Status p = ProjectStatusArchived)"
proof (intro conjI)
  note w = writes_need[OF assms] and o = others_kept[OF assms]
 
  show "find (snd (admin_ServeHTTP T h E r t)) \<noteq> find t \<longrightarrow>
       authorize h (rr_Authorization r) \<and> \<not> ah_writeDisabled h \<and>
       ((\<exists>b. rr_Route r = RouteAdd (Some b)) \<or> (\<exists>pid. rr_Route r = RouteArchive pid))" using w by blast
  show "\<not> authorize h (rr_Authorization r) \<longrightarrow> admin_ServeHTTP T h E r t = (RestError 401 ''unauthorized'', t)"
    by (simp add: admin_ServeHTTP_def)
  show "\<forall>k q. find t k = Some q \<longrightarrow> (\<exists>q'. find (snd (admin_ServeHTTP T h E r t)) k = Some q' \<and> same_project q q' \<and>
        (rr_Route r \<noteq> RouteArchive k \<or> settled q \<longrightarrow> q' = q))" using o by blast
qed (use answers_are_stored[OF assms] in \<open>(intro allI impI; elim conjE; metis)+\<close>)

end

lemma listing_rows [simp]:
  "rows (snd (sqlite_List E filt t)) = rows t" "rows (snd (firestore_List E filt t)) = rows t"
  by (simp_all add: sqlite_List_def firestore_List_def svc_reads)

lemma svc_create_ok: "fst (svc env (row_create k r) t) = Inr () \<Longrightarrow> row (snd (svc env (row_create k r) t)) k = Some r"
  by (drule svc_Inr) (metis fun_upd_same map_of_row_create prod.sel row_create_results(1))

interpretation sqlite_rest: rest_registry sqlite_Add sqlite_Get sqlite_Archive row sqlite_List sqlite_port
  by unfold_locales
    (auto simp: sqlite_port_def sqlite_Add_def sqlite_project_row_def same_project_def svc_create_ok
       split: option.splits)

interpretation firestore_rest: rest_registry firestore_Add firestore_Get firestore_Archive row firestore_List firestore_port
  by unfold_locales
    (auto simp: firestore_port_def firestore_Add_def firestore_project_doc_def Let_def same_project_def svc_create_ok
       split: option.splits)

text \<open>One REST request, on either registry.  A project changes only by an authorised writing request while writes
  are not disabled; without the token the answer is 401 and nothing is touched.  No project is lost or changes
  its identity, and only an archive request for it changes one that exists, and only while it is not fully
  archived with its date.  An add that is answered with the project created it now, active, under an identifier that was valid and
  free; an archive that is answered with the project left it archived.\<close>

theorem rest_writes_guarded:
  assumes "P \<in> {sqlite_port, firestore_port}" "ah_registry h = P"
    and x: "x = admin_ServeHTTP T h E r t"
  shows "(row (snd x) \<noteq> row t \<longrightarrow>
       authorize h (rr_Authorization r) \<and> \<not> ah_writeDisabled h \<and>
       ((\<exists>b. rr_Route r = RouteAdd (Some b)) \<or> (\<exists>pid. rr_Route r = RouteArchive pid))) \<and>
     (\<not> authorize h (rr_Authorization r) \<longrightarrow> x = (RestError 401 ''unauthorized'', t)) \<and>
     (\<forall>k q. row t k = Some q \<longrightarrow> (\<exists>q'. row (snd x) k = Some q' \<and> same_project q q' \<and>
        (rr_Route r \<noteq> RouteArchive k \<or> settled q \<longrightarrow> q' = q))) \<and>
     (\<forall>body n p. rr_Route r = RouteAdd body \<and> fst x = RestProject n p \<longrightarrow>
        row t (pj_ID p) = None \<and> ValidateProjectID (pj_ID p) = None \<and> pj_CreatedAt p = es_now E \<and>
        (\<exists>q. row (snd x) (pj_ID p) = Some q \<and> same_project p q \<and> pj_Status q = ProjectStatusActive \<and>
           pj_ArchivedAt q = None)) \<and>
     (\<forall>pid n p. rr_Route r = RouteArchive pid \<and> fst x = RestProject n p \<longrightarrow>
        row (snd x) pid = Some p \<and> pj_Status p = ProjectStatusArchived)"
proof -
  consider "ah_registry h = sqlite_port" | "ah_registry h = firestore_port" using assms(1,2) by auto
  then show ?thesis
  proof cases
    case 1
    show ?thesis unfolding x by (rule sqlite_rest.served[OF 1])
  next
    case 2
    show ?thesis unfolding x by (rule firestore_rest.served[OF 2])
  qed
qed

theorem rest_writes_guarded_witness:
  "row (snd (admin_ServeHTTP \<lparr>rt_first_json = (\<lambda>_. None), rt_time = (\<lambda>_. False)\<rparr>
        (WithWriteDisabled (NewHandler sqlite_port ''secret'')) calm_store
        \<lparr>rr_Authorization = ''Bearer secret'', rr_Route = RouteArchive ''web''\<rparr>
        \<lparr>rows = [(''web'', sample_project)], ncalls = 0\<rparr>)) ''web'' = Some sample_project"
proof -
  let ?h = "WithWriteDisabled (NewHandler sqlite_port ''secret'')"
  have h: "sqlite_port \<in> {sqlite_port, firestore_port}" "ah_registry ?h = sqlite_port" "ah_writeDisabled ?h"
    by (simp_all add: WithWriteDisabled_def NewHandler_def)
  show ?thesis
    using conjunct1[OF rest_writes_guarded[OF h(1,2) refl, of "\<lparr>rt_first_json = (\<lambda>_. None), rt_time = (\<lambda>_. False)\<rparr>"
        calm_store "\<lparr>rr_Authorization = ''Bearer secret'', rr_Route = RouteArchive ''web''\<rparr>"
        "\<lparr>rows = [(''web'', sample_project)], ncalls = 0\<rparr>"]] h(3)
    by (auto simp: fun_eq_iff)
qed

end
