(* ===== verification/Go_Paths.thy ===== *)
theory Go_Paths
  imports Go_Strings
begin

text \<open>
  The lexical functions of \<open>path/filepath\<close> on Linux that the transport of D-Mails uses.
\<close>

definition slash :: char where "slash = CHR ''/''"

text \<open>Last element of a path, without trailing slashes.\<close>

definition filepath_Base :: "string \<Rightarrow> string" where
  "filepath_Base p =
     (if p = [] then ''.''
      else
        (let q = rev (dropWhile (\<lambda>c. c = slash) (rev p))
         in if q = [] then [slash] else rev (takeWhile (\<lambda>c. c \<noteq> slash) (rev q))))"

text \<open>\<open>Clean\<close>: drop empty and \<open>.\<close> elements, resolve \<open>..\<close>; at the root \<open>..\<close> goes nowhere.\<close>

fun clean_elems :: "bool \<Rightarrow> string list \<Rightarrow> string list \<Rightarrow> string list" where
  "clean_elems rooted acc [] = rev acc"
| "clean_elems rooted acc (e # es) =
     (if e = [] \<or> e = ''.'' then clean_elems rooted acc es
      else if e = ''..'' then
        (case acc of
           [] \<Rightarrow> clean_elems rooted (if rooted then [] else [''..'']) es
         | a # as \<Rightarrow> clean_elems rooted (if a = ''..'' then ''..'' # acc else as) es)
      else clean_elems rooted (e # acc) es)"

definition filepath_IsAbs :: "string \<Rightarrow> bool" where
  "filepath_IsAbs p \<longleftrightarrow> prefix [slash] p"

definition filepath_Clean :: "string \<Rightarrow> string" where
  "filepath_Clean p =
     (let es = clean_elems (filepath_IsAbs p) [] (split_chr slash p)
      in if filepath_IsAbs p then slash # join [slash] es
         else if es = [] then ''.'' else join [slash] es)"

definition filepath_Join :: "string \<Rightarrow> string \<Rightarrow> string" where
  "filepath_Join dir p =
     (if dir = [] \<and> p = [] then []
      else if dir = [] then filepath_Clean p
      else if p = [] then filepath_Clean dir
      else filepath_Clean (dir @ [slash] @ p))"

text \<open>\<open>Join\<close> of any number of elements, and the directory of a path.\<close>

definition filepath_Join_list :: "string list \<Rightarrow> string" where
  "filepath_Join_list es =
     (case dropWhile (\<lambda>e. e = []) es of [] \<Rightarrow> [] | e # es' \<Rightarrow> filepath_Clean (join [slash] (e # es')))"

definition filepath_Dir :: "string \<Rightarrow> string" where
  "filepath_Dir p = filepath_Clean (rev (dropWhile (\<lambda>c. c \<noteq> slash) (rev p)))"

lemma Base_no_slash: "p \<noteq> [] \<Longrightarrow> slash \<notin> set p \<Longrightarrow> filepath_Base p = p"
proof -
  assume p: "p \<noteq> []" "slash \<notin> set p"
  then have "hd (rev p) \<noteq> slash" by (metis hd_in_set rev_is_Nil_conv set_rev)
  with p(1) have d: "dropWhile (\<lambda>c. c = slash) (rev p) = rev p" by (cases "rev p") simp_all
  have t: "takeWhile (\<lambda>c. c \<noteq> slash) (rev p) = rev p"
    unfolding takeWhile_eq_all_conv using p(2) by auto
  show ?thesis unfolding filepath_Base_def Let_def rev_rev_ident d t using p(1) by simp
qed

lemma clean_elems_app:
  assumes "e \<noteq> []" "e \<noteq> ''.''" "e \<noteq> ''..''"
  shows "clean_elems r acc (es @ [e]) = clean_elems r acc es @ [e]"
  using assms by (induction r acc es rule: clean_elems.induct) (auto split: list.split)

lemma split_chr_app: "split_chr c (a @ c # b) = split_chr c a @ split_chr c b"
  by (induction a) (auto split: list.split)

lemma join_snoc: "xs \<noteq> [] \<Longrightarrow> join sep (xs @ [x]) = join sep xs @ sep @ x"
  by (induction sep xs rule: join.induct) auto

text \<open>Joining a plain name to a directory is injective in the name.\<close>

lemma Join_name:
  assumes "dir \<noteq> []" "n \<noteq> []" "slash \<notin> set n" "n \<noteq> ''.''" "n \<noteq> ''..''"
  shows "filepath_Join dir n =
    (let es = clean_elems (filepath_IsAbs dir) [] (split_chr slash dir)
     in if filepath_IsAbs dir then slash # join [slash] (es @ [n]) else join [slash] (es @ [n]))"
proof -
  have s: "split_chr slash (dir @ slash # n) = split_chr slash dir @ [n]"
    using assms(3) by (simp add: split_chr_app)
  have a: "filepath_IsAbs (dir @ slash # n) \<longleftrightarrow> filepath_IsAbs dir"
    using assms(1) by (cases dir) (auto simp: filepath_IsAbs_def)
  show ?thesis
    using assms by (simp add: filepath_Join_def filepath_Clean_def s a clean_elems_app Let_def)
qed

lemma join_snoc_inj:
  "join sep (es @ [m]) = join sep (es @ [n]) \<Longrightarrow> m = n"
  by (cases "es = []") (simp_all add: join_snoc)

lemma Join_inj:
  assumes "dir \<noteq> []" "n \<noteq> []" "slash \<notin> set n" "n \<noteq> ''.''" "n \<noteq> ''..''"
    and "m \<noteq> []" "slash \<notin> set m" "m \<noteq> ''.''" "m \<noteq> ''..''"
    and "filepath_Join dir m = filepath_Join dir n"
  shows "m = n"
  using assms(10) unfolding Join_name[OF assms(1-5)] Join_name[OF assms(1,6-9)]
  by (auto simp: Let_def split: if_splits dest: join_snoc_inj)

end
