(* ===== verification/State_Factory.thy ===== *)
theory State_Factory
  imports Document_Store Go_Paths "HOL-Library.List_Lexorder" "HOL-Library.Char_ord"
begin

text \<open>
  Choosing the databases: the selection of the backend from the process environment
  (\<open>registry_factory.go\<close>, \<open>registry_runtime.go\<close>, \<open>pending_store_runtime.go\<close>, all of
  \<open>internal/adapter/output/state\<close>).  The operating system and the drivers are the record \<open>host\<close>; what
  opening an SQLite file does is in \<open>Sqlite_Open\<close>.  The text of an error is cut where it would quote the
  value of a variable.
\<close>

section \<open>Selecting the backend\<close>

type_synonym getenv = "string \<Rightarrow> string"

record host =
  ho_home :: "string + string"
  ho_mkdir :: "string \<Rightarrow> gerror"
  ho_open :: "string \<Rightarrow> gerror"
  ho_firestore :: "string \<Rightarrow> string \<Rightarrow> gerror"

datatype backend =
    SQLite string
  | Firestore string string string

definition envProjectRegistry :: string where [go_consts]: "envProjectRegistry = ''RUNOPS_PROJECT_REGISTRY''"
definition envRunopsEnv :: string where [go_consts]: "envRunopsEnv = ''RUNOPS_ENV''"
definition envStateDBPath :: string where [go_consts]: "envStateDBPath = ''RUNOPS_STATE_DB_PATH''"
definition envGoogleCloudProject :: string where [go_consts]: "envGoogleCloudProject = ''GOOGLE_CLOUD_PROJECT''"
definition envFirestoreDatabase :: string where [go_consts]: "envFirestoreDatabase = ''RUNOPS_FIRESTORE_DATABASE''"
definition envFirestoreCollection :: string where [go_consts]: "envFirestoreCollection = ''RUNOPS_FIRESTORE_COLLECTION''"
definition envPendingCollection :: string where [go_consts]: "envPendingCollection = ''RUNOPS_PENDING_COLLECTION''"
definition DefaultProjectsCollection :: string where [go_consts]: "DefaultProjectsCollection = ''projects''"
definition DefaultPendingCollection :: string where [go_consts]: "DefaultPendingCollection = ''pending_approvals''"

definition state_db_path :: "host \<Rightarrow> getenv \<Rightarrow> string + string" where
  "state_db_path h getenv =
     (if getenv envStateDBPath \<noteq> [] then Inr (getenv envStateDBPath)
      else case ho_home h of
             Inl e \<Rightarrow> Inl (''resolve home dir for default RUNOPS_STATE_DB_PATH: '' @ e)
           | Inr home \<Rightarrow> Inr (filepath_Join_list [home, ''.runops'', ''state.db'']))"

definition newSQLiteRegistryFromEnv :: "host \<Rightarrow> getenv \<Rightarrow> string + backend" where
  "newSQLiteRegistryFromEnv h getenv =
     (case state_db_path h getenv of
        Inl e \<Rightarrow> Inl e
      | Inr dbPath \<Rightarrow>
          (case ho_mkdir h (filepath_Dir dbPath) of
             Some e \<Rightarrow> Inl (''create state dir: '' @ e)
           | None \<Rightarrow>
               (case ho_open h dbPath of Some e \<Rightarrow> Inl e | None \<Rightarrow> Inr (SQLite dbPath))))"

definition newFirestoreRegistryFromEnv :: "host \<Rightarrow> getenv \<Rightarrow> string + backend" where
  "newFirestoreRegistryFromEnv h getenv =
     (let projectID = getenv envGoogleCloudProject;
          dbName = getenv envFirestoreDatabase;
          collection = (if getenv envFirestoreCollection = [] then DefaultProjectsCollection
                        else getenv envFirestoreCollection)
      in if projectID = [] then Inl ''GOOGLE_CLOUD_PROJECT env required for firestore registry''
         else case ho_firestore h projectID dbName of
                Some e \<Rightarrow> Inl (''firestore client: '' @ e)
              | None \<Rightarrow> Inr (Firestore projectID dbName collection))"

definition NewProjectRegistryFromEnv :: "host \<Rightarrow> getenv \<Rightarrow> string + backend" where
  "NewProjectRegistryFromEnv h getenv =
     (let choice = getenv envProjectRegistry
      in if choice = [] \<and> getenv envRunopsEnv \<noteq> ''development''
         then Inl (''RUNOPS_PROJECT_REGISTRY env required (sqlite|firestore); '' @
                   ''set RUNOPS_ENV=development to default to sqlite for local development'')
         else if choice = [] \<or> choice = ''sqlite'' then newSQLiteRegistryFromEnv h getenv
         else if choice = ''firestore'' then newFirestoreRegistryFromEnv h getenv
         else Inl ''unknown RUNOPS_PROJECT_REGISTRY value: '')"

definition ResolveFromEnv :: "host \<Rightarrow> getenv \<Rightarrow> string + backend option" where
  "ResolveFromEnv h getenv =
     (if getenv envProjectRegistry = [] \<and> getenv envRunopsEnv \<noteq> ''development'' then Inr None
      else case NewProjectRegistryFromEnv h getenv of
             Inl e \<Rightarrow> Inl (''resolve project registry: '' @ e)
           | Inr b \<Rightarrow> Inr (Some b))"

definition newSQLitePendingStoreFromEnv :: "host \<Rightarrow> getenv \<Rightarrow> string + backend" where
  "newSQLitePendingStoreFromEnv h getenv =
     (case state_db_path h getenv of
        Inl e \<Rightarrow> Inl e
      | Inr dbPath \<Rightarrow>
          (case ho_mkdir h (filepath_Dir dbPath) of
             Some e \<Rightarrow> Inl (''create state dir: '' @ e)
           | None \<Rightarrow>
               (case ho_open h dbPath of
                  Some e \<Rightarrow> Inl (''open sqlite for pending store: '' @ e)
                | None \<Rightarrow> Inr (SQLite dbPath))))"

definition newFirestorePendingStoreFromEnv :: "host \<Rightarrow> getenv \<Rightarrow> string + backend" where
  "newFirestorePendingStoreFromEnv h getenv =
     (let projectID = getenv envGoogleCloudProject;
          dbName = getenv envFirestoreDatabase;
          collection = (if getenv envPendingCollection = [] then DefaultPendingCollection
                        else getenv envPendingCollection)
      in if projectID = [] then Inl ''GOOGLE_CLOUD_PROJECT env required for firestore pending store''
         else case ho_firestore h projectID dbName of
                Some e \<Rightarrow> Inl (''firestore client for pending store: '' @ e)
              | None \<Rightarrow> Inr (Firestore projectID dbName collection))"

definition newPendingStoreFromEnv :: "host \<Rightarrow> getenv \<Rightarrow> string + backend" where
  "newPendingStoreFromEnv h getenv =
     (let choice = getenv envProjectRegistry
      in if choice = [] \<and> getenv envRunopsEnv \<noteq> ''development''
         then Inl ''RUNOPS_PROJECT_REGISTRY env required for pending store''
         else if choice = [] \<or> choice = ''sqlite'' then newSQLitePendingStoreFromEnv h getenv
         else if choice = ''firestore'' then newFirestorePendingStoreFromEnv h getenv
         else Inl ''unknown RUNOPS_PROJECT_REGISTRY value: '')"

definition ResolvePendingStoreFromEnv :: "host \<Rightarrow> getenv \<Rightarrow> string + backend option" where
  "ResolvePendingStoreFromEnv h getenv =
     (if getenv envProjectRegistry = [] \<and> getenv envRunopsEnv \<noteq> ''development'' then Inr None
      else case newPendingStoreFromEnv h getenv of Inl e \<Rightarrow> Inl e | Inr b \<Rightarrow> Inr (Some b))"

text \<open>The place of the data, without the collection.\<close>

fun database :: "backend \<Rightarrow> string + string \<times> string" where
  "database (SQLite path) = Inl path"
| "database (Firestore proj db coll) = Inr (proj, db)"

fun collection :: "backend \<Rightarrow> string option" where
  "collection (SQLite path) = None"
| "collection (Firestore proj db coll) = Some coll"

lemmas resolver_defs =
  ResolveFromEnv_def ResolvePendingStoreFromEnv_def NewProjectRegistryFromEnv_def
  newPendingStoreFromEnv_def newSQLiteRegistryFromEnv_def newSQLitePendingStoreFromEnv_def
  newFirestoreRegistryFromEnv_def newFirestorePendingStoreFromEnv_def

lemma backends_cases:
  "ResolvePendingStoreFromEnv h getenv = Inr b' \<Longrightarrow> ResolveFromEnv h getenv = Inr b \<Longrightarrow>
     (b = None \<and> b' = None) \<or>
     (\<exists>p. b = Some (SQLite p) \<and> b' = Some (SQLite p)) \<or>
     (\<exists>p d. b = Some (Firestore p d (if getenv envFirestoreCollection = [] then DefaultProjectsCollection
                                     else getenv envFirestoreCollection)) \<and>
            b' = Some (Firestore p d (if getenv envPendingCollection = [] then DefaultPendingCollection
                                      else getenv envPendingCollection)))"
  by (auto simp: resolver_defs Let_def split: if_splits sum.splits option.splits)

text \<open>The two stores of the program never disagree about where the data is: under one process
  environment the resolver of the project registry and the resolver of the pending store fail
  together or succeed together (a failure of a driver apart, which is the same question asked
  twice), both are absent or both present, and then they use the same SQLite file or the same
  Firestore database of the same project.  Without a choice and outside development both are absent,
  never a default.\<close>

theorem stores_use_one_database:
  "case (ResolveFromEnv h getenv, ResolvePendingStoreFromEnv h getenv) of
     (Inl _, Inl _) \<Rightarrow> True
   | (Inr b, Inr b') \<Rightarrow>
       map_option database b = map_option database b' \<and>
       (b = None \<longleftrightarrow> getenv envProjectRegistry = [] \<and> getenv envRunopsEnv \<noteq> ''development'')
   | _ \<Rightarrow> False"
proof (cases "ResolveFromEnv h getenv")
  case (Inl e)
  then have "\<exists>e'. ResolvePendingStoreFromEnv h getenv = Inl e'"
    by (auto simp: resolver_defs Let_def split: if_splits sum.splits option.splits)
  with Inl show ?thesis by auto
next
  case (Inr b)
  then obtain b' where b': "ResolvePendingStoreFromEnv h getenv = Inr b'"
    by (auto simp: resolver_defs Let_def split: if_splits sum.splits option.splits)
  have "b = None \<longleftrightarrow> getenv envProjectRegistry = [] \<and> getenv envRunopsEnv \<noteq> ''development''"
    using Inr by (auto simp: ResolveFromEnv_def split: if_splits sum.splits)
  with backends_cases[OF b' Inr] Inr b' show ?thesis by auto
qed

end
