(* ===== verification/Admin_Approval.thy ===== *)
theory Admin_Approval
  imports Approval_Domain Pending_Store Project_Registry Go_Json
begin

text \<open>
  The orchestrator of admin approvals (\<open>internal/usecase/admin_approval/orchestrator.go\<close>): it picks
  a pending request, checks the four-eyes rule, applies the mutation to the project registry and
  resolves the request.  It is written over its two ports; \<open>sqlite_ports\<close> and \<open>firestore_ports\<close> are
  the two wirings of the program.  Its steps are separate database calls, so two handlers can
  interleave: the handlers are split at those calls.
\<close>

section \<open>Ports, state and errors\<close>

record ('ps, 'rs) approval_ports =
  ap_fetch :: "env_store \<Rightarrow> string \<Rightarrow> 'ps \<Rightarrow> (pending_error + pending) \<times> 'ps"
  ap_transition :: "env_store \<Rightarrow> string \<Rightarrow> PendingStatus \<Rightarrow> gotime option \<Rightarrow> 'ps \<Rightarrow> pending_error option \<times> 'ps"
  ap_add :: "env_store \<Rightarrow> project \<Rightarrow> 'rs \<Rightarrow> (project_error + unit) \<times> 'rs"
  ap_archive :: "env_store \<Rightarrow> string \<Rightarrow> 'rs \<Rightarrow> (project_error + unit) \<times> 'rs"

record ('ps, 'rs) admin_state =
  as_pendings :: 'ps
  as_registry :: 'rs

datatype orch_error =
    ErrPendingMissing
  | ErrSelfApproval
  | ErrApproverActorNotHuman
  | ErrUnresolvedRequester
  | ErrAlreadyTerminal
  | FetchFailed pending_error
  | ApplyFailed project_error
  | BadBody
  | UnknownOp string
  | TransitionFailed pending_error

section \<open>The steps\<close>

definition fetchActive ::
  "('ps, 'rs) approval_ports \<Rightarrow> env_store \<Rightarrow> string \<Rightarrow> ('ps, 'rs) admin_state \<Rightarrow>
   (orch_error + pending) \<times> ('ps, 'rs) admin_state" where
  "fetchActive P E key s =
     (let r = ap_fetch P E key (as_pendings s);
          s' = s\<lparr>as_pendings := snd r\<rparr>
      in case fst r of
           Inl e \<Rightarrow> (Inl (if e = ErrPendingNotFound then ErrPendingMissing else FetchFailed e), s')
         | Inr pa \<Rightarrow> (if IsTerminal (pa_Status pa) then Inl ErrAlreadyTerminal else Inr pa, s'))"

definition validate4Eyes :: "pending \<Rightarrow> string \<Rightarrow> CallerType \<Rightarrow> orch_error option" where
  "validate4Eyes pa approverID approverType =
     (if pa_EffectiveRequesterID pa = [] then Some ErrUnresolvedRequester
      else if approverType \<noteq> CallerHumanOperator then Some ErrApproverActorNotHuman
      else if pa_EffectiveRequesterID pa = approverID then Some ErrSelfApproval
      else None)"

definition add_body_fields :: "string list" where
  "add_body_fields = [''id'', ''github_org'', ''github_repo'', ''workspace_path'',
     ''slack_default_channel'', ''github_app_installation_id'']"

definition decode_add :: "json_text \<Rightarrow> string \<Rightarrow> gotime \<Rightarrow> project option" where
  "decode_add parse body now =
     do { j \<leftarrow> parse body;
          kvs \<leftarrow> members j;
          i \<leftarrow> str_field add_body_fields ''id'' kvs;
          org \<leftarrow> str_field add_body_fields ''github_org'' kvs;
          repo \<leftarrow> str_field add_body_fields ''github_repo'' kvs;
          path \<leftarrow> str_field add_body_fields ''workspace_path'' kvs;
          chan \<leftarrow> str_field add_body_fields ''slack_default_channel'' kvs;
          inst \<leftarrow> int_field add_body_fields ''github_app_installation_id'' kvs;
          Some \<lparr>pj_ID = i, pj_GitHubOrg = org, pj_GitHubRepo = repo, pj_WorkspacePath = path,
                pj_SlackDefaultChannel = chan, pj_GitHubAppInstallationID = inst,
                pj_Status = ProjectStatusActive, pj_CreatedAt = now, pj_ArchivedAt = None\<rparr> }"

definition decode_archive :: "json_text \<Rightarrow> string \<Rightarrow> string option" where
  "decode_archive parse body =
     do { j \<leftarrow> parse body;
          kvs \<leftarrow> members j;
          str_field [''id''] ''id'' kvs }"

definition applyAdd ::
  "('ps, 'rs) approval_ports \<Rightarrow> json_text \<Rightarrow> env_store \<Rightarrow> pending \<Rightarrow> ('ps, 'rs) admin_state \<Rightarrow>
   orch_error option \<times> ('ps, 'rs) admin_state" where
  "applyAdd P parse E pa s =
     (case decode_add parse (pa_BodyJSON pa) (es_now E) of
        None \<Rightarrow> (Some BadBody, s)
      | Some proj \<Rightarrow>
          (let r = ap_add P E proj (as_registry s)
           in (map_option ApplyFailed (sum_err (fst r)), s\<lparr>as_registry := snd r\<rparr>)))"

definition applyArchive ::
  "('ps, 'rs) approval_ports \<Rightarrow> json_text \<Rightarrow> env_store \<Rightarrow> pending \<Rightarrow> ('ps, 'rs) admin_state \<Rightarrow>
   orch_error option \<times> ('ps, 'rs) admin_state" where
  "applyArchive P parse E pa s =
     (case decode_archive parse (pa_BodyJSON pa) of
        None \<Rightarrow> (Some BadBody, s)
      | Some pid \<Rightarrow>
          (let r = ap_archive P E pid (as_registry s)
           in (map_option ApplyFailed (sum_err (fst r)), s\<lparr>as_registry := snd r\<rparr>)))"

definition apply_op ::
  "('ps, 'rs) approval_ports \<Rightarrow> json_text \<Rightarrow> env_store \<Rightarrow> pending \<Rightarrow> ('ps, 'rs) admin_state \<Rightarrow>
   orch_error option \<times> ('ps, 'rs) admin_state" where
  "apply_op P parse E pa s =
     (if pa_Op pa = PendingOpAdd then applyAdd P parse E pa s
      else if pa_Op pa = PendingOpArchive then applyArchive P parse E pa s
      else (Some (UnknownOp (pa_Op pa)), s))"

definition resolve ::
  "('ps, 'rs) approval_ports \<Rightarrow> env_store \<Rightarrow> string \<Rightarrow> PendingStatus \<Rightarrow> gotime option \<Rightarrow> ('ps, 'rs) admin_state \<Rightarrow>
   orch_error option \<times> ('ps, 'rs) admin_state" where
  "resolve P E key st at s =
     (let r = ap_transition P E key st at (as_pendings s)
      in (map_option TransitionFailed (fst r), s\<lparr>as_pendings := snd r\<rparr>))"

definition OnApprovalAck ::
  "('ps, 'rs) approval_ports \<Rightarrow> json_text \<Rightarrow> env_store \<Rightarrow> string \<Rightarrow> string \<Rightarrow> CallerType \<Rightarrow>
   ('ps, 'rs) admin_state \<Rightarrow> orch_error option \<times> ('ps, 'rs) admin_state" where
  "OnApprovalAck P parse E key approverID approverType s =
     (case fetchActive P E key s of
        (Inl e, s1) \<Rightarrow> (Some e, s1)
      | (Inr pa, s1) \<Rightarrow>
          (case validate4Eyes pa approverID approverType of
             Some e \<Rightarrow> (Some e, s1)
           | None \<Rightarrow>
               (case apply_op P parse E pa s1 of
                  (Some e, s2) \<Rightarrow> (Some e, s2)
                | (None, s2) \<Rightarrow> resolve P E key PendingStatusApprovedApplied (Some (es_now E)) s2)))"

definition OnApprovalDeny ::
  "('ps, 'rs) approval_ports \<Rightarrow> env_store \<Rightarrow> string \<Rightarrow> string \<Rightarrow> CallerType \<Rightarrow>
   ('ps, 'rs) admin_state \<Rightarrow> orch_error option \<times> ('ps, 'rs) admin_state" where
  "OnApprovalDeny P E key approverID approverType s =
     (case fetchActive P E key s of
        (Inl e, s1) \<Rightarrow> (Some e, s1)
      | (Inr pa, s1) \<Rightarrow>
          (if approverType \<noteq> CallerHumanOperator then (Some ErrApproverActorNotHuman, s1)
           else resolve P E key PendingStatusDenied None s1))"

definition OnApprovalTimeout ::
  "('ps, 'rs) approval_ports \<Rightarrow> env_store \<Rightarrow> string \<Rightarrow>
   ('ps, 'rs) admin_state \<Rightarrow> orch_error option \<times> ('ps, 'rs) admin_state" where
  "OnApprovalTimeout P E key s =
     (case fetchActive P E key s of
        (Inl e, s1) \<Rightarrow> (Some e, s1)
      | (Inr pa, s1) \<Rightarrow> resolve P E key PendingStatusTimeout None s1)"

section \<open>The two wirings\<close>

definition sqlite_ports :: "(pendings, registry) approval_ports" where
  "sqlite_ports =
     \<lparr>ap_fetch = sqlite_pending_Get, ap_transition = sqlite_Transition,
      ap_add = sqlite_Add, ap_archive = sqlite_Archive\<rparr>"

definition firestore_ports :: "(pendings, registry) approval_ports" where
  "firestore_ports =
     \<lparr>ap_fetch = firestore_pending_Get, ap_transition = firestore_Transition,
      ap_add = firestore_Add, ap_archive = firestore_Archive\<rparr>"

section \<open>The orchestrator over its contracts\<close>

text \<open>What a successful application did to the registry.\<close>

definition mutation_applied :: "json_text \<Rightarrow> pending \<Rightarrow> (string \<Rightarrow> project option) \<Rightarrow> bool" where
  "mutation_applied parse pa rf \<longleftrightarrow>
     (pa_Op pa = PendingOpAdd \<and>
        (\<exists>now proj. decode_add parse (pa_BodyJSON pa) now = Some proj \<and> rf (pj_ID proj) \<noteq> None)) \<or>
     (pa_Op pa = PendingOpArchive \<and>
        (\<exists>pid q. decode_archive parse (pa_BodyJSON pa) = Some pid \<and> rf pid = Some q \<and>
                 pj_Status q = ProjectStatusArchived))"

locale approval_backends =
  fixes P :: "('ps, 'rs) approval_ports"
    and create :: "env_store \<Rightarrow> pending \<Rightarrow> 'ps \<Rightarrow> (pending \<times> pending_error option) \<times> 'ps"
    and get :: "env_store \<Rightarrow> string \<Rightarrow> 'rs \<Rightarrow> (project_error + project) \<times> 'rs"
    and pfind :: "'ps \<Rightarrow> string \<Rightarrow> pending option"
    and rfind :: "'rs \<Rightarrow> string \<Rightarrow> project option"
  assumes pend: "pending_store create (ap_fetch P) (ap_transition P) pfind"
    and reg: "project_registry (ap_add P) get (ap_archive P) rfind"

sublocale approval_backends \<subseteq> pd: pending_store create "ap_fetch P" "ap_transition P" pfind
  by (rule pend)

sublocale approval_backends \<subseteq> rg: project_registry "ap_add P" get "ap_archive P" rfind
  by (rule reg)

context approval_backends
begin

lemma fetchActive_frame:
  "fetchActive P E key s = (r, s1) \<Longrightarrow>
     pfind (as_pendings s1) = pfind (as_pendings s) \<and> as_registry s1 = as_registry s"
  by (auto simp: fetchActive_def Let_def pd.fetch_find split: sum.splits)

lemma fetchActive_Inr:
  "fetchActive P E key s = (Inr pa, s1) \<Longrightarrow>
     pfind (as_pendings s) key = Some pa \<and> \<not> IsTerminal (pa_Status pa)"
  by (auto simp: fetchActive_def Let_def dest: pd.fetch_value split: sum.splits if_splits)

lemma apply_op_pendings: "apply_op P parse E pa s = (r, s1) \<Longrightarrow> as_pendings s1 = as_pendings s"
  by (auto simp: apply_op_def applyAdd_def applyArchive_def Let_def split: option.splits if_splits)

lemma resolve_registry: "resolve P E key st at s = (r, s1) \<Longrightarrow> as_registry s1 = as_registry s"
  by (auto simp: resolve_def Let_def)

lemma apply_op_applied:
  assumes "apply_op P parse E pa s = (None, s1)"
  shows "mutation_applied parse pa (rfind (as_registry s1))"
proof (cases "pa_Op pa = PendingOpAdd")
  case True
  with assms obtain proj where p: "decode_add parse (pa_BodyJSON pa) (es_now E) = Some proj"
    "is_ok (fst (ap_add P E proj (as_registry s)))" "as_registry s1 = snd (ap_add P E proj (as_registry s))"
    by (auto simp: apply_op_def applyAdd_def Let_def split: option.splits)
  from p(2) rg.add_ok[of E proj "as_registry s"] have "rfind (as_registry s1) (pj_ID proj) \<noteq> None"
    unfolding p(3) by (cases "fst (ap_add P E proj (as_registry s))") auto
  with True p(1) show ?thesis unfolding mutation_applied_def by blast
next
  case False
  with assms have op: "pa_Op pa = PendingOpArchive" by (simp add: apply_op_def split: if_splits)
  with assms False obtain pid where p: "decode_archive parse (pa_BodyJSON pa) = Some pid"
    "is_ok (fst (ap_archive P E pid (as_registry s)))" "as_registry s1 = snd (ap_archive P E pid (as_registry s))"
    by (auto simp: apply_op_def applyArchive_def Let_def split: option.splits)
  from p(2) rg.archive_ok[of E pid "as_registry s"] show ?thesis
    using op p(1) unfolding mutation_applied_def p(3) by (cases "fst (ap_archive P E pid (as_registry s))") auto
qed

text \<open>The three ways an approval can go.\<close>

lemma OnApprovalAck_cases:
  assumes "OnApprovalAck P parse E key approver aty s = (r, s')"
  obtains
    (stopped) e where "r = Some e" "pfind (as_pendings s') = pfind (as_pendings s)"
      "as_registry s' = as_registry s"
  | (not_applied) pa e where "pfind (as_pendings s) key = Some pa" "\<not> IsTerminal (pa_Status pa)"
      "validate4Eyes pa approver aty = None" "r = Some e"
      "pfind (as_pendings s') = pfind (as_pendings s)"
  | (went_through) pa where "pfind (as_pendings s) key = Some pa" "\<not> IsTerminal (pa_Status pa)"
      "validate4Eyes pa approver aty = None" "mutation_applied parse pa (rfind (as_registry s'))"
      "\<exists>ps. pfind ps = pfind (as_pendings s) \<and>
         (map_option TransitionFailed (fst (ap_transition P E key PendingStatusApprovedApplied (Some (es_now E)) ps)) = r \<and>
          as_pendings s' = snd (ap_transition P E key PendingStatusApprovedApplied (Some (es_now E)) ps))"
proof -
  obtain f s1 where f: "fetchActive P E key s = (f, s1)" by fastforce
  note fr = fetchActive_frame[OF f]
  show ?thesis
  proof (cases f)
    case (Inl e)
    with assms f fr show ?thesis using stopped by (auto simp: OnApprovalAck_def)
  next
    case (Inr pa)
    with f have pa: "pfind (as_pendings s) key = Some pa" "\<not> IsTerminal (pa_Status pa)"
      using fetchActive_Inr by auto
    show ?thesis
    proof (cases "validate4Eyes pa approver aty")
      case (Some e)
      with assms f Inr fr show ?thesis using stopped[of e] by (auto simp: OnApprovalAck_def)
    next
      case None
      obtain a s2 where a: "apply_op P parse E pa s1 = (a, s2)" by fastforce
      have ps: "as_pendings s2 = as_pendings s1" using apply_op_pendings[OF a] .
      show ?thesis
      proof (cases a)
        case (Some e)
        with assms f Inr None a have "r = Some e" "s' = s2" by (simp_all add: OnApprovalAck_def)
        with not_applied[OF pa None] ps fr show ?thesis by simp
      next
        case none: None
        with assms f Inr None a have res:
          "resolve P E key PendingStatusApprovedApplied (Some (es_now E)) s2 = (r, s')"
          by (simp add: OnApprovalAck_def)
        have "mutation_applied parse pa (rfind (as_registry s'))"
          using apply_op_applied a none resolve_registry[OF res] by simp
        moreover have "\<exists>ps. pfind ps = pfind (as_pendings s) \<and>
            (map_option TransitionFailed (fst (ap_transition P E key PendingStatusApprovedApplied (Some (es_now E)) ps)) = r \<and>
             as_pendings s' = snd (ap_transition P E key PendingStatusApprovedApplied (Some (es_now E)) ps))"
          using res ps fr by (intro exI[of _ "as_pendings s2"]) (auto simp: resolve_def Let_def)
        ultimately show ?thesis using went_through[OF pa None] by blast
      qed
    qed
  qed
qed

lemma ack_registry_guarded:
  assumes "OnApprovalAck P parse E key approver aty s = (r, s')"
    and "as_registry s' \<noteq> as_registry s"
  shows "\<exists>pa. pfind (as_pendings s) key = Some pa \<and> \<not> IsTerminal (pa_Status pa) \<and>
    pa_EffectiveRequesterID pa \<noteq> [] \<and> pa_EffectiveRequesterID pa \<noteq> approver \<and> aty = CallerHumanOperator"
  using assms(1)
proof (cases rule: OnApprovalAck_cases)
  case (stopped e)
  with assms(2) show ?thesis by simp
qed (auto simp: validate4Eyes_def split: if_splits)

lemma ack_status:
  assumes "OnApprovalAck P parse E key approver aty s = (r, s')"
    and "pfind (as_pendings s') k \<noteq> pfind (as_pendings s) k"
  shows "k = key \<and> (\<exists>pa pa'. pfind (as_pendings s) key = Some pa \<and> pfind (as_pendings s') key = Some pa' \<and>
    pa_Status pa' = PendingStatusApprovedApplied \<and> mutation_applied parse pa (rfind (as_registry s')))"
  using assms(1)
proof (cases rule: OnApprovalAck_cases)
  case (went_through pa)
  then obtain ps where ps: "pfind ps = pfind (as_pendings s)"
    "as_pendings s' = snd (ap_transition P E key PendingStatusApprovedApplied (Some (es_now E)) ps)" by blast
  show ?thesis
  proof (cases "pfind ps k")
    case None
    with pd.transition_none[of ps k] ps assms(2) show ?thesis by simp
  next
    case (Some p)
    from pd.transition_keeps[OF Some, of E key PendingStatusApprovedApplied "Some (es_now E)"]
    obtain p' where p': "pfind (as_pendings s') k = Some p'" "p' = p \<or> k = key \<and> pa_Status p' = PendingStatusApprovedApplied"
      using ps(2) by auto
    with assms(2) Some ps(1) went_through show ?thesis by auto
  qed
qed (use assms(2) in auto)

lemma ack_success:
  assumes "OnApprovalAck P parse E key approver aty s = (None, s')"
  shows "\<exists>pa pa'. pfind (as_pendings s) key = Some pa \<and> mutation_applied parse pa (rfind (as_registry s')) \<and>
    pfind (as_pendings s') key = Some pa' \<and> pa_Status pa' = PendingStatusApprovedApplied"
  using assms
proof (cases rule: OnApprovalAck_cases)
  case (went_through pa)
  then obtain ps where ps: "pfind ps = pfind (as_pendings s)"
    "fst (ap_transition P E key PendingStatusApprovedApplied (Some (es_now E)) ps) = None"
    "as_pendings s' = snd (ap_transition P E key PendingStatusApprovedApplied (Some (es_now E)) ps)" by auto
  from pd.transition_ok[OF ps(2)] ps(3) went_through show ?thesis by auto
qed simp_all

lemma deny_registry:
  "as_registry (snd (OnApprovalDeny P E key approver aty s)) = as_registry s"
  "as_registry (snd (OnApprovalTimeout P E key s)) = as_registry s"
  by (auto simp: OnApprovalDeny_def OnApprovalTimeout_def
      dest: fetchActive_frame resolve_registry split: prod.splits sum.splits
      intro: resolve_registry[OF prod.collapse[symmetric], THEN trans])

end

interpretation sqlite_flow: approval_backends sqlite_ports sqlite_CreateIfNotExists sqlite_Get row row
  by (rule approval_backends.intro)
     (simp_all add: sqlite_ports_def sqlite_pending.pending_store_axioms sqlite_reg.project_registry_axioms)

interpretation firestore_flow: approval_backends firestore_ports firestore_CreateIfNotExists
    firestore_Get row row
  by (rule approval_backends.intro)
     (simp_all add: firestore_ports_def firestore_pending.pending_store_axioms
        firestore_reg.project_registry_axioms)

end
