(* ===== verification/Rpc_Correct.thy ===== *)
theory Rpc_Correct
  imports Rpc_Http State_Factory Admin_Approval
begin

text \<open>
  What the JSON-RPC endpoint guarantees: every body gets one well-formed answer, nothing behind the
  endpoint can touch the project registry, a HIGH method records at most one pending request in the
  name of the authenticated operator, and resubmitting it is idempotent.
\<close>

section \<open>Envelope\<close>

lemma EncodeResponse_cases:
  "EncodeResponse r = Some r' \<Longrightarrow>
     rs_Result r' = rs_Result r \<and> rs_Error r' = rs_Error r \<and>
     rs_ID r' = (if rs_ID r = [] then null_text else rs_ID r) \<and>
     rs_JSONRPC r' = (if rs_JSONRPC r = [] then JSONRPCVersion else rs_JSONRPC r) \<and>
     (rs_Result r' = [] \<longleftrightarrow> rs_Error r' \<noteq> None)"
  by (auto simp: EncodeResponse_def Let_def split: if_splits)

lemma EncodeResponse_error [simp]:
  "EncodeResponse \<lparr>rs_JSONRPC = v, rs_Result = [], rs_Error = Some e, rs_ID = i\<rparr> =
     Some \<lparr>rs_JSONRPC = if v = [] then JSONRPCVersion else v, rs_Result = [], rs_Error = Some e,
           rs_ID = if i = [] then null_text else i\<rparr>"
  by (simp add: EncodeResponse_def)

lemma EncodeResponse_result [simp]:
  "txt \<noteq> [] \<Longrightarrow>
   EncodeResponse \<lparr>rs_JSONRPC = v, rs_Result = txt, rs_Error = None, rs_ID = i\<rparr> =
     Some \<lparr>rs_JSONRPC = if v = [] then JSONRPCVersion else v, rs_Result = txt, rs_Error = None,
           rs_ID = if i = [] then null_text else i\<rparr>"
  by (simp add: EncodeResponse_def)

lemma JSONRPCVersion_nonempty [simp]: "JSONRPCVersion \<noteq> []"
  by (simp add: JSONRPCVersion_def)

lemma ParseRequest_code:
  "ParseRequest C raw = Inl e \<Longrightarrow> er_Code e \<in> {CodeParseError, CodeInvalidRequest}"
  by (auto simp: ParseRequest_def rpc_err_def Let_def split: if_splits option.splits)

lemma ParseRequest_method:
  "ParseRequest C raw = Inr req \<Longrightarrow> rq_Method req \<noteq> []"
  by (auto simp: ParseRequest_def split: if_splits option.splits)

text \<open>What the answer to a body must be, and the state it leaves.\<close>

definition answer_ok ::
  "codec \<Rightarrow> ('r \<Rightarrow> string + string) \<Rightarrow> ('r, 's) dispatcher \<Rightarrow> operator option \<Rightarrow> string \<Rightarrow> 's \<Rightarrow>
   rpc_response \<Rightarrow> 's \<Rightarrow> bool" where
  "answer_ok C marshal d ctx raw s resp s' \<longleftrightarrow>
     (case ParseRequest C raw of
        Inl e \<Rightarrow>
          rs_ID resp = null_text \<and> s' = s \<and>
          (\<exists>x. rs_Error resp = Some x \<and> er_Code x \<in> {CodeParseError, CodeInvalidRequest})
      | Inr req \<Rightarrow>
          if rq_ID req = []
          then rs_ID resp = null_text \<and> s' = s \<and> (\<exists>x. rs_Error resp = Some x \<and> er_Code x = CodeInvalidRequest)
          else rs_ID resp = rq_ID req \<and>
            (case map_of d (rq_Method req) of
               None \<Rightarrow> s' = s \<and> (\<exists>x. rs_Error resp = Some x \<and> er_Code x = CodeMethodNotFound)
             | Some m \<Rightarrow>
                 s' = snd (m ctx (rq_Params req) s) \<and>
                 (case fst (m ctx (rq_Params req) s) of
                    Panics p \<Rightarrow> \<exists>x. rs_Error resp = Some x \<and> er_Code x = CodeInternalError
                  | Returns (Inl e) \<Rightarrow> rs_Error resp = Some e
                  | Returns (Inr v) \<Rightarrow>
                      (case marshal v of
                         Inl _ \<Rightarrow> \<exists>x. rs_Error resp = Some x \<and> er_Code x = CodeInternalError
                       | Inr txt \<Rightarrow> rs_Result resp = txt \<and> rs_Error resp = None))))"

text \<open>C28. The dispatcher answers every body, whatever the registered handlers do: it never fails to
  encode a response and never lets a panic through.  The answer carries version 2.0 and exactly one
  of a result and an error; its id is the request's, or null when the body is no request.  Each
  failure has its own code, a body that is refused runs no handler, and a notification (a request
  without an id) is refused without running the method.\<close>

theorem ServeRPC_answers:
  assumes "\<And>v txt. marshal v = Inr txt \<Longrightarrow> txt \<noteq> []"
  shows "\<exists>resp. fst (ServeRPC C marshal d ctx raw s) = Some resp \<and>
    rs_JSONRPC resp = JSONRPCVersion \<and> (rs_Result resp = [] \<longleftrightarrow> rs_Error resp \<noteq> None) \<and>
    answer_ok C marshal d ctx raw s resp (snd (ServeRPC C marshal d ctx raw s))"
proof (cases "ParseRequest C raw")
  case (Inl e)
  with ParseRequest_code[OF Inl] show ?thesis
    by (simp add: ServeRPC_def NewErrorResponse_def answer_ok_def rpc_err_def)
next
  case (Inr req)
  show ?thesis
  proof (cases "rq_ID req = [] \<or> map_of d (rq_Method req) = None")
    case True
    with Inr show ?thesis
      by (auto simp: ServeRPC_def NewErrorResponse_def answer_ok_def rpc_err_def IsNotification_def)
  next
    case False
    then obtain m where m: "map_of d (rq_Method req) = Some m" "rq_ID req \<noteq> []" by auto
    obtain r s' where r: "m ctx (rq_Params req) s = (r, s')" by fastforce
    consider (err) e where "r = Returns (Inl e)" | (ok) v where "r = Returns (Inr v)" | (panic) p where "r = Panics p"
      by (metis old.sum.exhaust outcome.exhaust)
    then show ?thesis
    proof cases
      case (ok v)
      with Inr m r assms[of v] show ?thesis
        by (cases "marshal v") (simp_all add: ServeRPC_def NewErrorResponse_def answer_ok_def rpc_err_def
            IsNotification_def invoke_def)
    qed (use Inr m r in \<open>simp_all add: ServeRPC_def NewErrorResponse_def answer_ok_def rpc_err_def
            IsNotification_def invoke_def\<close>)
  qed
qed

text \<open>A small codec for the examples: the text of each value is listed.\<close>

definition list_codec :: "(string \<times> json \<times> (string \<times> string) list) list \<Rightarrow> codec" where
  "list_codec table =
     \<lparr>jc_first = (\<lambda>raw. if map_of table raw = None then None else Some (raw, [])),
      jc_value = (\<lambda>txt. map_option fst (map_of table txt)),
      jc_members = (\<lambda>txt. case map_of table txt of None \<Rightarrow> [] | Some (_, kvs) \<Rightarrow> kvs),
      jc_any = (\<lambda>txt. map_option fst (map_of table txt)),
      jc_marshal = (\<lambda>v. case find (\<lambda>(_, w, _). w = v) table of None \<Rightarrow> ''?'' | Some (t, _) \<Rightarrow> t)\<rparr>"

definition sample_codec :: codec where
  "sample_codec = list_codec
     [(''R'', JObj [], [(''jsonrpc'', ''V''), (''method'', ''M''), (''id'', ''7'')]),
      (''V'', JStr ''2.0'', []), (''M'', JStr ''boom'', []), (''7'', JInt 7, [])]"

definition boom :: "(string, nat) rpc_method" where
  "boom ctx params s = (Panics ''nil'', Suc s)"

lemma sample_parse: "ParseRequest sample_codec ''R'' =
    Inr \<lparr>rq_Method = ''boom'', rq_Params = [], rq_ID = ''7''\<rparr>"
  by code_simp

lemma ServeRPC_answers_witness:
  "\<exists>resp. fst (ServeRPC sample_codec (\<lambda>v. Inr (''x'' @ v)) [(''boom'', boom)] None ''R'' 0) = Some resp \<and>
     rs_ID resp = ''7'' \<and> (\<exists>x. rs_Error resp = Some x \<and> er_Code x = CodeInternalError) \<and>
     snd (ServeRPC sample_codec (\<lambda>v. Inr (''x'' @ v)) [(''boom'', boom)] None ''R'' 0) = 1"
proof -
  have "\<exists>resp. fst (ServeRPC sample_codec (\<lambda>v. Inr (''x'' @ v)) [(''boom'', boom)] None ''R'' 0) = Some resp \<and>
    rs_JSONRPC resp = JSONRPCVersion \<and> (rs_Result resp = [] \<longleftrightarrow> rs_Error resp \<noteq> None) \<and>
    answer_ok sample_codec (\<lambda>v. Inr (''x'' @ v)) [(''boom'', boom)] None ''R'' 0 resp
      (snd (ServeRPC sample_codec (\<lambda>v. Inr (''x'' @ v)) [(''boom'', boom)] None ''R'' 0))"
    by (rule ServeRPC_answers) simp
  then show ?thesis
    by (auto simp: answer_ok_def sample_parse boom_def ServeRPC_def IsNotification_def invoke_def)
qed

section \<open>The production dispatcher\<close>

definition backend_registry :: "backend \<Rightarrow> registry_port" where
  "backend_registry b =
     (case b of
        SQLite _ \<Rightarrow> \<lparr>rg_Get = sqlite_Get, rg_List = sqlite_List\<rparr>
      | Firestore _ _ _ \<Rightarrow> \<lparr>rg_Get = firestore_Get, rg_List = firestore_List\<rparr>)"

definition backend_pending :: "backend \<Rightarrow> pending_port" where
  "backend_pending b =
     (case b of
        SQLite _ \<Rightarrow> \<lparr>pp_Create = sqlite_CreateIfNotExists, pp_Get = sqlite_pending_Get\<rparr>
      | Firestore _ _ _ \<Rightarrow> \<lparr>pp_Create = firestore_CreateIfNotExists, pp_Get = firestore_pending_Get\<rparr>)"

lemmas method_name_defs =
  MethodNameProjectGet_def MethodNameProjectList_def MethodNamePendingGet_def
  MethodNameProjectAdd_def MethodNameProjectArchive_def

lemma production_dispatcher_eq:
  "production_dispatcher cf R P =
     Some [(MethodNameProjectGet, ProjectGet_Handle cf (rg_Get R)),
           (MethodNameProjectList, ProjectList_Handle cf (rg_List R)),
           (MethodNamePendingGet, PendingGet_Handle cf (pp_Get P)),
           (MethodNameProjectAdd, ProjectAdd_Handle cf (pp_Create P)),
           (MethodNameProjectArchive, ProjectArchive_Handle cf (pp_Create P))]"
  by (simp add: production_dispatcher_def Register_def NewDispatcher_def method_name_defs)

text \<open>A pending request made by the method \<open>nm\<close> for the operator \<open>opr\<close>.\<close>

definition recorded_for :: "string \<Rightarrow> operator \<Rightarrow> string \<Rightarrow> pending \<Rightarrow> bool" where
  "recorded_for nm opr k p \<longleftrightarrow>
     pa_IdempotencyKey p = k \<and> pa_Status p = PendingStatusPendingApproval \<and>
     pa_EffectiveRequesterID p = op_OperatorID opr \<and> pa_RequesterActorType p = op_ActorType opr \<and>
     ((nm = MethodNameProjectAdd \<and> pa_Op p = PendingOpAdd) \<or>
      (nm = MethodNameProjectArchive \<and> pa_Op p = PendingOpArchive))"

locale rpc_backend = approval_backends P create get pfind rfind
  for P :: "(pendings, registry) approval_ports" and create get pfind rfind +
  fixes list_projects :: "env_store \<Rightarrow> string \<Rightarrow> registry \<Rightarrow> (project_error + project list) \<times> registry"
  assumes list_find: "rfind (snd (list_projects E f r)) = rfind r"
begin

text \<open>What a step of the endpoint may do to the two stores.\<close>

definition only_records :: "bool \<Rightarrow> operator option \<Rightarrow> string \<Rightarrow> rpc_state \<Rightarrow> rpc_state \<Rightarrow> bool" where
  "only_records high ctx nm s s' \<longleftrightarrow>
     rfind (rp_registry s') = rfind (rp_registry s) \<and>
     (\<forall>k. pfind (rp_pendings s') k = pfind (rp_pendings s) k \<or>
        (high \<and> pfind (rp_pendings s) k = None \<and>
         (\<exists>opr p. ctx = Some opr \<and> pfind (rp_pendings s') k = Some p \<and> recorded_for nm opr k p)))"

lemma only_records_refl: "only_records high ctx nm s s"
  by (simp add: only_records_def)

lemma createPending_only_records:
  assumes "nm = MethodNameProjectAdd \<and> pop = PendingOpAdd \<or> nm = MethodNameProjectArchive \<and> pop = PendingOpArchive"
  shows "only_records True (Some opr) nm s (snd (createPending cf create opr nm pop params s))"
proof (cases "ComputeIdempotencyKey (rc_codec cf) (rc_digest cf) (op_OperatorID opr) nm params")
  case None
  then show ?thesis by (simp add: createPending_def only_records_refl)
next
  case (Some key)
  let ?p0 = "\<lparr>pa_IdempotencyKey = key, pa_Op = pop, pa_BodyJSON = params,
               pa_EffectiveRequesterID = op_OperatorID opr, pa_RequesterActorType = op_ActorType opr,
               pa_CreatedAt = es_now (rc_env cf), pa_Status = PendingStatusPendingApproval, pa_AppliedAt = None\<rparr>"
  let ?s' = "snd (createPending cf create opr nm pop params s)"
  have ps: "rp_pendings ?s' = snd (create (rc_env cf) ?p0 (rp_pendings s))"
    and rg: "rp_registry ?s' = rp_registry s"
    using Some by (simp_all add: createPending_def publish_def Let_def split: option.split pending_error.split)
  have "pfind (rp_pendings ?s') k = pfind (rp_pendings s) k \<or>
    (pfind (rp_pendings s) k = None \<and> (\<exists>p. pfind (rp_pendings ?s') k = Some p \<and> recorded_for nm opr k p))" for k
  proof (cases "pfind (rp_pendings s) k")
    case (Some q)
    then show ?thesis using pd.create_keeps[OF Some] ps by simp
  next
    case none: None
    show ?thesis
    proof (cases "pfind (rp_pendings ?s') k")
      case (Some p)
      from pd.create_new[OF none Some[unfolded ps]] assms none Some show ?thesis
        by (auto simp: recorded_for_def same_request_def)
    qed (simp add: none)
  qed
  with rg show ?thesis by (simp add: only_records_def)
qed

lemma high_method_only_records:
  assumes "nm = MethodNameProjectAdd \<and> pop = PendingOpAdd \<or> nm = MethodNameProjectArchive \<and> pop = PendingOpArchive"
  shows "only_records (rc_highMutation cf) ctx nm s (snd (high_method decode nm pop cf create ctx params s))"
  using createPending_only_records[OF assms, of _ s cf params]
  by (simp add: high_method_def only_records_refl split: option.split)

lemma dispatched_only_records:
  assumes "production_dispatcher cf \<lparr>rg_Get = get, rg_List = list_projects\<rparr>
      \<lparr>pp_Create = create, pp_Get = ap_fetch P\<rparr> = Some d"
    and "map_of d nm = Some m"
  shows "only_records (rc_highMutation cf) ctx nm s (snd (m ctx params s))"
proof -
  from assms consider
      "m = ProjectGet_Handle cf get" | "m = ProjectList_Handle cf list_projects"
    | "m = PendingGet_Handle cf (ap_fetch P)"
    | "nm = MethodNameProjectAdd" "m = ProjectAdd_Handle cf create"
    | "nm = MethodNameProjectArchive" "m = ProjectArchive_Handle cf create"
    by (auto simp: production_dispatcher_eq split: if_splits)
  then show ?thesis
  proof cases
    case 1
    then show ?thesis
      by (simp add: ProjectGet_Handle_def only_records_def rg.get_find Let_def
          split: option.split sum.split project_error.split)
  next
    case 2
    then show ?thesis
      by (simp add: ProjectList_Handle_def only_records_def list_find Let_def split: option.split sum.split)
  next
    case 3
    then show ?thesis
      by (simp add: PendingGet_Handle_def only_records_def pd.fetch_find Let_def
          split: option.split sum.split pending_error.split)
  next
    case 4
    then show ?thesis using high_method_only_records by (simp add: ProjectAdd_Handle_def)
  next
    case 5
    then show ?thesis using high_method_only_records by (simp add: ProjectArchive_Handle_def)
  qed
qed

lemma served_only_records:
  assumes "production_dispatcher cf \<lparr>rg_Get = get, rg_List = list_projects\<rparr>
      \<lparr>pp_Create = create, pp_Get = ap_fetch P\<rparr> = Some d"
  shows "\<exists>nm. only_records (rc_highMutation cf) ctx nm s (snd (ServeRPC C marshal d ctx raw s))"
proof (cases "ParseRequest C raw")
  case (Inl e)
  then show ?thesis by (simp add: ServeRPC_def only_records_refl)
next
  case (Inr req)
  show ?thesis
  proof (cases "rq_ID req = [] \<or> map_of d (rq_Method req) = None")
    case True
    with Inr show ?thesis by (auto simp: ServeRPC_def IsNotification_def only_records_refl)
  next
    case False
    then obtain m where m: "map_of d (rq_Method req) = Some m" "rq_ID req \<noteq> []" by auto
    have "snd (ServeRPC C marshal d ctx raw s) = snd (m ctx (rq_Params req) s)"
      using Inr m by (simp add: ServeRPC_def IsNotification_def invoke_def
          split: prod.splits outcome.splits sum.splits)
    with dispatched_only_records[OF assms m(1)] show ?thesis by metis
  qed
qed

end

interpretation sqlite_rpc: rpc_backend sqlite_ports sqlite_CreateIfNotExists sqlite_Get row row sqlite_List
  by unfold_locales (simp add: sqlite_List_def svc_reads)

interpretation firestore_rpc: rpc_backend firestore_ports firestore_CreateIfNotExists firestore_Get row row
    firestore_List
  by unfold_locales (simp add: firestore_List_def svc_reads)

section \<open>Authentication\<close>

lemma load_tokens_Inr:
  "load_tokens i es seen acc = Inr reg \<Longrightarrow>
     distinct (map te_OperatorID es) \<and> set seen \<inter> te_OperatorID ` set es = {} \<and>
     distinct (map te_TokenHash es) \<and> (\<forall>e \<in> set es. map_of acc (te_TokenHash e) = None) \<and>
     list_all (\<lambda>e. te_OperatorID e \<noteq> [] \<and> isLowerHex64 (te_TokenHash e)) es \<and>
     (\<forall>h opr. map_of reg h = Some opr \<longleftrightarrow>
        map_of acc h = Some opr \<or>
        (\<exists>e \<in> set es. te_TokenHash e = h \<and>
           opr = \<lparr>op_OperatorID = te_OperatorID e, op_Email = te_Email e, op_ActorType = ActorTypeHumanOperator\<rparr>))"
proof (induction es arbitrary: i seen acc)
  case (Cons e es)
  let ?opr = "\<lparr>op_OperatorID = te_OperatorID e, op_Email = te_Email e, op_ActorType = ActorTypeHumanOperator\<rparr>"
  from Cons.prems have here: "te_OperatorID e \<noteq> []" "isLowerHex64 (te_TokenHash e)"
    "te_OperatorID e \<notin> set seen" "map_of acc (te_TokenHash e) = None"
    and rest: "load_tokens (Suc i) es (te_OperatorID e # seen) (AList.update (te_TokenHash e) ?opr acc) = Inr reg"
    by (simp_all add: NewOperator_def split: if_splits)
  note ih = Cons.IH[OF rest]
  have ids: "set seen \<inter> te_OperatorID ` set (e # es) = {}" "distinct (map te_OperatorID (e # es))"
    using ih here by auto
  have fresh: "\<forall>x \<in> set es. ((map_of acc)(te_TokenHash e \<mapsto> ?opr)) (te_TokenHash x) = None"
    using ih by (simp add: update_conv')
  then have "\<forall>x \<in> set es. te_TokenHash x \<noteq> te_TokenHash e \<and> map_of acc (te_TokenHash x) = None"
    by (metis fun_upd_apply option.distinct(1))
  with ih here have hashes: "\<forall>x \<in> set (e # es). map_of acc (te_TokenHash x) = None"
    "distinct (map te_TokenHash (e # es))" by auto
  have "map_of reg h = Some opr \<longleftrightarrow> map_of acc h = Some opr \<or>
        (\<exists>x \<in> set (e # es). te_TokenHash x = h \<and>
           opr = \<lparr>op_OperatorID = te_OperatorID x, op_Email = te_Email x, op_ActorType = ActorTypeHumanOperator\<rparr>)"
    for h opr
    using ih here(4) by (simp add: update_conv' map_upd_Some_unfold) fastforce
  with ids hashes here(1,2) ih show ?case by simp
qed simp

text \<open>C29. A token file that is accepted identifies people one to one: operator ids and token hashes are
  all different and non-empty, the hashes are 64 lower-case hex digits, a submitted token resolves
  exactly when the file lists its hash, and then to the operator of that entry, always with the actor
  type human.  An empty file is refused, so no deployment runs with an endpoint that nobody or anybody
  can use.\<close>

theorem token_registry_one_to_one:
  assumes "LoadAdminTokensRegistry read_yaml path = Inr reg"
  shows "\<exists>tokens. read_yaml path = Some tokens \<and> tokens \<noteq> [] \<and>
    distinct (map te_OperatorID tokens) \<and> distinct (map te_TokenHash tokens) \<and>
    list_all (\<lambda>e. te_OperatorID e \<noteq> [] \<and> isLowerHex64 (te_TokenHash e)) tokens \<and>
    (\<forall>token opr. Lookup sha256_hex reg token = Some opr \<longleftrightarrow>
       (\<exists>e \<in> set tokens. te_TokenHash e = sha256_hex token \<and>
          opr = \<lparr>op_OperatorID = te_OperatorID e, op_Email = te_Email e, op_ActorType = ActorTypeHumanOperator\<rparr>))"
proof -
  from assms obtain tokens where t: "read_yaml path = Some tokens" "tokens \<noteq> []"
    "load_tokens 0 tokens [] [] = Inr reg"
    by (auto simp: LoadAdminTokensRegistry_def split: option.splits if_splits)
  from load_tokens_Inr[OF t(3)] t(1,2) show ?thesis by (intro exI[of _ tokens]) (simp add: Lookup_def)
qed

definition alice_hash :: string where "alice_hash = replicate 64 (CHR 0x61)"
definition bob_hash :: string where "bob_hash = replicate 64 (CHR 0x62)"

definition sample_tokens :: "string \<Rightarrow> token_entry list option" where
  "sample_tokens path =
     Some [\<lparr>te_OperatorID = ''UA'', te_TokenHash = alice_hash, te_Email = []\<rparr>,
           \<lparr>te_OperatorID = ''UB'', te_TokenHash = bob_hash, te_Email = []\<rparr>]"

definition sample_sha :: "string \<Rightarrow> string" where
  "sample_sha t = (if t = ''tokA'' then alice_hash else if t = ''tokB'' then bob_hash else [])"

definition sample_registry :: token_registry where
  "sample_registry =
     [(alice_hash, \<lparr>op_OperatorID = ''UA'', op_Email = [], op_ActorType = ActorTypeHumanOperator\<rparr>),
      (bob_hash, \<lparr>op_OperatorID = ''UB'', op_Email = [], op_ActorType = ActorTypeHumanOperator\<rparr>)]"

lemma sample_hashes: "isLowerHex64 alice_hash" "isLowerHex64 bob_hash" "alice_hash \<noteq> bob_hash"
  by (simp_all add: isLowerHex64_def alice_hash_def bob_hash_def replicate_eq_replicate list_all_iff)

lemma sample_loaded: "LoadAdminTokensRegistry sample_tokens path = Inr sample_registry"
  using sample_hashes
  by (simp add: LoadAdminTokensRegistry_def sample_tokens_def NewOperator_def sample_registry_def)

lemma token_registry_one_to_one_witness:
  "\<exists>tokens. sample_tokens ''f'' = Some tokens \<and> distinct (map te_OperatorID tokens) \<and>
     (\<exists>e \<in> set tokens. te_TokenHash e = sample_sha ''tokA'' \<and> te_OperatorID e = ''UA'')"
proof -
  have "Lookup sample_sha sample_registry ''tokA'' =
      Some \<lparr>op_OperatorID = ''UA'', op_Email = [], op_ActorType = ActorTypeHumanOperator\<rparr>"
    by (simp add: Lookup_def sample_sha_def sample_registry_def)
  moreover obtain tokens where t: "sample_tokens ''f'' = Some tokens" "distinct (map te_OperatorID tokens)"
    "\<forall>token opr. Lookup sample_sha sample_registry token = Some opr \<longleftrightarrow>
       (\<exists>e \<in> set tokens. te_TokenHash e = sample_sha token \<and>
          opr = \<lparr>op_OperatorID = te_OperatorID e, op_Email = te_Email e, op_ActorType = ActorTypeHumanOperator\<rparr>)"
    using token_registry_one_to_one[OF sample_loaded, of "''f''" sample_sha] by (elim exE conjE)
  ultimately obtain e where "e \<in> set tokens" "te_TokenHash e = sample_sha ''tokA''"
    "\<lparr>op_OperatorID = ''UA'', op_Email = [], op_ActorType = ActorTypeHumanOperator\<rparr> =
     \<lparr>op_OperatorID = te_OperatorID e, op_Email = te_Email e, op_ActorType = ActorTypeHumanOperator\<rparr>"
    by blast
  with t(1,2) show ?thesis by (intro exI[of _ tokens] conjI bexI[of _ e]) simp_all
qed

lemma rpc_ServeHTTP_cases:
  assumes "rpc_ServeHTTP sha mp transport reg r s = (resp, s')"
  obtains (refused) "s' = s" "\<nexists>a. resp = HttpOK a"
  | (served) opr where "hq_Method r = ''POST''" "isJSONContentType mp (hq_ContentType r)"
      "authenticate sha reg r = Some opr" "length (hq_Body r) \<le> maxRequestBodyBytes"
      "transport (Some opr) (hq_Body r) s = (case resp of HttpOK a \<Rightarrow> Some a | _ \<Rightarrow> None, s')"
proof -
  have "(s' = s \<and> (\<nexists>a. resp = HttpOK a)) \<or>
    (\<exists>opr. hq_Method r = ''POST'' \<and> isJSONContentType mp (hq_ContentType r) \<and>
      authenticate sha reg r = Some opr \<and> length (hq_Body r) \<le> maxRequestBodyBytes \<and>
      transport (Some opr) (hq_Body r) s = (case resp of HttpOK a \<Rightarrow> Some a | _ \<Rightarrow> None, s'))"
    using assms by (auto simp: rpc_ServeHTTP_def read_limited_def
        split: if_splits option.splits prod.splits)
  with refused served show ?thesis by blast
qed

section \<open>Any sequence of requests\<close>

record rpc_host =
  rh_codec :: codec
  rh_digest :: "string \<Rightarrow> string"
  rh_sha :: "string \<Rightarrow> string"
  rh_media :: "string \<Rightarrow> string option"
  rh_marshal :: "method_result \<Rightarrow> string + string"
  rh_yaml :: "string \<Rightarrow> token_entry list option"

text \<open>\<open>POST /rpc\<close> of a server; without the endpoint the mux answers 404 and nothing happens.\<close>

definition post_rpc :: "rpc_host \<Rightarrow> rpc_wiring \<Rightarrow> env_store \<Rightarrow> http_request \<Rightarrow> rpc_state \<Rightarrow> http_response \<times> rpc_state" where
  "post_rpc H cfg E r s =
     (case wireRPCEndpoint (rh_codec H) (rh_digest H) (rh_yaml H) cfg E of
        Some (Wired d reg) \<Rightarrow>
          rpc_ServeHTTP (rh_sha H) (rh_media H) (ServeRPC (rh_codec H) (rh_marshal H) d) reg r s
      | _ \<Rightarrow> (HttpError 404 ''404 page not found'', s))"

fun rpc_session :: "rpc_host \<Rightarrow> rpc_wiring \<Rightarrow> (env_store \<times> http_request) list \<Rightarrow> rpc_state \<Rightarrow> rpc_state" where
  "rpc_session H cfg [] s = s"
| "rpc_session H cfg ((E, r) # rs) s = rpc_session H cfg rs (snd (post_rpc H cfg E r s))"

text \<open>The pending request \<open>p\<close> stands under \<open>k\<close> in the name of the operator whose token one of the
  requests carries.\<close>

definition requested :: "rpc_host \<Rightarrow> rpc_wiring \<Rightarrow> http_request set \<Rightarrow> string \<Rightarrow> pending \<Rightarrow> bool" where
  "requested H cfg rs k p \<longleftrightarrow>
     (\<exists>tokens. rh_yaml H (wc_registryPath cfg) = Some tokens \<and>
        (\<exists>e \<in> set tokens. \<exists>r \<in> rs. \<exists>token.
           parseStrictBearer (hq_Authorization r) = Some token \<and> te_TokenHash e = rh_sha H token \<and>
           pa_EffectiveRequesterID p = te_OperatorID e)) \<and>
     pa_RequesterActorType p = ActorTypeHumanOperator \<and> pa_IdempotencyKey p = k \<and>
     pa_Status p = PendingStatusPendingApproval \<and> pa_Op p \<in> {PendingOpAdd, PendingOpArchive}"

lemma requested_mono: "requested H cfg rs k p \<Longrightarrow> rs \<subseteq> rs' \<Longrightarrow> requested H cfg rs' k p"
  by (fastforce simp: requested_def)

lemma authenticated_operator:
  assumes "LoadAdminTokensRegistry read_yaml path = Inr reg" "authenticate sha reg r = Some opr"
  shows "op_ActorType opr = ActorTypeHumanOperator \<and>
    (\<exists>tokens. read_yaml path = Some tokens \<and> (\<exists>e \<in> set tokens. \<exists>token.
       parseStrictBearer (hq_Authorization r) = Some token \<and> te_TokenHash e = sha token \<and>
       op_OperatorID opr = te_OperatorID e))"
proof -
  from assms(1) obtain tokens where t: "read_yaml path = Some tokens" "load_tokens 0 tokens [] [] = Inr reg"
    by (auto simp: LoadAdminTokensRegistry_def split: option.splits if_splits)
  from assms(2) obtain token where k: "parseStrictBearer (hq_Authorization r) = Some token"
    "map_of reg (sha token) = Some opr"
    by (auto simp: authenticate_def Lookup_def split: option.splits)
  from load_tokens_Inr[OF t(2)] k(2) obtain e where "e \<in> set tokens" "te_TokenHash e = sha token"
    "opr = \<lparr>op_OperatorID = te_OperatorID e, op_Email = te_Email e, op_ActorType = ActorTypeHumanOperator\<rparr>"
    by auto
  with t(1) k(1) show ?thesis by auto
qed

context rpc_backend
begin

definition grown :: "rpc_host \<Rightarrow> rpc_wiring \<Rightarrow> http_request set \<Rightarrow> rpc_state \<Rightarrow> rpc_state \<Rightarrow> bool" where
  "grown H cfg rs s s' \<longleftrightarrow>
     rfind (rp_registry s') = rfind (rp_registry s) \<and>
     (\<forall>k. pfind (rp_pendings s') k = pfind (rp_pendings s) k \<or>
        (wc_highMutationEnabled cfg \<and> pfind (rp_pendings s) k = None \<and>
         (\<exists>p. pfind (rp_pendings s') k = Some p \<and> requested H cfg rs k p)))"

lemma post_grown:
  assumes "wc_projectRegistry cfg = Some \<lparr>rg_Get = get, rg_List = list_projects\<rparr>"
    and "wc_pendingStore cfg = Some \<lparr>pp_Create = create, pp_Get = ap_fetch P\<rparr>"
  shows "grown H cfg {r} s (snd (post_rpc H cfg E r s))"
proof (cases "\<exists>d reg. wireRPCEndpoint (rh_codec H) (rh_digest H) (rh_yaml H) cfg E = Some (Wired d reg)")
  case False
  then have "snd (post_rpc H cfg E r s) = s"
    by (auto simp: post_rpc_def split: option.split wiring.split)
  then show ?thesis by (simp add: grown_def)
next
  case True
  then obtain d reg where w: "wireRPCEndpoint (rh_codec H) (rh_digest H) (rh_yaml H) cfg E = Some (Wired d reg)"
    by blast
  let ?cf = "\<lparr>rc_codec = rh_codec H, rc_digest = rh_digest H, rc_env = E,
              rc_highMutation = wc_highMutationEnabled cfg, rc_publish = wc_hasApprovalRequester cfg\<rparr>"
  from w assms have load: "LoadAdminTokensRegistry (rh_yaml H) (wc_registryPath cfg) = Inr reg"
    and d: "production_dispatcher ?cf \<lparr>rg_Get = get, rg_List = list_projects\<rparr>
              \<lparr>pp_Create = create, pp_Get = ap_fetch P\<rparr> = Some d"
    by (auto simp: wireRPCEndpoint_def split: if_splits sum.splits)
  obtain resp s' where h: "rpc_ServeHTTP (rh_sha H) (rh_media H) (ServeRPC (rh_codec H) (rh_marshal H) d) reg r s =
      (resp, s')" by fastforce
  with w have s': "snd (post_rpc H cfg E r s) = s'" by (simp add: post_rpc_def)
  from h show ?thesis
  proof (cases rule: rpc_ServeHTTP_cases)
    case refused
    with s' show ?thesis by (simp add: grown_def)
  next
    case (served opr)
    from served(5) have "snd (ServeRPC (rh_codec H) (rh_marshal H) d (Some opr) (hq_Body r) s) = s'" by simp
    with served_only_records[OF d, of "Some opr" s "rh_codec H" "rh_marshal H" "hq_Body r"]
    obtain nm where "only_records (wc_highMutationEnabled cfg) (Some opr) nm s s'" by auto
    with authenticated_operator[OF load served(3)] show ?thesis
      unfolding s' by (fastforce simp: grown_def only_records_def recorded_for_def requested_def)
  qed
qed

lemma session_grown:
  assumes "wc_projectRegistry cfg = Some \<lparr>rg_Get = get, rg_List = list_projects\<rparr>"
    and "wc_pendingStore cfg = Some \<lparr>pp_Create = create, pp_Get = ap_fetch P\<rparr>"
  shows "grown H cfg (snd ` set rs) s (rpc_session H cfg rs s)"
proof (induction rs arbitrary: s)
  case Nil
  show ?case by (simp add: grown_def)
next
  case (Cons er rs)
  obtain E r where er: "er = (E, r)" by (cases er)
  let ?s1 = "snd (post_rpc H cfg E r s)"
  note one = post_grown[OF assms, of H r s E]
  note rest = Cons.IH[of ?s1]
  show ?case
    unfolding er rpc_session.simps grown_def
  proof (intro conjI allI)
    show "rfind (rp_registry (rpc_session H cfg rs ?s1)) = rfind (rp_registry s)"
      using one rest by (simp add: grown_def)
  next
    fix k
    from one rest show "pfind (rp_pendings (rpc_session H cfg rs ?s1)) k = pfind (rp_pendings s) k \<or>
        wc_highMutationEnabled cfg \<and> pfind (rp_pendings s) k = None \<and>
         (\<exists>p. pfind (rp_pendings (rpc_session H cfg rs ?s1)) k = Some p \<and>
              requested H cfg (snd ` set ((E, r) # rs)) k p)"
      unfolding grown_def
      by (metis (no_types, lifting) requested_mono[of H cfg "{r}" k _ "snd ` set ((E, r) # rs)"]
          requested_mono[of H cfg "snd ` set rs" k _ "snd ` set ((E, r) # rs)"]
          image_insert insertI1 list.simps(15) option.distinct(1) singletonD snd_conv subsetI subset_insertI)
  qed
qed

end

lemma backend_ports:
  "backend_registry (SQLite p) = \<lparr>rg_Get = sqlite_Get, rg_List = sqlite_List\<rparr>"
  "backend_registry (Firestore p d c) = \<lparr>rg_Get = firestore_Get, rg_List = firestore_List\<rparr>"
  "backend_pending (SQLite p) = \<lparr>pp_Create = sqlite_CreateIfNotExists, pp_Get = ap_fetch sqlite_ports\<rparr>"
  "backend_pending (Firestore p d c) =
     \<lparr>pp_Create = firestore_CreateIfNotExists, pp_Get = ap_fetch firestore_ports\<rparr>"
  by (simp_all add: backend_registry_def backend_pending_def sqlite_ports_def firestore_ports_def)

text \<open>C14. No sequence of HTTP requests to the JSON-RPC endpoint, by whomever and with whatever failures
  of the database, changes a project: the registry is exactly what it was.  No existing pending
  request is changed or resolved either.  All the endpoint can do is record new pending requests, only
  when HIGH mutations are enabled, each open, for an add or an archive, and in the name of an operator
  of the token file whose token came with one of the requests.\<close>

theorem rpc_only_records_requests:
  assumes "wc_projectRegistry cfg = Some (backend_registry b)"
    and "wc_pendingStore cfg = Some (backend_pending b)"
    and "rpc_session H cfg reqs s = s'"
  shows "row (rp_registry s') = row (rp_registry s) \<and>
    (\<forall>k. row (rp_pendings s') k = row (rp_pendings s) k \<or>
       (wc_highMutationEnabled cfg \<and> row (rp_pendings s) k = None \<and>
        (\<exists>p. row (rp_pendings s') k = Some p \<and> requested H cfg (snd ` set reqs) k p)))"
proof (cases b)
  case (SQLite p)
  from sqlite_rpc.session_grown[OF assms(1,2)[unfolded SQLite backend_ports], of H reqs s] assms(3)
  show ?thesis by (simp add: sqlite_rpc.grown_def)
next
  case (Firestore p d c)
  from firestore_rpc.session_grown[OF assms(1,2)[unfolded Firestore backend_ports], of H reqs s] assms(3)
  show ?thesis by (simp add: firestore_rpc.grown_def)
qed

section \<open>A run of the endpoint\<close>

definition add_codec :: codec where
  "add_codec = list_codec
     [(''R'', JObj [], [(''jsonrpc'', ''V''), (''method'', ''M''), (''params'', ''P''), (''id'', ''7'')]),
      (''V'', JStr ''2.0'', []), (''M'', JStr MethodNameProjectAdd, []), (''7'', JInt 7, []),
      (''P'', JObj [(''id'', JStr ''web'')], [(''id'', ''I'')]), (''I'', JStr ''web'', [])]"

definition sample_rpc_host :: rpc_host where
  "sample_rpc_host =
     \<lparr>rh_codec = add_codec, rh_digest = (\<lambda>t. t), rh_sha = sample_sha, rh_media = (\<lambda>h. Some h),
      rh_marshal = (\<lambda>_. Inr ''{}''), rh_yaml = sample_tokens\<rparr>"

definition sample_wiring :: rpc_wiring where
  "sample_wiring =
     \<lparr>wc_flagEnabled = True, wc_registryPath = ''f'',
      wc_projectRegistry = Some (backend_registry (SQLite ''db'')),
      wc_pendingStore = Some (backend_pending (SQLite ''db'')),
      wc_highMutationEnabled = True, wc_hasApprovalRequester = True\<rparr>"

definition add_request :: http_request where
  "add_request =
     \<lparr>hq_Method = ''POST'', hq_ContentType = ''application/json'', hq_Authorization = ''Bearer tokA'',
      hq_Body = ''R'', hq_BodyFails = False\<rparr>"

definition calm_env :: env_store where
  "calm_env = \<lparr>es_faults = (\<lambda>_. Fine), es_now = 5 * second\<rparr>"

definition empty_rpc_state :: rpc_state where
  "empty_rpc_state = \<lparr>rp_registry = empty_table, rp_pendings = empty_table, rp_posted = []\<rparr>"

definition add_key :: string where
  "add_key = ''UA'' @ [CHR 0x00] @ MethodNameProjectAdd @ [CHR 0x00] @ ''P''"

lemma add_parse: "ParseRequest add_codec ''R'' =
    Inr \<lparr>rq_Method = MethodNameProjectAdd, rq_Params = ''P'', rq_ID = ''7''\<rparr>"
  by code_simp

lemma add_decode: "decode_add_params add_codec ''P'' = Some ''web''"
  by code_simp

lemma add_ident: "ComputeIdempotencyKey add_codec (\<lambda>t. t) ''UA'' MethodNameProjectAdd ''P'' = Some add_key"
  by code_simp

lemma add_bearer: "parseStrictBearer ''Bearer tokA'' = Some ''tokA''"
  by code_simp

lemma add_authenticated:
  "authenticate sample_sha sample_registry add_request =
     Some \<lparr>op_OperatorID = ''UA'', op_Email = [], op_ActorType = ActorTypeHumanOperator\<rparr>"
  by (simp add: authenticate_def add_request_def add_bearer Lookup_def sample_sha_def sample_registry_def)

lemma sample_lower: "lower ''application/json'' = ''application/json''"
  by code_simp

definition add_pending :: pending where
  "add_pending =
     \<lparr>pa_IdempotencyKey = add_key, pa_Op = PendingOpAdd, pa_BodyJSON = ''P'',
      pa_EffectiveRequesterID = ''UA'', pa_RequesterActorType = ActorTypeHumanOperator,
      pa_CreatedAt = 5 * second, pa_Status = PendingStatusPendingApproval, pa_AppliedAt = None\<rparr>"

definition added_state :: rpc_state where
  "added_state =
     \<lparr>rp_registry = empty_table,
      rp_pendings = \<lparr>rows = [(add_key, add_pending)], ncalls = 1\<rparr>,
      rp_posted = [Posted MethodNameProjectAdd (buildAdminApprovalDMail MethodNameProjectAdd add_pending)]\<rparr>"

lemma add_created:
  "createPending \<lparr>rc_codec = add_codec, rc_digest = (\<lambda>t. t), rc_env = calm_env, rc_highMutation = True,
       rc_publish = True\<rparr> sqlite_CreateIfNotExists
       \<lparr>op_OperatorID = ''UA'', op_Email = [], op_ActorType = ActorTypeHumanOperator\<rparr>
       MethodNameProjectAdd PendingOpAdd ''P'' empty_rpc_state =
     (Returns (Inr (ResCreated add_key PendingStatusPendingApproval)), added_state)"
  by (simp add: createPending_def add_ident sqlite_CreateIfNotExists_def with_defaults_def calm_env_def
      empty_rpc_state_def empty_table_def svc_def checked_def row_create_def valid_status_def
      added_state_def add_pending_def publish_def Let_def sqlite_time_def second_def add_key_def)

lemma add_session:
  "rpc_session sample_rpc_host sample_wiring [(calm_env, add_request)] empty_rpc_state = added_state"
proof -
  have "high_method decode_add_params MethodNameProjectAdd PendingOpAdd
      \<lparr>rc_codec = add_codec, rc_digest = (\<lambda>t. t), rc_env = calm_env, rc_highMutation = True, rc_publish = True\<rparr>
      sqlite_CreateIfNotExists
      (Some \<lparr>op_OperatorID = ''UA'', op_Email = [], op_ActorType = ActorTypeHumanOperator\<rparr>) ''P'' empty_rpc_state =
     (Returns (Inr (ResCreated add_key PendingStatusPendingApproval)), added_state)"
    by (simp add: high_method_def add_decode add_created)
  moreover have "hq_Method add_request = ''POST''" "hq_ContentType add_request = ''application/json''"
    "hq_Body add_request = ''R''" "hq_BodyFails add_request = False"
    by (simp_all add: add_request_def)
  ultimately show ?thesis
    by (simp add: post_rpc_def wireRPCEndpoint_def sample_rpc_host_def sample_wiring_def sample_loaded
        production_dispatcher_eq backend_ports rpc_ServeHTTP_def isJSONContentType_def sample_lower
        add_authenticated read_limited_def maxRequestBodyBytes_def ServeRPC_def add_parse IsNotification_def
        invoke_def ProjectAdd_Handle_def method_name_defs)
qed

lemma rpc_only_records_requests_witness:
  "row (rp_registry added_state) = row (rp_registry empty_rpc_state) \<and>
   (\<exists>p. row (rp_pendings added_state) add_key = Some p \<and>
        requested sample_rpc_host sample_wiring {add_request} add_key p)"
proof -
  have "wc_projectRegistry sample_wiring = Some (backend_registry (SQLite ''db''))"
    "wc_pendingStore sample_wiring = Some (backend_pending (SQLite ''db''))"
    by (simp_all add: sample_wiring_def)
  from rpc_only_records_requests[OF this add_session] have
    "row (rp_registry added_state) = row (rp_registry empty_rpc_state)"
    "row (rp_pendings added_state) add_key = row (rp_pendings empty_rpc_state) add_key \<or>
      (\<exists>p. row (rp_pendings added_state) add_key = Some p \<and>
        requested sample_rpc_host sample_wiring (snd ` set [(calm_env, add_request)]) add_key p)"
    by blast+
  then show ?thesis by (simp add: added_state_def empty_rpc_state_def empty_table_def)
qed

end
