(* ===== verification/Slack_Buttons.thy ===== *)
theory Slack_Buttons
  imports Approval_Domain Dmail Go_Json Runops
begin

text \<open>
  What travels inside a Slack button: the three payloads
  (\<open>actionValue\<close> of \<open>internal/adapter/input/slack/handler.go\<close>, \<open>approval_action.go\<close>,
  \<open>dispatch_action.go\<close>), the transport encoding they share, and the two places that build such
  payloads from domain values (\<open>approval_requester.go\<close> of the output side and
  \<open>command.go\<close>).  JSON text, gzip and base64 are the record \<open>slack_codec\<close>.
\<close>

section \<open>Transport\<close>

record slack_codec =
  sl_parse :: json_text
  sl_marshal :: "json \<Rightarrow> string"
  sl_deflate :: "string \<Rightarrow> string"
  sl_inflate :: "string \<Rightarrow> string option"

definition gz_prefix :: string where "gz_prefix = ''gz:''"

definition CompressButtonValue :: "slack_codec \<Rightarrow> string \<Rightarrow> string" where
  "CompressButtonValue C s = gz_prefix @ sl_deflate C s"

definition decodeButtonValue :: "slack_codec \<Rightarrow> string \<Rightarrow> string option" where
  "decodeButtonValue C s =
     (if \<not> prefix gz_prefix s then Some s else sl_inflate C (drop 3 s))"

text \<open>What the code relies on for a value: inflating what was deflated, and parsing what was
  marshalled, give it back.\<close>

definition codec_returns :: "slack_codec \<Rightarrow> json \<Rightarrow> bool" where
  "codec_returns C v \<longleftrightarrow>
     sl_inflate C (sl_deflate C (sl_marshal C v)) = Some (sl_marshal C v) \<and>
     sl_parse C (sl_marshal C v) = Some v"

lemma decode_compress:
  "codec_returns C v \<Longrightarrow>
     decodeButtonValue C (CompressButtonValue C (sl_marshal C v)) = Some (sl_marshal C v)"
  by (simp add: decodeButtonValue_def CompressButtonValue_def codec_returns_def gz_prefix_def)

definition button_members :: "slack_codec \<Rightarrow> string \<Rightarrow> (string \<times> json) list option" where
  "button_members C s =
     do { data \<leftarrow> decodeButtonValue C s; v \<leftarrow> sl_parse C data; members v }"

lemma button_members_built:
  "codec_returns C (JObj kvs) \<Longrightarrow>
     button_members C (CompressButtonValue C (sl_marshal C (JObj kvs))) = Some kvs"
  by (simp add: button_members_def decode_compress) (simp add: codec_returns_def)

text \<open>A codec that knows one value.\<close>

definition plain_codec :: "json \<Rightarrow> slack_codec" where
  "plain_codec v =
     \<lparr>sl_parse = (\<lambda>s. if s = ''J'' then Some v else None), sl_marshal = (\<lambda>_. ''J''),
      sl_deflate = (\<lambda>s. s), sl_inflate = (\<lambda>s. Some s)\<rparr>"

lemma plain_codec_returns: "codec_returns (plain_codec v) v"
  by (simp add: codec_returns_def plain_codec_def)

section \<open>Approve and deny of a deployment\<close>

record action_value =
  xv_Project :: string
  xv_Location :: string
  xv_ResourceType :: string
  xv_ResourceNames :: string
  xv_ResourceName :: string
  xv_Targets :: string
  xv_Target :: string
  xv_Action :: string
  xv_IssuedAt :: int64
  xv_MigrationDone :: bool
  xv_NextServiceNames :: string
  xv_NextServiceName :: string
  xv_NextRevisions :: string
  xv_NextRevision :: string
  xv_NextAction :: string
  xv_BuildInfo :: string
  xv_SQLInstanceName :: string

definition action_fields :: "string list" where
  "action_fields =
     [''project'', ''location'', ''resource_type'', ''resource_names'', ''resource_name'', ''targets'',
      ''target'', ''action'', ''issued_at'', ''migration_done'', ''next_service_names'',
      ''next_service_name'', ''next_revisions'', ''next_revision'', ''next_action'', ''build_info'',
      ''sql_instance_name'']"

definition parseActionValue :: "slack_codec \<Rightarrow> string \<Rightarrow> action_value option" where
  "parseActionValue C s =
     do { kvs \<leftarrow> button_members C s;
          proj \<leftarrow> str_field action_fields ''project'' kvs;
          loc \<leftarrow> str_field action_fields ''location'' kvs;
          rty \<leftarrow> str_field action_fields ''resource_type'' kvs;
          rns \<leftarrow> str_field action_fields ''resource_names'' kvs;
          rn \<leftarrow> str_field action_fields ''resource_name'' kvs;
          tgs \<leftarrow> str_field action_fields ''targets'' kvs;
          tg \<leftarrow> str_field action_fields ''target'' kvs;
          act \<leftarrow> str_field action_fields ''action'' kvs;
          iss \<leftarrow> int_field action_fields ''issued_at'' kvs;
          mig \<leftarrow> bool_field action_fields ''migration_done'' kvs;
          nss \<leftarrow> str_field action_fields ''next_service_names'' kvs;
          ns \<leftarrow> str_field action_fields ''next_service_name'' kvs;
          nrs \<leftarrow> str_field action_fields ''next_revisions'' kvs;
          nr \<leftarrow> str_field action_fields ''next_revision'' kvs;
          na \<leftarrow> str_field action_fields ''next_action'' kvs;
          bi \<leftarrow> str_field action_fields ''build_info'' kvs;
          sq \<leftarrow> str_field action_fields ''sql_instance_name'' kvs;
          Some \<lparr>xv_Project = proj, xv_Location = loc, xv_ResourceType = rty, xv_ResourceNames = rns,
                xv_ResourceName = rn, xv_Targets = tgs, xv_Target = tg, xv_Action = act,
                xv_IssuedAt = iss, xv_MigrationDone = mig, xv_NextServiceNames = nss,
                xv_NextServiceName = ns, xv_NextRevisions = nrs, xv_NextRevision = nr,
                xv_NextAction = na, xv_BuildInfo = bi, xv_SQLInstanceName = sq\<rparr> }"

text \<open>The request of a click; the clicker is the approver.\<close>

definition click_request :: "action_value \<Rightarrow> string \<Rightarrow> approval_request" where
  "click_request av clicker =
     zero_request\<lparr>ar_Project := xv_Project av, ar_Location := xv_Location av,
       ar_ResourceType := xv_ResourceType av,
       ar_ResourceNames := first_non_empty (xv_ResourceNames av) (xv_ResourceName av),
       ar_Targets := first_non_empty (xv_Targets av) (xv_Target av),
       ar_Action := xv_Action av, ar_ApproverID := clicker, ar_IssuedAt := xv_IssuedAt av,
       ar_SQLInstanceName := xv_SQLInstanceName av, ar_MigrationDone := xv_MigrationDone av,
       ar_NextServiceNames := first_non_empty (xv_NextServiceNames av) (xv_NextServiceName av),
       ar_NextRevisions := first_non_empty (xv_NextRevisions av) (xv_NextRevision av),
       ar_NextAction := xv_NextAction av, ar_BuildInfo := xv_BuildInfo av\<rparr>"

section \<open>The 4-eyes approval\<close>

definition ApprovalKindConvergence :: string where [go_consts]: "ApprovalKindConvergence = ''convergence''"
definition ApprovalKindAdminMutation :: string where [go_consts]: "ApprovalKindAdminMutation = ''admin_mutation''"

record approval_value =
  av_Kind :: string
  av_ParentIdempotencyKey :: string
  av_OriginalRequesterID :: string
  av_Source :: string
  av_Target :: string
  av_BodyDigest :: string
  av_IssuedAt :: int64
  av_RequesterActorType :: string
  av_RequesterActorSource :: string
  av_InitiatingActorType :: string

definition approval_fields :: "string list" where
  "approval_fields =
     [''kind'', ''parent_idempotency_key'', ''original_requester_id'', ''source'', ''target'',
      ''body_digest'', ''issued_at'', ''requester_actor_type'', ''requester_actor_source'',
      ''initiating_actor_type'']"

definition parseApprovalActionValue :: "slack_codec \<Rightarrow> string \<Rightarrow> approval_value option" where
  "parseApprovalActionValue C s =
     do { kvs \<leftarrow> button_members C s;
          kd \<leftarrow> str_field approval_fields ''kind'' kvs;
          par \<leftarrow> str_field approval_fields ''parent_idempotency_key'' kvs;
          req \<leftarrow> str_field approval_fields ''original_requester_id'' kvs;
          src \<leftarrow> str_field approval_fields ''source'' kvs;
          tgt \<leftarrow> str_field approval_fields ''target'' kvs;
          dig \<leftarrow> str_field approval_fields ''body_digest'' kvs;
          iss \<leftarrow> int_field approval_fields ''issued_at'' kvs;
          rat \<leftarrow> str_field approval_fields ''requester_actor_type'' kvs;
          ras \<leftarrow> str_field approval_fields ''requester_actor_source'' kvs;
          iat \<leftarrow> str_field approval_fields ''initiating_actor_type'' kvs;
          Some \<lparr>av_Kind = kd, av_ParentIdempotencyKey = par, av_OriginalRequesterID = req,
                av_Source = src, av_Target = tgt, av_BodyDigest = dig, av_IssuedAt = iss,
                av_RequesterActorType = rat, av_RequesterActorSource = ras,
                av_InitiatingActorType = iat\<rparr> }"

text \<open>The members of the map built from a mail; \<open>json.Marshal\<close> writes a map in key order.\<close>

definition opt_member :: "string \<Rightarrow> string \<Rightarrow> (string \<times> json) list" where
  "opt_member k v = (if v \<noteq> [] then [(k, JStr v)] else [])"

definition approval_members :: "(string \<Rightarrow> string) \<Rightarrow> dmail \<Rightarrow> (string \<times> json) list" where
  "approval_members digest mail =
     (let classification =
            ClassifyRequesterActorSource (meta mail MetadataKeyRequesterActorSource) False
      in [(''parent_idempotency_key'', JStr (meta mail ''parent_idempotency_key'')),
          (''original_requester_id'', JStr (meta mail ''requester_id'')),
          (''source'', JStr (dm_Source mail)), (''target'', JStr (dm_Target mail)),
          (''body_digest'', JStr (digest (dm_Body mail))), (''issued_at'', JInt 0)] @
         opt_member ''kind'' (meta mail ''kind'') @
         opt_member ''requester_actor_type'' (meta mail MetadataKeyRequesterActorType) @
         (if classification \<noteq> GatewayClassificationUnknown
          then [(''requester_actor_source'', JStr classification)] else []) @
         opt_member ''initiating_actor_type'' (meta mail MetadataKeyInitiatingActorType))"

definition buildButtonValues ::
  "slack_codec \<Rightarrow> (string \<Rightarrow> string) \<Rightarrow> dmail \<Rightarrow> (string \<times> string) option" where
  "buildButtonValues C digest mail =
     (if meta mail ''parent_idempotency_key'' = [] \<or> meta mail ''requester_id'' = [] then None
      else
        (let encoded = CompressButtonValue C
               (sl_marshal C (JObj (sort_key fst (approval_members digest mail))))
         in Some (encoded, encoded)))"

section \<open>Dispatch confirmation\<close>

definition AgentRolePaintress :: string where [go_consts]: "AgentRolePaintress = ''paintress''"
definition AgentRoleSightjack :: string where [go_consts]: "AgentRoleSightjack = ''sightjack''"
definition AgentRoleAmadeus :: string where [go_consts]: "AgentRoleAmadeus = ''amadeus''"
definition AgentRoleDominator :: string where [go_consts]: "AgentRoleDominator = ''dominator''"

definition ParseAgentRole :: "string \<Rightarrow> string option" where
  "ParseAgentRole s =
     (if s = AgentRolePaintress \<or> s = AgentRoleSightjack \<or> s = AgentRoleAmadeus \<or> s = AgentRoleDominator
      then Some s else None)"

record dispatch_request =
  dr_Role :: string
  dr_Text :: string
  dr_RequesterID :: string
  dr_IdempotencyKey :: string
  dr_IssuedAt :: int64
  dr_SlackChannelID :: string
  dr_SlackThreadTS :: string
  dr_ProjectID :: string

definition dispatch_OperationKey :: "dispatch_request \<Rightarrow> string" where
  "dispatch_OperationKey r =
     ''dispatch/'' @ dr_Role r @ ''/'' @ dr_RequesterID r @ ''/'' @ dr_IdempotencyKey r @ ''/'' @
     show_int (sint (dr_IssuedAt r))"

record dispatch_value =
  dv_Role :: string
  dv_Text :: string
  dv_RequesterID :: string
  dv_IdempotencyKey :: string
  dv_IssuedAt :: int64
  dv_ProjectID :: string

definition dispatch_fields :: "string list" where
  "dispatch_fields =
     [''role'', ''text'', ''requester_id'', ''idempotency_key'', ''issued_at'', ''project_id'']"

definition marshalDispatchActionValue :: "dispatch_value \<Rightarrow> json" where
  "marshalDispatchActionValue v =
     JObj ([(''role'', JStr (dv_Role v)), (''text'', JStr (dv_Text v)),
            (''requester_id'', JStr (dv_RequesterID v)),
            (''idempotency_key'', JStr (dv_IdempotencyKey v)),
            (''issued_at'', JInt (sint (dv_IssuedAt v)))] @
           opt_member ''project_id'' (dv_ProjectID v))"

definition parseDispatchActionValue :: "slack_codec \<Rightarrow> string \<Rightarrow> dispatch_value option" where
  "parseDispatchActionValue C s =
     do { kvs \<leftarrow> button_members C s;
          role \<leftarrow> str_field dispatch_fields ''role'' kvs;
          txt \<leftarrow> str_field dispatch_fields ''text'' kvs;
          req \<leftarrow> str_field dispatch_fields ''requester_id'' kvs;
          key \<leftarrow> str_field dispatch_fields ''idempotency_key'' kvs;
          iss \<leftarrow> int_field dispatch_fields ''issued_at'' kvs;
          proj \<leftarrow> str_field dispatch_fields ''project_id'' kvs;
          Some \<lparr>dv_Role = role, dv_Text = txt, dv_RequesterID = req, dv_IdempotencyKey = key,
                dv_IssuedAt = iss, dv_ProjectID = proj\<rparr> }"

definition buildDispatchButtonValues ::
  "slack_codec \<Rightarrow> string \<Rightarrow> string \<Rightarrow> string \<Rightarrow> string \<Rightarrow> string \<Rightarrow> int64 \<Rightarrow> string \<times> string" where
  "buildDispatchButtonValues C role txt requesterID idempotencyKey projectID issuedAt =
     (let encoded = CompressButtonValue C (sl_marshal C (marshalDispatchActionValue
            \<lparr>dv_Role = role, dv_Text = txt, dv_RequesterID = requesterID,
             dv_IdempotencyKey = idempotencyKey, dv_IssuedAt = issuedAt, dv_ProjectID = projectID\<rparr>))
      in (encoded, encoded))"

section \<open>What a click reads back\<close>

lemma read_field_map_of:
  assumes "distinct (map fst kvs)" "fst ` set kvs \<subseteq> set names"
  shows "read_field conv names f kvs acc =
    (case map_of kvs f of None \<Rightarrow> Some acc | Some v \<Rightarrow> conv v acc)"
  using assms
proof (induction kvs arbitrary: acc)
  case (Cons kv kvs)
  obtain k v where kv: "kv = (k, v)" by (cases kv)
  from Cons.prems kv have k: "struct_field names k = Some k" "k \<notin> fst ` set kvs"
    "distinct (map fst kvs)" "fst ` set kvs \<subseteq> set names" by auto
  have none: "map_of kvs k = None" using k(2) by (simp add: map_of_eq_None_iff)
  show ?case
    using Cons.IH[OF k(3,4)] k(1) none kv by (auto split: option.split)
qed simp

lemma map_of_sort_key:
  "distinct (map fst kvs) \<Longrightarrow> map_of (sort_key fst kvs) = map_of kvs"
proof (rule map_of_eqI)
  assume d: "distinct (map fst kvs)"
  show "set (map fst (sort_key fst kvs)) = set (map fst kvs)" by simp
  show "\<forall>k \<in> set (map fst (sort_key fst kvs)). map_of (sort_key fst kvs) k = map_of kvs k"
  proof
    fix k
    have "distinct (map fst (sort_key fst kvs))"
      using d by (simp add: distinct_map distinct_sort)
    then have "map_of (sort_key fst kvs) k = Some v \<longleftrightarrow> map_of kvs k = Some v" for v
      using d by (simp add: map_of_eq_Some_iff)
    then show "map_of (sort_key fst kvs) k = map_of kvs k" by (metis not_Some_eq)
  qed
qed

lemma sorted_members:
  "distinct (map fst kvs) \<Longrightarrow> fst ` set kvs \<subseteq> set names \<Longrightarrow>
     read_field conv names f (sort_key fst kvs) acc =
       (case map_of kvs f of None \<Rightarrow> Some acc | Some v \<Rightarrow> conv v acc)"
  by (subst read_field_map_of) (simp_all add: map_of_sort_key distinct_map distinct_sort)

lemma approval_members_keys:
  "distinct (map fst (approval_members digest mail))"
  "fst ` set (approval_members digest mail) \<subseteq> set approval_fields"
  by (auto simp: approval_members_def approval_fields_def opt_member_def Let_def)

text \<open>The value a button built from a mail carries.\<close>

definition approval_value_of :: "(string \<Rightarrow> string) \<Rightarrow> dmail \<Rightarrow> approval_value" where
  "approval_value_of digest mail =
     \<lparr>av_Kind = meta mail ''kind'', av_ParentIdempotencyKey = meta mail ''parent_idempotency_key'',
      av_OriginalRequesterID = meta mail ''requester_id'', av_Source = dm_Source mail,
      av_Target = dm_Target mail, av_BodyDigest = digest (dm_Body mail), av_IssuedAt = 0,
      av_RequesterActorType = meta mail MetadataKeyRequesterActorType,
      av_RequesterActorSource =
        (let c = ClassifyRequesterActorSource (meta mail MetadataKeyRequesterActorSource) False
         in if c = GatewayClassificationUnknown then [] else c),
      av_InitiatingActorType = meta mail MetadataKeyInitiatingActorType\<rparr>"

lemma parse_built_approval:
  assumes "codec_returns C (JObj (sort_key fst (approval_members digest mail)))"
    and "buildButtonValues C digest mail = Some (a, d)"
  shows "parseApprovalActionValue C a = Some (approval_value_of digest mail)" "d = a"
proof -
  from assms(2) have a: "a = CompressButtonValue C (sl_marshal C (JObj (sort_key fst (approval_members digest mail))))"
    and d: "d = a" by (auto simp: buildButtonValues_def Let_def split: if_splits)
  have m: "button_members C a = Some (sort_key fst (approval_members digest mail))"
    unfolding a by (rule button_members_built[OF assms(1)])
  show "parseApprovalActionValue C a = Some (approval_value_of digest mail)"
    by (simp add: parseApprovalActionValue_def m sorted_members[OF approval_members_keys])
       (simp add: approval_members_def opt_member_def Let_def approval_value_of_def)
  show "d = a" by (rule d)
qed

lemma parse_built_dispatch:
  assumes "codec_returns C (marshalDispatchActionValue dv)"
  shows "parseDispatchActionValue C
      (CompressButtonValue C (sl_marshal C (marshalDispatchActionValue dv))) = Some dv"
proof -
  obtain kvs where k: "marshalDispatchActionValue dv = JObj kvs"
    by (simp add: marshalDispatchActionValue_def)
  have d: "distinct (map fst kvs)" "fst ` set kvs \<subseteq> set dispatch_fields"
    using k by (auto simp: marshalDispatchActionValue_def dispatch_fields_def opt_member_def)
  have m: "button_members C (CompressButtonValue C (sl_marshal C (marshalDispatchActionValue dv))) = Some kvs"
    using assms button_members_built unfolding k by blast
  have i: "- (2 ^ 63) \<le> sint (dv_IssuedAt dv)" "sint (dv_IssuedAt dv) < 2 ^ 63"
    using sint_range_size[of "dv_IssuedAt dv"] by (simp_all add: word_size)
  show ?thesis
    unfolding parseDispatchActionValue_def m read_field_map_of[OF d] Option.bind.bind_lunit
    using k[symmetric] i
    by (simp add: marshalDispatchActionValue_def opt_member_def split: if_splits)
qed

end
