(* ===== verification/Slack_Interactive.thy ===== *)
theory Slack_Interactive
  imports Slack_Buttons
begin

text \<open>
  The receiver of button clicks: \<open>internal/adapter/input/slack/verify.go\<close> and
  \<open>internal/adapter/input/slack/handler.go\<close>.  The handler answers at once and leaves the work to a
  goroutine, so its result is an HTTP status, at most one job, and the token store after the guards.
  The clock is a number of nanoseconds since the Unix epoch.  Tracing spans and log lines are left
  out.
\<close>

section \<open>Signature\<close>

definition slackTimestampMaxSkew :: int where "slackTimestampMaxSkew = 300000000000"

definition wrap64 :: "int \<Rightarrow> int" where
  "wrap64 i = sint (word_of_int i :: int64)"

definition min_int64 :: int where "min_int64 = - (2 ^ 63)"
definition max_int64 :: int where "max_int64 = 2 ^ 63 - 1"

text \<open>\<open>time.Unix(ts, 0)\<close> keeps the seconds since year 1 in 64 bits, and \<open>now.Sub\<close> saturates.\<close>

definition unixToInternal :: int where "unixToInternal = 62135596800"

definition time_sub :: "int \<Rightarrow> int \<Rightarrow> int" where
  "time_sub now_ns ts =
     (let d = now_ns + unixToInternal * 1000000000 - wrap64 (ts + unixToInternal) * 1000000000
      in if d < min_int64 then min_int64 else if d > max_int64 then max_int64 else d)"

definition neg_duration :: "int \<Rightarrow> int" where
  "neg_duration d = wrap64 (- d)"

definition clock_skew :: "int \<Rightarrow> int \<Rightarrow> int" where
  "clock_skew now_ns ts =
     (let skew = time_sub now_ns ts in if skew < 0 then neg_duration skew else skew)"

datatype signature_error =
    MissingHeaders
  | InvalidTimestamp
  | OutOfReplayWindow int
  | InvalidSignature

definition verifySignatureAt ::
  "(string \<Rightarrow> string \<Rightarrow> string) \<Rightarrow> int \<Rightarrow> string \<Rightarrow> string \<Rightarrow> string \<Rightarrow> string \<Rightarrow> signature_error option" where
  "verifySignatureAt hmac_hex now timestamp signature body signingSecret =
     (if timestamp = [] \<or> signature = [] then Some MissingHeaders
      else case parse_int 64 timestamp of
        None \<Rightarrow> Some InvalidTimestamp
      | Some ts \<Rightarrow>
          (let skew = clock_skew now ts
           in if skew > slackTimestampMaxSkew then Some (OutOfReplayWindow skew)
              else if ''v0='' @ hmac_hex signingSecret (''v0:'' @ timestamp @ '':'' @ body) \<noteq> signature
              then Some InvalidSignature
              else None))"

section \<open>Handler and jobs\<close>

record interactive_handler =
  ih_hasDispatch :: bool
  ih_hasPublisher :: bool
  ih_hasAdminApproval :: bool
  ih_signingSecret :: string
  ih_aiAgentBotUserIDs :: "string list"

datatype click_note =
    NoteNotYourDispatch
  | NoteDispatchReplay
  | NoteDispatchCancelled
  | NoteSelfApproval
  | NoteActorTypeEmpty
  | NoteActorTypeInvalid
  | NoteSourceSpoofed
  | NoteSourceUnknown
  | NoteInitiatingActorRequired
  | NoteAIApprovesAI
  | NoteApprovalReplay
  | NoteHighDenied string

datatype job =
    TellClicker notify_target string click_note
  | UpdatePost notify_target click_note
  | RunDispatch dispatch_request notify_target
  | RunAdminAck string string CallerType notify_target
  | RunAdminDeny string string CallerType notify_target
  | RunPublishAck dmail string notify_target
  | RunApprove approval_request notify_target CallerType
  | RunDeny approval_request notify_target

type_synonym tokens = "consumed_tokens option"

text \<open>The single-use guard: without a store it lets everything through.\<close>

definition consume :: "int \<Rightarrow> string \<Rightarrow> tokens \<Rightarrow> bool \<times> tokens" where
  "consume now token ts =
     (case ts of
        None \<Rightarrow> (True, None)
      | Some s \<Rightarrow> (fst (MarkConsumed now token s), Some (snd (MarkConsumed now token s))))"

definition dispatchApproveToken :: "dispatch_value \<Rightarrow> string" where
  "dispatchApproveToken dv =
     ''dispatch_approve/'' @ dv_RequesterID dv @ ''/'' @ dv_IdempotencyKey dv @ ''/'' @
     show_int (sint (dv_IssuedAt dv))"

definition approvalToken :: "approval_value \<Rightarrow> string" where
  "approvalToken av =
     ''approval/'' @ av_OriginalRequesterID av @ ''/'' @ av_ParentIdempotencyKey av @ ''/'' @
     show_int (sint (av_IssuedAt av))"

definition handleDispatchAction ::
  "slack_codec \<Rightarrow> interactive_handler \<Rightarrow> int \<Rightarrow> string \<Rightarrow> string \<Rightarrow> string \<Rightarrow> notify_target \<Rightarrow> tokens \<Rightarrow>
   job option \<times> tokens" where
  "handleDispatchAction C h now actionID value clicker target ts =
     (case parseDispatchActionValue C value of
        None \<Rightarrow> (None, ts)
      | Some dv \<Rightarrow>
          if dv_Role dv = [] then (None, ts)
          else if clicker = [] \<or> clicker \<noteq> dv_RequesterID dv
          then (Some (TellClicker target clicker NoteNotYourDispatch), ts)
          else if actionID = ''dispatch_deny''
          then (Some (UpdatePost target NoteDispatchCancelled), ts)
          else if \<not> ih_hasDispatch h then (None, ts)
          else
            (let (fresh, ts') = consume now (dispatchApproveToken dv) ts
             in if \<not> fresh then (Some (TellClicker target clicker NoteDispatchReplay), ts')
                else (Some (RunDispatch
                        \<lparr>dr_Role = dv_Role dv, dr_Text = dv_Text dv, dr_RequesterID = clicker,
                         dr_IdempotencyKey = dv_IdempotencyKey dv, dr_IssuedAt = dv_IssuedAt dv,
                         dr_SlackChannelID = nt_ChannelID target, dr_SlackThreadTS = nt_ThreadTS target,
                         dr_ProjectID = dv_ProjectID dv\<rparr> target), ts')))"

definition isCanonicalCallerType :: "string \<Rightarrow> bool" where
  "isCanonicalCallerType s \<longleftrightarrow>
     s = [] \<or> s = CallerHumanOperator \<or> s = CallerGatewayService \<or> s = CallerAIAgent \<or>
     s = CallerWorkspaceDaemon"

text \<open>\<open>%x\<close> of the clock.\<close>

fun show_hex :: "nat \<Rightarrow> string" where
  "show_hex n = (if n < 16 then [hex_digit n] else show_hex (n div 16) @ [hex_digit (n mod 16)])"

declare show_hex.simps [simp del]

definition newApprovalAckID :: "int \<Rightarrow> string" where
  "newApprovalAckID now =
     ''ack-'' @ (if now < 0 then ''-'' @ show_hex (nat (- now)) else show_hex (nat now))"

definition approval_ack :: "int \<Rightarrow> approval_value \<Rightarrow> string \<Rightarrow> CallerType \<Rightarrow> notify_target \<Rightarrow> dmail" where
  "approval_ack now av clicker clickerActorType target =
     \<lparr>dm_ID = newApprovalAckID now, dm_Kind = DMailKindConvergence, dm_Target = av_Source av,
      dm_Source = ''runops-gateway-slack'',
      dm_IdempotencyKey = av_ParentIdempotencyKey av @ ''/approved-by-'' @ clicker,
      dm_Body = ''HIGH severity approval granted by <@'' @ clicker @ ''> at unix='' @ show_int (now div 1000000000),
      dm_Metadata =
        [(''parent_idempotency_key'', av_ParentIdempotencyKey av),
         (''original_requester_id'', av_OriginalRequesterID av),
         (''approver_id'', clicker),
         (''slack_channel_id'', nt_ChannelID target),
         (''slack_thread_ts'', nt_ThreadTS target),
         (''approval_decision'', ''approved''),
         (MetadataKeyRequesterActorType, av_RequesterActorType av),
         (''approver_actor_type'', clickerActorType)]\<rparr>"

text \<open>The guards of an approval click that come before the decision; the note of the first one that
  rejects.\<close>

definition approval_guard :: "interactive_handler \<Rightarrow> approval_value \<Rightarrow> string \<Rightarrow> click_note option" where
  "approval_guard h av clicker =
     (if clicker = [] \<or> clicker = av_OriginalRequesterID av then Some NoteSelfApproval
      else if av_RequesterActorType av = [] then Some NoteActorTypeEmpty
      else if \<not> isCanonicalCallerType (av_RequesterActorType av) then Some NoteActorTypeInvalid
      else
        (let classification = (if av_RequesterActorSource av = [] then GatewayClassificationUnknown
                               else av_RequesterActorSource av)
         in if classification = GatewayClassificationSpoofedBroker then Some NoteSourceSpoofed
            else if classification = GatewayClassificationUnknown then Some NoteSourceUnknown
            else case EffectiveRequesterActorType
                   (zero_request\<lparr>ar_RequesterActorType := av_RequesterActorType av,
                                 ar_InitiatingActorType := av_InitiatingActorType av\<rparr>) of
              Inl _ \<Rightarrow> Some NoteInitiatingActorRequired
            | Inr effective \<Rightarrow>
                if ValidateApproverPermitted (zero_request\<lparr>ar_RequesterActorType := effective\<rparr>)
                     (ClassifyApproverActorType clicker (ih_aiAgentBotUserIDs h)) \<noteq> None
                then Some NoteAIApprovesAI
                else None))"

definition handleApprovalAction ::
  "slack_codec \<Rightarrow> interactive_handler \<Rightarrow> int \<Rightarrow> string \<Rightarrow> string \<Rightarrow> string \<Rightarrow> notify_target \<Rightarrow> tokens \<Rightarrow>
   job option \<times> tokens" where
  "handleApprovalAction C h now actionID value clicker target ts =
     (case parseApprovalActionValue C value of
        None \<Rightarrow> (None, ts)
      | Some av \<Rightarrow>
          if av_ParentIdempotencyKey av = [] \<or> av_OriginalRequesterID av = [] then (None, ts)
          else (case approval_guard h av clicker of
            Some n \<Rightarrow> (Some (TellClicker target clicker n), ts)
          | None \<Rightarrow>
              (let clickerActorType = ClassifyApproverActorType clicker (ih_aiAgentBotUserIDs h);
                   admin = (av_Kind av = ApprovalKindAdminMutation \<and> ih_hasAdminApproval h)
               in if actionID = ''approval_deny'' then
                    (if admin then
                       (Some (RunAdminDeny (av_ParentIdempotencyKey av) clicker clickerActorType target), ts)
                     else (Some (UpdatePost target (NoteHighDenied clicker)), ts))
                  else if av_Kind av \<noteq> ApprovalKindAdminMutation \<and> \<not> ih_hasPublisher h then (None, ts)
                  else
                    (let (fresh, ts') = consume now (approvalToken av) ts
                     in if \<not> fresh then (Some (TellClicker target clicker NoteApprovalReplay), ts')
                        else if admin then
                          (Some (RunAdminAck (av_ParentIdempotencyKey av) clicker clickerActorType target), ts')
                        else
                          (Some (RunPublishAck (approval_ack now av clicker clickerActorType target)
                             clicker target), ts')))))"

section \<open>ServeHTTP\<close>

record interactive_action =
  ia_ActionID :: string
  ia_Value :: string

record interactive_payload =
  ip_User :: string
  ip_Channel :: string
  ip_MessageTS :: string
  ip_ResponseURL :: string
  ip_Actions :: "interactive_action list"

text \<open>A nested struct with one string field, and the array of actions.\<close>

definition as_nested :: "string \<Rightarrow> json \<Rightarrow> string \<Rightarrow> string option" where
  "as_nested f j old =
     (case j of
        JObj kvs \<Rightarrow> read_field as_string [f] f kvs old
      | JNull \<Rightarrow> Some old
      | _ \<Rightarrow> None)"

definition as_action :: "json \<Rightarrow> interactive_action option" where
  "as_action j =
     do { kvs \<leftarrow> members j;
          i \<leftarrow> str_field [''action_id'', ''value''] ''action_id'' kvs;
          v \<leftarrow> str_field [''action_id'', ''value''] ''value'' kvs;
          Some \<lparr>ia_ActionID = i, ia_Value = v\<rparr> }"

fun all_some :: "'a option list \<Rightarrow> 'a list option" where
  "all_some [] = Some []"
| "all_some (x # xs) = do { y \<leftarrow> x; ys \<leftarrow> all_some xs; Some (y # ys) }"

definition as_actions :: "json \<Rightarrow> interactive_action list \<Rightarrow> interactive_action list option" where
  "as_actions j old =
     (case j of
        JArr js \<Rightarrow> all_some (map as_action js)
      | JNull \<Rightarrow> Some []
      | _ \<Rightarrow> None)"

definition payload_fields :: "string list" where
  "payload_fields = [''user'', ''channel'', ''message'', ''response_url'', ''actions'']"

definition parse_payload :: "slack_codec \<Rightarrow> string \<Rightarrow> interactive_payload option" where
  "parse_payload C s =
     do { j \<leftarrow> sl_parse C s;
          kvs \<leftarrow> members j;
          user \<leftarrow> read_field (as_nested ''id'') payload_fields ''user'' kvs [];
          chan \<leftarrow> read_field (as_nested ''id'') payload_fields ''channel'' kvs [];
          ts \<leftarrow> read_field (as_nested ''ts'') payload_fields ''message'' kvs [];
          url \<leftarrow> str_field payload_fields ''response_url'' kvs;
          acts \<leftarrow> read_field as_actions payload_fields ''actions'' kvs [];
          Some \<lparr>ip_User = user, ip_Channel = chan, ip_MessageTS = ts, ip_ResponseURL = url,
                ip_Actions = acts\<rparr> }"

text \<open>The request: the body that arrives (\<open>None\<close> when reading it fails), the two signature headers,
  and the raw query of the URL.  \<open>parse_form\<close> is \<open>url.ParseQuery\<close> with the content-type rule of
  \<open>ParseForm\<close> applied to the body.\<close>

record interactive_request =
  iq_Timestamp :: string
  iq_Signature :: string
  iq_Body :: "string option"
  iq_Query :: string

record http_host =
  hh_hmac :: "string \<Rightarrow> string \<Rightarrow> string"
  hh_form :: "string \<Rightarrow> (string \<times> string) list option"

definition form_value :: "http_host \<Rightarrow> interactive_request \<Rightarrow> string \<Rightarrow> string \<Rightarrow> string option" where
  "form_value H r body k =
     do { b \<leftarrow> hh_form H body;
          q \<leftarrow> hh_form H (iq_Query r);
          Some (case map_of (b @ q) k of None \<Rightarrow> [] | Some v \<Rightarrow> v) }"

definition payload_target :: "interactive_payload \<Rightarrow> notify_target" where
  "payload_target p =
     \<lparr>nt_CallbackURL = ip_ResponseURL p, nt_Mode = ModeSlack, nt_ChannelID = ip_Channel p,
      nt_ThreadTS = ip_MessageTS p\<rparr>"

definition route_action ::
  "slack_codec \<Rightarrow> interactive_handler \<Rightarrow> int \<Rightarrow> interactive_payload \<Rightarrow> interactive_action \<Rightarrow> tokens \<Rightarrow>
   job option \<times> tokens" where
  "route_action C h now p act ts =
     (let target = payload_target p; clicker = ip_User p
      in if ia_ActionID act = ''dispatch_approve'' \<or> ia_ActionID act = ''dispatch_deny''
         then handleDispatchAction C h now (ia_ActionID act) (ia_Value act) clicker target ts
         else if ia_ActionID act = ''approval_approve'' \<or> ia_ActionID act = ''approval_deny''
         then handleApprovalAction C h now (ia_ActionID act) (ia_Value act) clicker target ts
         else (case parseActionValue C (ia_Value act) of
           None \<Rightarrow> (None, ts)
         | Some av \<Rightarrow>
             if xv_Project av = [] \<or> xv_Location av = [] then (None, ts)
             else
               (let req = click_request av clicker
                in if prefix ''approve'' (ia_ActionID act)
                   then (Some (RunApprove req target
                           (ClassifyApproverActorType clicker (ih_aiAgentBotUserIDs h))), ts)
                   else if ia_ActionID act = ''deny'' then (Some (RunDeny req target), ts)
                   else (None, ts))))"

definition interactive_ServeHTTP ::
  "http_host \<Rightarrow> slack_codec \<Rightarrow> interactive_handler \<Rightarrow> int \<Rightarrow> interactive_request \<Rightarrow> tokens \<Rightarrow>
   nat \<times> job option \<times> tokens" where
  "interactive_ServeHTTP H C h now r ts =
     (case iq_Body r of
        None \<Rightarrow> (400, None, ts)
      | Some body \<Rightarrow>
          if verifySignatureAt (hh_hmac H) now (iq_Timestamp r) (iq_Signature r) body
               (ih_signingSecret h) \<noteq> None
          then (401, None, ts)
          else (case form_value H r body ''payload'' of
            None \<Rightarrow> (400, None, ts)
          | Some payloadJSON \<Rightarrow>
              if payloadJSON = [] then (200, None, ts)
              else (case parse_payload C payloadJSON of
                None \<Rightarrow> (200, None, ts)
              | Some p \<Rightarrow>
                  (case ip_Actions p of
                     [] \<Rightarrow> (200, None, ts)
                   | act # _ \<Rightarrow> (200, route_action C h now p act ts)))))"

end
