(* ===== verification/Go_Runes.thy ===== *)
theory Go_Runes
  imports Go_Strings
begin

text \<open>
  Go's conversions between strings and code points (\<open>[]rune(s)\<close>, \<open>string(runes)\<close>): strings are
  byte sequences, and a byte that starts no well-formed UTF-8 sequence decodes to U+FFFD.  Texts in
  Japanese and emoji of the source are written as code points and encoded with \<open>uni\<close>.
\<close>

section \<open>Encoding\<close>

definition runeError :: nat where "runeError = 0xFFFD"

definition valid_rune :: "nat \<Rightarrow> bool" where
  "valid_rune r \<longleftrightarrow> r < 0xD800 \<or> (0xE000 \<le> r \<and> r \<le> 0x10FFFF)"

definition encode_valid :: "nat \<Rightarrow> nat list" where
  "encode_valid r =
     (if r < 0x80 then [r]
      else if r < 0x800 then [0xC0 + r div 64, 0x80 + r mod 64]
      else if r < 0x10000 then [0xE0 + r div 4096, 0x80 + r div 64 mod 64, 0x80 + r mod 64]
      else [0xF0 + r div 262144, 0x80 + r div 4096 mod 64, 0x80 + r div 64 mod 64, 0x80 + r mod 64])"

definition encode_rune :: "nat \<Rightarrow> nat list" where
  "encode_rune r = encode_valid (if valid_rune r then r else runeError)"

definition of_runes :: "nat list \<Rightarrow> string" where
  "of_runes rs = map char_of (concat (map encode_rune rs))"

abbreviation uni :: "nat list \<Rightarrow> string" where "uni \<equiv> of_runes"

section \<open>Decoding\<close>

definition cont_byte :: "nat \<Rightarrow> bool" where
  "cont_byte b \<longleftrightarrow> 0x80 \<le> b \<and> b \<le> 0xBF"

text \<open>The range of the second byte depends on the first.\<close>

definition second_ok :: "nat \<Rightarrow> nat \<Rightarrow> bool" where
  "second_ok b0 b1 \<longleftrightarrow>
     (if b0 = 0xE0 then 0xA0 \<le> b1 \<and> b1 \<le> 0xBF
      else if b0 = 0xED then 0x80 \<le> b1 \<and> b1 \<le> 0x9F
      else if b0 = 0xF0 then 0x90 \<le> b1 \<and> b1 \<le> 0xBF
      else if b0 = 0xF4 then 0x80 \<le> b1 \<and> b1 \<le> 0x8F
      else cont_byte b1)"

definition decode_rune :: "nat \<Rightarrow> nat list \<Rightarrow> nat \<times> nat" where
  "decode_rune b0 bs =
     (if b0 < 0x80 then (b0, 1)
      else if 0xC2 \<le> b0 \<and> b0 \<le> 0xDF \<and> 1 \<le> length bs \<and> second_ok b0 (bs ! 0)
      then ((b0 - 0xC0) * 64 + (bs ! 0 - 0x80), 2)
      else if 0xE0 \<le> b0 \<and> b0 \<le> 0xEF \<and> 2 \<le> length bs \<and> second_ok b0 (bs ! 0) \<and> cont_byte (bs ! 1)
      then ((b0 - 0xE0) * 4096 + (bs ! 0 - 0x80) * 64 + (bs ! 1 - 0x80), 3)
      else if 0xF0 \<le> b0 \<and> b0 \<le> 0xF4 \<and> 3 \<le> length bs \<and> second_ok b0 (bs ! 0) \<and> cont_byte (bs ! 1) \<and>
        cont_byte (bs ! 2)
      then ((b0 - 0xF0) * 262144 + (bs ! 0 - 0x80) * 4096 + (bs ! 1 - 0x80) * 64 + (bs ! 2 - 0x80), 4)
      else (runeError, 1))"

lemma decode_rune_width: "1 \<le> snd (decode_rune b0 bs)"
  by (simp add: decode_rune_def)

function decode_runes :: "nat list \<Rightarrow> nat list" where
  "decode_runes [] = []"
| "decode_runes (b0 # bs) = fst (decode_rune b0 bs) # decode_runes (drop (snd (decode_rune b0 bs) - 1) bs)"
  by pat_completeness auto
termination by (relation "measure length") auto

definition to_runes :: "string \<Rightarrow> nat list" where
  "to_runes s = decode_runes (map of_char s)"

section \<open>Round trip\<close>

lemma encode_valid_simps:
  "r < 0x80 \<Longrightarrow> encode_valid r = [r]"
  "0x80 \<le> r \<Longrightarrow> r < 0x800 \<Longrightarrow> encode_valid r = [0xC0 + r div 64, 0x80 + r mod 64]"
  "0x800 \<le> r \<Longrightarrow> r < 0x10000 \<Longrightarrow>
     encode_valid r = [0xE0 + r div 4096, 0x80 + r div 64 mod 64, 0x80 + r mod 64]"
  "0x10000 \<le> r \<Longrightarrow> encode_valid r =
     [0xF0 + r div 262144, 0x80 + r div 4096 mod 64, 0x80 + r div 64 mod 64, 0x80 + r mod 64]"
  by (simp_all add: encode_valid_def)

lemma div_64_step:
  fixes r :: nat
  shows "r div 4096 * 64 + r div 64 mod 64 = r div 64" "r div 262144 * 64 + r div 4096 mod 64 = r div 4096"
proof -
  have r: "r div 4096 = r div 64 div 64" "r div 262144 = r div 4096 div 64"
    by (simp_all add: div_mult2_eq[symmetric])
  show "r div 4096 * 64 + r div 64 mod 64 = r div 64" unfolding r(1) by (rule div_mult_mod_eq)
  show "r div 262144 * 64 + r div 4096 mod 64 = r div 4096" unfolding r(2) by (rule div_mult_mod_eq)
qed

lemma second_ok_range: "second_ok b0 b1 \<Longrightarrow> 0x80 \<le> b1 \<and> b1 \<le> 0xBF"
  by (simp add: second_ok_def cont_byte_def split: if_splits)

lemma mod_64_le: "(n :: nat) mod 64 \<le> 63"
  using mod_less_divisor[of 64 n] by linarith

lemma second_ok_three:
  assumes "q * 4096 + y * 64 + z = r" "y < 64" "z < 64" "0x800 \<le> r" "valid_rune r"
    and "q < 16"
  shows "second_ok (0xE0 + q) (0x80 + y)"
proof -
  have "32 \<le> y" if "q = 0" using assms that by linarith
  moreover have "y \<le> 31" if "q = 13" using assms that unfolding valid_rune_def by linarith
  ultimately show ?thesis using assms(2) \<open>q < _\<close> by (auto simp: second_ok_def cont_byte_def)
qed

lemma second_ok_four:
  assumes "q * 262144 + x * 4096 + y * 64 + z = r" "x < 64" "y < 64" "z < 64" "0x10000 \<le> r" "valid_rune r"
    and "q < 5"
  shows "second_ok (0xF0 + q) (0x80 + x)"
proof -
  have "16 \<le> x" if "q = 0" using assms that by linarith
  moreover have "x \<le> 15" if "q = 4" using assms that unfolding valid_rune_def by linarith
  ultimately show ?thesis using assms(2) \<open>q < _\<close> by (auto simp: second_ok_def cont_byte_def)
qed

lemma decode_encode_valid:
  assumes "valid_rune r"
  shows "\<exists>b0 bs. encode_valid r = b0 # bs \<and> (\<forall>rest. decode_rune b0 (bs @ rest) = (r, Suc (length bs)))"
proof -
  consider "r < 0x80" | "0x80 \<le> r" "r < 0x800" | "0x800 \<le> r" "r < 0x10000" | "0x10000 \<le> r" "r \<le> 0x10FFFF"
    using assms unfolding valid_rune_def by linarith
  then show ?thesis
  proof cases
    case 1
    then show ?thesis by (simp add: encode_valid_simps decode_rune_def)
  next
    case 2
    have d: "2 \<le> r div 64" "r div 64 < 32" "r mod 64 < 64" "r div 64 * 64 + r mod 64 = r"
      using 2 by simp_all
    show ?thesis
      unfolding encode_valid_simps(2)[OF 2] using d
      by (simp add: decode_rune_def second_ok_def cont_byte_def)
  next
    case 3
    note e = div_64_step(1)[of r] div_mult_mod_eq[of r 64]
    have d: "r div 4096 < 16" "r mod 64 < 64" "r div 64 mod 64 < 64" using 3 by simp_all
    have v: "r div 4096 * 4096 + r div 64 mod 64 * 64 + r mod 64 = r" using e by linarith
    have s: "second_ok (0xE0 + r div 4096) (0x80 + r div 64 mod 64)"
      by (rule second_ok_three[OF v d(3,2) 3(1) assms d(1)])
    show ?thesis
      unfolding encode_valid_simps(3)[OF 3] using d s v
      by (simp add: decode_rune_def cont_byte_def)
  next
    case 4
    note e = div_64_step[of r] div_mult_mod_eq[of r 64]
    have d: "r div 262144 < 5" "r mod 64 < 64" "r div 64 mod 64 < 64" "r div 4096 mod 64 < 64"
      using 4 by simp_all
    have v: "r div 262144 * 262144 + r div 4096 mod 64 * 4096 + r div 64 mod 64 * 64 + r mod 64 = r"
      using e by linarith
    have s: "second_ok (0xF0 + r div 262144) (0x80 + r div 4096 mod 64)"
      by (rule second_ok_four[OF v d(4,3,2) 4(1) assms d(1)])
    show ?thesis
      unfolding encode_valid_simps(4)[OF 4(1)] using d s v
      by (simp add: decode_rune_def cont_byte_def mod_64_le)
  qed
qed

lemma valid_runeError [simp]: "valid_rune runeError"
  by (simp add: valid_rune_def runeError_def)

lemma decode_runes_encode:
  "valid_rune r \<Longrightarrow> decode_runes (encode_rune r @ bs) = r # decode_runes bs"
proof -
  assume "valid_rune r"
  with decode_encode_valid[OF this] obtain b0 cs where
    c: "encode_rune r = b0 # cs" "decode_rune b0 (cs @ bs) = (r, Suc (length cs))"
    by (auto simp: encode_rune_def)
  then show ?thesis by simp
qed

lemma encode_rune_bytes: "\<forall>b \<in> set (encode_rune r). b < 256"
proof -
  have "valid_rune q \<Longrightarrow> \<forall>b \<in> set (encode_valid q). b < 256" for q
    by (auto simp: encode_valid_def valid_rune_def)
  from this[of r] this[of runeError] show ?thesis by (simp add: encode_rune_def)
qed

lemma to_runes_of_runes:
  assumes "list_all valid_rune rs"
  shows "to_runes (of_runes rs) = rs"
proof -
  have "map of_char (map char_of (concat (map encode_rune rs)) :: string) = concat (map encode_rune rs)"
    using encode_rune_bytes by (induction rs) (auto intro!: map_idI simp: comp_def)
  moreover have "decode_runes (concat (map encode_rune rs)) = rs"
    using assms by (induction rs) (simp_all add: decode_runes_encode)
  ultimately show ?thesis by (simp add: to_runes_def of_runes_def)
qed

lemma valid_three:
  assumes "0xE0 \<le> b0" "b0 \<le> 0xEF" "second_ok b0 b1" "cont_byte b2"
  shows "valid_rune ((b0 - 0xE0) * 4096 + (b1 - 0x80) * 64 + (b2 - 0x80))"
proof -
  define x y z where "x = b0 - 0xE0" and "y = b1 - 0x80" and "z = b2 - 0x80"
  have b: "y \<le> 63" "z \<le> 63" "x \<le> 15"
    using second_ok_range[OF assms(3)] assms(1,2,4) unfolding x_def y_def z_def cont_byte_def by linarith+
  have s: "y \<le> 31" if "x = 13"
  proof -
    from that assms(1) have "b0 = 0xED" unfolding x_def by linarith
    with assms(3) show ?thesis by (auto simp: second_ok_def y_def)
  qed
  consider "x \<le> 12" | "x = 13" | "14 \<le> x" by linarith
  then have "valid_rune (x * 4096 + y * 64 + z)"
    using b s unfolding valid_rune_def by cases linarith+
  then show ?thesis by (simp add: x_def y_def z_def)
qed

lemma valid_four:
  assumes "0xF0 \<le> b0" "b0 \<le> 0xF4" "second_ok b0 b1" "cont_byte b2" "cont_byte b3"
  shows "valid_rune ((b0 - 0xF0) * 262144 + (b1 - 0x80) * 4096 + (b2 - 0x80) * 64 + (b3 - 0x80))"
proof -
  define x y z w where "x = b0 - 0xF0" and "y = b1 - 0x80" and "z = b2 - 0x80" and "w = b3 - 0x80"
  have b: "y \<le> 63" "z \<le> 63" "w \<le> 63" "x \<le> 4"
    using second_ok_range[OF assms(3)] assms(1,2,4,5) unfolding x_def y_def z_def w_def cont_byte_def
    by linarith+
  have s: "16 \<le> y" if "x = 0"
  proof -
    from that assms(1) have "b0 = 0xF0" unfolding x_def by linarith
    with assms(3) show ?thesis by (auto simp: second_ok_def y_def)
  qed
  have t: "y \<le> 15" if "x = 4"
  proof -
    from that assms(1) have "b0 = 0xF4" unfolding x_def by linarith
    with assms(3) show ?thesis by (auto simp: second_ok_def y_def)
  qed
  consider "x = 0" | "1 \<le> x" "x \<le> 3" | "x = 4" using b(4) by linarith
  then have "valid_rune (x * 262144 + y * 4096 + z * 64 + w)"
    using b s t unfolding valid_rune_def by cases linarith+
  then show ?thesis by (simp add: x_def y_def z_def w_def)
qed

lemma decode_rune_valid: "valid_rune (fst (decode_rune b0 bs))"
proof -
  have "b0 < 0x80 \<Longrightarrow> valid_rune b0" by (simp add: valid_rune_def)
  moreover have "0xC2 \<le> b0 \<and> b0 \<le> 0xDF \<and> second_ok b0 b1 \<Longrightarrow> valid_rune ((b0 - 0xC0) * 64 + (b1 - 0x80))" for b1
    by (auto simp: second_ok_def cont_byte_def valid_rune_def)
  ultimately show ?thesis
    unfolding decode_rune_def by (simp add: valid_three valid_four)
qed

lemma decode_runes_valid: "list_all valid_rune (decode_runes bs)"
  by (induction bs rule: decode_runes.induct) (simp_all add: decode_rune_valid)

lemma to_runes_valid: "list_all valid_rune (to_runes s)"
  by (simp add: to_runes_def decode_runes_valid)

section \<open>Truncation\<close>

definition ellipsis :: string where "ellipsis = uni [0x2026]"

definition safeTrunc :: "string \<Rightarrow> nat \<Rightarrow> string" where
  "safeTrunc s m =
     (if length (to_runes s) \<le> m then s else of_runes (take (m - 1) (to_runes s)) @ ellipsis)"

definition rune_count :: "string \<Rightarrow> nat" where
  "rune_count s = length (to_runes s)"

lemma of_runes_append: "of_runes (xs @ ys) = of_runes xs @ of_runes ys"
  by (simp add: of_runes_def)

lemma safeTrunc_fits: "0 < m \<Longrightarrow> rune_count (safeTrunc s m) \<le> m"
proof (cases "length (to_runes s) \<le> m")
  case False
  let ?rs = "take (m - 1) (to_runes s) @ [0x2026]"
  assume "0 < m"
  have "list_all valid_rune ?rs"
    using to_runes_valid[of s] by (auto simp: list_all_iff valid_rune_def dest: in_set_takeD)
  then have "to_runes (of_runes ?rs) = ?rs" by (rule to_runes_of_runes)
  with False \<open>0 < m\<close> show ?thesis
    by (simp add: safeTrunc_def rune_count_def ellipsis_def of_runes_append)
qed (simp add: safeTrunc_def rune_count_def)

lemma safeTrunc_id: "rune_count s \<le> m \<Longrightarrow> safeTrunc s m = s"
  by (simp add: safeTrunc_def rune_count_def)

end
