(* ===== verification/Block_Kit.thy ===== *)
theory Block_Kit
  imports Go_Runes Slack_Buttons
begin

text \<open>
  The messages the gateway shows in Slack: \<open>payload.go\<close>, \<open>blockkit.go\<close>, \<open>validate.go\<close>,
  \<open>dispatch_confirmation.go\<close> and \<open>approval_request.go\<close> of \<open>internal/adapter/output/slack\<close>.  Texts are
  UTF-8 byte strings, their fixed parts given as code points.  The rendered time stamps of the
  approval message are an argument.
\<close>

section \<open>Payloads\<close>

record text_obj =
  to_Type :: string
  to_Text :: string
  to_Emoji :: bool

record accessory =
  ac_Type :: string
  ac_ImageURL :: string
  ac_AltText :: string

record confirm_dialog =
  cd_Title :: text_obj
  cd_Text :: text_obj
  cd_Confirm :: text_obj
  cd_Deny :: text_obj

record button =
  bt_Type :: string
  bt_ActionID :: string
  bt_Style :: string
  bt_Text :: text_obj
  bt_Value :: string
  bt_Confirm :: "confirm_dialog option"

definition BlockTypeSection :: string where [go_consts]: "BlockTypeSection = ''section''"
definition BlockTypeActions :: string where [go_consts]: "BlockTypeActions = ''actions''"
definition BlockTypeHeader :: string where [go_consts]: "BlockTypeHeader = ''header''"
definition BlockTypeDivider :: string where [go_consts]: "BlockTypeDivider = ''divider''"

record block =
  bl_Type :: string
  bl_Text :: "text_obj option"
  bl_Accessory :: "accessory option"
  bl_Elements :: "button list"

record slack_payload =
  py_ReplaceOriginal :: bool
  py_ResponseType :: string
  py_Text :: string
  py_Blocks :: "block list"

definition Mrkdwn :: "string \<Rightarrow> text_obj" where
  "Mrkdwn s = \<lparr>to_Type = ''mrkdwn'', to_Text = s, to_Emoji = False\<rparr>"

definition PlainText :: "string \<Rightarrow> text_obj" where
  "PlainText s = \<lparr>to_Type = ''plain_text'', to_Text = s, to_Emoji = True\<rparr>"

definition SectionBlock :: "string \<Rightarrow> block" where
  "SectionBlock s =
     \<lparr>bl_Type = BlockTypeSection, bl_Text = Some (Mrkdwn s), bl_Accessory = None, bl_Elements = []\<rparr>"

definition SectionBlockWithAccessory :: "string \<Rightarrow> string \<Rightarrow> string \<Rightarrow> block" where
  "SectionBlockWithAccessory s imageURL altText =
     \<lparr>bl_Type = BlockTypeSection, bl_Text = Some (Mrkdwn s),
      bl_Accessory = Some \<lparr>ac_Type = ''image'', ac_ImageURL = imageURL, ac_AltText = altText\<rparr>,
      bl_Elements = []\<rparr>"

definition HeaderBlock :: "string \<Rightarrow> block" where
  "HeaderBlock s =
     \<lparr>bl_Type = BlockTypeHeader, bl_Text = Some (PlainText s), bl_Accessory = None, bl_Elements = []\<rparr>"

definition DividerBlock :: block where
  "DividerBlock = \<lparr>bl_Type = BlockTypeDivider, bl_Text = None, bl_Accessory = None, bl_Elements = []\<rparr>"

definition ActionsBlock :: "button list \<Rightarrow> block" where
  "ActionsBlock bs =
     \<lparr>bl_Type = BlockTypeActions, bl_Text = None, bl_Accessory = None, bl_Elements = bs\<rparr>"

definition NewButton :: "string \<Rightarrow> string \<Rightarrow> string \<Rightarrow> string \<Rightarrow> button" where
  "NewButton actionID label v style =
     \<lparr>bt_Type = ''button'', bt_ActionID = actionID, bt_Style = style, bt_Text = PlainText label,
      bt_Value = v, bt_Confirm = None\<rparr>"

definition WithConfirm :: "button \<Rightarrow> string \<Rightarrow> string \<Rightarrow> string \<Rightarrow> string \<Rightarrow> button" where
  "WithConfirm b title txt confirm deny =
     b\<lparr>bt_Confirm := Some
         \<lparr>cd_Title = \<lparr>to_Type = ''plain_text'', to_Text = title, to_Emoji = False\<rparr>,
          cd_Text = Mrkdwn txt,
          cd_Confirm = \<lparr>to_Type = ''plain_text'', to_Text = confirm, to_Emoji = False\<rparr>,
          cd_Deny = \<lparr>to_Type = ''plain_text'', to_Text = deny, to_Emoji = False\<rparr>\<rparr>\<rparr>"

definition ReplacePayload :: "block list \<Rightarrow> slack_payload" where
  "ReplacePayload bs =
     \<lparr>py_ReplaceOriginal = True, py_ResponseType = [], py_Text = [], py_Blocks = bs\<rparr>"

definition TextPayload :: "string \<Rightarrow> slack_payload" where
  "TextPayload s =
     \<lparr>py_ReplaceOriginal = True, py_ResponseType = [], py_Text = s, py_Blocks = []\<rparr>"

definition EphemeralPayload :: "string \<Rightarrow> slack_payload" where
  "EphemeralPayload s =
     \<lparr>py_ReplaceOriginal = False, py_ResponseType = ''ephemeral'', py_Text = s, py_Blocks = []\<rparr>"

section \<open>Validation\<close>

definition maxHeaderText :: nat where "maxHeaderText = 150"
definition maxSectionText :: nat where "maxSectionText = 3000"
definition maxButtonValue :: nat where "maxButtonValue = 2000"
definition maxButtonLabel :: nat where "maxButtonLabel = 75"

datatype validate_error =
    EmptyPayload
  | HeaderTooLong nat
  | SectionTooLong nat
  | MissingActionID nat nat
  | DuplicateActionID nat string
  | ValueTooLong nat nat nat
  | LabelTooLong nat nat nat

fun validateButtons :: "nat \<Rightarrow> nat \<Rightarrow> string set \<Rightarrow> button list \<Rightarrow> validate_error option" where
  "validateButtons blockIdx i seen [] = None"
| "validateButtons blockIdx i seen (btn # btns) =
     (if bt_ActionID btn = [] then Some (MissingActionID blockIdx i)
      else if bt_ActionID btn \<in> seen then Some (DuplicateActionID blockIdx (bt_ActionID btn))
      else if length (bt_Value btn) > maxButtonValue
      then Some (ValueTooLong blockIdx i (length (bt_Value btn)))
      else if rune_count (to_Text (bt_Text btn)) > maxButtonLabel
      then Some (LabelTooLong blockIdx i (rune_count (to_Text (bt_Text btn))))
      else validateButtons blockIdx (Suc i) (insert (bt_ActionID btn) seen) btns)"

definition validateActions :: "button list \<Rightarrow> nat \<Rightarrow> validate_error option" where
  "validateActions buttons blockIdx = validateButtons blockIdx 0 {} buttons"

definition validateBlock :: "block \<Rightarrow> nat \<Rightarrow> validate_error option" where
  "validateBlock b idx =
     (if bl_Type b = BlockTypeHeader then
        (case bl_Text b of
           Some t \<Rightarrow> if rune_count (to_Text t) > maxHeaderText then Some (HeaderTooLong idx) else None
         | None \<Rightarrow> None)
      else if bl_Type b = BlockTypeSection then
        (case bl_Text b of
           Some t \<Rightarrow> if rune_count (to_Text t) > maxSectionText then Some (SectionTooLong idx) else None
         | None \<Rightarrow> None)
      else if bl_Type b = BlockTypeActions then validateActions (bl_Elements b) idx
      else None)"

fun validateBlocks :: "nat \<Rightarrow> block list \<Rightarrow> validate_error option" where
  "validateBlocks i [] = None"
| "validateBlocks i (b # bs) =
     (case validateBlock b i of Some e \<Rightarrow> Some e | None \<Rightarrow> validateBlocks (Suc i) bs)"

definition Validate :: "slack_payload \<Rightarrow> validate_error option" where
  "Validate p =
     (if py_Text p = [] \<and> py_Blocks p = [] then Some EmptyPayload else validateBlocks 0 (py_Blocks p))"

section \<open>Deployment messages\<close>

definition environmentImages :: "string \<Rightarrow> string option" where
  "environmentImages = map_of
     [(''production'', ''https://placehold.co/75x75/FF0000/FFFFFF?text=PROD''),
      (''staging'', ''https://placehold.co/75x75/FFA500/FFFFFF?text=STG''),
      (''development'', ''https://placehold.co/75x75/008000/FFFFFF?text=DEV'')]"

definition DefaultEnvironmentImage :: string where
  "DefaultEnvironmentImage = ''https://placehold.co/75x75/808080/FFFFFF?text=ENV''"

definition EnvironmentImageURL :: "string \<Rightarrow> string" where
  "EnvironmentImageURL envName =
     (case environmentImages envName of Some url \<Rightarrow> url | None \<Rightarrow> DefaultEnvironmentImage)"

record deployment_payload =
  dp_Environment :: string
  dp_ResourceType :: string
  dp_ResourceName :: string
  dp_Target :: string
  dp_Action :: string
  dp_BuildInfo :: string
  dp_IssuedAt :: int
  dp_ApproveValue :: string
  dp_DenyValue :: string
  dp_RequireConfirm :: bool

definition confirm_migration :: "button \<Rightarrow> button" where
  "confirm_migration b = WithConfirm b
     (uni [0x7D9A, 0x884C, 0x3057, 0x307E, 0x3059, 0x304B, 0xFF1F])
     (''DB'' @ uni [0x30DE, 0x30A4, 0x30B0, 0x30EC, 0x30FC, 0x30B7, 0x30E7, 0x30F3, 0x3092, 0x5B9F,
         0x65BD, 0x3057, 0x307E, 0x3057, 0x305F, 0x304B, 0xFF1F, 0x672A, 0x5B9F, 0x65BD, 0x306E,
         0x5834, 0x5408, 0x306F, 0x5148, 0x306B, 0x5B9F, 0x884C, 0x3057, 0x3066, 0x304F, 0x3060,
         0x3055, 0x3044, 0x3002])
     (uni [0x306F, 0x3044, 0x3001, 0x7D9A, 0x884C, 0x3057, 0x307E, 0x3059])
     (uni [0x30AD, 0x30E3, 0x30F3, 0x30BB, 0x30EB])"

text \<open>\<open>rfc3339\<close> renders a time given in nanoseconds.\<close>

definition BuildApprovalMessage :: "(int \<Rightarrow> string) \<Rightarrow> deployment_payload \<Rightarrow> slack_payload" where
  "BuildApprovalMessage rfc3339 p =
     (let expiry = dp_IssuedAt p + 7200000000000;
          detail = (''*'' @ uni [0x74B0,
              0x5883] @ '':* `'') @ safeTrunc (dp_Environment p) 50 @ (''`'' @ [nl]) @
            (''*'' @ uni [0x30EA, 0x30BD, 0x30FC, 0x30B9, 0x7A2E,
                0x5225] @ '':* '') @ safeTrunc (dp_ResourceType p) 20 @ [nl] @
            (''*'' @ uni [0x30EA, 0x30BD, 0x30FC, 0x30B9,
                0x540D] @ '':* `'') @ safeTrunc (dp_ResourceName p) 500 @ (''`'' @ [nl]) @
            (''*'' @ uni [0x5BFE, 0x8C61] @ '':* `'') @ safeTrunc (dp_Target p) 500 @ (''`'' @ [nl]) @
            (''*'' @ uni [0x30A2, 0x30AF, 0x30B7, 0x30E7,
                0x30F3] @ '':* '') @ safeTrunc (dp_Action p) 50 @ [nl] @
            (''*'' @ uni [0x30D3, 0x30EB, 0x30C9] @ '':* '') @ safeTrunc (dp_BuildInfo p) 200 @ [nl] @
            (''*'' @ uni [0x767A, 0x884C] @ '':* '') @ rfc3339 (dp_IssuedAt p) @ [nl] @
            (''*'' @ uni [0x6709, 0x52B9, 0x671F, 0x9650] @ '':* '') @ rfc3339 expiry;
          approve = NewButton ''approve'' (uni [0x2705] @ '' Approve'') (dp_ApproveValue p) ''primary'';
          approve = (if dp_RequireConfirm p then confirm_migration approve else approve);
          deny = NewButton ''deny'' (uni [0x1F6AB] @ '' Deny'') (dp_DenyValue p) ''danger''
      in \<lparr>py_ReplaceOriginal = False, py_ResponseType = [], py_Text = [],
          py_Blocks =
            [HeaderBlock (uni [0x1F680] @ '' '' @ uni [0x30C7, 0x30D7, 0x30ED, 0x30A4, 0x627F,
                0x8A8D, 0x30EA, 0x30AF, 0x30A8, 0x30B9, 0x30C8]),
             SectionBlockWithAccessory detail (EnvironmentImageURL (dp_Environment p))
               (dp_Environment p @ '' environment''),
             DividerBlock, ActionsBlock [approve, deny]]\<rparr>)"

definition BuildCompletionMessage :: "string \<Rightarrow> string \<Rightarrow> string \<Rightarrow> slack_payload" where
  "BuildCompletionMessage approverID summary envName =
     (let body = (uni [0x2705] @ '' *'' @ uni [0x627F, 0x8A8D, 0x6E08, 0x307F, 0x30FB, 0x5B9F,
         0x884C, 0x5B8C, 0x4E86] @ ''*'' @ [nl]) @ safeTrunc summary (maxSectionText - 80) @
            ([nl] @ uni [0x627F, 0x8A8D, 0x8005] @ '': <@'') @ approverID @ ''>''
      in ReplacePayload
           [SectionBlockWithAccessory body (EnvironmentImageURL envName) (envName @ '' environment'')])"

definition BuildDenialMessage :: "string \<Rightarrow> string \<Rightarrow> slack_payload" where
  "BuildDenialMessage denierID summary =
     (let body = (uni [0x1F6AB] @ '' *'' @ uni [0x62D2, 0x5426, 0x6E08,
         0x307F] @ ''*'' @ [nl]) @ safeTrunc summary (maxSectionText - 80) @
            ([nl] @ uni [0x62D2, 0x5426, 0x8005] @ '': <@'') @ denierID @ ''>''
      in ReplacePayload [SectionBlock body])"

text \<open>A nil request is \<open>None\<close>.\<close>

fun pickBuildInfo :: "approval_request option list \<Rightarrow> string" where
  "pickBuildInfo [] = []"
| "pickBuildInfo (r # rs) =
     (case r of
        Some q \<Rightarrow> if ar_BuildInfo q \<noteq> [] then ar_BuildInfo q else pickBuildInfo rs
      | None \<Rightarrow> pickBuildInfo rs)"

fun pickApproverID :: "approval_request option list \<Rightarrow> string" where
  "pickApproverID [] = []"
| "pickApproverID (r # rs) =
     (case r of
        Some q \<Rightarrow> if ar_ApproverID q \<noteq> [] then ar_ApproverID q else pickApproverID rs
      | None \<Rightarrow> pickApproverID rs)"

definition progressActionValue :: "approval_request \<Rightarrow> json" where
  "progressActionValue req =
     JObj ([(''project'', JStr (ar_Project req)), (''location'', JStr (ar_Location req)),
            (''resource_type'', JStr (ar_ResourceType req)),
            (''resource_names'', JStr (ar_ResourceNames req)), (''targets'', JStr (ar_Targets req)),
            (''action'', JStr (ar_Action req)), (''issued_at'', JInt (sint (ar_IssuedAt req))),
            (''migration_done'', JBool (ar_MigrationDone req))] @
           opt_member ''next_service_names'' (ar_NextServiceNames req) @
           opt_member ''next_revisions'' (ar_NextRevisions req) @
           opt_member ''next_action'' (ar_NextAction req) @
           opt_member ''build_info'' (ar_BuildInfo req))"

definition marshalActionValue :: "slack_codec \<Rightarrow> approval_request \<Rightarrow> string" where
  "marshalActionValue C req = CompressButtonValue C (sl_marshal C (progressActionValue req))"

definition canaryBtnLabel :: "approval_request \<Rightarrow> string" where
  "canaryBtnLabel req =
     (if ar_Action req = migrate_apply_name then (uni [0x1F504] @ '' '' @ uni [0x30DE, 0x30A4,
         0x30B0, 0x30EC, 0x30FC, 0x30B7, 0x30E7, 0x30F3, 0x518D, 0x8A66, 0x884C])
      else case ParseAction (ar_Action req) of
        Inl _ \<Rightarrow> (uni [0x2705] @ '' Canary'')
      | Inr act \<Rightarrow>
          if act_Percent act = 0 then (uni [0x2705] @ '' Canary'')
          else (uni [0x2705] @ '' '') @ show_int (act_Percent act) @ (''% '' @ uni [0x306B, 0x6607, 0x683C]))"

definition BuildProgressMessage ::
  "slack_codec \<Rightarrow> string \<Rightarrow> approval_request option \<Rightarrow> approval_request option \<Rightarrow> slack_payload" where
  "BuildProgressMessage C summary nextReq stopReq =
     (let buildInfo = pickBuildInfo [nextReq, stopReq];
          approver = pickApproverID [nextReq, stopReq];
          body = summary @
            (if buildInfo \<noteq> [] then ([nl] @ ''*Build:* '') @ safeTrunc buildInfo 200 else []) @
            (if approver \<noteq> [] then ([nl] @ ''*'' @ uni [0x64CD,
                0x4F5C] @ '':* <@'') @ safeTrunc approver 80 @ ''>'' else []);
          section = SectionBlock (safeTrunc body maxSectionText)
      in ReplacePayload
           (case nextReq of
              None \<Rightarrow> [section]
            | Some nr \<Rightarrow>
                [section, ActionsBlock
                   (NewButton ''approve'' (canaryBtnLabel nr) (marshalActionValue C nr) ''primary'' #
                    (case stopReq of
                       None \<Rightarrow> []
                     | Some sr \<Rightarrow>
                         if ar_Action sr \<noteq> rollback_name
                         then [NewButton ''deny'' (uni [0x1F6AB] @ '' Deny'') (marshalActionValue C sr) ''danger'']
                         else [NewButton ''approve_rollback'' (uni [0x1F6D1] @ '' '' @ uni [0x505C,
                             0x6B62, 0x30FB, 0x30ED, 0x30FC, 0x30EB, 0x30D0, 0x30C3, 0x30AF])
                                 (marshalActionValue C sr) ''danger'']))]))"

definition BuildInitialApprovalMessage ::
  "slack_codec \<Rightarrow> string \<Rightarrow> approval_request option \<Rightarrow> approval_request option \<Rightarrow>
   approval_request option \<Rightarrow> slack_payload" where
  "BuildInitialApprovalMessage C errMsg jobReq svcReq denyReq =
     (let headerText = (uni [0x1F501] @ '' '' @ uni [0x64CD, 0x4F5C, 0x3092, 0x6700, 0x521D, 0x304B,
         0x3089, 0x3084, 0x308A, 0x76F4, 0x3057, 0x3066, 0x304F, 0x3060, 0x3055, 0x3044]);
          buildInfo = pickBuildInfo [jobReq, svcReq, denyReq];
          approver = pickApproverID [jobReq, svcReq, denyReq];
          body = safeTrunc errMsg (maxSectionText - 400) @
            (case svcReq of
               Some s \<Rightarrow> ([nl, nl] @ ''*Revision(s):* `'') @ safeTrunc (ar_Targets s) 500 @ ''`''
             | None \<Rightarrow> []) @
            (if buildInfo \<noteq> [] then ([nl] @ ''*Build:* '') @ safeTrunc buildInfo 200 else []) @
            (if approver \<noteq> [] then ([nl] @ ''*'' @ uni [0x64CD,
                0x4F5C] @ '':* <@'') @ safeTrunc approver 80 @ ''>'' else []);
          buttons =
            (case jobReq of
               Some j \<Rightarrow> [NewButton ''approve_job'' (''1. DB Migration '' @ uni [0x2192] @ '' Canary'') (marshalActionValue C j) ''danger'']
             | None \<Rightarrow> []) @
            (case svcReq of
               Some s \<Rightarrow> [confirm_migration (NewButton ''approve_service'' ''2. Canary (skip migration)''
                            (marshalActionValue C s) ''primary'')]
             | None \<Rightarrow> []) @
            (case denyReq of
               Some d \<Rightarrow> [NewButton ''deny'' (uni [0x1F6D1] @ '' Deny'') (marshalActionValue C d) ''danger'']
             | None \<Rightarrow> [])
      in ReplacePayload
           ([HeaderBlock (safeTrunc headerText maxHeaderText), SectionBlock body] @
            (if buttons \<noteq> [] then [ActionsBlock buttons] else [])))"

section \<open>Dispatch and approval prompts\<close>

record dispatch_confirmation =
  dc_Role :: string
  dc_Text :: string
  dc_RequesterID :: string
  dc_IdempotencyKey :: string
  dc_ProjectID :: string
  dc_ApproveValue :: string
  dc_DenyValue :: string

definition BuildDispatchConfirmation :: "dispatch_confirmation \<Rightarrow> slack_payload" where
  "BuildDispatchConfirmation p =
     (let detail = (''*'' @ uni [0x30A8, 0x30FC, 0x30B8, 0x30A7, 0x30F3,
         0x30C8] @ '':* `'') @ safeTrunc (dc_Role p) 50 @ (''`'' @ [nl]) @
            (''*'' @ uni [0x4F9D, 0x983C,
                0x8005] @ '':* <@'') @ safeTrunc (dc_RequesterID p) 50 @ (''>'' @ [nl]) @
            (if dc_ProjectID p \<noteq> [] then ''*Project:* `'' @ safeTrunc (dc_ProjectID p) 64 @ (''`'' @ [nl]) else []) @
            (''*'' @ uni [0x6307, 0x793A, 0x5185,
                0x5BB9] @ '':* `'') @ safeTrunc (dc_Text p) 500 @ (''`'' @ [nl]) @
            (''*'' @ uni [0x4F9D, 0x983C] @ ''ID:* `'') @ safeTrunc (dc_IdempotencyKey p) 64 @ ''`'';
          approve = WithConfirm
            (NewButton ''dispatch_approve'' (uni [0x2705] @ '' Dispatch'') (dc_ApproveValue p) ''primary'')
            (uni [0x3053, 0x306E] @ '' dispatch '' @ uni [0x3092, 0x5B9F, 0x884C, 0x3057, 0x307E,
                0x3059, 0x304B] @ ''?'')
            (''AI agent '' @ uni [0x304C, 0x627F, 0x8A8D, 0x5F8C, 0x3059, 0x3050, 0x306B, 0x4F5C,
                0x696D, 0x3092, 0x958B, 0x59CB, 0x3057, 0x307E, 0x3059, 0x3002, 0x8AA4, 0x5165,
                0x529B, 0x3067, 0x306A, 0x3044, 0x304B, 0x5FC5, 0x305A, 0x78BA, 0x8A8D, 0x3057,
                0x3066, 0x304F, 0x3060, 0x3055, 0x3044, 0x3002])
            (uni [0x306F, 0x3044, 0x3001, 0x5B9F, 0x884C, 0x3057, 0x307E, 0x3059])
            (uni [0x30AD, 0x30E3, 0x30F3, 0x30BB, 0x30EB]);
          deny = NewButton ''dispatch_deny'' (uni [0x1F6AB] @ '' Cancel'') (dc_DenyValue p) ''danger''
      in \<lparr>py_ReplaceOriginal = False, py_ResponseType = ''ephemeral'', py_Text = [],
          py_Blocks =
            [HeaderBlock (uni [0x1F916] @ '' '' @ uni [0x30A8, 0x30FC, 0x30B8, 0x30A7, 0x30F3,
                0x30C8] @ '' dispatch '' @ uni [0x306E, 0x78BA, 0x8A8D]), SectionBlock detail, DividerBlock,
             ActionsBlock [approve, deny]]\<rparr>)"

record approval_prompt =
  aq_Source :: string
  aq_Target :: string
  aq_OriginalRequesterID :: string
  aq_ParentIdempotencyKey :: string
  aq_Body :: string
  aq_ApproveValue :: string
  aq_DenyValue :: string

definition BuildApprovalRequest :: "approval_prompt \<Rightarrow> slack_payload" where
  "BuildApprovalRequest p =
     (let detail = ''*Source:* `'' @ safeTrunc (aq_Source p) 50 @ (''`'' @ [nl]) @
            ''*Target:* `'' @ safeTrunc (aq_Target p) 50 @ (''`'' @ [nl]) @
            ''*Original Requester:* <@'' @ safeTrunc (aq_OriginalRequesterID p) 50 @ ''> '' @
            (''_(must NOT be the approver '' @ uni [0x2014] @ '' 4-eyes)_'') @ [nl] @
            ''*Parent ID:* `'' @ safeTrunc (aq_ParentIdempotencyKey p) 64 @ ''`'';
          bodyPreview = safeTrunc (aq_Body p) (maxSectionText - 200);
          approve = WithConfirm
            (NewButton ''approval_approve'' (uni [0x2705] @ '' Approve'') (aq_ApproveValue p) ''primary'')
            (uni [0x3053, 0x306E] @ '' HIGH severity '' @ uni [0x3092, 0x627F, 0x8A8D, 0x3057,
                0x307E, 0x3059, 0x304B] @ ''?'')
            (uni [0x627F, 0x8A8D, 0x3059, 0x308B, 0x3068, 0x3001] @ ''5'' @ uni [0x672C, 0x67F1,
                0x306E, 0x5F8C, 0x7D9A, 0x51E6, 0x7406, 0x304C, 0x9032, 0x307F, 0x307E, 0x3059,
                0x3002, 0x5143] @ '' dispatch '' @ uni [0x767A, 0x884C, 0x8005, 0x306F, 0x627F,
                0x8A8D, 0x3067, 0x304D, 0x307E, 0x305B, 0x3093, 0x3002])
            (uni [0x306F, 0x3044, 0x3001, 0x627F, 0x8A8D, 0x3057, 0x307E, 0x3059])
            (uni [0x30AD, 0x30E3, 0x30F3, 0x30BB, 0x30EB]);
          deny = NewButton ''approval_deny'' (uni [0x1F6AB] @ '' Deny'') (aq_DenyValue p) ''danger''
      in \<lparr>py_ReplaceOriginal = False, py_ResponseType = [], py_Text = [],
          py_Blocks =
            [HeaderBlock (uni [0x1F6A8] @ '' HIGH severity '' @ uni [0x627F, 0x8A8D, 0x30EA, 0x30AF,
                0x30A8, 0x30B9, 0x30C8] @ '' (4-eyes)''), SectionBlock detail, DividerBlock,
             SectionBlock ((''*'' @ uni [0x8A73,
                 0x7D30] @ '':*'' @ [nl]) @ bodyPreview), DividerBlock, ActionsBlock [approve, deny]]\<rparr>)"

end
