(* ===== verification/Slack_Command.thy ===== *)
theory Slack_Command
  imports Slack_Interactive Block_Kit Project_Registry
begin

text \<open>
  The slash command \<open>/agent\<close> and the dispatch it leads to: \<open>internal/adapter/input/slack/command.go\<close>,
  \<open>internal/usecase/dispatch_agent_task.go\<close> and the two dispatchers of
  \<open>internal/adapter/output/dispatcher\<close>.  The command only answers with a confirmation; the dispatch
  runs when its button is clicked.  Random bytes are an argument.
\<close>

section \<open>The command text\<close>

function go_fields :: "string \<Rightarrow> string \<Rightarrow> string list" where
  "go_fields acc s =
     (case strip_one go_spaces s of
        Some s' \<Rightarrow> (if acc = [] then [] else [acc]) @ go_fields [] s'
      | None \<Rightarrow>
          (case s of
             [] \<Rightarrow> (if acc = [] then [] else [acc])
           | c # s' \<Rightarrow> go_fields (acc @ [c]) s'))"
  by pat_completeness auto
termination
  by (relation "measure (\<lambda>(acc, s). length s)") (auto dest: strip_one_shorter)

declare go_fields.simps [simp del]

definition Fields :: "string \<Rightarrow> string list" where
  "Fields s = go_fields [] s"

definition containsProjectFlag :: "string \<Rightarrow> bool" where
  "containsProjectFlag s \<longleftrightarrow>
     list_ex (\<lambda>tok. tok = ''--project'' \<or> prefix ''--project='' tok) (Fields s)"

datatype command_error =
    EmptyProjectValue
  | InvalidProjectValue project_error
  | MissingText
  | MissingValueAndText
  | MultipleProjectFlags

record command_text =
  cmd_role :: string
  cmd_project :: string
  cmd_text :: string

text \<open>\<open>SplitN(s, " ", 2)\<close>: the part before the first blank, and what follows it, if any.\<close>

definition split_head :: "string \<Rightarrow> string \<times> string option" where
  "split_head s = (case cut_chr CHR '' '' s of None \<Rightarrow> (s, None) | Some (a, b) \<Rightarrow> (a, Some b))"

definition parseSlashCommandText :: "string \<Rightarrow> command_error + command_text" where
  "parseSlashCommandText s =
     (let trimmed = trim_space s
      in if trimmed = [] then Inr \<lparr>cmd_role = [], cmd_project = [], cmd_text = []\<rparr>
         else case split_head trimmed of
           (role, None) \<Rightarrow> Inr \<lparr>cmd_role = role, cmd_project = [], cmd_text = []\<rparr>
         | (role, Some following) \<Rightarrow>
             (let rest = trim_space following;
                  (head, after) = split_head rest;
                  tail = (case after of None \<Rightarrow> [] | Some t \<Rightarrow> trim_space t)
              in if prefix ''--project='' head then
                   (let val = trim_prefix head ''--project=''
                    in if val = [] then Inl EmptyProjectValue
                       else case ValidateProjectID val of
                         Some e \<Rightarrow> Inl (InvalidProjectValue e)
                       | None \<Rightarrow>
                           if tail = [] then Inl MissingText
                           else if containsProjectFlag tail then Inl MultipleProjectFlags
                           else Inr \<lparr>cmd_role = role, cmd_project = val, cmd_text = tail\<rparr>)
                 else if head = ''--project'' then
                   (if tail = [] then Inl MissingValueAndText
                    else
                      (let (val, after_val) = split_head tail
                       in case ValidateProjectID val of
                            Some e \<Rightarrow> Inl (InvalidProjectValue e)
                          | None \<Rightarrow>
                              (case after_val of
                                 None \<Rightarrow> Inl MissingText
                               | Some t \<Rightarrow>
                                   (let remainder = trim_space t
                                    in if remainder = [] then Inl MissingText
                                       else if containsProjectFlag remainder then Inl MultipleProjectFlags
                                       else Inr \<lparr>cmd_role = role, cmd_project = val, cmd_text = remainder\<rparr>))))
                 else Inr \<lparr>cmd_role = role, cmd_project = [], cmd_text = rest\<rparr>))"

section \<open>The command handler\<close>

text \<open>Sixteen random bytes, or the clock when the source of randomness fails.\<close>

definition newIdempotencyKey :: "string option \<Rightarrow> int \<Rightarrow> string" where
  "newIdempotencyKey random now =
     (case random of
        Some b \<Rightarrow> concat (map hex_byte b)
      | None \<Rightarrow> ''t-'' @ show_int now)"

datatype command_note =
    NoteBadForm
  | NoteEmptyCommand
  | NoteCommandError command_error
  | NoteUnknownRole string
  | NoteUsage
  | NoteProjectDisabled
  | NoteProjectNotRegistered string
  | NoteRegistryFailed
  | NoteProjectArchived string

datatype command_reply =
    CommandRefused nat
  | Ephemeral command_note
  | Confirmation slack_payload

text \<open>The request of a slash command; the three form fields come from the body alone.\<close>

definition post_form_value :: "(string \<times> string) list \<Rightarrow> string \<Rightarrow> string" where
  "post_form_value b k = (case map_of b k of None \<Rightarrow> [] | Some v \<Rightarrow> v)"

definition check_project ::
  "(string \<Rightarrow> registry \<Rightarrow> (project_error + project) \<times> registry) option \<Rightarrow> string \<Rightarrow> registry \<Rightarrow>
   command_note option \<times> registry" where
  "check_project getProject projectID reg =
     (if projectID = [] then (None, reg)
      else case getProject of
        None \<Rightarrow> (Some NoteProjectDisabled, reg)
      | Some get \<Rightarrow>
          (let r = get projectID reg
           in (case fst r of
                 Inl e \<Rightarrow> Some (if e = ErrProjectNotFound then NoteProjectNotRegistered projectID
                                else NoteRegistryFailed)
               | Inr p \<Rightarrow> if pj_Status p \<noteq> ProjectStatusActive then Some (NoteProjectArchived projectID) else None,
               snd r)))"

record command_handler =
  ch_signingSecret :: string
  ch_projectRegistry :: "(string \<Rightarrow> registry \<Rightarrow> (project_error + project) \<times> registry) option"

definition command_ServeHTTP ::
  "http_host \<Rightarrow> slack_codec \<Rightarrow> command_handler \<Rightarrow> int \<Rightarrow> string option \<Rightarrow> interactive_request \<Rightarrow> registry \<Rightarrow>
   command_reply \<times> registry" where
  "command_ServeHTTP H C h now random r reg =
     (case iq_Body r of
        None \<Rightarrow> (CommandRefused 400, reg)
      | Some body \<Rightarrow>
          if verifySignatureAt (hh_hmac H) now (iq_Timestamp r) (iq_Signature r) body
               (ch_signingSecret h) \<noteq> None
          then (CommandRefused 401, reg)
          else case (hh_form H body, hh_form H (iq_Query r)) of
            (Some b, Some q) \<Rightarrow>
              (let txt = trim_space (post_form_value b ''text'');
                   userID = post_form_value b ''user_id''
               in if post_form_value b ''command'' = [] then (Ephemeral NoteEmptyCommand, reg)
                  else case parseSlashCommandText txt of
                    Inl e \<Rightarrow> (Ephemeral (NoteCommandError e), reg)
                  | Inr ct \<Rightarrow>
                      (case ParseAgentRole (cmd_role ct) of
                         None \<Rightarrow> (Ephemeral (NoteUnknownRole (cmd_role ct)), reg)
                       | Some role \<Rightarrow>
                           if cmd_text ct = [] then (Ephemeral NoteUsage, reg)
                           else
                             (let (note, reg') = check_project (ch_projectRegistry h) (cmd_project ct) reg
                              in case note of
                                   Some n \<Rightarrow> (Ephemeral n, reg')
                                 | None \<Rightarrow>
                                     (let key = newIdempotencyKey random now;
                                          issuedAt = word_of_int (now div 1000000000);
                                          (approveValue, denyValue) =
                                            buildDispatchButtonValues C role (cmd_text ct) userID key
                                              (cmd_project ct) issuedAt
                                      in (Confirmation (BuildDispatchConfirmation
                                            \<lparr>dc_Role = role, dc_Text = cmd_text ct, dc_RequesterID = userID,
                                             dc_IdempotencyKey = key, dc_ProjectID = cmd_project ct,
                                             dc_ApproveValue = approveValue, dc_DenyValue = denyValue\<rparr>),
                                          reg')))))
          | _ \<Rightarrow> (Ephemeral NoteBadForm, reg))"

section \<open>The dispatch\<close>

datatype dispatch_note =
    NoteDispatchRunning
  | NoteNotAllowed
  | NoteDispatchFailed string
  | NoteDispatchAccepted string string

datatype dispatch_effect =
    DispatchEphemeral notify_target string dispatch_note
  | DispatchUpdate notify_target dispatch_note
  | PublishDMail dmail
  | StubLog string nat string string string int64

record dispatch_world = "dispatch_effect world" +
  dw_store :: memory_store

type_synonym 'a dispatching = "(dispatch_world, 'a) state"

definition newDMailID :: "string option \<Rightarrow> string" where
  "newDMailID random = (case random of Some b \<Rightarrow> concat (map hex_byte b) | None \<Rightarrow> ''rand-fallback'')"

definition opt_entry :: "string \<Rightarrow> string \<Rightarrow> (string \<times> string) list" where
  "opt_entry k v = (if v \<noteq> [] then [(k, v)] else [])"

definition dispatch_mail :: "string option \<Rightarrow> dispatch_request \<Rightarrow> dmail" where
  "dispatch_mail random req =
     \<lparr>dm_ID = newDMailID random, dm_Kind = DMailKindSpecification, dm_Target = dr_Role req,
      dm_Source = ''runops-gateway-slack'', dm_IdempotencyKey = dr_IdempotencyKey req,
      dm_Body = dr_Text req,
      dm_Metadata =
        [(''requester_id'', dr_RequesterID req)] @
        opt_entry ''slack_channel_id'' (dr_SlackChannelID req) @
        opt_entry ''slack_thread_ts'' (dr_SlackThreadTS req) @
        opt_entry ''parent_idempotency_key'' (dr_IdempotencyKey req) @
        opt_entry ''project_id'' (dr_ProjectID req)\<rparr>"

definition pubsub_Dispatch ::
  "dispatch_effect env \<Rightarrow> string option \<Rightarrow> dispatch_request \<Rightarrow> gerror dispatching" where
  "pubsub_Dispatch E random req =
     (if dr_Role req = []
      then State_Monad.return (Some ''pubsub dispatcher: DispatchRequest.Role is required'')
      else
        do { err \<leftarrow> perform E (PublishDMail (dispatch_mail random req));
             State_Monad.return (map_option (\<lambda>e. ''pubsub dispatcher: publish: '' @ e) err) })"

definition textFingerprintLen :: nat where "textFingerprintLen = 8"

text \<open>\<open>digest\<close> is the hexadecimal SHA-256 digest.\<close>

definition textFingerprint :: "(string \<Rightarrow> string) \<Rightarrow> string \<Rightarrow> string" where
  "textFingerprint digest s = take textFingerprintLen (digest s)"

definition stub_Dispatch ::
  "dispatch_effect env \<Rightarrow> (string \<Rightarrow> string) \<Rightarrow> dispatch_request \<Rightarrow> gerror dispatching" where
  "stub_Dispatch E digest req =
     (if dr_Role req = []
      then State_Monad.return (Some ''stub dispatcher: DispatchRequest.Role is required'')
      else
        do { _ \<leftarrow> perform E (StubLog (dr_Role req) (length (dr_Text req)) (textFingerprint digest (dr_Text req))
                     (dr_RequesterID req) (dr_IdempotencyKey req) (dr_IssuedAt req));
             State_Monad.return None })"

datatype dispatch_error =
    DispatchInProgress string
  | UnauthorizedRequester string
  | DispatcherFailed string

definition dispatch_locked ::
  "dispatch_effect env \<Rightarrow> auth_checker \<Rightarrow> (dispatch_request \<Rightarrow> gerror dispatching) \<Rightarrow> dispatch_request \<Rightarrow>
   notify_target \<Rightarrow> dispatch_error option dispatching" where
  "dispatch_locked E chk dispatcher req target =
     (if \<not> IsAuthorized chk (dr_RequesterID req) then
        do { _ \<leftarrow> perform E (DispatchEphemeral target (dr_RequesterID req) NoteNotAllowed);
             State_Monad.return (Some (UnauthorizedRequester (dr_RequesterID req))) }
      else
        do { err \<leftarrow> dispatcher req;
             case err of
               Some e \<Rightarrow>
                 do { _ \<leftarrow> perform E (DispatchUpdate target (NoteDispatchFailed e));
                      State_Monad.return (Some (DispatcherFailed e)) }
             | None \<Rightarrow>
                 do { _ \<leftarrow> perform E (DispatchUpdate target
                         (NoteDispatchAccepted (dr_Role req) (dr_IdempotencyKey req)));
                      State_Monad.return None } })"

definition DispatchAgentTask ::
  "dispatch_effect env \<Rightarrow> auth_checker \<Rightarrow> (dispatch_request \<Rightarrow> gerror dispatching) \<Rightarrow> dispatch_request \<Rightarrow>
   notify_target \<Rightarrow> dispatch_error option dispatching" where
  "DispatchAgentTask E chk dispatcher req target =
     (let key = dispatch_OperationKey req
      in do { ok \<leftarrow> State (\<lambda>w. let (b, s) = TryLock key (dw_store w) in (b, w\<lparr>dw_store := s\<rparr>));
              if \<not> ok then
                do { _ \<leftarrow> perform E (DispatchEphemeral target (dr_RequesterID req) NoteDispatchRunning);
                     State_Monad.return (Some (DispatchInProgress key)) }
              else
                do { r \<leftarrow> dispatch_locked E chk dispatcher req target;
                     _ \<leftarrow> State (\<lambda>w. ((), w\<lparr>dw_store := Release key (dw_store w)\<rparr>));
                     State_Monad.return r } })"

end
