(* ===== verification/Slack_Notify.thy ===== *)
theory Slack_Notify
  imports Block_Kit
begin

text \<open>
  How messages reach Slack: \<open>notifier.go\<close>, \<open>fallback.go\<close> and the posting half of
  \<open>approval_requester.go\<close> of \<open>internal/adapter/output/slack\<close>.  A notifier is a record of its five
  operations over the list of HTTP requests sent so far; the outside answers each request from that
  list.  Errors are texts, because the fallback decides on the text.  Parsing a URL, building a
  request, \<open>%q\<close> quoting and the JSON reader of a reply are arguments.
\<close>

section \<open>HTTP\<close>

record parsed_url =
  pu_Scheme :: string
  pu_Hostname :: string
  pu_Text :: string

datatype chat_content = ChatText string | ChatBlocks "block list"

datatype http_request =
    ResponsePost parsed_url slack_payload
  | ChatPost string string string string chat_content

type_synonym http_log = "http_request list"

record http_world =
  hw_url :: "string \<Rightarrow> string + parsed_url"
  hw_build :: "string \<Rightarrow> gerror"
  hw_quote :: "string \<Rightarrow> string"
  hw_json :: json_text
  hw_do :: "http_log \<Rightarrow> http_request \<Rightarrow> string + nat \<times> string"

definition send :: "http_world \<Rightarrow> http_request \<Rightarrow> http_log \<Rightarrow> (string + nat \<times> string) \<times> http_log" where
  "send W r l = (hw_do W l r, l @ [r])"

definition responseURLHost :: string where "responseURLHost = ''hooks.slack.com''"

fun validate_text :: "http_world \<Rightarrow> validate_error \<Rightarrow> string" where
  "validate_text W EmptyPayload = ''slack validate: payload must have text or blocks''"
| "validate_text W (HeaderTooLong i) =
     ''slack validate: block['' @ show_nat i @ ''] header text exceeds 150 runes''"
| "validate_text W (SectionTooLong i) =
     ''slack validate: block['' @ show_nat i @ ''] section text exceeds 3000 runes''"
| "validate_text W (MissingActionID b i) =
     ''slack validate: block['' @ show_nat b @ ''].elements['' @ show_nat i @ ''] button missing action_id''"
| "validate_text W (DuplicateActionID b a) =
     ''slack validate: block['' @ show_nat b @ ''] duplicate action_id '' @ hw_quote W a @
     ('' '' @ uni [0x2014] @ '' Slack requires unique action_ids per actions block'')"
| "validate_text W (ValueTooLong b i n) =
     ''slack validate: block['' @ show_nat b @ ''].elements['' @ show_nat i @ ''] button value ('' @
     show_nat n @ '' chars) exceeds limit (2000)''"
| "validate_text W (LabelTooLong b i n) =
     ''slack validate: block['' @ show_nat b @ ''].elements['' @ show_nat i @ ''] button label ('' @
     show_nat n @ '' runes) exceeds limit (75)''"

definition notifier_post :: "http_world \<Rightarrow> string \<Rightarrow> slack_payload \<Rightarrow> http_log \<Rightarrow> gerror \<times> http_log" where
  "notifier_post W rawURL payload l =
     (if rawURL = [] then (Some ''slack notifier: response_url is empty'', l)
      else case hw_url W rawURL of
        Inl e \<Rightarrow> (Some (''slack notifier: parse response_url: '' @ e), l)
      | Inr parsed \<Rightarrow>
          if pu_Scheme parsed \<noteq> ''https''
          then (Some (''slack notifier: response_url scheme '' @ hw_quote W (pu_Scheme parsed) @ '' not allowed''), l)
          else if pu_Hostname parsed \<noteq> responseURLHost
          then (Some (''slack notifier: response_url host '' @ hw_quote W (pu_Hostname parsed) @
                  '' not allowed (want '' @ responseURLHost @ '')''), l)
          else case Validate payload of
            Some e \<Rightarrow> (Some (''slack notifier: '' @ validate_text W e), l)
          | None \<Rightarrow>
              (case hw_build W (pu_Text parsed) of
                 Some e \<Rightarrow> (Some (''slack notifier: build request: '' @ e), l)
               | None \<Rightarrow>
                   (let r = send W (ResponsePost parsed payload) l
                    in case fst r of
                         Inl e \<Rightarrow> (Some (''slack notifier: post: '' @ e), snd r)
                       | Inr (status, body) \<Rightarrow>
                           if status \<ge> 300
                           then (Some (''slack notifier: unexpected status '' @ show_nat status @ '': '' @ body), snd r)
                           else (None, snd r))))"

section \<open>The response-URL notifier\<close>

record notifier =
  nf_UpdateMessage :: "notify_target \<Rightarrow> string \<Rightarrow> http_log \<Rightarrow> gerror \<times> http_log"
  nf_ReplaceMessage :: "notify_target \<Rightarrow> string \<Rightarrow> http_log \<Rightarrow> gerror \<times> http_log"
  nf_SendEphemeral :: "notify_target \<Rightarrow> string \<Rightarrow> string \<Rightarrow> http_log \<Rightarrow> gerror \<times> http_log"
  nf_OfferContinuation ::
    "notify_target \<Rightarrow> string \<Rightarrow> approval_request option \<Rightarrow> approval_request option \<Rightarrow> http_log \<Rightarrow>
     gerror \<times> http_log"
  nf_RebuildInitialApproval ::
    "notify_target \<Rightarrow> string \<Rightarrow> approval_request option \<Rightarrow> approval_request option \<Rightarrow>
     approval_request option \<Rightarrow> http_log \<Rightarrow> gerror \<times> http_log"

definition response_UpdateMessage ::
  "http_world \<Rightarrow> notify_target \<Rightarrow> string \<Rightarrow> http_log \<Rightarrow> gerror \<times> http_log" where
  "response_UpdateMessage W target txt l =
     (if nt_Mode target = ModeStdout then (None, l)
      else notifier_post W (nt_CallbackURL target) (TextPayload txt) l)"

definition response_ReplaceMessage ::
  "http_world \<Rightarrow> notify_target \<Rightarrow> string \<Rightarrow> http_log \<Rightarrow> gerror \<times> http_log" where
  "response_ReplaceMessage W target txt l =
     (if nt_Mode target = ModeStdout then (None, l)
      else notifier_post W (nt_CallbackURL target) (ReplacePayload [SectionBlock txt]) l)"

definition response_SendEphemeral ::
  "http_world \<Rightarrow> notify_target \<Rightarrow> string \<Rightarrow> string \<Rightarrow> http_log \<Rightarrow> gerror \<times> http_log" where
  "response_SendEphemeral W target userID txt l =
     (if nt_Mode target = ModeStdout then (None, l)
      else notifier_post W (nt_CallbackURL target) (EphemeralPayload (''<@'' @ userID @ ''> '' @ txt)) l)"

fun buttonValueError :: "slack_codec \<Rightarrow> approval_request option list \<Rightarrow> string option" where
  "buttonValueError C [] = None"
| "buttonValueError C (r # rs) =
     (case r of
        None \<Rightarrow> buttonValueError C rs
      | Some req \<Rightarrow>
          (let v = marshalActionValue C req
           in if length v > maxButtonValue
              then Some ((uni [0x26A0, 0xFE0F] @ '' '' @ uni [0x64CD, 0x4F5C, 0x306F, 0x5B8C, 0x4E86,
                  0x3057, 0x307E, 0x3057, 0x305F, 0x304C, 0x3001, 0x6B21, 0x306E, 0x30B9, 0x30C6,
                  0x30C3, 0x30D7, 0x30DC, 0x30BF, 0x30F3, 0x3092, 0x751F, 0x6210, 0x3067, 0x304D,
                  0x307E, 0x305B, 0x3093, 0x3067, 0x3057, 0x305F, 0x3002]) @
                     (uni [0x30DC, 0x30BF, 0x30F3, 0x5024,
                         0x304C] @ '' '') @ show_nat (length v) @ ('' '' @ uni [0x6587, 0x5B57,
                         0x3067] @ '' Slack '' @ uni [0x306E, 0x4E0A,
                         0x9650] @ '' ('') @ show_nat maxButtonValue @
                     ('' '' @ uni [0x6587, 0x5B57] @ '') '' @ uni [0x3092, 0x8D85, 0x3048, 0x3066,
                         0x3044, 0x307E, 0x3059, 0x3002]) @
                     (uni [0x30B5, 0x30FC, 0x30D3, 0x30B9, 0x6570, 0x3092, 0x6E1B, 0x3089, 0x3057,
                         0x3066, 0x518D, 0x5B9F, 0x884C, 0x3057, 0x3066, 0x304F, 0x3060, 0x3055,
                         0x3044, 0x3002, 0x30EA, 0x30BD, 0x30FC, 0x30B9] @ '': '') @ ar_ResourceNames req)
              else buttonValueError C rs))"

definition response_OfferContinuation ::
  "http_world \<Rightarrow> slack_codec \<Rightarrow> notify_target \<Rightarrow> string \<Rightarrow> approval_request option \<Rightarrow>
   approval_request option \<Rightarrow> http_log \<Rightarrow> gerror \<times> http_log" where
  "response_OfferContinuation W C target summary nextReq stopReq l =
     (if nt_Mode target = ModeStdout then (None, l)
      else case buttonValueError C [nextReq, stopReq] of
        Some errMsg \<Rightarrow> notifier_post W (nt_CallbackURL target) (TextPayload errMsg) l
      | None \<Rightarrow>
          notifier_post W (nt_CallbackURL target) (BuildProgressMessage C summary nextReq stopReq) l)"

definition response_RebuildInitialApproval ::
  "http_world \<Rightarrow> slack_codec \<Rightarrow> notify_target \<Rightarrow> string \<Rightarrow> approval_request option \<Rightarrow>
   approval_request option \<Rightarrow> approval_request option \<Rightarrow> http_log \<Rightarrow> gerror \<times> http_log" where
  "response_RebuildInitialApproval W C target errMsg jobReq svcReq denyReq l =
     (if nt_Mode target = ModeStdout then (None, l)
      else case buttonValueError C [jobReq, svcReq, denyReq] of
        Some m \<Rightarrow> notifier_post W (nt_CallbackURL target) (TextPayload m) l
      | None \<Rightarrow>
          notifier_post W (nt_CallbackURL target)
            (BuildInitialApprovalMessage C errMsg jobReq svcReq denyReq) l)"

definition ResponseURLNotifier :: "http_world \<Rightarrow> slack_codec \<Rightarrow> notifier" where
  "ResponseURLNotifier W C =
     \<lparr>nf_UpdateMessage = response_UpdateMessage W, nf_ReplaceMessage = response_ReplaceMessage W,
      nf_SendEphemeral = response_SendEphemeral W, nf_OfferContinuation = response_OfferContinuation W C,
      nf_RebuildInitialApproval = response_RebuildInitialApproval W C\<rparr>"

section \<open>The fallback notifier\<close>

record fallback_config =
  fc_chatPostMessageURL :: string
  fc_botToken :: string
  fc_defaultChannelID :: string

definition isResponseURLLimitErr :: "string \<Rightarrow> bool" where
  "isResponseURLLimitErr s \<longleftrightarrow>
     contains_str s ''404'' \<and>
     (list_ex (contains_str s) [''expired_url'', ''rate_limited'', ''channel_not_found'', ''no_text''] \<or>
      contains_str s ''response_url'' \<or> contains_str s ''expired_url'')"

text \<open>Slack answers 200 with \<open>ok: false\<close> and a reason for an application error.\<close>

definition api_error :: "http_world \<Rightarrow> string \<Rightarrow> string option" where
  "api_error W body =
     (case do { j \<leftarrow> hw_json W body;
                kvs \<leftarrow> members j;
                ok \<leftarrow> bool_field [''ok'', ''error''] ''ok'' kvs;
                err \<leftarrow> str_field [''ok'', ''error''] ''error'' kvs;
                Some (ok, err) } of
        Some (ok, err) \<Rightarrow> if \<not> ok \<and> err \<noteq> [] then Some err else None
      | None \<Rightarrow> None)"

definition postChatMessage ::
  "http_world \<Rightarrow> fallback_config \<Rightarrow> notify_target \<Rightarrow> string \<Rightarrow> http_log \<Rightarrow> gerror \<times> http_log" where
  "postChatMessage W F target txt l =
     (let channel = (if nt_ChannelID target = [] then fc_defaultChannelID F else nt_ChannelID target)
      in if channel = [] then (Some ''slack fallback: cannot post chat.postMessage without a channel ID'', l)
         else case hw_build W (fc_chatPostMessageURL F) of
           Some e \<Rightarrow> (Some (''slack fallback: build request: '' @ e), l)
         | None \<Rightarrow>
             (let r = send W (ChatPost (fc_chatPostMessageURL F) (fc_botToken F) channel
                        (nt_ThreadTS target) (ChatText txt)) l
              in case fst r of
                   Inl e \<Rightarrow> (Some (''slack fallback: post: '' @ e), snd r)
                 | Inr (status, body) \<Rightarrow>
                     if status \<ge> 300
                     then (Some (''slack fallback: chat.postMessage status '' @ show_nat status @ '': '' @ body), snd r)
                     else (case api_error W body of
                        Some e \<Rightarrow> (Some (''slack fallback: chat.postMessage error: '' @ e), snd r)
                      | None \<Rightarrow> (None, snd r))))"

text \<open>What the four operations with a fallback share.\<close>

definition with_fallback ::
  "http_world \<Rightarrow> fallback_config \<Rightarrow> notify_target \<Rightarrow> string \<Rightarrow>
   (http_log \<Rightarrow> gerror \<times> http_log) \<Rightarrow> http_log \<Rightarrow> gerror \<times> http_log" where
  "with_fallback W F target txt primary l =
     (if nt_Mode target = ModeStdout then primary l
      else
        (let r = primary l
         in case fst r of
              None \<Rightarrow> r
            | Some err \<Rightarrow>
                if \<not> isResponseURLLimitErr err then r
                else postChatMessage W F target txt (snd r)))"

definition FallbackNotifier :: "http_world \<Rightarrow> fallback_config \<Rightarrow> notifier \<Rightarrow> notifier" where
  "FallbackNotifier W F P =
     \<lparr>nf_UpdateMessage = (\<lambda>target txt. with_fallback W F target txt (nf_UpdateMessage P target txt)),
      nf_ReplaceMessage = (\<lambda>target txt. with_fallback W F target txt (nf_ReplaceMessage P target txt)),
      nf_SendEphemeral = nf_SendEphemeral P,
      nf_OfferContinuation = (\<lambda>target summary nextReq stopReq.
        with_fallback W F target
          (summary @ ([nl, nl] @ uni [0x26A0, 0xFE0F] @ '' '' @ uni [0x7D9A, 0x304D, 0x306E, 0x64CD,
              0x4F5C, 0x30DC, 0x30BF, 0x30F3, 0x306F] @ '' response_url '' @ uni [0x5931, 0x52B9,
              0x306E, 0x305F, 0x3081, 0x8868, 0x793A, 0x3067, 0x304D, 0x307E, 0x305B, 0x3093, 0x3002,
              0x518D, 0x5EA6, 0x30B3, 0x30DE, 0x30F3, 0x30C9, 0x3092, 0x5B9F, 0x884C, 0x3057, 0x3066,
              0x304F, 0x3060, 0x3055, 0x3044, 0x3002]))
          (nf_OfferContinuation P target summary nextReq stopReq)),
      nf_RebuildInitialApproval = (\<lambda>target errMsg jobReq svcReq denyReq.
        with_fallback W F target
          (errMsg @ ([nl, nl] @ uni [0x26A0, 0xFE0F] @ '' '' @ uni [0x627F, 0x8A8D, 0x30DC, 0x30BF,
              0x30F3, 0x306F] @ '' response_url '' @ uni [0x5931, 0x52B9, 0x306E, 0x305F, 0x3081,
              0x518D, 0x8868, 0x793A, 0x3067, 0x304D, 0x307E, 0x305B, 0x3093,
              0x3002] @ ''CI/CD '' @ uni [0x3092, 0x518D, 0x5B9F, 0x884C, 0x3057, 0x3066, 0x304F,
              0x3060, 0x3055, 0x3044, 0x3002]))
          (nf_RebuildInitialApproval P target errMsg jobReq svcReq denyReq))\<rparr>"

section \<open>The approval requester\<close>

record requester_config =
  rq_chatPostMessageURL :: string
  rq_botToken :: string

definition PostApprovalRequest ::
  "http_world \<Rightarrow> slack_codec \<Rightarrow> (string \<Rightarrow> string) \<Rightarrow> requester_config \<Rightarrow> notify_target \<Rightarrow> dmail \<Rightarrow>
   http_log \<Rightarrow> gerror \<times> http_log" where
  "PostApprovalRequest W C digest Q target mail l =
     (if nt_ChannelID target = [] then (Some ''approval requester: target.ChannelID is required'', l)
      else if rq_botToken Q = [] then (Some ''approval requester: bot token not configured'', l)
      else case buildButtonValues C digest mail of
        None \<Rightarrow> (Some (''approval requester: build button values: '' @
                  ''missing parent_idempotency_key or requester_id metadata''), l)
      | Some (approveValue, denyValue) \<Rightarrow>
          (let payload = BuildApprovalRequest
                 \<lparr>aq_Source = dm_Source mail, aq_Target = dm_Target mail,
                  aq_OriginalRequesterID = meta mail ''requester_id'',
                  aq_ParentIdempotencyKey = meta mail ''parent_idempotency_key'',
                  aq_Body = dm_Body mail, aq_ApproveValue = approveValue, aq_DenyValue = denyValue\<rparr>
           in case hw_build W (rq_chatPostMessageURL Q) of
                Some e \<Rightarrow> (Some (''approval requester: build request: '' @ e), l)
              | None \<Rightarrow>
                  (let r = send W (ChatPost (rq_chatPostMessageURL Q) (rq_botToken Q)
                             (nt_ChannelID target) (nt_ThreadTS target) (ChatBlocks (py_Blocks payload))) l
                   in case fst r of
                        Inl e \<Rightarrow> (Some (''approval requester: post: '' @ e), snd r)
                      | Inr (status, body) \<Rightarrow>
                          if status \<ge> 300
                          then (Some (''approval requester: status '' @ show_nat status @ '': '' @ body), snd r)
                          else (case api_error W body of
                             Some e \<Rightarrow> (Some (''approval requester: chat.postMessage error: '' @ e), snd r)
                           | None \<Rightarrow> (None, snd r)))))"

end
