(* ===== verification/Server_Wiring.thy ===== *)
theory Server_Wiring
  imports Broker_Wiring Admin_Rest Rpc_Correct Slack_Command Slack_Notify
begin

text \<open>
  The gateway process (\<open>cmd/server/main.go\<close>, \<open>readiness.go\<close>): its configuration, the components it puts
  together from the environment, and the HTTP routes.  Clients of Google and of the databases that can
  fail at start are a record of functions.  Telemetry, whose failure is ignored, log lines, and the
  shutdown are left out.
\<close>

section \<open>Configuration\<close>

record server_config =
  sc_slackSigningSecret :: string
  sc_slackBotToken :: string
  sc_slackDefaultChannelID :: string
  sc_slackChatPostMessageURL :: string
  sc_port :: string
  sc_dispatcherBackend :: string
  sc_pubsubProjectID :: string
  sc_pubsubInboundTopic :: string
  sc_pubsubOutboundSub :: string

definition server_loadConfig :: "getenv \<Rightarrow> string + server_config" where
  "server_loadConfig getenv =
     (let secret = getenv ''SLACK_SIGNING_SECRET'';
          backend = first_non_empty (getenv ''DISPATCHER_BACKEND'') ''stub'';
          project = getenv ''PUBSUB_PROJECT_ID'';
          topic = getenv ''PUBSUB_DMAIL_INBOUND_TOPIC''
      in if secret = [] then Inl ''SLACK_SIGNING_SECRET is required''
         else if backend = ''pubsub'' \<and> (project = [] \<or> topic = [])
         then Inl ''DISPATCHER_BACKEND=pubsub requires PUBSUB_PROJECT_ID and PUBSUB_DMAIL_INBOUND_TOPIC''
         else Inr
           \<lparr>sc_slackSigningSecret = secret, sc_slackBotToken = getenv ''SLACK_BOT_TOKEN'',
            sc_slackDefaultChannelID = getenv ''SLACK_DEFAULT_CHANNEL_ID'',
            sc_slackChatPostMessageURL =
              first_non_empty (getenv ''SLACK_CHAT_POST_MESSAGE_URL'') ''https://slack.com/api/chat.postMessage'',
            sc_port = first_non_empty (getenv ''PORT'') ''8080'',
            sc_dispatcherBackend = backend, sc_pubsubProjectID = project, sc_pubsubInboundTopic = topic,
            sc_pubsubOutboundSub = getenv ''PUBSUB_DMAIL_OUTBOUND_SUB''\<rparr>)"

section \<open>The components\<close>

record server_host =
  sh_gcp :: gerror
  sh_pubsub :: "string \<Rightarrow> gerror"
  sh_state :: host
  sh_firestore :: "string \<Rightarrow> gerror"
  sh_broker :: broker_host
  sh_rpc :: rpc_host

text \<open>A Pub/Sub publisher is its project and topic.\<close>

definition NewPublisher :: "server_host \<Rightarrow> string \<Rightarrow> string \<Rightarrow> string + string \<times> string" where
  "NewPublisher H projectID topicID =
     (if projectID = [] \<or> topicID = [] then Inl ''pubsub publisher: projectID and topicID are required''
      else case sh_pubsub H projectID of
        Some e \<Rightarrow> Inl (''pubsub publisher: create client: '' @ e)
      | None \<Rightarrow> Inr (projectID, topicID))"

datatype dispatcher_backend = StubDispatcher | PubsubDispatcher "string \<times> string"

definition buildDispatcher :: "server_host \<Rightarrow> server_config \<Rightarrow> string + dispatcher_backend" where
  "buildDispatcher H cfg =
     (if sc_dispatcherBackend cfg = ''stub'' \<or> sc_dispatcherBackend cfg = [] then Inr StubDispatcher
      else if sc_dispatcherBackend cfg = ''pubsub''
      then (case NewPublisher H (sc_pubsubProjectID cfg) (sc_pubsubInboundTopic cfg) of
              Inl e \<Rightarrow> Inl (''build pubsub publisher: '' @ e)
            | Inr pub \<Rightarrow> Inr (PubsubDispatcher pub))
      else Inl ''unknown DISPATCHER_BACKEND (want stub|pubsub)'')"

definition buildApprovalPublisher :: "server_host \<Rightarrow> server_config \<Rightarrow> string + (string \<times> string) option" where
  "buildApprovalPublisher H cfg =
     (if sc_dispatcherBackend cfg \<noteq> ''pubsub'' then Inr None
      else if sc_pubsubProjectID cfg = [] \<or> sc_pubsubInboundTopic cfg = [] then Inr None
      else case NewPublisher H (sc_pubsubProjectID cfg) (sc_pubsubInboundTopic cfg) of
        Inl e \<Rightarrow> Inl (''build approval publisher: '' @ e)
      | Inr pub \<Rightarrow> Inr (Some pub))"

text \<open>The broker is optional in every respect: whatever fails, the rest of the gateway starts.\<close>

definition start_broker :: "server_host \<Rightarrow> getenv \<Rightarrow> bool \<Rightarrow> broker_dependencies option" where
  "start_broker H getenv has_registry =
     (if \<not> has_registry \<or> trim_space (getenv ''BROKER_AUDIENCE'') = [] then None
      else case LoadBrokerConfig getenv of
        Inl _ \<Rightarrow> None
      | Inr cfg \<Rightarrow>
          (let projectID = trim_space (getenv ''GOOGLE_CLOUD_PROJECT'');
               client = (bc_UseFirestoreRegistry cfg \<and> projectID \<noteq> [] \<and> sh_firestore H projectID = None)
           in if bc_UseFirestoreRegistry cfg \<and> \<not> client then None
              else case NewBrokerDependencies (sh_broker H) (Some cfg) has_registry client of
                Inl _ \<Rightarrow> None
              | Inr d \<Rightarrow> Some d))"

text \<open>The subscriber of results: its subscription, and whether severe results ask for approval.\<close>

definition startOutboundSubscriber :: "server_host \<Rightarrow> server_config \<Rightarrow> (string \<times> string \<times> bool) option" where
  "startOutboundSubscriber H cfg =
     (if sc_pubsubOutboundSub cfg = [] \<or> sc_pubsubProjectID cfg = [] then None
      else case sh_pubsub H (sc_pubsubProjectID cfg) of
        Some _ \<Rightarrow> None
      | None \<Rightarrow> Some (sc_pubsubProjectID cfg, sc_pubsubOutboundSub cfg, sc_slackBotToken cfg \<noteq> []))"

record rpc_readiness =
  rd_EndpointEnabled :: bool
  rd_HighMutationEnabled :: bool
  rd_RegistryLoaded :: bool
  rd_ProducerEnabled :: bool
  rd_ConsumerEnabled :: bool
  rd_High :: "string list"
  rd_Low :: "string list"

definition newRPCReadiness :: "bool \<Rightarrow> bool \<Rightarrow> bool \<Rightarrow> bool \<Rightarrow> bool \<Rightarrow> rpc_readiness" where
  "newRPCReadiness endpoint high loaded producer consumer =
     \<lparr>rd_EndpointEnabled = endpoint, rd_HighMutationEnabled = high, rd_RegistryLoaded = loaded,
      rd_ProducerEnabled = producer, rd_ConsumerEnabled = consumer,
      rd_High = sort (ListBySeverity SeverityHigh), rd_Low = sort (ListBySeverity SeverityLow)\<rparr>"

definition backend_port :: "backend \<Rightarrow> project_port" where
  "backend_port b = (case b of SQLite _ \<Rightarrow> sqlite_port | Firestore _ _ _ \<Rightarrow> firestore_port)"

section \<open>Start\<close>

record server =
  sv_config :: server_config
  sv_fallback :: "fallback_config option"
  sv_dispatcher :: dispatcher_backend
  sv_approvalPublisher :: "(string \<times> string) option"
  sv_interactive :: interactive_handler
  sv_registry :: "backend option"
  sv_pending :: "backend option"
  sv_admin :: "admin_handler option"
  sv_requester :: "(requester_config \<times> notify_target) option"
  sv_rpc :: rpc_wiring
  sv_broker :: "broker_dependencies option"
  sv_readiness :: rpc_readiness
  sv_outbound :: "(string \<times> string \<times> bool) option"

datatype start_error =
    ConfigurationError string
  | GCPControllerError string
  | DispatcherError string
  | ApprovalPublisherError string
  | RegistryInitError string
  | PendingInitError string
  | RpcWiringError string
  | RpcRegisterPanic

text \<open>The REST endpoint needs a registry and a token; it only reads once requests go through approval.\<close>

definition admin_endpoint :: "getenv \<Rightarrow> backend option \<Rightarrow> admin_handler option" where
  "admin_endpoint getenv registry =
     (let adminToken = getenv ''RUNOPS_ADMIN_TOKEN'';
          adminWriteDisabled = (getenv ''RUNOPS_RPC_HIGH_MUTATION_ENABLED'' = ''1'')
      in case registry of
           None \<Rightarrow> None
         | Some b \<Rightarrow>
             if adminToken = [] then None
             else (let h = NewHandler (backend_port b) adminToken
                   in Some (if adminWriteDisabled then WithWriteDisabled h else h)))"

definition admin_requester :: "getenv \<Rightarrow> server_config \<Rightarrow> (requester_config \<times> notify_target) option" where
  "admin_requester getenv cfg =
     (let adminChannel = getenv ''RUNOPS_ADMIN_APPROVAL_CHANNEL''
      in if sc_slackBotToken cfg \<noteq> [] \<and> adminChannel \<noteq> []
         then Some (\<lparr>rq_chatPostMessageURL = sc_slackChatPostMessageURL cfg, rq_botToken = sc_slackBotToken cfg\<rparr>,
                    \<lparr>nt_CallbackURL = [], nt_Mode = ModeSlack, nt_ChannelID = adminChannel, nt_ThreadTS = []\<rparr>)
         else None)"

definition rpc_wiring_of :: "getenv \<Rightarrow> server_config \<Rightarrow> backend option \<Rightarrow> backend option \<Rightarrow> rpc_wiring" where
  "rpc_wiring_of getenv cfg registry pendingStore =
     \<lparr>wc_flagEnabled = (getenv ''RUNOPS_RPC_ENDPOINT_ENABLED'' = ''1''),
      wc_registryPath = getenv ''RUNOPS_ADMIN_TOKENS_REGISTRY_FILE'',
      wc_projectRegistry = map_option backend_registry registry,
      wc_pendingStore = map_option backend_pending pendingStore,
      wc_highMutationEnabled = (getenv ''RUNOPS_RPC_HIGH_MUTATION_ENABLED'' = ''1''),
      wc_hasApprovalRequester = (admin_requester getenv cfg \<noteq> None)\<rparr>"

definition fallback_notifier :: "server_config \<Rightarrow> fallback_config option" where
  "fallback_notifier cfg =
     (if sc_slackBotToken cfg \<noteq> []
      then Some \<lparr>fc_chatPostMessageURL = sc_slackChatPostMessageURL cfg, fc_botToken = sc_slackBotToken cfg,
                 fc_defaultChannelID = sc_slackDefaultChannelID cfg\<rparr>
      else None)"

definition slack_handler ::
  "getenv \<Rightarrow> server_config \<Rightarrow> (string \<times> string) option \<Rightarrow> bool \<Rightarrow> interactive_handler" where
  "slack_handler getenv cfg approvalPub orchestrator =
     \<lparr>ih_hasDispatch = True, ih_hasPublisher = (approvalPub \<noteq> None), ih_hasAdminApproval = orchestrator,
      ih_signingSecret = sc_slackSigningSecret cfg,
      ih_aiAgentBotUserIDs = ParseAIAgentBotUserIDs (getenv ''SLACK_AI_AGENT_BOT_USER_IDS'')\<rparr>"

definition the_server ::
  "server_host \<Rightarrow> getenv \<Rightarrow> server_config \<Rightarrow> dispatcher_backend \<Rightarrow> (string \<times> string) option \<Rightarrow>
   backend option \<Rightarrow> backend option \<Rightarrow> bool \<Rightarrow> server" where
  "the_server H getenv cfg dispatcher approvalPub registry pendingStore rpcWired =
     (let orchestrator = (registry \<noteq> None \<and> pendingStore \<noteq> None);
          rpcCfg = rpc_wiring_of getenv cfg registry pendingStore
      in \<lparr>sv_config = cfg, sv_fallback = fallback_notifier cfg, sv_dispatcher = dispatcher,
          sv_approvalPublisher = approvalPub,
          sv_interactive = slack_handler getenv cfg approvalPub orchestrator,
          sv_registry = registry, sv_pending = pendingStore, sv_admin = admin_endpoint getenv registry,
          sv_requester = admin_requester getenv cfg, sv_rpc = rpcCfg,
          sv_broker = start_broker H getenv (registry \<noteq> None),
          sv_readiness =
            newRPCReadiness rpcWired (wc_highMutationEnabled rpcCfg) (wc_registryPath rpcCfg \<noteq> [] \<and> rpcWired)
              (admin_requester getenv cfg \<noteq> None) orchestrator,
          sv_outbound = startOutboundSubscriber H cfg\<rparr>)"

definition assemble_server ::
  "server_host \<Rightarrow> getenv \<Rightarrow> env_store \<Rightarrow> server_config \<Rightarrow> dispatcher_backend \<Rightarrow> (string \<times> string) option \<Rightarrow>
   backend option \<Rightarrow> backend option \<Rightarrow> start_error + server" where
  "assemble_server H getenv E cfg dispatcher approvalPub registry pendingStore =
     (case wireRPCEndpoint (rh_codec (sh_rpc H)) (rh_digest (sh_rpc H)) (rh_yaml (sh_rpc H))
             (rpc_wiring_of getenv cfg registry pendingStore) E of
        None \<Rightarrow> Inl RpcRegisterPanic
      | Some (WireError e) \<Rightarrow> Inl (RpcWiringError e)
      | Some WireSkipped \<Rightarrow> Inr (the_server H getenv cfg dispatcher approvalPub registry pendingStore False)
      | Some (Wired d reg) \<Rightarrow> Inr (the_server H getenv cfg dispatcher approvalPub registry pendingStore True))"

definition server_main :: "server_host \<Rightarrow> getenv \<Rightarrow> env_store \<Rightarrow> start_error + server" where
  "server_main H getenv E =
     (case server_loadConfig getenv of
        Inl e \<Rightarrow> Inl (ConfigurationError e)
      | Inr cfg \<Rightarrow>
     (case sh_gcp H of
        Some e \<Rightarrow> Inl (GCPControllerError e)
      | None \<Rightarrow>
     (case buildDispatcher H cfg of
        Inl e \<Rightarrow> Inl (DispatcherError e)
      | Inr dispatcher \<Rightarrow>
     (case buildApprovalPublisher H cfg of
        Inl e \<Rightarrow> Inl (ApprovalPublisherError e)
      | Inr approvalPub \<Rightarrow>
     (case ResolveFromEnv (sh_state H) getenv of
        Inl e \<Rightarrow> Inl (RegistryInitError e)
      | Inr registry \<Rightarrow>
     (case ResolvePendingStoreFromEnv (sh_state H) getenv of
        Inl e \<Rightarrow> Inl (PendingInitError e)
      | Inr pendingStore \<Rightarrow>
          assemble_server H getenv E cfg dispatcher approvalPub registry pendingStore))))))"

section \<open>The routes\<close>

datatype server_request =
    PostInteractive interactive_request
  | PostCommand interactive_request
  | AdminRequest rest_request
  | PostRPC Rpc_Http.http_request
  | PostBrokerToken broker_http
  | GetHealthz
  | OtherRoute

datatype server_response =
    SlackStatus nat
  | CommandReplied command_reply
  | RestAnswer rest_response
  | RpcAnswer http_response
  | BrokerAnswer broker_response
  | Healthy rpc_readiness
  | RouteNotFound

text \<open>Text formats, and what one request sees of its environment.\<close>

record server_texts =
  st_http :: http_host
  st_slack :: slack_codec
  st_rpc :: rpc_host
  st_rest :: rest_text
  st_broker :: broker_text

record request_env =
  re_store :: env_store
  re_now :: int
  re_random :: "string option"
  re_broker :: broker_env

record server_state = rpc_state +
  ss_tokens :: tokens
  ss_jobs :: "job list"
  ss_broker :: "session_state broker_state"

definition command_of :: "server \<Rightarrow> env_store \<Rightarrow> command_handler" where
  "command_of sv E =
     \<lparr>ch_signingSecret = sc_slackSigningSecret (sv_config sv),
      ch_projectRegistry = map_option (\<lambda>b. po_Get (backend_port b) E) (sv_registry sv)\<rparr>"

definition post_interactive ::
  "server_texts \<Rightarrow> server \<Rightarrow> request_env \<Rightarrow> interactive_request \<Rightarrow> server_state \<Rightarrow> server_response \<times> server_state" where
  "post_interactive T sv R r s =
     (let (code, job, ts) = interactive_ServeHTTP (st_http T) (st_slack T) (sv_interactive sv) (re_now R) r (ss_tokens s)
      in (SlackStatus code,
          s\<lparr>ss_tokens := ts, ss_jobs := ss_jobs s @ (case job of None \<Rightarrow> [] | Some j \<Rightarrow> [j])\<rparr>))"

fun server_serve ::
  "server_texts \<Rightarrow> server \<Rightarrow> request_env \<Rightarrow> server_request \<Rightarrow> server_state \<Rightarrow> server_response \<times> server_state" where
  "server_serve T sv R (PostInteractive r) s = post_interactive T sv R r s"
| "server_serve T sv R (PostCommand r) s =
     (let x = command_ServeHTTP (st_http T) (st_slack T) (command_of sv (re_store R)) (re_now R) (re_random R) r
                (rp_registry s)
      in (CommandReplied (fst x), s\<lparr>rp_registry := snd x\<rparr>))"
| "server_serve T sv R (AdminRequest r) s =
     (case sv_admin sv of
        None \<Rightarrow> (RouteNotFound, s)
      | Some h \<Rightarrow>
          (let x = admin_ServeHTTP (st_rest T) h (re_store R) r (rp_registry s)
           in (RestAnswer (fst x), s\<lparr>rp_registry := snd x\<rparr>)))"
| "server_serve T sv R (PostRPC r) s =
     (let x = post_rpc (st_rpc T) (sv_rpc sv) (re_store R) r (rpc_state.truncate s)
      in (RpcAnswer (fst x),
          s\<lparr>rp_registry := rp_registry (snd x), rp_pendings := rp_pendings (snd x), rp_posted := rp_posted (snd x)\<rparr>))"
| "server_serve T sv R (PostBrokerToken r) s =
     (case sv_broker sv of
        None \<Rightarrow> (RouteNotFound, s)
      | Some d \<Rightarrow>
          (let x = broker_ServeHTTP (st_broker T) (bd_chain d (re_store R)) (re_broker R) r (ss_broker s)
           in (BrokerAnswer (fst x), s\<lparr>ss_broker := snd x\<rparr>)))"
| "server_serve T sv R GetHealthz s = (Healthy (sv_readiness sv), s)"
| "server_serve T sv R OtherRoute s = (RouteNotFound, s)"

fun server_session ::
  "server_texts \<Rightarrow> server \<Rightarrow> (request_env \<times> server_request) list \<Rightarrow> server_state \<Rightarrow> server_state" where
  "server_session T sv [] s = s"
| "server_session T sv ((R, r) # rs) s = server_session T sv rs (snd (server_serve T sv R r s))"

end
