(* ===== verification/Server_Correct.thy ===== *)
theory Server_Correct
  imports Server_Wiring
begin

text \<open>
  What the assembled gateway guarantees: exactly when it starts, and what the requests to it can change.
  Both combine the facts of the components.
\<close>

section \<open>Starting\<close>

lemma server_loadConfig_Inr:
  assumes "server_loadConfig getenv = Inr cfg"
  shows "sc_slackSigningSecret cfg = getenv ''SLACK_SIGNING_SECRET''" "sc_slackSigningSecret cfg \<noteq> []"
    "sc_dispatcherBackend cfg = first_non_empty (getenv ''DISPATCHER_BACKEND'') ''stub''"
    "sc_pubsubProjectID cfg = getenv ''PUBSUB_PROJECT_ID''"
    "sc_pubsubInboundTopic cfg = getenv ''PUBSUB_DMAIL_INBOUND_TOPIC''"
  using assms by (auto simp: server_loadConfig_def Let_def split: if_splits)

lemma server_main_Inr:
  assumes "server_main H getenv E = Inr sv"
  obtains cfg dispatcher pub registry pendingStore where
    "server_loadConfig getenv = Inr cfg" "sh_gcp H = None" "buildDispatcher H cfg = Inr dispatcher"
    "buildApprovalPublisher H cfg = Inr pub" "ResolveFromEnv (sh_state H) getenv = Inr registry"
    "ResolvePendingStoreFromEnv (sh_state H) getenv = Inr pendingStore"
    "assemble_server H getenv E cfg dispatcher pub registry pendingStore = Inr sv"
  using assms that by (auto simp: server_main_def split: sum.splits option.splits)

lemma the_server_simps [simp]:
  "sv_config (the_server H getenv cfg d p b b' w) = cfg"
  "sv_registry (the_server H getenv cfg d p b b' w) = b"
  "ih_signingSecret (sv_interactive (the_server H getenv cfg d p b b' w)) = sc_slackSigningSecret cfg"
  "sv_admin (the_server H getenv cfg d p b b' w) = admin_endpoint getenv b"
  "sv_rpc (the_server H getenv cfg d p b b' w) = rpc_wiring_of getenv cfg b b'"
  by (simp_all add: the_server_def slack_handler_def Let_def)

lemma assemble_Inr:
  "assemble_server H getenv E cfg d p b b' = Inr sv \<Longrightarrow> \<exists>w. sv = the_server H getenv cfg d p b b' w"
  by (auto simp: assemble_server_def split: option.splits wiring.splits)

lemma admin_endpoint_Some:
  "admin_endpoint getenv registry = Some h \<Longrightarrow> \<exists>b. registry = Some b \<and> ah_registry h = backend_port b \<and>
     ah_token h = getenv ''RUNOPS_ADMIN_TOKEN'' \<and> ah_token h \<noteq> [] \<and>
     ah_writeDisabled h = (getenv ''RUNOPS_RPC_HIGH_MUTATION_ENABLED'' = ''1'')"
  by (auto simp: admin_endpoint_def Let_def NewHandler_def WithWriteDisabled_def split: option.splits if_splits)

lemma wire_result:
  "wireRPCEndpoint C digest read_yaml cfg E \<noteq> None"
  "((\<exists>e. wireRPCEndpoint C digest read_yaml cfg E = Some (WireError e)) \<longleftrightarrow>
      wc_flagEnabled cfg \<and> wc_registryPath cfg \<noteq> [] \<and>
      (wc_projectRegistry cfg = None \<or> wc_pendingStore cfg = None \<or>
       (\<forall>reg. LoadAdminTokensRegistry read_yaml (wc_registryPath cfg) \<noteq> Inr reg)))"
  by (auto simp: wireRPCEndpoint_def production_dispatcher_eq split: option.split sum.split)

lemma assemble_starts:
  "(\<exists>sv. assemble_server H getenv E cfg dispatcher pub registry pendingStore = Inr sv) \<longleftrightarrow>
     (getenv ''RUNOPS_RPC_ENDPOINT_ENABLED'' = ''1'' \<and> getenv ''RUNOPS_ADMIN_TOKENS_REGISTRY_FILE'' \<noteq> [] \<longrightarrow>
        registry \<noteq> None \<and> pendingStore \<noteq> None \<and>
        (\<exists>reg. LoadAdminTokensRegistry (rh_yaml (sh_rpc H)) (getenv ''RUNOPS_ADMIN_TOKENS_REGISTRY_FILE'') = Inr reg))"
proof -
  let ?c = "rpc_wiring_of getenv cfg registry pendingStore"
  let ?w = "wireRPCEndpoint (rh_codec (sh_rpc H)) (rh_digest (sh_rpc H)) (rh_yaml (sh_rpc H)) ?c E"
  have "(\<exists>sv. assemble_server H getenv E cfg dispatcher pub registry pendingStore = Inr sv) \<longleftrightarrow>
      ?w \<noteq> None \<and> \<not> (\<exists>e. ?w = Some (WireError e))"
    by (simp add: assemble_server_def split: option.split wiring.split)
  also have "\<dots> \<longleftrightarrow> \<not> (wc_flagEnabled ?c \<and> wc_registryPath ?c \<noteq> [] \<and>
      (wc_projectRegistry ?c = None \<or> wc_pendingStore ?c = None \<or>
       (\<forall>reg. LoadAdminTokensRegistry (rh_yaml (sh_rpc H)) (wc_registryPath ?c) \<noteq> Inr reg)))"
    unfolding wire_result(2) using wire_result(1) by blast
  finally show ?thesis by (simp add: rpc_wiring_of_def) blast
qed

lemma publishers_start:
  assumes "server_loadConfig getenv = Inr cfg"
  shows "((\<exists>d. buildDispatcher H cfg = Inr d) \<and> (\<exists>p. buildApprovalPublisher H cfg = Inr p)) \<longleftrightarrow>
     getenv ''DISPATCHER_BACKEND'' = [] \<or> getenv ''DISPATCHER_BACKEND'' = ''stub'' \<or>
     (getenv ''DISPATCHER_BACKEND'' = ''pubsub'' \<and> sh_pubsub H (getenv ''PUBSUB_PROJECT_ID'') = None)"
proof -
  note cfg = server_loadConfig_Inr[OF assms]
  have topic: "getenv ''DISPATCHER_BACKEND'' = ''pubsub'' \<longrightarrow>
      sc_pubsubProjectID cfg \<noteq> [] \<and> sc_pubsubInboundTopic cfg \<noteq> []"
    using assms cfg(4,5) by (auto simp: server_loadConfig_def Let_def split: if_splits)
  consider "sc_dispatcherBackend cfg = ''stub''" "getenv ''DISPATCHER_BACKEND'' = [] \<or> getenv ''DISPATCHER_BACKEND'' = ''stub''"
    | "sc_dispatcherBackend cfg = ''pubsub''" "getenv ''DISPATCHER_BACKEND'' = ''pubsub''"
    | "sc_dispatcherBackend cfg = getenv ''DISPATCHER_BACKEND''" "getenv ''DISPATCHER_BACKEND'' \<notin> {[], ''stub'', ''pubsub''}"
    using cfg(3) by (cases "getenv ''DISPATCHER_BACKEND'' = []") auto
  then show ?thesis
  proof cases
    case 1
    then show ?thesis by (auto simp: buildDispatcher_def buildApprovalPublisher_def)
  next
    case 2
    with topic cfg(4) show ?thesis
      by (simp add: buildDispatcher_def buildApprovalPublisher_def NewPublisher_def split: option.split)
  next
    case 3
    then show ?thesis by (simp add: buildDispatcher_def)
  qed
qed

lemma server_main_starts:
  "(\<exists>sv. server_main H getenv E = Inr sv) \<longleftrightarrow>
     (\<exists>cfg d p b b'. server_loadConfig getenv = Inr cfg \<and> sh_gcp H = None \<and> buildDispatcher H cfg = Inr d \<and>
        buildApprovalPublisher H cfg = Inr p \<and> ResolveFromEnv (sh_state H) getenv = Inr b \<and>
        ResolvePendingStoreFromEnv (sh_state H) getenv = Inr b' \<and>
        (\<exists>sv. assemble_server H getenv E cfg d p b b' = Inr sv))"
  by (auto simp: server_main_def split: sum.splits option.splits)

lemma loadConfig_starts:
  "(\<exists>cfg. server_loadConfig getenv = Inr cfg) \<longleftrightarrow>
     getenv ''SLACK_SIGNING_SECRET'' \<noteq> [] \<and>
     (getenv ''DISPATCHER_BACKEND'' = ''pubsub'' \<longrightarrow>
        getenv ''PUBSUB_PROJECT_ID'' \<noteq> [] \<and> getenv ''PUBSUB_DMAIL_INBOUND_TOPIC'' \<noteq> [])"
  by (auto simp: server_loadConfig_def Let_def first_non_empty_def)


section \<open>What requests can change\<close>

lemma port_get_reads [simp]: "rows (snd (po_Get (backend_port b) E pid t)) = rows t"
  by (simp add: backend_port_def sqlite_port_def firestore_port_def sqlite_Get_def firestore_Get_def
      split: backend.split)

lemma check_project_reads:
  "(\<And>get pid t. g = Some get \<Longrightarrow> rows (snd (get pid t)) = rows t) \<Longrightarrow> rows (snd (check_project g pid reg)) = rows reg"
  by (simp add: check_project_def Let_def split: option.split)

lemma command_reads:
  assumes "\<And>get pid t. ch_projectRegistry h = Some get \<Longrightarrow> rows (snd (get pid t)) = rows t"
  shows "rows (snd (command_ServeHTTP H C h now random r reg)) = rows reg"
proof -
  have k: "rows (snd (check_project (ch_projectRegistry h) pid reg)) = rows reg" for pid
    by (rule check_project_reads) (rule assms)
  have "snd (command_ServeHTTP H C h now random r reg) = reg \<or>
      (\<exists>pid. snd (command_ServeHTTP H C h now random r reg) = snd (check_project (ch_projectRegistry h) pid reg))"
    unfolding command_ServeHTTP_def Let_def by (simp split: option.split sum.split prod.split if_split) (intro impI allI conjI; metis snd_conv)
  with k show ?thesis by auto
qed

lemma interactive_job_signed:
  "interactive_ServeHTTP H C h now r ts = (code, Some j, ts') \<Longrightarrow>
     \<exists>body. iq_Body r = Some body \<and>
       verifySignatureAt (hh_hmac H) now (iq_Timestamp r) (iq_Signature r) body (ih_signingSecret h) = None"
  by (auto simp: interactive_ServeHTTP_def split: option.splits if_splits)

text \<open>One request: who may change the projects, the pending requests and start a job.\<close>

definition writes_projects :: "getenv \<Rightarrow> server_request \<Rightarrow> bool" where
  "writes_projects getenv q \<longleftrightarrow>
     getenv ''RUNOPS_ADMIN_TOKEN'' \<noteq> [] \<and> getenv ''RUNOPS_RPC_HIGH_MUTATION_ENABLED'' \<noteq> ''1'' \<and>
     (\<exists>r. q = AdminRequest r \<and> parseStrictBearer (rr_Authorization r) = Some (getenv ''RUNOPS_ADMIN_TOKEN'') \<and>
        ((\<exists>b. rr_Route r = RouteAdd (Some b)) \<or> (\<exists>pid. rr_Route r = RouteArchive pid)))"

definition signed_click :: "http_host \<Rightarrow> getenv \<Rightarrow> request_env \<times> server_request \<Rightarrow> bool" where
  "signed_click H getenv e \<longleftrightarrow>
     (\<exists>r body. snd e = PostInteractive r \<and> iq_Body r = Some body \<and>
        verifySignatureAt (hh_hmac H) (re_now (fst e)) (iq_Timestamp r) (iq_Signature r) body
          (getenv ''SLACK_SIGNING_SECRET'') = None)"

definition pendings_grow ::
  "rpc_host \<Rightarrow> getenv \<Rightarrow> rpc_wiring \<Rightarrow> server_request set \<Rightarrow> pendings \<Rightarrow> pendings \<Rightarrow> bool" where
  "pendings_grow H getenv cfg qs t t' \<longleftrightarrow>
     (\<forall>k. row t' k = row t k \<or>
        (getenv ''RUNOPS_RPC_HIGH_MUTATION_ENABLED'' = ''1'' \<and> row t k = None \<and>
         (\<exists>p. row t' k = Some p \<and> requested H cfg {r. PostRPC r \<in> qs} k p)))"

lemma pendings_grow_refl [simp]: "row t' = row t \<Longrightarrow> pendings_grow H getenv cfg qs t t'"
  by (simp add: pendings_grow_def)

lemma pendings_grow_trans:
  assumes "pendings_grow H getenv cfg qs t t'" "pendings_grow H getenv cfg qs' t' t''"
  shows "pendings_grow H getenv cfg (qs \<union> qs') t t''"
proof -
  have "requested H cfg {r. PostRPC r \<in> qs} k p \<or> requested H cfg {r. PostRPC r \<in> qs'} k p \<Longrightarrow>
      requested H cfg {r. PostRPC r \<in> qs \<union> qs'} k p" for k p
    using requested_mono[of H cfg "{r. PostRPC r \<in> qs}" k p "{r. PostRPC r \<in> qs \<union> qs'}"]
      requested_mono[of H cfg "{r. PostRPC r \<in> qs'}" k p "{r. PostRPC r \<in> qs \<union> qs'}"] by auto
  with assms show ?thesis unfolding pendings_grow_def by (metis (no_types, lifting))
qed

text \<open>The facts about a started server that the requests need.\<close>

lemma post_rpc_unwired:
  "wc_projectRegistry cfg = None \<or> wc_pendingStore cfg = None \<Longrightarrow> snd (post_rpc H cfg E r s) = s"
  by (auto simp: post_rpc_def wireRPCEndpoint_def split: if_splits option.split)

lemma server_is:
  assumes "server_main H getenv E0 = Inr sv"
  obtains cfg d p b b' w where "server_loadConfig getenv = Inr cfg" "sv = the_server H getenv cfg d p b b' w"
    "ResolveFromEnv (sh_state H) getenv = Inr b" "ResolvePendingStoreFromEnv (sh_state H) getenv = Inr b'"
proof -
  from assms obtain cfg d p b b' where *: "server_loadConfig getenv = Inr cfg"
    "ResolveFromEnv (sh_state H) getenv = Inr b" "ResolvePendingStoreFromEnv (sh_state H) getenv = Inr b'"
    "assemble_server H getenv E0 cfg d p b b' = Inr sv" by (rule server_main_Inr)
  from assemble_Inr[OF *(4)] obtain w where "sv = the_server H getenv cfg d p b b' w" by blast
  with * that show thesis by blast
qed

lemma server_post_rpc:
  assumes "server_main H getenv E0 = Inr sv"
  shows "row (rp_registry (snd (post_rpc T (sv_rpc sv) E r s))) = row (rp_registry s)"
    and "pendings_grow T getenv (sv_rpc sv) {PostRPC r} (rp_pendings s) (rp_pendings (snd (post_rpc T (sv_rpc sv) E r s)))"
proof -
  from assms obtain cfg d p b b' w where sv: "sv = the_server H getenv cfg d p b b' w"
    and stores: "ResolveFromEnv (sh_state H) getenv = Inr b" "ResolvePendingStoreFromEnv (sh_state H) getenv = Inr b'"
    by (rule server_is)
  let ?c = "sv_rpc sv"
  have high: "wc_highMutationEnabled ?c = (getenv ''RUNOPS_RPC_HIGH_MUTATION_ENABLED'' = ''1'')"
    by (simp add: sv rpc_wiring_of_def)
  have ports: "wc_projectRegistry ?c = map_option backend_registry b" "wc_pendingStore ?c = map_option backend_pending b'"
    by (simp_all add: sv rpc_wiring_of_def)
  have eq: "{r'. PostRPC r' \<in> {PostRPC r}} = {r}" by auto
  from backends_cases[OF stores(2,1)] show "row (rp_registry (snd (post_rpc T ?c E r s))) = row (rp_registry s)"
    "pendings_grow T getenv ?c {PostRPC r} (rp_pendings s) (rp_pendings (snd (post_rpc T ?c E r s)))"
  proof (atomize (full), elim disjE exE conjE, goal_cases)
    case 1
    then show ?case using post_rpc_unwired[of ?c T E r s] by (simp add: ports)
  next
    case (2 x)
    then have "wc_projectRegistry ?c = Some \<lparr>rg_Get = sqlite_Get, rg_List = sqlite_List\<rparr>"
      "wc_pendingStore ?c = Some \<lparr>pp_Create = sqlite_CreateIfNotExists, pp_Get = ap_fetch sqlite_ports\<rparr>"
      by (simp_all add: ports backend_ports)
    from sqlite_rpc.post_grown[OF this, of T r s E] show ?case
      by (simp add: sqlite_rpc.grown_def pendings_grow_def high eq)
  next
    case (3 x y)
    then have "wc_projectRegistry ?c = Some \<lparr>rg_Get = firestore_Get, rg_List = firestore_List\<rparr>"
      "wc_pendingStore ?c = Some \<lparr>pp_Create = firestore_CreateIfNotExists, pp_Get = ap_fetch firestore_ports\<rparr>"
      by (simp_all add: ports backend_ports)
    from firestore_rpc.post_grown[OF this, of T r s E] show ?case
      by (simp add: firestore_rpc.grown_def pendings_grow_def high eq)
  qed
qed

lemma server_secret:
  assumes "server_main H getenv E0 = Inr sv"
  shows "sc_slackSigningSecret (sv_config sv) = getenv ''SLACK_SIGNING_SECRET'' \<and> getenv ''SLACK_SIGNING_SECRET'' \<noteq> [] \<and>
     ih_signingSecret (sv_interactive sv) = getenv ''SLACK_SIGNING_SECRET''"
proof -
  from assms obtain cfg d p b b' w where "server_loadConfig getenv = Inr cfg" "sv = the_server H getenv cfg d p b b' w"
    by (rule server_is)
  with server_loadConfig_Inr(1,2)[of getenv cfg] show ?thesis by simp
qed

lemma server_admin:
  assumes "server_main H getenv E0 = Inr sv" "sv_admin sv = Some h"
  shows "\<exists>b. ah_registry h = backend_port b \<and> ah_token h = getenv ''RUNOPS_ADMIN_TOKEN'' \<and> ah_token h \<noteq> [] \<and>
       ah_writeDisabled h = (getenv ''RUNOPS_RPC_HIGH_MUTATION_ENABLED'' = ''1'')"
proof -
  from assms(1) obtain cfg d p b b' w where "sv = the_server H getenv cfg d p b b' w" by (rule server_is)
  with assms(2) admin_endpoint_Some[of getenv b h] show ?thesis by auto
qed

lemma admin_writes:
  assumes "server_main H getenv E0 = Inr sv" "sv_admin sv = Some h"
    and "row (snd (admin_ServeHTTP T h E r t)) \<noteq> row t"
  shows "writes_projects getenv (AdminRequest r)"
proof -
  from server_admin[OF assms(1,2)] obtain b where h: "ah_registry h = backend_port b"
    "ah_token h = getenv ''RUNOPS_ADMIN_TOKEN''" "ah_token h \<noteq> []"
    "ah_writeDisabled h = (getenv ''RUNOPS_RPC_HIGH_MUTATION_ENABLED'' = ''1'')" by blast
  have "authorize h (rr_Authorization r) \<and> \<not> ah_writeDisabled h \<and>
     ((\<exists>b. rr_Route r = RouteAdd (Some b)) \<or> (\<exists>pid. rr_Route r = RouteArchive pid))"
    using sqlite_rest.writes_need[of h T E r t] firestore_rest.writes_need[of h T E r t] h(1) assms(3)
    by (cases b) (auto simp: backend_port_def)
  with h show ?thesis by (auto simp: writes_projects_def authorize_def split: option.splits)
qed

lemma step_changes:
  assumes "server_main H getenv E0 = Inr sv" "server_serve T sv R q s = (resp, s')"
  shows "(row (rp_registry s') \<noteq> row (rp_registry s) \<longrightarrow> writes_projects getenv q) \<and>
    pendings_grow (st_rpc T) getenv (sv_rpc sv) {q} (rp_pendings s) (rp_pendings s') \<and>
    (\<exists>js. ss_jobs s' = ss_jobs s @ js \<and> (js \<noteq> [] \<longrightarrow> signed_click (st_http T) getenv (R, q)))"
proof (cases q)
  case (PostInteractive r)
  obtain code job ts where x: "interactive_ServeHTTP (st_http T) (st_slack T) (sv_interactive sv) (re_now R) r (ss_tokens s) =
      (code, job, ts)" by (metis prod.exhaust)
  with interactive_job_signed[of "st_http T" "st_slack T" "sv_interactive sv" "re_now R" r "ss_tokens s" code _ ts]
    server_secret[OF assms(1)] assms(2) PostInteractive show ?thesis
    by (auto simp: post_interactive_def signed_click_def split: option.split)
next
  case (PostCommand r)
  have "rows (snd (command_ServeHTTP (st_http T) (st_slack T) (command_of sv (re_store R)) (re_now R) (re_random R) r
      (rp_registry s))) = rows (rp_registry s)"
    by (rule command_reads) (auto simp: command_of_def)
  with assms(2) PostCommand show ?thesis by (auto simp: Let_def)
next
  case (AdminRequest r)
  with assms(2) admin_writes[OF assms(1), of _ "st_rest T" "re_store R" r "rp_registry s"] show ?thesis
    by (auto simp: Let_def split: option.splits)
next
  case (PostRPC r)
  with assms(2) server_post_rpc[OF assms(1), where s = "rpc_state.truncate s"] show ?thesis
    by (auto simp: Let_def rpc_state.truncate_def)
qed (use assms(2) in \<open>auto simp: Let_def split: option.splits\<close>)

text \<open>C4. Whatever HTTP requests a started gateway gets, in whatever order and with whatever failures of the
  databases: the projects change only if approval of changes is not enforced, an admin token is configured
  and a writing REST request carries exactly this token, so with enforcement on no request at all
  changes a project; an existing pending request never changes, and new ones appear only with enforcement on,
  open, and in the name of an operator whose token came with a JSON-RPC request; and a job, such as the
  approval of a change or of a deployment, is started only by a click that Slack signed with the
  configured secret, which is not empty.\<close>

theorem gateway_changes_guarded:
  assumes "server_main H getenv E0 = Inr sv" "server_session T sv reqs s = s'"
  shows "(row (rp_registry s') \<noteq> row (rp_registry s) \<longrightarrow>
       getenv ''RUNOPS_RPC_HIGH_MUTATION_ENABLED'' \<noteq> ''1'' \<and> getenv ''RUNOPS_ADMIN_TOKEN'' \<noteq> [] \<and>
       (\<exists>r. AdminRequest r \<in> snd ` set reqs \<and>
          parseStrictBearer (rr_Authorization r) = Some (getenv ''RUNOPS_ADMIN_TOKEN'') \<and>
          ((\<exists>b. rr_Route r = RouteAdd (Some b)) \<or> (\<exists>pid. rr_Route r = RouteArchive pid)))) \<and>
    (\<forall>k. row (rp_pendings s') k = row (rp_pendings s) k \<or>
       (getenv ''RUNOPS_RPC_HIGH_MUTATION_ENABLED'' = ''1'' \<and> row (rp_pendings s) k = None \<and>
        (\<exists>p. row (rp_pendings s') k = Some p \<and>
           requested (st_rpc T) (sv_rpc sv) {r. PostRPC r \<in> snd ` set reqs} k p))) \<and>
    (\<exists>js. ss_jobs s' = ss_jobs s @ js \<and>
       (js \<noteq> [] \<longrightarrow> (\<exists>e \<in> set reqs. signed_click (st_http T) getenv e))) \<and>
    getenv ''SLACK_SIGNING_SECRET'' \<noteq> []"
proof -
  have all: "(row (rp_registry s') \<noteq> row (rp_registry s) \<longrightarrow> (\<exists>q \<in> snd ` set reqs. writes_projects getenv q)) \<and>
    pendings_grow (st_rpc T) getenv (sv_rpc sv) (snd ` set reqs) (rp_pendings s) (rp_pendings s') \<and>
    (\<exists>js. ss_jobs s' = ss_jobs s @ js \<and> (js \<noteq> [] \<longrightarrow> (\<exists>e \<in> set reqs. signed_click (st_http T) getenv e)))"
    using assms(2)
  proof (induction reqs arbitrary: s)
    case Nil
    then show ?case by simp
  next
    case (Cons e reqs)
    obtain R q where e: "e = (R, q)" by fastforce
    obtain resp s1 where s1: "server_serve T sv R q s = (resp, s1)" by fastforce
    with Cons.prems e have rest: "server_session T sv reqs s1 = s'" by simp
    note one = step_changes[OF assms(1) s1] and ih = Cons.IH[OF rest]
    have "row (rp_registry s') \<noteq> row (rp_registry s) \<longrightarrow> (\<exists>q \<in> snd ` set (e # reqs). writes_projects getenv q)"
      using one ih e by auto
    moreover have "pendings_grow (st_rpc T) getenv (sv_rpc sv) (snd ` set (e # reqs)) (rp_pendings s) (rp_pendings s')"
      using pendings_grow_trans one ih e by fastforce
    moreover have "\<exists>js. ss_jobs s' = ss_jobs s @ js \<and>
        (js \<noteq> [] \<longrightarrow> (\<exists>e \<in> set (e # reqs). signed_click (st_http T) getenv e))"
      using one ih e by fastforce
    ultimately show ?case by blast
  qed
  have "row (rp_registry s') \<noteq> row (rp_registry s) \<longrightarrow>
       getenv ''RUNOPS_RPC_HIGH_MUTATION_ENABLED'' \<noteq> ''1'' \<and> getenv ''RUNOPS_ADMIN_TOKEN'' \<noteq> [] \<and>
       (\<exists>r. AdminRequest r \<in> snd ` set reqs \<and>
          parseStrictBearer (rr_Authorization r) = Some (getenv ''RUNOPS_ADMIN_TOKEN'') \<and>
          ((\<exists>b. rr_Route r = RouteAdd (Some b)) \<or> (\<exists>pid. rr_Route r = RouteArchive pid)))"
  proof
    assume "row (rp_registry s') \<noteq> row (rp_registry s)"
    with all obtain q where "q \<in> snd ` set reqs" "writes_projects getenv q" by blast
    then show "getenv ''RUNOPS_RPC_HIGH_MUTATION_ENABLED'' \<noteq> ''1'' \<and> getenv ''RUNOPS_ADMIN_TOKEN'' \<noteq> [] \<and>
       (\<exists>r. AdminRequest r \<in> snd ` set reqs \<and>
          parseStrictBearer (rr_Authorization r) = Some (getenv ''RUNOPS_ADMIN_TOKEN'') \<and>
          ((\<exists>b. rr_Route r = RouteAdd (Some b)) \<or> (\<exists>pid. rr_Route r = RouteArchive pid)))"
      unfolding writes_projects_def by (elim conjE exE) (simp, metis)
  qed
  with all server_secret[OF assms(1)] show ?thesis unfolding pendings_grow_def by (intro conjI) simp_all
qed

section \<open>A run of the gateway\<close>

definition small_environment :: getenv where
  "small_environment k =
     (if k = ''SLACK_SIGNING_SECRET'' then ''secret''
      else if k = ''RUNOPS_PROJECT_REGISTRY'' then ''sqlite''
      else if k = ''RUNOPS_STATE_DB_PATH'' then ''/s.db''
      else if k = ''RUNOPS_ADMIN_TOKEN'' then ''adm''
      else [])"

definition small_host :: server_host where
  "small_host =
     \<lparr>sh_gcp = None, sh_pubsub = (\<lambda>_. None),
      sh_state = \<lparr>ho_home = Inl [], ho_mkdir = (\<lambda>_. None),
                  ho_open = (\<lambda>_. None), ho_firestore = (\<lambda>_ _. None)\<rparr>,
      sh_firestore = (\<lambda>_. None), sh_broker = sample_broker_host, sh_rpc = sample_rpc_host\<rparr>"

definition small_config :: server_config where
  "small_config =
     \<lparr>sc_slackSigningSecret = ''secret'', sc_slackBotToken = [], sc_slackDefaultChannelID = [],
      sc_slackChatPostMessageURL = ''https://slack.com/api/chat.postMessage'', sc_port = ''8080'',
      sc_dispatcherBackend = ''stub'', sc_pubsubProjectID = [], sc_pubsubInboundTopic = [],
      sc_pubsubOutboundSub = []\<rparr>"

definition small_server :: server where
  "small_server =
     the_server small_host small_environment small_config StubDispatcher None (Some (SQLite ''/s.db''))
       (Some (SQLite ''/s.db'')) False"

lemma small_config_loads: "server_loadConfig small_environment = Inr small_config"
  by code_simp

lemma small_stores:
  "ResolveFromEnv (sh_state small_host) small_environment = Inr (Some (SQLite ''/s.db''))"
  "ResolvePendingStoreFromEnv (sh_state small_host) small_environment = Inr (Some (SQLite ''/s.db''))"
  by code_simp+

lemma small_skips: "wireRPCEndpoint C dg y (rpc_wiring_of small_environment c b b') E = Some WireSkipped"
  by (simp add: wireRPCEndpoint_def rpc_wiring_of_def small_environment_def)

lemma small_server_starts: "server_main small_host small_environment E = Inr small_server"
proof -
  have "buildDispatcher small_host small_config = Inr StubDispatcher" "sh_gcp small_host = None"
    "buildApprovalPublisher small_host small_config = Inr None"
    by (simp_all add: buildDispatcher_def buildApprovalPublisher_def small_config_def small_host_def)
  then show ?thesis
    by (simp add: server_main_def small_config_loads small_stores assemble_server_def small_skips small_server_def)
qed

definition small_texts :: server_texts where
  "small_texts =
     \<lparr>st_http = \<lparr>hh_hmac = (\<lambda>k m. k @ m), hh_form = (\<lambda>_. None)\<rparr>,
      st_slack = \<lparr>sl_parse = (\<lambda>_. None), sl_marshal = (\<lambda>_. []), sl_deflate = (\<lambda>s. s), sl_inflate = Some\<rparr>,
      st_rpc = sample_rpc_host,
      st_rest = \<lparr>rt_first_json = (\<lambda>_. None), rt_time = (\<lambda>_. False)\<rparr>, st_broker = sample_broker_text\<rparr>"

definition small_state :: server_state where
  "small_state =
     \<lparr>rp_registry = \<lparr>rows = [(''web'', sample_project)], ncalls = 0\<rparr>, rp_pendings = empty_table, rp_posted = [],
      ss_tokens = Some (NewMemoryConsumedStore 3600), ss_jobs = [],
      ss_broker = \<lparr>bs_sessions = sample_session_state, bs_items = (\<lambda>_. None), bs_minted = []\<rparr>\<rparr>"

definition archive_request :: rest_request where
  "archive_request = \<lparr>rr_Authorization = ''Bearer adm'', rr_Route = RouteArchive ''web''\<rparr>"

definition small_request_env :: request_env where
  "small_request_env = \<lparr>re_store = calm_store, re_now = 0, re_random = None, re_broker = Broker_Correct.sample_env\<rparr>"

lemma small_archives:
  "row (rp_registry (server_session small_texts small_server [(small_request_env, AdminRequest archive_request)]
      small_state)) ''web'' = Some (sample_project\<lparr>pj_Status := ProjectStatusArchived, pj_ArchivedAt := Some 3000000000\<rparr>)"
proof -
  have "sv_admin small_server = Some (NewHandler sqlite_port ''adm'')"
    by (simp add: small_server_def admin_endpoint_def small_environment_def backend_port_def)
  moreover have "authorize (NewHandler sqlite_port ''adm'') ''Bearer adm''"
    by code_simp
  moreover have "row (snd (handleArchive (NewHandler sqlite_port ''adm'') calm_store ''web''
      \<lparr>rows = [(''web'', sample_project)], ncalls = 0\<rparr>)) ''web'' =
      Some (sample_project\<lparr>pj_Status := ProjectStatusArchived, pj_ArchivedAt := Some 3000000000\<rparr>)"
    by code_simp
  ultimately show ?thesis
    by (simp add: admin_ServeHTTP_def archive_request_def small_request_env_def small_state_def Let_def)
qed


theorem gateway_changes_guarded_witness:
  "\<exists>r. r \<in> {archive_request} \<and>
     parseStrictBearer (rr_Authorization r) = Some (small_environment ''RUNOPS_ADMIN_TOKEN'') \<and>
     small_environment ''RUNOPS_RPC_HIGH_MUTATION_ENABLED'' \<noteq> ''1''"
proof -
  let ?reqs = "[(small_request_env, AdminRequest archive_request)]"
  have "pj_Status sample_project \<noteq> ProjectStatusArchived" by (simp add: sample_project_def)
  then have "row (rp_registry (server_session small_texts small_server ?reqs small_state)) ''web'' \<noteq>
      row (rp_registry small_state) ''web''"
    unfolding small_archives by (auto simp: small_state_def dest: arg_cong[of _ _ pj_Status])
  then have "row (rp_registry (server_session small_texts small_server ?reqs small_state)) \<noteq> row (rp_registry small_state)"
    by auto
  with conjunct1[OF gateway_changes_guarded[OF small_server_starts[of calm_store] refl, of small_texts ?reqs small_state]]
  show ?thesis by auto
qed

end
