(* ===== verification/Admin_Flow.thy ===== *)
theory Admin_Flow
  imports Admin_Approval
begin

text \<open>
  Concurrent admin approvals.  Every button click runs a handler of the orchestrator in its own
  goroutine, and a handler is a sequence of separate database calls; here any number of them
  interleave at those calls, together with new requests.  \<open>fl_log\<close> is a ghost: the approvals whose
  mutation was tried on the registry.
\<close>

section \<open>The interleaved handlers\<close>

datatype handler =
    Idle
  | Approving string string CallerType pending
  | Applied string pending
  | Denying string
  | TimingOut string

record ('ps, 'rs) flow =
  fl_state :: "('ps, 'rs) admin_state"
  fl_threads :: "nat \<Rightarrow> handler"
  fl_log :: "(string \<times> pending \<times> string \<times> CallerType) list"

inductive flow_step ::
  "('ps, 'rs) approval_ports \<Rightarrow> (env_store \<Rightarrow> pending \<Rightarrow> 'ps \<Rightarrow> (pending \<times> pending_error option) \<times> 'ps) \<Rightarrow>
   json_text \<Rightarrow> ('ps, 'rs) flow \<Rightarrow> ('ps, 'rs) flow \<Rightarrow> bool"
  for P create parse where
  request:
    "flow_step P create parse f
       (f\<lparr>fl_state := (fl_state f)\<lparr>as_pendings := snd (create E pa (as_pendings (fl_state f)))\<rparr>\<rparr>)"
| ack_begins: "fl_threads f t = Idle \<Longrightarrow> fetchActive P E key (fl_state f) = (Inr pa, s) \<Longrightarrow>
     validate4Eyes pa approver aty = None \<Longrightarrow>
     flow_step P create parse f
       (f\<lparr>fl_state := s, fl_threads := (fl_threads f)(t := Approving key approver aty pa)\<rparr>)"
| ack_stops: "fl_threads f t = Idle \<Longrightarrow> fetchActive P E key (fl_state f) = (r, s) \<Longrightarrow>
     flow_step P create parse f (f\<lparr>fl_state := s\<rparr>)"
| ack_applies: "fl_threads f t = Approving key approver aty pa \<Longrightarrow>
     apply_op P parse E pa (fl_state f) = (r, s) \<Longrightarrow>
     flow_step P create parse f
       (f\<lparr>fl_state := s, fl_threads := (fl_threads f)(t := (if r = None then Applied key pa else Idle)),
          fl_log := fl_log f @ [(key, pa, approver, aty)]\<rparr>)"
| ack_resolves: "fl_threads f t = Applied key pa \<Longrightarrow>
     resolve P E key PendingStatusApprovedApplied (Some (es_now E)) (fl_state f) = (r, s) \<Longrightarrow>
     flow_step P create parse f (f\<lparr>fl_state := s, fl_threads := (fl_threads f)(t := Idle)\<rparr>)"
| deny_begins: "fl_threads f t = Idle \<Longrightarrow> fetchActive P E key (fl_state f) = (Inr pa, s) \<Longrightarrow>
     flow_step P create parse f (f\<lparr>fl_state := s, fl_threads := (fl_threads f)(t := Denying key)\<rparr>)"
| deny_resolves: "fl_threads f t = Denying key \<Longrightarrow>
     resolve P E key PendingStatusDenied None (fl_state f) = (r, s) \<Longrightarrow>
     flow_step P create parse f (f\<lparr>fl_state := s, fl_threads := (fl_threads f)(t := Idle)\<rparr>)"
| timeout_begins: "fl_threads f t = Idle \<Longrightarrow> fetchActive P E key (fl_state f) = (Inr pa, s) \<Longrightarrow>
     flow_step P create parse f (f\<lparr>fl_state := s, fl_threads := (fl_threads f)(t := TimingOut key)\<rparr>)"
| timeout_resolves: "fl_threads f t = TimingOut key \<Longrightarrow>
     resolve P E key PendingStatusTimeout None (fl_state f) = (r, s) \<Longrightarrow>
     flow_step P create parse f (f\<lparr>fl_state := s, fl_threads := (fl_threads f)(t := Idle)\<rparr>)"

inductive_cases flow_stepE: "flow_step P create parse f f'"

inductive flow_reachable ::
  "('ps, 'rs) approval_ports \<Rightarrow> (env_store \<Rightarrow> pending \<Rightarrow> 'ps \<Rightarrow> (pending \<times> pending_error option) \<times> 'ps) \<Rightarrow>
   json_text \<Rightarrow> ('ps, 'rs) flow \<Rightarrow> ('ps, 'rs) flow \<Rightarrow> bool"
  for P create parse f0 where
  start: "flow_reachable P create parse f0 f0"
| step: "flow_reachable P create parse f0 f \<Longrightarrow> flow_step P create parse f f' \<Longrightarrow>
     flow_reachable P create parse f0 f'"

definition flow_init :: "'ps \<Rightarrow> 'rs \<Rightarrow> ('ps, 'rs) flow" where
  "flow_init ps rs =
     \<lparr>fl_state = \<lparr>as_pendings = ps, as_registry = rs\<rparr>, fl_threads = (\<lambda>_. Idle), fl_log = []\<rparr>"

section \<open>Every registered project was approved by a second human\<close>

text \<open>Two clicks on one request may both reach the registry; the registry itself keeps the first.\<close>

definition approved_by ::
  "(string \<Rightarrow> pending option) \<Rightarrow> string \<times> pending \<times> string \<times> CallerType \<Rightarrow> bool" where
  "approved_by pf entry \<longleftrightarrow>
     (case entry of (key, pa, approver, aty) \<Rightarrow>
        validate4Eyes pa approver aty = None \<and> (\<exists>p. pf key = Some p \<and> same_request pa p))"

context approval_backends
begin

definition flow_inv :: "json_text \<Rightarrow> ('ps, 'rs) flow \<Rightarrow> bool" where
  "flow_inv parse f \<longleftrightarrow>
     (\<forall>t key approver aty pa. fl_threads f t = Approving key approver aty pa \<longrightarrow>
        approved_by (pfind (as_pendings (fl_state f))) (key, pa, approver, aty)) \<and>
     (\<forall>e \<in> set (fl_log f). approved_by (pfind (as_pendings (fl_state f))) e) \<and>
     (\<forall>k q. rfind (as_registry (fl_state f)) k = Some q \<longrightarrow>
        (\<exists>key pa approver aty now proj. (key, pa, approver, aty) \<in> set (fl_log f) \<and>
           pa_Op pa = PendingOpAdd \<and> decode_add parse (pa_BodyJSON pa) now = Some proj \<and>
           pj_ID proj = k \<and> same_project proj q))"

definition keeps :: "'ps \<Rightarrow> 'ps \<Rightarrow> bool" where
  "keeps ps ps' \<longleftrightarrow> (\<forall>k p. pfind ps k = Some p \<longrightarrow> (\<exists>p'. pfind ps' k = Some p' \<and> same_request p p'))"

lemma keeps_approved: "keeps ps ps' \<Longrightarrow> approved_by (pfind ps) e \<Longrightarrow> approved_by (pfind ps') e"
  unfolding keeps_def approved_by_def by (auto split: prod.splits) (metis same_request_trans)

lemma keeps_eq: "pfind ps' = pfind ps \<Longrightarrow> keeps ps ps'"
  by (auto simp: keeps_def)

lemma keeps_create: "keeps ps (snd (create E x ps))"
  unfolding keeps_def using pd.create_keeps same_request_refl by blast

lemma keeps_resolve: "resolve P E key st at s = (r, s1) \<Longrightarrow> keeps (as_pendings s) (as_pendings s1)"
  unfolding keeps_def using pd.transition_keeps by (fastforce simp: resolve_def Let_def)

text \<open>Steps that leave the registry and the log alone.\<close>

lemma flow_inv_frame:
  assumes "flow_inv parse f" "keeps (as_pendings (fl_state f)) (as_pendings s)"
    "as_registry s = as_registry (fl_state f)"
    "\<And>t key approver aty pa. ths t = Approving key approver aty pa \<Longrightarrow>
       fl_threads f t = Approving key approver aty pa \<or>
       approved_by (pfind (as_pendings s)) (key, pa, approver, aty)"
  shows "flow_inv parse (f\<lparr>fl_state := s, fl_threads := ths\<rparr>)"
proof -
  note kp = keeps_approved[OF assms(2)]
  have sel: "fl_state (f\<lparr>fl_state := s, fl_threads := ths\<rparr>) = s"
    "fl_threads (f\<lparr>fl_state := s, fl_threads := ths\<rparr>) = ths"
    "fl_log (f\<lparr>fl_state := s, fl_threads := ths\<rparr>) = fl_log f" by simp_all
  show ?thesis
    unfolding flow_inv_def sel assms(3)
  proof (intro conjI allI impI ballI)
    fix t key approver aty pa assume "ths t = Approving key approver aty pa"
    from assms(4)[OF this] assms(1) kp show "approved_by (pfind (as_pendings s)) (key, pa, approver, aty)"
      unfolding flow_inv_def by blast
  next
    fix e assume "e \<in> set (fl_log f)"
    with assms(1) kp show "approved_by (pfind (as_pendings s)) e" unfolding flow_inv_def by blast
  qed (insert assms(1), unfold flow_inv_def, blast)
qed

text \<open>What applying a request can change in the registry.\<close>

lemma apply_op_registry:
  assumes "apply_op P parse E pa s = (r, s1)" "rfind (as_registry s1) k = Some q"
  shows "(\<exists>q0. rfind (as_registry s) k = Some q0 \<and> same_project q0 q) \<or>
    (pa_Op pa = PendingOpAdd \<and> (\<exists>proj. decode_add parse (pa_BodyJSON pa) (es_now E) = Some proj \<and>
       pj_ID proj = k \<and> same_project proj q))"
proof (cases "pa_Op pa = PendingOpAdd")
  case True
  show ?thesis
  proof (cases "decode_add parse (pa_BodyJSON pa) (es_now E)")
    case None
    with True assms show ?thesis by (auto simp: apply_op_def applyAdd_def)
  next
    case (Some proj)
    with True assms(1) have r: "as_registry s1 = snd (ap_add P E proj (as_registry s))"
      by (auto simp: apply_op_def applyAdd_def Let_def)
    show ?thesis
    proof (cases "rfind (as_registry s) k")
      case None
      with rg.add_new[of E proj "as_registry s" k q] assms(2) r True Some show ?thesis by auto
    next
      case (Some q0)
      with rg.add_keeps[OF Some, of E proj] assms(2) r show ?thesis by simp
    qed
  qed
next
  case False
  show ?thesis
  proof (cases "pa_Op pa = PendingOpArchive \<and> decode_archive parse (pa_BodyJSON pa) \<noteq> None")
    case True
    with False assms(1) obtain pid where r: "as_registry s1 = snd (ap_archive P E pid (as_registry s))"
      by (auto simp: apply_op_def applyArchive_def Let_def)
    then obtain q0 where "rfind (as_registry s) k = Some q0"
      using rg.archive_none[of "as_registry s" k E pid] assms(2) by fastforce
    with rg.archive_keeps[OF this, of E pid] assms(2) r show ?thesis by auto
  next
    case no: False
    with False assms show ?thesis by (auto simp: apply_op_def applyArchive_def split: if_splits)
  qed
qed

lemma flow_inv_apply:
  assumes inv: "flow_inv parse f" and t: "fl_threads f t = Approving key approver aty pa"
    and run: "apply_op P parse E pa (fl_state f) = (r, s)"
  shows "flow_inv parse (f\<lparr>fl_state := s, fl_threads := (fl_threads f)(t := (if r = None then Applied key pa else Idle)),
          fl_log := fl_log f @ [(key, pa, approver, aty)]\<rparr>)"
proof -
  have ps: "as_pendings s = as_pendings (fl_state f)" using apply_op_pendings[OF run] .
  have e: "approved_by (pfind (as_pendings s)) (key, pa, approver, aty)"
    using inv t unfolding flow_inv_def ps by blast
  let ?ths = "(fl_threads f)(t := (if r = None then Applied key pa else Idle))"
  let ?log = "fl_log f @ [(key, pa, approver, aty)]"
  have sel: "fl_state (f\<lparr>fl_state := s, fl_threads := ?ths, fl_log := ?log\<rparr>) = s"
    "fl_threads (f\<lparr>fl_state := s, fl_threads := ?ths, fl_log := ?log\<rparr>) = ?ths"
    "fl_log (f\<lparr>fl_state := s, fl_threads := ?ths, fl_log := ?log\<rparr>) = ?log" by simp_all
  show ?thesis
    unfolding flow_inv_def sel
  proof (intro conjI allI impI ballI)
    fix t' key' approver' aty' pa'
    assume "((fl_threads f)(t := (if r = None then Applied key pa else Idle))) t' = Approving key' approver' aty' pa'"
    then have "fl_threads f t' = Approving key' approver' aty' pa'" by (auto split: if_splits)
    with inv show "approved_by (pfind (as_pendings s)) (key', pa', approver', aty')"
      unfolding flow_inv_def ps by blast
  next
    fix x assume "x \<in> set (fl_log f @ [(key, pa, approver, aty)])"
    with e inv show "approved_by (pfind (as_pendings s)) x" unfolding flow_inv_def ps by auto
  next
    fix k q assume q: "rfind (as_registry s) k = Some q"
    from apply_op_registry[OF run q]
    show "\<exists>key' pa' approver' aty' now proj.
        (key', pa', approver', aty') \<in> set (fl_log f @ [(key, pa, approver, aty)]) \<and>
        pa_Op pa' = PendingOpAdd \<and> decode_add parse (pa_BodyJSON pa') now = Some proj \<and>
        pj_ID proj = k \<and> same_project proj q"
    proof (elim disjE exE conjE)
      fix q0 assume q0: "rfind (as_registry (fl_state f)) k = Some q0" "same_project q0 q"
      from inv q0(1) obtain key' pa' approver' aty' now proj where
        "(key', pa', approver', aty') \<in> set (fl_log f)" "pa_Op pa' = PendingOpAdd"
        "decode_add parse (pa_BodyJSON pa') now = Some proj" "pj_ID proj = k" "same_project proj q0"
        unfolding flow_inv_def by blast
      with q0(2) show ?thesis
        by (intro exI[of _ key'] exI[of _ pa'] exI[of _ approver'] exI[of _ aty'] exI[of _ now] exI[of _ proj])
           (auto intro: same_project_trans)
    next
      fix proj assume "pa_Op pa = PendingOpAdd" "decode_add parse (pa_BodyJSON pa) (es_now E) = Some proj"
        "pj_ID proj = k" "same_project proj q"
      then show ?thesis
        by (intro exI[of _ key] exI[of _ pa] exI[of _ approver] exI[of _ aty] exI[of _ "es_now E"] exI[of _ proj])
           simp
    qed
  qed
qed

lemma flow_inv_resolve:
  assumes "flow_inv parse f" "resolve P E key st at (fl_state f) = (r, s)"
  shows "flow_inv parse (f\<lparr>fl_state := s, fl_threads := (fl_threads f)(t := Idle)\<rparr>)"
  by (rule flow_inv_frame[OF assms(1) keeps_resolve[OF assms(2)] resolve_registry[OF assms(2)]])
     (auto split: if_splits)

lemma flow_inv_fetch:
  assumes "flow_inv parse f" "fetchActive P E key (fl_state f) = (r, s)"
    "\<forall>key approver aty pa. h \<noteq> Approving key approver aty pa"
  shows "flow_inv parse (f\<lparr>fl_state := s, fl_threads := (fl_threads f)(t := h)\<rparr>)"
  using fetchActive_frame[OF assms(2)] assms(3)
  by (intro flow_inv_frame[OF assms(1)] keeps_eq) (auto split: if_splits)

lemma flow_inv_step: "flow_inv parse f \<Longrightarrow> flow_step P create parse f f' \<Longrightarrow> flow_inv parse f'"
proof (erule flow_stepE)
  fix E pa assume inv: "flow_inv parse f"
    and f': "f' = f\<lparr>fl_state := (fl_state f)\<lparr>as_pendings := snd (create E pa (as_pendings (fl_state f)))\<rparr>\<rparr>"
  from flow_inv_frame[OF inv, of "(fl_state f)\<lparr>as_pendings := snd (create E pa (as_pendings (fl_state f)))\<rparr>"
      "fl_threads f"] keeps_create
  show "flow_inv parse f'" unfolding f' by simp
next
  fix t E key pa s approver aty assume inv: "flow_inv parse f"
    and f': "f' = f\<lparr>fl_state := s, fl_threads := (fl_threads f)(t := Approving key approver aty pa)\<rparr>"
    and fe: "fetchActive P E key (fl_state f) = (Inr pa, s)" and v: "validate4Eyes pa approver aty = None"
  have ps: "pfind (as_pendings s) = pfind (as_pendings (fl_state f))" "as_registry s = as_registry (fl_state f)"
    using fetchActive_frame[OF fe] by simp_all
  have "approved_by (pfind (as_pendings s)) (key, pa, approver, aty)"
    using fetchActive_Inr[OF fe] v ps by (simp add: approved_by_def)
  with inv show "flow_inv parse f'"
    unfolding f' by (intro flow_inv_frame keeps_eq ps) (auto split: if_splits)
next
  fix t key approver aty pa E r s assume "flow_inv parse f"
    "f' = f\<lparr>fl_state := s, fl_threads := (fl_threads f)(t := (if r = None then Applied key pa else Idle)),
       fl_log := fl_log f @ [(key, pa, approver, aty)]\<rparr>"
    "fl_threads f t = Approving key approver aty pa" "apply_op P parse E pa (fl_state f) = (r, s)"
  then show "flow_inv parse f'" using flow_inv_apply by blast
next
  fix t E key r s assume inv: "flow_inv parse f" and f': "f' = f\<lparr>fl_state := s\<rparr>"
    and fe: "fetchActive P E key (fl_state f) = (r, s)"
  have ps: "pfind (as_pendings s) = pfind (as_pendings (fl_state f))" "as_registry s = as_registry (fl_state f)"
    using fetchActive_frame[OF fe] by simp_all
  from flow_inv_frame[OF inv keeps_eq[OF ps(1)] ps(2), of "fl_threads f"]
  show "flow_inv parse f'" unfolding f' by simp
qed (simp_all add: flow_inv_resolve flow_inv_fetch)

lemma flow_reachable_inv:
  assumes "flow_reachable P create parse (flow_init ps rs) f" "rfind rs = (\<lambda>_. None)"
  shows "flow_inv parse f"
  using assms(1)
proof (induction rule: flow_reachable.induct)
  case start
  from assms(2) show ?case by (simp add: flow_inv_def flow_init_def)
qed (rule flow_inv_step)

end

section \<open>Properties\<close>


text \<open>A run with two clicks on one request: while the approver's handler has applied the mutation but
  not yet resolved the request, another operator denies it.\<close>

definition run_parse :: json_text where
  "run_parse s = (if s = ''{web}'' then Some (JObj [(''id'', JStr ''web'')]) else None)"

definition run_pending :: pending where
  "run_pending = sample_pending\<lparr>pa_BodyJSON := ''{web}'', pa_CreatedAt := 9000\<rparr>"

definition run_f1 :: "(pendings, registry) flow" where
  "run_f1 = (let f = flow_init empty_table empty_table
     in f\<lparr>fl_state := (fl_state f)\<lparr>as_pendings :=
          snd (firestore_CreateIfNotExists calm_db run_pending (as_pendings (fl_state f)))\<rparr>\<rparr>)"

definition run_f2 :: "(pendings, registry) flow" where
  "run_f2 = run_f1\<lparr>fl_state := snd (fetchActive firestore_ports calm_db ''k'' (fl_state run_f1)),
     fl_threads := (fl_threads run_f1)(0 := Approving ''k'' ''U2'' CallerHumanOperator run_pending)\<rparr>"

definition run_f3 :: "(pendings, registry) flow" where
  "run_f3 = run_f2\<lparr>fl_state := snd (apply_op firestore_ports run_parse calm_db run_pending (fl_state run_f2)),
     fl_threads := (fl_threads run_f2)(0 := Applied ''k'' run_pending),
     fl_log := fl_log run_f2 @ [(''k'', run_pending, ''U2'', CallerHumanOperator)]\<rparr>"

definition run_f4 :: "(pendings, registry) flow" where
  "run_f4 = run_f3\<lparr>fl_state := snd (fetchActive firestore_ports calm_db ''k'' (fl_state run_f3)),
     fl_threads := (fl_threads run_f3)(1 := Denying ''k'')\<rparr>"

definition run_f5 :: "(pendings, registry) flow" where
  "run_f5 = run_f4\<lparr>fl_state := snd (resolve firestore_ports calm_db ''k'' PendingStatusDenied None (fl_state run_f4)),
     fl_threads := (fl_threads run_f4)(1 := Idle)\<rparr>"

definition run_f6 :: "(pendings, registry) flow" where
  "run_f6 = run_f5\<lparr>fl_state := snd (resolve firestore_ports calm_db ''k'' PendingStatusApprovedApplied
        (Some (es_now calm_db)) (fl_state run_f5)),
     fl_threads := (fl_threads run_f5)(0 := Idle)\<rparr>"

lemma run_facts:
  "fst (fetchActive firestore_ports calm_db ''k'' (fl_state run_f1)) = Inr run_pending"
  "validate4Eyes run_pending ''U2'' CallerHumanOperator = None"
  "fst (apply_op firestore_ports run_parse calm_db run_pending (fl_state run_f2)) = None"
  "fst (fetchActive firestore_ports calm_db ''k'' (fl_state run_f3)) = Inr run_pending"
  "fst (resolve firestore_ports calm_db ''k'' PendingStatusDenied None (fl_state run_f4)) = None"
  "fst (resolve firestore_ports calm_db ''k'' PendingStatusApprovedApplied (Some (es_now calm_db)) (fl_state run_f5)) =
     Some (TransitionFailed ErrPendingTerminalTransition)"
  "map_option pa_Status (row (as_pendings (fl_state run_f6)) ''k'') = Some PendingStatusDenied"
  "map_option pj_ID (row (as_registry (fl_state run_f6)) ''web'') = Some ''web''"
  "map_option pj_ID (row (as_registry (fl_state run_f3)) ''web'') = Some ''web''"
  by code_simp+

lemma run_reachable:
  "flow_reachable firestore_ports firestore_CreateIfNotExists run_parse (flow_init empty_table empty_table) run_f3"
  "flow_reachable firestore_ports firestore_CreateIfNotExists run_parse (flow_init empty_table empty_table) run_f6"
proof -
  let ?step = "flow_step firestore_ports firestore_CreateIfNotExists run_parse"
  let ?reach = "flow_reachable firestore_ports firestore_CreateIfNotExists run_parse (flow_init empty_table empty_table)"
  have pr: "fst x = a \<Longrightarrow> x = (a, snd x)" for x :: "'x \<times> 'y" and a by (cases x) simp
  have "?step (flow_init empty_table empty_table) run_f1"
    unfolding run_f1_def Let_def by (rule flow_step.request)
  then have r1: "?reach run_f1" by (rule flow_reachable.step[OF flow_reachable.start])
  have "fl_threads run_f1 0 = Idle" by (simp add: run_f1_def flow_init_def Let_def)
  from flow_step.ack_begins[OF this pr[OF run_facts(1)] run_facts(2)]
  have r2: "?reach run_f2" unfolding run_f2_def by (rule flow_reachable.step[OF r1])
  have t2: "fl_threads run_f2 0 = Approving ''k'' ''U2'' CallerHumanOperator run_pending"
    by (simp add: run_f2_def)
  have "?step run_f2 run_f3"
    using flow_step.ack_applies[OF t2 pr[OF run_facts(3)]] unfolding run_f3_def by simp
  then show r3: "?reach run_f3" by (rule flow_reachable.step[OF r2])
  have "fl_threads run_f3 1 = Idle" by (simp add: run_f3_def run_f2_def run_f1_def flow_init_def Let_def)
  from flow_step.deny_begins[OF this pr[OF run_facts(4)]]
  have r4: "?reach run_f4" unfolding run_f4_def by (rule flow_reachable.step[OF r3])
  have "fl_threads run_f4 1 = Denying ''k''" by (simp add: run_f4_def)
  from flow_step.deny_resolves[OF this pr[OF run_facts(5)]]
  have r5: "?reach run_f5" unfolding run_f5_def by (rule flow_reachable.step[OF r4])
  have "fl_threads run_f5 0 = Applied ''k'' run_pending" by (simp add: run_f5_def run_f4_def run_f3_def)
  from flow_step.ack_resolves[OF this pr[OF run_facts(6)]]
  show "?reach run_f6" unfolding run_f6_def by (rule flow_reachable.step[OF r5])
qed


text \<open>The orchestrator's steps are not one transaction: a denial that arrives between the registry
  change and the resolution of an approval is accepted, and the request ends as denied although its
  project is registered; the approving handler only gets a transition error.\<close>

theorem denied_request_can_be_applied:
  "\<exists>f p q. flow_reachable firestore_ports firestore_CreateIfNotExists run_parse (flow_init empty_table empty_table) f \<and>
     (\<forall>t. fl_threads f t = Idle) \<and>
     row (as_pendings (fl_state f)) ''k'' = Some p \<and> pa_Status p = PendingStatusDenied \<and>
     row (as_registry (fl_state f)) ''web'' = Some q"
proof -
  have "\<forall>t. fl_threads run_f6 t = Idle"
    by (simp add: run_f6_def run_f5_def run_f4_def run_f3_def run_f2_def run_f1_def flow_init_def Let_def)
  with run_reachable(2) run_facts(7,8) show ?thesis by auto
qed

text \<open>What one approval click can do, with either database: the registry changes only when a
  recorded, unresolved request with a known requester is approved by a different human; the only
  record that can change is the request itself, to approved-and-applied, and only after its mutation
  took effect; and success means both.  A denial or a timeout never touches the registry.\<close>

theorem OnApprovalAck_effects:
  assumes "P = sqlite_ports \<or> P = firestore_ports"
    and "OnApprovalAck P parse E key approver aty s = (r, s')"
  shows "(as_registry s' \<noteq> as_registry s \<longrightarrow>
      (\<exists>pa. row (as_pendings s) key = Some pa \<and> \<not> IsTerminal (pa_Status pa) \<and>
        pa_EffectiveRequesterID pa \<noteq> [] \<and> pa_EffectiveRequesterID pa \<noteq> approver \<and> aty = CallerHumanOperator)) \<and>
    (\<forall>k. row (as_pendings s') k \<noteq> row (as_pendings s) k \<longrightarrow>
      k = key \<and> (\<exists>pa pa'. row (as_pendings s) key = Some pa \<and> row (as_pendings s') key = Some pa' \<and>
        pa_Status pa' = PendingStatusApprovedApplied \<and> mutation_applied parse pa (row (as_registry s')))) \<and>
    (r = None \<longrightarrow>
      (\<exists>pa pa'. row (as_pendings s) key = Some pa \<and> mutation_applied parse pa (row (as_registry s')) \<and>
        row (as_pendings s') key = Some pa' \<and> pa_Status pa' = PendingStatusApprovedApplied)) \<and>
    as_registry (snd (OnApprovalDeny P E key approver aty s)) = as_registry s \<and>
    as_registry (snd (OnApprovalTimeout P E key s)) = as_registry s"
  using assms(1)
proof
  assume P: "P = sqlite_ports"
  note run = assms(2)[unfolded P]
  show ?thesis unfolding P
    using sqlite_flow.ack_registry_guarded[OF run] sqlite_flow.ack_status[OF run]
      sqlite_flow.ack_success[of parse E key approver aty s s'] run sqlite_flow.deny_registry by blast
next
  assume P: "P = firestore_ports"
  note run = assms(2)[unfolded P]
  show ?thesis unfolding P
    using firestore_flow.ack_registry_guarded[OF run] firestore_flow.ack_status[OF run]
      firestore_flow.ack_success[of parse E key approver aty s s'] run firestore_flow.deny_registry by blast
qed

theorem OnApprovalAck_effects_witness:
  "\<exists>pa. row (as_pendings (fl_state run_f1)) ''k'' = Some pa \<and> pa_EffectiveRequesterID pa \<noteq> ''U2''"
proof -
  let ?run = "OnApprovalAck firestore_ports run_parse calm_db ''k'' ''U2'' CallerHumanOperator (fl_state run_f1)"
  obtain r s' where run: "?run = (r, s')" by fastforce
  have "rows (as_registry (snd ?run)) \<noteq> rows (as_registry (fl_state run_f1))" by code_simp
  with run have "as_registry s' \<noteq> as_registry (fl_state run_f1)" by auto
  moreover have "firestore_ports = sqlite_ports \<or> firestore_ports = firestore_ports" by simp
  ultimately show ?thesis using OnApprovalAck_effects[OF _ run] by blast
qed

text \<open>After a partial success (project added, resolution failed) a retry does not see an already
  resolved request, as the comment in the code expects: it fails with "project already exists", and
  the request stays unresolved, every time.\<close>

theorem partial_success_stays_stuck:
  assumes "calm E" "row (as_pendings s) key = Some pa" "\<not> IsTerminal (pa_Status pa)"
    and "validate4Eyes pa approver aty = None" "pa_Op pa = PendingOpAdd"
    and "decode_add parse (pa_BodyJSON pa) (es_now E) = Some proj"
    and "ValidateProjectID (pj_ID proj) = None" "row (as_registry s) (pj_ID proj) \<noteq> None"
  shows "\<exists>s'. OnApprovalAck firestore_ports parse E key approver aty s =
            (Some (ApplyFailed ErrProjectAlreadyExists), s') \<and>
          row (as_pendings s') = row (as_pendings s) \<and> row (as_registry s') = row (as_registry s)"
proof -
  let ?s1 = "s\<lparr>as_pendings := snd (svc E (row_get key) (as_pendings s))\<rparr>"
  let ?r = "svc E (row_create (pj_ID proj) (firestore_project_doc (es_now E) proj)) (as_registry s)"
  have f: "fetchActive firestore_ports E key s = (Inr pa, ?s1)"
    using assms(1-3)
    by (simp add: fetchActive_def firestore_ports_def firestore_pending_Get_def map_err_def Let_def
        calm_svc row_get_def)
  have fr: "fst ?r = Inl AlreadyExists" "rows (snd ?r) = rows (as_registry s)"
    using assms(1,8) by (auto simp: calm_svc row_create_def)
  have a: "apply_op firestore_ports parse E pa ?s1 =
      (Some (ApplyFailed ErrProjectAlreadyExists), ?s1\<lparr>as_registry := snd ?r\<rparr>)"
    using assms(5-7) fr(1)
    by (simp add: apply_op_def applyAdd_def firestore_ports_def firestore_Add_def map_err_def Let_def)
  show ?thesis
    using f a assms(4) fr(2) by (simp add: OnApprovalAck_def)
qed

theorem partial_success_stays_stuck_witness:
  "\<exists>s'. OnApprovalAck firestore_ports run_parse calm_db ''k'' ''U2'' CallerHumanOperator (fl_state run_f3) =
     (Some (ApplyFailed ErrProjectAlreadyExists), s')"
proof -
  have c: "calm calm_db" by (simp add: calm_def calm_db_def)
  have p: "row (as_pendings (fl_state run_f3)) ''k'' = Some run_pending"
    and t: "\<not> IsTerminal (pa_Status run_pending)"
    and o: "pa_Op run_pending = PendingOpAdd"
    by code_simp+
  have d: "map_option pj_ID (decode_add run_parse (pa_BodyJSON run_pending) (es_now calm_db)) = Some ''web''"
    and v: "ValidateProjectID ''web'' = None" by code_simp+
  from d obtain proj where proj: "decode_add run_parse (pa_BodyJSON run_pending) (es_now calm_db) = Some proj"
    "pj_ID proj = ''web''" by auto
  have "row (as_registry (fl_state run_f3)) ''web'' \<noteq> None" using run_facts(9) by auto
  with partial_success_stays_stuck[OF c p t run_facts(2) o proj(1)] v proj(2) show ?thesis by auto
qed

end
