(* ===== verification/Gateway_Flow.thy ===== *)
theory Gateway_Flow
  imports Server_Correct Admin_Flow
begin

text \<open>
  The gateway with its background jobs: requests are served by \<open>server_serve\<close>, and the jobs that clicks started
  run the handlers of the approval orchestrator, interleaved with requests and with each other at every
  database call.  A job may be run again in the model, which the process does not do; what holds here holds
  there.  \<open>gw_seen\<close> and \<open>gw_log\<close> are ghosts: the requests so far, and the approvals whose mutation was tried.
\<close>

section \<open>Jobs\<close>

definition admin_backend ::
  "backend option \<Rightarrow> ((pendings, registry) approval_ports \<times>
     (env_store \<Rightarrow> pending \<Rightarrow> pendings \<Rightarrow> (pending \<times> pending_error option) \<times> pendings)) option" where
  "admin_backend b =
     (case b of
        None \<Rightarrow> None
      | Some (SQLite _) \<Rightarrow> Some (sqlite_ports, sqlite_CreateIfNotExists)
      | Some (Firestore _ _ _) \<Rightarrow> Some (firestore_ports, firestore_CreateIfNotExists))"

inductive job_step ::
  "('ps, 'rs) approval_ports \<Rightarrow> json_text \<Rightarrow> job \<Rightarrow> handler \<times> ('ps, 'rs) admin_state \<Rightarrow>
   handler \<times> ('ps, 'rs) admin_state \<Rightarrow> bool"
  for P parse where
  ack_reads: "fetchActive P E key s = (r, s') \<Longrightarrow>
     h = (case r of Inl _ \<Rightarrow> Idle
          | Inr pa \<Rightarrow> if validate4Eyes pa approver aty = None then Approving key approver aty pa else Idle) \<Longrightarrow>
     job_step P parse (RunAdminAck key approver aty target) (Idle, s) (h, s')"
| ack_applies: "apply_op P parse E pa s = (r, s') \<Longrightarrow>
     job_step P parse (RunAdminAck key approver aty target) (Approving key approver aty pa, s)
       (if r = None then Applied key pa else Idle, s')"
| ack_resolves: "resolve P E key PendingStatusApprovedApplied (Some (es_now E)) s = (r, s') \<Longrightarrow>
     job_step P parse (RunAdminAck key approver aty target) (Applied key pa, s) (Idle, s')"
| deny_reads: "fetchActive P E key s = (r, s') \<Longrightarrow>
     h = (case r of Inl _ \<Rightarrow> Idle | Inr pa \<Rightarrow> if aty \<noteq> CallerHumanOperator then Idle else Denying key) \<Longrightarrow>
     job_step P parse (RunAdminDeny key approver aty target) (Idle, s) (h, s')"
| deny_resolves: "resolve P E key PendingStatusDenied None s = (r, s') \<Longrightarrow>
     job_step P parse (RunAdminDeny key approver aty target) (Denying key, s) (Idle, s')"

inductive_cases job_stepE: "job_step P parse j hs hs'"

section \<open>The gateway\<close>

record gateway =
  gw_server :: server_state
  gw_threads :: "nat \<Rightarrow> handler"
  gw_log :: "(string \<times> pending \<times> string \<times> CallerType) list"
  gw_seen :: "(request_env \<times> server_request) list"

definition stores_of :: "server_state \<Rightarrow> (pendings, registry) admin_state" where
  "stores_of s = \<lparr>as_pendings = rp_pendings s, as_registry = rp_registry s\<rparr>"

definition with_stores :: "(pendings, registry) admin_state \<Rightarrow> server_state \<Rightarrow> server_state" where
  "with_stores a s = s\<lparr>rp_pendings := as_pendings a, rp_registry := as_registry a\<rparr>"

definition tried :: "handler \<Rightarrow> (string \<times> pending \<times> string \<times> CallerType) list" where
  "tried h = (case h of Approving key approver aty pa \<Rightarrow> [(key, pa, approver, aty)] | _ \<Rightarrow> [])"

inductive gateway_step :: "server_texts \<Rightarrow> server \<Rightarrow> json_text \<Rightarrow> gateway \<Rightarrow> gateway \<Rightarrow> bool"
  for T sv parse where
  serve: "server_serve T sv R q (gw_server g) = (resp, s) \<Longrightarrow>
    gateway_step T sv parse g (g\<lparr>gw_server := s, gw_seen := gw_seen g @ [(R, q)]\<rparr>)"
| run_job: "admin_backend (sv_pending sv) = Some (P, create) \<Longrightarrow> t < length (ss_jobs (gw_server g)) \<Longrightarrow>
    job_step P parse (ss_jobs (gw_server g) ! t) (gw_threads g t, stores_of (gw_server g)) (h, a) \<Longrightarrow>
    gateway_step T sv parse g
      (g\<lparr>gw_server := with_stores a (gw_server g), gw_threads := (gw_threads g)(t := h),
         gw_log := gw_log g @ tried (gw_threads g t)\<rparr>)"

inductive gateway_reachable :: "server_texts \<Rightarrow> server \<Rightarrow> json_text \<Rightarrow> gateway \<Rightarrow> bool"
  for T sv parse where
  boot: "row (rp_registry s) = (\<lambda>_. None) \<Longrightarrow> row (rp_pendings s) = (\<lambda>_. None) \<Longrightarrow> ss_jobs s = [] \<Longrightarrow>
    gateway_reachable T sv parse \<lparr>gw_server = s, gw_threads = (\<lambda>_. Idle), gw_log = [], gw_seen = []\<rparr>"
| go: "gateway_reachable T sv parse g \<Longrightarrow> gateway_step T sv parse g g' \<Longrightarrow> gateway_reachable T sv parse g'"

definition flow_of :: "gateway \<Rightarrow> (pendings, registry) flow" where
  "flow_of g = \<lparr>fl_state = stores_of (gw_server g), fl_threads = gw_threads g, fl_log = gw_log g\<rparr>"

section \<open>Jobs are steps of the approval flow\<close>

lemma job_step_flow:
  assumes "job_step P parse j (fl_threads f t, fl_state f) (h, a)"
  shows "flow_step P create parse f
    (f\<lparr>fl_state := a, fl_threads := (fl_threads f)(t := h), fl_log := fl_log f @ tried (fl_threads f t)\<rparr>)"
  using assms
proof (cases rule: job_step.cases)
  case (ack_reads E key r approver aty target)
  show ?thesis
  proof (cases "h = Idle")
    case True
    with ack_reads(2) have "(fl_threads f)(t := h) = fl_threads f" by auto
    with flow_step.ack_stops[OF ack_reads(2,3), of create parse] ack_reads(2) show ?thesis by (simp add: tried_def)
  next
    case False
    with ack_reads(4) obtain pa where
      pa: "r = Inr pa" "validate4Eyes pa approver aty = None" "h = Approving key approver aty pa"
      by (auto split: sum.splits if_splits)
    from flow_step.ack_begins[OF ack_reads(2) ack_reads(3)[unfolded pa(1)] pa(2), of create parse] pa(3) ack_reads(2)
    show ?thesis by (simp add: tried_def)
  qed
next
  case (ack_applies E pa r key approver aty target)
  from flow_step.ack_applies[OF ack_applies(2,4), of create] ack_applies(2,3) show ?thesis by (simp add: tried_def)
next
  case (ack_resolves E key r approver aty target pa)
  from flow_step.ack_resolves[OF ack_resolves(2,4), of create parse] ack_resolves(2,3) show ?thesis
    by (simp add: tried_def)
next
  case (deny_reads E key r aty approver target)
  show ?thesis
  proof (cases "h = Idle")
    case True
    with deny_reads(2) have "(fl_threads f)(t := h) = fl_threads f" by auto
    with flow_step.ack_stops[OF deny_reads(2,3), of create parse] deny_reads(2) show ?thesis by (simp add: tried_def)
  next
    case False
    with deny_reads(4) obtain pa where pa: "r = Inr pa" "h = Denying key"
      by (auto split: sum.splits if_splits)
    from flow_step.deny_begins[OF deny_reads(2) deny_reads(3)[unfolded pa(1)], of create parse] pa(2) deny_reads(2)
    show ?thesis by (simp add: tried_def)
  qed
next
  case (deny_resolves E key r approver aty target)
  from flow_step.deny_resolves[OF deny_resolves(2,4), of create parse] deny_resolves(2,3) show ?thesis
    by (simp add: tried_def)
qed

text \<open>What a job leaves of the recorded requests, and the approvals it holds.\<close>

definition settles :: "(string \<Rightarrow> pending option) \<Rightarrow> (string \<Rightarrow> pending option) \<Rightarrow> bool" where
  "settles pf pf' \<longleftrightarrow> (\<forall>k p'. pf' k = Some p' \<longrightarrow> (\<exists>p. pf k = Some p \<and> same_request p p'))"

lemma settles_refl [simp]: "settles pf pf"
  by (simp add: settles_def)

context approval_backends
begin

lemma resolve_settles:
  assumes "resolve P E key st at s = (r, s')"
  shows "settles (pfind (as_pendings s)) (pfind (as_pendings s'))"
  unfolding settles_def
proof (intro allI impI)
  fix k p' assume p': "pfind (as_pendings s') k = Some p'"
  from assms have s': "as_pendings s' = snd (ap_transition P E key st at (as_pendings s))"
    by (auto simp: resolve_def Let_def)
  show "\<exists>p. pfind (as_pendings s) k = Some p \<and> same_request p p'"
  proof (cases "pfind (as_pendings s) k")
    case None
    with pd.transition_none[OF None, of E key st at] p' s' show ?thesis by simp
  next
    case (Some p)
    with pd.transition_keeps[OF Some, of E key st at] p' s' show ?thesis by auto
  qed
qed

lemma job_step_settles:
  assumes "job_step P parse j (h, s) (h', s')"
  shows "settles (pfind (as_pendings s)) (pfind (as_pendings s'))"
  using assms
proof (cases rule: job_step.cases)
  case (ack_reads E key r approver aty target)
  with fetchActive_frame[OF ack_reads(3)] show ?thesis by simp
next
  case (ack_applies E pa r key approver aty target)
  with apply_op_pendings[OF ack_applies(4)] show ?thesis by simp
next
  case (ack_resolves E key r approver aty target pa)
  with resolve_settles[OF ack_resolves(4)] show ?thesis by simp
next
  case (deny_reads E key r aty approver target)
  with fetchActive_frame[OF deny_reads(3)] show ?thesis by simp
next
  case (deny_resolves E key r approver aty target)
  with resolve_settles[OF deny_resolves(4)] show ?thesis by simp
qed

text \<open>The invariant of the flow speaks of what the stores hold, not of how often they were asked.\<close>

lemma flow_inv_same_rows:
  assumes "flow_inv parse f" "keeps (as_pendings (fl_state f)) (as_pendings s)"
    "rfind (as_registry s) = rfind (as_registry (fl_state f))"
  shows "flow_inv parse \<lparr>fl_state = s, fl_threads = fl_threads f, fl_log = fl_log f\<rparr>"
  using assms(1) keeps_approved[OF assms(2)]
  unfolding flow_inv_def flow.simps assms(3) by blast

end

lemma job_step_approving:
  assumes "job_step P parse j (h, s) (Approving key approver aty pa, s')"
  shows "(\<exists>target. j = RunAdminAck key approver aty target)"
  using assms by (cases rule: job_step.cases) (auto split: sum.splits if_splits)

section \<open>Who clicked\<close>

text \<open>A click that Slack signed with the configured secret, made by this user.\<close>

definition click_by :: "server_texts \<Rightarrow> getenv \<Rightarrow> request_env \<times> server_request \<Rightarrow> string \<Rightarrow> bool" where
  "click_by T getenv e user \<longleftrightarrow>
     (\<exists>r body json payload. snd e = PostInteractive r \<and> iq_Body r = Some body \<and>
        verifySignatureAt (hh_hmac (st_http T)) (re_now (fst e)) (iq_Timestamp r) (iq_Signature r) body
          (getenv ''SLACK_SIGNING_SECRET'') = None \<and>
        form_value (st_http T) r body ''payload'' = Some json \<and> parse_payload (st_slack T) json = Some payload \<and>
        ip_User payload = user)"

lemma dispatch_no_ack: "fst (handleDispatchAction C h now i v user target ts) \<noteq> Some (RunAdminAck key approver aty t)"
  by (simp add: handleDispatchAction_def Let_def split: option.split prod.split)

lemma approval_ack_by:
  "fst (handleApprovalAction C h now i v user target ts) = Some (RunAdminAck key approver aty t) \<Longrightarrow> approver = user"
  by (auto simp: handleApprovalAction_def Let_def split: option.splits prod.splits if_splits)

lemma route_ack_by:
  assumes "fst (route_action C h now p act ts) = Some (RunAdminAck key approver aty t)"
  shows "approver = ip_User p"
  using assms dispatch_no_ack[of C h now "ia_ActionID act" "ia_Value act" "ip_User p" "payload_target p" ts]
    approval_ack_by[of C h now "ia_ActionID act" "ia_Value act" "ip_User p" "payload_target p" ts key approver aty t]
  by (auto simp: route_action_def Let_def split: option.splits if_splits)

lemma interactive_ack_by:
  assumes "interactive_ServeHTTP H C h now r ts = (code, Some (RunAdminAck key approver aty t), ts')"
  shows "\<exists>body json payload. iq_Body r = Some body \<and>
    verifySignatureAt (hh_hmac H) now (iq_Timestamp r) (iq_Signature r) body (ih_signingSecret h) = None \<and>
    form_value H r body ''payload'' = Some json \<and> parse_payload C json = Some payload \<and> ip_User payload = approver"
  using assms route_ack_by[of C h now _ _ ts key approver aty t]
  by (auto simp: interactive_ServeHTTP_def split: option.splits if_splits list.splits) (metis fst_conv)+

lemma serve_jobs:
  assumes "server_main H getenv E0 = Inr sv" "server_serve T sv R q s = (resp, s')"
  shows "\<exists>js. ss_jobs s' = ss_jobs s @ js \<and>
    (\<forall>key approver aty target. RunAdminAck key approver aty target \<in> set js \<longrightarrow> click_by T getenv (R, q) approver)"
proof (cases q)
  case (PostInteractive r)
  obtain code job ts where x: "interactive_ServeHTTP (st_http T) (st_slack T) (sv_interactive sv) (re_now R) r (ss_tokens s) =
      (code, job, ts)" by (metis prod.exhaust)
  have "click_by T getenv (R, q) approver" if "job = Some (RunAdminAck key approver aty target)" for key approver aty target
    using interactive_ack_by[OF x[unfolded that]] server_secret[OF assms(1)] by (auto simp: click_by_def PostInteractive)
  with x assms(2) PostInteractive show ?thesis
    by (auto simp: post_interactive_def split: option.split)
qed (use assms(2) in \<open>auto simp: Let_def split: option.splits\<close>)

section \<open>The invariant\<close>

definition recorded :: "server_texts \<Rightarrow> server \<Rightarrow> gateway \<Rightarrow> string \<Rightarrow> pending \<Rightarrow> bool" where
  "recorded T sv g k p \<longleftrightarrow>
     (\<exists>p0. requested (st_rpc T) (sv_rpc sv) {r. PostRPC r \<in> snd ` set (gw_seen g)} k p0 \<and> same_request p0 p)"

definition ack_queued :: "gateway \<Rightarrow> string \<Rightarrow> string \<Rightarrow> CallerType \<Rightarrow> bool" where
  "ack_queued g key approver aty \<longleftrightarrow> (\<exists>target. RunAdminAck key approver aty target \<in> set (ss_jobs (gw_server g)))"

definition ghosts_ok :: "server_texts \<Rightarrow> getenv \<Rightarrow> server \<Rightarrow> gateway \<Rightarrow> bool" where
  "ghosts_ok T getenv sv g \<longleftrightarrow>
     (\<forall>k p. row (rp_pendings (gw_server g)) k = Some p \<longrightarrow> recorded T sv g k p) \<and>
     (\<forall>key approver aty. ack_queued g key approver aty \<longrightarrow> (\<exists>e \<in> set (gw_seen g). click_by T getenv e approver)) \<and>
     (\<forall>t key approver aty pa. gw_threads g t = Approving key approver aty pa \<longrightarrow> ack_queued g key approver aty) \<and>
     (\<forall>key pa approver aty. (key, pa, approver, aty) \<in> set (gw_log g) \<longrightarrow> ack_queued g key approver aty)"

lemma ghosts_okD:
  assumes "ghosts_ok T getenv sv g"
  shows "row (rp_pendings (gw_server g)) k = Some p \<Longrightarrow> recorded T sv g k p"
    and "ack_queued g key approver aty \<Longrightarrow> \<exists>e \<in> set (gw_seen g). click_by T getenv e approver"
    and "gw_threads g t = Approving key approver aty pa \<Longrightarrow> ack_queued g key approver aty"
    and "(key, pa, approver, aty) \<in> set (gw_log g) \<Longrightarrow> ack_queued g key approver aty"
  using assms unfolding ghosts_ok_def by blast+

lemma recorded_more:
  assumes "recorded T sv g k p" "set (gw_seen g) \<subseteq> set (gw_seen g')" "same_request p p'"
  shows "recorded T sv g' k p'"
proof -
  from assms(1) obtain p0 where p0: "requested (st_rpc T) (sv_rpc sv) {r. PostRPC r \<in> snd ` set (gw_seen g)} k p0"
    "same_request p0 p" by (auto simp: recorded_def)
  have "{r. PostRPC r \<in> snd ` set (gw_seen g)} \<subseteq> {r. PostRPC r \<in> snd ` set (gw_seen g')}"
    using assms(2) by auto
  from requested_mono[OF p0(1) this] same_request_trans[OF p0(2) assms(3)] show ?thesis
    by (auto simp: recorded_def)
qed

lemma serve_ghosts:
  assumes "server_main H getenv E0 = Inr sv" "server_serve T sv R q (gw_server g) = (resp, s)" "ghosts_ok T getenv sv g"
  shows "ghosts_ok T getenv sv (g\<lparr>gw_server := s, gw_seen := gw_seen g @ [(R, q)]\<rparr>)" (is "ghosts_ok T getenv sv ?g'")
  unfolding ghosts_ok_def
proof (intro conjI allI impI)
  fix k p assume p: "row (rp_pendings (gw_server ?g')) k = Some p"
  from step_changes[OF assms(1,2)] have grow: "pendings_grow (st_rpc T) getenv (sv_rpc sv) {q}
      (rp_pendings (gw_server g)) (rp_pendings s)" by blast
  show "recorded T sv ?g' k p"
  proof (cases "row (rp_pendings s) k = row (rp_pendings (gw_server g)) k")
    case True
    with p ghosts_okD(1)[OF assms(3)] have "recorded T sv g k p" by simp
    then show ?thesis by (rule recorded_more) auto
  next
    case False
    with grow[unfolded pendings_grow_def, rule_format, of k] p
    have "requested (st_rpc T) (sv_rpc sv) {r. PostRPC r \<in> {q}} k p" by auto
    then have "requested (st_rpc T) (sv_rpc sv) {r. PostRPC r \<in> snd ` set (gw_seen ?g')} k p"
      by (rule requested_mono) auto
    then show ?thesis unfolding recorded_def using same_request_refl by blast
  qed
next
  from serve_jobs[OF assms(1,2)] obtain js where js: "ss_jobs s = ss_jobs (gw_server g) @ js"
    "\<And>key approver aty target. RunAdminAck key approver aty target \<in> set js \<Longrightarrow> click_by T getenv (R, q) approver"
    by blast
  then have more: "ack_queued g key approver aty \<Longrightarrow> ack_queued ?g' key approver aty" for key approver aty
    by (auto simp: ack_queued_def)
  show "\<exists>e \<in> set (gw_seen ?g'). click_by T getenv e approver" if "ack_queued ?g' key approver aty" for key approver aty
  proof (cases "ack_queued g key approver aty")
    case True
    from ghosts_okD(2)[OF assms(3) this] show ?thesis by auto
  next
    case False
    with that js show ?thesis by (auto simp: ack_queued_def)
  qed
  show "ack_queued ?g' key approver aty" if "gw_threads ?g' t = Approving key approver aty pa" for t key approver aty pa
    using that ghosts_okD(3)[OF assms(3)] more by simp
  show "ack_queued ?g' key approver aty" if "(key, pa, approver, aty) \<in> set (gw_log ?g')" for key pa approver aty
    using that ghosts_okD(4)[OF assms(3)] more by simp
qed

lemma job_ghosts:
  assumes step: "job_step P parse (ss_jobs (gw_server g) ! t) (gw_threads g t, stores_of (gw_server g)) (h, a)"
    and t: "t < length (ss_jobs (gw_server g))"
    and settled: "settles (row (rp_pendings (gw_server g))) (row (as_pendings a))"
    and ok: "ghosts_ok T getenv sv g"
  shows "ghosts_ok T getenv sv (g\<lparr>gw_server := with_stores a (gw_server g), gw_threads := (gw_threads g)(t := h),
      gw_log := gw_log g @ tried (gw_threads g t)\<rparr>)" (is "ghosts_ok T getenv sv ?g'")
proof -
  have same: "ack_queued ?g' = ack_queued g" "gw_seen ?g' = gw_seen g"
    by (simp_all add: ack_queued_def with_stores_def fun_eq_iff)
  show ?thesis
    unfolding ghosts_ok_def same
  proof (intro conjI allI impI)
    fix k p assume "row (rp_pendings (gw_server ?g')) k = Some p"
    with settled obtain p1 where "row (rp_pendings (gw_server g)) k = Some p1" "same_request p1 p"
      by (auto simp: settles_def with_stores_def)
    with ghosts_okD(1)[OF ok] show "recorded T sv ?g' k p"
      by (intro recorded_more[of T sv g k p1 ?g' p]) simp_all
  next
    fix key approver aty assume "ack_queued g key approver aty"
    then show "\<exists>e \<in> set (gw_seen g). click_by T getenv e approver" by (rule ghosts_okD(2)[OF ok])
  next
    fix t' key approver aty pa assume th: "gw_threads ?g' t' = Approving key approver aty pa"
    show "ack_queued g key approver aty"
    proof (cases "t' = t")
      case True
      with th step have "job_step P parse (ss_jobs (gw_server g) ! t) (gw_threads g t, stores_of (gw_server g))
          (Approving key approver aty pa, a)" by simp
      from job_step_approving[OF this] t show ?thesis by (auto simp: ack_queued_def in_set_conv_nth)
    next
      case False
      with th ghosts_okD(3)[OF ok] show ?thesis by simp
    qed
  next
    fix key pa approver aty assume "(key, pa, approver, aty) \<in> set (gw_log ?g')"
    then consider "(key, pa, approver, aty) \<in> set (gw_log g)" | "gw_threads g t = Approving key approver aty pa"
      by (auto simp: tried_def split: handler.splits)
    then show "ack_queued g key approver aty" using ghosts_okD(3,4)[OF ok] by cases
  qed
qed

text \<open>With approval of changes enforced, requests leave the projects alone, so the flow invariant survives them.\<close>

lemma serve_flow:
  assumes "server_main H getenv E0 = Inr sv" "server_serve T sv R q (gw_server g) = (resp, s)"
    and "getenv ''RUNOPS_RPC_HIGH_MUTATION_ENABLED'' = ''1''"
    and "sqlite_flow.flow_inv parse (flow_of g)"
  shows "sqlite_flow.flow_inv parse (flow_of (g\<lparr>gw_server := s, gw_seen := gw_seen g @ [(R, q)]\<rparr>))"
proof -
  from step_changes[OF assms(1,2)] assms(3)
  have reg: "row (rp_registry s) = row (rp_registry (gw_server g))"
    and grow: "pendings_grow (st_rpc T) getenv (sv_rpc sv) {q} (rp_pendings (gw_server g)) (rp_pendings s)"
    by (auto simp: writes_projects_def)
  have "sqlite_flow.keeps (rp_pendings (gw_server g)) (rp_pendings s)"
    unfolding sqlite_flow.keeps_def
  proof (intro allI impI)
    fix k p assume "row (rp_pendings (gw_server g)) k = Some p"
    with grow[unfolded pendings_grow_def, rule_format, of k]
    show "\<exists>p'. row (rp_pendings s) k = Some p' \<and> same_request p p'" using same_request_refl by auto
  qed
  from sqlite_flow.flow_inv_same_rows[OF assms(4), of "stores_of s"] this reg show ?thesis
    by (simp add: flow_of_def stores_of_def)
qed

lemma backend_invariants:
  assumes "admin_backend b = Some (P, create)" "sqlite_flow.flow_inv parse f"
    and "job_step P parse j (fl_threads f t, fl_state f) (h, a)"
  shows "sqlite_flow.flow_inv parse
      (f\<lparr>fl_state := a, fl_threads := (fl_threads f)(t := h), fl_log := fl_log f @ tried (fl_threads f t)\<rparr>) \<and>
    settles (row (as_pendings (fl_state f))) (row (as_pendings a))"
proof -
  from assms(1) consider "P = sqlite_ports" "create = sqlite_CreateIfNotExists"
    | "P = firestore_ports" "create = firestore_CreateIfNotExists"
    by (auto simp: admin_backend_def split: option.splits backend.splits)
  then show ?thesis
  proof cases
    case 1
    from sqlite_flow.flow_inv_step[OF assms(2) job_step_flow[OF assms(3)[unfolded 1]]]
      sqlite_flow.job_step_settles[OF assms(3)[unfolded 1]] show ?thesis by simp
  next
    case 2
    from firestore_flow.flow_inv_step[OF assms(2) job_step_flow[OF assms(3)[unfolded 2]]]
      firestore_flow.job_step_settles[OF assms(3)[unfolded 2]] show ?thesis by simp
  qed
qed

lemma gateway_invariants:
  assumes "server_main H getenv E0 = Inr sv" "getenv ''RUNOPS_RPC_HIGH_MUTATION_ENABLED'' = ''1''"
    and "gateway_reachable T sv parse g"
  shows "sqlite_flow.flow_inv parse (flow_of g) \<and> ghosts_ok T getenv sv g"
  using assms(3)
proof (induction rule: gateway_reachable.induct)
  case (boot s)
  then show ?case
    by (simp add: sqlite_flow.flow_inv_def flow_of_def stores_of_def ghosts_ok_def ack_queued_def)
next
  case (go g g')
  from go(2) show ?case
  proof (cases rule: gateway_step.cases)
    case (serve R q resp s)
    with go(3) serve_flow[OF assms(1) serve(2) assms(2)] serve_ghosts[OF assms(1) serve(2)] show ?thesis by blast
  next
    case (run_job P create t h a)
    have js: "job_step P parse (ss_jobs (gw_server g) ! t) (fl_threads (flow_of g) t, fl_state (flow_of g)) (h, a)"
      using run_job(4) by (simp add: flow_of_def)
    from go(3) backend_invariants[OF run_job(2) _ js]
    have inv: "sqlite_flow.flow_inv parse ((flow_of g)\<lparr>fl_state := a, fl_threads := (fl_threads (flow_of g))(t := h),
          fl_log := fl_log (flow_of g) @ tried (fl_threads (flow_of g) t)\<rparr>)"
      and set: "settles (row (rp_pendings (gw_server g))) (row (as_pendings a))"
      by (auto simp: flow_of_def stores_of_def)
    have "flow_of g' = (flow_of g)\<lparr>fl_state := a, fl_threads := (fl_threads (flow_of g))(t := h),
          fl_log := fl_log (flow_of g) @ tried (fl_threads (flow_of g) t)\<rparr>"
      by (simp add: run_job(1) flow_of_def stores_of_def with_stores_def)
    with inv job_ghosts[OF run_job(4,3) set] go(3) run_job(1) show ?thesis by simp
  qed
qed

section \<open>Four eyes, end to end\<close>


section \<open>A run with two people\<close>

definition full_environment :: getenv where
  "full_environment k =
     (if k = ''SLACK_SIGNING_SECRET'' then ''secret''
      else if k = ''SLACK_BOT_TOKEN'' then ''xoxb''
      else if k = ''RUNOPS_PROJECT_REGISTRY'' then ''sqlite''
      else if k = ''RUNOPS_STATE_DB_PATH'' then ''/s.db''
      else if k = ''RUNOPS_RPC_ENDPOINT_ENABLED'' then ''1''
      else if k = ''RUNOPS_RPC_HIGH_MUTATION_ENABLED'' then ''1''
      else if k = ''RUNOPS_ADMIN_TOKENS_REGISTRY_FILE'' then ''f''
      else if k = ''RUNOPS_ADMIN_APPROVAL_CHANNEL'' then ''C1''
      else [])"

definition full_config :: server_config where
  "full_config = small_config\<lparr>sc_slackBotToken := ''xoxb''\<rparr>"

definition full_server :: server where
  "full_server =
     the_server small_host full_environment full_config StubDispatcher None (Some (SQLite ''/s.db''))
       (Some (SQLite ''/s.db'')) True"

text \<open>The button value \<open>V\<close> names the request of \<open>UA\<close>; the payload \<open>J\<close> is a click on it by \<open>UB\<close>.\<close>

definition two_people_codec :: slack_codec where
  "two_people_codec =
     \<lparr>sl_parse = (\<lambda>s. if s = ''J'' then Some (JObj
        [(''user'', JObj [(''id'', JStr ''UB'')]),
         (''actions'', JArr [JObj [(''action_id'', JStr ''approval_approve''), (''value'', JStr ''V'')]])])
      else if s = ''V'' then Some (JObj
        [(''kind'', JStr ''admin_mutation''), (''parent_idempotency_key'', JStr add_key),
         (''original_requester_id'', JStr ''UA''), (''requester_actor_type'', JStr ''human-operator''),
         (''requester_actor_source'', JStr ''broker_verified'')])
      else None),
      sl_marshal = (\<lambda>_. []), sl_deflate = (\<lambda>s. s), sl_inflate = Some\<rparr>"

definition two_people_texts :: server_texts where
  "two_people_texts = small_texts\<lparr>
     st_http := \<lparr>hh_hmac = (\<lambda>k m. k), hh_form = (\<lambda>s. if s = ''F'' then Some [(''payload'', ''J'')] else Some [])\<rparr>,
     st_slack := two_people_codec, st_rpc := sample_rpc_host\<rparr>"

definition click_request_UB :: interactive_request where
  "click_request_UB = \<lparr>iq_Timestamp = ''0'', iq_Signature = ''v0=secret'', iq_Body = Some ''F'', iq_Query = []\<rparr>"

definition two_people_parse :: json_text where
  "two_people_parse s = (if s = ''P'' then Some (JObj [(''id'', JStr ''web'')]) else None)"

definition calm_request_env :: request_env where
  "calm_request_env = small_request_env\<lparr>re_store := calm_env\<rparr>"

definition fresh_state :: server_state where
  "fresh_state = small_state\<lparr>rp_registry := empty_table\<rparr>"

definition asked_state :: server_state where
  "asked_state = fresh_state\<lparr>rp_registry := rp_registry added_state, rp_pendings := rp_pendings added_state,
     rp_posted := rp_posted added_state\<rparr>"

definition clicked_jobs :: "job list" where
  "clicked_jobs = [RunAdminAck add_key ''UB'' CallerHumanOperator
     \<lparr>nt_CallbackURL = [], nt_Mode = ModeSlack, nt_ChannelID = [], nt_ThreadTS = []\<rparr>]"

lemma full_server_starts: "server_main small_host full_environment E = Inr full_server"
proof -
  have cfg: "server_loadConfig full_environment = Inr full_config" by code_simp
  have st: "ResolveFromEnv (sh_state small_host) full_environment = Inr (Some (SQLite ''/s.db''))"
    "ResolvePendingStoreFromEnv (sh_state small_host) full_environment = Inr (Some (SQLite ''/s.db''))"
    by code_simp+
  have b: "buildDispatcher small_host full_config = Inr StubDispatcher" "sh_gcp small_host = None"
    "buildApprovalPublisher small_host full_config = Inr None"
    by (simp_all add: buildDispatcher_def buildApprovalPublisher_def full_config_def small_config_def small_host_def)
  have wiring: "rpc_wiring_of full_environment full_config (Some (SQLite ''/s.db'')) (Some (SQLite ''/s.db'')) = sample_wiring"
    by (simp add: rpc_wiring_of_def full_environment_def admin_requester_def full_config_def sample_wiring_def
        backend_registry_def backend_pending_def)
  have "sh_rpc small_host = sample_rpc_host" by (simp add: small_host_def)
  then show ?thesis
    by (simp add: server_main_def cfg b st assemble_server_def wiring full_server_def wireRPCEndpoint_def sample_wiring_def
        sample_rpc_host_def sample_loaded production_dispatcher_eq backend_ports)
qed

lemma full_wiring: "sv_rpc full_server = sample_wiring"
  by (simp add: full_server_def rpc_wiring_of_def full_environment_def admin_requester_def full_config_def sample_wiring_def
      backend_registry_def backend_pending_def)

lemma asked: "\<exists>resp. server_serve two_people_texts full_server calm_request_env (PostRPC add_request) fresh_state = (resp, asked_state)"
proof -
  have "rpc_state.truncate fresh_state = empty_rpc_state"
    by (simp add: rpc_state.truncate_def fresh_state_def small_state_def empty_rpc_state_def)
  moreover have "snd (post_rpc sample_rpc_host sample_wiring calm_env add_request empty_rpc_state) = added_state"
    using add_session by (simp add: Let_def split: prod.splits)
  ultimately show ?thesis
    by (simp add: two_people_texts_def full_wiring calm_request_env_def asked_state_def Let_def)
qed

lemma handler_UB: "sv_interactive full_server =
   \<lparr>ih_hasDispatch = True, ih_hasPublisher = False, ih_hasAdminApproval = True, ih_signingSecret = ''secret'',
    ih_aiAgentBotUserIDs = []\<rparr>"
proof -
  have "ParseAIAgentBotUserIDs [] = []" by code_simp
  then show ?thesis
    by (simp add: full_server_def the_server_def Let_def slack_handler_def full_config_def small_config_def
        full_environment_def)
qed

lemma clicked: "\<exists>code ts. interactive_ServeHTTP (st_http two_people_texts) (st_slack two_people_texts)
     (sv_interactive full_server) 0 click_request_UB (ss_tokens asked_state) = (code, Some (hd clicked_jobs), ts)"
proof -
  have "case interactive_ServeHTTP (st_http two_people_texts) (st_slack two_people_texts)
     \<lparr>ih_hasDispatch = True, ih_hasPublisher = False, ih_hasAdminApproval = True, ih_signingSecret = ''secret'',
      ih_aiAgentBotUserIDs = []\<rparr> 0 click_request_UB (Some (NewMemoryConsumedStore 3600)) of
       (code, job, ts) \<Rightarrow> job = Some (hd clicked_jobs)"
    by code_simp
  then show ?thesis
    unfolding handler_UB by (simp add: asked_state_def fresh_state_def small_state_def split: prod.splits)
qed

definition approved_stores :: "(pendings, registry) admin_state" where
  "approved_stores = snd (fetchActive sqlite_ports calm_env add_key
     \<lparr>as_pendings = rp_pendings added_state, as_registry = rp_registry added_state\<rparr>)"

definition applied_stores :: "(pendings, registry) admin_state" where
  "applied_stores = snd (apply_op sqlite_ports two_people_parse calm_env add_pending approved_stores)"

lemma run_UB:
  "fst (fetchActive sqlite_ports calm_env add_key
     \<lparr>as_pendings = rp_pendings added_state, as_registry = rp_registry added_state\<rparr>) = Inr add_pending"
  "validate4Eyes add_pending ''UB'' CallerHumanOperator = None"
  "fst (apply_op sqlite_ports two_people_parse calm_env add_pending approved_stores) = None"
  "map_option pj_ID (row (as_registry applied_stores) ''web'') = Some ''web''"
  by code_simp+

lemma two_people_run:
  "\<exists>g q. gateway_reachable two_people_texts full_server two_people_parse g \<and>
     row (rp_registry (gw_server g)) ''web'' = Some q \<and>
     gw_seen g = [(calm_request_env, PostRPC add_request), (calm_request_env, PostInteractive click_request_UB)]"
proof -
  let ?step = "gateway_step two_people_texts full_server two_people_parse"
  let ?reach = "gateway_reachable two_people_texts full_server two_people_parse"
  have pr: "fst x = a \<Longrightarrow> x = (a, snd x)" for x :: "'x \<times> 'y" and a by (cases x) simp
  define g0 where "g0 = \<lparr>gw_server = fresh_state, gw_threads = (\<lambda>_. Idle), gw_log = [], gw_seen = []\<rparr>"
  define g1 where "g1 = g0\<lparr>gw_server := asked_state, gw_seen := [(calm_request_env, PostRPC add_request)]\<rparr>"
  have r0: "?reach g0"
    unfolding g0_def
    by (rule gateway_reachable.boot) (simp_all add: fresh_state_def small_state_def empty_table_def fun_eq_iff)
  obtain resp where "server_serve two_people_texts full_server calm_request_env (PostRPC add_request)
      (gw_server g0) = (resp, asked_state)" using asked by (auto simp: g0_def)
  from gateway_reachable.go[OF r0 gateway_step.serve[OF this, of two_people_parse]]
  have r1: "?reach g1" by (simp add: g1_def g0_def)
  obtain code ts where click: "interactive_ServeHTTP (st_http two_people_texts) (st_slack two_people_texts)
     (sv_interactive full_server) 0 click_request_UB (ss_tokens asked_state) = (code, Some (hd clicked_jobs), ts)"
    using clicked by auto
  define s2 where "s2 = asked_state\<lparr>ss_tokens := ts, ss_jobs := clicked_jobs\<rparr>"
  define g2 where "g2 = g1\<lparr>gw_server := s2, gw_seen := [(calm_request_env, PostRPC add_request),
      (calm_request_env, PostInteractive click_request_UB)]\<rparr>"
  have "server_serve two_people_texts full_server calm_request_env (PostInteractive click_request_UB) (gw_server g1) =
      (SlackStatus code, s2)"
    using click by (simp add: post_interactive_def calm_request_env_def small_request_env_def clicked_jobs_def
        s2_def g1_def asked_state_def fresh_state_def small_state_def)
  from gateway_reachable.go[OF r1 gateway_step.serve[OF this]]
  have r2: "?reach g2" by (simp add: g2_def g1_def)
  have backend: "admin_backend (sv_pending full_server) = Some (sqlite_ports, sqlite_CreateIfNotExists)"
    by (simp add: full_server_def the_server_def Let_def admin_backend_def)
  have jobs: "0 < length (ss_jobs (gw_server g2))" by (simp add: g2_def s2_def clicked_jobs_def)
  have stores: "stores_of (gw_server g2) = \<lparr>as_pendings = rp_pendings added_state, as_registry = rp_registry added_state\<rparr>"
    by (simp add: stores_of_def g2_def s2_def asked_state_def)
  have "job_step sqlite_ports two_people_parse (ss_jobs (gw_server g2) ! 0) (gw_threads g2 0, stores_of (gw_server g2))
      (Approving add_key ''UB'' CallerHumanOperator add_pending, approved_stores)"
  proof -
    have "ss_jobs (gw_server g2) ! 0 = hd clicked_jobs" "gw_threads g2 0 = Idle"
      by (simp_all add: g2_def s2_def g1_def g0_def clicked_jobs_def)
    then show ?thesis
      unfolding stores approved_stores_def clicked_jobs_def list.sel
      by (simp only:) (rule job_step.ack_reads[OF pr[OF run_UB(1)]], simp add: run_UB(2))
  qed
  note r3 = gateway_reachable.go[OF r2 gateway_step.run_job[OF backend jobs this]]
  define g3 where "g3 = g2\<lparr>gw_server := with_stores approved_stores (gw_server g2),
      gw_threads := (gw_threads g2)(0 := Approving add_key ''UB'' CallerHumanOperator add_pending),
      gw_log := gw_log g2 @ tried (gw_threads g2 0)\<rparr>"
  have g3: "?reach g3" unfolding g3_def by (rule r3)
  have jobs3: "0 < length (ss_jobs (gw_server g3))" by (simp add: g3_def g2_def s2_def with_stores_def clicked_jobs_def)
  have stores3: "stores_of (gw_server g3) = approved_stores"
    by (simp add: g3_def with_stores_def stores_of_def)
  have "job_step sqlite_ports two_people_parse (ss_jobs (gw_server g3) ! 0) (gw_threads g3 0, stores_of (gw_server g3))
      (Applied add_key add_pending, applied_stores)"
    unfolding stores3 using job_step.ack_applies[OF pr[OF run_UB(3)]]
    by (simp add: g3_def g2_def s2_def with_stores_def clicked_jobs_def applied_stores_def)
  note r4 = gateway_reachable.go[OF g3 gateway_step.run_job[OF backend jobs3 this]]
  obtain q where "row (as_registry applied_stores) ''web'' = Some q"
    using run_UB(4) by auto
  moreover have "gw_seen g3 = [(calm_request_env, PostRPC add_request),
      (calm_request_env, PostInteractive click_request_UB)]" by (simp add: g3_def g2_def)
  ultimately show ?thesis
    by (intro exI conjI) (rule r4, simp_all add: with_stores_def)
qed


end
