(* ===== verification/Rpc_Idempotency.thy ===== *)
theory Rpc_Idempotency
  imports Rpc_Correct "HOL-Library.Multiset"
begin

text \<open>
  The idempotency key of the HIGH methods (\<open>internal/usecase/rpc/methods/idempotency.go\<close>) and what it
  gives to an operator who submits a request again, and what the read-only view of a pending request
  keeps to itself.
\<close>

section \<open>The key\<close>

lemma update_absent: "k \<notin> fst ` set xs \<Longrightarrow> AList.update k v xs = xs @ [(k, v)]"
  by (induction xs) auto

lemma fold_update_distinct:
  "distinct (map fst (acc @ kvs)) \<Longrightarrow> fold (\<lambda>(k, v). AList.update k v) kvs acc = acc @ kvs"
  by (induction kvs arbitrary: acc) (auto simp: update_absent image_iff)

lemma last_wins_distinct: "distinct (map fst kvs) \<Longrightarrow> last_wins kvs = kvs"
  by (simp add: last_wins_def fold_update_distinct)

lemma normal_json_reorder:
  assumes "mset kvs = mset kvs'" "distinct (map fst kvs)"
  shows "normal_json (JObj kvs) = normal_json (JObj kvs')"
proof -
  let ?n = "map (\<lambda>(k, v). (k, normal_json v))"
  have keys: "map fst (?n xs) = map fst xs" for xs :: "(string \<times> json) list" by (induction xs) auto
  from assms have "distinct (map fst kvs')" by (metis mset_map mset_eq_imp_distinct_iff)
  with assms(2) have lw: "last_wins (?n kvs) = ?n kvs" "last_wins (?n kvs') = ?n kvs'"
    by (simp_all only: last_wins_distinct keys)
  have "sort_key fst (?n kvs) = sort_key fst (?n kvs')"
  proof (rule sort_key_inj_key_eq)
    show "mset (?n kvs) = mset (sort_key fst (?n kvs'))" using assms(1) by simp
    show "inj_on fst (set (?n kvs))" using assms(2) keys by (metis distinct_map)
    show "sorted (map fst (sort_key fst (?n kvs')))" by simp
  qed
  with lw show ?thesis by simp
qed

lemma key_parts:
  assumes "\<And>a b. digest a = digest b \<Longrightarrow> a = b"
    and "ComputeIdempotencyKey C digest r m p = Some k" "ComputeIdempotencyKey C digest r' m' p' = Some k"
    and "CHR 0x00 \<notin> set r \<union> set r' \<union> set m \<union> set m'"
  shows "r = r' \<and> m = m' \<and> canonicalizeParams C p = canonicalizeParams C p'"
proof -
  from assms(2,3) obtain c c' where c: "canonicalizeParams C p = Some c" "canonicalizeParams C p' = Some c'"
    "digest (r @ [CHR 0x00] @ m @ [CHR 0x00] @ c) = digest (r' @ [CHR 0x00] @ m' @ [CHR 0x00] @ c')"
    by (auto simp: ComputeIdempotencyKey_def)
  from assms(1)[OF c(3)] have e: "r @ CHR 0x00 # (m @ CHR 0x00 # c) = r' @ CHR 0x00 # (m' @ CHR 0x00 # c')"
    by simp
  from assms(4) sep_unique[OF _ _ e] have 1: "r = r'" "m @ CHR 0x00 # c = m' @ CHR 0x00 # c'" by auto
  from assms(4) sep_unique[OF _ _ 1(2)] have "m = m'" "c = c'" by auto
  with 1 c show ?thesis by simp
qed

text \<open>The key of a HIGH request means what it should.  Up to collisions of the digest (the only
  assumption; operator ids and method names hold no NUL byte) two submissions share a key only when
  they come from the same operator, for the same method, with parameters of the same canonical form;
  and submitting the members of the params object in another order gives the same key.\<close>

theorem idempotency_key_exact:
  assumes "\<And>a b. digest a = digest b \<Longrightarrow> a = b"
    and "CHR 0x00 \<notin> set r \<union> set r' \<union> set m \<union> set m'"
    and "ComputeIdempotencyKey C digest r m p = Some k"
  shows "(ComputeIdempotencyKey C digest r' m' p' = Some k \<longleftrightarrow>
            r = r' \<and> m = m' \<and> canonicalizeParams C p = canonicalizeParams C p') \<and>
    (p \<noteq> [] \<and> p' \<noteq> [] \<and> jc_any C p = Some (JObj kvs) \<and> jc_any C p' = Some (JObj kvs') \<and>
     distinct (map fst kvs) \<and> mset kvs = mset kvs' \<longrightarrow>
     ComputeIdempotencyKey C digest r m p' = Some k)"
proof (rule conjI)
  show "ComputeIdempotencyKey C digest r' m' p' = Some k \<longleftrightarrow>
      r = r' \<and> m = m' \<and> canonicalizeParams C p = canonicalizeParams C p'"
  proof
    assume k: "ComputeIdempotencyKey C digest r' m' p' = Some k"
    show "r = r' \<and> m = m' \<and> canonicalizeParams C p = canonicalizeParams C p'"
      by (rule key_parts[OF _ assms(3) k assms(2)]) (rule assms(1))
  next
    assume "r = r' \<and> m = m' \<and> canonicalizeParams C p = canonicalizeParams C p'"
    with assms(3) show "ComputeIdempotencyKey C digest r' m' p' = Some k"
      by (simp add: ComputeIdempotencyKey_def)
  qed
  show "p \<noteq> [] \<and> p' \<noteq> [] \<and> jc_any C p = Some (JObj kvs) \<and> jc_any C p' = Some (JObj kvs') \<and>
     distinct (map fst kvs) \<and> mset kvs = mset kvs' \<longrightarrow> ComputeIdempotencyKey C digest r m p' = Some k"
  proof
    assume "p \<noteq> [] \<and> p' \<noteq> [] \<and> jc_any C p = Some (JObj kvs) \<and> jc_any C p' = Some (JObj kvs') \<and>
       distinct (map fst kvs) \<and> mset kvs = mset kvs'"
    then have "canonicalizeParams C p' = canonicalizeParams C p"
      using normal_json_reorder[of kvs kvs'] by (simp add: canonicalizeParams_def del: normal_json.simps)
    with assms(3) show "ComputeIdempotencyKey C digest r m p' = Some k" by (simp add: ComputeIdempotencyKey_def)
  qed
qed

text \<open>Two spellings of one request: the members in both orders.\<close>

definition two_orders :: codec where
  "two_orders = list_codec
     [(''P'', JObj [(''a'', JInt 1), (''b'', JInt 2)], []), (''Q'', JObj [(''b'', JInt 2), (''a'', JInt 1)], [])]"

lemma two_orders_key:
  "ComputeIdempotencyKey two_orders (\<lambda>t. t) ''UA'' ''m'' ''P'' = Some (''UA'' @ [CHR 0x00] @ ''m'' @ [CHR 0x00] @ ''P'')"
  by code_simp

lemma idempotency_key_exact_witness:
  "ComputeIdempotencyKey two_orders (\<lambda>t. t) ''UA'' ''m'' ''Q'' =
     Some (''UA'' @ [CHR 0x00] @ ''m'' @ [CHR 0x00] @ ''P'') \<and>
   ComputeIdempotencyKey two_orders (\<lambda>t. t) ''UB'' ''m'' ''P'' \<noteq>
     Some (''UA'' @ [CHR 0x00] @ ''m'' @ [CHR 0x00] @ ''P'')"
proof -
  have vals: "jc_any two_orders ''P'' = Some (JObj [(''a'', JInt 1), (''b'', JInt 2)])"
    "jc_any two_orders ''Q'' = Some (JObj [(''b'', JInt 2), (''a'', JInt 1)])"
    by (simp_all add: two_orders_def list_codec_def)
  show ?thesis
    using idempotency_key_exact[OF _ _ two_orders_key, of "''UB''" "''m''" "''P''"]
      idempotency_key_exact[OF _ _ two_orders_key, of "''UA''" "''m''" "''Q''"
        "[(''a'', JInt 1), (''b'', JInt 2)]" "[(''b'', JInt 2), (''a'', JInt 1)]"] vals
    by (simp add: add_mset_commute)
qed

section \<open>Submitting again\<close>

context rpc_backend
begin

lemma create_known_key:
  assumes "pfind t (pa_IdempotencyKey x) \<noteq> None"
  shows "pfind (snd (create E x t)) = pfind t" "snd (fst (create E x t)) \<noteq> None"
    "snd (fst (create E x t)) = Some ErrPendingAlreadyExists \<Longrightarrow>
       pfind t (pa_IdempotencyKey x) = Some (fst (fst (create E x t)))"
proof -
  show "snd (fst (create E x t)) \<noteq> None" using pd.create_ok[of E x t] assms by blast
  show "snd (fst (create E x t)) = Some ErrPendingAlreadyExists \<Longrightarrow>
       pfind t (pa_IdempotencyKey x) = Some (fst (fst (create E x t)))" by (rule pd.create_exists)
  show "pfind (snd (create E x t)) = pfind t"
  proof
    fix k
    show "pfind (snd (create E x t)) k = pfind t k"
    proof (cases "pfind t k")
      case (Some q)
      then show ?thesis using pd.create_keeps by simp
    next
      case None
      then show ?thesis using pd.create_new[OF None] assms by (metis option.exhaust)
    qed
  qed
qed

lemma created_is_stored:
  assumes "createPending cf create opr nm pop params s = (Returns (Inr (ResCreated key st)), s1)"
  shows "ComputeIdempotencyKey (rc_codec cf) (rc_digest cf) (op_OperatorID opr) nm params = Some key \<or>
    (\<exists>p k. ComputeIdempotencyKey (rc_codec cf) (rc_digest cf) (op_OperatorID opr) nm params = Some k \<and>
       pfind (rp_pendings s) k = Some p \<and> key = pa_IdempotencyKey p)"
    and "st = PendingStatusPendingApproval"
    and "\<exists>k. ComputeIdempotencyKey (rc_codec cf) (rc_digest cf) (op_OperatorID opr) nm params = Some k \<and>
      pfind (rp_pendings s1) k \<noteq> None"
proof -
  from assms obtain k where k: "ComputeIdempotencyKey (rc_codec cf) (rc_digest cf) (op_OperatorID opr) nm params = Some k"
    by (auto simp: createPending_def split: option.splits)
  let ?x = "\<lparr>pa_IdempotencyKey = k, pa_Op = pop, pa_BodyJSON = params,
             pa_EffectiveRequesterID = op_OperatorID opr, pa_RequesterActorType = op_ActorType opr,
             pa_CreatedAt = es_now (rc_env cf), pa_Status = PendingStatusPendingApproval, pa_AppliedAt = None\<rparr>"
  let ?r = "create (rc_env cf) ?x (rp_pendings s)"
  have ps: "rp_pendings s1 = snd ?r"
    using assms k by (auto simp: createPending_def publish_def Let_def split: option.splits pending_error.splits)
  have "(snd (fst ?r) = None \<and> key = k) \<or>
        (snd (fst ?r) = Some ErrPendingAlreadyExists \<and> key = pa_IdempotencyKey (fst (fst ?r)))"
    and st: "st = PendingStatusPendingApproval"
    using assms k by (auto simp: createPending_def Let_def split: option.splits pending_error.splits)
  then show "ComputeIdempotencyKey (rc_codec cf) (rc_digest cf) (op_OperatorID opr) nm params = Some key \<or>
    (\<exists>p k. ComputeIdempotencyKey (rc_codec cf) (rc_digest cf) (op_OperatorID opr) nm params = Some k \<and>
       pfind (rp_pendings s) k = Some p \<and> key = pa_IdempotencyKey p)"
    and "\<exists>k. ComputeIdempotencyKey (rc_codec cf) (rc_digest cf) (op_OperatorID opr) nm params = Some k \<and>
      pfind (rp_pendings s1) k \<noteq> None"
    using pd.create_ok[of "rc_env cf" ?x "rp_pendings s"] pd.create_exists[of "rc_env cf" ?x "rp_pendings s"]
      pd.create_keeps[of "rp_pendings s" k _ "rc_env cf" ?x] k ps by auto
  show "st = PendingStatusPendingApproval" by (rule st)
qed

lemma resubmit:
  assumes "ComputeIdempotencyKey (rc_codec cf) (rc_digest cf) (op_OperatorID opr) nm params = Some k"
    and "pfind (rp_pendings s) k = Some q"
    and "createPending cf create opr nm pop params s = (r, s')"
  shows "(r = Returns (Inr (ResCreated (pa_IdempotencyKey q) PendingStatusPendingApproval)) \<or>
          (\<exists>e. r = Returns (Inl e) \<and> er_Code e = CodeInternalError)) \<and>
    pfind (rp_pendings s') = pfind (rp_pendings s) \<and> rp_posted s' = rp_posted s \<and>
    rp_registry s' = rp_registry s"
proof -
  let ?x = "\<lparr>pa_IdempotencyKey = k, pa_Op = pop, pa_BodyJSON = params,
             pa_EffectiveRequesterID = op_OperatorID opr, pa_RequesterActorType = op_ActorType opr,
             pa_CreatedAt = es_now (rc_env cf), pa_Status = PendingStatusPendingApproval, pa_AppliedAt = None\<rparr>"
  have "pfind (rp_pendings s) (pa_IdempotencyKey ?x) \<noteq> None" using assms(2) by simp
  note known = create_known_key[OF this, of "rc_env cf"]
  from known(2) obtain e where e: "snd (fst (create (rc_env cf) ?x (rp_pendings s))) = Some e" by blast
  show ?thesis
    using assms known(1,3) e
    by (auto simp: createPending_def Let_def rpc_err_def split: pending_error.splits)
qed

end

lemma sqlite_apply_after: "sqlite_pending_apply = sqlite_pending.after"
  and firestore_apply_after: "firestore_pending_apply = firestore_pending.after"
  by (simp_all add: fun_eq_iff pending_apply_after del: split_paired_All)

text \<open>C32. Submitting a HIGH request again is harmless.  After a first submission was answered with a key,
  and whatever happened to the pending requests since (other submissions, approvals, denials, lost
  calls), the same request of the same operator, with the members of its params in any order, gives
  no second pending request, no change of the first and no second Slack message; the answer is a
  pending approval again, or an internal error when the database fails.\<close>

theorem resubmission_idempotent:
  assumes "createPending cf (pp_Create (backend_pending b)) opr nm pop params s =
      (Returns (Inr (ResCreated key st)), s1)"
    and "params \<noteq> []" "params' \<noteq> []" "jc_any (rc_codec cf) params = Some (JObj kvs)"
    and "jc_any (rc_codec cf) params' = Some (JObj kvs')" "distinct (map fst kvs)" "mset kvs = mset kvs'"
    and "rp_pendings s2 =
      fold (case b of SQLite _ \<Rightarrow> sqlite_pending_apply | Firestore _ _ _ \<Rightarrow> firestore_pending_apply) ops
        (rp_pendings s1)"
    and "createPending (cf\<lparr>rc_env := E'\<rparr>) (pp_Create (backend_pending b)) opr nm pop params' s2 = (r, s3)"
  shows "((\<exists>k. r = Returns (Inr (ResCreated k PendingStatusPendingApproval))) \<or>
      (\<exists>e. r = Returns (Inl e) \<and> er_Code e = CodeInternalError)) \<and>
    row (rp_pendings s3) = row (rp_pendings s2) \<and> rp_posted s3 = rp_posted s2 \<and> rp_registry s3 = rp_registry s2"
proof -
  let ?cf = "cf\<lparr>rc_env := E'\<rparr>"
  have same: "ComputeIdempotencyKey (rc_codec ?cf) (rc_digest ?cf) (op_OperatorID opr) nm params' =
      ComputeIdempotencyKey (rc_codec cf) (rc_digest cf) (op_OperatorID opr) nm params"
    using assms(2-7) normal_json_reorder[of kvs kvs']
    by (simp add: ComputeIdempotencyKey_def canonicalizeParams_def del: normal_json.simps)
  show ?thesis
  proof (cases b)
    case (SQLite p)
    from sqlite_rpc.created_is_stored(3)[OF assms(1)[unfolded SQLite backend_ports pending_port.simps]]
    obtain k q where k: "ComputeIdempotencyKey (rc_codec cf) (rc_digest cf) (op_OperatorID opr) nm params = Some k"
      "row (rp_pendings s1) k = Some q" by blast
    from sqlite_pending.frozen[OF k(2), of ops] assms(8) SQLite obtain q' where
      q': "row (rp_pendings s2) k = Some q'" by (auto simp: sqlite_apply_after)
    from sqlite_rpc.resubmit[OF _ q' assms(9)[unfolded SQLite backend_ports pending_port.simps]] same k(1)
    show ?thesis by auto
  next
    case (Firestore p d c)
    from firestore_rpc.created_is_stored(3)[OF assms(1)[unfolded Firestore backend_ports pending_port.simps]]
    obtain k q where k: "ComputeIdempotencyKey (rc_codec cf) (rc_digest cf) (op_OperatorID opr) nm params = Some k"
      "row (rp_pendings s1) k = Some q" by blast
    from firestore_pending.frozen[OF k(2), of ops] assms(8) Firestore obtain q' where
      q': "row (rp_pendings s2) k = Some q'" by (auto simp: firestore_apply_after)
    from firestore_rpc.resubmit[OF _ q' assms(9)[unfolded Firestore backend_ports pending_port.simps]] same k(1)
    show ?thesis by auto
  qed
qed

definition sample_cf :: rpc_config where
  "sample_cf =
     \<lparr>rc_codec = add_codec, rc_digest = (\<lambda>t. t), rc_env = calm_env, rc_highMutation = True, rc_publish = True\<rparr>"

definition alice :: operator where
  "alice = \<lparr>op_OperatorID = ''UA'', op_Email = [], op_ActorType = ActorTypeHumanOperator\<rparr>"

lemma sample_first:
  "createPending sample_cf (pp_Create (backend_pending (SQLite ''db''))) alice
     MethodNameProjectAdd PendingOpAdd ''P'' empty_rpc_state =
   (Returns (Inr (ResCreated add_key PendingStatusPendingApproval)), added_state)"
  using add_created by (simp add: sample_cf_def alice_def backend_ports)

text \<open>The first request is denied, then the second one arrives.\<close>

definition denied_state :: rpc_state where
  "denied_state = added_state\<lparr>rp_pendings :=
     fold sqlite_pending_apply [(calm_env, OpTransition add_key PendingStatusDenied None)] (rp_pendings added_state)\<rparr>"

lemma add_params_value: "jc_any (rc_codec sample_cf) ''P'' = Some (JObj [(''id'', JStr ''web'')])"
  by (simp add: sample_cf_def add_codec_def list_codec_def)

lemma resubmission_idempotent_witness:
  "\<exists>r s3. createPending (sample_cf\<lparr>rc_env := calm_env\<rparr>) (pp_Create (backend_pending (SQLite ''db''))) alice
       MethodNameProjectAdd PendingOpAdd ''P'' denied_state = (r, s3) \<and>
     row (rp_pendings s3) = row (rp_pendings denied_state) \<and> rp_posted s3 = rp_posted denied_state"
proof -
  obtain r s3 where second: "createPending (sample_cf\<lparr>rc_env := calm_env\<rparr>)
      (pp_Create (backend_pending (SQLite ''db''))) alice
      MethodNameProjectAdd PendingOpAdd ''P'' denied_state = (r, s3)" by fastforce
  have p: "rp_pendings denied_state =
      fold (case SQLite ''db'' of SQLite _ \<Rightarrow> sqlite_pending_apply | Firestore _ _ _ \<Rightarrow> firestore_pending_apply)
        [(calm_env, OpTransition add_key PendingStatusDenied None)] (rp_pendings added_state)"
    by (simp add: denied_state_def)
  have "row (rp_pendings s3) = row (rp_pendings denied_state) \<and> rp_posted s3 = rp_posted denied_state \<and>
      rp_registry s3 = rp_registry denied_state"
    by (rule resubmission_idempotent[OF sample_first _ _ add_params_value add_params_value _ _ p second, THEN conjunct2])
       simp_all
  with second show ?thesis by blast
qed

text \<open>What idempotence costs: once a request has been resolved, denied for example, the same operator
  cannot make it again.  Submitting it is answered with the status pending approval (or an internal
  error), although no approval is pending: the record keeps its terminal status and nothing is posted
  to Slack, so no approver will ever see it.\<close>

theorem resolved_request_cannot_be_renewed:
  assumes "ComputeIdempotencyKey (rc_codec cf) (rc_digest cf) (op_OperatorID opr) nm params = Some k"
    and "row (rp_pendings s) k = Some q" "IsTerminal (pa_Status q)"
    and "createPending cf (pp_Create (backend_pending b)) opr nm pop params s = (r, s')"
  shows "(r = Returns (Inr (ResCreated (pa_IdempotencyKey q) PendingStatusPendingApproval)) \<or>
          (\<exists>e. r = Returns (Inl e) \<and> er_Code e = CodeInternalError)) \<and>
    (\<exists>q'. row (rp_pendings s') k = Some q' \<and> IsTerminal (pa_Status q')) \<and> rp_posted s' = rp_posted s"
proof (cases b)
  case (SQLite p)
  from sqlite_rpc.resubmit[OF assms(1,2) assms(4)[unfolded SQLite backend_ports pending_port.simps]] assms(2,3)
  show ?thesis by auto
next
  case (Firestore p d c)
  from firestore_rpc.resubmit[OF assms(1,2) assms(4)[unfolded Firestore backend_ports pending_port.simps]] assms(2,3)
  show ?thesis by auto
qed

lemma add_key_nonempty: "add_key \<noteq> []"
  by (simp add: add_key_def)

definition denied_add :: pending where
  "denied_add = add_pending\<lparr>pa_Status := PendingStatusDenied\<rparr>"

lemma denied_row: "row (rp_pendings denied_state) add_key = Some denied_add"
  by (simp add: denied_state_def added_state_def sqlite_Transition_def tx_result_def svc_def calm_env_def
      transition_tx_def valid_status_def sqlite_status_update_def denied_add_def add_pending_def)

lemma resolved_request_cannot_be_renewed_witness:
  "\<exists>s'. createPending sample_cf (pp_Create (backend_pending (SQLite ''db''))) alice
      MethodNameProjectAdd PendingOpAdd ''P'' denied_state =
        (Returns (Inr (ResCreated add_key PendingStatusPendingApproval)), s') \<and>
      (\<exists>q'. row (rp_pendings s') add_key = Some q' \<and> IsTerminal (pa_Status q')) \<and>
      rp_posted s' = rp_posted denied_state"
proof -
  have key: "ComputeIdempotencyKey (rc_codec sample_cf) (rc_digest sample_cf) (op_OperatorID alice)
      MethodNameProjectAdd ''P'' = Some add_key"
    by (simp add: sample_cf_def alice_def add_ident)
  obtain r s' where run: "createPending sample_cf (pp_Create (backend_pending (SQLite ''db''))) alice
      MethodNameProjectAdd PendingOpAdd ''P'' denied_state = (r, s')" by fastforce
  have "r = Returns (Inr (ResCreated add_key PendingStatusPendingApproval))"
    using run key denied_row add_key_nonempty
    by (simp add: createPending_def backend_ports sqlite_CreateIfNotExists_def with_defaults_def svc_def
        sample_cf_def calm_env_def checked_def valid_status_def row_create_def sqlite_pending_Get_def
        row_get_def map_err_def Let_def second_def denied_add_def add_pending_def split: if_splits)
  with resolved_request_cannot_be_renewed[OF key denied_row _ run] run show ?thesis
    by (simp add: denied_add_def)
qed

section \<open>The read-only view\<close>

definition hide :: "pending \<Rightarrow> pending" where
  "hide p = p\<lparr>pa_BodyJSON := [], pa_EffectiveRequesterID := [], pa_RequesterActorType := []\<rparr>"

lemma redact_hide: "hide p = hide q \<Longrightarrow> redactPendingApproval p = redactPendingApproval q"
  by (cases p; cases q) (simp add: hide_def redactPendingApproval_def)

lemma row_hide:
  "map (\<lambda>(k, p). (k, hide p)) m = map (\<lambda>(k, p). (k, hide p)) m' \<Longrightarrow>
     map_option hide (map_of m k) = map_option hide (map_of m' k)"
  by (metis map_of_map comp_apply)

lemma backend_fetch:
  "pp_Get (backend_pending b) E k t = map_err get_error (svc E (row_get k) t)"
  by (cases b) (simp_all add: backend_pending_def sqlite_pending_Get_def firestore_pending_Get_def)

lemma fetch_hidden:
  assumes "map (\<lambda>(k, p). (k, hide p)) (rows s) = map (\<lambda>(k, p). (k, hide p)) (rows t)" "ncalls s = ncalls t"
  shows "map_sum id hide (fst (pp_Get (backend_pending b) E k s)) =
         map_sum id hide (fst (pp_Get (backend_pending b) E k t))"
  using row_hide[OF assms(1), of k] assms(2)
  by (auto simp: backend_fetch map_err_def svc_def row_get_def Let_def split: fault.split option.split)

text \<open>The answer of \<open>runops.admin.project.pending.get\<close> says nothing about the body of the request, who
  made it, or of which type they are: it is the same for two stores whose records differ only in
  those, and it changes no record.\<close>

theorem pending_get_redacts:
  assumes "map (\<lambda>(k, p). (k, hide p)) (rows (rp_pendings s)) = map (\<lambda>(k, p). (k, hide p)) (rows (rp_pendings t))"
    and "ncalls (rp_pendings s) = ncalls (rp_pendings t)"
  shows "fst (PendingGet_Handle cf (pp_Get (backend_pending b)) ctx params s) =
           fst (PendingGet_Handle cf (pp_Get (backend_pending b)) ctx params t) \<and>
         rows (rp_pendings (snd (PendingGet_Handle cf (pp_Get (backend_pending b)) ctx params s))) =
           rows (rp_pendings s)"
proof -
  have "fst (PendingGet_Handle cf (pp_Get (backend_pending b)) ctx params s) =
        fst (PendingGet_Handle cf (pp_Get (backend_pending b)) ctx params t)"
  proof (cases "decode_one_param ''idempotency_key'' (rc_codec cf) params")
    case (Some k)
    let ?f = "\<lambda>u. fst (pp_Get (backend_pending b) (rc_env cf) k (rp_pendings u))"
    from fetch_hidden[OF assms, of b "rc_env cf" k]
    consider (err) e where "?f s = Inl e" "?f t = Inl e" | (ok) p q where "?f s = Inr p" "?f t = Inr q" "hide p = hide q"
      by (cases "?f s"; cases "?f t") simp_all
    then show ?thesis
    proof cases
      case err
      with Some show ?thesis by (cases e) (simp_all add: PendingGet_Handle_def Let_def)
    next
      case ok
      with Some show ?thesis using redact_hide[OF ok(3)] by (simp add: PendingGet_Handle_def Let_def)
    qed
  qed (simp add: PendingGet_Handle_def)
  then show ?thesis
    by (simp add: PendingGet_Handle_def backend_fetch Let_def split: option.split sum.split pending_error.split)
qed

lemma pending_get_redacts_witness:
  "fst (PendingGet_Handle sample_cf (pp_Get (backend_pending (SQLite ''db''))) None ''P''
       (empty_rpc_state\<lparr>rp_pendings := \<lparr>rows = [(''web'', sample_pending)], ncalls = 0\<rparr>\<rparr>)) =
   fst (PendingGet_Handle sample_cf (pp_Get (backend_pending (SQLite ''db''))) None ''P''
       (empty_rpc_state\<lparr>rp_pendings := \<lparr>rows = [(''web'', sample_pending\<lparr>pa_BodyJSON := ''secret''\<rparr>)], ncalls = 0\<rparr>\<rparr>))"
  by (rule pending_get_redacts[THEN conjunct1]) (simp_all add: hide_def)

end
