(* ===== verification/Sqlite_Migrations.thy ===== *)
theory Sqlite_Migrations
  imports Document_Store Go_Strings "HOL-Library.List_Lexorder" "HOL-Library.Char_ord"
begin

text \<open>
  The migration runner of the SQLite state database (\<open>internal/adapter/output/state/sqlite.go\<close>).  The
  embedded files and the SQL engine are arguments: \<open>exec_ok\<close> says whether a script runs on the schema
  made by the scripts committed so far.  One migration is one transaction, so a failure before the
  commit leaves nothing behind; the reply of a commit can be lost.  Several processes can run the
  migrations of one file at the same time; their steps interleave at the database calls.
\<close>

record sqlite_db =
  db_ledger :: "string list option"
  db_schema :: "string list"

definition empty_db :: sqlite_db where
  "empty_db = \<lparr>db_ledger = None, db_schema = []\<rparr>"

record migration_set =
  mg_entries :: "(string \<times> bool) list"
  mg_file :: "string \<Rightarrow> string option"
  mg_exec_ok :: "string list \<Rightarrow> string \<Rightarrow> bool"

definition has_suffix :: "string \<Rightarrow> string \<Rightarrow> bool" where
  "has_suffix p s \<longleftrightarrow> length p \<le> length s \<and> drop (length s - length p) s = p"

definition sql_call :: "fault \<Rightarrow> (sqlite_db \<Rightarrow> string option \<times> sqlite_db) \<Rightarrow> sqlite_db \<Rightarrow> string option \<times> sqlite_db" where
  "sql_call f op db =
     (case f of
        Fine \<Rightarrow> op db
      | LostRequest e \<Rightarrow> (Some e, db)
      | LostReply e \<Rightarrow> (Some e, snd (op db)))"

definition ensureMigrationsTable :: "fault \<Rightarrow> sqlite_db \<Rightarrow> string option \<times> sqlite_db" where
  "ensureMigrationsTable f =
     sql_call f (\<lambda>db. (None, case db_ledger db of None \<Rightarrow> db\<lparr>db_ledger := Some []\<rparr> | Some _ \<Rightarrow> db))"

definition loadAppliedMigrations :: "fault \<Rightarrow> sqlite_db \<Rightarrow> string + string list" where
  "loadAppliedMigrations f db =
     (case f of
        Fine \<Rightarrow> (case db_ledger db of
                   None \<Rightarrow> Inl ''query applied migrations: no such table''
                 | Some l \<Rightarrow> Inr l)
      | LostRequest e \<Rightarrow> Inl (''query applied migrations: '' @ e)
      | LostReply e \<Rightarrow> Inl (''iterate migrations: '' @ e))"

text \<open>The insert into the ledger fails on a name that is already there (its primary key).\<close>

definition applySingleMigration ::
  "migration_set \<Rightarrow> fault \<Rightarrow> string \<Rightarrow> sqlite_db \<Rightarrow> string option \<times> sqlite_db" where
  "applySingleMigration M f name =
     (\<lambda>db. case mg_file M name of
        None \<Rightarrow> (Some (''read migration '' @ name), db)
      | Some body \<Rightarrow>
          sql_call f (\<lambda>db.
            if \<not> mg_exec_ok M (db_schema db) body then (Some (''exec '' @ name), db)
            else (case db_ledger db of
                    None \<Rightarrow> (Some (''record '' @ name), db)
                  | Some l \<Rightarrow>
                      if name \<in> set l then (Some (''record '' @ name), db)
                      else (None, \<lparr>db_ledger = Some (l @ [name]), db_schema = db_schema db @ [body]\<rparr>))) db)"

definition migration_names :: "migration_set \<Rightarrow> string list" where
  "migration_names M =
     sort (map fst (filter (\<lambda>(nm, is_dir). \<not> is_dir \<and> has_suffix ''.sql'' nm) (mg_entries M)))"

fun apply_rest ::
  "migration_set \<Rightarrow> (nat \<Rightarrow> fault) \<Rightarrow> nat \<Rightarrow> string list \<Rightarrow> string list \<Rightarrow> sqlite_db \<Rightarrow>
   string option \<times> sqlite_db" where
  "apply_rest M fl i applied [] db = (None, db)"
| "apply_rest M fl i applied (nm # nms) db =
     (if nm \<in> set applied then apply_rest M fl i applied nms db
      else case applySingleMigration M (fl i) nm db of
             (Some e, db') \<Rightarrow> (Some e, db')
           | (None, db') \<Rightarrow> apply_rest M fl (Suc i) applied nms db')"

definition applyMigrations ::
  "migration_set \<Rightarrow> (nat \<Rightarrow> fault) \<Rightarrow> sqlite_db \<Rightarrow> string option \<times> sqlite_db" where
  "applyMigrations M fl db =
     (case ensureMigrationsTable (fl 0) db of
        (Some e, db1) \<Rightarrow> (Some e, db1)
      | (None, db1) \<Rightarrow>
          (case loadAppliedMigrations (fl 1) db1 of
             Inl e \<Rightarrow> (Some e, db1)
           | Inr applied \<Rightarrow> apply_rest M fl 2 applied (migration_names M) db1))"

section \<open>Interleaved runners\<close>

datatype db_event = EvEnsure fault | EvApply fault string

fun db_event_step :: "migration_set \<Rightarrow> db_event \<Rightarrow> sqlite_db \<Rightarrow> sqlite_db" where
  "db_event_step M (EvEnsure f) db = snd (ensureMigrationsTable f db)"
| "db_event_step M (EvApply f nm) db = snd (applySingleMigration M f nm db)"

definition ledger_inv :: "migration_set \<Rightarrow> sqlite_db \<Rightarrow> bool" where
  "ledger_inv M db \<longleftrightarrow>
     (case db_ledger db of
        None \<Rightarrow> db_schema db = []
      | Some l \<Rightarrow> distinct l \<and> map Some (db_schema db) = map (mg_file M) l)"

lemma sql_call_snd: "snd (sql_call f op db) = db \<or> snd (sql_call f op db) = snd (op db)"
  by (simp add: sql_call_def split: fault.split)

lemma sql_call_None: "fst (sql_call f op db) = None \<Longrightarrow> sql_call f op db = op db"
  by (simp add: sql_call_def split: fault.splits)

lemma ledger_inv_empty: "ledger_inv M empty_db"
  by (simp add: ledger_inv_def empty_db_def)

lemma ledger_inv_ensure: "ledger_inv M db \<Longrightarrow> ledger_inv M (snd (ensureMigrationsTable f db))"
  using sql_call_snd[of f "\<lambda>db. (None, case db_ledger db of None \<Rightarrow> db\<lparr>db_ledger := Some []\<rparr> | Some _ \<Rightarrow> db)" db]
  by (auto simp: ledger_inv_def ensureMigrationsTable_def split: option.splits)

lemma apply_effect:
  "snd (applySingleMigration M f nm db) = db \<or>
     (\<exists>body l. mg_file M nm = Some body \<and> db_ledger db = Some l \<and> nm \<notin> set l \<and>
        snd (applySingleMigration M f nm db) =
          \<lparr>db_ledger = Some (l @ [nm]), db_schema = db_schema db @ [body]\<rparr>)"
  by (auto simp: applySingleMigration_def sql_call_def split: option.splits fault.splits if_splits)

lemma apply_None:
  "applySingleMigration M f nm db = (None, db') \<Longrightarrow>
     \<exists>body l. mg_file M nm = Some body \<and> db_ledger db = Some l \<and> nm \<notin> set l \<and>
        db' = \<lparr>db_ledger = Some (l @ [nm]), db_schema = db_schema db @ [body]\<rparr>"
  by (auto simp: applySingleMigration_def sql_call_def split: option.splits fault.splits if_splits)

lemma ledger_inv_apply:
  "ledger_inv M db \<Longrightarrow> ledger_inv M (snd (applySingleMigration M f nm db))"
  using apply_effect[of M f nm db] by (elim disjE exE conjE) (simp_all add: ledger_inv_def)

lemma ledger_inv_step: "ledger_inv M db \<Longrightarrow> ledger_inv M (db_event_step M ev db)"
  by (cases ev) (simp_all add: ledger_inv_ensure ledger_inv_apply)

lemma ledger_inv_events: "ledger_inv M db \<Longrightarrow> ledger_inv M (fold (db_event_step M) evs db)"
  by (induction evs arbitrary: db) (simp_all add: ledger_inv_step)

lemma apply_rest_events:
  "\<exists>evs. snd (apply_rest M fl i applied nms db) = fold (db_event_step M) evs db"
proof (induction nms arbitrary: i db)
  case Nil
  show ?case by (rule exI[of _ "[]"]) simp
next
  case (Cons nm nms)
  obtain r db' where a: "applySingleMigration M (fl i) nm db = (r, db')" by fastforce
  then have st: "db_event_step M (EvApply (fl i) nm) db = db'" by simp
  show ?case
  proof (cases "nm \<in> set applied")
    case True
    then show ?thesis using Cons.IH[of i db] by simp
  next
    case False
    show ?thesis
    proof (cases r)
      case None
      from Cons.IH[of "Suc i" db'] obtain evs where
        "snd (apply_rest M fl (Suc i) applied nms db') = fold (db_event_step M) evs db'" by blast
      with False a None st show ?thesis by (intro exI[of _ "EvApply (fl i) nm # evs"]) simp
    next
      case (Some e)
      with False a st show ?thesis by (intro exI[of _ "[EvApply (fl i) nm]"]) simp
    qed
  qed
qed

text \<open>A run of the migrations is a sequence of such steps.\<close>

lemma applyMigrations_events:
  "\<exists>evs. snd (applyMigrations M fl db) = fold (db_event_step M) evs db"
proof -
  obtain r db1 where e: "ensureMigrationsTable (fl 0) db = (r, db1)" by fastforce
  then have st: "db_event_step M (EvEnsure (fl 0)) db = db1" by simp
  have here: "\<exists>evs. db1 = fold (db_event_step M) evs db"
    using st by (intro exI[of _ "[EvEnsure (fl 0)]"]) simp
  show ?thesis
  proof (cases "r = None \<and> (\<exists>applied. loadAppliedMigrations (fl 1) db1 = Inr applied)")
    case True
    then obtain applied where "r = None" "loadAppliedMigrations (fl 1) db1 = Inr applied" by blast
    moreover from apply_rest_events[of M fl 2 applied "migration_names M" db1] obtain evs where
      "snd (apply_rest M fl 2 applied (migration_names M) db1) = fold (db_event_step M) evs db1" by blast
    ultimately show ?thesis using e st
      by (intro exI[of _ "EvEnsure (fl 0) # evs"]) (simp add: applyMigrations_def)
  next
    case False
    with e here show ?thesis
      by (auto simp: applyMigrations_def split: option.splits sum.splits)
  qed
qed

section \<open>What a run achieves\<close>

lemma apply_rest_ledger:
  assumes "apply_rest M fl i applied nms db = (None, db')" "db_ledger db = Some l" "set applied \<subseteq> set l"
  shows "\<exists>l'. db_ledger db' = Some l' \<and> set l \<union> set nms \<subseteq> set l'"
  using assms
proof (induction nms arbitrary: i db l)
  case (Cons nm nms)
  show ?case
  proof (cases "nm \<in> set applied")
    case True
    with Cons.IH[of i db l] Cons.prems show ?thesis by auto
  next
    case False
    with Cons.prems(1) obtain db1 where a: "applySingleMigration M (fl i) nm db = (None, db1)"
      "apply_rest M fl (Suc i) applied nms db1 = (None, db')"
      by (auto split: prod.splits option.splits)
    from apply_None[OF a(1)] Cons.prems(2) have "db_ledger db1 = Some (l @ [nm])" by auto
    with Cons.IH[OF a(2) this] Cons.prems(3) show ?thesis by auto
  qed
qed simp

lemma applyMigrations_None:
  assumes "applyMigrations M fl db = (None, db')"
  shows "\<exists>l. db_ledger db' = Some l \<and> set (migration_names M) \<subseteq> set l"
proof -
  from assms obtain db1 applied where r: "ensureMigrationsTable (fl 0) db = (None, db1)"
    "loadAppliedMigrations (fl 1) db1 = Inr applied"
    "apply_rest M fl 2 applied (migration_names M) db1 = (None, db')"
    by (auto simp: applyMigrations_def split: prod.splits option.splits sum.splits)
  from r(2) have l: "db_ledger db1 = Some applied"
    by (auto simp: loadAppliedMigrations_def split: fault.splits option.splits)
  from apply_rest_ledger[OF r(3) l] show ?thesis by auto
qed

lemma apply_rest_skip: "set nms \<subseteq> set applied \<Longrightarrow> apply_rest M fl i applied nms db = (None, db)"
  by (induction nms) simp_all

lemma applyMigrations_again:
  assumes "db_ledger db = Some l" "set (migration_names M) \<subseteq> set l" "fl 0 = Fine" "fl 1 = Fine"
  shows "applyMigrations M fl db = (None, db)"
  using assms by (simp add: applyMigrations_def ensureMigrationsTable_def sql_call_def
      loadAppliedMigrations_def apply_rest_skip)

text \<open>C21. Every migration is committed exactly once.  Whatever other processes did to the database
  file before (any interleaving of their steps, with any lost requests and lost replies), a script
  is committed at most once, the schema is made of exactly the scripts of the ledger in its order,
  and a run that reports success leaves every migration recorded; opening the database again then
  succeeds and changes nothing.\<close>

theorem migrations_exactly_once:
  assumes "applyMigrations M fl (fold (db_event_step M) evs empty_db) = (r, db)"
  shows "ledger_inv M db \<and>
    (r = None \<longrightarrow>
       (\<exists>l. db_ledger db = Some l \<and> distinct l \<and> set (migration_names M) \<subseteq> set l \<and>
            map Some (db_schema db) = map (mg_file M) l) \<and>
       applyMigrations M (\<lambda>_. Fine) db = (None, db))"
proof -
  from applyMigrations_events[of M fl "fold (db_event_step M) evs empty_db"] assms obtain evs' where
    "db = fold (db_event_step M) evs' (fold (db_event_step M) evs empty_db)" by auto
  then have inv: "ledger_inv M db" using ledger_inv_events ledger_inv_empty by blast
  show ?thesis
  proof (intro conjI impI)
    show "ledger_inv M db" by (rule inv)
    assume "r = None"
    with assms applyMigrations_None obtain l where
      l: "db_ledger db = Some l" "set (migration_names M) \<subseteq> set l" by blast
    with inv show "\<exists>l. db_ledger db = Some l \<and> distinct l \<and> set (migration_names M) \<subseteq> set l \<and>
            map Some (db_schema db) = map (mg_file M) l" by (auto simp: ledger_inv_def)
    show "applyMigrations M (\<lambda>_. Fine) db = (None, db)" using applyMigrations_again[OF l] by simp
  qed
qed

definition sample_migrations :: migration_set where
  "sample_migrations =
     \<lparr>mg_entries = [(''b.sql'', False), (''a.sql'', False), (''notes.txt'', False)],
      mg_file = map_of [(''a.sql'', ''A''), (''b.sql'', ''B'')],
      mg_exec_ok = (\<lambda>committed body. body \<notin> set committed)\<rparr>"

text \<open>A first run loses the reply of its first commit and fails; the second one finishes the work.\<close>

definition torn_run :: "nat \<Rightarrow> fault" where
  "torn_run i = (if i = 2 then LostReply ''io'' else Fine)"

lemma sample_first_run:
  "snd (applyMigrations sample_migrations torn_run empty_db) =
     \<lparr>db_ledger = Some [''a.sql''], db_schema = [''A'']\<rparr>"
  by (simp add: applyMigrations_def ensureMigrationsTable_def sql_call_def loadAppliedMigrations_def
      migration_names_def sample_migrations_def torn_run_def empty_db_def has_suffix_def
      applySingleMigration_def)

lemma sample_second_run:
  "applyMigrations sample_migrations (\<lambda>_. Fine) \<lparr>db_ledger = Some [''a.sql''], db_schema = [''A'']\<rparr> =
     (None, \<lparr>db_ledger = Some [''a.sql'', ''b.sql''], db_schema = [''A'', ''B'']\<rparr>)"
  by (simp add: applyMigrations_def ensureMigrationsTable_def sql_call_def loadAppliedMigrations_def
      migration_names_def sample_migrations_def has_suffix_def applySingleMigration_def)

lemma migrations_exactly_once_witness:
  "ledger_inv sample_migrations \<lparr>db_ledger = Some [''a.sql'', ''b.sql''], db_schema = [''A'', ''B'']\<rparr> \<and>
   applyMigrations sample_migrations (\<lambda>_. Fine)
     \<lparr>db_ledger = Some [''a.sql'', ''b.sql''], db_schema = [''A'', ''B'']\<rparr> =
     (None, \<lparr>db_ledger = Some [''a.sql'', ''b.sql''], db_schema = [''A'', ''B'']\<rparr>)"
proof -
  obtain evs where "snd (applyMigrations sample_migrations torn_run empty_db) =
      fold (db_event_step sample_migrations) evs empty_db"
    using applyMigrations_events by blast
  with sample_first_run sample_second_run
  have "applyMigrations sample_migrations (\<lambda>_. Fine) (fold (db_event_step sample_migrations) evs empty_db) =
     (None, \<lparr>db_ledger = Some [''a.sql'', ''b.sql''], db_schema = [''A'', ''B'']\<rparr>)" by simp
  from migrations_exactly_once[OF this] show ?thesis by blast
qed

end
