(* ===== verification/Slack_Correct.thy ===== *)
theory Slack_Correct
  imports Slack_Interactive Rpc_Core
begin

text \<open>
  What the receiver of button clicks guarantees: only signed requests inside the replay window do
  anything, the four-eyes guards of an approval, single use of a button, and what becomes of the
  buttons the gateway itself builds.
\<close>

section \<open>Signature\<close>

lemma wrap64_id: "min_int64 \<le> i \<Longrightarrow> i \<le> max_int64 \<Longrightarrow> wrap64 i = i"
  by (simp add: wrap64_def min_int64_def max_int64_def sint64_of_int)

lemma neg_duration_cases:
  assumes "min_int64 \<le> d" "d < 0"
  shows "neg_duration d = (if d = min_int64 then min_int64 else - d)"
proof (cases "d = min_int64")
  case True
  then show ?thesis by (simp add: neg_duration_def wrap64_def min_int64_def)
next
  case False
  with assms have "wrap64 (- d) = - d" by (intro wrap64_id) (simp_all add: min_int64_def max_int64_def)
  with False show ?thesis by (simp add: neg_duration_def)
qed

lemma time_sub_range: "min_int64 \<le> time_sub now ts \<and> time_sub now ts \<le> max_int64"
  by (simp add: time_sub_def Let_def min_int64_def max_int64_def)

lemma time_sub_exact:
  assumes "\<bar>ts\<bar> \<le> 2 ^ 33" "\<bar>now - ts * 1000000000\<bar> < 2 ^ 63"
  shows "time_sub now ts = now - ts * 1000000000"
proof -
  have w: "wrap64 (ts + unixToInternal) = ts + unixToInternal"
    using assms(1) by (intro wrap64_id) (simp_all add: min_int64_def max_int64_def unixToInternal_def abs_le_iff)
  have "now + unixToInternal * 1000000000 - (ts + unixToInternal) * 1000000000 = now - ts * 1000000000"
    by (simp add: algebra_simps)
  with assms(2) show ?thesis by (auto simp: time_sub_def w Let_def min_int64_def max_int64_def)
qed

lemma clock_skew_window:
  "clock_skew now ts \<le> slackTimestampMaxSkew \<longleftrightarrow>
     \<bar>time_sub now ts\<bar> \<le> slackTimestampMaxSkew \<or> time_sub now ts = min_int64"
  using time_sub_range[of now ts]
  by (auto simp: clock_skew_def Let_def neg_duration_cases slackTimestampMaxSkew_def min_int64_def)

text \<open>C35. Exactly which requests pass as coming from Slack: both headers are there, the timestamp is a
  64-bit decimal, the signature is the keyed hash of version, timestamp and body, and the clock is
  within five minutes of the timestamp; or the timestamp is so far in the future that the difference
  saturates at the smallest duration, whose negation is itself, so that the window check lets it
  through.\<close>

theorem VerifySignature_exact:
  "verifySignatureAt hmac_hex now timestamp signature body secret = None \<longleftrightarrow>
     timestamp \<noteq> [] \<and> signature \<noteq> [] \<and>
     (\<exists>ts. parse_int 64 timestamp = Some ts \<and>
        signature = ''v0='' @ hmac_hex secret (''v0:'' @ timestamp @ '':'' @ body) \<and>
        (\<bar>time_sub now ts\<bar> \<le> slackTimestampMaxSkew \<or> time_sub now ts = min_int64))"
  by (auto simp: verifySignatureAt_def Let_def not_less clock_skew_window[symmetric]
      split: option.splits if_splits)

section \<open>The guards of an approval\<close>

lemma approval_guard_None:
  assumes "approval_guard h av clicker = None"
  shows "clicker \<noteq> [] \<and> clicker \<noteq> av_OriginalRequesterID av \<and>
    av_RequesterActorType av \<in> set AllCallerTypes \<and>
    av_RequesterActorSource av \<notin> {[], GatewayClassificationUnknown, GatewayClassificationSpoofedBroker} \<and>
    (av_RequesterActorType av = CallerWorkspaceDaemon \<longrightarrow> av_InitiatingActorType av \<noteq> []) \<and>
    (ClassifyApproverActorType clicker (ih_aiAgentBotUserIDs h) = CallerAIAgent \<longrightarrow>
       av_RequesterActorType av \<noteq> CallerAIAgent \<and>
       (av_RequesterActorType av = CallerWorkspaceDaemon \<longrightarrow> av_InitiatingActorType av \<noteq> CallerAIAgent))"
  using assms
  by (auto simp: approval_guard_def Let_def EffectiveRequesterActorType_def isCanonicalCallerType_def
      AllCallerTypes_def ValidateApproverPermitted_Some split: if_splits sum.splits)

text \<open>The jobs that carry out what the button stands for.\<close>

fun decisive :: "job \<Rightarrow> bool" where
  "decisive (RunAdminAck k c t tg) = True"
| "decisive (RunAdminDeny k c t tg) = True"
| "decisive (RunPublishAck m c tg) = True"
| "decisive _ = False"

fun consuming :: "job \<Rightarrow> bool" where
  "consuming (RunAdminAck k c t tg) = True"
| "consuming (RunPublishAck m c tg) = True"
| "consuming (RunDispatch r tg) = True"
| "consuming _ = False"

lemma handleApprovalAction_decisive:
  assumes "handleApprovalAction C h now aid v clicker tg ts = (Some job, ts')" "decisive job"
  obtains av where "parseApprovalActionValue C v = Some av" "approval_guard h av clicker = None"
    "av_ParentIdempotencyKey av \<noteq> []" "av_OriginalRequesterID av \<noteq> []"
    "job = RunAdminDeny (av_ParentIdempotencyKey av) clicker
             (ClassifyApproverActorType clicker (ih_aiAgentBotUserIDs h)) tg \<and> ts' = ts \<and>
       aid = ''approval_deny'' \<and> av_Kind av = ApprovalKindAdminMutation \<and> ih_hasAdminApproval h \<or>
     consume now (approvalToken av) ts = (True, ts') \<and> aid \<noteq> ''approval_deny'' \<and>
       (job = RunAdminAck (av_ParentIdempotencyKey av) clicker
                (ClassifyApproverActorType clicker (ih_aiAgentBotUserIDs h)) tg \<and>
          av_Kind av = ApprovalKindAdminMutation \<and> ih_hasAdminApproval h \<or>
        job = RunPublishAck (approval_ack now av clicker
                (ClassifyApproverActorType clicker (ih_aiAgentBotUserIDs h)) tg) clicker tg \<and>
          (av_Kind av \<noteq> ApprovalKindAdminMutation \<and> ih_hasPublisher h \<or>
           av_Kind av = ApprovalKindAdminMutation \<and> \<not> ih_hasAdminApproval h))"
proof (cases "parseApprovalActionValue C v")
  case (Some av)
  show ?thesis
    by (rule that[OF Some])
       (use assms Some in \<open>auto simp: handleApprovalAction_def Let_def split: if_splits option.splits prod.splits\<close>)
qed (use assms in \<open>simp add: handleApprovalAction_def\<close>)

text \<open>C7. The four-eyes guards of a Slack approval.  Whatever the button says, a click leads to an
  approval, a denial or an acknowledgement only when the clicker is known and is not the original
  requester, the requester's actor type is one of the four and its source is neither unknown nor a
  spoofed broker claim, a daemon names who started it, and an AI agent is not approving for an AI
  agent; and the job runs in the name of the clicker, on the request the button names.\<close>

theorem approval_click_guarded:
  assumes "handleApprovalAction C h now aid v clicker tg ts = (Some job, ts')" "decisive job"
  shows "\<exists>av. parseApprovalActionValue C v = Some av \<and>
    clicker \<noteq> [] \<and> clicker \<noteq> av_OriginalRequesterID av \<and> av_ParentIdempotencyKey av \<noteq> [] \<and>
    av_RequesterActorType av \<in> set AllCallerTypes \<and>
    av_RequesterActorSource av \<notin> {[], GatewayClassificationUnknown, GatewayClassificationSpoofedBroker} \<and>
    (av_RequesterActorType av = CallerWorkspaceDaemon \<longrightarrow> av_InitiatingActorType av \<noteq> []) \<and>
    (ClassifyApproverActorType clicker (ih_aiAgentBotUserIDs h) = CallerAIAgent \<longrightarrow>
       av_RequesterActorType av \<noteq> CallerAIAgent \<and>
       (av_RequesterActorType av = CallerWorkspaceDaemon \<longrightarrow> av_InitiatingActorType av \<noteq> CallerAIAgent)) \<and>
    (case job of
       RunAdminAck k c t g \<Rightarrow> k = av_ParentIdempotencyKey av \<and> c = clicker
     | RunAdminDeny k c t g \<Rightarrow> k = av_ParentIdempotencyKey av \<and> c = clicker
     | RunPublishAck m c g \<Rightarrow>
         c = clicker \<and> dm_Target m = av_Source av \<and> dm_Kind m = DMailKindConvergence \<and>
         meta m ''approver_id'' = clicker \<and> meta m ''parent_idempotency_key'' = av_ParentIdempotencyKey av
     | _ \<Rightarrow> False)"
  using assms
proof (cases rule: handleApprovalAction_decisive)
  case (1 av)
  have "case job of
       RunAdminAck k c t g \<Rightarrow> k = av_ParentIdempotencyKey av \<and> c = clicker
     | RunAdminDeny k c t g \<Rightarrow> k = av_ParentIdempotencyKey av \<and> c = clicker
     | RunPublishAck m c g \<Rightarrow>
         c = clicker \<and> dm_Target m = av_Source av \<and> dm_Kind m = DMailKindConvergence \<and>
         meta m ''approver_id'' = clicker \<and> meta m ''parent_idempotency_key'' = av_ParentIdempotencyKey av
     | _ \<Rightarrow> False"
    using 1(5) by (auto simp: approval_ack_def meta_def)
  with approval_guard_None[OF 1(2)] 1(1,3) show ?thesis by blast
qed

section \<open>A worked approval\<close>

definition convergence_mail :: dmail where
  "convergence_mail =
     \<lparr>dm_ID = [], dm_Kind = DMailKindConvergence, dm_Target = ''sightjack'', dm_Source = ''amadeus'',
      dm_IdempotencyKey = [], dm_Body = ''diverged'',
      dm_Metadata = [(''parent_idempotency_key'', ''p1''), (''requester_id'', ''UA''),
        (MetadataKeyRequesterActorType, CallerHumanOperator), (MetadataKeyRequesterActorSource, ActorSourceEnv)]\<rparr>"

definition full_handler :: interactive_handler where
  "full_handler =
     \<lparr>ih_hasDispatch = True, ih_hasPublisher = True, ih_hasAdminApproval = True,
      ih_signingSecret = ''s'', ih_aiAgentBotUserIDs = [''BOT'']\<rparr>"

definition slack_thread :: notify_target where
  "slack_thread = \<lparr>nt_CallbackURL = [], nt_Mode = ModeSlack, nt_ChannelID = ''C'', nt_ThreadTS = ''1''\<rparr>"

abbreviation conv_codec :: slack_codec where
  "conv_codec \<equiv> plain_codec (JObj (sort_key fst (approval_members (\<lambda>b. b) convergence_mail)))"

lemma convergence_buttons:
  "buildButtonValues conv_codec (\<lambda>b. b) convergence_mail = Some (''gz:J'', ''gz:J'')"
  by (simp add: buildButtonValues_def convergence_mail_def meta_def CompressButtonValue_def plain_codec_def
      gz_prefix_def Let_def MetadataKeyRequesterActorType_def MetadataKeyRequesterActorSource_def)

lemma convergence_value:
  "parseApprovalActionValue conv_codec ''gz:J'' = Some (approval_value_of (\<lambda>b. b) convergence_mail)"
  by (rule parse_built_approval(1)[OF plain_codec_returns convergence_buttons])


lemma convergence_ack:
  "handleApprovalAction conv_codec full_handler 7000000000 ''approval_approve'' ''gz:J'' ''UB'' slack_thread ts =
     (let av = approval_value_of (\<lambda>b. b) convergence_mail; r = consume 7000000000 (approvalToken av) ts
      in (Some (if fst r then RunPublishAck (approval_ack 7000000000 av ''UB'' CallerHumanOperator slack_thread)
                               ''UB'' slack_thread
                else TellClicker slack_thread ''UB'' NoteApprovalReplay), snd r))"
proof -
  have bot: "trim_space ''BOT'' = ''BOT''" by code_simp
  have p: "av_ParentIdempotencyKey (approval_value_of (\<lambda>b. b) convergence_mail) = ''p1''"
    "av_OriginalRequesterID (approval_value_of (\<lambda>b. b) convergence_mail) = ''UA''"
    "av_Kind (approval_value_of (\<lambda>b. b) convergence_mail) = []"
    by (simp_all add: approval_value_of_def convergence_mail_def meta_def
        MetadataKeyRequesterActorType_def MetadataKeyRequesterActorSource_def)
  have g: "approval_guard full_handler (approval_value_of (\<lambda>b. b) convergence_mail) ''UB'' = None"
    by (simp add: approval_guard_def approval_value_of_def convergence_mail_def full_handler_def meta_def
        MetadataKeyRequesterActorType_def MetadataKeyRequesterActorSource_def MetadataKeyInitiatingActorType_def
        go_consts isCanonicalCallerType_def ClassifyRequesterActorSource_def EffectiveRequesterActorType_def
        ValidateApproverPermitted_def ClassifyApproverActorType_def bot Let_def)
  have t: "ClassifyApproverActorType ''UB'' (ih_aiAgentBotUserIDs full_handler) = CallerHumanOperator"
    by (simp add: full_handler_def ClassifyApproverActorType_def bot)
  have h: "ih_hasPublisher full_handler" by (simp add: full_handler_def)
  show ?thesis
    by (simp add: handleApprovalAction_def convergence_value p g t h ApprovalKindAdminMutation_def Let_def
        split: prod.split)
qed

theorem approval_click_guarded_witness:
  "case fst (handleApprovalAction conv_codec full_handler 7000000000 ''approval_approve'' ''gz:J'' ''UB''
               slack_thread (Some (NewMemoryConsumedStore 900))) of
     Some (RunPublishAck m c g) \<Rightarrow> c = ''UB'' \<and> meta m ''parent_idempotency_key'' = ''p1''
   | _ \<Rightarrow> False"
proof -
  let ?r = "handleApprovalAction conv_codec full_handler 7000000000 ''approval_approve'' ''gz:J'' ''UB''
    slack_thread (Some (NewMemoryConsumedStore 900))"
  let ?ack = "approval_ack 7000000000 (approval_value_of (\<lambda>b. b) convergence_mail) ''UB'' CallerHumanOperator slack_thread"
  have f: "fst (consume 7000000000 t (Some (NewMemoryConsumedStore 900)))" for t
    by (simp add: consume_def consumed.mark_first)
  have r: "fst ?r = Some (RunPublishAck ?ack ''UB'' slack_thread)"
    by (simp add: convergence_ack f Let_def)
  then obtain ts' where r': "?r = (Some (RunPublishAck ?ack ''UB'' slack_thread), ts')"
    by (metis prod.collapse)
  have "meta ?ack ''parent_idempotency_key'' =
      av_ParentIdempotencyKey (approval_value_of (\<lambda>b. b) convergence_mail)"
    using approval_click_guarded[OF r'] convergence_value by simp
  then show ?thesis
    unfolding r by (simp add: approval_value_of_def convergence_mail_def meta_def)
qed


section \<open>A button works once\<close>

definition click_token :: "slack_codec \<Rightarrow> interactive_action \<Rightarrow> string option" where
  "click_token C act =
     (if ia_ActionID act = ''dispatch_approve''
      then map_option dispatchApproveToken (parseDispatchActionValue C (ia_Value act))
      else map_option approvalToken (parseApprovalActionValue C (ia_Value act)))"

lemma handleDispatchAction_consuming:
  assumes "handleDispatchAction C h n aid v clicker tg ts = (Some job, ts')" "consuming job"
  obtains dv where "parseDispatchActionValue C v = Some dv"
    "consume n (dispatchApproveToken dv) ts = (True, ts')" "aid \<noteq> ''dispatch_deny''"
    "clicker = dv_RequesterID dv" "clicker \<noteq> []" "ih_hasDispatch h" "dv_Role dv \<noteq> []"
    "job = RunDispatch
       \<lparr>dr_Role = dv_Role dv, dr_Text = dv_Text dv, dr_RequesterID = clicker,
        dr_IdempotencyKey = dv_IdempotencyKey dv, dr_IssuedAt = dv_IssuedAt dv,
        dr_SlackChannelID = nt_ChannelID tg, dr_SlackThreadTS = nt_ThreadTS tg,
        dr_ProjectID = dv_ProjectID dv\<rparr> tg"
proof (cases "parseDispatchActionValue C v")
  case None
  with assms(1) show ?thesis by (simp add: handleDispatchAction_def)
next
  case (Some dv)
  obtain fresh t2 where cn: "consume n (dispatchApproveToken dv) ts = (fresh, t2)" by fastforce
  note e = assms(1)[unfolded handleDispatchAction_def Some cn option.case Let_def prod.case]
  have "dv_Role dv \<noteq> [] \<and> clicker \<noteq> [] \<and> clicker = dv_RequesterID dv \<and> aid \<noteq> ''dispatch_deny'' \<and>
      ih_hasDispatch h \<and> fresh"
    using e assms(2) by (metis consuming.simps(4,5) option.inject option.distinct(1) prod.inject)
  with that[OF Some] e cn show ?thesis by auto
qed

lemma handleApprovalAction_no_dispatch:
  "fst (handleApprovalAction C h n aid v clicker tg ts) \<noteq> Some (RunDispatch r g)"
  by (simp add: handleApprovalAction_def Let_def split: option.split prod.split)

lemma handleApprovalAction_consuming:
  assumes "handleApprovalAction C h n aid v clicker tg ts = (Some job, ts')" "consuming job"
  obtains av where "parseApprovalActionValue C v = Some av" "consume n (approvalToken av) ts = (True, ts')"
    "aid \<noteq> ''approval_deny''"
proof -
  have "job \<noteq> RunDispatch r g" for r g
    using handleApprovalAction_no_dispatch[of C h n aid v clicker tg ts r g] assms(1) by auto
  with assms(2) have "decisive job" by (cases job) auto
  from assms(1) this show ?thesis
  proof (cases rule: handleApprovalAction_decisive)
    case (1 av)
    with assms(2) that show ?thesis by auto
  qed
qed

lemma route_action_cases:
  fixes act :: interactive_action
  obtains
    "ia_ActionID act = ''dispatch_approve'' \<or> ia_ActionID act = ''dispatch_deny''"
    "route_action C h n p act ts = handleDispatchAction C h n (ia_ActionID act) (ia_Value act) (ip_User p)
       (payload_target p) ts"
  | "ia_ActionID act = ''approval_approve'' \<or> ia_ActionID act = ''approval_deny''"
    "route_action C h n p act ts = handleApprovalAction C h n (ia_ActionID act) (ia_Value act) (ip_User p)
       (payload_target p) ts"
  | "snd (route_action C h n p act ts) = ts"
    "\<And>job. fst (route_action C h n p act ts) = Some job \<Longrightarrow> \<not> consuming job \<and> \<not> decisive job"
proof -
  consider "ia_ActionID act \<in> {''dispatch_approve'', ''dispatch_deny''}"
    | "ia_ActionID act \<in> {''approval_approve'', ''approval_deny''}"
    | "ia_ActionID act \<notin> {''dispatch_approve'', ''dispatch_deny'', ''approval_approve'', ''approval_deny''}"
    by blast
  then show thesis
  proof cases
    case 3
    then have "snd (route_action C h n p act ts) = ts \<and>
        (\<forall>job. fst (route_action C h n p act ts) = Some job \<longrightarrow> \<not> consuming job \<and> \<not> decisive job)"
      by (simp add: route_action_def Let_def split: option.split)
    with that(3) show thesis by blast
  qed (rule that(1) that(2); auto simp: route_action_def Let_def)+
qed

lemma route_action_consuming:
  assumes "route_action C h n p act ts = (Some job, ts')" "consuming job"
  obtains t where "click_token C act = Some t" "consume n t ts = (True, ts')"
proof (cases rule: route_action_cases[of act C h n p ts])
  case 1
  from 1(2) assms(1) have "handleDispatchAction C h n (ia_ActionID act) (ia_Value act) (ip_User p)
      (payload_target p) ts = (Some job, ts')" by simp
  from this assms(2) show ?thesis
  proof (cases rule: handleDispatchAction_consuming)
    case (1 dv)
    with \<open>ia_ActionID act = _ \<or> ia_ActionID act = _\<close> have "ia_ActionID act = ''dispatch_approve''" by blast
    with 1 that show ?thesis by (simp add: click_token_def)
  qed
next
  case 2
  from 2(2) assms(1) have "handleApprovalAction C h n (ia_ActionID act) (ia_Value act) (ip_User p)
      (payload_target p) ts = (Some job, ts')" by simp
  from this assms(2) show ?thesis
  proof (cases rule: handleApprovalAction_consuming)
    case (1 av)
    with 2(1) have "ia_ActionID act = ''approval_approve''" by blast
    with 1 that show ?thesis by (simp add: click_token_def)
  qed
qed (use assms in simp)

lemma handle_tokens:
  "\<exists>s'. snd (handleDispatchAction C h n aid v c tg (Some s)) = Some s' \<and>
     (s' = s \<or> (\<exists>t. s' = snd (MarkConsumed n t s)))"
  "\<exists>s'. snd (handleApprovalAction C h n aid v c tg (Some s)) = Some s' \<and>
     (s' = s \<or> (\<exists>t. s' = snd (MarkConsumed n t s)))"
  by (auto simp: handleDispatchAction_def handleApprovalAction_def consume_def Let_def split: option.split)

lemma route_action_tokens:
  "\<exists>s'. snd (route_action C h n p act (Some s)) = Some s' \<and>
     (s' = s \<or> (\<exists>t. s' = snd (MarkConsumed n t s)))"
proof (cases rule: route_action_cases[of act C h n p "Some s"])
  case 1
  from 1(2) show ?thesis by (simp only: handle_tokens)
next
  case 2
  from 2(2) show ?thesis by (simp only: handle_tokens)
qed simp

abbreviation clicks_after ::
  "slack_codec \<Rightarrow> interactive_handler \<Rightarrow> (int \<times> interactive_payload \<times> interactive_action) list \<Rightarrow>
   tokens \<Rightarrow> tokens" where
  "clicks_after C h clicks ts \<equiv> fold (\<lambda>(n, p, act) ts. snd (route_action C h n p act ts)) clicks ts"

lemma clicks_keep_live:
  assumes "sorted (map fst clicks @ [n'])" "token_live s n' t"
  shows "\<exists>s'. clicks_after C h clicks (Some s) = Some s' \<and> token_live s' n' t"
  using assms
proof (induction clicks arbitrary: s)
  case (Cons c clicks)
  obtain n p act where c: "c = (n, p, act)" by (cases c)
  with Cons.prems have le: "n \<le> n'" by simp
  obtain s1 where s1: "snd (route_action C h n p act (Some s)) = Some s1"
    "s1 = s \<or> (\<exists>u. s1 = snd (MarkConsumed n u s))"
    using route_action_tokens by blast
  have "token_live s n t" by (rule consumed.live_antimono[OF le Cons.prems(2)])
  with Cons.prems(2) s1(2) have "token_live s1 n' t" by (auto simp: consumed.live_mark[OF le])
  with Cons.IH[of s1] Cons.prems(1) s1(1) show ?case by (simp add: c)
qed simp

text \<open>C15. A button works once.  When a click got as far as a dispatch, an approval or an
  acknowledgement, no click on a button with the same value and action, by whomever, gets that far
  again inside the time to live of the token store, whatever was clicked in between.\<close>

theorem button_works_once:
  assumes "route_action C h n p act (Some s) = (Some job, Some s1)" "consuming job"
    and "sorted (n # map fst clicks @ [n'])" "n' < n + ct_ttl s"
    and "ia_ActionID act' = ia_ActionID act" "ia_Value act' = ia_Value act"
    and "route_action C h n' p' act' (clicks_after C h clicks (Some s1)) = (Some job', ts')"
  shows "\<not> consuming job'"
proof
  assume c: "consuming job'"
  obtain t where t: "click_token C act = Some t" "consume n t (Some s) = (True, Some s1)"
    using route_action_consuming[OF assms(1,2)] by blast
  obtain u where u: "click_token C act' = Some u"
    "consume n' u (clicks_after C h clicks (Some s1)) = (True, ts')"
    using route_action_consuming[OF assms(7) c] by blast
  have ut: "u = t" using t(1) u(1) assms(5,6) by (simp add: click_token_def split: if_splits)
  have le: "n \<le> n'" using assms(3) by simp
  have mark: "\<not> token_live s n t" "s1 = snd (MarkConsumed n t s)"
    using t(2) by (auto simp: consume_def consumed.mark_first)
  have "token_live s1 n' t"
    using mark assms(4) by (simp add: consumed.live_mark[OF le])
  then obtain s2 where "clicks_after C h clicks (Some s1) = Some s2" "token_live s2 n' t"
    using clicks_keep_live assms(3) by fastforce
  with u(2) ut show False by (simp add: consume_def consumed.mark_first)
qed

definition worked_payload :: interactive_payload where
  "worked_payload = \<lparr>ip_User = ''UB'', ip_Channel = ''C'', ip_MessageTS = ''1'', ip_ResponseURL = [], ip_Actions = []\<rparr>"

definition worked_action :: interactive_action where
  "worked_action = \<lparr>ia_ActionID = ''approval_approve'', ia_Value = ''gz:J''\<rparr>"

lemma worked_click:
  "route_action conv_codec full_handler 7000000000 worked_payload worked_action ts =
     handleApprovalAction conv_codec full_handler 7000000000 ''approval_approve'' ''gz:J'' ''UB'' slack_thread ts"
  by (simp add: route_action_def worked_payload_def worked_action_def payload_target_def slack_thread_def Let_def)

theorem button_works_once_witness:
  "\<not> consuming (the (fst (route_action conv_codec full_handler 7000000000 worked_payload worked_action
      (snd (route_action conv_codec full_handler 7000000000 worked_payload worked_action
         (Some (NewMemoryConsumedStore 900)))))))"
proof -
  let ?s = "NewMemoryConsumedStore 900"
  let ?t = "approvalToken (approval_value_of (\<lambda>b. b) convergence_mail)"
  let ?s1 = "snd (MarkConsumed 7000000000 ?t ?s)"
  have m: "consume 7000000000 ?t (Some ?s) = (True, Some ?s1)"
    by (simp add: consume_def consumed.mark_first)
  obtain m g where r: "route_action conv_codec full_handler 7000000000 worked_payload worked_action (Some ?s) =
      (Some (RunPublishAck m ''UB'' g), Some ?s1)"
    using m by (simp add: worked_click convergence_ack Let_def)
  obtain job ts' where r': "route_action conv_codec full_handler 7000000000 worked_payload worked_action (Some ?s1) =
      (Some job, ts')"
    by (simp add: worked_click convergence_ack Let_def)
  have "\<not> consuming job"
    by (rule button_works_once[OF r, where clicks = "[]" and n' = 7000000000 and act' = worked_action])
       (use r' in \<open>simp_all add: NewMemoryConsumedStore_def\<close>)
  with r r' show ?thesis by simp
qed

section \<open>The buttons of an admin mutation\<close>

text \<open>C36. The approval buttons the RPC methods post for an admin mutation never work.  The publisher
  writes the already classified source \<open>env_attested\<close> where the raw source is expected, so the
  rendered buttons carry no source, and a click on either of them, by anybody, at any time, resolves
  no request and uses up no token.\<close>

theorem admin_buttons_never_work:
  assumes "codec_returns C (JObj (sort_key fst (approval_members digest (buildAdminApprovalDMail method pa))))"
    and "buildButtonValues C digest (buildAdminApprovalDMail method pa) = Some (approve, deny)"
    and "value \<in> {approve, deny}"
  shows "snd (handleApprovalAction C h now actionID value clicker target ts) = ts \<and>
    (case fst (handleApprovalAction C h now actionID value clicker target ts) of
       Some (TellClicker t c note) \<Rightarrow>
         note \<in> {NoteSelfApproval, NoteActorTypeEmpty, NoteActorTypeInvalid, NoteSourceUnknown}
     | _ \<Rightarrow> False)"
proof -
  let ?av = "approval_value_of digest (buildAdminApprovalDMail method pa)"
  from parse_built_approval[OF assms(1,2)] assms(3)
  have v: "parseApprovalActionValue C value = Some ?av" by auto
  have keys: "av_ParentIdempotencyKey ?av \<noteq> []" "av_OriginalRequesterID ?av \<noteq> []"
    using assms(2) by (auto simp: buildButtonValues_def approval_value_of_def split: if_splits)
  have src: "av_RequesterActorSource ?av = []"
    by (simp add: approval_value_of_def buildAdminApprovalDMail_def meta_def go_consts
        ClassifyRequesterActorSource_def)
  then have "approval_guard h ?av clicker \<in>
      Some ` {NoteSelfApproval, NoteActorTypeEmpty, NoteActorTypeInvalid, NoteSourceUnknown}"
    by (simp add: approval_guard_def go_consts)
  with keys show ?thesis by (auto simp: handleApprovalAction_def v)
qed

definition admin_pending :: pending where
  "admin_pending =
     \<lparr>pa_IdempotencyKey = ''k1'', pa_Op = PendingOpAdd, pa_BodyJSON = ''{}'', pa_EffectiveRequesterID = ''UA'',
      pa_RequesterActorType = CallerHumanOperator, pa_CreatedAt = 1, pa_Status = PendingStatusPendingApproval,
      pa_AppliedAt = None\<rparr>"

theorem admin_buttons_never_work_witness:
  "\<exists>approve deny. buildButtonValues
       (plain_codec (JObj (sort_key fst (approval_members (\<lambda>b. b) (buildAdminApprovalDMail ''m'' admin_pending)))))
       (\<lambda>b. b) (buildAdminApprovalDMail ''m'' admin_pending) = Some (approve, deny) \<and>
     snd (handleApprovalAction
       (plain_codec (JObj (sort_key fst (approval_members (\<lambda>b. b) (buildAdminApprovalDMail ''m'' admin_pending)))))
       full_handler 7 ''approval_approve'' approve ''UB'' slack_thread None) = None"
proof -
  let ?C = "plain_codec (JObj (sort_key fst (approval_members (\<lambda>b. b) (buildAdminApprovalDMail ''m'' admin_pending))))"
  obtain a d where b: "buildButtonValues ?C (\<lambda>b. b) (buildAdminApprovalDMail ''m'' admin_pending) = Some (a, d)"
    by (simp add: buildButtonValues_def buildAdminApprovalDMail_def admin_pending_def meta_def Let_def)
  from admin_buttons_never_work[OF plain_codec_returns b, of a] b show ?thesis by auto
qed

section \<open>What the signature does not cover\<close>

text \<open>The signature covers the body and not the query of the URL, and the payload is looked up in
  both.  A signed request whose body has no \<open>payload\<close> field is therefore carried out on the payload of
  its query, which nobody signed.\<close>

theorem unsigned_query_payload_is_used:
  assumes "verifySignatureAt (hh_hmac H) now timestamp signature body (ih_signingSecret h) = None"
    and "hh_form H body = Some form" "map_of form ''payload'' = None"
    and "hh_form H query = Some [(''payload'', text)]" "text \<noteq> []"
    and "parse_payload C text = Some p" "ip_Actions p = act # rest"
  shows "interactive_ServeHTTP H C h now
      \<lparr>iq_Timestamp = timestamp, iq_Signature = signature, iq_Body = Some body, iq_Query = query\<rparr> ts =
    (200, route_action C h now p act ts)"
  using assms by (simp add: interactive_ServeHTTP_def form_value_def map_add_def)

theorem unsigned_query_payload_is_used_witness:
  "interactive_ServeHTTP
      \<lparr>hh_hmac = (\<lambda>k m. ''h''),
       hh_form = (\<lambda>s. if s = ''q'' then Some [(''payload'', ''J'')] else Some [(''command'', ''/agent'')])\<rparr>
      (plain_codec (JObj [(''actions'', JArr [JObj [(''action_id'', JStr ''other'')]])])) full_handler 5000000000
      \<lparr>iq_Timestamp = ''5'', iq_Signature = ''v0=h'', iq_Body = Some ''command=/agent'', iq_Query = ''q''\<rparr> None =
    (200, None, None)"
proof -
  let ?H = "\<lparr>hh_hmac = (\<lambda>k m. ''h''),
       hh_form = (\<lambda>s. if s = ''q'' then Some [(''payload'', ''J'')] else Some [(''command'', ''/agent'')])\<rparr>"
  let ?C = "plain_codec (JObj [(''actions'', JArr [JObj [(''action_id'', JStr ''other'')]])])"
  let ?act = "\<lparr>ia_ActionID = ''other'', ia_Value = []\<rparr>"
  let ?p = "\<lparr>ip_User = [], ip_Channel = [], ip_MessageTS = [], ip_ResponseURL = [], ip_Actions = [?act]\<rparr>"
  have sig: "verifySignatureAt (hh_hmac ?H) 5000000000 ''5'' ''v0=h'' ''command=/agent''
      (ih_signingSecret full_handler) = None"
    by code_simp
  have pay: "parse_payload ?C ''J'' = Some ?p"
    by code_simp
  have route: "route_action ?C full_handler 5000000000 ?p ?act None = (None, None)"
    by (simp add: route_action_def parseActionValue_def button_members_def decodeButtonValue_def plain_codec_def)
  show ?thesis
    by (subst unsigned_query_payload_is_used[OF sig _ _ _ _ pay, where form = "[(''command'', ''/agent'')]" and act = ?act and rest = "[]"])
       (simp_all add: route)
qed

end
