(* ===== verification/Notify_Correct.thy ===== *)
theory Notify_Correct
  imports Slack_Notify
begin

text \<open>
  What the notifiers guarantee: where requests go, that what they send is within the limits of
  Slack, that the fallback delivers, and what a button loses on its way through a message.
\<close>

section \<open>Where requests go\<close>

datatype notify_call =
    CallUpdate notify_target string
  | CallReplace notify_target string
  | CallEphemeral notify_target string string
  | CallOffer notify_target string "approval_request option" "approval_request option"
  | CallRebuild notify_target string "approval_request option" "approval_request option"
      "approval_request option"

fun run_call :: "notifier \<Rightarrow> notify_call \<Rightarrow> http_log \<Rightarrow> gerror \<times> http_log" where
  "run_call N (CallUpdate t s) l = nf_UpdateMessage N t s l"
| "run_call N (CallReplace t s) l = nf_ReplaceMessage N t s l"
| "run_call N (CallEphemeral t u s) l = nf_SendEphemeral N t u s l"
| "run_call N (CallOffer t s a b) l = nf_OfferContinuation N t s a b l"
| "run_call N (CallRebuild t s a b c) l = nf_RebuildInitialApproval N t s a b c l"

fun call_target :: "notify_call \<Rightarrow> notify_target" where
  "call_target (CallUpdate t s) = t"
| "call_target (CallReplace t s) = t"
| "call_target (CallEphemeral t u s) = t"
| "call_target (CallOffer t s a b) = t"
| "call_target (CallRebuild t s a b c) = t"

abbreviation run_calls :: "notifier \<Rightarrow> notify_call list \<Rightarrow> http_log \<Rightarrow> http_log" where
  "run_calls N cs l \<equiv> fold (\<lambda>c l. snd (run_call N c l)) cs l"

definition confines ::
  "(http_request \<Rightarrow> bool) \<Rightarrow> notify_target \<Rightarrow> (http_log \<Rightarrow> gerror \<times> http_log) \<Rightarrow> bool" where
  "confines ok t m \<longleftrightarrow>
     (\<forall>l. \<exists>rs. snd (m l) = l @ rs \<and> list_all ok rs) \<and> (nt_Mode t = ModeStdout \<longrightarrow> (\<forall>l. m l = (None, l)))"

lemma confinesE:
  assumes "confines ok t m"
  obtains rs where "snd (m l) = l @ rs" "list_all ok rs"
  using assms unfolding confines_def by blast

lemma confines_silent: "confines ok t m \<Longrightarrow> nt_Mode t = ModeStdout \<Longrightarrow> m l = (None, l)"
  by (simp add: confines_def)

lemma confines_mono: "confines ok t m \<Longrightarrow> (\<And>r. ok r \<Longrightarrow> ok' r) \<Longrightarrow> confines ok' t m"
  unfolding confines_def by (metis list_all_iff)

locale confined_notifier =
  fixes N :: notifier and ok :: "http_request \<Rightarrow> bool"
  assumes update: "confines ok t (nf_UpdateMessage N t s)"
    and replace: "confines ok t (nf_ReplaceMessage N t s)"
    and ephemeral: "confines ok t (nf_SendEphemeral N t u s)"
    and offer: "confines ok t (nf_OfferContinuation N t s a b)"
    and rebuild: "confines ok t (nf_RebuildInitialApproval N t s a b c)"
begin

lemma call_confined: "confines ok (call_target c) (run_call N c)"
  by (cases c) (use update replace ephemeral offer rebuild in \<open>simp_all add: confines_def\<close>)

lemma calls_confined: "\<exists>rs. run_calls N cs l = l @ rs \<and> list_all ok rs"
proof (induction cs arbitrary: l)
  case (Cons c cs)
  obtain rs where rs: "snd (run_call N c l) = l @ rs" "list_all ok rs"
    using call_confined[of c] by (rule confinesE)
  obtain rs' where "run_calls N cs (l @ rs) = (l @ rs) @ rs'" "list_all ok rs'"
    using Cons[of "l @ rs"] by blast
  with rs show ?case by (intro exI[of _ "rs @ rs'"]) simp
qed simp

lemma stdout_silent:
  "list_all (\<lambda>c. nt_Mode (call_target c) = ModeStdout) cs \<Longrightarrow> run_calls N cs l = l"
proof (induction cs arbitrary: l)
  case (Cons c cs)
  then have "run_call N c l = (None, l)"
    using confines_silent[OF call_confined] by simp
  with Cons show ?case by simp
qed simp

end

fun to_response_host :: "http_request \<Rightarrow> bool" where
  "to_response_host (ResponsePost u p) \<longleftrightarrow>
     pu_Scheme u = ''https'' \<and> pu_Hostname u = responseURLHost \<and> Validate p = None"
| "to_response_host (ChatPost url token channel thread content) \<longleftrightarrow> False"

fun to_chat :: "fallback_config \<Rightarrow> http_request \<Rightarrow> bool" where
  "to_chat F (ResponsePost u p) \<longleftrightarrow> False"
| "to_chat F (ChatPost url token channel thread content) \<longleftrightarrow>
     url = fc_chatPostMessageURL F \<and> token = fc_botToken F \<and> channel \<noteq> []"

lemma notifier_post_appends:
  "\<exists>rs. snd (notifier_post W url p l) = l @ rs \<and> list_all to_response_host rs"
  by (simp add: notifier_post_def send_def Let_def split: sum.split option.split)

lemma postChatMessage_appends:
  "\<exists>rs. snd (postChatMessage W F t s l) = l @ rs \<and> list_all (to_chat F) rs"
  by (auto simp: postChatMessage_def send_def Let_def split: sum.split option.split)

lemmas response_ops = response_UpdateMessage_def response_ReplaceMessage_def response_SendEphemeral_def
  response_OfferContinuation_def response_RebuildInitialApproval_def

interpretation response: confined_notifier "ResponseURLNotifier W C" to_response_host for W C
  by unfold_locales
    (simp_all add: ResponseURLNotifier_def confines_def response_ops notifier_post_appends split: option.split)

lemma confines_with_fallback:
  assumes "confines ok t m"
  shows "confines (\<lambda>r. ok r \<or> to_chat F r) t (with_fallback W F t s m)"
proof -
  have "\<exists>rs. snd (with_fallback W F t s m l) = l @ rs \<and> list_all (\<lambda>r. ok r \<or> to_chat F r) rs" for l
  proof -
    obtain rs where rs: "snd (m l) = l @ rs" "list_all ok rs"
      using assms by (rule confinesE)
    obtain rs' where rs': "snd (postChatMessage W F t s (l @ rs)) = (l @ rs) @ rs'" "list_all (to_chat F) rs'"
      using postChatMessage_appends by blast
    have "list_all (\<lambda>r. ok r \<or> to_chat F r) (rs @ rs')" "list_all (\<lambda>r. ok r \<or> to_chat F r) rs"
      using rs(2) rs'(2) by (auto simp: list_all_iff)
    moreover have "snd (with_fallback W F t s m l) \<in> {l @ rs, l @ rs @ rs'}"
      using rs(1) rs'(1) by (cases "fst (m l)") (simp_all add: with_fallback_def Let_def)
    ultimately show ?thesis by blast
  qed
  moreover have "nt_Mode t = ModeStdout \<Longrightarrow> with_fallback W F t s m l = (None, l)" for l
    using confines_silent[OF assms] by (simp add: with_fallback_def)
  ultimately show ?thesis by (simp add: confines_def)
qed

interpretation fallback: confined_notifier "FallbackNotifier W F (ResponseURLNotifier W C)"
  "\<lambda>r. to_response_host r \<or> to_chat F r" for W F C
  unfolding FallbackNotifier_def
  by unfold_locales
    (simp_all only: notifier.simps,
     (rule confines_with_fallback response.update response.replace response.offer response.rebuild
        confines_mono[OF response.ephemeral] disjI1 | assumption)+)

text \<open>C16. Where notifications go.  Whatever is notified, and however Slack answers, the notifier only
  appends requests; each goes by https to the response host of Slack with a payload inside its
  limits, or to the configured chat endpoint, and only the latter carries the bot token.  A
  notification to standard output sends nothing.\<close>

theorem notifications_confined:
  "\<exists>rs. run_calls (FallbackNotifier W F (ResponseURLNotifier W C)) calls l = l @ rs \<and>
     list_all (\<lambda>r. case r of
       ResponsePost u p \<Rightarrow> pu_Scheme u = ''https'' \<and> pu_Hostname u = responseURLHost \<and> Validate p = None
     | ChatPost url token channel thread content \<Rightarrow>
         url = fc_chatPostMessageURL F \<and> token = fc_botToken F \<and> channel \<noteq> []) rs \<and>
     run_calls (FallbackNotifier W F (ResponseURLNotifier W C))
       (filter (\<lambda>c. nt_Mode (call_target c) = ModeStdout) calls) l = l"
proof -
  obtain rs where rs: "run_calls (FallbackNotifier W F (ResponseURLNotifier W C)) calls l = l @ rs"
    "list_all (\<lambda>r. to_response_host r \<or> to_chat F r) rs"
    using fallback.calls_confined by blast
  have "(to_response_host r \<or> to_chat F r) = (case r of
       ResponsePost u p \<Rightarrow> pu_Scheme u = ''https'' \<and> pu_Hostname u = responseURLHost \<and> Validate p = None
     | ChatPost url token channel thread content \<Rightarrow>
         url = fc_chatPostMessageURL F \<and> token = fc_botToken F \<and> channel \<noteq> [])" for r
    by (cases r) simp_all
  with rs fallback.stdout_silent[of "filter (\<lambda>c. nt_Mode (call_target c) = ModeStdout) calls"]
  show ?thesis by (auto simp: list_all_iff)
qed

section \<open>The limits of Slack\<close>

lemma rune_count_SectionBlock [simp]:
  "rune_count s \<le> maxSectionText \<Longrightarrow> validateBlock (SectionBlock s) i = None"
  by (simp add: validateBlock_def SectionBlock_def Mrkdwn_def go_consts)

lemma show_nat_length: "n \<le> 100 \<Longrightarrow> length (show_nat n) \<le> 3"
  by (simp add: show_nat.simps[of n] show_nat.simps[of "n div 10"] show_nat.simps[of "n div 10 div 10"])

lemma of_runes_ascii: "\<forall>c \<in> set s. of_char c < (128 :: nat) \<Longrightarrow> of_runes (map of_char s) = s"
proof (induction s)
  case (Cons c s)
  then have "encode_rune (of_char c) = [of_char c]"
    by (simp add: encode_rune_def encode_valid_def valid_rune_def)
  with Cons show ?case by (simp add: of_runes_def)
qed (simp add: of_runes_def)


text \<open>Well-formed texts of a known number of code points.\<close>

definition runs :: "string \<Rightarrow> nat \<Rightarrow> bool" where
  "runs s n \<longleftrightarrow> (\<exists>rs. s = of_runes rs \<and> list_all valid_rune rs \<and> length rs = n)"

lemma runs_count: "runs s n \<Longrightarrow> rune_count s = n"
  by (auto simp: runs_def rune_count_def to_runes_of_runes)

lemma runs_uni: "list_all valid_rune rs \<Longrightarrow> runs (uni rs) (length rs)"
  by (auto simp: runs_def)

lemma runs_append: "runs s m \<Longrightarrow> runs t n \<Longrightarrow> runs (s @ t) (m + n)"
  unfolding runs_def by (metis length_append list_all_append of_runes_append)

lemma runs_ascii: "list_all (\<lambda>c. of_char c < (128 :: nat)) s \<Longrightarrow> runs s (length s)"
proof -
  assume a: "list_all (\<lambda>c. of_char c < (128 :: nat)) s"
  then have "list_all valid_rune (map of_char s)"
    by (induction s) (auto simp: valid_rune_def)
  with of_runes_ascii[of s] a show ?thesis
    unfolding runs_def list_all_iff by (metis length_map)
qed

lemma runs_digits: "runs (show_nat n) (length (show_nat n))"
proof (rule runs_ascii)
  have "list_all (\<lambda>c. of_char c < (128 :: nat)) ''0123456789''" by simp
  then show "list_all (\<lambda>c. of_char c < (128 :: nat)) (show_nat n)"
    using show_nat_digits[of n] by (auto simp only: list_all_iff)
qed

lemma promote_label_fits:
  assumes "n \<le> 100"
  shows "rune_count ((uni [0x2705] @ '' '') @ show_nat n @ ''% '' @ uni [0x306B, 0x6607, 0x683C]) \<le> maxButtonLabel"
proof -
  have "runs ((uni [0x2705] @ '' '') @ show_nat n @ ''% '' @ uni [0x306B, 0x6607, 0x683C])
      ((length [0x2705 :: nat] + length '' '') +
       (length (show_nat n) + (length ''% '' + length [0x306B :: nat, 0x6607, 0x683C])))"
    by (intro runs_append runs_uni runs_digits runs_ascii) (simp_all add: valid_rune_def)
  from runs_count[OF this] show_nat_length[OF assms] show ?thesis by (simp add: maxButtonLabel_def)
qed

lemma canary_label_fits: "rune_count (uni [0x2705] @ '' Canary'') \<le> maxButtonLabel"
proof -
  have "runs (uni [0x2705] @ '' Canary'') (length [0x2705 :: nat] + length '' Canary'')"
    by (intro runs_append runs_uni runs_ascii) (simp_all add: valid_rune_def)
  from runs_count[OF this] show ?thesis by (simp add: maxButtonLabel_def)
qed

lemma uni_label_fits:
  "list_all valid_rune rs \<Longrightarrow> list_all (\<lambda>c. of_char c < (128 :: nat)) s \<Longrightarrow> list_all valid_rune rs' \<Longrightarrow>
     length rs + length s + length rs' \<le> 75 \<Longrightarrow> rune_count (uni rs @ s @ uni rs') \<le> maxButtonLabel"
  using runs_count[OF runs_append[OF runs_uni runs_append[OF runs_ascii runs_uni]], of rs s rs']
  by (simp add: maxButtonLabel_def)

lemma retry_label_fits:
  "ar_Action req = migrate_apply_name \<Longrightarrow> rune_count (canaryBtnLabel req) \<le> maxButtonLabel"
  unfolding canaryBtnLabel_def by (subst if_P, assumption, rule uni_label_fits) (simp_all add: valid_rune_def)

lemma canaryBtnLabel_fits: "rune_count (canaryBtnLabel req) \<le> maxButtonLabel"
proof (cases "ar_Action req = migrate_apply_name")
  case True
  then show ?thesis by (rule retry_label_fits)
next
  case False
  note noMigrate = False
  show ?thesis
  proof (cases "ParseAction (ar_Action req)")
    case (Inr act)
    have "0 \<le> act_Percent act" "act_Percent act \<le> 100"
      using ParseAction_percent_range[OF Inr] by simp_all
    with promote_label_fits[of "nat (act_Percent act)"] noMigrate Inr canary_label_fits show ?thesis
      by (simp add: canaryBtnLabel_def show_int_parts)
  qed (use noMigrate canary_label_fits in \<open>simp add: canaryBtnLabel_def\<close>)
qed

lemma stop_label_fits:
  "rune_count (uni [0x1F6AB] @ '' Deny'') \<le> maxButtonLabel"
  "rune_count (uni [0x1F6D1] @ '' Deny'') \<le> maxButtonLabel"
  "rune_count (uni [0x1F6D1] @ CHR '' '' #
     uni [0x505C, 0x6B62, 0x30FB, 0x30ED, 0x30FC, 0x30EB, 0x30D0, 0x30C3, 0x30AF]) \<le> maxButtonLabel"
  using uni_label_fits[of "[0x1F6AB]" "'' Deny''" "[]"] uni_label_fits[of "[0x1F6D1]" "'' Deny''" "[]"]
    uni_label_fits[of "[0x1F6D1]" "'' ''" "[0x505C, 0x6B62, 0x30FB, 0x30ED, 0x30FC, 0x30EB, 0x30D0, 0x30C3, 0x30AF]"]
  by (simp_all add: valid_rune_def of_runes_def)

lemma buttonValueError_None:
  "buttonValueError C rs = None \<longleftrightarrow>
     (\<forall>r. Some r \<in> set rs \<longrightarrow> length (marshalActionValue C r) \<le> maxButtonValue)"
  by (induction rs) (auto simp: Let_def split: option.split)

lemma buttonValueError_text: "buttonValueError C rs = Some m \<Longrightarrow> m \<noteq> []"
  by (induction rs) (auto simp: Let_def simp del: length_greater_0_conv split: option.splits if_splits)

definition button_ok :: "button \<Rightarrow> bool" where
  "button_ok b \<longleftrightarrow> bt_ActionID b \<noteq> [] \<and> length (bt_Value b) \<le> maxButtonValue \<and>
     rune_count (to_Text (bt_Text b)) \<le> maxButtonLabel"

lemma validateButtons_ok:
  "distinct (map bt_ActionID bs) \<Longrightarrow> set (map bt_ActionID bs) \<inter> seen = {} \<Longrightarrow> list_all button_ok bs \<Longrightarrow>
     validateButtons k i seen bs = None"
  by (induction bs arbitrary: i seen) (auto simp: button_ok_def)

lemma validate_ActionsBlock:
  "distinct (map bt_ActionID bs) \<Longrightarrow> list_all button_ok bs \<Longrightarrow> validateBlock (ActionsBlock bs) i = None"
  by (simp add: validateBlock_def ActionsBlock_def validateActions_def validateButtons_ok go_consts)

lemma button_ok_NewButton [simp]:
  "button_ok (NewButton a label v style) \<longleftrightarrow>
     a \<noteq> [] \<and> length v \<le> maxButtonValue \<and> rune_count label \<le> maxButtonLabel"
  by (simp add: button_ok_def NewButton_def PlainText_def)

lemma bt_ActionID_NewButton [simp]: "bt_ActionID (NewButton a label v style) = a"
  by (simp add: NewButton_def)

lemma validate_ReplacePayload:
  "bs \<noteq> [] \<Longrightarrow> Validate (ReplacePayload bs) = validateBlocks 0 bs"
  by (simp add: Validate_def ReplacePayload_def)

lemma section_fits: "validateBlock (SectionBlock (safeTrunc b maxSectionText)) i = None"
  by (rule rune_count_SectionBlock, rule safeTrunc_fits) (simp add: maxSectionText_def)

lemma continuation_fits:
  assumes "buttonValueError C [nextReq, stopReq] = None"
  shows "Validate (BuildProgressMessage C summary nextReq stopReq) = None"
proof -
  have v: "Some r = nextReq \<Longrightarrow> length (marshalActionValue C r) \<le> maxButtonValue"
    "Some r = stopReq \<Longrightarrow> length (marshalActionValue C r) \<le> maxButtonValue" for r
    using assms unfolding buttonValueError_None by auto
  show ?thesis
  proof (cases nextReq)
    case None
    then show ?thesis
      unfolding BuildProgressMessage_def Let_def by (simp add: validate_ReplacePayload section_fits)
  next
    case (Some nr)
    note nr = Some v(1)[OF Some[symmetric]]
    show ?thesis
    proof (cases stopReq)
      case None
      with nr show ?thesis
        unfolding BuildProgressMessage_def Let_def
        by (simp add: validate_ReplacePayload section_fits validate_ActionsBlock canaryBtnLabel_fits)
    next
      case (Some sr)
      with nr v(2)[OF Some[symmetric]] show ?thesis
        unfolding BuildProgressMessage_def Let_def
        by (simp add: validate_ReplacePayload section_fits validate_ActionsBlock canaryBtnLabel_fits
            stop_label_fits)
    qed
  qed
qed

text \<open>A finished step is always reported.  With a reachable response URL, offering the
  continuation of a rollout sends exactly one request, and its payload is inside every limit of
  Slack, whatever the summary, the requests and their number of services: either the message with its
  buttons, or, when a button value would be too long, the explanation instead.\<close>

theorem OfferContinuation_always_sent:
  assumes "nt_Mode target \<noteq> ModeStdout" "nt_CallbackURL target \<noteq> []"
    and "hw_url W (nt_CallbackURL target) = Inr u" "pu_Scheme u = ''https''"
    and "pu_Hostname u = responseURLHost" "hw_build W (pu_Text u) = None"
  shows "\<exists>p. snd (response_OfferContinuation W C target summary nextReq stopReq l) = l @ [ResponsePost u p] \<and>
    Validate p = None \<and>
    (if (\<forall>r. Some r \<in> set [nextReq, stopReq] \<longrightarrow> length (marshalActionValue C r) \<le> maxButtonValue)
     then p = BuildProgressMessage C summary nextReq stopReq else py_Blocks p = [])"
proof -
  have sent: "snd (notifier_post W (nt_CallbackURL target) p l) = l @ [ResponsePost u p]"
    if "Validate p = None" for p
    using assms that by (simp add: notifier_post_def send_def Let_def split: sum.split)
  show ?thesis
  proof (cases "buttonValueError C [nextReq, stopReq]")
    case None
    with assms(1) sent[OF continuation_fits[OF None]] continuation_fits[OF None] show ?thesis
      unfolding response_OfferContinuation_def buttonValueError_None[symmetric] by simp
  next
    case (Some m)
    then have "m \<noteq> []" by (rule buttonValueError_text)
    then have "Validate (TextPayload m) = None" by (simp add: Validate_def TextPayload_def)
    from sent[OF this] this assms(1) Some show ?thesis
      unfolding response_OfferContinuation_def buttonValueError_None[symmetric] by (simp add: TextPayload_def)
  qed
qed


definition slack_world :: "(http_request \<Rightarrow> string + nat \<times> string) \<Rightarrow> http_world" where
  "slack_world answer =
     \<lparr>hw_url = (\<lambda>s. Inr \<lparr>pu_Scheme = ''https'', pu_Hostname = responseURLHost, pu_Text = s\<rparr>),
      hw_build = (\<lambda>_. None), hw_quote = (\<lambda>s. s),
      hw_json = (\<lambda>s. if s = ''ok'' then Some (JObj [(''ok'', JBool True)]) else None),
      hw_do = (\<lambda>_. answer)\<rparr>"

definition thread_target :: notify_target where
  "thread_target =
     \<lparr>nt_CallbackURL = ''u'', nt_Mode = ModeSlack, nt_ChannelID = ''C'', nt_ThreadTS = ''1''\<rparr>"

theorem OfferContinuation_always_sent_witness:
  "\<exists>u p. snd (response_OfferContinuation (slack_world (\<lambda>_. Inl ''down'')) (plain_codec JNull) thread_target ''done'' None None []) =
     [ResponsePost u p] \<and> Validate p = None"
  using OfferContinuation_always_sent[of thread_target "slack_world (\<lambda>_. Inl ''down'')"
      "\<lparr>pu_Scheme = ''https'', pu_Hostname = responseURLHost, pu_Text = ''u''\<rparr>" "plain_codec JNull" "''done''" None None "[]"]
  by (simp add: slack_world_def thread_target_def go_consts)

text \<open>The rebuilt approval prompt has no such guarantee.  Its body is the error text, the revisions
  and the operator, each cut on its own, and may exceed the limit of a section together; then the
  request is not sent at all and the operator gets no buttons back.\<close>

theorem rebuilt_prompt_can_exceed_limit:
  assumes "list_all (\<lambda>c. of_char c < (128 :: nat)) (errMsg @ ar_Targets svc @ approver)"
    and "length errMsg \<le> 2600" "length (ar_Targets svc) \<le> 500" "length approver \<le> 80" "approver \<noteq> []"
    and "length errMsg + length (ar_Targets svc) + length approver > 2971"
    and "pickBuildInfo [jobReq, Some svc, denyReq] = []"
    and "pickApproverID [jobReq, Some svc, denyReq] = approver"
    and "buttonValueError C [jobReq, Some svc, denyReq] = None" "nt_Mode target \<noteq> ModeStdout"
  shows "snd (response_RebuildInitialApproval W C target errMsg jobReq (Some svc) denyReq l) = l \<and>
    fst (response_RebuildInitialApproval W C target errMsg jobReq (Some svc) denyReq l) \<noteq> None"
proof -
  let ?p = "BuildInitialApprovalMessage C errMsg jobReq (Some svc) denyReq"
  have a: "runs errMsg (length errMsg)" "runs (ar_Targets svc) (length (ar_Targets svc))"
    "runs approver (length approver)"
    using assms(1) by (simp_all add: runs_ascii)
  have t: "safeTrunc errMsg (maxSectionText - 400) = errMsg" "safeTrunc (ar_Targets svc) 500 = ar_Targets svc"
    "safeTrunc approver 80 = approver"
    using assms(2-4) by (simp_all add: safeTrunc_id a[THEN runs_count] maxSectionText_def)
  let ?body = "errMsg @ (([nl, nl] @ ''*Revision(s):* `'') @ ar_Targets svc @ ''`'') @
    (([nl] @ ''*'' @ uni [0x64CD, 0x4F5C] @ '':* <@'') @ approver @ ''>'')"
  have "runs ?body (length errMsg + ((length [nl, nl] + length ''*Revision(s):* `'') +
      (length (ar_Targets svc) + length ''`'')  +
      ((length [nl] + (length ''*'' + (length [0x64CD :: nat, 0x4F5C] + length '':* <@''))) +
       (length approver + length ''>''))))"
    by (intro runs_append a; (rule runs_uni | rule runs_ascii); simp add: valid_rune_def)
  from runs_count[OF this] assms(6) have long: "maxSectionText < rune_count ?body"
    by (simp add: maxSectionText_def)
  obtain hd rest where p: "?p = ReplacePayload (HeaderBlock (safeTrunc hd maxHeaderText) # SectionBlock ?body # rest)"
    using assms(5,7,8) unfolding BuildInitialApprovalMessage_def Let_def by (simp add: t)
  have "rune_count (safeTrunc hd maxHeaderText) \<le> maxHeaderText"
    by (rule safeTrunc_fits) (simp add: maxHeaderText_def)
  then have "Validate ?p = Some (SectionTooLong 1)"
    unfolding p using long
    by (simp add: validate_ReplacePayload validateBlock_def HeaderBlock_def SectionBlock_def PlainText_def
        Mrkdwn_def go_consts)
  with assms(9,10) show ?thesis
    by (simp add: response_RebuildInitialApproval_def notifier_post_def split: sum.split)
qed

theorem rebuilt_prompt_can_exceed_limit_witness:
  "snd (response_RebuildInitialApproval (slack_world (\<lambda>_. Inr (200, ''ok''))) (plain_codec JNull) thread_target
      (replicate 2600 (CHR ''x'')) None
      (Some (zero_request\<lparr>ar_Targets := replicate 400 (CHR ''r''), ar_ApproverID := ''U''\<rparr>)) None []) = []"
proof -
  have "list_all (\<lambda>c. of_char c < (128 :: nat)) (replicate 2600 (CHR ''x'') @ replicate 400 (CHR ''r'') @ ''U'')"
    by (simp add: list_all_iff set_replicate_conv_if)
  then show ?thesis
    using rebuilt_prompt_can_exceed_limit[of "replicate 2600 (CHR ''x'')"
        "zero_request\<lparr>ar_Targets := replicate 400 (CHR ''r''), ar_ApproverID := ''U''\<rparr>" "''U''" None None
        "plain_codec JNull" thread_target "slack_world (\<lambda>_. Inr (200, ''ok''))" "[]"]
    by (simp add: zero_request_def thread_target_def go_consts marshalActionValue_def plain_codec_def
        CompressButtonValue_def gz_prefix_def maxButtonValue_def Let_def)
qed

section \<open>What a button carries\<close>

text \<open>C33. A button gives back the request it was made from: the click on a button of a progress or
  rebuilt message is the request with the clicker as its approver.  But the name of the SQL instance
  is not carried, so the backup of a migration that is retried from such a button is taken of an
  instance named like the job.\<close>

theorem button_returns_request_without_instance:
  assumes "codec_returns C (progressActionValue req)"
  shows "\<exists>av. parseActionValue C (marshalActionValue C req) = Some av \<and>
    click_request av clicker =
      req\<lparr>ar_ApproverID := clicker, ar_SQLInstanceName := [], ar_RequesterActorType := [],
          ar_InitiatingActorType := []\<rparr> \<and>
    sql_instance (click_request av clicker) = ar_ResourceNames req"
proof -
  obtain kvs where k: "progressActionValue req = JObj kvs" by (simp add: progressActionValue_def)
  have d: "distinct (map fst kvs)" "fst ` set kvs \<subseteq> set action_fields"
    using k by (auto simp: progressActionValue_def action_fields_def opt_member_def)
  have m: "button_members C (marshalActionValue C req) = Some kvs"
    using assms button_members_built unfolding k marshalActionValue_def by blast
  have i: "- (2 ^ 63) \<le> sint (ar_IssuedAt req)" "sint (ar_IssuedAt req) < 2 ^ 63"
    using sint_range_size[of "ar_IssuedAt req"] by (simp_all add: word_size)
  show ?thesis
    unfolding parseActionValue_def m read_field_map_of[OF d] Option.bind.bind_lunit
    using k[symmetric] i
    by (simp add: progressActionValue_def opt_member_def click_request_def zero_request_def sql_instance_def
        first_non_empty_def)
qed

theorem button_returns_request_without_instance_witness:
  "sql_instance (click_request (the (parseActionValue
       (plain_codec (progressActionValue (zero_request\<lparr>ar_ResourceNames := ''migrate-job'', ar_SQLInstanceName := ''pg''\<rparr>)))
       (marshalActionValue
         (plain_codec (progressActionValue (zero_request\<lparr>ar_ResourceNames := ''migrate-job'', ar_SQLInstanceName := ''pg''\<rparr>)))
         (zero_request\<lparr>ar_ResourceNames := ''migrate-job'', ar_SQLInstanceName := ''pg''\<rparr>)))) ''UB'') = ''migrate-job''"
proof -
  let ?r = "zero_request\<lparr>ar_ResourceNames := ''migrate-job'', ar_SQLInstanceName := ''pg''\<rparr>"
  have "ar_ResourceNames ?r = ''migrate-job''" by simp
  with button_returns_request_without_instance[OF plain_codec_returns, of ?r "''UB''"] show ?thesis by force
qed

section \<open>The fallback\<close>

lemma cut_str_sublist: "cut_str p s = None \<longleftrightarrow> \<not> sublist p s"
proof (induction s)
  case (Cons c s)
  show ?case
  proof (cases "prefix p (c # s)")
    case True
    then show ?thesis by (auto simp: sublist_Cons_right)
  next
    case False
    with Cons show ?thesis by (auto simp: sublist_Cons_right split: option.split)
  qed
qed simp

lemma contains_str_sublist: "contains_str s p \<longleftrightarrow> sublist p s"
  by (simp add: contains_str_def cut_str_sublist)

text \<open>An expired response URL does not lose a message.  When Slack answers the update with 404 and
  \<open>expired_url\<close>, the same text goes once to the channel and thread of the message, or to the default
  channel when the message names none, and the update succeeds if Slack takes it.  A 404 with an empty
  body is not recognised and stays an error, with nothing posted.\<close>

theorem expired_response_url_falls_back:
  assumes "nt_Mode target \<noteq> ModeStdout" "nt_CallbackURL target \<noteq> []" "txt \<noteq> []"
    and "hw_url W (nt_CallbackURL target) = Inr u" "pu_Scheme u = ''https''"
    and "pu_Hostname u = responseURLHost" "hw_build W (pu_Text u) = None"
    and "hw_do W l (ResponsePost u (TextPayload txt)) = Inr (404, body)"
  shows "(let channel = (if nt_ChannelID target = [] then fc_defaultChannelID F else nt_ChannelID target);
              primary = ResponsePost u (TextPayload txt);
              chat = ChatPost (fc_chatPostMessageURL F) (fc_botToken F) channel (nt_ThreadTS target) (ChatText txt);
              r = nf_UpdateMessage (FallbackNotifier W F (ResponseURLNotifier W C)) target txt l
          in (sublist ''expired_url'' body \<and> channel \<noteq> [] \<and> hw_build W (fc_chatPostMessageURL F) = None \<longrightarrow>
                snd r = l @ [primary, chat] \<and>
                (case hw_do W (l @ [primary]) chat of
                   Inr (status, b) \<Rightarrow> fst r = None \<longleftrightarrow> status < 300 \<and> api_error W b = None
                 | Inl e \<Rightarrow> fst r \<noteq> None)) \<and>
             (body = [] \<longrightarrow> snd r = l @ [primary] \<and> fst r \<noteq> None))"
proof -
  let ?err = "''slack notifier: unexpected status 404: '' @ body"
  have v: "Validate (TextPayload txt) = None" using assms(3) by (simp add: Validate_def TextPayload_def)
  have n: "show_nat 404 = ''404''" by code_simp
  have primary: "response_UpdateMessage W target txt l = (Some ?err, l @ [ResponsePost u (TextPayload txt)])"
    using assms v by (simp add: response_UpdateMessage_def notifier_post_def send_def n)
  have lim: "isResponseURLLimitErr ?err" if "sublist ''expired_url'' body"
  proof -
    have "sublist ''404'' ?err" 
      unfolding sublist_def
      by (intro exI[of _ "''slack notifier: unexpected status ''"] exI[of _ "'': '' @ body"]) simp
    moreover have "sublist ''expired_url'' ?err" using that unfolding sublist_def by (metis append_assoc)
    ultimately show ?thesis by (simp only: isResponseURLLimitErr_def contains_str_sublist) simp
  qed
  have bare: "\<not> isResponseURLLimitErr ''slack notifier: unexpected status 404: ''" by code_simp
  show ?thesis
    using lim bare assms(1) primary
    by (auto simp: FallbackNotifier_def ResponseURLNotifier_def with_fallback_def postChatMessage_def send_def Let_def
        split: sum.split option.split prod.split)
qed

theorem expired_response_url_falls_back_witness:
  "nf_UpdateMessage
      (FallbackNotifier
        (slack_world (\<lambda>r. case r of ResponsePost u p \<Rightarrow> Inr (404, ''expired_url'') | _ \<Rightarrow> Inr (200, ''ok'')))
        \<lparr>fc_chatPostMessageURL = ''chat'', fc_botToken = ''t'', fc_defaultChannelID = []\<rparr>
        (ResponseURLNotifier
          (slack_world (\<lambda>r. case r of ResponsePost u p \<Rightarrow> Inr (404, ''expired_url'') | _ \<Rightarrow> Inr (200, ''ok''))) (plain_codec JNull)))
      thread_target ''hi'' [] =
    (None,
     [ResponsePost \<lparr>pu_Scheme = ''https'', pu_Hostname = responseURLHost, pu_Text = ''u''\<rparr> (TextPayload ''hi''),
      ChatPost ''chat'' ''t'' ''C'' ''1'' (ChatText ''hi'')])"
proof -
  let ?W = "slack_world (\<lambda>r. case r of ResponsePost u p \<Rightarrow> Inr (404, ''expired_url'') | _ \<Rightarrow> Inr (200, ''ok''))"
  let ?F = "\<lparr>fc_chatPostMessageURL = ''chat'', fc_botToken = ''t'', fc_defaultChannelID = []\<rparr>"
  have ok: "api_error ?W ''ok'' = None"
    by (simp add: api_error_def slack_world_def)
  show ?thesis
    using expired_response_url_falls_back[of thread_target "''hi''" ?W
        "\<lparr>pu_Scheme = ''https'', pu_Hostname = responseURLHost, pu_Text = ''u''\<rparr>" "[]" "''expired_url''" ?F "plain_codec JNull"] ok
    by (intro prod_eqI) (simp_all add: slack_world_def thread_target_def go_consts Let_def)
qed

end
