(* ===== verification/Command_Correct.thy ===== *)
theory Command_Correct
  imports Slack_Command Slack_Correct
begin

text \<open>
  What the slash command guarantees: what is dispatched is what was confirmed, by whom it was
  confirmed, and only for an active project; and which command texts are understood how.
\<close>

section \<open>The dispatch use case\<close>

fun publishes :: "dispatch_effect \<Rightarrow> bool" where
  "publishes (PublishDMail m) = True"
| "publishes _ = False"

text \<open>The dispatch use case, exactly.  A dispatch whose key is in progress and one of a requester
  who is not on the allow-list publish nothing and say so to the requester alone; otherwise the mail of
  the request is published once and the outcome is shown in the message; and the lock is free again
  afterwards in every case.\<close>

theorem DispatchAgentTask_exact:
  "run_state (DispatchAgentTask E chk (pubsub_Dispatch E random) req target) w =
     (let key = dispatch_OperationKey req; t = trace w;
          mail = PublishDMail (dispatch_mail random req);
          no_role = ''pubsub dispatcher: DispatchRequest.Role is required''
      in if key \<in> ms_keys (dw_store w) then
           (Some (DispatchInProgress key),
            w\<lparr>trace := t @ [DispatchEphemeral target (dr_RequesterID req) NoteDispatchRunning]\<rparr>)
         else if \<not> IsAuthorized chk (dr_RequesterID req) then
           (Some (UnauthorizedRequester (dr_RequesterID req)),
            w\<lparr>trace := t @ [DispatchEphemeral target (dr_RequesterID req) NoteNotAllowed]\<rparr>)
         else if dr_Role req = [] then
           (Some (DispatcherFailed no_role), w\<lparr>trace := t @ [DispatchUpdate target (NoteDispatchFailed no_role)]\<rparr>)
         else case reply E t mail of
           Some e \<Rightarrow>
             (Some (DispatcherFailed (''pubsub dispatcher: publish: '' @ e)),
              w\<lparr>trace := t @ [mail, DispatchUpdate target (NoteDispatchFailed (''pubsub dispatcher: publish: '' @ e))]\<rparr>)
         | None \<Rightarrow>
             (None, w\<lparr>trace := t @ [mail, DispatchUpdate target
                       (NoteDispatchAccepted (dr_Role req) (dr_IdempotencyKey req))]\<rparr>))"
proof -
  have r: "Release k (s\<lparr>ms_keys := insert k (ms_keys s)\<rparr>) = s" if "k \<notin> ms_keys s" for k s
    using that by (simp add: Release_def)
  show ?thesis
    by (simp add: DispatchAgentTask_def dispatch_locked_def pubsub_Dispatch_def TryLock_def r Let_def
        split: option.split)
qed


lemma dispatch_publishes_at_most_once:
  fixes w :: dispatch_world
  shows "\<exists>es. trace (snd (run_state (DispatchAgentTask E chk (pubsub_Dispatch E random) req target) w)) = trace w @ es \<and>
     (filter publishes es = [] \<or>
      filter publishes es = [PublishDMail (dispatch_mail random req)] \<and> IsAuthorized chk (dr_RequesterID req))"
  unfolding DispatchAgentTask_exact Let_def by (simp split: option.split)

section \<open>From the command to the dispatch\<close>

definition button_value :: "slack_payload \<Rightarrow> string \<Rightarrow> string option" where
  "button_value p aid =
     map_of (map (\<lambda>b. (bt_ActionID b, bt_Value b)) (concat (map bl_Elements (py_Blocks p)))) aid"

lemma confirmation_buttons:
  "button_value (BuildDispatchConfirmation d) ''dispatch_approve'' = Some (dc_ApproveValue d)"
  "button_value (BuildDispatchConfirmation d) ''dispatch_deny'' = Some (dc_DenyValue d)"
  by (simp_all add: button_value_def BuildDispatchConfirmation_def Let_def ActionsBlock_def NewButton_def
      WithConfirm_def HeaderBlock_def SectionBlock_def DividerBlock_def)

definition command_value :: "string option \<Rightarrow> int \<Rightarrow> command_text \<Rightarrow> string \<Rightarrow> dispatch_value" where
  "command_value random now ct user =
     \<lparr>dv_Role = cmd_role ct, dv_Text = cmd_text ct, dv_RequesterID = user,
      dv_IdempotencyKey = newIdempotencyKey random now, dv_IssuedAt = word_of_int (now div 1000000000),
      dv_ProjectID = cmd_project ct\<rparr>"

lemma ParseAgentRole_Some: "ParseAgentRole s = Some r \<Longrightarrow> r = s \<and> s \<noteq> []"
  by (auto simp: ParseAgentRole_def go_consts split: if_splits)

lemma command_confirmation:
  assumes "command_ServeHTTP H C h now random r reg = (Confirmation p, reg')"
  obtains body form ct where
    "iq_Body r = Some body" "hh_form H body = Some form"
    "verifySignatureAt (hh_hmac H) now (iq_Timestamp r) (iq_Signature r) body (ch_signingSecret h) = None"
    "parseSlashCommandText (trim_space (post_form_value form ''text'')) = Inr ct"
    "ParseAgentRole (cmd_role ct) = Some (cmd_role ct)" "cmd_text ct \<noteq> []"
    "check_project (ch_projectRegistry h) (cmd_project ct) reg = (None, reg')"
    "\<And>v. button_value p ''dispatch_approve'' = Some v \<Longrightarrow>
       v = CompressButtonValue C (sl_marshal C (marshalDispatchActionValue
             (command_value random now ct (post_form_value form ''user_id''))))"
proof -
  obtain body where body: "iq_Body r = Some body"
    using assms by (cases "iq_Body r") (simp_all add: command_ServeHTTP_def)
  have sig: "verifySignatureAt (hh_hmac H) now (iq_Timestamp r) (iq_Signature r) body (ch_signingSecret h) = None"
    using assms unfolding command_ServeHTTP_def body option.case by (metis command_reply.distinct(3) prod.inject)
  obtain form q where form: "hh_form H body = Some form" "hh_form H (iq_Query r) = Some q"
    using assms unfolding command_ServeHTTP_def body option.case
    by (cases "hh_form H body"; cases "hh_form H (iq_Query r)") (simp_all add: sig)
  note e = assms[unfolded command_ServeHTTP_def body form option.case prod.case Let_def sig]
  obtain ct where ct: "parseSlashCommandText (trim_space (post_form_value form ''text'')) = Inr ct"
    using e by (cases "parseSlashCommandText (trim_space (post_form_value form ''text''))")
      (simp_all split: if_splits)
  note e = e[unfolded ct sum.case]
  obtain role where role: "ParseAgentRole (cmd_role ct) = Some role"
    using e by (cases "ParseAgentRole (cmd_role ct)") (simp_all split: if_splits)
  have same: "role = cmd_role ct" using ParseAgentRole_Some[OF role] by simp
  note e = e[unfolded role option.case]
  have ntxt: "cmd_text ct \<noteq> []" using e by (auto split: if_splits)
  obtain nt reg1 where chk: "check_project (ch_projectRegistry h) (cmd_project ct) reg = (nt, reg1)"
    by fastforce
  have none: "nt = None \<and> reg1 = reg'"
    using e ntxt unfolding chk prod.case by (cases nt) (auto split: if_splits prod.splits)
  let ?v = "CompressButtonValue C (sl_marshal C (marshalDispatchActionValue
      (command_value random now ct (post_form_value form ''user_id''))))"
  have b: "buildDispatchButtonValues C (cmd_role ct) (cmd_text ct) (post_form_value form ''user_id'')
      (newIdempotencyKey random now) (cmd_project ct) (word_of_int (now div 1000000000)) = (?v, ?v)"
    by (simp add: buildDispatchButtonValues_def command_value_def Let_def)
  have "v = ?v" if "button_value p ''dispatch_approve'' = Some v" for v
    using e ntxt none that unfolding chk prod.case same b
    by (auto simp: confirmation_buttons split: if_splits)
  with that[OF body form(1) sig ct _ ntxt] role same chk none show ?thesis by blast
qed

lemma check_project_active:
  assumes "check_project registry pid reg = (None, reg')"
  shows "pid = [] \<or> (\<exists>get p. registry = Some get \<and> fst (get pid reg) = Inr p \<and> pj_Status p = ProjectStatusActive)"
  using assms by (auto simp: check_project_def Let_def split: if_splits option.splits sum.splits)

text \<open>C11. What is dispatched is what was confirmed.  When the confirmation shown for a signed command
  is approved and leads to a dispatch, then the clicker is the author of the command; role, text and
  project of the published mail are those the command text parses to; the project, if any, was active
  in the registry when the command came in; and at most that one mail is published, only for an
  allowed requester.\<close>

theorem dispatched_as_confirmed:
  fixes w :: dispatch_world
  assumes "command_ServeHTTP H C h now random r reg = (Confirmation p, reg')"
    and "button_value p ''dispatch_approve'' = Some v"
    and "\<forall>body form ct. iq_Body r = Some body \<and> hh_form H body = Some form \<and>
       parseSlashCommandText (trim_space (post_form_value form ''text'')) = Inr ct \<longrightarrow>
       codec_returns C (marshalDispatchActionValue (command_value random now ct (post_form_value form ''user_id'')))"
    and "handleDispatchAction C ih now' ''dispatch_approve'' v clicker target ts = (Some job, ts')" "consuming job"
  shows "\<exists>body form ct req es.
    iq_Body r = Some body \<and> hh_form H body = Some form \<and>
    verifySignatureAt (hh_hmac H) now (iq_Timestamp r) (iq_Signature r) body (ch_signingSecret h) = None \<and>
    parseSlashCommandText (trim_space (post_form_value form ''text'')) = Inr ct \<and>
    clicker = post_form_value form ''user_id'' \<and> job = RunDispatch req target \<and>
    (cmd_project ct = [] \<or> (\<exists>get pj. ch_projectRegistry h = Some get \<and>
       fst (get (cmd_project ct) reg) = Inr pj \<and> pj_Status pj = ProjectStatusActive)) \<and>
    trace (snd (run_state (DispatchAgentTask E chk (pubsub_Dispatch E random') req target) w)) = trace w @ es \<and>
    (filter publishes es = [] \<or>
     IsAuthorized chk clicker \<and>
     filter publishes es = [PublishDMail
       \<lparr>dm_ID = newDMailID random', dm_Kind = DMailKindSpecification, dm_Target = cmd_role ct,
        dm_Source = ''runops-gateway-slack'', dm_IdempotencyKey = newIdempotencyKey random now,
        dm_Body = cmd_text ct,
        dm_Metadata = [(''requester_id'', clicker)] @ opt_entry ''slack_channel_id'' (nt_ChannelID target) @
          opt_entry ''slack_thread_ts'' (nt_ThreadTS target) @
          opt_entry ''parent_idempotency_key'' (newIdempotencyKey random now) @
          opt_entry ''project_id'' (cmd_project ct)\<rparr>])"
proof -
  obtain body form ct where c: "iq_Body r = Some body" "hh_form H body = Some form"
    "verifySignatureAt (hh_hmac H) now (iq_Timestamp r) (iq_Signature r) body (ch_signingSecret h) = None"
    "parseSlashCommandText (trim_space (post_form_value form ''text'')) = Inr ct"
    "check_project (ch_projectRegistry h) (cmd_project ct) reg = (None, reg')"
    "v = CompressButtonValue C (sl_marshal C (marshalDispatchActionValue
           (command_value random now ct (post_form_value form ''user_id''))))"
    using command_confirmation[OF assms(1)] assms(2) by metis
  have dv: "parseDispatchActionValue C v = Some (command_value random now ct (post_form_value form ''user_id''))"
    unfolding c(6) by (rule parse_built_dispatch) (use assms(3) c(1,2,4) in blast)
  define req where "req = \<lparr>dr_Role = cmd_role ct, dr_Text = cmd_text ct, dr_RequesterID = clicker,
       dr_IdempotencyKey = newIdempotencyKey random now,
       dr_IssuedAt = word_of_int (now div 1000000000), dr_SlackChannelID = nt_ChannelID target,
       dr_SlackThreadTS = nt_ThreadTS target, dr_ProjectID = cmd_project ct\<rparr>"
  have job: "job = RunDispatch req target" "clicker = post_form_value form ''user_id''"
  proof -
    obtain dv' where d: "parseDispatchActionValue C v = Some dv'" "clicker = dv_RequesterID dv'"
      "job = RunDispatch \<lparr>dr_Role = dv_Role dv', dr_Text = dv_Text dv', dr_RequesterID = clicker,
         dr_IdempotencyKey = dv_IdempotencyKey dv', dr_IssuedAt = dv_IssuedAt dv',
         dr_SlackChannelID = nt_ChannelID target, dr_SlackThreadTS = nt_ThreadTS target,
         dr_ProjectID = dv_ProjectID dv'\<rparr> target"
      by (rule handleDispatchAction_consuming[OF assms(4,5)])
    from d(1) dv have "dv' = command_value random now ct (post_form_value form ''user_id'')" by simp
    with d(2,3) show "job = RunDispatch req target" "clicker = post_form_value form ''user_id''"
      by (simp_all add: command_value_def req_def)
  qed
  obtain es where es: "trace (snd (run_state (DispatchAgentTask E chk (pubsub_Dispatch E random') req target) w)) = trace w @ es"
    "filter publishes es = [] \<or>
      filter publishes es = [PublishDMail (dispatch_mail random' req)] \<and> IsAuthorized chk (dr_RequesterID req)"
    using dispatch_publishes_at_most_once by blast
  show ?thesis
    using c(1-4) job check_project_active[OF c(5)] es
    by (intro exI[of _ body] exI[of _ form] exI[of _ ct] exI[of _ req] exI[of _ es])
       (auto simp: dispatch_mail_def req_def)
qed


definition agent_form :: "(string \<times> string) list" where
  "agent_form = [(''command'', ''/agent''), (''text'', ''paintress fix it''), (''user_id'', ''U1'')]"

definition agent_host :: http_host where
  "agent_host = \<lparr>hh_hmac = (\<lambda>k m. ''h''), hh_form = (\<lambda>s. Some (if s = ''b'' then agent_form else []))\<rparr>"

definition agent_request :: interactive_request where
  "agent_request = \<lparr>iq_Timestamp = ''5'', iq_Signature = ''v0=h'', iq_Body = Some ''b'', iq_Query = []\<rparr>"

abbreviation agent_codec :: slack_codec where
  "agent_codec \<equiv> plain_codec (marshalDispatchActionValue
     (command_value None 5000000000 \<lparr>cmd_role = ''paintress'', cmd_project = [], cmd_text = ''fix it''\<rparr> ''U1''))"

lemma agent_parse:
  "parseSlashCommandText (trim_space (post_form_value agent_form ''text'')) =
     Inr \<lparr>cmd_role = ''paintress'', cmd_project = [], cmd_text = ''fix it''\<rparr>"
  by code_simp

theorem dispatched_as_confirmed_witness:
  "\<exists>p v req. command_ServeHTTP agent_host agent_codec \<lparr>ch_signingSecret = ''s'', ch_projectRegistry = None\<rparr>
       5000000000 None agent_request empty_table = (Confirmation p, empty_table) \<and>
     button_value p ''dispatch_approve'' = Some v \<and>
     fst (handleDispatchAction agent_codec full_handler 6000000000 ''dispatch_approve'' v ''U1'' slack_thread None) =
       Some (RunDispatch req slack_thread)"
proof -
  let ?h = "\<lparr>ch_signingSecret = ''s'', ch_projectRegistry = None\<rparr>"
  let ?cv = "command_value None 5000000000 \<lparr>cmd_role = ''paintress'', cmd_project = [], cmd_text = ''fix it''\<rparr> ''U1''"
  have sig: "verifySignatureAt (hh_hmac agent_host) 5000000000 ''5'' ''v0=h'' ''b'' ''s'' = None" by code_simp
  have fields: "post_form_value agent_form ''command'' = ''/agent''" "post_form_value agent_form ''user_id'' = ''U1''"
    by (simp_all add: post_form_value_def agent_form_def)
  have host: "hh_form agent_host ''b'' = Some agent_form" "hh_form agent_host [] = Some []"
    by (simp_all add: agent_host_def)
  have role: "ParseAgentRole ''paintress'' = Some ''paintress''" by (simp add: ParseAgentRole_def go_consts)
  let ?v = "CompressButtonValue agent_codec (sl_marshal agent_codec (marshalDispatchActionValue ?cv))"
  let ?p = "BuildDispatchConfirmation \<lparr>dc_Role = ''paintress'', dc_Text = ''fix it'', dc_RequesterID = ''U1'',
    dc_IdempotencyKey = newIdempotencyKey None 5000000000, dc_ProjectID = [], dc_ApproveValue = ?v, dc_DenyValue = ?v\<rparr>"
  have p: "command_ServeHTTP agent_host agent_codec ?h 5000000000 None agent_request empty_table = (Confirmation ?p, empty_table)"
      "button_value ?p ''dispatch_approve'' = Some ?v"
    by (simp_all add: command_ServeHTTP_def agent_request_def sig host agent_parse fields role check_project_def
        buildDispatchButtonValues_def confirmation_buttons command_value_def Let_def)
  note v = parse_built_dispatch[OF plain_codec_returns, of ?cv]
  obtain job ts where job: "handleDispatchAction agent_codec full_handler 6000000000 ''dispatch_approve''
      ?v ''U1'' slack_thread None =
      (Some job, ts)" "consuming job"
    unfolding handleDispatchAction_def v by (simp add: command_value_def consume_def full_handler_def)
  have returns: "\<forall>body form ct. iq_Body agent_request = Some body \<and> hh_form agent_host body = Some form \<and>
      parseSlashCommandText (trim_space (post_form_value form ''text'')) = Inr ct \<longrightarrow>
      codec_returns agent_codec (marshalDispatchActionValue
        (command_value None 5000000000 ct (post_form_value form ''user_id'')))"
    by (auto simp: agent_request_def host agent_parse fields plain_codec_returns)
  from dispatched_as_confirmed[OF p returns job,
      where E = "\<lparr>reply = (\<lambda>_ _. None), clock = (\<lambda>_. 0)\<rparr>" and chk = "NewEnvAuthChecker ''U1'' ''60''"
        and random' = None and w = "\<lparr>trace = [], dw_store = NewMemoryStore\<rparr>"]
  obtain req where "job = RunDispatch req slack_thread" by blast
  with job(1) have "fst (handleDispatchAction agent_codec full_handler 6000000000 ''dispatch_approve''
      ?v ''U1'' slack_thread None) = Some (RunDispatch req slack_thread)" by simp
  with p show ?thesis by blast
qed

section \<open>Which texts are understood\<close>


lemma strip_one_blank:
  assumes "\<forall>p \<in> set ps. p = '' '' \<or> CHR '' '' \<notin> set p" "a \<noteq> []" "strip_one ps a = None"
  shows "strip_one ps (a @ CHR '' '' # b) = None"
  using assms(1,3)
proof (induction ps)
  case (Cons p ps)
  have "\<not> prefix p (a @ CHR '' '' # b)" if "p \<noteq> []"
  proof
    assume "prefix p (a @ CHR '' '' # b)"
    then consider "prefix p a" | d where "p = a @ CHR '' '' # d" by (auto simp: prefix_append prefix_Cons)
    then show False
    proof cases
      case 1
      with that Cons.prems(2) show False by simp
    next
      case 2
      then have "CHR '' '' \<in> set p" "p \<noteq> '' ''" using assms(2) by (auto simp: Cons_eq_append_conv append_eq_Cons_conv)
      with Cons.prems(1) show False by simp
    qed
  qed
  with Cons show ?case by (auto split: if_splits)
qed simp

lemma go_spaces_blank:
  "\<forall>p \<in> set go_spaces. p = '' '' \<or> CHR '' '' \<notin> set p"
  "\<forall>p \<in> set (map rev go_spaces). p = '' '' \<or> CHR '' '' \<notin> set p"
  by (simp_all add: go_spaces_def)

text \<open>Characters no white space begins with.\<close>

definition starts_word :: "string \<Rightarrow> bool" where
  "starts_word s \<longleftrightarrow> s \<noteq> [] \<and> strip_one go_spaces s = None"

lemma words_free_ends:
  assumes "starts_word u" "t \<noteq> []" "space_free_ends t"
  shows "space_free_ends (u @ CHR '' '' # t)"
proof -
  have "strip_one go_spaces (u @ CHR '' '' # t) = None"
    using assms(1) by (intro strip_one_blank go_spaces_blank) (simp_all add: starts_word_def)
  moreover have "strip_one (map rev go_spaces) (rev t @ CHR '' '' # rev u) = None"
    using assms(2,3) by (intro strip_one_blank go_spaces_blank) (simp_all add: space_free_ends_def)
  ultimately show ?thesis by (simp add: space_free_ends_def)
qed

lemma starts_word_ascii:
  "c \<in> set ''abcdefghijklmnopqrstuvwxyzABCDEFGHIJKLMNOPQRSTUVWXYZ0123456789_-'' \<Longrightarrow> starts_word (c # s)"
proof -
  assume "c \<in> set ''abcdefghijklmnopqrstuvwxyzABCDEFGHIJKLMNOPQRSTUVWXYZ0123456789_-''"
  moreover have "list_all (\<lambda>c. list_all (\<lambda>p. p = [] \<or> hd p \<noteq> c) go_spaces)
      ''abcdefghijklmnopqrstuvwxyzABCDEFGHIJKLMNOPQRSTUVWXYZ0123456789_-''" by code_simp
  ultimately have "\<And>p. p \<in> set go_spaces \<Longrightarrow> p = [] \<or> hd p \<noteq> c" unfolding list_all_iff by blast
  then show ?thesis unfolding starts_word_def by (blast intro: strip_one_None_head)
qed

lemma role_word:
  assumes "ParseAgentRole role = Some role"
  shows "starts_word role" "CHR '' '' \<notin> set role"
proof -
  have "role \<in> {''paintress'', ''sightjack'', ''amadeus'', ''dominator''}"
    using assms by (auto simp: ParseAgentRole_def go_consts split: if_splits)
  then show "starts_word role" "CHR '' '' \<notin> set role"
    by (auto intro!: starts_word_ascii)
qed

lemma project_word:
  assumes "ValidateProjectID pid = None"
  shows "starts_word pid" "CHR '' '' \<notin> set pid" "pid \<noteq> []"
proof -
  from assms obtain c s where c: "pid = c # s" "set pid \<subseteq> set project_id_chars"
    unfolding ValidateProjectID_None_iff by (metis list.exhaust)
  have "CHR '' '' \<notin> set project_id_chars" by (simp add: project_id_chars_def)
  with c show "CHR '' '' \<notin> set pid" "pid \<noteq> []" by auto
  from c have "c \<in> set project_id_chars" by simp
  then show "starts_word pid"
    unfolding c(1) project_id_chars_def by (rule starts_word_ascii)
qed

lemma split_head_words: "CHR '' '' \<notin> set u \<Longrightarrow> split_head (u @ CHR '' '' # t) = (u, Some t)"
  by (simp add: split_head_def)

text \<open>The three ways to write a command.  With one of the four roles, a well-formed project id and
  a text that neither starts nor ends with white space, the flag is understood in both spellings and
  what follows it is the text; a text that contains the flag again is refused; and a text that does
  not begin with the flag is passed on whole, with no project.\<close>

theorem parseSlashCommandText_forms:
  assumes "ParseAgentRole role = Some role" "ValidateProjectID pid = None"
    and "request \<noteq> []" "space_free_ends request"
  shows "parseSlashCommandText (role @ '' --project='' @ pid @ '' '' @ request) =
      (if containsProjectFlag request then Inl MultipleProjectFlags
       else Inr \<lparr>cmd_role = role, cmd_project = pid, cmd_text = request\<rparr>) \<and>
    parseSlashCommandText (role @ '' --project '' @ pid @ '' '' @ request) =
      (if containsProjectFlag request then Inl MultipleProjectFlags
       else Inr \<lparr>cmd_role = role, cmd_project = pid, cmd_text = request\<rparr>) \<and>
    (\<not> prefix ''--project'' request \<longrightarrow>
       parseSlashCommandText (role @ '' '' @ request) =
         Inr \<lparr>cmd_role = role, cmd_project = [], cmd_text = request\<rparr>)"
proof (intro conjI impI)
  let ?flag = "''--project='' @ pid"
  note r = role_word[OF assms(1)] and p = project_word[OF assms(2)]
  have words: "starts_word ?flag" "starts_word ''--project''" by (simp_all add: starts_word_ascii)
  have f: "space_free_ends (pid @ CHR '' '' # request)" "space_free_ends (?flag @ CHR '' '' # request)"
    by (rule words_free_ends[OF p(1) assms(3,4)], rule words_free_ends[OF words(1) assms(3,4)])
  have g: "space_free_ends (''--project'' @ CHR '' '' # pid @ CHR '' '' # request)"
    by (rule words_free_ends[OF words(2) _ f(1)]) simp
  have h: "trim_space (role @ CHR '' '' # ?flag @ CHR '' '' # request) = role @ CHR '' '' # ?flag @ CHR '' '' # request"
    "trim_space (role @ CHR '' '' # ''--project'' @ CHR '' '' # pid @ CHR '' '' # request) =
       role @ CHR '' '' # ''--project'' @ CHR '' '' # pid @ CHR '' '' # request"
    "trim_space (role @ CHR '' '' # request) = role @ CHR '' '' # request"
    using f(2) g assms(3,4) by (intro trim_space_id words_free_ends[OF r(1)]; simp)+
  have head: "split_head (role @ CHR '' '' # t) = (role, Some t)" for t by (rule split_head_words[OF r(2)])
  have flag: "split_head (?flag @ CHR '' '' # request) = (?flag, Some request)"
    "split_head (''--project'' @ CHR '' '' # pid @ CHR '' '' # request) = (''--project'', Some (pid @ CHR '' '' # request))"
    "split_head (pid @ CHR '' '' # request) = (pid, Some request)"
    using p(2) by (intro split_head_words; simp)+
  note trims = f[THEN trim_space_id] g[THEN trim_space_id] assms(4)[THEN trim_space_id]
  have eqs: "role @ '' --project='' @ pid @ '' '' @ request = role @ CHR '' '' # ?flag @ CHR '' '' # request"
    "role @ '' --project '' @ pid @ '' '' @ request =
       role @ CHR '' '' # ''--project'' @ CHR '' '' # pid @ CHR '' '' # request"
    "role @ '' '' @ request = role @ CHR '' '' # request" by simp_all
  show "parseSlashCommandText (role @ '' --project='' @ pid @ '' '' @ request) =
      (if containsProjectFlag request then Inl MultipleProjectFlags
       else Inr \<lparr>cmd_role = role, cmd_project = pid, cmd_text = request\<rparr>)"
    unfolding eqs(1) parseSlashCommandText_def Let_def h head flag trims prod.case option.case
    using assms(2,3) p(3) by (simp add: trim_prefix_def)
  show "parseSlashCommandText (role @ '' --project '' @ pid @ '' '' @ request) =
      (if containsProjectFlag request then Inl MultipleProjectFlags
       else Inr \<lparr>cmd_role = role, cmd_project = pid, cmd_text = request\<rparr>)"
    unfolding eqs(2) parseSlashCommandText_def Let_def h head flag trims prod.case option.case
    using assms(2,3) p(3) by simp
  assume n: "\<not> prefix ''--project'' request"
  obtain hd after where s: "split_head request = (hd, after)" by fastforce
  have "prefix hd request"
    using s by (auto simp: split_head_def dest: cut_chr_Some split: option.splits)
  with n have "\<not> prefix ''--project='' hd" "hd \<noteq> ''--project''"
    by (auto simp: prefix_def)
  then show "parseSlashCommandText (role @ '' '' @ request) =
      Inr \<lparr>cmd_role = role, cmd_project = [], cmd_text = request\<rparr>"
    unfolding eqs(3) parseSlashCommandText_def Let_def h head trims s prod.case option.case by simp
qed

theorem parseSlashCommandText_forms_witness:
  "parseSlashCommandText ''paintress --project shop fix --project'' = Inl MultipleProjectFlags \<and>
   parseSlashCommandText ''paintress --project=shop fix it'' =
     Inr \<lparr>cmd_role = ''paintress'', cmd_project = ''shop'', cmd_text = ''fix it''\<rparr>"
proof -
  have r: "ParseAgentRole ''paintress'' = Some ''paintress''" by (simp add: ParseAgentRole_def go_consts)
  have p: "ValidateProjectID ''shop'' = None" by code_simp
  have f: "space_free_ends ''fix it''" "space_free_ends ''fix --project''" by code_simp+
  have c: "\<not> containsProjectFlag ''fix it''" "containsProjectFlag ''fix --project''" by code_simp+
  show ?thesis
    using parseSlashCommandText_forms[OF r p _ f(1)] parseSlashCommandText_forms[OF r p _ f(2)] c by simp
qed

end
