(* ===== verification/Dmail_Transport.thy ===== *)
theory Dmail_Transport
  imports Go_Paths Dmail Project_Registry Slack_Notify
begin

text \<open>
  How D-Mails travel between the gateway and the tools.  Outbound from the gateway: the Pub/Sub
  publisher (\<open>output/pubsub/publisher.go\<close>) and, on the machine of the tools, the receiver that writes
  each message into an outbox directory (\<open>input/pubsub/receiver.go\<close>, \<open>router.go\<close>,
  \<open>output/phonewave/writer.go\<close>).  Back to the gateway: the emitter that publishes the files of the
  archive directories (\<open>input/phonewave\<close>), and the receiver of results, which posts them into Slack
  (\<open>input/pubsub/outbound_subscriber.go\<close>, \<open>usecase/dispatch_result_handler.go\<close>).  File system calls
  and Pub/Sub may fail at every call; their outcomes are arguments.  Spans and log lines are left out.
\<close>

section \<open>Publishing\<close>

record publish_message =
  pm_Data :: string
  pm_Attributes :: "(string \<times> string) list"
  pm_OrderingKey :: string

type_synonym bus = "publish_message list \<Rightarrow> publish_message \<Rightarrow> string + string"

definition publish_attributes :: "dmail \<Rightarrow> (string \<times> string) list" where
  "publish_attributes m =
     (let attrs = [(''kind'', dm_Kind m), (''target_tool'', dm_Target m), (''dmail_schema_version'', ''1'')] @
            (if dm_Source m \<noteq> [] then [(''source'', dm_Source m)] else []) @
            (if dm_IdempotencyKey m \<noteq> [] then [(''idempotency_key'', dm_IdempotencyKey m)] else [])
      in attrs @ filter (\<lambda>(k, v). k \<notin> fst ` set attrs) (dm_Metadata m))"

datatype publish_error = PublishMissing string string | PublishFailed string string string

definition pubsub_PublishDMail ::
  "bus \<Rightarrow> dmail \<Rightarrow> publish_message list \<Rightarrow> (publish_error + string) \<times> publish_message list" where
  "pubsub_PublishDMail publish m sent =
     (if dm_Kind m = [] \<or> dm_Target m = [] then (Inl (PublishMissing (dm_Kind m) (dm_Target m)), sent)
      else
        (let msg = \<lparr>pm_Data = RenderMarkdown m, pm_Attributes = publish_attributes m,
                    pm_OrderingKey = dm_Target m\<rparr>
         in (case publish sent msg of
               Inl e \<Rightarrow> Inl (PublishFailed (dm_Kind m) (dm_Target m) e)
             | Inr i \<Rightarrow> Inr i, sent @ [msg])))"

section \<open>The outbox writer\<close>

text \<open>The files by path, and the outcomes of the calls one write makes: \<open>None\<close> is success.  The name of
  a temporary file ends in a random number in decimal.\<close>

type_synonym files = "string \<Rightarrow> string option"

record write_faults =
  wf_mkdir :: gerror
  wf_read :: gerror
  wf_temp :: "string + nat"
  wf_write :: "(string \<times> string) option"
  wf_sync :: gerror
  wf_close :: gerror
  wf_rename :: gerror
  wf_remove :: bool

datatype write_error =
    FilenameRequired
  | NotSingleSegment string
  | PathSeparators string
  | NameNotAllowed string
  | MkdirFailed string
  | ContentDiffers string
  | StatFailed string
  | TempFailed string
  | WriteFailed string
  | SyncFailed string
  | CloseFailed string
  | RenameFailed string

definition validateName :: "string \<Rightarrow> write_error option" where
  "validateName name =
     (if name = [] then Some FilenameRequired
      else if name \<noteq> filepath_Base name then Some (NotSingleSegment name)
      else if contains_str name ''/'' \<or> contains_str name [CHR 0x5C] then Some (PathSeparators name)
      else if name = ''.'' \<or> name = ''..'' \<or> prefix ''..'' name then Some (NameNotAllowed name)
      else None)"

text \<open>The name \<open>os.CreateTemp\<close> makes of the pattern \<open>.tmp-<name>-*\<close>.\<close>

definition temp_name :: "string \<Rightarrow> nat \<Rightarrow> string" where
  "temp_name name rnd = ''.tmp-'' @ name @ ''-'' @ show_nat rnd"

definition remove_temp :: "write_faults \<Rightarrow> string \<Rightarrow> files \<Rightarrow> files" where
  "remove_temp w p fs = (if wf_remove w then fs(p := None) else fs)"

definition WriteFile ::
  "write_faults \<Rightarrow> string \<Rightarrow> string \<Rightarrow> string \<Rightarrow> files \<Rightarrow> write_error option \<times> files" where
  "WriteFile w dir name data fs =
     (case validateName name of
        Some e \<Rightarrow> (Some e, fs)
      | None \<Rightarrow>
          (case wf_mkdir w of
             Some e \<Rightarrow> (Some (MkdirFailed e), fs)
           | None \<Rightarrow>
               (let final = filepath_Join dir name
                in case (wf_read w, fs final) of
                     (None, Some existing) \<Rightarrow>
                       (if existing = data then None else Some (ContentDiffers name), fs)
                   | (Some e, _) \<Rightarrow> (Some (StatFailed e), fs)
                   | (None, None) \<Rightarrow>
                       (case wf_temp w of
                          Inl e \<Rightarrow> (Some (TempFailed e), fs)
                        | Inr rnd \<Rightarrow>
                            (let tmp = filepath_Join dir (temp_name name rnd)
                             in if fs tmp \<noteq> None then (Some (TempFailed ''exists''), fs)
                                else case wf_write w of
                                  Some (partial, e) \<Rightarrow>
                                    (Some (WriteFailed e), remove_temp w tmp (fs(tmp \<mapsto> partial)))
                                | None \<Rightarrow>
                                    (let fs1 = fs(tmp \<mapsto> data)
                                     in case wf_sync w of
                                          Some e \<Rightarrow> (Some (SyncFailed e), remove_temp w tmp fs1)
                                        | None \<Rightarrow>
                                            (case wf_close w of
                                               Some e \<Rightarrow> (Some (CloseFailed e), remove_temp w tmp fs1)
                                             | None \<Rightarrow>
                                                 (case wf_rename w of
                                                    Some e \<Rightarrow>
                                                      (if fs1 final = Some data
                                                       then (None, remove_temp w tmp fs1)
                                                       else (Some (RenameFailed e), remove_temp w tmp fs1))
                                                  | None \<Rightarrow> (None, (fs1(final \<mapsto> data))(tmp := None))))))))))"

datatype dirs_error =
    EmptyEntry
  | NotIdPath string
  | BadDirsProject string project_error
  | NotAbsolute string string
  | DuplicateProject string

text \<open>\<open>strings.Index(entry, ":")\<close> must be neither the first nor the last position.\<close>

fun parse_dirs_entries :: "string list \<Rightarrow> (string \<times> string) list \<Rightarrow> dirs_error + (string \<times> string) list" where
  "parse_dirs_entries [] out = Inr out"
| "parse_dirs_entries (raw # raws) out =
     (let entry = trim_space raw
      in if entry = [] then Inl EmptyEntry
         else case cut_chr CHR '':'' entry of
           None \<Rightarrow> Inl (NotIdPath entry)
         | Some (a, b) \<Rightarrow>
             if a = [] \<or> b = [] then Inl (NotIdPath entry)
             else
               (let pid = trim_space a; path = trim_space b
                in case ValidateProjectID pid of
                     Some e \<Rightarrow> Inl (BadDirsProject pid e)
                   | None \<Rightarrow>
                       if \<not> filepath_IsAbs path then Inl (NotAbsolute pid path)
                       else if pid \<in> fst ` set out then Inl (DuplicateProject pid)
                       else parse_dirs_entries raws (out @ [(pid, path)])))"

definition ParseDirsByProject :: "string \<Rightarrow> dirs_error + (string \<times> string) list" where
  "ParseDirsByProject s =
     (let trimmed = trim_space s
      in if trimmed = [] then Inr [] else parse_dirs_entries (split_chr CHR '','' trimmed) [])"

section \<open>The receiver\<close>

record bus_message =
  bm_ID :: string
  bm_Data :: string
  bm_Attributes :: "(string \<times> string) list"

definition attribute :: "bus_message \<Rightarrow> string \<Rightarrow> string" where
  "attribute m k = (case map_of (bm_Attributes m) k of None \<Rightarrow> [] | Some v \<Rightarrow> v)"

datatype ack = Ack | Nack

definition chooseFilename :: "bus_message \<Rightarrow> string option" where
  "chooseFilename m =
     (let candidate = (if attribute m ''id'' = [] then bm_ID m else attribute m ''id'')
      in if candidate = [] then None
         else if list_ex (\<lambda>c. c = slash \<or> c = CHR 0x5C) candidate \<or> contains_str candidate ''..'' then None
         else if filepath_Base candidate \<noteq> candidate then None
         else Some (candidate @ ''.md''))"

text \<open>The two routers: one directory for everything, or one per project.\<close>

datatype outbox_router =
    SingleOutboxRouter string
  | MultiOutboxRouter "(string \<times> string) list"

fun resolve_outbox :: "outbox_router \<Rightarrow> bus_message \<Rightarrow> string option" where
  "resolve_outbox (SingleOutboxRouter dir) m = Some dir"
| "resolve_outbox (MultiOutboxRouter dirs) m =
     (if ValidateProjectID (attribute m ''project_id'') \<noteq> None then None
      else map_of dirs (attribute m ''project_id''))"

definition receiver_OnMessage ::
  "outbox_router \<Rightarrow> write_faults \<Rightarrow> bus_message \<Rightarrow> files \<Rightarrow> ack \<times> files" where
  "receiver_OnMessage router w m fs =
     (if bm_Data m = [] then (Ack, fs)
      else case chooseFilename m of
        None \<Rightarrow> (Ack, fs)
      | Some name \<Rightarrow>
          (case resolve_outbox router m of
             None \<Rightarrow> (Nack, fs)
           | Some dir \<Rightarrow>
               (let r = WriteFile w dir name (bm_Data m) fs
                in (if fst r = None then Ack else Nack, snd r))))"

section \<open>The archive routers and the emitter\<close>

datatype archive_router =
    SingleArchiveRouter
  | MultiArchiveRouter "(string \<times> string) list"

datatype archive_error =
    SameDir string string string
  | NestedDirs string string string string

text \<open>The check of one ordered pair of entries.\<close>

definition pair_error :: "string \<times> string \<Rightarrow> string \<times> string \<Rightarrow> archive_error option" where
  "pair_error ei ej =
     (if snd ei = snd ej then Some (SameDir (snd ei) (fst ei) (fst ej))
      else if prefix (snd ei @ [slash]) (snd ej)
      then Some (NestedDirs (snd ej) (fst ej) (snd ei) (fst ei))
      else None)"

text \<open>The entries come in the order of a Go map iteration, so in any order.\<close>

definition NewMultiArchiveRouter :: "(string \<times> string) list \<Rightarrow> archive_error + archive_router" where
  "NewMultiArchiveRouter dirsByProject =
     (let entries = map (\<lambda>(pid, dir). (pid, filepath_Clean dir)) dirsByProject;
          n = length entries;
          pairs = filter (\<lambda>(i, j). i \<noteq> j) (List.product [0..<n] [0..<n])
      in case List.find (\<lambda>(i, j). pair_error (entries ! i) (entries ! j) \<noteq> None) pairs of
           Some (i, j) \<Rightarrow> Inl (the (pair_error (entries ! i) (entries ! j)))
         | None \<Rightarrow> Inr (MultiArchiveRouter entries))"

definition covers :: "string \<Rightarrow> string \<Rightarrow> bool" where
  "covers dir cleaned \<longleftrightarrow> cleaned = dir \<or> prefix (dir @ [slash]) cleaned"

text \<open>\<open>None\<close> is \<open>ErrPathNotMapped\<close>; the single router answers with no project.\<close>

fun ResolveProjectID :: "archive_router \<Rightarrow> string \<Rightarrow> string option" where
  "ResolveProjectID SingleArchiveRouter path = Some []"
| "ResolveProjectID (MultiArchiveRouter entries) path =
     map_option fst (List.find (\<lambda>e. covers (snd e) (filepath_Clean path)) entries)"

fun router_Mode :: "archive_router \<Rightarrow> string" where
  "router_Mode SingleArchiveRouter = ''single''"
| "router_Mode (MultiArchiveRouter entries) = ''multi''"

text \<open>What the file system says about a path: absent, a directory, or the outcome of reading the
  file.\<close>

datatype stat_result = StatError string | IsDirectory | IsFile "string + string"

datatype emit_error =
    EmitStat string
  | EmitRead string
  | EmitParse dmail_error
  | EmitPublish publish_error

record emitter =
  em_seen :: "string set"
  em_sent :: "publish_message list"

definition set_meta :: "string \<Rightarrow> string \<Rightarrow> dmail \<Rightarrow> dmail" where
  "set_meta k v m = m\<lparr>dm_Metadata := (k, v) # filter (\<lambda>e. fst e \<noteq> k) (dm_Metadata m)\<rparr>"

definition publish_mail :: "bus \<Rightarrow> string \<Rightarrow> dmail \<Rightarrow> emitter \<Rightarrow> emit_error option \<times> emitter" where
  "publish_mail publish key mail e =
     (let r = pubsub_PublishDMail publish mail (em_sent e)
      in case fst r of
           Inl err \<Rightarrow> (Some (EmitPublish err), e\<lparr>em_sent := snd r\<rparr>)
         | Inr i \<Rightarrow> (None, e\<lparr>em_seen := insert key (em_seen e), em_sent := snd r\<rparr>))"

text \<open>\<open>absolute\<close> is \<open>filepath.Abs\<close>.  The mark in \<open>seen\<close> is taken back on every failure.\<close>

definition PublishFile ::
  "bus \<Rightarrow> archive_router \<Rightarrow> (string \<Rightarrow> string) \<Rightarrow> stat_result \<Rightarrow> string \<Rightarrow> emitter \<Rightarrow>
   emit_error option \<times> emitter" where
  "PublishFile publish router absolute st path e =
     (let base = filepath_Base path
      in if \<not> suffix ''.md'' (lower base) then (None, e)
         else if prefix ''.'' base then (None, e)
         else case st of
           StatError t \<Rightarrow> (Some (EmitStat t), e)
         | IsDirectory \<Rightarrow> (None, e)
         | IsFile content \<Rightarrow>
             if absolute path \<in> em_seen e then (None, e)
             else
               (case content of
                  Inl t \<Rightarrow> (Some (EmitRead t), e)
                | Inr data \<Rightarrow>
                    (case ParseDMail data of
                       Inl err \<Rightarrow> (Some (EmitParse err), e)
                     | Inr mail \<Rightarrow>
                         (case ResolveProjectID router path of
                            None \<Rightarrow> (None, e)
                          | Some routedID \<Rightarrow>
                              publish_mail publish (absolute path)
                                (if routedID \<noteq> [] then set_meta ''project_id'' routedID mail else mail) e))))"

section \<open>The watcher\<close>

datatype watch_op = OpCreate | OpWrite | OpRename | OpRemove | OpChmod

definition shouldHandle :: "watch_op set \<Rightarrow> string \<Rightarrow> bool" where
  "shouldHandle ops name \<longleftrightarrow> ops \<inter> {OpCreate, OpWrite, OpRename} \<noteq> {} \<and> suffix ''.md'' (lower name)"

text \<open>Errors of the handler are logged and do not stop the watcher.  \<open>handle\<close> is the handler at its
  turn; \<open>list_dir\<close> the result of reading the directory.\<close>

fun scan_entries :: "(string \<Rightarrow> 's \<Rightarrow> 's) \<Rightarrow> string \<Rightarrow> string list \<Rightarrow> 's \<Rightarrow> 's" where
  "scan_entries handle dir [] s = s"
| "scan_entries handle dir (n # ns) s = scan_entries handle dir ns (handle (filepath_Join dir n) s)"

datatype watch_error = AddFailed string string | ScanFailed string string

fun watch_start ::
  "(string \<Rightarrow> gerror) \<Rightarrow> (string \<Rightarrow> string + string list) \<Rightarrow> (string \<Rightarrow> 's \<Rightarrow> 's) \<Rightarrow> string list \<Rightarrow> 's \<Rightarrow>
   watch_error option \<times> 's" where
  "watch_start add list_dir handle [] s = (None, s)"
| "watch_start add list_dir handle (dir # dirs) s =
     (case add dir of
        Some e \<Rightarrow> (Some (AddFailed dir e), s)
      | None \<Rightarrow>
          (case list_dir dir of
             Inl e \<Rightarrow> (Some (ScanFailed dir e), s)
           | Inr names \<Rightarrow> watch_start add list_dir handle dirs (scan_entries handle dir names s)))"

fun watch_events :: "(string \<Rightarrow> 's \<Rightarrow> 's) \<Rightarrow> (watch_op set \<times> string) list \<Rightarrow> 's \<Rightarrow> 's" where
  "watch_events handle [] s = s"
| "watch_events handle ((ops, name) # evs) s =
     watch_events handle evs (if shouldHandle ops name then handle name s else s)"

text \<open>A run until it is cancelled, with the events that came in before.\<close>

definition watcher_Run ::
  "(string \<Rightarrow> gerror) \<Rightarrow> (string \<Rightarrow> string + string list) \<Rightarrow> (string \<Rightarrow> 's \<Rightarrow> 's) \<Rightarrow> string list \<Rightarrow>
   (watch_op set \<times> string) list \<Rightarrow> 's \<Rightarrow> watch_error option \<times> 's" where
  "watcher_Run add list_dir handle dirs evs s =
     (let r = watch_start add list_dir handle dirs s
      in if fst r \<noteq> None then r else (None, watch_events handle evs (snd r)))"

section \<open>Results\<close>

definition kindEmoji :: "string \<Rightarrow> string option" where
  "kindEmoji k =
     (if k = DMailKindReport then Some (uni [0x2705])
      else if k = DMailKindDesignFeedback then Some (uni [0x1F3A8])
      else if k = DMailKindImplementationFeedback then Some (uni [0x1F527])
      else if k = DMailKindConvergence then Some (uni [0x1F310])
      else if k = DMailKindCIResult then Some (uni [0x1F6A6])
      else None)"

definition renderResultMessage :: "dmail \<Rightarrow> string option" where
  "renderResultMessage mail =
     (case kindEmoji (dm_Kind mail) of
        None \<Rightarrow> None
      | Some emoji \<Rightarrow>
          (let header = emoji @ '' *'' @ dm_Source mail @ (''* '' @ uni [0x2192] @ '' *'') @ dm_Target mail @ ''*''
           in if dm_Kind mail = DMailKindReport then Some (header @ ('' '' @ uni [0x5B8C, 0x4E86,
               0x5831, 0x544A] @ [nl]) @ dm_Body mail)
              else if dm_Kind mail = DMailKindDesignFeedback
              then Some (header @ ('' '' @ uni [0x8A2D, 0x8A08, 0x30D5, 0x30A3, 0x30FC, 0x30C9,
                  0x30D0, 0x30C3, 0x30AF] @ [nl]) @ dm_Body mail)
              else if dm_Kind mail = DMailKindImplementationFeedback
              then Some (header @ ('' '' @ uni [0x5B9F, 0x88C5, 0x30D5, 0x30A3, 0x30FC, 0x30C9,
                  0x30D0, 0x30C3, 0x30AF] @ [nl]) @ dm_Body mail)
              else if dm_Kind mail = DMailKindConvergence
              then Some (header @ ('' '' @ uni [0x4E16, 0x754C, 0x7DDA, 0x53CE, 0x675F, 0x30A2,
                  0x30E9, 0x30FC, 0x30C8] @ [nl]) @ dm_Body mail)
              else if dm_Kind mail = DMailKindCIResult then Some (header @ ('' CI '' @ uni [0x7D50,
                  0x679C] @ [nl]) @ dm_Body mail)
              else None))"

definition result_target :: "dmail \<Rightarrow> notify_target" where
  "result_target mail =
     \<lparr>nt_CallbackURL = [], nt_Mode = ModeSlack, nt_ChannelID = meta mail ''slack_channel_id'',
      nt_ThreadTS = meta mail ''slack_thread_ts''\<rparr>"

definition result_Handle ::
  "notifier \<Rightarrow> (notify_target \<Rightarrow> dmail \<Rightarrow> http_log \<Rightarrow> gerror \<times> http_log) option \<Rightarrow> dmail \<Rightarrow> http_log \<Rightarrow>
   gerror \<times> http_log" where
  "result_Handle N approver mail l =
     (if meta mail ''slack_channel_id'' = [] \<or> meta mail ''slack_thread_ts'' = [] \<or>
         meta mail ''parent_idempotency_key'' = [] then (None, l)
      else case renderResultMessage mail of
        None \<Rightarrow> (None, l)
      | Some txt \<Rightarrow>
          (case (if dm_Kind mail = DMailKindConvergence \<and> meta mail ''severity'' = ''high'' then approver else None) of
             Some post \<Rightarrow>
               (let r = post (result_target mail) mail l
                in (map_option (\<lambda>e. ''dispatch result: post approval request: '' @ e) (fst r), snd r))
           | None \<Rightarrow>
               (let r = nf_UpdateMessage N (result_target mail) txt l
                in (map_option (\<lambda>e. ''dispatch result: notify thread: '' @ e) (fst r), snd r))))"

definition outbound_OnMessage ::
  "notifier \<Rightarrow> (notify_target \<Rightarrow> dmail \<Rightarrow> http_log \<Rightarrow> gerror \<times> http_log) option \<Rightarrow> bus_message \<Rightarrow> http_log \<Rightarrow>
   ack \<times> http_log" where
  "outbound_OnMessage N approver m l =
     (if bm_Data m = [] then (Ack, l)
      else case ParseDMail (bm_Data m) of
        Inl _ \<Rightarrow> (Ack, l)
      | Inr mail \<Rightarrow>
          (let r = result_Handle N approver mail l
           in (if fst r = None then Ack else Nack, snd r)))"

end
