(* ===== verification/Transport_Correct.thy ===== *)
theory Transport_Correct
  imports Dmail_Transport Slack_Correct Notify_Correct "HOL-Library.Multiset"
begin

text \<open>
  What the transport of D-Mails guarantees: nothing in an outbox is ever overwritten and an
  acknowledged message is there for good; the routing of archives does not depend on the order of
  its table; the emitter publishes a file once; and what becomes of results in Slack.
\<close>

section \<open>The outbox\<close>

definition plain_name :: "string \<Rightarrow> bool" where
  "plain_name n \<longleftrightarrow> n \<noteq> [] \<and> slash \<notin> set n \<and> n \<noteq> ''.'' \<and> n \<noteq> ''..''"

lemma Join_plain_inj:
  assumes "plain_name m" "plain_name n" "filepath_Join dir m = filepath_Join dir n"
  shows "m = n"
proof (cases "dir = []")
  case True
  have "filepath_Clean k = k" if "plain_name k" for k
    using that by (auto simp: plain_name_def filepath_Clean_def filepath_IsAbs_def prefix_def Let_def)
  with assms True show ?thesis by (simp add: filepath_Join_def plain_name_def)
next
  case False
  with assms show ?thesis unfolding plain_name_def by (metis Join_inj)
qed

lemma contains_chr: "contains_str s [c] \<longleftrightarrow> c \<in> set s"
  by (induction s) (auto simp: contains_str_def split: option.split)

lemma validateName_plain: "validateName n = None \<Longrightarrow> plain_name n"
  by (auto simp: validateName_def plain_name_def contains_chr slash_def split: if_splits)

lemma slash_digits: "slash \<notin> set (show_nat n)"
  using show_nat_digits[of n] by (auto simp: slash_def)

lemma temp_name_plain: "plain_name n \<Longrightarrow> plain_name (temp_name n k)"
  using slash_digits[of k] by (auto simp: plain_name_def temp_name_def slash_def)

lemma temp_name_other: "temp_name n k \<noteq> n"
proof
  assume "temp_name n k = n"
  then have "length (temp_name n k) = length n" by simp
  then show False by (simp add: temp_name_def)
qed

text \<open>What one write does to the files.\<close>

lemma WriteFile_effect:
  assumes "WriteFile w dir name data fs = (r, fs')"
  shows "(\<forall>p c. fs p = Some c \<longrightarrow> fs' p = Some c) \<and>
    (r = None \<longrightarrow> plain_name name \<and> fs' (filepath_Join dir name) = Some data) \<and>
    (\<forall>p. fs' p \<noteq> fs p \<longrightarrow> plain_name name \<and>
       (p = filepath_Join dir name \<and> fs' p = Some data \<or> (\<exists>k. p = filepath_Join dir (temp_name name k))))"
proof (cases "validateName name")
  case (Some e)
  with assms show ?thesis by (auto simp: WriteFile_def)
next
  case None
  let ?final = "filepath_Join dir name"
  note plain = validateName_plain[OF None]
  have tmp: "filepath_Join dir (temp_name name k) \<noteq> ?final" for k
    using Join_plain_inj[OF temp_name_plain[OF plain] plain] temp_name_other by blast
  show ?thesis
    using assms None plain
    by (auto simp: tmp tmp[THEN not_sym] WriteFile_def Let_def remove_temp_def
        split: option.splits sum.splits if_splits prod.splits)
qed


abbreviation deliveries :: "outbox_router \<Rightarrow> (write_faults \<times> bus_message) list \<Rightarrow> files \<Rightarrow> files" where
  "deliveries router ds fs \<equiv> fold (\<lambda>(w, m) fs. snd (receiver_OnMessage router w m fs)) ds fs"

lemma receiver_keeps:
  "fs p = Some c \<Longrightarrow> snd (receiver_OnMessage router w m fs) p = Some c"
  using WriteFile_effect[of w _ _ _ fs, OF surjective_pairing]
  by (simp add: receiver_OnMessage_def Let_def split: option.split)

lemma deliveries_keep: "fs p = Some c \<Longrightarrow> deliveries router ds fs p = Some c"
proof (induction ds arbitrary: fs)
  case (Cons d ds)
  then show ?case using receiver_keeps[of fs p c] by (cases d) simp
qed simp

lemma chooseFilename_plain:
  assumes "chooseFilename m = Some name"
  shows "plain_name name"
proof -
  from assms obtain c where "name = c @ ''.md''" "\<not> list_ex (\<lambda>c. c = slash \<or> c = CHR 0x5C) c" "c \<noteq> []"
    unfolding chooseFilename_def Let_def by (simp only: option.simps split: if_split_asm) blast+
  then show ?thesis
    by (cases c) (auto simp: plain_name_def list_ex_iff slash_def)
qed

lemma receiver_acked:
  assumes "receiver_OnMessage router w m fs = (Ack, fs1)" "bm_Data m \<noteq> []" "chooseFilename m = Some name"
  obtains dir where "resolve_outbox router m = Some dir"
    "WriteFile w dir name (bm_Data m) fs = (None, fs1)"
  using assms by (auto simp: receiver_OnMessage_def Let_def prod_eq_iff split: option.splits if_splits)

text \<open>An acknowledged message is in its outbox for good.  When a message with content and a
  usable id is acknowledged, the complete message is in the directory its project routes to, under
  its name; whatever is delivered afterwards, and whichever file system calls fail, no file that was
  there changes or disappears; and the same message delivered again is acknowledged and changes
  nothing, as long as its directory can be read.\<close>

theorem outbox_delivery:
  assumes "receiver_OnMessage router w m fs = (Ack, fs1)" "bm_Data m \<noteq> []" "chooseFilename m = Some name"
  shows "\<exists>dir. resolve_outbox router m = Some dir \<and>
    deliveries router ds fs1 (filepath_Join dir name) = Some (bm_Data m) \<and>
    (fs p = Some c \<longrightarrow> deliveries router ds fs1 p = Some c) \<and>
    (wf_mkdir w' = None \<and> wf_read w' = None \<longrightarrow>
       receiver_OnMessage router w' m (deliveries router ds fs1) = (Ack, deliveries router ds fs1))"
proof -
  obtain dir where d: "resolve_outbox router m = Some dir" "WriteFile w dir name (bm_Data m) fs = (None, fs1)"
    by (rule receiver_acked[OF assms])
  from WriteFile_effect[OF d(2)] have f: "fs1 (filepath_Join dir name) = Some (bm_Data m)"
    and keep: "fs p = Some c \<Longrightarrow> fs1 p = Some c" by auto
  have v: "validateName name = None"
    using d(2) by (auto simp: WriteFile_def split: option.splits)
  let ?after = "deliveries router ds fs1"
  have stored: "?after (filepath_Join dir name) = Some (bm_Data m)" using f by (rule deliveries_keep)
  have "receiver_OnMessage router w' m ?after = (Ack, ?after)" if "wf_mkdir w' = None \<and> wf_read w' = None"
    using that assms(2,3) d(1) v stored by (simp add: receiver_OnMessage_def WriteFile_def Let_def)
  with d(1) stored keep deliveries_keep show ?thesis by blast
qed

definition no_faults :: write_faults where
  "no_faults = \<lparr>wf_mkdir = None, wf_read = None, wf_temp = Inr 1, wf_write = None, wf_sync = None,
     wf_close = None, wf_rename = None, wf_remove = True\<rparr>"

theorem outbox_delivery_witness:
  "receiver_OnMessage (SingleOutboxRouter ''/out'') no_faults
      \<lparr>bm_ID = ''m1'', bm_Data = ''x'', bm_Attributes = []\<rparr> (\<lambda>_. None) =
    (Ack, deliveries (SingleOutboxRouter ''/out'') []
       ((\<lambda>_. None)(filepath_Join ''/out'' ''m1.md'' \<mapsto> ''x''))) \<and>
   deliveries (SingleOutboxRouter ''/out'') [] ((\<lambda>_. None)(filepath_Join ''/out'' ''m1.md'' \<mapsto> ''x''))
     (filepath_Join ''/out'' ''m1.md'') = Some ''x''"
proof -
  let ?m = "\<lparr>bm_ID = ''m1'', bm_Data = ''x'', bm_Attributes = []\<rparr>"
  let ?fs = "(\<lambda>_. None)(filepath_Join ''/out'' ''m1.md'' \<mapsto> ''x'')"
  have n: "chooseFilename ?m = Some ''m1.md''" by code_simp
  have v: "validateName ''m1.md'' = None" by code_simp
  have j: "filepath_Join ''/out'' (temp_name ''m1.md'' 1) \<noteq> filepath_Join ''/out'' ''m1.md''"
    by code_simp
  have r: "receiver_OnMessage (SingleOutboxRouter ''/out'') no_faults ?m (\<lambda>_. None) = (Ack, ?fs)"
    using n v j by (auto simp: receiver_OnMessage_def WriteFile_def no_faults_def Let_def fun_eq_iff)
  from outbox_delivery[OF r _ n, of "[]"] r show ?thesis by simp
qed

section \<open>Archive routing\<close>

text \<open>The directories of a table that is accepted do not contain one another.\<close>

definition apart :: "(string \<times> string) list \<Rightarrow> bool" where
  "apart es \<longleftrightarrow> distinct (map snd es) \<and>
     (\<forall>e \<in> set es. \<forall>e' \<in> set es. \<not> prefix (snd e @ [slash]) (snd e'))"

lemma no_pair_error:
  "(\<forall>i < length es. \<forall>j < length es. i \<noteq> j \<longrightarrow> pair_error (es ! i) (es ! j) = None) \<longleftrightarrow> apart es"
proof
  assume all: "\<forall>i < length es. \<forall>j < length es. i \<noteq> j \<longrightarrow> pair_error (es ! i) (es ! j) = None"
  have "distinct (map snd es)"
    using all by (fastforce simp: distinct_conv_nth pair_error_def split: if_splits)
  moreover have "\<not> prefix (snd e @ [slash]) (snd e')" if "e \<in> set es" "e' \<in> set es" for e e'
  proof (cases "e = e'")
    case True
    then show ?thesis using prefix_length_le[of "snd e @ [slash]" "snd e'"] by auto
  next
    case False
    with that obtain i j where "i < length es" "j < length es" "e = es ! i" "e' = es ! j" "i \<noteq> j"
      by (metis in_set_conv_nth)
    with all show ?thesis by (fastforce simp: pair_error_def split: if_splits)
  qed
  ultimately show "apart es" by (simp add: apart_def)
next
  assume "apart es"
  then show "\<forall>i < length es. \<forall>j < length es. i \<noteq> j \<longrightarrow> pair_error (es ! i) (es ! j) = None"
    by (auto simp: apart_def pair_error_def distinct_conv_nth)
qed

abbreviation cleaned :: "(string \<times> string) list \<Rightarrow> (string \<times> string) list" where
  "cleaned ds \<equiv> map (\<lambda>(pid, dir). (pid, filepath_Clean dir)) ds"

lemma find_pairs:
  "List.find (\<lambda>(i, j). Q i j) (filter (\<lambda>(i, j). i \<noteq> j) (List.product [0..<n] [0..<n])) = None \<longleftrightarrow>
     (\<forall>i < n. \<forall>j < n. i \<noteq> j \<longrightarrow> \<not> Q i j)"
  by (auto simp: find_None_iff)

lemma NewMultiArchiveRouter_Inr:
  "NewMultiArchiveRouter ds = Inr r \<longleftrightarrow> apart (cleaned ds) \<and> r = MultiArchiveRouter (cleaned ds)"
proof -
  define es where "es = cleaned ds"
  define found where "found = List.find (\<lambda>(i, j). pair_error (es ! i) (es ! j) \<noteq> None)
      (filter (\<lambda>(i, j). i \<noteq> j) (List.product [0..<length es] [0..<length es]))"
  have "found = None \<longleftrightarrow> apart es"
    unfolding found_def find_pairs not_not by (rule no_pair_error)
  moreover have "NewMultiArchiveRouter ds = (case found of
      Some (i, j) \<Rightarrow> Inl (the (pair_error (es ! i) (es ! j))) | None \<Rightarrow> Inr (MultiArchiveRouter es))"
    unfolding NewMultiArchiveRouter_def Let_def es_def found_def ..
  ultimately show ?thesis unfolding es_def[symmetric] by (cases found) auto
qed

lemma find_sat: "List.find P xs = Some x \<Longrightarrow> x \<in> set xs \<and> P x"
  by (induction xs) (auto split: if_splits)

lemma one_cover:
  assumes "apart es" "e \<in> set es" "e' \<in> set es" "covers (snd e) p" "covers (snd e') p"
  shows "e = e'"
proof -
  have "snd e = snd e' \<or> prefix (snd e @ [slash]) (snd e') \<or> prefix (snd e' @ [slash]) (snd e)"
    using assms(4,5) prefix_same_cases[of "snd e @ [slash]" p "snd e' @ [slash]"]
    unfolding covers_def by (auto simp: prefix_snoc)
  with assms(1-3) have "snd e = snd e'" unfolding apart_def by blast
  with assms(1-3) show ?thesis unfolding apart_def by (metis distinct_map inj_onD)
qed

lemma find_cover:
  assumes "apart es" "e \<in> set es" "covers (snd e) p"
  shows "List.find (\<lambda>e. covers (snd e) p) es = Some e"
proof (cases "List.find (\<lambda>e. covers (snd e) p) es")
  case None
  with assms(2,3) show ?thesis unfolding find_None_iff by blast
next
  case (Some e')
  then have "e' \<in> set es" "covers (snd e') p" by (auto simp: find_Some_iff)
  with one_cover[OF assms(1)] assms(2,3) Some show ?thesis by blast
qed

lemma apart_mset: "mset es = mset es' \<Longrightarrow> apart es \<longleftrightarrow> apart es'"
  unfolding apart_def by (metis mset_eq_setD mset_map mset_eq_imp_distinct_iff)

text \<open>The project of an archived file does not depend on the order in which Go visits the table.  A table
  that is accepted in one order is accepted in every order, with the same answer for every path; a path in
  a listed directory has exactly the project of that directory; and a path in none of them has no
  project, so that the file is not published.\<close>

theorem archive_routing_order_free:
  assumes "NewMultiArchiveRouter ds = Inr r" "mset ds' = mset ds"
  shows "(\<exists>r'. NewMultiArchiveRouter ds' = Inr r' \<and> ResolveProjectID r' path = ResolveProjectID r path) \<and>
    (\<forall>pid. ResolveProjectID r path = Some pid \<longleftrightarrow>
       (\<exists>dir. (pid, dir) \<in> set ds \<and> covers (filepath_Clean dir) (filepath_Clean path)))"
proof -
  let ?p = "filepath_Clean path"
  from assms(1) have apart: "apart (cleaned ds)" and r: "r = MultiArchiveRouter (cleaned ds)"
    by (auto simp: NewMultiArchiveRouter_Inr)
  have m: "mset (cleaned ds') = mset (cleaned ds)" using assms(2) by (simp add: mset_map)
  then have apart': "apart (cleaned ds')" using apart apart_mset by blast
  have answer: "ResolveProjectID (MultiArchiveRouter (cleaned es)) path = Some pid \<longleftrightarrow>
      (\<exists>dir. (pid, dir) \<in> set es \<and> covers (filepath_Clean dir) ?p)" (is "?l \<longleftrightarrow> ?r")
    if "apart (cleaned es)" for es pid
  proof
    assume ?l
    then obtain e where e: "List.find (\<lambda>e. covers (snd e) ?p) (cleaned es) = Some e" "fst e = pid" by auto
    then have "e \<in> set (cleaned es)" "covers (snd e) ?p" by (auto dest!: find_sat)
    with e(2) show ?r by auto
  next
    assume ?r
    then obtain dir where "(pid, filepath_Clean dir) \<in> set (cleaned es)" "covers (filepath_Clean dir) ?p"
      by force
    with find_cover[OF that this(1)] show ?l by simp
  qed
  have "set ds' = set ds" using assms(2) by (rule mset_eq_setD)
  then have "ResolveProjectID (MultiArchiveRouter (cleaned ds')) path = Some pid \<longleftrightarrow>
      ResolveProjectID r path = Some pid" for pid
    using answer[OF apart] answer[OF apart'] r by simp
  then have "ResolveProjectID (MultiArchiveRouter (cleaned ds')) path = ResolveProjectID r path"
    by (metis not_None_eq)
  moreover have "NewMultiArchiveRouter ds' = Inr (MultiArchiveRouter (cleaned ds'))"
    using apart' by (simp add: NewMultiArchiveRouter_Inr)
  ultimately show ?thesis using answer[OF apart] r by blast
qed

theorem archive_routing_order_free_witness:
  "NewMultiArchiveRouter [(''p'', ''/a/''), (''q'', ''/ab'')] =
     Inr (MultiArchiveRouter [(''p'', ''/a''), (''q'', ''/ab'')]) \<and>
   (\<exists>r'. NewMultiArchiveRouter [(''q'', ''/ab''), (''p'', ''/a/'')] = Inr r' \<and>
      ResolveProjectID r' ''/ab/x.md'' = Some ''q'')"
proof -
  have r: "NewMultiArchiveRouter [(''p'', ''/a/''), (''q'', ''/ab'')] =
    Inr (MultiArchiveRouter [(''p'', ''/a''), (''q'', ''/ab'')])" by code_simp
  have q: "ResolveProjectID (MultiArchiveRouter [(''p'', ''/a''), (''q'', ''/ab'')]) ''/ab/x.md'' = Some ''q''"
    by code_simp
  have m: "mset [(''q'', ''/ab''), (''p'', ''/a/'')] = mset [(''p'', ''/a/''), (''q'', ''/ab'')]" by simp
  from archive_routing_order_free[OF r m, of "''/ab/x.md''"] show ?thesis
    unfolding r q by blast
qed

section \<open>The emitter\<close>

abbreviation emits ::
  "archive_router \<Rightarrow> (string \<Rightarrow> string) \<Rightarrow> (bus \<times> stat_result \<times> string) list \<Rightarrow> emitter \<Rightarrow> emitter" where
  "emits router absolute es e \<equiv>
     fold (\<lambda>(send_to, st, path) e. snd (PublishFile send_to router absolute st path e)) es e"

lemma publish_cases:
  assumes "pubsub_PublishDMail send_to m sent = (x, sent')"
  obtains (refused) err where "x = Inl err" "sent' = sent"
    | (tried) msg where "sent' = sent @ [msg]"
  using assms unfolding pubsub_PublishDMail_def Let_def by (auto split: if_splits)

lemma PublishFile_shape:
  "snd (PublishFile send_to router absolute st path e) = e \<or>
   (\<exists>m. absolute path \<notin> em_seen e \<and>
     PublishFile send_to router absolute st path e = publish_mail send_to (absolute path) m e)"
  by (auto simp: PublishFile_def Let_def split: stat_result.split sum.split option.split)

lemma PublishFile_cases:
  assumes "PublishFile send_to router absolute st path e = (r, e')"
  obtains (nothing) "em_seen e' = em_seen e" "em_sent e' = em_sent e"
    | (failed) msg where "r \<noteq> None" "em_seen e' = em_seen e" "em_sent e' = em_sent e @ [msg]"
    | (published) msg where "r = None" "absolute path \<notin> em_seen e"
        "em_seen e' = insert (absolute path) (em_seen e)" "em_sent e' = em_sent e @ [msg]"
proof (cases "e' = e")
  case True
  show ?thesis by (rule nothing) (simp_all add: True)
next
  case False
  with assms PublishFile_shape[of send_to router absolute st path e] obtain m where
    new: "absolute path \<notin> em_seen e" and m: "publish_mail send_to (absolute path) m e = (r, e')" by auto
  obtain x sent' where p: "pubsub_PublishDMail send_to m (em_sent e) = (x, sent')" by fastforce
  from p show ?thesis
  proof (cases rule: publish_cases)
    case refused
    with m p False show ?thesis by (auto simp: publish_mail_def)
  next
    case tried
    with m p new failed published show ?thesis by (cases x) (auto simp: publish_mail_def)
  qed
qed

lemma seen_kept: "a \<in> em_seen e \<Longrightarrow> a \<in> em_seen (emits router absolute es e)"
proof (induction es arbitrary: e)
  case (Cons ev es)
  obtain send_to st path where ev: "ev = (send_to, st, path)" by (cases ev)
  obtain r e' where p: "PublishFile send_to router absolute st path e = (r, e')" by fastforce
  from p Cons.prems have "a \<in> em_seen e'" by (cases rule: PublishFile_cases) auto
  with Cons.IH p ev show ?case by simp
qed simp

lemma seen_skips:
  "absolute path \<in> em_seen e \<Longrightarrow> em_sent (snd (PublishFile send_to router absolute st path e)) = em_sent e"
  by (simp add: PublishFile_def Let_def split: stat_result.split)


section \<open>What results do in Slack\<close>

lemma result_reply_fails:
  "nf_UpdateMessage (FallbackNotifier W F (ResponseURLNotifier W C)) (result_target mail) txt l =
     (Some ''slack notifier: response_url is empty'', l)"
proof -
  have "\<not> isResponseURLLimitErr ''slack notifier: response_url is empty''" by code_simp
  then show ?thesis
    by (simp add: FallbackNotifier_def ResponseURLNotifier_def with_fallback_def response_UpdateMessage_def
        notifier_post_def result_target_def go_consts)
qed

text \<open>Result mails never reach their thread.  The handler leaves the callback URL empty and relies on the
  notifier to go to \<open>chat.postMessage\<close>; but the empty URL makes the first notifier fail with a text that
  is not the 404 the second one looks for.  So every result of a known kind that is not a severe
  convergence alert is refused, to be delivered again, and no request is ever made.\<close>

theorem result_replies_never_sent:
  assumes "ParseDMail (bm_Data m) = Inr mail" "dm_Kind mail \<noteq> DMailKindSpecification"
    and "\<not> (dm_Kind mail = DMailKindConvergence \<and> meta mail ''severity'' = ''high'')"
    and "meta mail ''slack_channel_id'' \<noteq> []" "meta mail ''slack_thread_ts'' \<noteq> []"
    and "meta mail ''parent_idempotency_key'' \<noteq> []"
  shows "outbound_OnMessage (FallbackNotifier W F (ResponseURLNotifier W C)) approver m l = (Nack, l)"
proof -
  have nonempty: "bm_Data m \<noteq> []"
  proof
    assume "bm_Data m = []"
    moreover have "\<not> is_ok (ParseDMail [])" by code_simp
    ultimately show False using assms(1) by simp
  qed
  have "dm_Kind mail \<in> set dmail_kinds" using ParseDMail_ok[OF assms(1)] by simp
  with assms(2) have "kindEmoji (dm_Kind mail) \<noteq> None"
    by (auto simp: dmail_kinds_def kindEmoji_def)
  moreover have "dm_Kind mail \<in> {DMailKindReport, DMailKindDesignFeedback, DMailKindImplementationFeedback,
      DMailKindConvergence, DMailKindCIResult}"
    using \<open>dm_Kind mail \<in> set dmail_kinds\<close> assms(2) by (auto simp: dmail_kinds_def)
  ultimately have "renderResultMessage mail \<noteq> None"
    unfolding renderResultMessage_def Let_def by (auto split: option.split)
  then obtain reply where reply: "renderResultMessage mail = Some reply" by blast
  have "(if dm_Kind mail = DMailKindConvergence \<and> meta mail ''severity'' = ''high'' then approver else None) = None"
    using assms(3) by (rule if_not_P)
  with assms(1,4-6) nonempty reply show ?thesis
    by (simp add: outbound_OnMessage_def result_Handle_def result_reply_fails Let_def)
qed

definition sample_result :: bus_message where
  "sample_result =
     \<lparr>bm_ID = ''m1'',
      bm_Data = ''---'' @ [nl] @ ''kind: report'' @ [nl] @ ''slack_channel_id: C'' @ [nl] @
        ''slack_thread_ts: 1'' @ [nl] @ ''parent_idempotency_key: k'' @ [nl] @ ''requester_id: U'' @ [nl] @ ''---'',
      bm_Attributes = []\<rparr>"

lemma sample_result_parsed:
  "\<exists>mail. ParseDMail (bm_Data sample_result) = Inr mail \<and> dm_Kind mail = ''report'' \<and>
     meta mail ''slack_channel_id'' = ''C'' \<and> meta mail ''slack_thread_ts'' = ''1'' \<and>
     meta mail ''parent_idempotency_key'' = ''k'' \<and> meta mail ''requester_id'' = ''U''"
proof -
  have "case ParseDMail (bm_Data sample_result) of
      Inl e \<Rightarrow> False
    | Inr mail \<Rightarrow> dm_Kind mail = ''report'' \<and>
        meta mail ''slack_channel_id'' = ''C'' \<and> meta mail ''slack_thread_ts'' = ''1'' \<and>
        meta mail ''parent_idempotency_key'' = ''k'' \<and> meta mail ''requester_id'' = ''U''" by code_simp
  then show ?thesis by (cases "ParseDMail (bm_Data sample_result)") auto
qed

theorem result_replies_never_sent_witness:
  "outbound_OnMessage
      (FallbackNotifier (slack_world (\<lambda>_. Inr (200, ''ok''))) \<lparr>fc_chatPostMessageURL = ''chat'', fc_botToken = ''t'', fc_defaultChannelID = []\<rparr>
        (ResponseURLNotifier (slack_world (\<lambda>_. Inr (200, ''ok''))) (plain_codec JNull)))
      None sample_result [] = (Nack, [])"
proof -
  obtain mail where "ParseDMail (bm_Data sample_result) = Inr mail" "dm_Kind mail = ''report''"
    "meta mail ''slack_channel_id'' = ''C''" "meta mail ''slack_thread_ts'' = ''1''"
    "meta mail ''parent_idempotency_key'' = ''k''"
    using sample_result_parsed by blast
  note mail = this
  show ?thesis
    by (rule result_replies_never_sent[OF mail(1)])
      (simp_all add: mail(2-) DMailKindSpecification_def DMailKindConvergence_def)
qed

text \<open>A mail from outside cannot raise an administrative approval.  Whatever a tool writes in the front
  matter of its mail, \<open>kind\<close> is read as the kind of the mail and never as metadata; so the buttons of the
  approval prompt built from a received mail carry no approval kind, and no click on them approves or
  denies a pending administrative change.\<close>

theorem external_mail_never_admin:
  assumes "ParseDMail (bm_Data m) = Inr mail"
    and "codec_returns C (JObj (sort_key fst (approval_members digest mail)))"
    and "buildButtonValues C digest mail = Some (approve, deny)" "value \<in> {approve, deny}"
  shows "(\<exists>v. parseApprovalActionValue C value = Some v \<and> av_Kind v = [] \<and>
      av_OriginalRequesterID v = meta mail ''requester_id'') \<and>
    (case fst (handleApprovalAction C h now actionID value clicker target ts) of
       Some (RunAdminAck _ _ _ _) \<Rightarrow> False | Some (RunAdminDeny _ _ _ _) \<Rightarrow> False | _ \<Rightarrow> True)"
proof -
  let ?v = "approval_value_of digest mail"
  from parse_built_approval[OF assms(2,3)] assms(4)
  have v: "parseApprovalActionValue C value = Some ?v" by auto
  have k: "av_Kind ?v = []"
    using ParseDMail_ok[OF assms(1)] meta_canonical_absent[of mail "''kind''"]
    by (simp add: approval_value_of_def canonicalDMailKeys_def)
  have "case fst (handleApprovalAction C h now actionID value clicker target ts) of
       Some (RunAdminAck _ _ _ _) \<Rightarrow> False | Some (RunAdminDeny _ _ _ _) \<Rightarrow> False | _ \<Rightarrow> True"
    using k by (auto simp: handleApprovalAction_def v Let_def go_consts split: option.split prod.split)
  with v k show ?thesis by (auto simp: approval_value_of_def)
qed

theorem external_mail_never_admin_witness:
  "\<exists>mail a d. ParseDMail (bm_Data sample_result) = Inr mail \<and>
     buildButtonValues (plain_codec (JObj (sort_key fst (approval_members (\<lambda>b. b) mail)))) (\<lambda>b. b) mail = Some (a, d) \<and>
     (\<exists>v. parseApprovalActionValue (plain_codec (JObj (sort_key fst (approval_members (\<lambda>b. b) mail)))) a = Some v \<and>
        av_Kind v = [])"
proof -
  obtain mail where mail: "ParseDMail (bm_Data sample_result) = Inr mail"
    "meta mail ''parent_idempotency_key'' = ''k''" "meta mail ''requester_id'' = ''U''"
    using sample_result_parsed by blast
  let ?C = "plain_codec (JObj (sort_key fst (approval_members (\<lambda>b. b) mail)))"
  from mail(2,3) obtain a d where b: "buildButtonValues ?C (\<lambda>b. b) mail = Some (a, d)"
    by (simp add: buildButtonValues_def Let_def)
  from external_mail_never_admin[OF mail(1) plain_codec_returns b, of a]
  obtain v where "parseApprovalActionValue ?C a = Some v \<and> av_Kind v = []" by blast
  with mail(1) b show ?thesis by blast
qed

end
