(* ===== verification/Gcp_Controller.thy ===== *)
theory Gcp_Controller
  imports Runops
begin

text \<open>
  The Cloud Run and Cloud SQL adapter (\<open>internal/adapter/output/gcp/controller.go\<close>, \<open>traffic.go\<close>): how a
  shift picks the revision that keeps the rest of the traffic, how a job's arguments are merged, and
  how a backup is waited for.  The APIs are arguments: what a service looks like when it is read, and
  the outcome of every call.  Requests that change something are recorded.  Log lines, creating and
  closing the clients are left out.
\<close>

section \<open>Traffic\<close>

record traffic_entry =
  te_revision :: string
  te_percent :: int

text \<open>The loop over the entries, with the best revision so far.\<close>

fun select_active :: "string \<Rightarrow> traffic_entry list \<Rightarrow> string \<Rightarrow> int \<Rightarrow> string" where
  "select_active target [] best maxPercent = best"
| "select_active target (t # ts) best maxPercent =
     (if te_revision t = target then select_active target ts best maxPercent
      else if te_percent t > maxPercent then select_active target ts (te_revision t) (te_percent t)
      else select_active target ts best maxPercent)"

definition selectActiveRevision :: "traffic_entry list \<Rightarrow> string \<Rightarrow> string" where
  "selectActiveRevision traffic targetRevision = select_active targetRevision traffic [] 0"

fun isTrafficAlreadyMatching :: "traffic_entry list \<Rightarrow> string \<Rightarrow> int \<Rightarrow> bool" where
  "isTrafficAlreadyMatching [] target desired \<longleftrightarrow> desired = 0"
| "isTrafficAlreadyMatching (t # ts) target desired \<longleftrightarrow>
     (if te_revision t = target then te_percent t = desired else isTrafficAlreadyMatching ts target desired)"

text \<open>The new split.\<close>

definition new_split :: "traffic_entry list \<Rightarrow> string \<Rightarrow> string \<Rightarrow> int \<Rightarrow> traffic_entry list" where
  "new_split entries latest revision percent =
     (let active = selectActiveRevision entries revision;
          activeRevision = (if active = [] then latest else active)
      in \<lparr>te_revision = revision, te_percent = percent\<rparr> #
         (if percent < 100 \<and> activeRevision \<noteq> [] \<and> activeRevision \<noteq> revision
          then [\<lparr>te_revision = activeRevision, te_percent = 100 - percent\<rparr>] else []))"

section \<open>The controller\<close>

text \<open>A service or worker pool as it is read: its split and its latest revision (the latest ready one of a
  service, the latest created one of a pool).\<close>

record cloud_resource =
  cr_split :: "traffic_entry list"
  cr_latest :: string

datatype cloud_request =
    UpdateService string "traffic_entry list"
  | UpdatePool string "traffic_entry list"
  | RunJob string "string list"
  | InsertBackup string string

type_synonym cloud_log = "cloud_request list"

record cloud_api =
  ca_GetService :: "cloud_log \<Rightarrow> string \<Rightarrow> string + cloud_resource"
  ca_GetWorkerPool :: "cloud_log \<Rightarrow> string \<Rightarrow> string + cloud_resource"
  ca_GetJob :: "cloud_log \<Rightarrow> string \<Rightarrow> string + string list"
  ca_call :: "cloud_log \<Rightarrow> cloud_request \<Rightarrow> gerror"
  ca_wait :: "cloud_log \<Rightarrow> cloud_request \<Rightarrow> gerror"

text \<open>A request that starts a long-running operation, and the wait for its end.\<close>

definition run_operation ::
  "cloud_api \<Rightarrow> string \<Rightarrow> string \<Rightarrow> cloud_request \<Rightarrow> cloud_log \<Rightarrow> gerror \<times> cloud_log" where
  "run_operation A call_text wait_text r l =
     (case ca_call A l r of
        Some e \<Rightarrow> (Some (call_text @ e), l @ [r])
      | None \<Rightarrow>
          (case ca_wait A (l @ [r]) r of
             Some e \<Rightarrow> (Some (wait_text @ e), l @ [r])
           | None \<Rightarrow> (None, l @ [r])))"

definition resource_path :: "string \<Rightarrow> string \<Rightarrow> string \<Rightarrow> string \<Rightarrow> string" where
  "resource_path kind project location name =
     ''projects/'' @ project @ ''/locations/'' @ location @ ''/'' @ kind @ ''/'' @ name"

definition controller_ShiftTraffic ::
  "cloud_api \<Rightarrow> string \<Rightarrow> string \<Rightarrow> string \<Rightarrow> string \<Rightarrow> int \<Rightarrow> cloud_log \<Rightarrow> gerror \<times> cloud_log" where
  "controller_ShiftTraffic A project location serviceName revision percent l =
     (let servicePath = resource_path ''services'' project location serviceName
      in case ca_GetService A l servicePath of
           Inl e \<Rightarrow> (Some (''gcp: get service: '' @ e), l)
         | Inr svc \<Rightarrow>
             if isTrafficAlreadyMatching (cr_split svc) revision percent then (None, l)
             else run_operation A ''gcp: update service: '' ''gcp: wait update service LRO: ''
                    (UpdateService servicePath (new_split (cr_split svc) (cr_latest svc) revision percent)) l)"

definition controller_UpdateWorkerPool ::
  "cloud_api \<Rightarrow> string \<Rightarrow> string \<Rightarrow> string \<Rightarrow> string \<Rightarrow> int \<Rightarrow> cloud_log \<Rightarrow> gerror \<times> cloud_log" where
  "controller_UpdateWorkerPool A project location poolName revision percent l =
     (let poolPath = resource_path ''workerPools'' project location poolName
      in case ca_GetWorkerPool A l poolPath of
           Inl e \<Rightarrow> (Some (''gcp: get worker pool: '' @ e), l)
         | Inr pool \<Rightarrow>
             if isTrafficAlreadyMatching (cr_split pool) revision percent then (None, l)
             else run_operation A ''gcp: update worker pool: '' ''gcp: wait update worker pool LRO: ''
                    (UpdatePool poolPath (new_split (cr_split pool) (cr_latest pool) revision percent)) l)"

text \<open>The override of a job replaces its arguments, so the old ones are put in front.\<close>

definition controller_ExecuteJob ::
  "cloud_api \<Rightarrow> string \<Rightarrow> string \<Rightarrow> string \<Rightarrow> string list \<Rightarrow> cloud_log \<Rightarrow> gerror \<times> cloud_log" where
  "controller_ExecuteJob A project location jobName extraArgs l =
     (let jobPath = resource_path ''jobs'' project location jobName
      in case ca_GetJob A l jobPath of
           Inl e \<Rightarrow> (Some (''gcp: get job for args merge: '' @ e), l)
         | Inr existingArgs \<Rightarrow>
             run_operation A ''gcp: run job: '' ''gcp: wait run job LRO: ''
               (RunJob jobPath (existingArgs @ extraArgs)) l)"

text \<open>The state of a backup operation at its \<open>n\<close>-th poll, and whether the context is done in the ten
  seconds after it.  The loop need not end.\<close>

datatype poll = PollFailed string | PollRunning | PollDone "string list"

record backup_api =
  bk_poll :: "nat \<Rightarrow> poll"
  bk_cancel :: "nat \<Rightarrow> gerror"

partial_function (option) wait_backup :: "backup_api \<Rightarrow> nat \<Rightarrow> gerror option" where
  "wait_backup B n =
     (case bk_poll B n of
        PollFailed e \<Rightarrow> Some (Some (''gcp: get backup operation: '' @ e))
      | PollDone errs \<Rightarrow> Some (if errs \<noteq> [] then Some (''gcp: backup failed: '' @ hd errs) else None)
      | PollRunning \<Rightarrow>
          (case bk_cancel B n of
             Some e \<Rightarrow> Some (Some e)
           | None \<Rightarrow> wait_backup B (Suc n)))"

definition controller_TriggerBackup ::
  "cloud_api \<Rightarrow> gerror \<Rightarrow> backup_api \<Rightarrow> string \<Rightarrow> string \<Rightarrow> cloud_log \<Rightarrow> gerror option \<times> cloud_log" where
  "controller_TriggerBackup A new_service B project instanceName l =
     (case new_service of
        Some e \<Rightarrow> (Some (Some (''gcp: create sqladmin service: '' @ e)), l)
      | None \<Rightarrow>
          (let r = InsertBackup project instanceName
           in case ca_call A l r of
                Some e \<Rightarrow> (Some (Some (''gcp: insert backup run: '' @ e)), l @ [r])
              | None \<Rightarrow> (wait_backup B 0, l @ [r])))"

section \<open>Lemmas\<close>

abbreviation total :: "traffic_entry list \<Rightarrow> int" where
  "total ts \<equiv> sum_list (map te_percent ts)"

text \<open>The search keeps the first of the revisions with the largest share, and needs a positive one.\<close>

lemma select_active_spec:
  assumes "0 \<le> maxPercent"
  shows "(select_active target ts best maxPercent = best \<and>
      (\<forall>t \<in> set ts. te_revision t \<noteq> target \<longrightarrow> te_percent t \<le> maxPercent)) \<or>
    (\<exists>t \<in> set ts. te_revision t = select_active target ts best maxPercent \<and> te_revision t \<noteq> target \<and>
       te_percent t > maxPercent \<and>
       (\<forall>u \<in> set ts. te_revision u \<noteq> target \<longrightarrow> te_percent u \<le> te_percent t))"
  using assms
proof (induction ts arbitrary: best maxPercent)
  case (Cons t ts)
  show ?case
  proof (cases "te_revision t \<noteq> target \<and> te_percent t > maxPercent")
    case True
    with Cons.prems have "0 \<le> te_percent t" by simp
    from Cons.IH[OF this, of "te_revision t"] show ?thesis
    proof (elim disjE bexE conjE)
      assume "select_active target ts (te_revision t) (te_percent t) = te_revision t"
        "\<forall>u \<in> set ts. te_revision u \<noteq> target \<longrightarrow> te_percent u \<le> te_percent t"
      with True show ?thesis by (intro disjI2 bexI[of _ t]) auto
    next
      fix u
      assume "u \<in> set ts" "te_revision u = select_active target ts (te_revision t) (te_percent t)"
        "te_revision u \<noteq> target" "te_percent t < te_percent u"
        "\<forall>v \<in> set ts. te_revision v \<noteq> target \<longrightarrow> te_percent v \<le> te_percent u"
      with True show ?thesis by (intro disjI2 bexI[of _ u]) auto
    qed
  next
    case False
    then have same: "select_active target (t # ts) best maxPercent = select_active target ts best maxPercent"
      and le: "te_revision t \<noteq> target \<Longrightarrow> te_percent t \<le> maxPercent" by auto
    from Cons.IH[OF Cons.prems, of best] show ?thesis
    proof (elim disjE bexE conjE)
      assume "\<forall>u \<in> set ts. te_revision u \<noteq> target \<longrightarrow> te_percent u \<le> maxPercent"
        "select_active target ts best maxPercent = best"
      with le show ?thesis unfolding same by (intro disjI1) simp
    next
      fix u
      assume "u \<in> set ts" "te_revision u = select_active target ts best maxPercent" "te_revision u \<noteq> target"
        "maxPercent < te_percent u" "\<forall>v \<in> set ts. te_revision v \<noteq> target \<longrightarrow> te_percent v \<le> te_percent u"
      with le show ?thesis
        unfolding same by (intro disjI2 bexI[of _ u]) auto
    qed
  qed
qed simp

section \<open>What a shift asks for\<close>



text \<open>A full promotion cannot be taken back.  After a shift to 100 percent the split names only the promoted
  revision; when that is also the latest ready one, as after a deployment, a shift of it to zero (the
  rollback, and the compensation of a failed shift) asks for a split whose shares add up to zero.\<close>

theorem promotion_cannot_be_rolled_back:
  assumes "ca_GetService A l (resource_path ''services'' project location name) =
      Inr \<lparr>cr_split = new_split entries latest revision 100, cr_latest = revision\<rparr>"
  shows "\<exists>r. snd (controller_ShiftTraffic A project location name revision 0 l) = l @ [r] \<and>
    r = UpdateService (resource_path ''services'' project location name)
          [\<lparr>te_revision = revision, te_percent = 0\<rparr>] \<and>
    total [\<lparr>te_revision = revision, te_percent = 0\<rparr>] = 0"
  using assms
  by (simp add: controller_ShiftTraffic_def new_split_def selectActiveRevision_def run_operation_def Let_def
      split: option.split)

theorem promotion_cannot_be_rolled_back_witness:
  "snd (controller_ShiftTraffic
      \<lparr>ca_GetService = (\<lambda>_ _. Inr \<lparr>cr_split = [\<lparr>te_revision = ''v2'', te_percent = 100\<rparr>], cr_latest = ''v2''\<rparr>),
       ca_GetWorkerPool = (\<lambda>_ _. Inl ''none''), ca_GetJob = (\<lambda>_ _. Inl ''none''),
       ca_call = (\<lambda>_ _. None), ca_wait = (\<lambda>_ _. None)\<rparr> ''p'' ''l'' ''s'' ''v2'' 0 []) =
    [UpdateService (resource_path ''services'' ''p'' ''l'' ''s'') [\<lparr>te_revision = ''v2'', te_percent = 0\<rparr>]]"
proof -
  let ?A = "\<lparr>ca_GetService = (\<lambda>_ _. Inr \<lparr>cr_split = [\<lparr>te_revision = ''v2'', te_percent = 100\<rparr>], cr_latest = ''v2''\<rparr>),
       ca_GetWorkerPool = (\<lambda>_ _. Inl ''none''), ca_GetJob = (\<lambda>_ _. Inl ''none''),
       ca_call = (\<lambda>_ _. None), ca_wait = (\<lambda>_ _. None)\<rparr>"
  have "ca_GetService ?A [] (resource_path ''services'' ''p'' ''l'' ''s'') =
      Inr \<lparr>cr_split = new_split [] [] ''v2'' 100, cr_latest = ''v2''\<rparr>"
    by (simp add: new_split_def selectActiveRevision_def)
  from promotion_cannot_be_rolled_back[OF this] show ?thesis by simp
qed

section \<open>Waiting for a backup\<close>

lemma wait_backup_running:
  "(\<forall>i. m \<le> i \<and> i < n \<longrightarrow> bk_poll B i = PollRunning \<and> bk_cancel B i = None) \<Longrightarrow> m \<le> n \<Longrightarrow>
     wait_backup B m = wait_backup B n"
proof (induction "n - m" arbitrary: m)
  case (Suc k)
  then have "m < n" by simp
  with Suc.prems have "wait_backup B m = wait_backup B (Suc m)" by (subst wait_backup.simps) simp
  with Suc.hyps Suc.prems \<open>m < n\<close> show ?case by simp
qed simp

definition ends_at :: "backup_api \<Rightarrow> nat \<Rightarrow> nat \<Rightarrow> bool" where
  "ends_at B m n \<longleftrightarrow> m \<le> n \<and> (\<forall>i. m \<le> i \<and> i < n \<longrightarrow> bk_poll B i = PollRunning \<and> bk_cancel B i = None) \<and>
     (bk_poll B n \<noteq> PollRunning \<or> bk_cancel B n \<noteq> None)"

lemma ends_at_Suc:
  "ends_at B (Suc m) n \<Longrightarrow> bk_poll B m = PollRunning \<Longrightarrow> bk_cancel B m = None \<Longrightarrow> ends_at B m n"
  unfolding ends_at_def by (metis Suc_leD Suc_leI le_eq_less_or_eq)

lemma wait_backup_Some:
  assumes "wait_backup B m = Some r"
  shows "\<exists>n. ends_at B m n"
proof (rule wait_backup.raw_induct[OF _ assms])
  fix wait :: "backup_api \<Rightarrow> nat \<Rightarrow> gerror option" and B m r
  assume IH: "\<And>B n y. wait B n = Some y \<Longrightarrow> \<exists>k. ends_at B n k"
    and body: "(case bk_poll B m of
        PollFailed e \<Rightarrow> Some (Some (''gcp: get backup operation: '' @ e))
      | PollRunning \<Rightarrow> (case bk_cancel B m of None \<Rightarrow> wait B (Suc m) | Some e \<Rightarrow> Some (Some e))
      | PollDone errs \<Rightarrow> Some (if errs \<noteq> [] then Some (''gcp: backup failed: '' @ hd errs) else None)) = Some r"
  show "\<exists>n. ends_at B m n"
  proof (cases "bk_poll B m = PollRunning \<and> bk_cancel B m = None")
    case True
    with body have "wait B (Suc m) = Some r" by simp
    from IH[OF this] True show ?thesis using ends_at_Suc by blast
  next
    case False
    then show ?thesis by (intro exI[of _ m]) (auto simp: ends_at_def)
  qed
qed

lemma wait_backup_None: "wait_backup B m = None \<longleftrightarrow> (\<forall>i \<ge> m. bk_poll B i = PollRunning \<and> bk_cancel B i = None)"
proof
  assume none: "wait_backup B m = None"
  show "\<forall>i \<ge> m. bk_poll B i = PollRunning \<and> bk_cancel B i = None"
  proof (intro allI impI)
    fix i
    assume "m \<le> i"
    then show "bk_poll B i = PollRunning \<and> bk_cancel B i = None"
    proof (induction i rule: less_induct)
      case (less i)
      then have "wait_backup B i = None"
        using none wait_backup_running[of m i B] by auto
      then show ?case by (subst (asm) wait_backup.simps) (auto split: poll.splits option.splits)
    qed
  qed
next
  assume "\<forall>i \<ge> m. bk_poll B i = PollRunning \<and> bk_cancel B i = None"
  then show "wait_backup B m = None"
    using wait_backup_Some[of B m] unfolding ends_at_def by (cases "wait_backup B m") auto
qed

text \<open>C27. A backup counts as made exactly when Cloud SQL says so.  The controller reports success when the
  request was accepted and a poll says that the operation is done without an error, after polls that
  said it was running and with no cancellation in between; it waits for ever exactly when every poll
  says that the operation is running and nobody cancels; everything else is an error.\<close>

theorem backup_success_exact:
  "(fst (controller_TriggerBackup A new_service B project instanceName l) = Some None \<longleftrightarrow>
      new_service = None \<and> ca_call A l (InsertBackup project instanceName) = None \<and>
      (\<exists>n. bk_poll B n = PollDone [] \<and> (\<forall>i < n. bk_poll B i = PollRunning \<and> bk_cancel B i = None))) \<and>
   (fst (controller_TriggerBackup A new_service B project instanceName l) = None \<longleftrightarrow>
      new_service = None \<and> ca_call A l (InsertBackup project instanceName) = None \<and>
      (\<forall>i. bk_poll B i = PollRunning \<and> bk_cancel B i = None))"
proof -
  have "wait_backup B 0 = Some None \<longleftrightarrow>
      (\<exists>n. bk_poll B n = PollDone [] \<and> (\<forall>i < n. bk_poll B i = PollRunning \<and> bk_cancel B i = None))" (is "?l \<longleftrightarrow> ?r")
  proof
    assume l: ?l
    then obtain n where n: "\<forall>i < n. bk_poll B i = PollRunning \<and> bk_cancel B i = None"
      "bk_poll B n \<noteq> PollRunning \<or> bk_cancel B n \<noteq> None"
      using wait_backup_Some unfolding ends_at_def by blast
    with l have "wait_backup B n = Some None" using wait_backup_running[of 0 n B] by simp
    with n show ?r
      by (subst (asm) (1) wait_backup.simps) (auto intro!: exI[of _ n] split: poll.splits option.splits if_splits)
  next
    assume ?r
    then obtain n where n: "bk_poll B n = PollDone []" "\<forall>i < n. bk_poll B i = PollRunning \<and> bk_cancel B i = None"
      by blast
    then have "wait_backup B 0 = wait_backup B n" by (intro wait_backup_running) auto
    with n(1) show ?l by (simp add: wait_backup.simps)
  qed
  then show ?thesis
    using wait_backup_None[of B 0] by (auto simp: controller_TriggerBackup_def Let_def split: option.split)
qed

theorem backup_success_exact_witness:
  "fst (controller_TriggerBackup
     \<lparr>ca_GetService = (\<lambda>_ _. Inl ''none''), ca_GetWorkerPool = (\<lambda>_ _. Inl ''none''), ca_GetJob = (\<lambda>_ _. Inl ''none''),
      ca_call = (\<lambda>_ _. None), ca_wait = (\<lambda>_ _. None)\<rparr> None
     \<lparr>bk_poll = (\<lambda>n. if n < 2 then PollRunning else PollDone []), bk_cancel = (\<lambda>_. None)\<rparr> ''p'' ''db'' []) = Some None"
  using backup_success_exact[of
      "\<lparr>ca_GetService = (\<lambda>_ _. Inl ''none''), ca_GetWorkerPool = (\<lambda>_ _. Inl ''none''), ca_GetJob = (\<lambda>_ _. Inl ''none''),
        ca_call = (\<lambda>_ _. None), ca_wait = (\<lambda>_ _. None)\<rparr>" None
      "\<lparr>bk_poll = (\<lambda>n. if n < 2 then PollRunning else PollDone []), bk_cancel = (\<lambda>_. None)\<rparr>" "''p''" "''db''" "[]"]
  by (auto intro: exI[of _ "2 :: nat"])

section \<open>Jobs\<close>

text \<open>A job keeps its own arguments: whatever happens, the only request made runs the job that was named,
  with the arguments it is configured with followed by the extra ones; nothing is run when those cannot
  be read.\<close>

lemma job_keeps_arguments:
  "snd (controller_ExecuteJob A project location name extra l) =
     l @ (case ca_GetJob A l (resource_path ''jobs'' project location name) of
            Inl e \<Rightarrow> []
          | Inr existing \<Rightarrow> [RunJob (resource_path ''jobs'' project location name) (existing @ extra)])"
  by (simp add: controller_ExecuteJob_def run_operation_def Let_def split: sum.split option.split)

section \<open>The clients of the controller\<close>

text \<open>\<open>NewController\<close> and \<open>Close\<close>, with the connections that are open.  What the construction of a client
  answers is an argument.\<close>

datatype gcp_client = ServicesClient | JobsClient | WorkerPoolsClient

definition close_clients :: "gcp_client list \<Rightarrow> gcp_client list \<Rightarrow> gcp_client list" where
  "close_clients cs opened = fold remove1 cs opened"

definition NewController ::
  "(gcp_client \<Rightarrow> gerror) \<Rightarrow> gcp_client list \<Rightarrow> (string + gcp_client list) \<times> gcp_client list" where
  "NewController dial opened =
     (case dial ServicesClient of
        Some e \<Rightarrow> (Inl (''gcp: create services client: '' @ e), opened)
      | None \<Rightarrow>
     (let opened1 = ServicesClient # opened
      in case dial JobsClient of
        Some e \<Rightarrow> (Inl (''gcp: create jobs client: '' @ e), close_clients [ServicesClient] opened1)
      | None \<Rightarrow>
     (let opened2 = JobsClient # opened1
      in case dial WorkerPoolsClient of
        Some e \<Rightarrow> (Inl (''gcp: create worker pools client: '' @ e), close_clients [ServicesClient, JobsClient] opened2)
      | None \<Rightarrow> (Inr [ServicesClient, JobsClient, WorkerPoolsClient], WorkerPoolsClient # opened2))))"

definition controller_Close :: "gcp_client list \<Rightarrow> gcp_client list \<Rightarrow> gcp_client list" where
  "controller_Close c opened = close_clients c opened"

text \<open>No connection is left behind: a construction that fails closes what it had opened, and closing a
  controller closes all three.\<close>

lemma NewController_balanced:
  "case NewController dial opened of
     (Inl e, opened') \<Rightarrow> opened' = opened \<and> (\<exists>c. dial c \<noteq> None)
   | (Inr c, opened') \<Rightarrow> controller_Close c opened' = opened \<and> (\<forall>c. dial c = None)"
proof -
  have "(\<forall>c. dial c = None) \<longleftrightarrow> dial ServicesClient = None \<and> dial JobsClient = None \<and> dial WorkerPoolsClient = None"
    by (metis gcp_client.exhaust)
  then show ?thesis
    by (auto simp: NewController_def controller_Close_def close_clients_def Let_def split: option.splits)
qed

end
