(* ===== verification/Operations.thy ===== *)
theory Operations
  imports Runops_Correct Notify_Correct Gcp_Controller
begin

text \<open>
  The approval use case together with its real ports, the way \<open>cmd/server\<close> and \<open>cmd/runops\<close> put them
  together: every call of the use case is carried out by the Slack notifier or by the Google Cloud
  controller, whose answers are the answers the use case sees.  Slack and Google Cloud themselves are
  arguments.  The texts of the use case are written out.
\<close>

section \<open>The texts\<close>

fun rollback_text :: "rollback_note \<Rightarrow> string" where
  "rollback_text NothingToRollBack = (uni [0x30ED, 0x30FC, 0x30EB, 0x30D0, 0x30C3, 0x30AF, 0x4E0D,
      0x8981, 0xFF08, 0x5909, 0x66F4, 0x306A, 0x3057, 0xFF09])"
| "rollback_text RolledBack = (uni [0x30ED, 0x30FC, 0x30EB, 0x30D0, 0x30C3, 0x30AF, 0x6E08, 0x307F])"
| "rollback_text (RollbackFailed names) =
     (uni [0x26A0, 0xFE0F] @ '' '' @ uni [0x4E00, 0x90E8, 0x30ED, 0x30FC, 0x30EB, 0x30D0, 0x30C3,
         0x30AF, 0x5931, 0x6557, 0xFF08, 0x624B, 0x52D5, 0x78BA, 0x8A8D, 0x304C, 0x5FC5, 0x8981,
         0xFF09] @ '': '') @ join '', '' names"

fun progress_text :: "shift_kind \<Rightarrow> string" where
  "progress_text TrafficShift = (uni [0x23F3] @ '' '' @ uni [0x30C8, 0x30E9, 0x30D5, 0x30A3, 0x30C3,
      0x30AF, 0x5207, 0x308A, 0x66FF, 0x3048, 0x4E2D] @ ''...'')"
| "progress_text PoolShift = (uni [0x23F3] @ '' '' @ uni [0x30A4, 0x30F3, 0x30B9, 0x30BF, 0x30F3,
    0x30B9, 0x5272, 0x308A, 0x5F53, 0x3066, 0x5207, 0x308A, 0x66FF, 0x3048, 0x4E2D] @ ''...'')"

fun summary_head :: "shift_kind \<Rightarrow> string" where
  "summary_head TrafficShift = (uni [0x2705] @ '' '' @ uni [0x30C8, 0x30E9, 0x30D5, 0x30A3, 0x30C3,
      0x30AF, 0x5207, 0x308A, 0x66FF, 0x3048, 0x5B8C, 0x4E86, 0x3002, 0x30B5, 0x30FC, 0x30D3,
      0x30B9] @ '': *'')"
| "summary_head PoolShift = (uni [0x2705] @ '' '' @ uni [0x30A4, 0x30F3, 0x30B9, 0x30BF, 0x30F3,
    0x30B9, 0x5272, 0x308A, 0x5F53, 0x3066, 0x5207, 0x308A, 0x66FF, 0x3048, 0x5B8C, 0x4E86, 0x3002,
    0x30D7, 0x30FC, 0x30EB] @ '': *'')"

fun message_text :: "message \<Rightarrow> string" where
  "message_text MsgInProgress = (uni [0x26A0, 0xFE0F] @ '' '' @ uni [0x3053, 0x306E, 0x64CD, 0x4F5C,
      0x306F, 0x65E2, 0x306B, 0x5B9F, 0x884C, 0x4E2D, 0x3067, 0x3059, 0x3002])"
| "message_text MsgAINotPermitted = (''AI agent '' @ uni [0x306F] @ '' AI agent '' @ uni [0x306E,
    0x627F, 0x8A8D, 0x64CD, 0x4F5C, 0x306F, 0x3067, 0x304D, 0x307E, 0x305B, 0x3093, 0x3002])"
| "message_text MsgUnauthorized =
     (uni [0x6A29, 0x9650, 0x304C, 0x3042, 0x308A, 0x307E, 0x305B, 0x3093, 0x3002, 0x627F, 0x8A8D,
         0x64CD, 0x4F5C, 0x306F, 0x8A31, 0x53EF, 0x3055, 0x308C, 0x305F, 0x30E6, 0x30FC, 0x30B6,
         0x30FC, 0x306E, 0x307F, 0x5B9F, 0x884C, 0x3067, 0x304D, 0x307E, 0x3059, 0x3002])"
| "message_text MsgExpired =
     (uni [0x3053, 0x306E, 0x30EA, 0x30AF, 0x30A8, 0x30B9, 0x30C8, 0x306F, 0x671F, 0x9650, 0x5207,
         0x308C, 0x3067, 0x3059, 0x3002, 0x518D, 0x5EA6, 0x64CD, 0x4F5C, 0x3092, 0x5B9F, 0x884C,
         0x3057, 0x3066, 0x304F, 0x3060, 0x3055, 0x3044, 0x3002])"
| "message_text (MsgProgress kind) = progress_text kind"
| "message_text (MsgInvalidAction a) = (uni [0x274C] @ '' '' @ uni [0x7121, 0x52B9, 0x306A, 0x30A2,
    0x30AF, 0x30B7, 0x30E7, 0x30F3] @ '': '') @ a"
| "message_text (MsgShiftError e n) =
     (uni [0x274C] @ '' '' @ uni [0x30A8, 0x30E9, 0x30FC, 0x304C, 0x767A, 0x751F, 0x3057, 0x307E,
         0x3057, 0x305F] @ '': '') @ e @ [nl] @ rollback_text n"
| "message_text (MsgShiftDone kind names percent) =
     summary_head kind @ names @ (''* '' @ uni [0x2192] @ '' '') @ show_int percent @ ''%''"
| "message_text MsgNoJobName =
     (uni [0x274C] @ '' '' @ uni [0x30DE, 0x30A4, 0x30B0, 0x30EC, 0x30FC, 0x30B7, 0x30E7, 0x30F3,
         0x30B8, 0x30E7, 0x30D6, 0x540D, 0x304C, 0x672A, 0x8A2D, 0x5B9A, 0x3067, 0x3059, 0x3002,
         0x30C7, 0x30D7, 0x30ED, 0x30A4, 0x69CB,
         0x6210] @ '' (cloudbuild.yaml '' @ uni [0x306E] @ '' _MIGRATION_JOB_NAME) '' @ uni [0x3092,
         0x78BA, 0x8A8D, 0x3057, 0x3066, 0x304F, 0x3060, 0x3055, 0x3044, 0x3002])"
| "message_text MsgBackupRunning = (uni [0x1F4E6] @ '' DB'' @ uni [0x30D0, 0x30C3, 0x30AF, 0x30A2,
    0x30C3, 0x30D7, 0x3092, 0x53D6, 0x5F97, 0x4E2D] @ ''...'')"
| "message_text (MsgBackupError e) = (uni [0x274C] @ '' '' @ uni [0x30D0, 0x30C3, 0x30AF, 0x30A2,
    0x30C3, 0x30D7, 0x30A8, 0x30E9, 0x30FC] @ '': '') @ e"
| "message_text MsgMigrating =
     (uni [0x2705] @ '' '' @ uni [0x30D0, 0x30C3, 0x30AF, 0x30A2, 0x30C3, 0x30D7, 0x5B8C, 0x4E86,
         0x3002, 0x30DE, 0x30A4, 0x30B0, 0x30EC, 0x30FC, 0x30B7, 0x30E7, 0x30F3, 0x5B9F, 0x884C,
         0x4E2D] @ ''...'')"
| "message_text (MsgMigrationError e) = (uni [0x274C] @ '' '' @ uni [0x30DE, 0x30A4, 0x30B0, 0x30EC,
    0x30FC, 0x30B7, 0x30E7, 0x30F3, 0x30A8, 0x30E9, 0x30FC] @ '': '') @ e"
| "message_text (MsgMigrationDone names) =
     (uni [0x2705] @ '' '' @ uni [0x30DE, 0x30A4, 0x30B0, 0x30EC, 0x30FC, 0x30B7, 0x30E7, 0x30F3,
         0x5B8C, 0x4E86, 0x3002, 0x30B8, 0x30E7, 0x30D6] @ '': *'') @ names @ ''*''"
| "message_text (MsgDenied names) =
     ('':x: '' @ uni [0x64CD, 0x4F5C, 0x304C, 0x62D2, 0x5426, 0x3055, 0x308C, 0x307E, 0x3057, 0x305F,
         0x3002, 0x30EA, 0x30BD, 0x30FC, 0x30B9] @ '': *'') @ names @ ''*''"
| "message_text (MsgSlackUpdateFailed m) =
     message_text m @ ([nl, nl] @ uni [0x26A0, 0xFE0F] @ '' Slack '' @ uni [0x30E1, 0x30C3, 0x30BB,
         0x30FC, 0x30B8, 0x306E, 0x66F4, 0x65B0, 0x306B, 0x5931, 0x6557, 0x3057, 0x307E, 0x3057,
         0x305F, 0x3002] @ ''GCP '' @ uni [0x306E, 0x30ED, 0x30B0, 0x3092, 0x78BA, 0x8A8D, 0x3057,
         0x3066, 0x304F, 0x3060, 0x3055, 0x3044, 0x3002])"
| "message_text MsgTimedOut =
     (uni [0x23F0] @ '' '' @ uni [0x64CD, 0x4F5C, 0x304C, 0x30BF, 0x30A4, 0x30E0, 0x30A2, 0x30A6,
         0x30C8, 0x3057, 0x307E, 0x3057, 0x305F, 0xFF08] @ ''Slack response_url '' @ uni [0x306E,
         0x6709, 0x52B9, 0x671F, 0x9650, 0x5207, 0x308C, 0xFF09, 0x3002] @ ''GCP '' @ uni [0x30B3,
         0x30F3, 0x30BD, 0x30FC, 0x30EB, 0x3067, 0x5B9F, 0x969B, 0x306E, 0x72B6, 0x614B, 0x3092,
         0x78BA, 0x8A8D, 0x3057, 0x3066, 0x304F, 0x3060, 0x3055, 0x3044, 0x3002])"

section \<open>Carrying out the calls of the use case\<close>

text \<open>\<open>ot_sqladmin\<close> and \<open>ot_backup\<close> are the construction of the client for backups and the progress of the
  operation that a backup request started.  A wait that never ends gives no answer; the use case then goes no
  further, and what the model does after it is arbitrary.\<close>

record op_tools =
  ot_notifier :: notifier
  ot_cloud :: cloud_api
  ot_sqladmin :: "cloud_log \<Rightarrow> gerror"
  ot_backup :: "cloud_log \<Rightarrow> backup_api"
  ot_clock :: "effect list \<Rightarrow> int64"

record op_state =
  os_http :: http_log
  os_cloud :: cloud_log

fun notify_call_of :: "effect \<Rightarrow> notify_call option" where
  "notify_call_of (UpdateMessage t m) = Some (CallUpdate t (message_text m))"
| "notify_call_of (ReplaceMessage t m) = Some (CallReplace t (message_text m))"
| "notify_call_of (SendEphemeral t u m) = Some (CallEphemeral t u (message_text m))"
| "notify_call_of (OfferContinuation t m nxt stop) = Some (CallOffer t (message_text m) nxt stop)"
| "notify_call_of (RebuildInitialApproval t m job svc deny) =
     Some (CallRebuild t (message_text m) (Some job) svc (Some deny))"
| "notify_call_of (Gcp c) = None"

fun cloud_op :: "op_tools \<Rightarrow> gcp_call \<Rightarrow> cloud_log \<Rightarrow> gerror \<times> cloud_log" where
  "cloud_op T (ShiftTraffic project location name revision percent) l =
     controller_ShiftTraffic (ot_cloud T) project location name revision percent l"
| "cloud_op T (UpdateWorkerPool project location name revision percent) l =
     controller_UpdateWorkerPool (ot_cloud T) project location name revision percent l"
| "cloud_op T (TriggerBackup project inst) l =
     (let r = controller_TriggerBackup (ot_cloud T) (ot_sqladmin T l) (ot_backup T l) project inst l
      in (the (fst r), snd r))"
| "cloud_op T (ExecuteJob project location job args) l =
     controller_ExecuteJob (ot_cloud T) project location job args l"

fun carry_out :: "op_tools \<Rightarrow> effect \<Rightarrow> op_state \<Rightarrow> gerror \<times> op_state" where
  "carry_out T (Gcp c) s =
     (let r = cloud_op T c (os_cloud s) in (fst r, s\<lparr>os_cloud := snd r\<rparr>))"
| "carry_out T e s =
     (case notify_call_of e of
        None \<Rightarrow> (None, s)
      | Some c \<Rightarrow> (let r = run_call (ot_notifier T) c (os_http s) in (fst r, s\<lparr>os_http := snd r\<rparr>)))"

definition after :: "op_tools \<Rightarrow> effect list \<Rightarrow> op_state" where
  "after T es = fold (\<lambda>e s. snd (carry_out T e s)) es \<lparr>os_http = [], os_cloud = []\<rparr>"

text \<open>The environment of the use case: an effect is answered by carrying it out after all earlier ones.\<close>

definition real_env :: "op_tools \<Rightarrow> effect env" where
  "real_env T = \<lparr>reply = (\<lambda>es e. fst (carry_out T e (after T es))), clock = ot_clock T\<rparr>"

section \<open>The two logs\<close>

lemma after_snoc: "after T (es @ [e]) = snd (carry_out T e (after T es))"
  by (simp add: after_def)

lemma carry_out_cloud:
  "os_cloud (snd (carry_out T e s)) =
     (case gcp_of e of None \<Rightarrow> os_cloud s | Some c \<Rightarrow> snd (cloud_op T c (os_cloud s)))"
  by (cases e) (simp_all add: Let_def)

lemma carry_out_http:
  "os_http (snd (carry_out T e s)) =
     (case notify_call_of e of None \<Rightarrow> os_http s | Some c \<Rightarrow> snd (run_call (ot_notifier T) c (os_http s)))"
  by (cases e) (simp_all add: Let_def)

definition notify_calls :: "effect list \<Rightarrow> notify_call list" where
  "notify_calls es = List.map_filter notify_call_of es"

text \<open>The cloud log depends on the cloud calls alone, the log of HTTP requests on the notifications alone.\<close>

lemma cloud_after: "os_cloud (after T es) = fold (\<lambda>c l. snd (cloud_op T c l)) (gcp_calls es) []"
proof (induction es rule: rev_induct)
  case (snoc e es)
  then show ?case by (simp add: after_snoc carry_out_cloud split: option.split)
qed (simp add: after_def)

lemma notify_calls_append [simp]: "notify_calls (es @ es') = notify_calls es @ notify_calls es'"
  by (simp add: notify_calls_def List.map_filter_def)

lemma http_after: "os_http (after T es) = run_calls (ot_notifier T) (notify_calls es) []"
proof (induction es rule: rev_induct)
  case (snoc e es)
  then show ?case
    by (simp add: after_snoc carry_out_http notify_calls_def List.map_filter_def split: option.split)
qed (simp add: after_def notify_calls_def List.map_filter_def)

section \<open>What an approval notifies and asks for\<close>

fun note_target :: "effect \<Rightarrow> notify_target option" where
  "note_target (Gcp c) = None"
| "note_target e = map_option call_target (notify_call_of e)"

text \<open>Every notification of the use case goes to the target it was given.\<close>

abbreviation notes_to :: "notify_target \<Rightarrow> effect \<Rightarrow> bool" where
  "notes_to t e \<equiv> note_target e \<in> {None, Some t}"

lemma shift_fn_note [simp]: "note_target (Gcp c) = None"
  by simp

lemma shift_loop_notes [emits_intros]: "emits (notes_to t) (shift_loop E kind req targets p i names done)"
  by (induction names arbitrary: i "done") (simp_all add: Let_def, (intro emits_intros | simp)+)

lemma rollback_loop_notes [emits_intros]: "emits (notes_to t) (rollback_loop E kind ds failed)"
  by (induction ds arbitrary: failed) (simp_all, (intro emits_intros | simp)+)

lemma compensateRollback_notes [emits_intros]: "emits (notes_to t) (compensateRollback E kind ds)"
  unfolding compensateRollback_def by (intro emits_intros)

lemma offerOrFallback_notes [emits_intros]: "emits (notes_to t) (offerOrFallback E t m n s)"
  unfolding offerOrFallback_def by (intro emits_intros) simp_all

lemma offerRetry_notes [emits_intros]: "emits (notes_to t) (offerRetry E t req m)"
  unfolding offerRetry_def by (intro emits_intros)

lemma rebuildInitial_notes [emits_intros]: "emits (notes_to t) (rebuildInitial E t req m)"
  unfolding rebuildInitial_def Let_def by (intro emits_intros) simp_all

lemma approveShift_notes [emits_intros]: "emits (notes_to t) (approveShift E kind req t)"
  unfolding approveShift_def Let_def by (intro emits_intros) simp_all

lemma approveJob_notes [emits_intros]: "emits (notes_to t) (approveJob E req t)"
  unfolding approveJob_def Let_def by (intro emits_intros) simp_all

lemma approve_locked_notes [emits_intros]: "emits (notes_to t) (approve_locked E chk req t a)"
  unfolding approve_locked_def by (intro emits_intros) simp_all

lemma lock_ops_emit [emits_intros]: "emits P (lock_op k)" "emits P (release_op k)"
  by (rule emitsI, simp)+

lemma ApproveAction_notes: "emits (notes_to t) (ApproveAction E chk req t a)"
  unfolding ApproveAction_def Let_def by (intro emits_intros) simp_all

lemma DenyAction_notes: "emits (notes_to t) (DenyAction E req t)"
  unfolding DenyAction_def by (intro emits_intros) simp_all

text \<open>Every cloud call of an approval concerns a resource that the request names.\<close>

fun names_resource :: "approval_request \<Rightarrow> gcp_call \<Rightarrow> bool" where
  "names_resource req (ShiftTraffic project location name revision percent) \<longleftrightarrow>
     ar_ResourceType req = ResourceTypeService \<and> project = ar_Project req \<and> location = ar_Location req \<and>
     name \<in> set (splitCSV (ar_ResourceNames req)) \<and> 0 \<le> percent \<and> percent \<le> 100"
| "names_resource req (UpdateWorkerPool project location name revision percent) \<longleftrightarrow>
     ar_ResourceType req = ResourceTypeWorkerPool \<and> project = ar_Project req \<and> location = ar_Location req \<and>
     name \<in> set (splitCSV (ar_ResourceNames req)) \<and> 0 \<le> percent \<and> percent \<le> 100"
| "names_resource req (TriggerBackup project inst) \<longleftrightarrow>
     ar_ResourceType req = ResourceTypeJob \<and> project = ar_Project req \<and> inst = sql_instance req"
| "names_resource req (ExecuteJob project location job args) \<longleftrightarrow>
     ar_ResourceType req = ResourceTypeJob \<and> project = ar_Project req \<and> location = ar_Location req \<and>
     job = ar_ResourceNames req \<and> args = migrate_args"

lemma plan_member:
  assumes "d \<in> set (plan req)"
  shows "sh_project d = ar_Project req \<and> sh_location d = ar_Location req \<and>
    sh_name d \<in> set (splitCSV (ar_ResourceNames req))"
proof -
  from assms obtain j where "j < length (splitCSV (ar_ResourceNames req))" "d = plan req ! j"
    by (auto simp: in_set_conv_nth)
  then show ?thesis by (simp add: plan_def nth_shift_items)
qed

lemma shift_calls_name:
  assumes "set ds \<subseteq> set (plan req)" "0 \<le> p" "p \<le> 100"
    and "ar_ResourceType req = (case kind of TrafficShift \<Rightarrow> ResourceTypeService | PoolShift \<Rightarrow> ResourceTypeWorkerPool)"
  shows "list_all (names_resource req) (shift_calls kind p ds)"
  using assms plan_member
  by (cases kind) (fastforce simp: shift_calls_def shift_fn_def list_all_iff)+

lemma shift_percent_range: "ParseAction s = Inr act \<Longrightarrow> 0 \<le> shift_percent act \<and> shift_percent act \<le> 100"
  using ParseAction_percent_range[of s act] by (simp add: shift_percent_def)

lemma approveShift_names:
  assumes run: "run_state (approveShift E kind req t) w = (r, w')"
    and ty: "ar_ResourceType req = (case kind of TrafficShift \<Rightarrow> ResourceTypeService | PoolShift \<Rightarrow> ResourceTypeWorkerPool)"
  shows "\<exists>cs. gcp_calls (trace w') = gcp_calls (trace w) @ cs \<and> list_all (names_resource req) cs"
proof (cases "ParseAction (ar_Action req)")
  case (Inl e)
  with run show ?thesis by (auto simp: approveShift_bad_action)
next
  case (Inr act)
  have names: "list_all (names_resource req) (shift_calls kind p (take k (plan req)))"
    if "0 \<le> p" "p \<le> 100" for p k
    by (rule shift_calls_name[OF set_take_subset that ty])
  from approveShift_calls[OF Inr run] shift_percent_range[OF Inr] names[of "shift_percent act"] names[of 0]
    names[of "shift_percent act" "length (plan req)"]
  show ?thesis by auto
qed

lemma approveJob_names:
  assumes "run_state (approveJob E req t) w = (r, w')" "ar_ResourceType req = ResourceTypeJob"
  shows "\<exists>cs. gcp_calls (trace w') = gcp_calls (trace w) @ cs \<and> list_all (names_resource req) cs"
  using approveJob_calls[OF assms(1)] assms(2) by (auto simp: Let_def)

lemma ApproveAction_names:
  assumes run: "run_state (ApproveAction E chk req t a) w = (r, w')"
  obtains cs where "gcp_calls (trace w') = gcp_calls (trace w) @ cs" "list_all (names_resource req) cs"
    "cs \<noteq> [] \<Longrightarrow> OperationKey req \<notin> ms_keys (rw_store w) \<and> guards_hold E chk req a (trace w)"
proof (cases "OperationKey req \<in> ms_keys (rw_store w)")
  case True
  with run that[of "[]"] show ?thesis by (auto simp: ApproveAction_locked)
next
  case False
  from ApproveAction_unlocked[OF False run] obtain w1 where
    w1: "run_state (approve_locked E chk req t a)
       (w\<lparr>rw_store := snd (TryLock (OperationKey req) (rw_store w))\<rparr>) = (r, w1)"
    and w': "w' = w1\<lparr>rw_store := Release (OperationKey req) (rw_store w1)\<rparr>" by blast
  let ?w0 = "w\<lparr>rw_store := snd (TryLock (OperationKey req) (rw_store w))\<rparr>"
  show ?thesis
  proof (cases "guards_hold E chk req a (trace w)")
    case blocked: False
    with approve_locked_blocked[of E chk req a ?w0 t r w1] w1 w' that[of "[]"] show ?thesis by simp
  next
    case True
    then have ty: "ar_ResourceType req \<in> {ResourceTypeService, ResourceTypeJob, ResourceTypeWorkerPool}"
      by (simp add: guards_hold_def)
    have run1: "(if ar_ResourceType req = ResourceTypeJob then run_state (approveJob E req t) ?w0
       else if ar_ResourceType req = ResourceTypeService then run_state (approveShift E TrafficShift req t) ?w0
       else run_state (approveShift E PoolShift req t) ?w0) = (r, w1)"
      using approve_locked_passed[of E chk req a ?w0 t] True w1 by simp
    have "\<exists>cs. gcp_calls (trace w1) = gcp_calls (trace ?w0) @ cs \<and> list_all (names_resource req) cs"
    proof (cases "ar_ResourceType req = ResourceTypeJob")
      case True
      with run1 show ?thesis by (intro approveJob_names[of E req t ?w0 r]) simp_all
    next
      case nojob: False
      show ?thesis
      proof (cases "ar_ResourceType req = ResourceTypeService")
        case True
        with run1 show ?thesis by (intro approveShift_names[of E TrafficShift req t ?w0 r]) simp_all
      next
        case False
        with run1 nojob ty show ?thesis by (intro approveShift_names[of E PoolShift req t ?w0 r]) simp_all
      qed
    qed
    with w' False True that show ?thesis by auto
  qed
qed

section \<open>What reaches Google Cloud and Slack\<close>

text \<open>The notifier of a process: with a bot token there is a fallback.\<close>

definition process_notifier :: "http_world \<Rightarrow> slack_codec \<Rightarrow> fallback_config option \<Rightarrow> notifier" where
  "process_notifier W C fb =
     (let primary = ResponseURLNotifier W C
      in case fb of None \<Rightarrow> primary | Some F \<Rightarrow> FallbackNotifier W F primary)"

fun may_post :: "fallback_config option \<Rightarrow> http_request \<Rightarrow> bool" where
  "may_post fb r \<longleftrightarrow> to_response_host r \<or> (case fb of None \<Rightarrow> False | Some F \<Rightarrow> to_chat F r)"

interpretation process: confined_notifier "process_notifier W C fb" "may_post fb" for W C fb
proof -
  show "confined_notifier (process_notifier W C fb) (may_post fb)"
    using response.confined_notifier_axioms fallback.confined_notifier_axioms
    by (cases fb) (simp_all add: process_notifier_def may_post.simps[abs_def])
qed

text \<open>A change that is asked of Google Cloud, as a part of what a request names.\<close>

fun asks_for :: "approval_request \<Rightarrow> cloud_request \<Rightarrow> bool" where
  "asks_for req (UpdateService path split) \<longleftrightarrow>
     ar_ResourceType req = ResourceTypeService \<and>
     (\<exists>name \<in> set (splitCSV (ar_ResourceNames req)).
        path = resource_path ''services'' (ar_Project req) (ar_Location req) name) \<and>
     split \<noteq> [] \<and> 0 \<le> te_percent (hd split) \<and> te_percent (hd split) \<le> 100"
| "asks_for req (UpdatePool path split) \<longleftrightarrow>
     ar_ResourceType req = ResourceTypeWorkerPool \<and>
     (\<exists>name \<in> set (splitCSV (ar_ResourceNames req)).
        path = resource_path ''workerPools'' (ar_Project req) (ar_Location req) name) \<and>
     split \<noteq> [] \<and> 0 \<le> te_percent (hd split) \<and> te_percent (hd split) \<le> 100"
| "asks_for req (InsertBackup project inst) \<longleftrightarrow>
     ar_ResourceType req = ResourceTypeJob \<and> project = ar_Project req \<and> inst = sql_instance req"
| "asks_for req (RunJob path args) \<longleftrightarrow>
     ar_ResourceType req = ResourceTypeJob \<and>
     path = resource_path ''jobs'' (ar_Project req) (ar_Location req) (ar_ResourceNames req) \<and>
     (\<exists>own. args = own @ migrate_args)"

lemma run_operation_appends: "snd (run_operation A c v r l) = l @ [r]"
  by (simp add: run_operation_def split: option.split)

lemma new_split_head: "new_split ts latest revision p \<noteq> []" "te_percent (hd (new_split ts latest revision p)) = p"
  by (simp_all add: new_split_def Let_def)

lemma cloud_op_asks:
  assumes "names_resource req c"
  shows "\<exists>rs. snd (cloud_op T c l) = l @ rs \<and> list_all (asks_for req) rs"
  using assms
  by (cases c)
    (auto simp: controller_ShiftTraffic_def controller_UpdateWorkerPool_def controller_ExecuteJob_def
      controller_TriggerBackup_def Let_def run_operation_appends new_split_head split: sum.split option.split)

lemma cloud_ops_ask:
  "list_all (names_resource req) cs \<Longrightarrow>
     \<exists>rs. fold (\<lambda>c l. snd (cloud_op T c l)) cs l = l @ rs \<and> list_all (asks_for req) rs"
proof (induction cs arbitrary: l)
  case (Cons c cs)
  then obtain rs where rs: "snd (cloud_op T c l) = l @ rs" "list_all (asks_for req) rs"
    using cloud_op_asks[of req c T l] by auto
  from Cons.prems obtain rs' where "fold (\<lambda>c l. snd (cloud_op T c l)) cs (l @ rs) = (l @ rs) @ rs'"
    "list_all (asks_for req) rs'" using Cons.IH[of "l @ rs"] by auto
  with rs show ?case by (intro exI[of _ "rs @ rs'"]) simp
qed simp

lemma note_target_call:
  "note_target e = (case notify_call_of e of None \<Rightarrow> None | Some c \<Rightarrow> Some (call_target c))"
  by (cases e) simp_all

lemma notify_calls_targets:
  "list_all (notes_to t) es \<Longrightarrow> list_all (\<lambda>c. call_target c = t) (notify_calls es)"
  by (induction es) (auto simp: notify_calls_def List.map_filter_def note_target_call split: option.splits)

text \<open>What is posted while effects with one target are carried out.\<close>

lemma notes_posted:
  assumes "emits (notes_to t) m" "run_state m w = (r, w')" "ot_notifier T = process_notifier W C fb"
  shows "\<exists>hs. os_http (after T (trace w')) = os_http (after T (trace w)) @ hs \<and> list_all (may_post fb) hs \<and>
    (nt_Mode t = ModeStdout \<longrightarrow> hs = [])"
proof -
  obtain es where es: "trace w' = trace w @ es" "list_all (notes_to t) es"
    using assms(1,2) by (metis emitsE snd_conv)
  let ?l = "os_http (after T (trace w))"
  have http: "os_http (after T (trace w')) = run_calls (process_notifier W C fb) (notify_calls es) ?l"
    by (simp add: http_after es(1) assms(3))
  show ?thesis
  proof (cases "nt_Mode t = ModeStdout")
    case True
    with notify_calls_targets[OF es(2)]
    have "list_all (\<lambda>c. nt_Mode (call_target c) = ModeStdout) (notify_calls es)"
      by (auto simp: list_all_iff)
    from process.stdout_silent[OF this] http show ?thesis by simp
  next
    case False
    with http process.calls_confined show ?thesis by simp
  qed
qed

text \<open>C3. An approval, from the click to the outside.  With the real controller and notifier, whatever Google Cloud
  and Slack answer: changes are asked of Google Cloud only if the operation is not running already, the
  approver may approve this requester and is on the allow-list, the button has not expired, and the type of
  the resource is known; each change concerns a service, a pool, a job or a database instance that the
  request names, in its project and place, with a share between 0 and 100 percent, and a job is started with
  its own arguments and the one that applies the migration.  Everything that is posted goes to Slack, and
  nothing is posted for a target on standard output.\<close>

theorem approval_end_to_end:
  assumes run: "run_state (ApproveAction (real_env T) chk req t a) w = (r, w')"
    and notifier: "ot_notifier T = process_notifier W C fb"
  shows "\<exists>cs hs. os_cloud (after T (trace w')) = os_cloud (after T (trace w)) @ cs \<and>
    os_http (after T (trace w')) = os_http (after T (trace w)) @ hs \<and>
    list_all (asks_for req) cs \<and>
    (cs \<noteq> [] \<longrightarrow> OperationKey req \<notin> ms_keys (rw_store w) \<and> ValidateApproverPermitted req a = None \<and>
       IsAuthorized chk (ar_ApproverID req) \<and> \<not> IsExpired chk (ot_clock T (trace w)) (ar_IssuedAt req) \<and>
       ar_ResourceType req \<in> {ResourceTypeService, ResourceTypeJob, ResourceTypeWorkerPool}) \<and>
    list_all (may_post fb) hs \<and> (nt_Mode t = ModeStdout \<longrightarrow> hs = [])"
proof -
  from ApproveAction_names[OF run] obtain gs where
    gs: "gcp_calls (trace w') = gcp_calls (trace w) @ gs" "list_all (names_resource req) gs"
    and guards: "gs \<noteq> [] \<Longrightarrow> OperationKey req \<notin> ms_keys (rw_store w) \<and> guards_hold (real_env T) chk req a (trace w)"
    by blast
  obtain cs where cs: "os_cloud (after T (trace w')) = os_cloud (after T (trace w)) @ cs" "list_all (asks_for req) cs"
    using cloud_ops_ask[OF gs(2)] by (auto simp: cloud_after gs(1))
  have "cs \<noteq> [] \<Longrightarrow> gs \<noteq> []"
    using cs(1) by (auto simp: cloud_after gs(1))
  moreover obtain hs where "os_http (after T (trace w')) = os_http (after T (trace w)) @ hs"
    "list_all (may_post fb) hs" "nt_Mode t = ModeStdout \<longrightarrow> hs = []"
    using notes_posted[OF ApproveAction_notes run notifier] by blast
  ultimately show ?thesis
    using cs guards by (intro exI[of _ cs] exI[of _ hs]) (auto simp: guards_hold_def real_env_def)
qed

definition quiet_cloud :: cloud_api where
  "quiet_cloud =
     \<lparr>ca_GetService = (\<lambda>_ _. Inr \<lparr>cr_split = [\<lparr>te_revision = ''r0'', te_percent = 100\<rparr>], cr_latest = ''r0''\<rparr>),
      ca_GetWorkerPool = (\<lambda>_ _. Inl ''none''), ca_GetJob = (\<lambda>_ _. Inr [''--db'']),
      ca_call = (\<lambda>_ _. None), ca_wait = (\<lambda>_ _. None)\<rparr>"

definition sample_http_world :: http_world where
  "sample_http_world =
     \<lparr>hw_url = (\<lambda>u. Inr \<lparr>pu_Scheme = ''https'', pu_Hostname = ''hooks.slack.com'', pu_Text = u\<rparr>),
      hw_build = (\<lambda>_. None), hw_quote = (\<lambda>s. s), hw_json = (\<lambda>_. None), hw_do = (\<lambda>_ _. Inr (200, []))\<rparr>"

definition sample_slack_codec :: slack_codec where
  "sample_slack_codec = \<lparr>sl_parse = (\<lambda>_. None), sl_marshal = (\<lambda>_. []), sl_deflate = (\<lambda>s. s), sl_inflate = Some\<rparr>"

definition sample_tools :: op_tools where
  "sample_tools =
     \<lparr>ot_notifier = process_notifier sample_http_world sample_slack_codec None, ot_cloud = quiet_cloud,
      ot_sqladmin = (\<lambda>_. None), ot_backup = (\<lambda>_. \<lparr>bk_poll = (\<lambda>_. PollDone []), bk_cancel = (\<lambda>_. None)\<rparr>),
      ot_clock = (\<lambda>_. 1000)\<rparr>"

definition stdout_target :: notify_target where
  "stdout_target = \<lparr>nt_CallbackURL = [], nt_Mode = ModeStdout, nt_ChannelID = [], nt_ThreadTS = []\<rparr>"

lemma quiet_shift:
  "ot_cloud T = quiet_cloud \<Longrightarrow> fst (cloud_op T (shift_fn TrafficShift d p) l) = None"
  by (simp add: shift_fn_def quiet_cloud_def controller_ShiftTraffic_def run_operation_def Let_def)

text \<open>Where Google Cloud refuses nothing, an approval that passes the guards carries out its whole plan.\<close>

lemma quiet_approval:
  assumes run: "run_state (ApproveAction (real_env T) chk req t a) w = (r, w')"
    and cloud: "ot_cloud T = quiet_cloud"
    and guards: "OperationKey req \<notin> ms_keys (rw_store w)" "guards_hold (real_env T) chk req a (trace w)"
    and req: "ar_ResourceType req = ResourceTypeService" "ParseAction (ar_Action req) = Inr act"
    and start: "gcp_calls (trace w) = []"
  shows "r = None \<and> os_cloud (after T (trace w')) =
    fold (\<lambda>c l. snd (cloud_op T c l)) (shift_calls TrafficShift (shift_percent act) (plan req)) []"
proof -
  let ?w0 = "w\<lparr>rw_store := snd (TryLock (OperationKey req) (rw_store w))\<rparr>"
  from ApproveAction_unlocked[OF guards(1) run] obtain w1 where
    w1: "run_state (approve_locked (real_env T) chk req t a) ?w0 = (r, w1)"
    and w': "w' = w1\<lparr>rw_store := Release (OperationKey req) (rw_store w1)\<rparr>" by blast
  have "guards_hold (real_env T) chk req a (trace ?w0)" using guards(2) by simp
  from w1 approve_locked_passed[OF this, of t] req(1)
  have "run_state (approveShift (real_env T) TrafficShift req t) ?w0 = (r, w1)" by (simp add: go_consts)
  from approveShift_calls[OF req(2) this]
  have "r = None \<and> gcp_calls (trace w1) = shift_calls TrafficShift (shift_percent act) (plan req)"
    using start by (auto simp: shift_reply_def real_env_def quiet_shift[OF cloud])
  then show ?thesis by (simp add: w' cloud_after)
qed

lemma sample_approval_run:
  assumes "run_state (ApproveAction (real_env sample_tools) sample_checker sample_request stdout_target [])
    empty_world = (r, w')"
  shows "os_cloud (after sample_tools (trace w')) =
   [UpdateService ''projects/p/locations/l/services/a''
      [\<lparr>te_revision = ''r1'', te_percent = 30\<rparr>, \<lparr>te_revision = ''r0'', te_percent = 70\<rparr>],
    UpdateService ''projects/p/locations/l/services/b''
      [\<lparr>te_revision = ''r2'', te_percent = 30\<rparr>, \<lparr>te_revision = ''r0'', te_percent = 70\<rparr>]]"
proof -
  have "guards_hold (real_env sample_tools) sample_checker sample_request [] (trace empty_world)"
    by (simp add: guards_hold_def ValidateApproverPermitted_def IsAuthorized_def IsExpired_def real_env_def
        sample_tools_def sample_defs)
  moreover have act: "ParseAction (ar_Action sample_request) = Inr \<lparr>act_Name = ''canary'', act_Percent = 30\<rparr>"
    by code_simp
  ultimately have "os_cloud (after sample_tools (trace w')) = fold (\<lambda>c l. snd (cloud_op sample_tools c l))
      (shift_calls TrafficShift 30 (plan sample_request)) []"
    using quiet_approval[OF assms, of "\<lparr>act_Name = ''canary'', act_Percent = 30\<rparr>"]
    by (simp add: sample_tools_def empty_world_def NewMemoryStore_def sample_request_def shift_percent_def
        rollback_name_def)
  also have "fold (\<lambda>c l. snd (cloud_op sample_tools c l)) (shift_calls TrafficShift 30 (plan sample_request)) [] =
   [UpdateService ''projects/p/locations/l/services/a''
      [\<lparr>te_revision = ''r1'', te_percent = 30\<rparr>, \<lparr>te_revision = ''r0'', te_percent = 70\<rparr>],
    UpdateService ''projects/p/locations/l/services/b''
      [\<lparr>te_revision = ''r2'', te_percent = 30\<rparr>, \<lparr>te_revision = ''r0'', te_percent = 70\<rparr>]]"
    by code_simp
  finally show ?thesis .
qed

theorem approval_end_to_end_witness:
  "list_all (asks_for sample_request) (os_cloud (after sample_tools (trace (snd (run_state
      (ApproveAction (real_env sample_tools) sample_checker sample_request stdout_target []) empty_world))))) \<and>
   IsAuthorized sample_checker (ar_ApproverID sample_request)"
proof -
  obtain r w' where run: "run_state (ApproveAction (real_env sample_tools) sample_checker sample_request
      stdout_target []) empty_world = (r, w')" by fastforce
  have "ot_notifier sample_tools = process_notifier sample_http_world sample_slack_codec None"
    by (simp add: sample_tools_def)
  from approval_end_to_end[OF run this] obtain cs where
    cs: "os_cloud (after sample_tools (trace w')) = os_cloud (after sample_tools (trace empty_world)) @ cs"
    and asks: "list_all (asks_for sample_request) cs"
    and guards: "cs \<noteq> [] \<longrightarrow> IsAuthorized sample_checker (ar_ApproverID sample_request)" by blast
  have "os_cloud (after sample_tools (trace empty_world)) = []" by (simp add: empty_world_def after_def)
  with cs have is_cs: "os_cloud (after sample_tools (trace w')) = cs" by simp
  then have "cs \<noteq> []" using sample_approval_run[OF run] by auto
  with is_cs show ?thesis using asks guards by (simp add: run)
qed

end
