(* ===== verification/Cli.thy ===== *)
theory Cli
  imports Operations Server_Wiring
begin

text \<open>
  The command line tool (\<open>internal/adapter/input/cli\<close>, \<open>cmd/runops/main.go\<close>): the second way to the approval
  use case and to the project registry.  Splitting the command line into a command, its arguments and flags
  is done by the library Cobra and is an argument; a flag that has to be given is \<open>None\<close> when it is absent.
  Cobra checks the number of arguments, then the required flags, then runs the command.
\<close>

section \<open>Commands\<close>

record approve_flags =
  af_project :: "string option"
  af_location :: "string option"
  af_action :: string
  af_target :: string
  af_approver :: string
  af_sqlInstance :: string
  af_noSlack :: bool

record deny_flags =
  df_project :: "string option"
  df_location :: "string option"
  df_approver :: string
  df_noSlack :: bool

record add_flags =
  gf_org :: "string option"
  gf_repo :: "string option"
  gf_workspace :: "string option"
  gf_slackChannel :: string
  gf_installationID :: int64

datatype project_command =
    ProjectAdd "string list" add_flags
  | ProjectList "string list" string
  | ProjectShow "string list"
  | ProjectArchive "string list"

datatype cli_command =
    ApproveCmd "string list" approve_flags
  | DenyCmd "string list" deny_flags
  | ProjectCmd project_command

datatype cli_error =
    WrongArgs
  | RequiredFlags "string list"
  | ActionRequired
  | ApprovalFailed usecase_error
  | DenyFailed usecase_error
  | RegistryFailed project_error
  | UnknownStatus string
  | UnknownCommand
  | StartFailed string

datatype cli_output =
    Printed string
  | Table "string list list"
  | Shown "(string \<times> string) list"

definition missing_flags :: "(string \<times> string option) list \<Rightarrow> string list" where
  "missing_flags fs = map fst (filter (\<lambda>f. snd f = None) fs)"

definition cobra_check :: "nat \<Rightarrow> string list \<Rightarrow> (string \<times> string option) list \<Rightarrow> cli_error option" where
  "cobra_check n args required =
     (if length args \<noteq> n then Some WrongArgs
      else if missing_flags required \<noteq> [] then Some (RequiredFlags (missing_flags required))
      else None)"

section \<open>Approve and deny\<close>

text \<open>The argument is the output of \<open>git config user.email\<close>, if it ran.\<close>

definition gitUserEmail :: "string option \<Rightarrow> string" where
  "gitUserEmail out =
     (case out of
        None \<Rightarrow> ''unknown@cli''
      | Some s \<Rightarrow> if trim_space s = [] then ''unknown@cli'' else trim_space s)"

definition stdout_notify :: notify_target where
  "stdout_notify = \<lparr>nt_CallbackURL = [], nt_Mode = ModeStdout, nt_ChannelID = [], nt_ThreadTS = []\<rparr>"

definition approve_request :: "string option \<Rightarrow> string list \<Rightarrow> approve_flags \<Rightarrow> approval_request" where
  "approve_request git args f =
     zero_request\<lparr>ar_Project := the (af_project f), ar_Location := the (af_location f),
       ar_ResourceType := args ! 0, ar_ResourceNames := args ! 1, ar_Targets := af_target f,
       ar_Action := af_action f,
       ar_ApproverID := (if af_approver f = [] then gitUserEmail git else af_approver f),
       ar_IssuedAt := 0, ar_SQLInstanceName := af_sqlInstance f\<rparr>"

definition newApproveCmd ::
  "effect env \<Rightarrow> auth_checker \<Rightarrow> string option \<Rightarrow> string list \<Rightarrow> approve_flags \<Rightarrow> runops_world \<Rightarrow>
   (cli_error + cli_output) \<times> runops_world" where
  "newApproveCmd E chk git args f w =
     (case cobra_check 2 args [(''location'', af_location f), (''project'', af_project f)] of
        Some e \<Rightarrow> (Inl e, w)
      | None \<Rightarrow>
          if af_action f = [] then (Inl ActionRequired, w)
          else (let (r, w') = run_state (ApproveAction E chk (approve_request git args f) stdout_notify []) w
                in case r of
                     Some e \<Rightarrow> (Inl (ApprovalFailed e), w')
                   | None \<Rightarrow> (Inr (Printed ''Successfully approved and executed.''), w')))"

definition deny_request :: "string option \<Rightarrow> string list \<Rightarrow> deny_flags \<Rightarrow> approval_request" where
  "deny_request git args f =
     zero_request\<lparr>ar_Project := the (df_project f), ar_Location := the (df_location f),
       ar_ResourceType := args ! 0, ar_ResourceNames := args ! 1,
       ar_ApproverID := (if df_approver f = [] then gitUserEmail git else df_approver f),
       ar_IssuedAt := 0\<rparr>"

definition newDenyCmd ::
  "effect env \<Rightarrow> string option \<Rightarrow> string list \<Rightarrow> deny_flags \<Rightarrow> runops_world \<Rightarrow>
   (cli_error + cli_output) \<times> runops_world" where
  "newDenyCmd E git args f w =
     (case cobra_check 2 args [(''location'', df_location f), (''project'', df_project f)] of
        Some e \<Rightarrow> (Inl e, w)
      | None \<Rightarrow>
          (let (r, w') = run_state (DenyAction E (deny_request git args f) stdout_notify) w
           in case r of
                Some e \<Rightarrow> (Inl (DenyFailed e), w')
              | None \<Rightarrow> (Inr (Printed ''Operation denied.''), w')))"

section \<open>Projects\<close>

definition add_project :: "string list \<Rightarrow> add_flags \<Rightarrow> project" where
  "add_project args f =
     \<lparr>pj_ID = args ! 0, pj_GitHubOrg = the (gf_org f), pj_GitHubRepo = the (gf_repo f),
      pj_WorkspacePath = the (gf_workspace f), pj_SlackDefaultChannel = gf_slackChannel f,
      pj_GitHubAppInstallationID = gf_installationID f, pj_Status = [], pj_CreatedAt = 0, pj_ArchivedAt = None\<rparr>"

definition newProjectAddCmd ::
  "project_port \<Rightarrow> env_store \<Rightarrow> string list \<Rightarrow> add_flags \<Rightarrow> registry \<Rightarrow> (cli_error + cli_output) \<times> registry" where
  "newProjectAddCmd P E args f t =
     (case cobra_check 1 args [(''org'', gf_org f), (''repo'', gf_repo f), (''workspace'', gf_workspace f)] of
        Some e \<Rightarrow> (Inl e, t)
      | None \<Rightarrow>
          (let p = add_project args f; r = po_Add P E p t
           in case fst r of
                Inl e \<Rightarrow> (Inl (RegistryFailed e), snd r)
              | Inr _ \<Rightarrow> (Inr (Printed (''added project '' @ pj_ID p)), snd r)))"

definition buildListFilter :: "string \<Rightarrow> cli_error + string" where
  "buildListFilter status =
     (let s = lower (trim_space status)
      in if s = [] \<or> s = ''all'' then Inr []
         else if s = ''active'' then Inr ProjectStatusActive
         else if s = ''archived'' then Inr ProjectStatusArchived
         else Inl (UnknownStatus status))"

definition list_row :: "project \<Rightarrow> string list" where
  "list_row p = [pj_ID p, pj_GitHubOrg p, pj_GitHubRepo p, pj_WorkspacePath p, pj_Status p]"

definition newProjectListCmd ::
  "project_port \<Rightarrow> env_store \<Rightarrow> string list \<Rightarrow> string \<Rightarrow> registry \<Rightarrow> (cli_error + cli_output) \<times> registry" where
  "newProjectListCmd P E args status t =
     (case cobra_check 0 args [] of
        Some e \<Rightarrow> (Inl e, t)
      | None \<Rightarrow>
     (case buildListFilter status of
        Inl e \<Rightarrow> (Inl e, t)
      | Inr filt \<Rightarrow>
          (let r = po_List P E filt t
           in case fst r of
                Inl e \<Rightarrow> (Inl (RegistryFailed e), snd r)
              | Inr ps \<Rightarrow>
                  (Inr (Table ([''ID'', ''ORG'', ''REPO'', ''WORKSPACE'', ''STATUS''] # map list_row ps)), snd r))))"

text \<open>The first argument formats an instant.\<close>

definition show_lines :: "(gotime \<Rightarrow> string) \<Rightarrow> project \<Rightarrow> (string \<times> string) list" where
  "show_lines fmt p =
     [(''id'', pj_ID p), (''github_org'', pj_GitHubOrg p), (''github_repo'', pj_GitHubRepo p),
      (''workspace_path'', pj_WorkspacePath p), (''slack_default_channel'', pj_SlackDefaultChannel p),
      (''github_app_installation_id'', show_int (sint (pj_GitHubAppInstallationID p))),
      (''status'', pj_Status p), (''created_at'', fmt (pj_CreatedAt p))] @
     (case pj_ArchivedAt p of None \<Rightarrow> [] | Some a \<Rightarrow> [(''archived_at'', fmt a)])"

definition newProjectShowCmd ::
  "(gotime \<Rightarrow> string) \<Rightarrow> project_port \<Rightarrow> env_store \<Rightarrow> string list \<Rightarrow> registry \<Rightarrow> (cli_error + cli_output) \<times> registry" where
  "newProjectShowCmd fmt P E args t =
     (case cobra_check 1 args [] of
        Some e \<Rightarrow> (Inl e, t)
      | None \<Rightarrow>
          (let r = po_Get P E (args ! 0) t
           in case fst r of
                Inl e \<Rightarrow> (Inl (RegistryFailed e), snd r)
              | Inr p \<Rightarrow> (Inr (Shown (show_lines fmt p)), snd r)))"

definition newProjectArchiveCmd ::
  "project_port \<Rightarrow> env_store \<Rightarrow> string list \<Rightarrow> registry \<Rightarrow> (cli_error + cli_output) \<times> registry" where
  "newProjectArchiveCmd P E args t =
     (case cobra_check 1 args [] of
        Some e \<Rightarrow> (Inl e, t)
      | None \<Rightarrow>
          (let r = po_Archive P E (args ! 0) t
           in case fst r of
                Inl e \<Rightarrow> (Inl (RegistryFailed e), snd r)
              | Inr _ \<Rightarrow> (Inr (Printed (''archived project '' @ args ! 0)), snd r)))"

fun newProjectCmd ::
  "(gotime \<Rightarrow> string) \<Rightarrow> project_port \<Rightarrow> env_store \<Rightarrow> project_command \<Rightarrow> registry \<Rightarrow>
   (cli_error + cli_output) \<times> registry" where
  "newProjectCmd fmt P E (ProjectAdd args f) t = newProjectAddCmd P E args f t"
| "newProjectCmd fmt P E (ProjectList args status) t = newProjectListCmd P E args status t"
| "newProjectCmd fmt P E (ProjectShow args) t = newProjectShowCmd fmt P E args t"
| "newProjectCmd fmt P E (ProjectArchive args) t = newProjectArchiveCmd P E args t"

section \<open>The process\<close>

record cli_host =
  lh_gcp :: gerror
  lh_state :: host
  lh_git :: "string option"
  lh_http :: http_world
  lh_codec :: slack_codec
  lh_tools :: op_tools
  lh_time :: "gotime \<Rightarrow> string"

record cli_state =
  cs_world :: runops_world
  cs_registry :: registry

text \<open>The tools of the process: the notifier has no fallback.\<close>

definition cli_tools :: "cli_host \<Rightarrow> op_tools" where
  "cli_tools H = (lh_tools H)\<lparr>ot_notifier := process_notifier (lh_http H) (lh_codec H) None\<rparr>"

fun cli_execute ::
  "cli_host \<Rightarrow> auth_checker \<Rightarrow> project_port option \<Rightarrow> env_store \<Rightarrow> cli_command \<Rightarrow> cli_state \<Rightarrow>
   (cli_error + cli_output) \<times> cli_state" where
  "cli_execute H chk P E (ApproveCmd args f) s =
     (let (r, w) = newApproveCmd (real_env (cli_tools H)) chk (lh_git H) args f (cs_world s)
      in (r, s\<lparr>cs_world := w\<rparr>))"
| "cli_execute H chk P E (DenyCmd args f) s =
     (let (r, w) = newDenyCmd (real_env (cli_tools H)) (lh_git H) args f (cs_world s)
      in (r, s\<lparr>cs_world := w\<rparr>))"
| "cli_execute H chk P E (ProjectCmd c) s =
     (case P of
        None \<Rightarrow> (Inl UnknownCommand, s)
      | Some port \<Rightarrow>
          (let (r, t) = newProjectCmd (lh_time H) port E c (cs_registry s)
           in (r, s\<lparr>cs_registry := t\<rparr>)))"

definition cli_start :: "registry \<Rightarrow> cli_state" where
  "cli_start t = \<lparr>cs_world = \<lparr>trace = [], rw_store = NewMemoryStore\<rparr>, cs_registry = t\<rparr>"

text \<open>An error is the exit status 1.\<close>

definition cli_main ::
  "cli_host \<Rightarrow> getenv \<Rightarrow> env_store \<Rightarrow> cli_command \<Rightarrow> registry \<Rightarrow> (cli_error + cli_output) \<times> cli_state" where
  "cli_main H getenv E cmd t =
     (case lh_gcp H of
        Some e \<Rightarrow> (Inl (StartFailed (''failed to create GCP controller: '' @ e)), cli_start t)
      | None \<Rightarrow>
     (case ResolveFromEnv (lh_state H) getenv of
        Inl e \<Rightarrow> (Inl (StartFailed (''project registry init: '' @ e)), cli_start t)
      | Inr registry \<Rightarrow>
          cli_execute H (NewEnvAuthChecker (getenv ''ALLOWED_SLACK_USERS'') (getenv ''BUTTON_EXPIRY_SECONDS''))
            (map_option backend_port registry) E cmd (cli_start t)))"

section \<open>Approvals on the command line\<close>

lemma approveShift_errors:
  assumes "run_state (approveShift E kind req target) w = (r, w')"
  shows "r = None \<or> (\<exists>e. r = Some (BadAction e)) \<or> (\<exists>e. r = Some (GcpFailed e))"
proof (cases "ParseAction (ar_Action req)")
  case (Inl e)
  with assms show ?thesis by (auto simp: approveShift_bad_action)
next
  case (Inr act)
  from approveShift_calls[OF this assms] show ?thesis by auto
qed

lemma approveJob_errors:
  "run_state (approveJob E req target) w = (r, w') \<Longrightarrow>
     r = None \<or> r = Some EmptyJobName \<or> (\<exists>e. r = Some (GcpFailed e))"
  by (auto simp: approveJob_def Let_def split: if_splits option.splits prod.splits)

lemma approve_locked_errors:
  assumes "run_state (approve_locked E chk req target a) w = (r, w')" "guards_hold E chk req a (trace w)"
  shows "r = None \<or> r = Some EmptyJobName \<or> (\<exists>e. r = Some (BadAction e)) \<or> (\<exists>e. r = Some (GcpFailed e))"
  using assms approveShift_errors[of E _ req target w r w'] approveJob_errors[of E req target w r w']
  by (auto simp: approve_locked_passed split: if_splits)

text \<open>In a fresh process no operation is running, and a request from the command line neither expires nor names an
  agent.\<close>

lemma cli_approval_errors:
  assumes run: "run_state (ApproveAction E chk (approve_request git args f) target []) w = (r, w')"
    and fresh: "ms_keys (rw_store w) = {}"
  shows "r = None \<or> r \<in> {Some (UnauthorizedUser (ar_ApproverID (approve_request git args f))),
      Some (UnsupportedType (args ! 0)), Some EmptyJobName} \<or>
    (\<exists>e. r = Some (BadAction e)) \<or> (\<exists>e. r = Some (GcpFailed e))"
proof -
  let ?req = "approve_request git args f"
  have zero: "ValidateApproverPermitted ?req [] = None" "\<not> IsExpired chk now (ar_IssuedAt ?req)" for now
    by (simp_all add: approve_request_def zero_request_def ValidateApproverPermitted_def IsExpired_def go_consts)
  from fresh have free: "OperationKey ?req \<notin> ms_keys (rw_store w)" by simp
  let ?w0 = "w\<lparr>rw_store := snd (TryLock (OperationKey ?req) (rw_store w))\<rparr>"
  from ApproveAction_unlocked[OF free run] obtain w1 where
    w1: "run_state (approve_locked E chk ?req target []) ?w0 = (r, w1)" by blast
  show ?thesis
  proof (cases "guards_hold E chk ?req [] (trace ?w0)")
    case True
    from approve_locked_errors[OF w1 True] show ?thesis by auto
  next
    case False
    with w1 zero show ?thesis
      by (auto simp: approve_locked_def guards_hold_def approve_request_def split: if_splits)
  qed
qed

lemma cobra_check_error: "cobra_check n args fs = Some e \<Longrightarrow> e = WrongArgs \<or> (\<exists>m. e = RequiredFlags m)"
  by (auto simp: cobra_check_def split: if_splits)

lemma other_commands_errors:
  "newApproveCmd E chk git args f w = (res, w') \<Longrightarrow> res \<noteq> Inl (DenyFailed e)"
  "newDenyCmd E git args f' w = (res, w') \<Longrightarrow> res \<noteq> Inl (ApprovalFailed e)"
  by (auto simp: newApproveCmd_def newDenyCmd_def dest!: cobra_check_error split: option.splits if_splits prod.splits)

lemma newApproveCmd_cases:
  assumes "newApproveCmd E chk git args f w = (res, w')"
  shows "(w' = w \<and> (\<forall>e. res \<noteq> Inl (ApprovalFailed e))) \<or>
    (length args = 2 \<and> af_action f \<noteq> [] \<and>
     (\<exists>r. run_state (ApproveAction E chk (approve_request git args f) stdout_notify []) w = (r, w') \<and>
        (\<forall>e. res = Inl (ApprovalFailed e) \<longrightarrow> r = Some e) \<and> (isl res \<longleftrightarrow> r \<noteq> None)))"
  using assms
  by (auto simp: newApproveCmd_def cobra_check_def split: option.splits if_splits prod.splits)

lemma stdout_notify_silent [simp]: "nt_Mode stdout_notify = ModeStdout"
  by (simp add: stdout_notify_def)

lemma cli_tools_notifier: "ot_notifier (cli_tools H) = process_notifier (lh_http H) (lh_codec H) None"
  by (simp add: cli_tools_def)

lemma after_Nil [simp]: "os_http (after T []) = []" "os_cloud (after T []) = []"
  by (simp_all add: after_def)

lemma cli_approve:
  assumes "newApproveCmd (real_env (cli_tools H)) chk git args f \<lparr>trace = [], rw_store = NewMemoryStore\<rparr> = (res, w')"
  shows "os_http (after (cli_tools H) (trace w')) = [] \<and>
    (os_cloud (after (cli_tools H) (trace w')) \<noteq> [] \<longrightarrow> length args = 2 \<and> af_action f \<noteq> [] \<and>
       IsAuthorized chk (ar_ApproverID (approve_request git args f)) \<and>
       list_all (asks_for (approve_request git args f)) (os_cloud (after (cli_tools H) (trace w')))) \<and>
    (\<forall>e. res = Inl (ApprovalFailed e) \<longrightarrow>
       e \<in> {UnauthorizedUser (ar_ApproverID (approve_request git args f)), UnsupportedType (args ! 0), EmptyJobName} \<or>
       (\<exists>a. e = BadAction a) \<or> (\<exists>t. e = GcpFailed t))"
  using newApproveCmd_cases[OF assms]
proof (elim disjE conjE exE)
  fix r
  assume args: "length args = 2" "af_action f \<noteq> []"
    and run: "run_state (ApproveAction (real_env (cli_tools H)) chk (approve_request git args f) stdout_notify [])
      \<lparr>trace = [], rw_store = NewMemoryStore\<rparr> = (r, w')"
    and res: "\<forall>e. res = Inl (ApprovalFailed e) \<longrightarrow> r = Some e"
  obtain gs where gs: "gcp_calls (trace w') = gs" "list_all (names_resource (approve_request git args f)) gs"
    "gs \<noteq> [] \<Longrightarrow> IsAuthorized chk (ar_ApproverID (approve_request git args f))"
    using ApproveAction_names[OF run] by (auto simp: guards_hold_def)
  have cloud: "list_all (asks_for (approve_request git args f)) (os_cloud (after (cli_tools H) (trace w')))"
    using cloud_ops_ask[OF gs(2), of "cli_tools H" "[]"] by (auto simp: cloud_after gs(1))
  have "os_cloud (after (cli_tools H) (trace w')) \<noteq> [] \<Longrightarrow> gs \<noteq> []"
    using gs(1) by (auto simp: cloud_after)
  moreover have "os_http (after (cli_tools H) (trace w')) = []"
    using notes_posted[OF ApproveAction_notes run cli_tools_notifier] by auto
  moreover have "ms_keys (rw_store (\<lparr>trace = [], rw_store = NewMemoryStore\<rparr> :: runops_world)) = {}"
    by (simp add: NewMemoryStore_def)
  ultimately show ?thesis
    using cloud gs(3) args res cli_approval_errors[OF run] by auto
qed auto

lemma cli_deny:
  assumes "newDenyCmd (real_env (cli_tools H)) git args f \<lparr>trace = [], rw_store = NewMemoryStore\<rparr> = (res, w')"
  shows "after (cli_tools H) (trace w') = after (cli_tools H) [] \<and> (\<forall>e. res \<noteq> Inl (DenyFailed e))"
proof (cases "cobra_check 2 args [(''location'', df_location f), (''project'', df_project f)]")
  case None
  have "nf_ReplaceMessage (process_notifier (lh_http H) (lh_codec H) None) stdout_notify u l = (None, l)" for u l
    by (rule confines_silent[OF process.replace stdout_notify_silent])
  then have co: "carry_out (cli_tools H) (ReplaceMessage stdout_notify m) s = (None, s)" for m s
    by (simp add: cli_tools_notifier)
  with None assms show ?thesis
    by (auto simp: newDenyCmd_def DenyAction_def real_env_def after_def co simp del: carry_out.simps)
qed (use assms in \<open>auto simp: newDenyCmd_def dest: cobra_check_error\<close>)

text \<open>C31. What the tool can do to the outside.  Whatever is typed, nothing is posted to Slack.  A change is asked of
  Google Cloud only by \<open>approve\<close> with an action, in the name of a person on the allow-list of the environment,
  and concerns only the resources that the arguments name.  An approval is refused only because the person is
  not on the list, the type of the resource or the action is not known, there is no job, or Google Cloud
  failed: a fresh process never finds the operation running or expired or forbidden to an agent.  Denying
  changes nothing and cannot fail, and only the project commands touch the registry.\<close>

theorem cli_confined:
  assumes "cli_main H getenv E cmd t = (res, s)"
  shows "os_http (after (cli_tools H) (trace (cs_world s))) = [] \<and>
    (os_cloud (after (cli_tools H) (trace (cs_world s))) \<noteq> [] \<longrightarrow>
       (\<exists>args f. cmd = ApproveCmd args f \<and> length args = 2 \<and> af_action f \<noteq> [] \<and>
          ar_ApproverID (approve_request (lh_git H) args f) \<in> set (parseAllowedUsers (getenv ''ALLOWED_SLACK_USERS'')) \<and>
          list_all (asks_for (approve_request (lh_git H) args f))
            (os_cloud (after (cli_tools H) (trace (cs_world s)))))) \<and>
    (\<forall>e. res = Inl (ApprovalFailed e) \<longrightarrow>
       (\<exists>u. e = UnauthorizedUser u) \<or> (\<exists>ty. e = UnsupportedType ty) \<or> e = EmptyJobName \<or>
       (\<exists>a. e = BadAction a) \<or> (\<exists>g. e = GcpFailed g)) \<and>
    (\<forall>e. res \<noteq> Inl (DenyFailed e)) \<and>
    (cs_registry s \<noteq> t \<longrightarrow> (\<exists>c. cmd = ProjectCmd c))"
proof -
  consider (failed) m where "res = Inl (StartFailed m)" "s = cli_start t"
    | (ran) registry where "cli_execute H (NewEnvAuthChecker (getenv ''ALLOWED_SLACK_USERS'')
        (getenv ''BUTTON_EXPIRY_SECONDS'')) (map_option backend_port registry) E cmd (cli_start t) = (res, s)"
    using assms by (auto simp: cli_main_def split: option.splits sum.splits)
  then show ?thesis
  proof cases
    case failed
    then show ?thesis by (simp add: cli_start_def)
  next
    case ran
    show ?thesis
    proof (cases cmd)
      case (ApproveCmd args f)
      with ran obtain w' where "newApproveCmd (real_env (cli_tools H)) (NewEnvAuthChecker (getenv ''ALLOWED_SLACK_USERS'')
          (getenv ''BUTTON_EXPIRY_SECONDS'')) (lh_git H) args f \<lparr>trace = [], rw_store = NewMemoryStore\<rparr> = (res, w')"
        and s: "s = cli_start t\<lparr>cs_world := w'\<rparr>"
        by (auto simp: cli_start_def split: prod.splits)
      from cli_approve[OF this(1)] ApproveCmd s other_commands_errors(1)[OF this(1)] show ?thesis
        by (auto simp: cli_start_def IsAuthorized_def NewEnvAuthChecker_def)
    next
      case (DenyCmd args f)
      with ran obtain w' where "newDenyCmd (real_env (cli_tools H)) (lh_git H) args f
          \<lparr>trace = [], rw_store = NewMemoryStore\<rparr> = (res, w')"
        and s: "s = cli_start t\<lparr>cs_world := w'\<rparr>"
        by (auto simp: cli_start_def split: prod.splits)
      from cli_deny[OF this(1)] other_commands_errors(2)[OF this(1)] DenyCmd s show ?thesis
        by (auto simp: cli_start_def)
    next
      case (ProjectCmd c)
      with ran have "cs_world s = cs_world (cli_start t)"
        by (auto split: option.splits prod.splits)
      moreover from ran ProjectCmd have "\<forall>e. res \<noteq> Inl (ApprovalFailed e) \<and> res \<noteq> Inl (DenyFailed e)"
        by (cases c) (auto simp: newProjectAddCmd_def newProjectListCmd_def newProjectShowCmd_def
            newProjectArchiveCmd_def buildListFilter_def cobra_check_def Let_def
            split: option.splits sum.splits prod.splits if_splits)
      ultimately show ?thesis using ProjectCmd by (auto simp: cli_start_def)
    qed
  qed
qed

definition ops_environment :: getenv where
  "ops_environment k = (if k = ''ALLOWED_SLACK_USERS'' then ''ops@x'' else [])"

definition ops_host :: cli_host where
  "ops_host =
     \<lparr>lh_gcp = None,
      lh_state = \<lparr>ho_home = Inl [], ho_mkdir = (\<lambda>_. None),
                  ho_open = (\<lambda>_. None), ho_firestore = (\<lambda>_ _. None)\<rparr>,
      lh_git = Some ''ops@x '', lh_http = sample_http_world, lh_codec = sample_slack_codec, lh_tools = sample_tools,
      lh_time = (\<lambda>_. [])\<rparr>"

definition ops_flags :: approve_flags where
  "ops_flags =
     \<lparr>af_project = Some ''p'', af_location = Some ''l'', af_action = ''canary_10'', af_target = ''r1'',
      af_approver = [], af_sqlInstance = [], af_noSlack = False\<rparr>"

abbreviation "ops_command \<equiv> ApproveCmd [''service'', ''web''] ops_flags"

lemma ops_request:
  "approve_request (lh_git ops_host) [''service'', ''web''] ops_flags =
     zero_request\<lparr>ar_Project := ''p'', ar_Location := ''l'', ar_ResourceType := ResourceTypeService,
       ar_ResourceNames := ''web'', ar_Targets := ''r1'', ar_Action := ''canary_10'', ar_ApproverID := ''ops@x''\<rparr>"
  by code_simp

lemma ops_runs:
  assumes "cli_main ops_host ops_environment E ops_command t = (res, s)"
  shows "os_cloud (after (cli_tools ops_host) (trace (cs_world s))) =
    [UpdateService ''projects/p/locations/l/services/web''
       [\<lparr>te_revision = ''r1'', te_percent = 10\<rparr>, \<lparr>te_revision = ''r0'', te_percent = 90\<rparr>]]"
proof -
  let ?chk = "NewEnvAuthChecker ''ops@x'' []" and ?req = "approve_request (lh_git ops_host) [''service'', ''web''] ops_flags"
  let ?w = "\<lparr>trace = [], rw_store = NewMemoryStore\<rparr> :: runops_world"
  obtain r w' where run: "run_state (ApproveAction (real_env (cli_tools ops_host)) ?chk ?req stdout_notify []) ?w = (r, w')"
    by fastforce
  have res: "ResolveFromEnv (lh_state ops_host) ops_environment = Inr None" by code_simp
  from assms run have w': "cs_world s = w'"
    by (auto simp: cli_main_def res ops_host_def[THEN arg_cong, of lh_gcp] newApproveCmd_def cobra_check_def missing_flags_def
        ops_flags_def ops_environment_def cli_start_def split: option.splits prod.splits)
  have cloud: "ot_cloud (cli_tools ops_host) = quiet_cloud"
    by (simp add: cli_tools_def ops_host_def sample_tools_def)
  have auth: "IsAuthorized ?chk ''ops@x''" by code_simp
  have guards: "guards_hold (real_env (cli_tools ops_host)) ?chk ?req [] (trace ?w)"
    unfolding ops_request guards_hold_def using auth
    by (simp add: ValidateApproverPermitted_def IsExpired_def zero_request_def go_consts)
  have act: "ParseAction (ar_Action ?req) = Inr \<lparr>act_Name = ''canary'', act_Percent = 10\<rparr>" by code_simp
  have "os_cloud (after (cli_tools ops_host) (trace w')) = fold (\<lambda>c l. snd (cloud_op (cli_tools ops_host) c l))
      (shift_calls TrafficShift 10 (plan ?req)) []"
    using quiet_approval[OF run cloud _ guards _ act]
    by (simp add: NewMemoryStore_def ops_request shift_percent_def rollback_name_def)
  also have "\<dots> = [UpdateService ''projects/p/locations/l/services/web''
       [\<lparr>te_revision = ''r1'', te_percent = 10\<rparr>, \<lparr>te_revision = ''r0'', te_percent = 90\<rparr>]]"
    by code_simp
  finally show ?thesis by (simp add: w')
qed

theorem cli_confined_witness:
  "\<exists>args f. ops_command = ApproveCmd args f \<and>
     ar_ApproverID (approve_request (lh_git ops_host) args f) \<in> set (parseAllowedUsers ''ops@x'') \<and>
     asks_for (approve_request (lh_git ops_host) args f)
       (UpdateService ''projects/p/locations/l/services/web''
          [\<lparr>te_revision = ''r1'', te_percent = 10\<rparr>, \<lparr>te_revision = ''r0'', te_percent = 90\<rparr>])"
proof -
  obtain res s where run: "cli_main ops_host ops_environment calm_store ops_command empty_table = (res, s)"
    by fastforce
  from cli_confined[OF run] ops_runs[OF run] show ?thesis
    by (auto simp: ops_environment_def simp del: asks_for.simps)
qed

section \<open>Two ways to the registry\<close>

text \<open>A project command and the REST request that asks for the same.\<close>

definition flags_of :: "project \<Rightarrow> add_flags" where
  "flags_of p =
     \<lparr>gf_org = Some (pj_GitHubOrg p), gf_repo = Some (pj_GitHubRepo p), gf_workspace = Some (pj_WorkspacePath p),
      gf_slackChannel = pj_SlackDefaultChannel p, gf_installationID = pj_GitHubAppInstallationID p\<rparr>"

fun same_wish :: "rest_text \<Rightarrow> project_command \<Rightarrow> rest_route \<Rightarrow> bool" where
  "same_wish T (ProjectAdd args f) (RouteAdd (Some body)) \<longleftrightarrow>
     (case decode_project T body of None \<Rightarrow> False | Some p \<Rightarrow> args = [pj_ID p] \<and> f = flags_of p)"
| "same_wish T (ProjectList args status) (RouteList q) \<longleftrightarrow> args = [] \<and> status = q"
| "same_wish T (ProjectShow args) (RouteGet pid) \<longleftrightarrow> args = [pid]"
| "same_wish T (ProjectArchive args) (RouteArchive pid) \<longleftrightarrow> args = [pid]"
| "same_wish T _ _ \<longleftrightarrow> False"

text \<open>What the tool prints for what the endpoint answers.\<close>

fun printed_for :: "(gotime \<Rightarrow> string) \<Rightarrow> rest_route \<Rightarrow> rest_response \<Rightarrow> cli_output \<Rightarrow> bool" where
  "printed_for fmt r (RestProjects ps) out \<longleftrightarrow>
     out = Table ([''ID'', ''ORG'', ''REPO'', ''WORKSPACE'', ''STATUS''] # map list_row ps)"
| "printed_for fmt (RouteAdd b) (RestProject n p) out \<longleftrightarrow> out = Printed (''added project '' @ pj_ID p)"
| "printed_for fmt (RouteGet pid) (RestProject n p) out \<longleftrightarrow> out = Shown (show_lines fmt p)"
| "printed_for fmt (RouteArchive pid) (RestProject n p) out \<longleftrightarrow> out = Printed (''archived project '' @ pid)"
| "printed_for fmt _ _ out \<longleftrightarrow> False"

text \<open>What both ways need of a registry: an insert fills in what the command line leaves out.\<close>

locale cli_registry = rest_registry add get archive find listing port
  for add :: "env_store \<Rightarrow> project \<Rightarrow> registry \<Rightarrow> (project_error + unit) \<times> registry"
    and get :: "env_store \<Rightarrow> string \<Rightarrow> registry \<Rightarrow> (project_error + project) \<times> registry"
    and archive :: "env_store \<Rightarrow> string \<Rightarrow> registry \<Rightarrow> (project_error + unit) \<times> registry"
    and find :: "registry \<Rightarrow> string \<Rightarrow> project option"
    and listing :: "env_store \<Rightarrow> string \<Rightarrow> registry \<Rightarrow> (project_error + project list) \<times> registry"
    and port :: project_port +
  assumes add_defaults: "add E (p\<lparr>pj_Status := ProjectStatusActive, pj_CreatedAt := es_now E, pj_ArchivedAt := None\<rparr>) s =
    add E (p\<lparr>pj_Status := [], pj_CreatedAt := 0, pj_ArchivedAt := None\<rparr>) s"
begin

lemma error_is_answer: "\<exists>code m. writeRegistryError e = RestError code m"
  by (cases e) simp_all

abbreviation (input) twin_outcome ::
  "(gotime \<Rightarrow> string) \<Rightarrow> env_store \<Rightarrow> rest_route \<Rightarrow> rest_response \<times> registry \<Rightarrow>
   (cli_error + cli_output) \<times> registry \<Rightarrow> bool" where
  "twin_outcome fmt E route x y \<equiv> find (snd x) = find (snd y) \<and>
    (case fst y of
       Inl e \<Rightarrow> \<exists>code m. fst x = RestError code m
     | Inr out \<Rightarrow> printed_for fmt route (fst x) out \<or>
         (\<exists>pid e. route = RouteArchive pid \<and> fst (get E pid (snd y)) = Inl e \<and> fst x = writeRegistryError e))"

lemma twin_add:
  assumes "ah_registry h = port" "\<not> ah_writeDisabled h" "decode_project T body = Some p"
  shows "twin_outcome fmt E (RouteAdd (Some body)) (handleAdd T h E (Some body) s)
    (newProjectAddCmd port E [pj_ID p] (flags_of p) s)"
proof -
  have "add_project [pj_ID p] (flags_of p) = p\<lparr>pj_Status := [], pj_CreatedAt := 0, pj_ArchivedAt := None\<rparr>"
    by (cases p) (simp add: add_project_def flags_of_def)
  then show ?thesis
    using assms add_defaults[of E p s] error_is_answer
    by (auto simp: handleAdd_def newProjectAddCmd_def cobra_check_def missing_flags_def flags_of_def Let_def
        split: sum.split)
qed

lemma twin_list:
  assumes "ah_registry h = port"
  shows "twin_outcome fmt E (RouteList q) (handleList h E q s) (newProjectListCmd port E [] q s)"
  using assms error_is_answer
  by (auto simp: handleList_def newProjectListCmd_def parseStatusFilter_def buildListFilter_def cobra_check_def
      missing_flags_def Let_def split: sum.split)

lemma twin_show:
  assumes "ah_registry h = port"
  shows "twin_outcome fmt E (RouteGet pid) (handleGet h E pid s) (newProjectShowCmd fmt port E [pid] s)"
  using assms error_is_answer
  by (auto simp: handleGet_def newProjectShowCmd_def cobra_check_def missing_flags_def Let_def split: sum.split)

lemma twin_archive:
  assumes "ah_registry h = port" "\<not> ah_writeDisabled h"
  shows "twin_outcome fmt E (RouteArchive pid) (handleArchive h E pid s) (newProjectArchiveCmd port E [pid] s)"
  using assms error_is_answer
  by (auto simp: handleArchive_def handleGet_def newProjectArchiveCmd_def cobra_check_def missing_flags_def Let_def
      get_find split: sum.split)

lemma twins:
  assumes h: "ah_registry h = port" "\<not> ah_writeDisabled h" and au: "authorize h (rr_Authorization q)"
    and same: "same_wish T c (rr_Route q)"
  shows "twin_outcome fmt E (rr_Route q) (admin_ServeHTTP T h E q s) (newProjectCmd fmt port E c s)"
proof -
  have go: "admin_ServeHTTP T h E q s = (case rr_Route q of
      RouteAdd body \<Rightarrow> handleAdd T h E body s | RouteList status \<Rightarrow> handleList h E status s
    | RouteGet pid \<Rightarrow> handleGet h E pid s | RouteArchive pid \<Rightarrow> handleArchive h E pid s)"
    using au by (simp add: admin_ServeHTTP_def)
  from same consider
      (add) body p where "c = ProjectAdd [pj_ID p] (flags_of p)" "rr_Route q = RouteAdd (Some body)"
        "decode_project T body = Some p"
    | (listed) status where "c = ProjectList [] status" "rr_Route q = RouteList status"
    | (got) pid where "c = ProjectShow [pid]" "rr_Route q = RouteGet pid"
    | (archive) pid where "c = ProjectArchive [pid]" "rr_Route q = RouteArchive pid"
    by (cases "(T, c, rr_Route q)" rule: same_wish.cases) (auto split: option.splits)
  then show ?thesis
  proof cases
    case add
    show ?thesis unfolding go add(1,2) rest_route.case newProjectCmd.simps by (rule twin_add[OF h add(3)])
  next
    case listed
    show ?thesis unfolding go listed rest_route.case newProjectCmd.simps by (rule twin_list[OF h(1)])
  next
    case got
    show ?thesis unfolding go got rest_route.case newProjectCmd.simps by (rule twin_show[OF h(1)])
  next
    case archive
    show ?thesis unfolding go archive rest_route.case newProjectCmd.simps by (rule twin_archive[OF h])
  qed
qed

end

interpretation sqlite_cli: cli_registry sqlite_Add sqlite_Get sqlite_Archive row sqlite_List sqlite_port
  by unfold_locales (simp add: sqlite_Add_def sqlite_project_row_def split: option.split)

interpretation firestore_cli: cli_registry firestore_Add firestore_Get firestore_Archive row firestore_List firestore_port
  by unfold_locales (simp add: firestore_Add_def firestore_project_doc_def Let_def go_consts split: option.split)



end
