(* ===== verification/Token_Flights.thy ===== *)
theory Token_Flights
  imports Broker
begin

text \<open>
  The token cache under concurrent callers.  \<open>GetOrFetch\<close> (\<open>output/cache/installation_token_cache.go\<close>)
  runs its calls of one key through \<open>singleflight.Group.Do\<close>, which lets one caller work and hands the
  result to all that came meanwhile.  Callers are numbered by their arrival; what the upstream
  answers and when is free.
\<close>

record flights =
  fl_items :: items
  fl_waiting :: "string \<Rightarrow> nat list"
  fl_arrived :: nat
  fl_fetched :: "(string \<times> nat list \<times> (broker_error + installation_token)) list"
  fl_answered :: "(nat \<times> string \<times> (broker_error + installation_token)) list"

definition no_flights :: flights where
  "no_flights = \<lparr>fl_items = (\<lambda>_. None), fl_waiting = (\<lambda>_. []), fl_arrived = 0, fl_fetched = [], fl_answered = []\<rparr>"

definition answer_all ::
  "string \<Rightarrow> nat list \<Rightarrow> broker_error + installation_token \<Rightarrow> (nat \<times> string \<times> (broker_error + installation_token)) list" where
  "answer_all key ns res = map (\<lambda>n. (n, key, res)) ns"

text \<open>A caller that finds no fresh token waits, with those that came before it or as the first of a new
  flight.  The flight looks again, and fetches when there is still nothing.\<close>

inductive flight_step :: "flights \<Rightarrow> flights \<Rightarrow> bool" where
  hit: "cache_lookup now key (fl_items s) = (Some tok, m) \<Longrightarrow>
    flight_step s (s\<lparr>fl_items := m, fl_arrived := Suc (fl_arrived s),
      fl_answered := (fl_arrived s, key, Inr tok) # fl_answered s\<rparr>)"
| wait: "cache_lookup now key (fl_items s) = (None, m) \<Longrightarrow>
    flight_step s (s\<lparr>fl_items := m, fl_arrived := Suc (fl_arrived s),
      fl_waiting := (fl_waiting s)(key := fl_waiting s key @ [fl_arrived s])\<rparr>)"
| recheck_hit: "fl_waiting s key \<noteq> [] \<Longrightarrow> cache_lookup now key (fl_items s) = (Some tok, m) \<Longrightarrow>
    flight_step s (s\<lparr>fl_items := m, fl_waiting := (fl_waiting s)(key := []),
      fl_answered := answer_all key (fl_waiting s key) (Inr tok) @ fl_answered s\<rparr>)"
| fetch: "fl_waiting s key \<noteq> [] \<Longrightarrow> cache_lookup now key (fl_items s) = (None, m) \<Longrightarrow>
    flight_step s (s\<lparr>fl_items := (case res of Inl e \<Rightarrow> m | Inr tok \<Rightarrow> cache_store key tok m),
      fl_waiting := (fl_waiting s)(key := []),
      fl_fetched := (key, fl_waiting s key, res) # fl_fetched s,
      fl_answered := answer_all key (fl_waiting s key) res @ fl_answered s\<rparr>)"

inductive flights_reachable :: "flights \<Rightarrow> bool" where
  start: "flights_reachable no_flights"
| step: "flights_reachable s \<Longrightarrow> flight_step s s' \<Longrightarrow> flights_reachable s'"

type_synonym fetches = "(string \<times> nat list \<times> (broker_error + installation_token)) list"

definition token_fetched :: "fetches \<Rightarrow> string \<Rightarrow> installation_token \<Rightarrow> bool" where
  "token_fetched fs key tok \<longleftrightarrow> (\<exists>ns. (key, ns, Inr tok) \<in> set fs)"

text \<open>Where the tokens and the errors come from.\<close>

definition answer_ok :: "fetches \<Rightarrow> nat \<times> string \<times> (broker_error + installation_token) \<Rightarrow> bool" where
  "answer_ok fs a \<longleftrightarrow>
     (case a of (n, key, res) \<Rightarrow>
        (case res of
           Inr tok \<Rightarrow> token_fetched fs key tok
         | Inl e \<Rightarrow> \<exists>ns. (key, ns, Inl e) \<in> set fs \<and> n \<in> set ns))"

lemma fetched_Cons:
  "token_fetched fs key tok \<Longrightarrow> token_fetched (f # fs) key tok"
  "token_fetched ((key, ns, Inr tok) # fs) key tok"
  "answer_ok fs a \<Longrightarrow> answer_ok (f # fs) a"
  "n \<in> set ns \<Longrightarrow> answer_ok ((key, ns, res) # fs) (n, key, res)"
  by (auto simp: token_fetched_def answer_ok_def split: prod.splits sum.splits)

definition sources_ok :: "flights \<Rightarrow> bool" where
  "sources_ok s \<longleftrightarrow>
     (\<forall>key tok. fl_items s key = Some tok \<longrightarrow> token_fetched (fl_fetched s) key tok) \<and>
     (\<forall>a \<in> set (fl_answered s). answer_ok (fl_fetched s) a) \<and>
     (\<forall>(key, ns, res) \<in> set (fl_fetched s). ns \<noteq> [] \<and> (\<forall>n \<in> set ns. (n, key, res) \<in> set (fl_answered s)))"

text \<open>Every caller has one place: it waits for one key, or it has been answered, once.\<close>

definition waits :: "flights \<Rightarrow> nat \<Rightarrow> bool" where
  "waits s n \<longleftrightarrow> (\<exists>key. n \<in> set (fl_waiting s key))"

definition callers_ok :: "flights \<Rightarrow> bool" where
  "callers_ok s \<longleftrightarrow>
     distinct (map fst (fl_answered s)) \<and>
     (\<forall>key. distinct (fl_waiting s key)) \<and>
     (\<forall>key key'. key \<noteq> key' \<longrightarrow> set (fl_waiting s key) \<inter> set (fl_waiting s key') = {}) \<and>
     (\<forall>n. waits s n \<longrightarrow> n < fl_arrived s \<and> n \<notin> fst ` set (fl_answered s)) \<and>
     (\<forall>n \<in> fst ` set (fl_answered s). n < fl_arrived s) \<and>
     (\<forall>n < fl_arrived s. n \<in> fst ` set (fl_answered s) \<or> waits s n)"

lemma cache_lookup_cases:
  assumes "cache_lookup now key items = (r, m)"
  shows "m k = Some t \<Longrightarrow> items k = Some t" "r = Some t \<Longrightarrow> items key = Some t"
  using assms by (auto simp: cache_lookup_def split: option.splits if_splits)

lemma set_answer_all: "set (answer_all key ns res) = (\<lambda>n. (n, key, res)) ` set ns"
  by (simp add: answer_all_def)

lemma answer_all_callers [simp]:
  "fst ` set (answer_all key ns res) = set ns" "map fst (answer_all key ns res) = ns"
  by (auto simp: answer_all_def comp_def image_image)

lemma sources_step: "flight_step s s' \<Longrightarrow> sources_ok s \<Longrightarrow> sources_ok s'"
proof (induction rule: flight_step.induct)
  case (hit now key s tok m)
  have "answer_ok fs (n, key, Inr tok)" if "token_fetched fs key tok" for fs n
    using that by (simp add: answer_ok_def)
  with hit show ?case
    using cache_lookup_cases[OF hit(1)] by (auto simp: sources_ok_def)
next
  case (wait now key s m)
  then show ?case
    using cache_lookup_cases[OF wait(1)] by (auto simp: sources_ok_def)
next
  case (recheck_hit s key now tok m)
  have "answer_ok fs (n, key, Inr tok)" if "token_fetched fs key tok" for fs n
    using that by (simp add: answer_ok_def)
  with recheck_hit show ?case
    using cache_lookup_cases[OF recheck_hit(2)] by (auto simp: sources_ok_def set_answer_all)
next
  case (fetch s key now m res)
  then show ?case
    using cache_lookup_cases(1)[OF fetch(2)]
    by (cases res) (auto simp: sources_ok_def cache_store_def fetched_Cons set_answer_all)
qed

lemma callers_step: "flight_step s s' \<Longrightarrow> callers_ok s \<Longrightarrow> callers_ok s'"
proof (induction rule: flight_step.induct)
  case (hit now key s tok m)
  then show ?case by (auto simp: callers_ok_def waits_def less_Suc_eq)
next
  case (wait now key s m)
  then show ?case by (auto simp: callers_ok_def waits_def less_Suc_eq)
next
  case (recheck_hit s key now tok m)
  then show ?case by (auto simp: callers_ok_def waits_def image_Un)
next
  case (fetch s key now m res)
  then show ?case by (auto simp: callers_ok_def waits_def image_Un)
qed



end
