(* ===== verification/Daemons.thy ===== *)
theory Daemons
  imports Transport_Correct State_Factory
begin

text \<open>
  The two processes beside the archive of the agents (\<open>cmd/dmail-emitter/main.go\<close>,
  \<open>cmd/dmail-receiver/main.go\<close>): configuration from the environment, choice of the router, and start.  The
  answer of Pub/Sub to the construction of a client is an argument, and so is the order in which Go visits
  the table of directories.  Telemetry and the end of the processes are in \<open>Daemon_Life\<close>.
\<close>

section \<open>The emitter\<close>

datatype daemon_error =
    DirsError dirs_error
  | DirsEmpty
  | MissingVariables "string list"
  | BadPeerMode string
  | PubsubFailed string
  | RouterFailed archive_error
  | ModeMismatch string string

record emitter_config =
  ec_projectID :: string
  ec_topic :: string
  ec_archiveDirs :: "string list"
  ec_dirsByID :: "(string \<times> string) list"
  ec_peerMode :: string

definition filepath_SplitList :: "string \<Rightarrow> string list" where
  "filepath_SplitList s = (if s = [] then [] else split_chr CHR '':'' s)"

text \<open>The table of a multi-mode process: absent, or parsed and not empty.\<close>

definition dirs_from_env :: "getenv \<Rightarrow> string \<Rightarrow> daemon_error + (string \<times> string) list" where
  "dirs_from_env getenv var =
     (let mapEnv = getenv var
      in if mapEnv = [] then Inr []
         else case ParseDirsByProject mapEnv of
           Inl e \<Rightarrow> Inl (DirsError e)
         | Inr parsed \<Rightarrow> if parsed = [] then Inl DirsEmpty else Inr parsed)"

definition missing_vars :: "(string \<times> bool) list \<Rightarrow> string list" where
  "missing_vars checks = map fst (filter snd checks)"

definition emitter_loadConfig :: "getenv \<Rightarrow> daemon_error + emitter_config" where
  "emitter_loadConfig getenv =
     (case dirs_from_env getenv ''PHONEWAVE_ARCHIVE_DIRS_BY_PROJECT'' of
        Inl e \<Rightarrow> Inl e
      | Inr dirsByID \<Rightarrow>
          (let projectID = getenv ''PUBSUB_PROJECT_ID'';
               topic = getenv ''PUBSUB_DMAIL_OUTBOUND_TOPIC'';
               peerMode = getenv ''PHONEWAVE_PEER_RECEIVER_MODE'';
               archiveDirs = filter (\<lambda>d. d \<noteq> []) (filepath_SplitList (getenv ''PHONEWAVE_ARCHIVE_DIRS''));
               missing = missing_vars
                 [(''PUBSUB_PROJECT_ID'', projectID = []),
                  (''PUBSUB_DMAIL_OUTBOUND_TOPIC'', topic = []),
                  (''PHONEWAVE_ARCHIVE_DIRS or PHONEWAVE_ARCHIVE_DIRS_BY_PROJECT'',
                   archiveDirs = [] \<and> dirsByID = [])]
           in if missing \<noteq> [] then Inl (MissingVariables missing)
              else if peerMode \<notin> {[], ''single'', ''multi''} then Inl (BadPeerMode peerMode)
              else Inr \<lparr>ec_projectID = projectID, ec_topic = topic, ec_archiveDirs = archiveDirs,
                        ec_dirsByID = dirsByID, ec_peerMode = peerMode\<rparr>))"

text \<open>\<open>order\<close> and \<open>order'\<close> are the orders of the two loops over the table.\<close>

definition emitter_main ::
  "(string \<Rightarrow> string \<Rightarrow> gerror) \<Rightarrow> getenv \<Rightarrow> ((string \<times> string) list \<Rightarrow> (string \<times> string) list) \<Rightarrow>
   ((string \<times> string) list \<Rightarrow> (string \<times> string) list) \<Rightarrow> daemon_error + archive_router \<times> string list" where
  "emitter_main new_publisher getenv order order' =
     (case emitter_loadConfig getenv of
        Inl e \<Rightarrow> Inl e
      | Inr cfg \<Rightarrow>
     (case new_publisher (ec_projectID cfg) (ec_topic cfg) of
        Some e \<Rightarrow> Inl (PubsubFailed e)
      | None \<Rightarrow>
     (case (if ec_dirsByID cfg \<noteq> []
            then (case NewMultiArchiveRouter (order (ec_dirsByID cfg)) of
                    Inl e \<Rightarrow> Inl (RouterFailed e)
                  | Inr multi \<Rightarrow> Inr (multi, map snd (order' (ec_dirsByID cfg))))
            else Inr (SingleArchiveRouter, ec_archiveDirs cfg)) of
        Inl e \<Rightarrow> Inl e
      | Inr (router, watchedDirs) \<Rightarrow>
          if ec_peerMode cfg \<noteq> [] \<and> ec_peerMode cfg \<noteq> router_Mode router
          then Inl (ModeMismatch (router_Mode router) (ec_peerMode cfg))
          else Inr (router, watchedDirs))))"

section \<open>The receiver\<close>

record receiver_config =
  rcv_projectID :: string
  rcv_subscription :: string
  rcv_outboxDir :: string
  rcv_outboxByID :: "(string \<times> string) list"

definition receiver_loadConfig :: "getenv \<Rightarrow> daemon_error + receiver_config" where
  "receiver_loadConfig getenv =
     (case dirs_from_env getenv ''PHONEWAVE_OUTBOX_DIRS_BY_PROJECT'' of
        Inl e \<Rightarrow> Inl e
      | Inr outboxByID \<Rightarrow>
          (let projectID = getenv ''PUBSUB_PROJECT_ID'';
               subscription = getenv ''PUBSUB_DMAIL_INBOUND_SUB'';
               outboxDir = getenv ''PHONEWAVE_OUTBOX_DIR'';
               missing = missing_vars
                 [(''PUBSUB_PROJECT_ID'', projectID = []),
                  (''PUBSUB_DMAIL_INBOUND_SUB'', subscription = []),
                  (''PHONEWAVE_OUTBOX_DIR or PHONEWAVE_OUTBOX_DIRS_BY_PROJECT'',
                   outboxDir = [] \<and> outboxByID = [])]
           in if missing \<noteq> [] then Inl (MissingVariables missing)
              else Inr \<lparr>rcv_projectID = projectID, rcv_subscription = subscription, rcv_outboxDir = outboxDir,
                        rcv_outboxByID = outboxByID\<rparr>))"

definition receiver_main :: "(string \<Rightarrow> gerror) \<Rightarrow> getenv \<Rightarrow> daemon_error + string \<times> outbox_router" where
  "receiver_main new_client getenv =
     (case receiver_loadConfig getenv of
        Inl e \<Rightarrow> Inl e
      | Inr cfg \<Rightarrow>
     (case new_client (rcv_projectID cfg) of
        Some e \<Rightarrow> Inl (PubsubFailed e)
      | None \<Rightarrow>
          Inr (rcv_subscription cfg,
               if rcv_outboxByID cfg \<noteq> [] then MultiOutboxRouter (rcv_outboxByID cfg)
               else SingleOutboxRouter (rcv_outboxDir cfg))))"

section \<open>Tables of directories\<close>

lemma missing_vars_Nil: "missing_vars checks = [] \<longleftrightarrow> (\<forall>(v, absent) \<in> set checks. \<not> absent)"
  by (auto simp: missing_vars_def filter_empty_conv)

definition good_table :: "(string \<times> string) list \<Rightarrow> bool" where
  "good_table table \<longleftrightarrow> distinct (map fst table) \<and>
     (\<forall>(pid, dir) \<in> set table. ValidateProjectID pid = None \<and> filepath_IsAbs dir)"

lemma parse_dirs_entries_good:
  "parse_dirs_entries raws out = Inr table \<Longrightarrow> good_table out \<Longrightarrow> good_table table"
proof (induction raws out rule: parse_dirs_entries.induct)
  case (2 raw raws out)
  from "2.prems" obtain a b where *: "trim_space raw \<noteq> []" "cut_chr CHR '':'' (trim_space raw) = Some (a, b)"
    "a \<noteq> []" "b \<noteq> []"
    "ValidateProjectID (trim_space a) = None" "filepath_IsAbs (trim_space b)" "trim_space a \<notin> fst ` set out"
    "parse_dirs_entries raws (out @ [(trim_space a, trim_space b)]) = Inr table"
    by (auto simp: Let_def split: if_splits option.splits)
  have good: "good_table (out @ [(trim_space a, trim_space b)])"
    using "2.prems"(2) * by (auto simp: good_table_def)
  show ?case
    by (rule "2.IH"[OF refl *(1,2) refl _ refl refl *(5) _ *(7,8) good]) (use *(3,4,6) in auto)
qed simp

lemma ParseDirsByProject_good: "ParseDirsByProject s = Inr table \<Longrightarrow> good_table table"
  by (auto simp: ParseDirsByProject_def Let_def good_table_def split: if_splits
      dest!: parse_dirs_entries_good)

lemma dirs_from_env_cases:
  assumes "dirs_from_env getenv var = Inr table"
  shows "getenv var = [] \<and> table = [] \<or>
    getenv var \<noteq> [] \<and> ParseDirsByProject (getenv var) = Inr table \<and> table \<noteq> [] \<and> good_table table"
  using assms by (auto simp: dirs_from_env_def Let_def ParseDirsByProject_good split: if_splits sum.splits)

section \<open>Paths below a watched directory\<close>

definition clean_elem :: "string \<Rightarrow> bool" where
  "clean_elem e \<longleftrightarrow> e \<noteq> [] \<and> e \<noteq> ''.'' \<and> e \<noteq> ''..'' \<and> slash \<notin> set e"

lemma clean_elems_clean:
  "list_all clean_elem acc \<Longrightarrow> (\<forall>e \<in> set es. slash \<notin> set e) \<Longrightarrow> list_all clean_elem (clean_elems True acc es)"
  by (induction "True" acc es rule: clean_elems.induct) (auto simp: clean_elem_def split: list.split)

lemma clean_elems_id: "list_all clean_elem es \<Longrightarrow> clean_elems True acc es = rev acc @ es"
  by (induction es arbitrary: acc) (auto simp: clean_elem_def)

lemma split_join: "list_all clean_elem es \<Longrightarrow> es \<noteq> [] \<Longrightarrow> split_chr slash (join [slash] es) = es"
proof (induction es)
  case (Cons e es)
  then have e: "slash \<notin> set e" by (simp add: clean_elem_def)
  with Cons show ?case by (cases es) (simp_all add: split_chr_app)
qed simp

lemma Clean_rooted:
  assumes "list_all clean_elem es"
  shows "filepath_Clean (slash # join [slash] es) = slash # join [slash] es"
proof (cases "es = []")
  case True
  then show ?thesis by (simp add: filepath_Clean_def filepath_IsAbs_def)
next
  case False
  from split_join[OF assms False] clean_elems_id[OF assms, of "[]"] show ?thesis
    by (simp add: filepath_Clean_def filepath_IsAbs_def)
qed

lemma split_chr_no_sep: "e \<in> set (split_chr c s) \<Longrightarrow> c \<notin> set e"
  using split_chr_members by fastforce

lemma below_watched:
  assumes "filepath_IsAbs dir" "plain_name n" "filepath_Clean dir \<noteq> [slash]"
  shows "covers (filepath_Clean dir) (filepath_Clean (filepath_Join dir n))"
proof -
  let ?es = "clean_elems True [] (split_chr slash dir)"
  have es: "list_all clean_elem ?es" by (rule clean_elems_clean) (auto dest: split_chr_no_sep)
  have n: "n \<noteq> []" "slash \<notin> set n" "n \<noteq> ''.''" "n \<noteq> ''..''" using assms(2) by (auto simp: plain_name_def)
  have dir: "dir \<noteq> []" using assms(1) by (auto simp: filepath_IsAbs_def)
  have c: "filepath_Clean dir = slash # join [slash] ?es"
    using assms(1) by (simp add: filepath_Clean_def)
  with assms(3) have ne: "?es \<noteq> []" by auto
  have j: "filepath_Join dir n = slash # join [slash] (?es @ [n])"
    using Join_name[OF dir n] assms(1) by simp
  have "list_all clean_elem (?es @ [n])" using es n by (simp add: clean_elem_def)
  from Clean_rooted[OF this] have "filepath_Clean (filepath_Join dir n) = filepath_Clean dir @ slash # n"
    unfolding j using ne c by (simp add: join_snoc)
  then show ?thesis by (simp add: covers_def)
qed

section \<open>What an emitter watches\<close>

lemma emitter_main_Inr:
  assumes "emitter_main new_publisher getenv order order' = Inr (router, dirs)"
  obtains cfg where "emitter_loadConfig getenv = Inr cfg"
    "ec_peerMode cfg = [] \<or> ec_peerMode cfg = router_Mode router"
    "if ec_dirsByID cfg \<noteq> []
     then NewMultiArchiveRouter (order (ec_dirsByID cfg)) = Inr router \<and> dirs = map snd (order' (ec_dirsByID cfg))
     else router = SingleArchiveRouter \<and> dirs = ec_archiveDirs cfg"
  using assms that unfolding emitter_main_def
  by (auto split: sum.splits option.splits if_splits)

lemma emitter_loadConfig_Inr:
  assumes "emitter_loadConfig getenv = Inr cfg"
  shows "dirs_from_env getenv ''PHONEWAVE_ARCHIVE_DIRS_BY_PROJECT'' = Inr (ec_dirsByID cfg)"
    "ec_peerMode cfg = getenv ''PHONEWAVE_PEER_RECEIVER_MODE''"
    "ec_archiveDirs cfg = filter (\<lambda>d. d \<noteq> []) (filepath_SplitList (getenv ''PHONEWAVE_ARCHIVE_DIRS''))"
    "ec_archiveDirs cfg \<noteq> [] \<or> ec_dirsByID cfg \<noteq> []"
  using assms unfolding emitter_loadConfig_def Let_def
  by (auto simp: missing_vars_Nil split: sum.splits if_split_asm)

lemma resolved_below:
  assumes "NewMultiArchiveRouter ds = Inr router" "(pid, dir) \<in> set ds"
    and "covers (filepath_Clean dir) (filepath_Clean path)"
  shows "ResolveProjectID router path = Some pid"
proof -
  from assms(1) have "apart (cleaned ds)" "router = MultiArchiveRouter (cleaned ds)"
    by (simp_all add: NewMultiArchiveRouter_Inr)
  moreover have "(pid, filepath_Clean dir) \<in> set (cleaned ds)" using assms(2) by force
  ultimately show ?thesis using find_cover[of "cleaned ds" "(pid, filepath_Clean dir)"] assms(3) by simp
qed

text \<open>An emitter that starts watches exactly the directories it was given, at least one, in the mode its peer
  was declared to have.  With a table of projects, the entries have valid identifiers and absolute paths, and,
  whatever the order in which Go visits the table, every file in a watched directory other than the root is
  routed to the project of this directory, so none of them is dropped for want of a project.\<close>

theorem emitter_routes_what_it_watches:
  assumes "emitter_main new_publisher getenv order order' = Inr (router, dirs)"
    and "\<And>ds. mset (order ds) = mset ds" "\<And>ds. mset (order' ds) = mset ds"
  shows "dirs \<noteq> [] \<and>
    (getenv ''PHONEWAVE_PEER_RECEIVER_MODE'' = [] \<or>
     getenv ''PHONEWAVE_PEER_RECEIVER_MODE'' = router_Mode router) \<and>
    (getenv ''PHONEWAVE_ARCHIVE_DIRS_BY_PROJECT'' = [] \<longrightarrow>
       router_Mode router = ''single'' \<and>
       dirs = filter (\<lambda>d. d \<noteq> []) (filepath_SplitList (getenv ''PHONEWAVE_ARCHIVE_DIRS''))) \<and>
    (getenv ''PHONEWAVE_ARCHIVE_DIRS_BY_PROJECT'' \<noteq> [] \<longrightarrow>
       router_Mode router = ''multi'' \<and>
       (\<exists>table. ParseDirsByProject (getenv ''PHONEWAVE_ARCHIVE_DIRS_BY_PROJECT'') = Inr table \<and>
          mset dirs = mset (map snd table) \<and>
          (\<forall>(pid, dir) \<in> set table. ValidateProjectID pid = None \<and> filepath_IsAbs dir \<and>
             (\<forall>name. plain_name name \<and> filepath_Clean dir \<noteq> [slash] \<longrightarrow>
                ResolveProjectID router (filepath_Join dir name) = Some pid))))"
proof -
  from assms(1) obtain cfg where cfg: "emitter_loadConfig getenv = Inr cfg"
    and peer: "ec_peerMode cfg = [] \<or> ec_peerMode cfg = router_Mode router"
    and choice: "if ec_dirsByID cfg \<noteq> []
     then NewMultiArchiveRouter (order (ec_dirsByID cfg)) = Inr router \<and> dirs = map snd (order' (ec_dirsByID cfg))
     else router = SingleArchiveRouter \<and> dirs = ec_archiveDirs cfg"
    by (rule emitter_main_Inr)
  note c = emitter_loadConfig_Inr[OF cfg]
  let ?table = "ec_dirsByID cfg"
  from dirs_from_env_cases[OF c(1)] show ?thesis
  proof
    assume "getenv ''PHONEWAVE_ARCHIVE_DIRS_BY_PROJECT'' = [] \<and> ?table = []"
    with peer choice c(2-4) show ?thesis by simp
  next
    assume t: "getenv ''PHONEWAVE_ARCHIVE_DIRS_BY_PROJECT'' \<noteq> [] \<and>
      ParseDirsByProject (getenv ''PHONEWAVE_ARCHIVE_DIRS_BY_PROJECT'') = Inr ?table \<and> ?table \<noteq> [] \<and> good_table ?table"
    with choice have r: "NewMultiArchiveRouter (order ?table) = Inr router" "dirs = map snd (order' ?table)" by simp_all
    have in_order: "set (order ?table) = set ?table" using assms(2) by (metis set_mset_mset)
    have ms: "mset dirs = mset (map snd ?table)" using r(2) assms(3)[of ?table] by (metis mset_map)
    then have "dirs \<noteq> []" using t by auto
    moreover have "router_Mode router = ''multi''" using r(1) by (auto simp: NewMultiArchiveRouter_Inr)
    moreover have "\<forall>(pid, dir) \<in> set ?table. ValidateProjectID pid = None \<and> filepath_IsAbs dir \<and>
        (\<forall>name. plain_name name \<and> filepath_Clean dir \<noteq> [slash] \<longrightarrow>
           ResolveProjectID router (filepath_Join dir name) = Some pid)"
      using t below_watched resolved_below[OF r(1)] unfolding in_order good_table_def by blast
    ultimately show ?thesis using peer c(2) t ms by (intro conjI impI exI[of _ ?table]) (assumption | simp)+
  qed
qed

definition emitter_environment :: getenv where
  "emitter_environment k =
     (if k = ''PUBSUB_PROJECT_ID'' then ''g''
      else if k = ''PUBSUB_DMAIL_OUTBOUND_TOPIC'' then ''t''
      else if k = ''PHONEWAVE_PEER_RECEIVER_MODE'' then ''multi''
      else if k = ''PHONEWAVE_ARCHIVE_DIRS_BY_PROJECT'' then ''web:/a/w, app:/a/p''
      else [])"

lemma emitter_run:
  "emitter_main (\<lambda>_ _. None) emitter_environment rev rev =
     Inr (MultiArchiveRouter [(''app'', ''/a/p''), (''web'', ''/a/w'')], [''/a/p'', ''/a/w''])"
  by code_simp

theorem emitter_routes_what_it_watches_witness:
  "ResolveProjectID (MultiArchiveRouter [(''app'', ''/a/p''), (''web'', ''/a/w'')]) (filepath_Join ''/a/w'' ''m.md'') =
     Some ''web''"
proof -
  have "ParseDirsByProject (emitter_environment ''PHONEWAVE_ARCHIVE_DIRS_BY_PROJECT'') =
      Inr [(''web'', ''/a/w''), (''app'', ''/a/p'')]"
    "emitter_environment ''PHONEWAVE_ARCHIVE_DIRS_BY_PROJECT'' \<noteq> []"
    "filepath_Clean ''/a/w'' \<noteq> [slash]" by code_simp+
  moreover have "plain_name ''m.md''" by (simp add: plain_name_def slash_def)
  ultimately show ?thesis
    using emitter_routes_what_it_watches[OF emitter_run mset_rev mset_rev] by auto
qed

text \<open>The root is accepted as a directory of a table, but no file is ever routed to it.\<close>

lemma root_directory_never_routes:
  "NewMultiArchiveRouter [(pid, [slash])] = Inr (MultiArchiveRouter [(pid, [slash])]) \<and>
   (list_all clean_elem es \<and> es \<noteq> [] \<longrightarrow>
      ResolveProjectID (MultiArchiveRouter [(pid, [slash])]) (slash # join [slash] es) = None)"
proof -
  have c: "filepath_Clean [slash] = [slash]" by (simp add: filepath_Clean_def filepath_IsAbs_def)
  have "\<not> covers [slash] (slash # join [slash] es)" if "list_all clean_elem es" "es \<noteq> []"
  proof -
    obtain e es' where "es = e # es'" using \<open>es \<noteq> []\<close> by (cases es) auto
    with that obtain x xs where "e = x # xs" "x \<noteq> slash" by (cases e) (auto simp: clean_elem_def)
    with \<open>es = e # es'\<close> show ?thesis by (cases es') (auto simp: covers_def)
  qed
  then show ?thesis by (auto simp: NewMultiArchiveRouter_Inr apart_def c Clean_rooted)
qed

section \<open>What a receiver writes to\<close>

lemma receiver_main_Inr:
  assumes "receiver_main new_client getenv = Inr (subscription, router)" "resolve_outbox router m = Some dir"
  shows "if getenv ''PHONEWAVE_OUTBOX_DIRS_BY_PROJECT'' = [] then dir = getenv ''PHONEWAVE_OUTBOX_DIR'' \<and> dir \<noteq> []
    else \<exists>table. ParseDirsByProject (getenv ''PHONEWAVE_OUTBOX_DIRS_BY_PROJECT'') = Inr table \<and>
      (attribute m ''project_id'', dir) \<in> set table \<and> filepath_IsAbs dir"
proof -
  from assms(1) obtain cfg where cfg: "receiver_loadConfig getenv = Inr cfg"
    and router: "router = (if rcv_outboxByID cfg \<noteq> [] then MultiOutboxRouter (rcv_outboxByID cfg)
      else SingleOutboxRouter (rcv_outboxDir cfg))"
    by (auto simp: receiver_main_def split: sum.splits option.splits)
  from cfg have t: "dirs_from_env getenv ''PHONEWAVE_OUTBOX_DIRS_BY_PROJECT'' = Inr (rcv_outboxByID cfg)"
    "rcv_outboxDir cfg = getenv ''PHONEWAVE_OUTBOX_DIR''" "rcv_outboxDir cfg \<noteq> [] \<or> rcv_outboxByID cfg \<noteq> []"
    unfolding receiver_loadConfig_def Let_def by (auto simp: missing_vars_Nil split: sum.splits if_split_asm)
  from dirs_from_env_cases[OF t(1)] t(2,3) router assms(2) show ?thesis
    by (auto simp: good_table_def split: if_splits dest!: map_of_SomeD)
qed

end
