(* ===== verification/Shutdown.thy ===== *)
theory Shutdown
  imports Complex_Main Broker_Wiring State_Factory
begin

text \<open>
  The end of a gateway process, and its tracing (\<open>internal/adapter/observability\<close>, the last part of \<open>main\<close> in
  \<open>cmd/server/main.go\<close>).  Tracing is set up from the environment; the three clients of OpenTelemetry and
  Google that can fail are arguments.  The shutdown is a step relation over the requests in flight, the
  background jobs they started, and the spans of these jobs; its deadlines are computed in milliseconds.
\<close>

section \<open>Tracing\<close>

record otel_config =
  oc_Endpoint :: string
  oc_ServiceName :: string
  oc_ServiceVersion :: string
  oc_Sampler :: string
  oc_SamplerArg :: string
  oc_GCPProjectID :: string

definition serviceNamespace :: string where "serviceNamespace = ''runops''"

text \<open>The first argument is the SDK's check of the attributes.\<close>

definition BuildResource ::
  "((string \<times> string) list \<Rightarrow> gerror) \<Rightarrow> otel_config \<Rightarrow> string + (string \<times> string) list" where
  "BuildResource new cfg =
     (let attrs = [(''service.name'', oc_ServiceName cfg), (''service.namespace'', serviceNamespace),
                   (''service.version'', oc_ServiceVersion cfg)] @
                  (if oc_GCPProjectID cfg \<noteq> [] then [(''gcp.project_id'', oc_GCPProjectID cfg)] else [])
      in case new attrs of Some e \<Rightarrow> Inl e | None \<Rightarrow> Inr attrs)"

datatype sampler = ParentBasedAlways | ParentBasedRatio real

definition BuildSampler :: "(string \<Rightarrow> real option) \<Rightarrow> otel_config \<Rightarrow> sampler" where
  "BuildSampler parse_float cfg =
     (if oc_Sampler cfg = [] \<or> oc_Sampler cfg = ''parentbased_always_on'' then ParentBasedAlways
      else if oc_Sampler cfg = ''parentbased_traceidratio''
      then (case parse_float (oc_SamplerArg cfg) of
              None \<Rightarrow> ParentBasedRatio 1
            | Some ratio \<Rightarrow> ParentBasedRatio ratio)
      else ParentBasedAlways)"

text \<open>The endpoint, and whether it is reached without TLS.\<close>

definition NormalizeEndpoint :: "string \<Rightarrow> (string \<times> bool) option" where
  "NormalizeEndpoint raw0 =
     (let raw = trim_space raw0
      in if raw = [] then None
         else (let (endpoint, insecure) =
                 (if prefix ''http://'' raw then (trim_prefix raw ''http://'', True)
                  else if prefix ''https://'' raw then (trim_prefix raw ''https://'', False)
                  else (raw, False))
               in Some (trim_right_slashes endpoint, insecure)))"

datatype channel = Plaintext | TLSWithToken string

record tracer =
  tr_resource :: "(string \<times> string) list"
  tr_sampler :: sampler
  tr_exporter :: "(string \<times> channel) option"

record otel_host =
  oh_resource :: "(string \<times> string) list \<Rightarrow> gerror"
  oh_float :: "string \<Rightarrow> real option"
  oh_adc :: "string \<Rightarrow> gerror"
  oh_exporter :: "string \<Rightarrow> channel \<Rightarrow> gerror"

definition trace_scope :: string where "trace_scope = ''https://www.googleapis.com/auth/trace.append''"

definition SetupTracerProvider :: "otel_host \<Rightarrow> otel_config \<Rightarrow> string + tracer" where
  "SetupTracerProvider H cfg =
     (case BuildResource (oh_resource H) cfg of
        Inl e \<Rightarrow> Inl (''observability: build resource: '' @ e)
      | Inr res \<Rightarrow>
     (let sampler = BuildSampler (oh_float H) cfg
      in case NormalizeEndpoint (oc_Endpoint cfg) of
           None \<Rightarrow> Inr \<lparr>tr_resource = res, tr_sampler = sampler, tr_exporter = None\<rparr>
         | Some (endpoint, insecure) \<Rightarrow>
             (case (if insecure then None else oh_adc H trace_scope) of
                Some e \<Rightarrow> Inl (''observability: ADC for OTLP: '' @ e)
              | None \<Rightarrow>
                  (let ch = (if insecure then Plaintext else TLSWithToken trace_scope)
                   in case oh_exporter H endpoint ch of
                        Some e \<Rightarrow> Inl (''observability: build OTLP gRPC exporter: '' @ e)
                      | None \<Rightarrow>
                          Inr \<lparr>tr_resource = res, tr_sampler = sampler, tr_exporter = Some (endpoint, ch)\<rparr>))))"

text \<open>What a process makes of it: without a tracer it runs with one that drops every span.\<close>

definition process_tracer :: "otel_host \<Rightarrow> getenv \<Rightarrow> string \<Rightarrow> tracer option" where
  "process_tracer H getenv default_name =
     (case SetupTracerProvider H
             \<lparr>oc_Endpoint = getenv ''OTEL_EXPORTER_OTLP_ENDPOINT'',
              oc_ServiceName = first_non_empty (getenv ''OTEL_SERVICE_NAME'') default_name,
              oc_ServiceVersion = getenv ''OTEL_SERVICE_VERSION'', oc_Sampler = getenv ''OTEL_TRACES_SAMPLER'',
              oc_SamplerArg = getenv ''OTEL_TRACES_SAMPLER_ARG'', oc_GCPProjectID = getenv ''GOOGLE_CLOUD_PROJECT''\<rparr> of
        Inl _ \<Rightarrow> None
      | Inr tr \<Rightarrow> Some tr)"

section \<open>Background jobs and the shutdown\<close>

text \<open>The wait group of the tracker counts the running jobs.  A job ends its span as its last act; the span is
  then queued by the SDK, which exports queued spans now and then, may drop one when its queue is full, and
  drops every span that ends after its shutdown began.\<close>

datatype phase = Serving | Draining | Waiting | Flushing | Stopped

record life =
  lf_phase :: phase
  lf_requests :: "nat set"
  lf_spawned :: "nat set"
  lf_running :: "nat set"
  lf_queued :: "nat set"
  lf_exported :: "nat set"
  lf_dropped :: "nat set"
  lf_cut :: bool

text \<open>\<open>lf_cut\<close> remembers that a deadline passed, an export failed, or the queue was full.\<close>

definition boot :: life where
  "boot = \<lparr>lf_phase = Serving, lf_requests = {}, lf_spawned = {}, lf_running = {}, lf_queued = {}, lf_exported = {},
           lf_dropped = {}, lf_cut = False\<rparr>"

inductive life_step :: "life \<Rightarrow> life \<Rightarrow> bool" where
  Accept: "lf_phase s = Serving \<Longrightarrow> r \<notin> lf_requests s \<Longrightarrow>
    life_step s (s\<lparr>lf_requests := insert r (lf_requests s)\<rparr>)"
| Respond: "r \<in> lf_requests s \<Longrightarrow> life_step s (s\<lparr>lf_requests := lf_requests s - {r}\<rparr>)"
| Go: "lf_requests s \<noteq> {} \<Longrightarrow> j \<notin> lf_spawned s \<Longrightarrow>
    life_step s (s\<lparr>lf_spawned := insert j (lf_spawned s), lf_running := insert j (lf_running s)\<rparr>)"
| End_queued: "j \<in> lf_running s \<Longrightarrow> lf_phase s \<in> {Serving, Draining, Waiting} \<Longrightarrow>
    life_step s (s\<lparr>lf_running := lf_running s - {j}, lf_queued := insert j (lf_queued s)\<rparr>)"
| End_dropped: "j \<in> lf_running s \<Longrightarrow> lf_phase s \<in> {Flushing, Stopped} \<Longrightarrow>
    life_step s (s\<lparr>lf_running := lf_running s - {j}, lf_dropped := insert j (lf_dropped s)\<rparr>)"
| Export: "j \<in> lf_queued s \<Longrightarrow> lf_phase s \<noteq> Stopped \<Longrightarrow>
    life_step s (s\<lparr>lf_queued := lf_queued s - {j}, lf_exported := insert j (lf_exported s)\<rparr>)"
| Overflow: "j \<in> lf_queued s \<Longrightarrow>
    life_step s (s\<lparr>lf_queued := lf_queued s - {j}, lf_dropped := insert j (lf_dropped s), lf_cut := True\<rparr>)"
| Signal: "lf_phase s = Serving \<Longrightarrow> life_step s (s\<lparr>lf_phase := Draining\<rparr>)"
| Drained: "lf_phase s = Draining \<Longrightarrow> lf_requests s = {} \<Longrightarrow> life_step s (s\<lparr>lf_phase := Waiting\<rparr>)"
| Drain_timeout: "lf_phase s = Draining \<Longrightarrow> life_step s (s\<lparr>lf_phase := Waiting, lf_cut := True\<rparr>)"
| Waited: "lf_phase s = Waiting \<Longrightarrow> lf_running s = {} \<Longrightarrow> life_step s (s\<lparr>lf_phase := Flushing\<rparr>)"
| Wait_timeout: "lf_phase s = Waiting \<Longrightarrow> life_step s (s\<lparr>lf_phase := Flushing, lf_cut := True\<rparr>)"
| Flushed: "lf_phase s = Flushing \<Longrightarrow> lf_queued s = {} \<Longrightarrow> life_step s (s\<lparr>lf_phase := Stopped\<rparr>)"
| Flush_timeout: "lf_phase s = Flushing \<Longrightarrow> life_step s (s\<lparr>lf_phase := Stopped, lf_cut := True\<rparr>)"

inductive_cases life_stepE: "life_step s s'"

inductive life_reachable :: "life \<Rightarrow> bool" where
  start: "life_reachable boot"
| step: "life_reachable s \<Longrightarrow> life_step s s' \<Longrightarrow> life_reachable s'"

definition all_accounted :: "life \<Rightarrow> bool" where
  "all_accounted s \<longleftrightarrow> lf_spawned s = lf_running s \<union> lf_queued s \<union> lf_exported s \<union> lf_dropped s"

definition in_order :: "life \<Rightarrow> bool" where
  "in_order s \<longleftrightarrow> lf_cut s \<or>
     (lf_dropped s = {} \<and>
      (lf_phase s \<in> {Waiting, Flushing, Stopped} \<longrightarrow> lf_requests s = {}) \<and>
      (lf_phase s \<in> {Flushing, Stopped} \<longrightarrow> lf_running s = {}) \<and>
      (lf_phase s = Stopped \<longrightarrow> lf_queued s = {}))"

lemma step_accounted: "life_step s s' \<Longrightarrow> all_accounted s \<Longrightarrow> all_accounted s'"
  by (induction rule: life_step.induct) (simp_all add: all_accounted_def insert_absorb, blast+)

lemma step_in_order: "life_step s s' \<Longrightarrow> in_order s \<Longrightarrow> in_order s'"
  by (induction rule: life_step.induct) (simp_all add: in_order_def, blast+)

lemma boot_inv: "all_accounted boot \<and> in_order boot"
  by (simp add: boot_def all_accounted_def in_order_def)

lemma reachable_inv: "life_reachable s \<Longrightarrow> all_accounted s \<and> in_order s"
  by (induction rule: life_reachable.induct) (use boot_inv step_accounted step_in_order in blast)+

lemma dropped_only_late: "life_step s s' \<Longrightarrow> lf_dropped s' \<noteq> lf_dropped s \<Longrightarrow> lf_cut s' \<or> lf_phase s \<in> {Flushing, Stopped}"
  by (induction rule: life_step.induct) auto

section \<open>Deadlines\<close>

text \<open>In milliseconds from the signal: the subscriber is waited for without a deadline of its own; each later step
  gets its budget, but no more than what is left of the nine seconds that began with the signal.  The
  arguments are how long each step would take.\<close>

definition overall :: int where "overall = 9000"

definition window :: "int \<Rightarrow> int \<Rightarrow> int" where
  "window budget t = max 0 (min budget (overall - t))"

definition end_of_drain :: "int \<Rightarrow> int \<Rightarrow> int" where
  "end_of_drain outbound http = outbound + min http (window 4000 outbound)"

definition end_of_wait :: "int \<Rightarrow> int \<Rightarrow> int \<Rightarrow> int" where
  "end_of_wait outbound http jobs =
     (let t = end_of_drain outbound http in t + min jobs (window 4000 t))"

definition flush_window :: "int \<Rightarrow> int \<Rightarrow> int \<Rightarrow> int" where
  "flush_window outbound http jobs = window 2000 (end_of_wait outbound http jobs)"

definition end_of_flush :: "int \<Rightarrow> int \<Rightarrow> int \<Rightarrow> int \<Rightarrow> int" where
  "end_of_flush outbound http jobs flush =
     end_of_wait outbound http jobs + min flush (flush_window outbound http jobs)"

lemmas deadline_defs = overall_def window_def end_of_drain_def end_of_wait_def flush_window_def end_of_flush_def Let_def

section \<open>Properties\<close>


lemma sample_life: "life_reachable (boot\<lparr>lf_phase := Stopped, lf_spawned := {1}, lf_exported := {1}\<rparr>)"
proof -
  note go = life_reachable.step[rotated]
  have 1: "life_reachable (boot\<lparr>lf_requests := {7}\<rparr>)"
    using go[OF Accept[of boot 7] life_reachable.start] by (simp add: boot_def)
  have 2: "life_reachable (boot\<lparr>lf_requests := {7}, lf_spawned := {1}, lf_running := {1}\<rparr>)"
    using go[OF life_step.Go[of _ 1] 1] by (simp add: boot_def)
  have 3: "life_reachable (boot\<lparr>lf_requests := {7}, lf_spawned := {1}, lf_running := {1}, lf_phase := Draining\<rparr>)"
    using go[OF Signal 2] by (simp add: boot_def)
  have 4: "life_reachable (boot\<lparr>lf_spawned := {1}, lf_running := {1}, lf_phase := Draining\<rparr>)"
    using go[OF Respond[of 7] 3] by (simp add: boot_def)
  have 5: "life_reachable (boot\<lparr>lf_spawned := {1}, lf_running := {1}, lf_phase := Waiting\<rparr>)"
    using go[OF Drained 4] by (simp add: boot_def)
  have 6: "life_reachable (boot\<lparr>lf_spawned := {1}, lf_queued := {1}, lf_phase := Waiting\<rparr>)"
    using go[OF End_queued[of 1] 5] by (simp add: boot_def)
  have 7: "life_reachable (boot\<lparr>lf_spawned := {1}, lf_queued := {1}, lf_phase := Flushing\<rparr>)"
    using go[OF Waited 6] by (simp add: boot_def)
  have 8: "life_reachable (boot\<lparr>lf_spawned := {1}, lf_exported := {1}, lf_phase := Flushing\<rparr>)"
    using go[OF Export[of 1] 7] by (simp add: boot_def)
  show ?thesis using go[OF Flushed 8] by (simp add: boot_def)
qed


text \<open>The time a shutdown takes.  It is over nine seconds after the signal, unless the subscriber alone takes
  longer: waiting for it has no deadline.  Requests and jobs get four seconds each when the subscriber is
  quick, but the final flush never gets the two seconds of the plan when they use up theirs: what is left is
  one second less the time of the subscriber, and nothing at all from a second on.\<close>

theorem shutdown_deadlines:
  assumes "0 \<le> outbound" "0 \<le> http" "0 \<le> jobs" "0 \<le> flush"
  shows "end_of_flush outbound http jobs flush \<le> max overall outbound \<and>
    outbound \<le> end_of_flush outbound http jobs flush \<and>
    (outbound \<le> 1000 \<longrightarrow> end_of_drain outbound http = outbound + min http 4000 \<and>
       end_of_wait outbound http jobs = outbound + min http 4000 + min jobs 4000) \<and>
    (4000 \<le> http \<and> 4000 \<le> jobs \<longrightarrow> flush_window outbound http jobs = max 0 (1000 - outbound)) \<and>
    (outbound + http + jobs \<le> 7000 \<and> http \<le> 4000 \<and> jobs \<le> 4000 \<longrightarrow> flush_window outbound http jobs = 2000)"
proof (intro conjI impI)
  show "end_of_flush outbound http jobs flush \<le> max overall outbound"
    unfolding deadline_defs by linarith
  show "outbound \<le> end_of_flush outbound http jobs flush"
    using assms unfolding deadline_defs by linarith
  show "end_of_drain outbound http = outbound + min http 4000" if "outbound \<le> 1000"
    using that unfolding deadline_defs by linarith
  show "end_of_wait outbound http jobs = outbound + min http 4000 + min jobs 4000" if "outbound \<le> 1000"
    using that assms unfolding deadline_defs by linarith
  show "flush_window outbound http jobs = max 0 (1000 - outbound)" if "4000 \<le> http \<and> 4000 \<le> jobs"
    using that assms unfolding deadline_defs by linarith
  show "flush_window outbound http jobs = 2000" if "outbound + http + jobs \<le> 7000 \<and> http \<le> 4000 \<and> jobs \<le> 4000"
    using that assms unfolding deadline_defs by linarith
qed

theorem shutdown_deadlines_witness:
  "flush_window 500 4000 5000 = 500 \<and> end_of_flush 20000 1 1 1 \<le> 20000"
  using shutdown_deadlines[of 500 4000 5000 0] shutdown_deadlines[of 20000 1 1 1] by (simp add: overall_def)

lemma trim_right_slashes_end: "trim_right_slashes s \<noteq> [] \<Longrightarrow> last (trim_right_slashes s) \<noteq> CHR ''/''"
  using hd_dropWhile[of "\<lambda>c. c = CHR ''/''" "rev s"] by (simp add: trim_right_slashes_def last_rev)

lemma NormalizeEndpoint_Some:
  assumes "NormalizeEndpoint raw = Some (endpoint, insecure)"
  shows "trim_space raw \<noteq> [] \<and> (insecure \<longleftrightarrow> prefix ''http://'' (trim_space raw)) \<and>
    (endpoint \<noteq> [] \<longrightarrow> last endpoint \<noteq> CHR ''/'')"
  using assms trim_right_slashes_end by (auto simp: NormalizeEndpoint_def Let_def split: if_splits)

lemma NormalizeEndpoint_None: "NormalizeEndpoint raw = None \<longleftrightarrow> trim_space raw = []"
  by (auto simp: NormalizeEndpoint_def Let_def split: prod.split)

text \<open>What a process traces to.  When the tracer is set up, it exports nothing exactly when no endpoint is
  configured; with one, the credentials of the service are used exactly when the endpoint is not written with
  \<open>http://\<close>, always inside TLS and only for appending traces; the address ends without a slash.  The name of
  the service is in every resource, the project only if it is set.\<close>

theorem tracing_credentials_confined:
  assumes "SetupTracerProvider H cfg = Inr tr"
  shows "(tr_exporter tr = None \<longleftrightarrow> trim_space (oc_Endpoint cfg) = []) \<and>
    (\<forall>endpoint ch. tr_exporter tr = Some (endpoint, ch) \<longrightarrow>
       ch = (if prefix ''http://'' (trim_space (oc_Endpoint cfg)) then Plaintext else TLSWithToken trace_scope) \<and>
       (ch \<noteq> Plaintext \<longrightarrow> oh_adc H trace_scope = None) \<and> (endpoint \<noteq> [] \<longrightarrow> last endpoint \<noteq> CHR ''/'')) \<and>
    (''service.name'', oc_ServiceName cfg) \<in> set (tr_resource tr) \<and>
    ((\<exists>v. (''gcp.project_id'', v) \<in> set (tr_resource tr)) \<longleftrightarrow> oc_GCPProjectID cfg \<noteq> [])"
proof -
  from assms have res: "tr_resource tr = [(''service.name'', oc_ServiceName cfg), (''service.namespace'', serviceNamespace),
      (''service.version'', oc_ServiceVersion cfg)] @
      (if oc_GCPProjectID cfg \<noteq> [] then [(''gcp.project_id'', oc_GCPProjectID cfg)] else [])"
    by (auto simp: SetupTracerProvider_def BuildResource_def Let_def split: sum.splits option.splits prod.splits if_splits)
  have "tr_exporter tr = (case NormalizeEndpoint (oc_Endpoint cfg) of
      None \<Rightarrow> None | Some (endpoint, insecure) \<Rightarrow> Some (endpoint, if insecure then Plaintext else TLSWithToken trace_scope)) \<and>
    (\<forall>endpoint. NormalizeEndpoint (oc_Endpoint cfg) = Some (endpoint, False) \<longrightarrow> oh_adc H trace_scope = None)"
    using assms by (auto simp: SetupTracerProvider_def Let_def split: sum.splits option.splits prod.splits if_splits)
  then show ?thesis
    using NormalizeEndpoint_Some[of "oc_Endpoint cfg"] NormalizeEndpoint_None[of "oc_Endpoint cfg"]
    by (auto simp: res split: option.splits)
qed

definition local_tracing :: otel_config where
  "local_tracing =
     \<lparr>oc_Endpoint = ''http://localhost:4317/'', oc_ServiceName = ''s'', oc_ServiceVersion = [], oc_Sampler = [],
      oc_SamplerArg = [], oc_GCPProjectID = []\<rparr>"

definition local_host :: otel_host where
  "local_host =
     \<lparr>oh_resource = (\<lambda>_. None), oh_float = (\<lambda>_. None), oh_adc = (\<lambda>_. Some ''none''), oh_exporter = (\<lambda>_ _. None)\<rparr>"

theorem tracing_credentials_confined_witness:
  "prefix ''http://'' (trim_space (oc_Endpoint local_tracing)) \<and>
   (\<exists>tr. SetupTracerProvider local_host local_tracing = Inr tr \<and> tr_exporter tr = Some (''localhost:4317'', Plaintext))"
proof -
  have run: "SetupTracerProvider local_host local_tracing =
      Inr \<lparr>tr_resource = [(''service.name'', ''s''), (''service.namespace'', ''runops''), (''service.version'', [])],
           tr_sampler = ParentBasedAlways, tr_exporter = Some (''localhost:4317'', Plaintext)\<rparr>"
    by code_simp
  from tracing_credentials_confined[OF run] run show ?thesis by (simp split: if_splits)
qed

end
