(* ===== verification/Go_Time.thy ===== *)
theory Go_Time
  imports Document_Store
begin

text \<open>
  The part of Go's \<open>time\<close> package behind \<open>t.UTC().Format("2006-01-02 15:04:05")\<close> and \<open>time.Parse\<close> with the
  same layout: the proleptic Gregorian calendar and the rules by which the fields of the layout are
  written and read.
\<close>

section \<open>The calendar\<close>

text \<open>Days from 1 January of year 1 to 1 January of the year \<open>y + 1\<close>.\<close>

definition days_before :: "int \<Rightarrow> int" where
  "days_before y = 365 * y + y div 4 - y div 100 + y div 400"

definition is_leap :: "int \<Rightarrow> bool" where
  "is_leap year \<longleftrightarrow> 4 dvd year \<and> (\<not> 100 dvd year \<or> 400 dvd year)"

definition days_in :: "bool \<Rightarrow> int list" where
  "days_in leap = [31, if leap then 29 else 28, 31, 30, 31, 30, 31, 31, 30, 31, 30, 31]"

text \<open>The year of a day inside a cycle of 400 years, from an estimate that is not too low.\<close>

function cycle_year :: "int \<Rightarrow> int \<Rightarrow> int" where
  "cycle_year d y = (if y \<le> 0 \<or> days_before y \<le> d then y else cycle_year d (y - 1))"
  by auto
termination
  by (relation "measure (\<lambda>(d, y). nat y)") auto

declare cycle_year.simps [simp del]

text \<open>Month and day, from the days of the months.\<close>

fun split_months :: "int \<Rightarrow> int \<Rightarrow> int list \<Rightarrow> int \<times> int" where
  "split_months m d [] = (m, d)"
| "split_months m d (n # ns) = (if d < n then (m, d) else split_months (m + 1) (d - n) ns)"

record date =
  da_Year :: int
  da_Month :: int
  da_Day :: int

definition date_of_days :: "int \<Rightarrow> date" where
  "date_of_days days =
     (let cycle = days div 146097; d = days mod 146097;
          y = cycle_year d (d div 365);
          (m, r) = split_months 1 (d - days_before y) (days_in (is_leap (y + 1)))
      in \<lparr>da_Year = 400 * cycle + y + 1, da_Month = m, da_Day = r + 1\<rparr>)"

definition month_start :: "bool \<Rightarrow> int \<Rightarrow> int" where
  "month_start leap m = sum_list (take (nat (m - 1)) (days_in leap))"

definition days_of_date :: "date \<Rightarrow> int" where
  "days_of_date d =
     days_before (da_Year d - 1) + month_start (is_leap (da_Year d)) (da_Month d) + da_Day d - 1"

lemma div_step:
  fixes y k :: int
  assumes "k > 1"
  shows "(y + 1) div k = y div k + (if k dvd y + 1 then 1 else 0)"
proof -
  define q r where "q = y div k" and "r = y mod k"
  then have y: "y = k * q + r" "0 \<le> r" "r < k" using assms by simp_all
  show ?thesis
  proof (cases "r + 1 = k")
    case True
    with y have "y + 1 = k * (q + 1)" by (simp add: algebra_simps)
    then show ?thesis using assms q_def by simp
  next
    case False
    with y have r: "y + 1 = k * q + (r + 1)" "0 \<le> r + 1" "r + 1 < k" by simp_all
    have "(y + 1) div k = q" by (rule int_div_pos_eq[OF r])
    moreover have "(y + 1) mod k = r + 1" by (rule int_mod_pos_eq[OF r])
    ultimately have "(y + 1) div k = q" "\<not> k dvd y + 1" using y(2) by (simp_all add: dvd_eq_mod_eq_0)
    then show ?thesis using q_def by simp
  qed
qed

lemma leap_sum:
  fixes a b c :: int
  assumes "B \<longrightarrow> A" "C \<longrightarrow> B"
  shows "365 * (y + 1) + (a + (if A then 1 else 0)) - (b + (if B then 1 else 0)) + (c + (if C then 1 else 0)) =
    365 * y + a - b + c + 365 + (if A \<and> (\<not> B \<or> C) then 1 else 0)"
  using assms by (cases A; cases B; cases C) simp_all

lemma days_before_step:
  "days_before (y + 1) = days_before y + 365 + (if is_leap (y + 1) then 1 else 0)"
proof -
  have step: "(y + 1) div 4 = y div 4 + (if 4 dvd y + 1 then 1 else 0)"
    "(y + 1) div 100 = y div 100 + (if 100 dvd y + 1 then 1 else 0)"
    "(y + 1) div 400 = y div 400 + (if 400 dvd y + 1 then 1 else 0)" by (simp_all only: div_step)
  show ?thesis
    unfolding days_before_def is_leap_def step
  proof (rule leap_sum; intro impI)
    show "4 dvd y + 1" if "100 dvd y + 1" using that by (rule dvd_trans[rotated]) simp
    show "100 dvd y + 1" if "400 dvd y + 1" using that by (rule dvd_trans[rotated]) simp
  qed
qed

lemma days_before_cycle: "days_before (400 * n + y) = 146097 * n + days_before y"
proof -
  have "(400 * n + y) div 4 = 100 * n + y div 4" "(400 * n + y) div 100 = 4 * n + y div 100"
    using div_mult_self4[of 4 "100 * n" y] div_mult_self4[of 100 "4 * n" y] by simp_all
  then show ?thesis by (simp add: days_before_def)
qed

lemma days_before_lower: "0 \<le> y \<Longrightarrow> 365 * y \<le> days_before y"
  using zdiv_mono2[of y 4 100] pos_imp_zdiv_nonneg_iff[of 400 y] by (simp add: days_before_def)

lemma cycle_year_bounds:
  assumes "0 \<le> d" "0 \<le> y" "d < days_before (y + 1)"
  shows "0 \<le> cycle_year d y \<and> cycle_year d y \<le> y \<and> days_before (cycle_year d y) \<le> d \<and>
    d < days_before (cycle_year d y + 1)"
  using assms
proof (induction d y rule: cycle_year.induct)
  case (1 d y)
  have z: "days_before 0 = 0" by (simp add: days_before_def)
  show ?case
  proof (cases "y \<le> 0 \<or> days_before y \<le> d")
    case True
    with 1(2,3) z have "cycle_year d y = y" "days_before y \<le> d" by (auto simp: cycle_year.simps)
    with 1(2-4) show ?thesis by simp
  next
    case False
    then have "cycle_year d y = cycle_year d (y - 1)" by (simp add: cycle_year.simps)
    with 1 False show ?thesis by auto
  qed
qed

lemma split_months_spec:
  assumes "0 \<le> d" "d < sum_list ns" "split_months m d ns = (m', r)"
  shows "\<exists>i < length ns. m' = m + int i \<and> 0 \<le> r \<and> r < ns ! i \<and> d = sum_list (take i ns) + r"
  using assms
proof (induction m d ns rule: split_months.induct)
  case (2 m d n ns)
  show ?case
  proof (cases "d < n")
    case True
    with 2 show ?thesis by auto
  next
    case False
    with 2 obtain i where "i < length ns" "m' = m + 1 + int i" "0 \<le> r" "r < ns ! i"
      "d - n = sum_list (take i ns) + r" by auto
    then show ?thesis by (intro exI[of _ "Suc i"]) auto
  qed
qed simp

definition valid_date :: "date \<Rightarrow> bool" where
  "valid_date d \<longleftrightarrow> 1 \<le> da_Month d \<and> da_Month d \<le> 12 \<and> 1 \<le> da_Day d \<and>
     da_Day d \<le> days_in (is_leap (da_Year d)) ! nat (da_Month d - 1)"

lemma is_leap_cycle [simp]: "is_leap (400 * n + y) = is_leap y"
proof -
  have "k dvd 400 * n + y \<longleftrightarrow> k dvd y" if "k dvd 400" for k :: int
    using that by (simp add: dvd_add_right_iff)
  then show ?thesis by (simp add: is_leap_def)
qed

text \<open>Every day has a date, and the date gives the day back.\<close>

lemma date_of_days:
  "valid_date (date_of_days days) \<and> days_of_date (date_of_days days) = days"
proof -
  define cycle d where "cycle = days div 146097" and "d = days mod 146097"
  then have days: "days = 146097 * cycle + d" "0 \<le> d" "d < 146097" by simp_all
  define y where "y = cycle_year d (d div 365)"
  define leap where "leap = is_leap (y + 1)"
  have "d < 365 * (d div 365 + 1)" by presburger
  also have "\<dots> \<le> days_before (d div 365 + 1)" using days(2) by (intro days_before_lower) simp
  finally have y: "0 \<le> y" "days_before y \<le> d" "d < days_before (y + 1)"
    using cycle_year_bounds[of d "d div 365"] days(2) by (simp_all add: y_def pos_imp_zdiv_nonneg_iff)
  obtain m r where mr: "split_months 1 (d - days_before y) (days_in leap) = (m, r)" by fastforce
  have "d - days_before y < sum_list (days_in leap)"
    using y(3) by (cases leap) (simp_all add: days_before_step leap_def days_in_def)
  then obtain i where i: "i < 12" "m = 1 + int i" "0 \<le> r" "r < days_in leap ! i"
    "d - days_before y = sum_list (take i (days_in leap)) + r"
    using split_months_spec[OF _ _ mr] y(2) by (auto simp: days_in_def)
  have dt: "date_of_days days = \<lparr>da_Year = 400 * cycle + y + 1, da_Month = m, da_Day = r + 1\<rparr>"
    using mr by (simp add: date_of_days_def cycle_def d_def y_def leap_def Let_def)
  have leap': "is_leap (400 * cycle + y + 1) = leap"
    using is_leap_cycle[of cycle "y + 1"] by (simp add: leap_def add.assoc)
  have start: "month_start leap m = sum_list (take i (days_in leap))" by (simp add: month_start_def i(2))
  show ?thesis
    unfolding dt valid_date_def days_of_date_def
    using i days(1) start[unfolded i(2)] by (simp add: leap' days_before_cycle)
qed

lemma days_before_mono: "y \<le> z \<Longrightarrow> days_before y \<le> days_before z"
proof (induction z rule: int_ge_induct)
  case (step z)
  then show ?case using days_before_step[of z] by (simp split: if_splits)
qed simp

text \<open>The year of a day, by its first and last day.\<close>

lemma year_bounds:
  "days_before (da_Year (date_of_days days) - 1) \<le> days \<and> days < days_before (da_Year (date_of_days days))"
proof -
  define d where "d = date_of_days days"
  have v: "valid_date d" "days_of_date d = days" using date_of_days[of days] by (simp_all add: d_def)
  let ?leap = "is_leap (da_Year d)"
  define i where "i = nat (da_Month d - 1)"
  have i: "i < 12" "1 \<le> da_Day d" "da_Day d \<le> days_in ?leap ! i" using v(1) by (auto simp: valid_date_def i_def)
  have "sum_list (take i (days_in ?leap)) + days_in ?leap ! i = sum_list (take (Suc i) (days_in ?leap))"
  proof -
    have "i < length (days_in ?leap)" using i(1) by (simp add: days_in_def)
    then show ?thesis by (simp only: take_Suc_conv_app_nth) simp
  qed
  also have "\<dots> \<le> sum_list (days_in ?leap)"
  proof -
    have "sum_list (days_in ?leap) = sum_list (take (Suc i) (days_in ?leap)) + sum_list (drop (Suc i) (days_in ?leap))"
      by (metis append_take_drop_id sum_list_append)
    moreover have "0 \<le> sum_list (drop (Suc i) (days_in ?leap))"
      by (intro sum_list_nonneg) (auto simp: days_in_def dest!: in_set_dropD)
    ultimately show ?thesis by simp
  qed
  also have "\<dots> = 365 + (if ?leap then 1 else 0)" by (simp add: days_in_def)
  finally have up: "sum_list (take i (days_in ?leap)) + da_Day d \<le> 365 + (if ?leap then 1 else 0)" using i(3) by simp
  have low: "0 \<le> sum_list (take i (days_in ?leap))"
    by (intro sum_list_nonneg) (auto simp: days_in_def dest!: in_set_takeD)
  have "days_before (da_Year d) = days_before (da_Year d - 1) + 365 + (if ?leap then 1 else 0)"
    using days_before_step[of "da_Year d - 1"] by simp
  with v(2) up low i(2) show ?thesis
    by (simp add: days_of_date_def month_start_def i_def flip: d_def)
qed

section \<open>Writing an instant\<close>

definition append_int :: "int \<Rightarrow> nat \<Rightarrow> string" where
  "append_int x width =
     (let s = show_nat (nat \<bar>x\<bar>)
      in (if x < 0 then ''-'' else []) @ replicate (width - length s) (CHR ''0'') @ s)"

definition seconds_of :: "gotime \<Rightarrow> int" where
  "seconds_of t = t div second"

definition formatDatetime :: "gotime \<Rightarrow> string" where
  "formatDatetime t =
     (let s = seconds_of t; d = date_of_days (s div 86400); r = s mod 86400
      in append_int (da_Year d) 4 @ ''-'' @ append_int (da_Month d) 2 @ ''-'' @ append_int (da_Day d) 2 @ '' '' @
         append_int (r div 3600) 2 @ '':'' @ append_int (r div 60 mod 60) 2 @ '':'' @ append_int (r mod 60) 2)"

section \<open>Reading an instant\<close>

definition getnum :: "bool \<Rightarrow> string \<Rightarrow> (int \<times> string) option" where
  "getnum fixed s =
     (case s of
        [] \<Rightarrow> None
      | c # cs \<Rightarrow>
          (case digit_val c of
             None \<Rightarrow> None
           | Some a \<Rightarrow>
               (case cs of
                  d # ds \<Rightarrow>
                    (case digit_val d of
                       Some b \<Rightarrow> Some (int (10 * a + b), ds)
                     | None \<Rightarrow> if fixed then None else Some (int a, cs))
                | [] \<Rightarrow> if fixed then None else Some (int a, []))))"

definition getyear :: "string \<Rightarrow> (int \<times> string) option" where
  "getyear s =
     (if length s < 4 then None
      else map_option (\<lambda>y. (int y, drop 4 s)) (parse_nat (take 4 s)))"

fun skip_chr :: "char \<Rightarrow> string \<Rightarrow> string option" where
  "skip_chr c [] = None"
| "skip_chr c (x # xs) = (if x = c then Some xs else None)"

text \<open>A blank of the layout stands for any number of blanks, but not for another character.\<close>

definition skip_blank :: "string \<Rightarrow> string option" where
  "skip_blank s = (if s \<noteq> [] \<and> hd s \<noteq> CHR '' '' then None else Some (dropWhile (\<lambda>c. c = CHR '' '') s))"

text \<open>A fraction after the seconds is read although the layout has none; the first nine digits count.\<close>

definition getfraction :: "string \<Rightarrow> int \<times> string" where
  "getfraction s =
     (case s of
        p # c # cs \<Rightarrow>
          if (p = CHR ''.'' \<or> p = CHR '','') \<and> digit_val c \<noteq> None
          then (let ds = takeWhile (\<lambda>x. digit_val x \<noteq> None) (c # cs); used = take 9 ds
                in (int (the (parse_digits 0 used)) * 10 ^ (9 - length used), drop (length ds) (c # cs)))
          else (0, s)
      | _ \<Rightarrow> (0, s))"

definition in_range :: "int \<Rightarrow> int \<Rightarrow> int \<Rightarrow> unit option" where
  "in_range lo hi x = (if lo \<le> x \<and> x \<le> hi then Some () else None)"

definition parseDatetime :: "string \<Rightarrow> gotime option" where
  "parseDatetime s =
     do { (year, s) \<leftarrow> getyear s;
          s \<leftarrow> skip_chr CHR ''-'' s;
          (month, s) \<leftarrow> getnum True s;
          _ \<leftarrow> in_range 1 12 month;
          s \<leftarrow> skip_chr CHR ''-'' s;
          (day, s) \<leftarrow> getnum True s;
          s \<leftarrow> skip_blank s;
          (hour, s) \<leftarrow> getnum False s;
          _ \<leftarrow> in_range 0 23 hour;
          s \<leftarrow> skip_chr CHR '':'' s;
          (min, s) \<leftarrow> getnum True s;
          _ \<leftarrow> in_range 0 59 min;
          s \<leftarrow> skip_chr CHR '':'' s;
          (sec, s) \<leftarrow> getnum True s;
          _ \<leftarrow> in_range 0 59 sec;
          let (nsec, rest) = getfraction s;
          _ \<leftarrow> (if rest = [] then Some () else None);
          _ \<leftarrow> in_range 1 (days_in (is_leap year) ! nat (month - 1)) day;
          Some ((days_of_date \<lparr>da_Year = year, da_Month = month, da_Day = day\<rparr> * 86400 +
                 hour * 3600 + min * 60 + sec) * second + nsec) }"

section \<open>The round trip\<close>

lemma append_two:
  assumes "0 \<le> x" "x < 100"
  shows "append_int x 2 = [digit_chr (nat x div 10), digit_chr (nat x mod 10)]"
proof (cases "nat x < 10")
  case True
  then have "show_nat (nat x) = [digit_chr (nat x)]" by (subst show_nat.simps) simp
  with True assms show ?thesis by (simp add: append_int_def digit_chr_def)
next
  case False
  moreover have "nat x div 10 < 10" using assms by (simp add: less_mult_imp_div_less)
  ultimately have "show_nat (nat x) = [digit_chr (nat x div 10), digit_chr (nat x mod 10)]"
    by (subst show_nat.simps) (subst show_nat.simps, simp)
  with assms show ?thesis by (simp add: append_int_def)
qed

lemma getnum_two:
  assumes "0 \<le> x" "x < 100"
  shows "getnum fixed (append_int x 2 @ s) = Some (x, s)"
proof -
  have "nat x div 10 < 10" using assms by (simp add: less_mult_imp_div_less)
  moreover have "10 * (nat x div 10) + nat x mod 10 = nat x" by simp
  ultimately show ?thesis using assms by (simp add: append_two getnum_def)
qed

lemma length_show_nat: "length (show_nat n) \<le> Suc k \<longleftrightarrow> n < 10 ^ Suc k"
proof (induction k arbitrary: n)
  case 0
  show ?case by (subst show_nat.simps) (auto simp: Suc_le_eq)
next
  case (Suc k)
  have "n div 10 < 10 ^ Suc k \<longleftrightarrow> n < 10 ^ Suc (Suc k)"
    by (simp add: div_less_iff_less_mult mult.commute)
  moreover have "n < 10 ^ Suc (Suc k)" if "n < 10" using that by (simp add: less_le_trans[of n 10])
  ultimately show ?case using Suc[of "n div 10"] by (subst show_nat.simps) auto
qed

lemma parse_digits_zeros: "parse_digits 0 (replicate k (CHR ''0'') @ s) = parse_digits 0 s"
  using digit_val_chr[of 0] by (induction k) (simp_all add: digit_chr_def)

lemma getyear_four:
  assumes "0 \<le> y" "y \<le> 9999"
  shows "getyear (append_int y 4 @ s) = Some (y, s)"
proof -
  let ?n = "show_nat (nat y)"
  have l: "length ?n \<le> 4" using assms length_show_nat[of "nat y" 3] by simp
  then have a: "append_int y 4 = replicate (4 - length ?n) (CHR ''0'') @ ?n" "length (append_int y 4) = 4"
    using assms by (simp_all add: append_int_def Let_def)
  have "parse_nat (append_int y 4) = Some (nat y)"
    using assms by (simp add: a(1) parse_nat_def parse_digits_zeros)
  then show ?thesis using assms a(2) by (simp add: getyear_def)
qed

lemma append_int_pad: "append_int x w = (if x < 0 then ''-'' else []) @ replicate (w - length (show_nat (nat \<bar>x\<bar>))) (CHR ''0'') @ show_nat (nat \<bar>x\<bar>)"
  by (simp add: append_int_def Let_def)

lemma minus_no_digit: "digit_val CHR ''-'' = None"
  by code_simp

text \<open>A year outside of the four digits of the layout does not come back.\<close>

lemma getyear_wide:
  assumes "y < 0 \<or> 9999 < y"
  shows "case getyear (append_int y 4 @ CHR ''-'' # s) of None \<Rightarrow> True | Some (_, s') \<Rightarrow> skip_chr CHR ''-'' s' = None"
proof (cases "y < 0")
  case True
  let ?s = "append_int y 4 @ CHR ''-'' # s"
  have "hd ?s = CHR ''-''" "?s \<noteq> []" using True by (simp_all add: append_int_pad)
  then have "\<exists>cs. take 4 ?s = CHR ''-'' # cs" by (cases ?s) simp_all
  then have "parse_nat (take 4 ?s) = None" using minus_no_digit by (auto simp: parse_nat_def)
  then show ?thesis by (simp add: getyear_def)
next
  case False
  let ?n = "show_nat (nat y)"
  have "\<not> nat y < 10000" using False assms by simp
  then have big: "5 \<le> length ?n" using length_show_nat[of "nat y" 3] by simp
  then have y: "append_int y 4 = ?n" using False by (simp add: append_int_pad)
  have "drop 4 (?n @ CHR ''-'' # s) = ?n ! 4 # drop 5 ?n @ CHR ''-'' # s"
    using big by (simp add: Cons_nth_drop_Suc[of 4, simplified, symmetric])
  moreover have "?n ! 4 \<noteq> CHR ''-''"
  proof -
    have "?n ! 4 \<in> set ?n" using big by (intro nth_mem) simp
    with show_nat_digits have "?n ! 4 \<in> set ''0123456789''" by blast
    then show ?thesis by auto
  qed
  ultimately show ?thesis by (simp add: y getyear_def split: option.split)
qed

lemma nth_days_in: "i < 12 \<Longrightarrow> days_in leap ! i \<le> 31"
proof -
  assume "i < 12"
  then have "days_in leap ! i \<in> set (days_in leap)" by (intro nth_mem) (simp add: days_in_def)
  then show ?thesis by (auto simp: days_in_def split: if_splits)
qed

lemma skip_blank_two:
  assumes "0 \<le> x" "x < 100"
  shows "skip_blank (CHR '' '' # append_int x 2 @ s) = Some (append_int x 2 @ s)"
proof -
  have "digit_chr (nat x div 10) \<in> set ''0123456789''"
    using assms by (intro digit_chr_in) (simp add: less_mult_imp_div_less)
  then have "digit_chr (nat x div 10) \<noteq> CHR '' ''" by auto
  then show ?thesis using assms by (simp add: append_two skip_blank_def)
qed

lemma int_le_div_iff:
  fixes t :: int
  assumes "0 < k"
  shows "a \<le> t div k \<longleftrightarrow> a * k \<le> t"
proof
  assume "a \<le> t div k"
  then have "a * k \<le> (t div k) * k" using assms by simp
  also have "\<dots> \<le> t" using assms by (metis pos_mod_sign minus_mod_eq_div_mult diff_ge_0_iff_ge diff_le_eq le_add_same_cancel1)
  finally show "a * k \<le> t" .
next
  assume "a * k \<le> t"
  then have "a * k div k \<le> t div k" using assms by (intro zdiv_mono1)
  then show "a \<le> t div k" using assms by simp
qed

lemma year_range:
  "0 \<le> da_Year (date_of_days days) \<longleftrightarrow> days_before (- 1) \<le> days"
  "da_Year (date_of_days days) \<le> 9999 \<longleftrightarrow> days < days_before 9999"
proof -
  let ?y = "da_Year (date_of_days days)"
  note b = year_bounds[of days]
  show "0 \<le> ?y \<longleftrightarrow> days_before (- 1) \<le> days"
    using b days_before_mono[of "- 1" "?y - 1"] days_before_mono[of ?y "- 1"] by (cases "0 \<le> ?y") auto
  show "?y \<le> 9999 \<longleftrightarrow> days < days_before 9999"
    using b days_before_mono[of ?y 9999] days_before_mono[of 9999 "?y - 1"] by (cases "?y \<le> 9999") auto
qed

lemma parse_fields:
  assumes "0 \<le> y" "y \<le> 9999" "1 \<le> m" "m \<le> 12" "1 \<le> d" "d \<le> days_in (is_leap y) ! nat (m - 1)"
    and "0 \<le> h" "h \<le> 23" "0 \<le> mi" "mi \<le> 59" "0 \<le> se" "se \<le> 59"
  shows "parseDatetime (append_int y 4 @ CHR ''-'' # append_int m 2 @ ''-'' @ append_int d 2 @ '' '' @
      append_int h 2 @ '':'' @ append_int mi 2 @ '':'' @ append_int se 2) =
    Some ((days_of_date \<lparr>da_Year = y, da_Month = m, da_Day = d\<rparr> * 86400 + h * 3600 + mi * 60 + se) * second)"
proof -
  have "nat (m - 1) < 12" using assms(3,4) by auto
  then have "d < 100" using assms(6) nth_days_in[of "nat (m - 1)" "is_leap y"] by linarith
  then show ?thesis
    using assms by (simp add: parseDatetime_def getyear_four getnum_two getnum_two[where s="[]", simplified]
        skip_blank_two in_range_def getfraction_def)
qed

theorem datetime_roundtrip:
  "parseDatetime (formatDatetime t) =
     (if days_before (- 1) * 86400 * second \<le> t \<and> t < days_before 9999 * 86400 * second
      then Some (sqlite_time t) else None)"
proof -
  define s where "s = seconds_of t"
  define r where "r = s mod 86400"
  define d where "d = date_of_days (s div 86400)"
  have r: "0 \<le> r" "r < 86400" by (simp_all add: r_def)
  have v: "valid_date d" "days_of_date d = s div 86400" using date_of_days by (simp_all add: d_def)
  have nums: "0 \<le> r div 3600" "r div 3600 \<le> 23" "0 \<le> r div 60 mod 60" "r div 60 mod 60 \<le> 59"
    "0 \<le> r mod 60" "r mod 60 \<le> 59" using r by auto
  have md: "1 \<le> da_Month d" "da_Month d \<le> 12" "1 \<le> da_Day d"
    "da_Day d \<le> days_in (is_leap (da_Year d)) ! nat (da_Month d - 1)"
    using v(1) by (simp_all add: valid_date_def)
  let ?rest = "append_int (da_Month d) 2 @ ''-'' @ append_int (da_Day d) 2 @ '' '' @
         append_int (r div 3600) 2 @ '':'' @ append_int (r div 60 mod 60) 2 @ '':'' @ append_int (r mod 60) 2"
  have f: "formatDatetime t = append_int (da_Year d) 4 @ CHR ''-'' # ?rest"
    by (simp add: formatDatetime_def Let_def s_def r_def d_def)
  have range: "0 \<le> da_Year d \<and> da_Year d \<le> 9999 \<longleftrightarrow>
      days_before (- 1) * 86400 * second \<le> t \<and> t < days_before 9999 * 86400 * second"
  proof -
    have "s div 86400 = t div (86400 * second)"
      using zdiv_zmult2_eq[of 86400 t second] by (simp add: s_def seconds_of_def mult.commute)
    then show ?thesis
      using int_le_div_iff[of "86400 * second" _ t] year_range[of "s div 86400"]
      by (simp add: d_def second_def not_le[symmetric] mult.commute)
  qed
  show ?thesis
  proof (cases "0 \<le> da_Year d \<and> da_Year d \<le> 9999")
    case True
    have split: "r div 3600 * 3600 + r div 60 mod 60 * 60 + r mod 60 = r"
    proof -
      have "r div 3600 = r div 60 div 60" using zdiv_zmult2_eq[of 60 r 60] by simp
      then have "r div 3600 * 3600 + r div 60 mod 60 * 60 = (r div 60 div 60 * 60 + r div 60 mod 60) * 60"
        by (simp only: algebra_simps)
      then show ?thesis by (simp only: div_mult_mod_eq)
    qed
    have "parseDatetime (formatDatetime t) = Some ((s div 86400 * 86400 + r) * second)"
    proof -
      have "days_of_date \<lparr>da_Year = da_Year d, da_Month = da_Month d, da_Day = da_Day d\<rparr> = s div 86400"
        using v(2) by (cases d) simp
      moreover have "s div 86400 * 86400 + r div 3600 * 3600 + r div 60 mod 60 * 60 + r mod 60 =
          s div 86400 * 86400 + r" using split by (simp only: add.assoc)
      ultimately show ?thesis
        unfolding f using parse_fields[OF _ _ md nums] True by (simp only:)
    qed
    also have "s div 86400 * 86400 + r = s" by (simp add: r_def)
    finally show ?thesis using True range by (simp add: s_def seconds_of_def sqlite_time_def)
  next
    case False
    then have "da_Year d < 0 \<or> 9999 < da_Year d" by auto
    from getyear_wide[OF this, of ?rest] have "parseDatetime (formatDatetime t) = None"
      unfolding f parseDatetime_def by (auto split: option.splits bind_split)
    with False range show ?thesis by auto
  qed
qed

end
