(* ===== verification/Sqlite_Rows.thy ===== *)
theory Sqlite_Rows
  imports Go_Time Project_Registry Pending_Store
begin

text \<open>
  The rows of the SQLite adapters as they are in the file: the columns of \<open>projects\<close> and
  \<open>pending_approvals\<close>, the two scan functions, and the text form of instants (\<open>scanProject\<close>,
  \<open>parseSQLiteDatetime\<close>, \<open>isUniqueConstraintViolation\<close> in \<open>sqlite_project_registry.go\<close>, \<open>scanPendingApproval\<close>,
  \<open>formatSQLiteDatetime\<close> in \<open>sqlite_pending_store.go\<close>).  The adapters themselves
  (\<open>Project_Registry\<close>, \<open>Pending_Store\<close>) work on records with instants cut to seconds; here this is
  shown to be what comes back from the columns.
\<close>

section \<open>Columns\<close>

record project_columns =
  pc_id :: string
  pc_github_org :: string
  pc_github_repo :: string
  pc_workspace_path :: string
  pc_slack_default_channel :: string
  pc_installation_id :: int64
  pc_status :: string
  pc_created_at :: string
  pc_archived_at :: "string option"

record pending_columns =
  qc_idempotency_key :: string
  qc_op :: string
  qc_body_json :: string
  qc_effective_requester_id :: string
  qc_requester_actor_type :: string
  qc_created_at :: string
  qc_status :: string
  qc_applied_at :: "string option"

definition formatSQLiteDatetime :: "gotime \<Rightarrow> string" where
  "formatSQLiteDatetime t = formatDatetime t"

definition parseSQLiteDatetime :: "string \<Rightarrow> gotime option" where
  "parseSQLiteDatetime s = parseDatetime s"

text \<open>What the statements put into the columns of a record: the instants of a project come from
  \<open>datetime('now')\<close> of SQLite, which has the same form, those of a request from Go.\<close>

definition project_to_columns :: "project \<Rightarrow> project_columns" where
  "project_to_columns p =
     \<lparr>pc_id = pj_ID p, pc_github_org = pj_GitHubOrg p, pc_github_repo = pj_GitHubRepo p,
      pc_workspace_path = pj_WorkspacePath p, pc_slack_default_channel = pj_SlackDefaultChannel p,
      pc_installation_id = pj_GitHubAppInstallationID p, pc_status = pj_Status p,
      pc_created_at = formatDatetime (pj_CreatedAt p),
      pc_archived_at = map_option formatDatetime (pj_ArchivedAt p)\<rparr>"

definition pending_to_columns :: "pending \<Rightarrow> pending_columns" where
  "pending_to_columns p =
     \<lparr>qc_idempotency_key = pa_IdempotencyKey p, qc_op = pa_Op p, qc_body_json = pa_BodyJSON p,
      qc_effective_requester_id = pa_EffectiveRequesterID p,
      qc_requester_actor_type = pa_RequesterActorType p,
      qc_created_at = formatSQLiteDatetime (pa_CreatedAt p), qc_status = pa_Status p,
      qc_applied_at = map_option formatSQLiteDatetime (pa_AppliedAt p)\<rparr>"

section \<open>Scanning\<close>

datatype scan_error = ScanFailed string | BadCreatedAt string | BadArchivedAt string | BadAppliedAt string

text \<open>The driver fills the variables or fails.\<close>

definition scanProject :: "string + project_columns \<Rightarrow> scan_error + project" where
  "scanProject r =
     (case r of
        Inl e \<Rightarrow> Inl (ScanFailed e)
      | Inr c \<Rightarrow>
          (case parseSQLiteDatetime (pc_created_at c) of
             None \<Rightarrow> Inl (BadCreatedAt (pc_created_at c))
           | Some created \<Rightarrow>
               (let p = \<lparr>pj_ID = pc_id c, pj_GitHubOrg = pc_github_org c, pj_GitHubRepo = pc_github_repo c,
                         pj_WorkspacePath = pc_workspace_path c,
                         pj_SlackDefaultChannel = pc_slack_default_channel c,
                         pj_GitHubAppInstallationID = pc_installation_id c, pj_Status = pc_status c,
                         pj_CreatedAt = created, pj_ArchivedAt = None\<rparr>
                in case pc_archived_at c of
                     None \<Rightarrow> Inr p
                   | Some s \<Rightarrow>
                       (case parseSQLiteDatetime s of
                          None \<Rightarrow> Inl (BadArchivedAt s)
                        | Some archived \<Rightarrow> Inr (p\<lparr>pj_ArchivedAt := Some archived\<rparr>)))))"

definition scanPendingApproval :: "string + pending_columns \<Rightarrow> scan_error + pending" where
  "scanPendingApproval r =
     (case r of
        Inl e \<Rightarrow> Inl (ScanFailed e)
      | Inr c \<Rightarrow>
          (case parseSQLiteDatetime (qc_created_at c) of
             None \<Rightarrow> Inl (BadCreatedAt (qc_created_at c))
           | Some created \<Rightarrow>
               (let p = \<lparr>pa_IdempotencyKey = qc_idempotency_key c, pa_Op = qc_op c, pa_BodyJSON = qc_body_json c,
                         pa_EffectiveRequesterID = qc_effective_requester_id c,
                         pa_RequesterActorType = qc_requester_actor_type c, pa_CreatedAt = created,
                         pa_Status = qc_status c, pa_AppliedAt = None\<rparr>
                in case qc_applied_at c of
                     None \<Rightarrow> Inr p
                   | Some s \<Rightarrow>
                       (case parseSQLiteDatetime s of
                          None \<Rightarrow> Inl (BadAppliedAt s)
                        | Some applied \<Rightarrow> Inr (p\<lparr>pa_AppliedAt := Some applied\<rparr>)))))"

text \<open>The code recognises a taken key by the text of the error.\<close>

definition isUniqueConstraintViolation :: "string option \<Rightarrow> bool" where
  "isUniqueConstraintViolation err =
     (case err of None \<Rightarrow> False | Some e \<Rightarrow> contains_str e ''UNIQUE constraint failed'')"

section \<open>Reading back\<close>

definition writable :: "gotime \<Rightarrow> bool" where
  "writable t \<longleftrightarrow> days_before (- 1) * 86400 * second \<le> t \<and> t < days_before 9999 * 86400 * second"

lemma parse_format: "parseSQLiteDatetime (formatDatetime t) = (if writable t then Some (sqlite_time t) else None)"
  by (simp add: parseSQLiteDatetime_def datetime_roundtrip writable_def)

lemma sqlite_time_idem [simp]: "sqlite_time (sqlite_time t) = sqlite_time t"
  by (simp add: sqlite_time_def second_def)

lemma second_pos [simp]: "0 < second"
  by (simp add: second_def)

lemma writable_sqlite_time [simp]: "writable (sqlite_time t) \<longleftrightarrow> writable t"
proof -
  have le: "a * second \<le> sqlite_time t \<longleftrightarrow> a * second \<le> t" for a
    using int_le_div_iff[of second a t] by (simp add: sqlite_time_def)
  show ?thesis using le[of "days_before (- 1) * 86400"] le[of "days_before 9999 * 86400"]
    by (simp add: writable_def not_le[symmetric])
qed

text \<open>A record comes back with every field and its instants cut to whole seconds, or not at all.\<close>

lemma scanProject_columns:
  "scanProject (Inr (project_to_columns p)) =
     (if \<not> writable (pj_CreatedAt p) then Inl (BadCreatedAt (formatDatetime (pj_CreatedAt p)))
      else case pj_ArchivedAt p of
        Some a \<Rightarrow>
          if writable a then Inr (p\<lparr>pj_CreatedAt := sqlite_time (pj_CreatedAt p), pj_ArchivedAt := Some (sqlite_time a)\<rparr>)
          else Inl (BadArchivedAt (formatDatetime a))
      | None \<Rightarrow> Inr (p\<lparr>pj_CreatedAt := sqlite_time (pj_CreatedAt p)\<rparr>))"
  by (cases p) (simp add: scanProject_def project_to_columns_def parse_format Let_def split: option.split)

lemma scanPendingApproval_columns:
  "scanPendingApproval (Inr (pending_to_columns q)) =
     (if \<not> writable (pa_CreatedAt q) then Inl (BadCreatedAt (formatSQLiteDatetime (pa_CreatedAt q)))
      else case pa_AppliedAt q of
        Some a \<Rightarrow>
          if writable a then Inr (q\<lparr>pa_CreatedAt := sqlite_time (pa_CreatedAt q), pa_AppliedAt := Some (sqlite_time a)\<rparr>)
          else Inl (BadAppliedAt (formatSQLiteDatetime a))
      | None \<Rightarrow> Inr (q\<lparr>pa_CreatedAt := sqlite_time (pa_CreatedAt q)\<rparr>))"
  by (cases q)
    (simp add: scanPendingApproval_def pending_to_columns_def formatSQLiteDatetime_def parse_format Let_def
      split: option.split)

text \<open>The instants of a record that comes back unchanged.\<close>

definition whole :: "gotime \<Rightarrow> bool" where
  "whole t \<longleftrightarrow> writable t \<and> sqlite_time t = t"

lemma whole_sqlite_time [simp]: "whole (sqlite_time t) \<longleftrightarrow> writable t"
  by (simp add: whole_def)

definition whole_project :: "project \<Rightarrow> bool" where
  "whole_project p \<longleftrightarrow> whole (pj_CreatedAt p) \<and> (\<forall>a. pj_ArchivedAt p = Some a \<longrightarrow> whole a)"

definition whole_pending :: "pending \<Rightarrow> bool" where
  "whole_pending q \<longleftrightarrow> whole (pa_CreatedAt q) \<and> (\<forall>a. pa_AppliedAt q = Some a \<longrightarrow> whole a)"

lemma whole_reads_back:
  "whole_project p \<Longrightarrow> scanProject (Inr (project_to_columns p)) = Inr p"
  "whole_pending q \<Longrightarrow> scanPendingApproval (Inr (pending_to_columns q)) = Inr q"
  by (cases p, simp add: scanProject_columns whole_project_def whole_def split: option.split)
     (cases q, simp add: scanPendingApproval_columns whole_pending_def whole_def split: option.split)

section \<open>The adapters store whole records\<close>

fun years_ok :: "env_store \<times> pending_op \<Rightarrow> bool" where
  "years_ok (E, OpCreate p) \<longleftrightarrow> writable (es_now E) \<and> writable (pa_CreatedAt p)"
| "years_ok (E, OpFetch k) \<longleftrightarrow> True"
| "years_ok (E, OpTransition k st at) \<longleftrightarrow> (\<forall>a. at = Some a \<longrightarrow> writable a)"

lemma sqlite_apply_whole:
  assumes "writable (es_now E)" "\<forall>k q. row t k = Some q \<longrightarrow> whole_project q"
    and "row (snd (sqlite_apply (E, op) t)) k = Some q"
  shows "whole_project q"
proof (cases op)
  case (OpAdd p)
  with assms show ?thesis
    using svc_create_new[of E "pj_ID p" "sqlite_project_row (es_now E) p" t k q]
    by (auto simp: sqlite_Add_def whole_project_def sqlite_project_row_def split: option.splits)
next
  case (OpGet k')
  with assms show ?thesis by (simp add: sqlite_Get_def)
next
  case (OpArchive k')
  have a: "whole_project (sqlite_archive_row (es_now E) x)" if "whole_project x" for x
    using that assms(1) by (simp add: whole_project_def sqlite_archive_row_def split: option.splits)
  from OpArchive show ?thesis
    using assms svc_update_cases[of E k' "sqlite_archive_row (es_now E)" t k] a
    by (auto simp: sqlite_Archive_def)
qed

lemma generic_create_rows:
  assumes "row (snd (generic_create ok doc E p t)) k = Some q"
  shows "row t k = Some q \<or> q = doc (with_defaults (es_now E) p)"
  using assms
  by (rule_tac env=E and doc=doc and ?p0.0=p and t=t and ok=ok in generic_create_cases)
    (auto dest!: svc_create_new)

lemma sqlite_pending_apply_whole:
  assumes "years_ok (E, op)" "\<forall>k q. row t k = Some q \<longrightarrow> whole_pending q"
    and "row (sqlite_pending_apply (E, op) t) k = Some q"
  shows "whole_pending q"
proof (cases op)
  case (OpCreate p)
  let ?doc = "\<lambda>p. p\<lparr>pa_CreatedAt := sqlite_time (pa_CreatedAt p), pa_AppliedAt := None\<rparr>"
  let ?p = "with_defaults (es_now E) p"
  have w: "whole_pending (?doc ?p)"
    using assms(1) OpCreate by (simp add: whole_pending_def with_defaults_def Let_def)
  from OpCreate assms(3) have "row (snd (generic_create
      (\<lambda>p. pa_Op p \<in> {PendingOpAdd, PendingOpArchive} \<and> valid_status (pa_Status p)) ?doc E p t)) k = Some q"
    by (simp only: sqlite_pending_apply.simps sqlite_create_generic)
  from generic_create_rows[OF this] assms(2) w show ?thesis by blast
next
  case (OpFetch k')
  with assms show ?thesis by (simp add: sqlite_pending_Get_def)
next
  case (OpTransition k' st at)
  have u: "whole_pending (sqlite_status_update st at x)" if "whole_pending x" for x
    using that assms(1) OpTransition by (simp add: whole_pending_def sqlite_status_update_def split: option.split)
  from OpTransition assms(3) show ?thesis
    using assms(2) transition_tx_cases[of E "valid_status st" k' "sqlite_status_update st at" t] u
    by (auto simp: sqlite_Transition_def tx_result_def update_conv' split: if_splits)
qed

text \<open>C40. The records the model of the SQLite adapters keeps are what the file holds.  Whatever operations run,
  with whatever faults, on a file that was empty at first: as long as the clock and the instants that
  are passed in lie in the years 0 to 9999, every stored record that is written into its columns
  is scanned back as exactly the same record, so no operation can fail on a row it finds.  An
  instant outside of these years makes its record unreadable.\<close>

theorem sqlite_rows_read_back:
  assumes "\<forall>(E, op) \<in> set ops. writable (es_now E)" "\<forall>op \<in> set pops. years_ok op"
  shows "(row (fold (\<lambda>op t. snd (sqlite_apply op t)) ops empty_table) k = Some p \<longrightarrow>
       scanProject (Inr (project_to_columns p)) = Inr p) \<and>
    (row (fold sqlite_pending_apply pops empty_table) k = Some q \<longrightarrow>
       scanPendingApproval (Inr (pending_to_columns q)) = Inr q) \<and>
    (\<not> writable t \<longrightarrow> scanPendingApproval (Inr (pending_to_columns (q\<lparr>pa_CreatedAt := t\<rparr>))) =
       Inl (BadCreatedAt (formatSQLiteDatetime t)))"
proof -
  have "\<forall>k p. row (fold (\<lambda>op t. snd (sqlite_apply op t)) ops empty_table) k = Some p \<longrightarrow> whole_project p"
    using assms(1)
  proof (induction ops rule: rev_induct)
    case (snoc op ops)
    then show ?case using sqlite_apply_whole by (cases op) (auto simp del: sqlite_apply.simps)
  qed (simp add: empty_table_def)
  moreover have "\<forall>k q. row (fold sqlite_pending_apply pops empty_table) k = Some q \<longrightarrow> whole_pending q"
    using assms(2)
  proof (induction pops rule: rev_induct)
    case (snoc op pops)
    then show ?case using sqlite_pending_apply_whole by (cases op) (auto simp del: sqlite_pending_apply.simps)
  qed (simp add: empty_table_def)
  moreover have "\<not> writable t \<longrightarrow> scanPendingApproval (Inr (pending_to_columns (q\<lparr>pa_CreatedAt := t\<rparr>))) =
      Inl (BadCreatedAt (formatSQLiteDatetime t))" by (simp add: scanPendingApproval_columns)
  ultimately show ?thesis using whole_reads_back by blast
qed

text \<open>A project added on 29 February 2024, read back.\<close>

definition leap_day :: gotime where "leap_day = 63844761600 * 10 ^ 9 + 42"

lemma leap_day_writable: "writable leap_day"
  by (simp add: writable_def leap_day_def days_before_def second_def)

theorem sqlite_rows_read_back_witness:
  "\<exists>p. row (snd (sqlite_apply (calm_store\<lparr>es_now := leap_day\<rparr>, OpAdd sample_project) empty_table)) ''web'' = Some p \<and>
     pc_created_at (project_to_columns p) = ''2024-02-29 00:00:00'' \<and>
     scanProject (Inr (project_to_columns p)) = Inr p"
proof -
  let ?E = "calm_store\<lparr>es_now := leap_day\<rparr>"
  let ?p = "sqlite_project_row leap_day sample_project"
  have v: "ValidateProjectID ''web'' = None" by code_simp
  have row: "row (snd (sqlite_apply (?E, OpAdd sample_project) empty_table)) ''web'' = Some ?p"
    by (simp add: sqlite_Add_def svc_Fine calm_store_def empty_table_def row_create_def sample_project_def v)
  have "\<forall>(E, op) \<in> set [(?E, OpAdd sample_project)]. writable (es_now E)" by (simp add: leap_day_writable)
  from sqlite_rows_read_back[OF this, of "[]" "''web''" ?p] row
  have again: "scanProject (Inr (project_to_columns ?p)) = Inr ?p" by (simp del: sqlite_apply.simps)
  have "pc_created_at (project_to_columns ?p) = formatDatetime (sqlite_time leap_day)"
    by (simp add: project_to_columns_def sqlite_project_row_def)
  also have "\<dots> = ''2024-02-29 00:00:00''" by code_simp
  finally show ?thesis using row again by blast
qed

end
