(* ===== verification/Sqlite_Open.thy ===== *)
theory Sqlite_Open
  imports State_Factory Sqlite_Migrations
begin

text \<open>
  Opening the SQLite file (\<open>OpenSQLite\<close> and \<open>buildSQLiteDSN\<close> in \<open>internal/adapter/output/state/sqlite.go\<close>),
  with the handles that are open at the driver, and the two stores of one process on top of it.  Whether
  the driver takes a connection string and answers a ping is an argument.
\<close>

section \<open>The connection string\<close>

text \<open>\<open>url.QueryEscape\<close> and the encoding of \<open>url.Values\<close>: keys in order, the values of a key as they were added.\<close>

definition hex_upper :: "nat \<Rightarrow> char" where
  "hex_upper d = ''0123456789ABCDEF'' ! d"

definition query_safe :: "char \<Rightarrow> bool" where
  "query_safe c \<longleftrightarrow>
     (let n = (of_char c :: nat)
      in (48 \<le> n \<and> n \<le> 57) \<or> (65 \<le> n \<and> n \<le> 90) \<or> (97 \<le> n \<and> n \<le> 122) \<or> c \<in> set ''-_.~'')"

definition query_escape_chr :: "char \<Rightarrow> string" where
  "query_escape_chr c =
     (if query_safe c then [c]
      else if c = CHR '' '' then ''+''
      else [CHR 0x25, hex_upper (of_char c div 16), hex_upper (of_char c mod 16)])"

definition query_escape :: "string \<Rightarrow> string" where
  "query_escape s = concat (map query_escape_chr s)"

definition values_encode :: "(string \<times> string list) list \<Rightarrow> string" where
  "values_encode q =
     join ''&'' (concat (map (\<lambda>(k, vs). map (\<lambda>v. query_escape k @ ''='' @ query_escape v) vs) (sort_key fst q)))"

definition buildSQLiteDSN :: "string \<Rightarrow> string" where
  "buildSQLiteDSN dbPath =
     ''file:'' @ dbPath @ ''?'' @
     values_encode [(''_pragma'',
       [''busy_timeout(5000)'', ''journal_mode(WAL)'', ''synchronous(NORMAL)'', ''foreign_keys(ON)''])]"

section \<open>Opening\<close>

record sqlite_driver =
  sd_open :: "string \<Rightarrow> gerror"
  sd_ping :: "string \<Rightarrow> gerror"

text \<open>The database files by path, and the connection strings of the handles that are open.\<close>

record sqlite_state =
  sq_file :: "string \<Rightarrow> sqlite_db"
  sq_handles :: "string list"

definition open_handle :: "string \<Rightarrow> sqlite_state \<Rightarrow> sqlite_state" where
  "open_handle dsn st = st\<lparr>sq_handles := dsn # sq_handles st\<rparr>"

definition close_handle :: "string \<Rightarrow> sqlite_state \<Rightarrow> sqlite_state" where
  "close_handle dsn st = st\<lparr>sq_handles := remove1 dsn (sq_handles st)\<rparr>"

definition OpenSQLite ::
  "sqlite_driver \<Rightarrow> migration_set \<Rightarrow> (nat \<Rightarrow> fault) \<Rightarrow> string \<Rightarrow> sqlite_state \<Rightarrow> (string + string) \<times> sqlite_state" where
  "OpenSQLite D M fl dbPath st =
     (let dsn = buildSQLiteDSN dbPath
      in case sd_open D dsn of
           Some e \<Rightarrow> (Inl (''open sqlite: '' @ e), st)
         | None \<Rightarrow>
             (let st1 = open_handle dsn st
              in case sd_ping D dsn of
                   Some e \<Rightarrow> (Inl (''ping sqlite: '' @ e), close_handle dsn st1)
                 | None \<Rightarrow>
                     (let r = applyMigrations M fl (sq_file st1 dbPath);
                          st2 = st1\<lparr>sq_file := (sq_file st1)(dbPath := snd r)\<rparr>
                      in case fst r of
                           Some e \<Rightarrow> (Inl (''apply migrations: '' @ e), close_handle dsn st2)
                         | None \<Rightarrow> (Inr dsn, st2))))"

text \<open>The machine of a process, with this driver behind it.\<close>

definition host_on ::
  "sqlite_driver \<Rightarrow> migration_set \<Rightarrow> (nat \<Rightarrow> fault) \<Rightarrow> sqlite_state \<Rightarrow> host \<Rightarrow> host" where
  "host_on D M fl st h =
     h\<lparr>ho_open := (\<lambda>path. case fst (OpenSQLite D M fl path st) of Inl e \<Rightarrow> Some e | Inr _ \<Rightarrow> None)\<rparr>"

lemma buildSQLiteDSN_text:
  "buildSQLiteDSN p =
     ''file:'' @ p @ ''?_pragma=busy_timeout%285000%29&_pragma=journal_mode%28WAL%29'' @
     ''&_pragma=synchronous%28NORMAL%29&_pragma=foreign_keys%28ON%29''"
proof -
  have "values_encode [(''_pragma'',
       [''busy_timeout(5000)'', ''journal_mode(WAL)'', ''synchronous(NORMAL)'', ''foreign_keys(ON)''])] =
     ''_pragma=busy_timeout%285000%29&_pragma=journal_mode%28WAL%29'' @
     ''&_pragma=synchronous%28NORMAL%29&_pragma=foreign_keys%28ON%29''" by code_simp
  then show ?thesis by (simp add: buildSQLiteDSN_def)
qed

lemma buildSQLiteDSN_inj: "buildSQLiteDSN p = buildSQLiteDSN q \<longleftrightarrow> p = q"
  by (simp add: buildSQLiteDSN_def)

lemma OpenSQLite_Inr:
  assumes "OpenSQLite D M fl path st = (Inr dsn, st')"
  shows "dsn = buildSQLiteDSN path \<and> sd_open D dsn = None \<and> sd_ping D dsn = None \<and>
    applyMigrations M fl (sq_file st path) = (None, sq_file st' path) \<and>
    sq_handles st' = dsn # sq_handles st \<and> (\<forall>p. p \<noteq> path \<longrightarrow> sq_file st' p = sq_file st p)"
  using assms by (auto simp: OpenSQLite_def open_handle_def Let_def prod_eq_iff split: option.splits)

lemma OpenSQLite_Inl:
  "fst (OpenSQLite D M fl path st) = Inl e \<Longrightarrow> sq_handles (snd (OpenSQLite D M fl path st)) = sq_handles st"
  by (auto simp: OpenSQLite_def open_handle_def close_handle_def Let_def split: option.splits)

lemma OpenSQLite_ledger:
  assumes "ledger_inv M (sq_file st p)"
  shows "ledger_inv M (sq_file (snd (OpenSQLite D M fl path st)) p)"
proof -
  obtain evs where "snd (applyMigrations M fl (sq_file st path)) = fold (db_event_step M) evs (sq_file st path)"
    using applyMigrations_events by blast
  with assms ledger_inv_events show ?thesis
    by (auto simp: OpenSQLite_def open_handle_def close_handle_def Let_def split: option.splits)
qed

text \<open>A migrated file is opened again without a change.\<close>

lemma OpenSQLite_again:
  assumes "sd_open D (buildSQLiteDSN path) = None" "sd_ping D (buildSQLiteDSN path) = None"
    and "db_ledger (sq_file st path) = Some l" "set (migration_names M) \<subseteq> set l" "fl 0 = Fine" "fl 1 = Fine"
  shows "OpenSQLite D M fl path st = (Inr (buildSQLiteDSN path), open_handle (buildSQLiteDSN path) st)"
  using assms applyMigrations_again[OF assms(3-6)]
  by (simp add: OpenSQLite_def open_handle_def Let_def fun_upd_idem)

lemma resolved_sqlite:
  assumes "ResolveFromEnv h getenv = Inr (Some (SQLite path))"
  shows "state_db_path h getenv = Inr path \<and> ho_mkdir h (filepath_Dir path) = None \<and> ho_open h path = None \<and>
    (getenv envProjectRegistry = ''sqlite'' \<or>
     getenv envProjectRegistry = [] \<and> getenv envRunopsEnv = ''development'')"
  using assms by (auto simp: resolver_defs Let_def split: if_splits sum.splits option.splits)

text \<open>The two stores of a process on SQLite.  When the resolver of the registry succeeds with a file, that
  file has every migration, each committed once, and exactly one more handle is open, for this file
  and with all four pragmas.  The resolver of the pending store then opens the same file, succeeds
  unless one of the two statements it makes fails, changes nothing in any file, and leaves one more
  handle.  An opening that fails leaves no handle behind.\<close>

theorem stores_open_one_file:
  assumes "ledger_inv M (sq_file st path)"
    and "ResolveFromEnv (host_on D M fl st h) getenv = Inr (Some (SQLite path))"
    and "st1 = snd (OpenSQLite D M fl path st)"
  shows "(\<exists>l. db_ledger (sq_file st1 path) = Some l \<and> distinct l \<and> set (migration_names M) \<subseteq> set l \<and>
        map Some (db_schema (sq_file st1 path)) = map (mg_file M) l) \<and>
    sq_handles st1 = buildSQLiteDSN path # sq_handles st \<and>
    (fl' 0 = Fine \<and> fl' 1 = Fine \<longrightarrow>
       ResolvePendingStoreFromEnv (host_on D M fl' st1 h) getenv = Inr (Some (SQLite path)) \<and>
       snd (OpenSQLite D M fl' path st1) = open_handle (buildSQLiteDSN path) st1) \<and>
    (\<forall>e. fst (OpenSQLite D M fl' path st1) = Inl e \<longrightarrow>
       sq_handles (snd (OpenSQLite D M fl' path st1)) = sq_handles st1)"
proof -
  note r = resolved_sqlite[OF assms(2)]
  obtain dsn where o: "OpenSQLite D M fl path st = (Inr dsn, st1)"
    using r assms(3) by (cases "OpenSQLite D M fl path st") (auto simp: host_on_def split: sum.splits)
  note opened = OpenSQLite_Inr[OF o]
  have inv: "ledger_inv M (sq_file st1 path)" using OpenSQLite_ledger[OF assms(1)] assms(3) by simp
  from opened obtain l where l: "db_ledger (sq_file st1 path) = Some l" "set (migration_names M) \<subseteq> set l"
    using applyMigrations_None by blast
  have again: "OpenSQLite D M fl' path st1 = (Inr (buildSQLiteDSN path), open_handle (buildSQLiteDSN path) st1)"
    if "fl' 0 = Fine" "fl' 1 = Fine" by (rule OpenSQLite_again[OF _ _ l that]) (use opened in auto)
  have "ResolvePendingStoreFromEnv (host_on D M fl' st1 h) getenv = Inr (Some (SQLite path))"
    if "fl' 0 = Fine" "fl' 1 = Fine"
    using r again[OF that]
    by (auto simp: resolver_defs host_on_def state_db_path_def Let_def split: if_splits sum.splits)
  with again inv l opened OpenSQLite_Inl show ?thesis by (auto simp: ledger_inv_def)
qed

definition local_env :: getenv where
  "local_env k = (if k = envProjectRegistry then ''sqlite'' else if k = envStateDBPath then ''/s.db'' else [])"

definition new_files :: sqlite_state where
  "new_files = \<lparr>sq_file = (\<lambda>_. empty_db), sq_handles = []\<rparr>"

abbreviation plain_driver :: sqlite_driver where
  "plain_driver \<equiv> \<lparr>sd_open = (\<lambda>_. None), sd_ping = (\<lambda>_. None)\<rparr>"

abbreviation plain_host :: host where
  "plain_host \<equiv> \<lparr>ho_home = Inl [], ho_mkdir = (\<lambda>_. None), ho_open = (\<lambda>_. None), ho_firestore = (\<lambda>_ _. None)\<rparr>"

lemma first_opening:
  "OpenSQLite plain_driver sample_migrations (\<lambda>_. Fine) ''/s.db'' new_files =
     (Inr (buildSQLiteDSN ''/s.db''),
      \<lparr>sq_file = (\<lambda>_. empty_db)(''/s.db'' := \<lparr>db_ledger = Some [''a.sql'', ''b.sql''], db_schema = [''A'', ''B'']\<rparr>),
       sq_handles = [buildSQLiteDSN ''/s.db'']\<rparr>)"
proof -
  have "applyMigrations sample_migrations (\<lambda>_. Fine) empty_db =
      (None, \<lparr>db_ledger = Some [''a.sql'', ''b.sql''], db_schema = [''A'', ''B'']\<rparr>)"
    by (simp add: applyMigrations_def ensureMigrationsTable_def sql_call_def loadAppliedMigrations_def
        migration_names_def sample_migrations_def empty_db_def has_suffix_def applySingleMigration_def)
  then show ?thesis by (simp add: OpenSQLite_def open_handle_def new_files_def Let_def)
qed

theorem stores_open_one_file_witness:
  "ResolvePendingStoreFromEnv
      (host_on plain_driver sample_migrations (\<lambda>_. Fine)
         (snd (OpenSQLite plain_driver sample_migrations (\<lambda>_. Fine) ''/s.db'' new_files)) plain_host) local_env =
    Inr (Some (SQLite ''/s.db''))"
proof -
  have inv: "ledger_inv sample_migrations (sq_file new_files ''/s.db'')"
    by (simp add: new_files_def ledger_inv_empty)
  have "ResolveFromEnv (host_on plain_driver sample_migrations (\<lambda>_. Fine) new_files plain_host) local_env =
      Inr (Some (SQLite ''/s.db''))"
    by (simp add: resolver_defs state_db_path_def host_on_def first_opening local_env_def go_consts)
  from stores_open_one_file[OF inv this refl, of "\<lambda>_. Fine"] show ?thesis by simp
qed

end
