(* ===== verification/Click_Jobs.thy ===== *)
theory Click_Jobs
  imports Operations
begin

text \<open>
  The jobs that a click starts in the background (\<open>handleRunOpsAction\<close> and \<open>notifyIfTimeout\<close> in
  \<open>internal/adapter/input/slack/handler.go\<close>).  Each job runs under a context that expires with the URL Slack
  gave for answers; every call of a port is made with that context.
\<close>

section \<open>An expiring context\<close>

text \<open>\<open>late es\<close>: the context has expired when the call after the calls \<open>es\<close> is made.  Such a call is not carried
  out and answers an error; how the port words that error is \<open>why\<close>.\<close>

definition with_deadline :: "(effect list \<Rightarrow> bool) \<Rightarrow> (effect \<Rightarrow> string) \<Rightarrow> effect env \<Rightarrow> effect env" where
  "with_deadline late why E =
     E\<lparr>reply := (\<lambda>es e. if late es then Some (why e) else reply E es e)\<rparr>"

lemma with_deadline_sel [simp]:
  "reply (with_deadline late why E) es e = (if late es then Some (why e) else reply E es e)"
  "clock (with_deadline late why E) = clock E"
  by (simp_all add: with_deadline_def)

text \<open>The calls that are carried out.\<close>

fun delivered :: "(effect list \<Rightarrow> bool) \<Rightarrow> effect list \<Rightarrow> effect list \<Rightarrow> effect list" where
  "delivered late t [] = []"
| "delivered late t (e # es) = (if late t then [] else [e]) @ delivered late (t @ [e]) es"

definition ctx_expired :: "(effect list \<Rightarrow> bool) \<Rightarrow> bool runops" where
  "ctx_expired late = State (\<lambda>w. (late (trace w), w))"

text \<open>The notice goes out under a context of its own.\<close>

definition notifyIfTimeout :: "(effect list \<Rightarrow> bool) \<Rightarrow> effect env \<Rightarrow> notify_target \<Rightarrow> unit runops" where
  "notifyIfTimeout late E target =
     do { expired \<leftarrow> ctx_expired late;
          if \<not> expired then State_Monad.return ()
          else ignore (perform E (UpdateMessage target MsgTimedOut)) }"

definition approve_job ::
  "(effect list \<Rightarrow> bool) \<Rightarrow> (effect \<Rightarrow> string) \<Rightarrow> effect env \<Rightarrow> auth_checker \<Rightarrow> approval_request \<Rightarrow>
   notify_target \<Rightarrow> CallerType \<Rightarrow> unit runops" where
  "approve_job late why E chk req target approverType =
     do { err \<leftarrow> ApproveAction (with_deadline late why E) chk req target approverType;
          if err \<noteq> None then notifyIfTimeout late E target else State_Monad.return () }"

definition deny_job ::
  "(effect list \<Rightarrow> bool) \<Rightarrow> (effect \<Rightarrow> string) \<Rightarrow> effect env \<Rightarrow> approval_request \<Rightarrow> notify_target \<Rightarrow> unit runops" where
  "deny_job late why E req target =
     do { err \<leftarrow> DenyAction (with_deadline late why E) req target;
          if err \<noteq> None then notifyIfTimeout late E target else State_Monad.return () }"

lemma run_ctx_expired [simp, go_eval]: "run_state (ctx_expired late) w = (late (trace w), w)"
  by (simp add: ctx_expired_def)

lemma run_notifyIfTimeout [simp, go_eval]:
  "run_state (notifyIfTimeout late E target) w =
     ((), if late (trace w) then w\<lparr>trace := trace w @ [UpdateMessage target MsgTimedOut]\<rparr> else w)"
  by (simp add: notifyIfTimeout_def)

lemma run_approve_job:
  "run_state (approve_job late why E chk req target a) w =
     (let (err, w1) = run_state (ApproveAction (with_deadline late why E) chk req target a) w
      in ((), if err \<noteq> None \<and> late (trace w1)
              then w1\<lparr>trace := trace w1 @ [UpdateMessage target MsgTimedOut]\<rparr> else w1))"
  by (simp add: approve_job_def split: prod.split)

section \<open>After the context has expired\<close>

definition stays_expired :: "(effect list \<Rightarrow> bool) \<Rightarrow> bool" where
  "stays_expired late \<longleftrightarrow> (\<forall>es e. late es \<longrightarrow> late (es @ [e]))"

lemma stays_expiredD: "stays_expired late \<Longrightarrow> late es \<Longrightarrow> late (es @ [e])"
  by (simp add: stays_expired_def)

lemma late_append:
  assumes "stays_expired late" "late t"
  shows "late (t @ es)"
proof (induction es rule: rev_induct)
  case (snoc e es)
  then show ?case using stays_expiredD[OF assms(1), of "t @ es" e] by simp
qed (simp add: assms(2))

lemma late_delivers_nothing:
  assumes "stays_expired late"
  shows "late t \<Longrightarrow> delivered late t es = []"
  by (induction es arbitrary: t) (simp_all add: stays_expiredD[OF assms])

lemma late_rollback:
  assumes "stays_expired late"
  shows "late (trace w) \<Longrightarrow>
    run_state (rollback_loop (with_deadline late why E) kind ds failed) w =
      (failed @ map sh_name ds, w\<lparr>trace := trace w @ map (\<lambda>d. Gcp (shift_fn kind d 0)) ds\<rparr>)"
  by (induction ds arbitrary: failed w) (simp_all add: stays_expiredD[OF assms])

lemma late_compensation:
  assumes "stays_expired late" "late (trace w)"
  shows "run_state (compensateRollback (with_deadline late why E) kind ds) w =
    (if ds = [] then NothingToRollBack else RollbackFailed (map sh_name ds),
     w\<lparr>trace := trace w @ map (\<lambda>d. Gcp (shift_fn kind d 0)) ds\<rparr>)"
  by (simp add: compensateRollback_def late_rollback[OF assms])

lemma late_offer:
  assumes "late (trace w)"
  shows "run_state (offerOrFallback (with_deadline late why E) target m n s) w =
    ((), w\<lparr>trace := trace w @ [OfferContinuation target m n s, UpdateMessage target (MsgSlackUpdateFailed m)]\<rparr>)"
  using assms by (simp add: offerOrFallback_def)

text \<open>The loop of a shift, when its first failing call is known.\<close>

lemma shift_loop_fails:
  assumes ok: "\<And>j. j < k \<Longrightarrow> shift_reply E kind p (plan req) t j = None"
    and bad: "shift_reply E kind p (plan req) t k = Some e" "k < length (plan req)"
  shows "run_state (shift_loop E kind req (splitCSV (ar_Targets req)) p 0 (splitCSV (ar_ResourceNames req)) [])
           (w\<lparr>trace := t\<rparr>) =
    ((take k (plan req), Some e),
     w\<lparr>trace := t @ map (\<lambda>d. Gcp (shift_fn kind d p)) (take (Suc k) (plan req))\<rparr>)"
proof -
  let ?call = "\<lambda>d. Gcp (shift_fn kind d p)"
  obtain d err w1 where l: "run_state (shift_loop E kind req (splitCSV (ar_Targets req)) p 0
      (splitCSV (ar_ResourceNames req)) []) (w\<lparr>trace := t\<rparr>) = ((d, err), w1)" by (metis surj_pair)
  from shift_loop_run[OF this] obtain n where n: "n \<le> length (plan req)" "d = take n (plan req)"
    and pre: "\<And>j. j < n \<Longrightarrow> shift_reply E kind p (plan req) t j = None"
    and res: "case err of
       None \<Rightarrow> n = length (plan req) \<and> trace w1 = t @ map ?call (plan req)
     | Some e \<Rightarrow> n < length (plan req) \<and> trace w1 = t @ map ?call (take (Suc n) (plan req)) \<and>
         shift_reply E kind p (plan req) t n = Some e"
    unfolding plan_def shift_reply_def by (auto split: option.splits)
  have "\<not> k < n" using pre[of k] bad by auto
  moreover have "\<not> n < k" using ok[of n] res bad(2) by (auto split: option.splits)
  ultimately have "n = k" by simp
  with res bad have r: "err = Some e" "trace w1 = t @ map ?call (take (Suc k) (plan req))"
    by (auto split: option.splits)
  have "rw_store w1 = rw_store w"
    using preservesD[OF store_shift_loop[of E kind req "splitCSV (ar_Targets req)" p 0
          "splitCSV (ar_ResourceNames req)" "[]"], of "w\<lparr>trace := t\<rparr>"] l by simp
  then have "w1 = w\<lparr>trace := t @ map ?call (take (Suc k) (plan req))\<rparr>"
    using r(2) by (cases w1, cases w) simp
  with l r(1) n(2) \<open>n = k\<close> show ?thesis by simp
qed

text \<open>A shift whose failing call is the last one that is carried out in time: the resources shifted so far.\<close>

definition shift_run :: "effect list \<Rightarrow> notify_target \<Rightarrow> shift_kind \<Rightarrow> int \<Rightarrow> shifted list \<Rightarrow> effect list" where
  "shift_run t target kind p ds = after_progress t target kind @ map (\<lambda>d. Gcp (shift_fn kind d p)) ds"

definition late_note :: "shifted list \<Rightarrow> rollback_note" where
  "late_note ds = (if ds = [] then NothingToRollBack else RollbackFailed (map sh_name ds))"

definition late_tail :: "effect env \<Rightarrow> effect list \<Rightarrow> notify_target \<Rightarrow> shift_kind \<Rightarrow> approval_request \<Rightarrow>
    shifted list \<Rightarrow> string \<Rightarrow> effect list" where
  "late_tail E t target kind req ds e =
     (let undo = map (\<lambda>d. Gcp (shift_fn kind d 0)) ds
      in undo @ [OfferContinuation target (MsgShiftError e (late_note ds))
                   (Some (req\<lparr>ar_IssuedAt := clock E (t @ undo)\<rparr>)) None,
                 UpdateMessage target (MsgSlackUpdateFailed (MsgShiftError e (late_note ds)))])"

lemma late_shift:
  fixes w :: runops_world and E :: "effect env" and why :: "effect \<Rightarrow> string" and target :: notify_target
    and kind :: shift_kind and req :: approval_request
  assumes mono: "stays_expired late"
    and act: "ParseAction (ar_Action req) = Inr act"
  defines "D \<equiv> with_deadline late why E"
    and "p \<equiv> shift_percent act"
    and "t \<equiv> after_progress (trace w) target kind"
  assumes ok: "\<And>j. j < k \<Longrightarrow> shift_reply D kind p (plan req) t j = None"
    and bad: "shift_reply D kind p (plan req) t k = Some e" "k < length (plan req)"
    and late: "late (shift_run (trace w) target kind p (take (Suc k) (plan req)))"
  shows "run_state (approveShift D kind req target) w =
    (Some (GcpFailed e),
     w\<lparr>trace := shift_run (trace w) target kind p (take (Suc k) (plan req)) @
        late_tail E (shift_run (trace w) target kind p (take (Suc k) (plan req))) target kind req
          (take k (plan req)) e\<rparr>)"
proof -
  let ?sent = "shift_run (trace w) target kind p (take (Suc k) (plan req))"
  let ?ds = "take k (plan req)"
  let ?undo = "map (\<lambda>d. Gcp (shift_fn kind d 0)) ?ds"
  have l: "run_state (shift_loop D kind req (splitCSV (ar_Targets req)) p 0 (splitCSV (ar_ResourceNames req)) [])
      (w\<lparr>trace := trace w @ [UpdateMessage target (MsgProgress kind)]\<rparr>) = ((?ds, Some e), w\<lparr>trace := ?sent\<rparr>)"
    using shift_loop_fails[OF ok bad, of w] by (simp add: shift_run_def t_def after_progress_def)
  have c: "run_state (compensateRollback D kind ?ds) (w\<lparr>trace := ?sent\<rparr>) =
      (late_note ?ds, w\<lparr>trace := ?sent @ ?undo\<rparr>)"
    unfolding D_def late_note_def by (subst late_compensation[OF mono]) (simp_all add: late)
  have "late (?sent @ ?undo)" by (rule late_append[OF mono late])
  then have o: "run_state (offerRetry D target req m) (w\<lparr>trace := ?sent @ ?undo\<rparr>) =
      ((), w\<lparr>trace := (?sent @ ?undo) @ [OfferContinuation target m (Some (req\<lparr>ar_IssuedAt := clock E (?sent @ ?undo)\<rparr>)) None,
         UpdateMessage target (MsgSlackUpdateFailed m)]\<rparr>)" for m
    unfolding offerRetry_def D_def by (simp add: late_offer)
  show ?thesis
    unfolding approveShift_def act sum.case Let_def
    by (simp add: l[unfolded p_def] c[unfolded p_def] o[unfolded p_def] p_def late_tail_def Let_def)
qed

lemma late_approval:
  fixes w :: runops_world and E :: "effect env" and why :: "effect \<Rightarrow> string" and target :: notify_target
    and kind :: shift_kind and req :: approval_request
  assumes mono: "stays_expired late"
    and free: "OperationKey req \<notin> ms_keys (rw_store w)"
    and guards: "guards_hold E chk req a (trace w)"
    and ty: "ar_ResourceType req = (case kind of TrafficShift \<Rightarrow> ResourceTypeService | PoolShift \<Rightarrow> ResourceTypeWorkerPool)"
    and act: "ParseAction (ar_Action req) = Inr act"
  defines "D \<equiv> with_deadline late why E"
    and "p \<equiv> shift_percent act"
    and "t \<equiv> after_progress (trace w) target kind"
  assumes ok: "\<And>j. j < k \<Longrightarrow> shift_reply D kind p (plan req) t j = None"
    and bad: "shift_reply D kind p (plan req) t k = Some e" "k < length (plan req)"
    and late: "late (shift_run (trace w) target kind p (take (Suc k) (plan req)))"
  shows "trace (snd (run_state (approve_job late why E chk req target a) w)) =
     shift_run (trace w) target kind p (take (Suc k) (plan req)) @
     late_tail E (shift_run (trace w) target kind p (take (Suc k) (plan req))) target kind req
       (take k (plan req)) e @
     [UpdateMessage target MsgTimedOut]"
proof -
  let ?w0 = "w\<lparr>rw_store := snd (TryLock (OperationKey req) (rw_store w))\<rparr>"
  let ?sent = "shift_run (trace w) target kind p (take (Suc k) (plan req))"
  obtain r w' where run: "run_state (ApproveAction D chk req target a) w = (r, w')" by fastforce
  from ApproveAction_unlocked[OF free run] obtain w1 where
    w1: "run_state (approve_locked D chk req target a) ?w0 = (r, w1)"
    and "w' = w1\<lparr>rw_store := Release (OperationKey req) (rw_store w1)\<rparr>" by blast
  then have w': "trace w' = trace w1" by simp
  have guards': "guards_hold D chk req a (trace ?w0)"
    using guards by (simp add: guards_hold_def D_def)
  have "run_state (approve_locked D chk req target a) ?w0 = run_state (approveShift D kind req target) ?w0"
    using approve_locked_passed[OF guards', of target] ty by (cases kind) (simp_all add: go_consts)
  moreover have "run_state (approveShift D kind req target) ?w0 =
    (Some (GcpFailed e), ?w0\<lparr>trace := ?sent @ late_tail E ?sent target kind req (take k (plan req)) e\<rparr>)"
    using late_shift[OF mono act, of k why E kind ?w0 target e] ok bad late
    by (simp add: D_def p_def t_def)
  ultimately have "r = Some (GcpFailed e)" "trace w' = ?sent @ late_tail E ?sent target kind req (take k (plan req)) e"
    using w1 w' by auto
  moreover have "late (?sent @ late_tail E ?sent target kind req (take k (plan req)) e)"
    using mono late by (rule late_append)
  ultimately show ?thesis using run by (simp add: run_approve_job D_def)
qed

text \<open>A job that ends before its context expires is the approval itself.\<close>

lemma early_approval:
  assumes "stays_expired late" "\<not> late (trace (snd (run_state (approve_job late why E chk req target a) w)))"
  shows "run_state (approve_job late why E chk req target a) w =
    ((), snd (run_state (ApproveAction (with_deadline late why E) chk req target a) w))"
  using assms by (auto simp: run_approve_job Let_def stays_expiredD split: prod.splits if_splits)

section \<open>Properties\<close>

text \<open>C6. A shift that outlives the URL of its click is not undone.  If a resource fails and the context has expired by
  then, the resources before it have been shifted and stay so: each call that would put one back to 0 percent, the
  message that reports the failure with its retry button and the plain message in its place are all made
  with the expired context, so none of them is carried out.  The only thing the operator sees is the notice
  of the time-out, which names no resource.\<close>

theorem expired_shift_not_compensated:
  assumes "stays_expired late"
    and "OperationKey req \<notin> ms_keys (rw_store w)"
    and "guards_hold E chk req a (trace w)"
    and "ar_ResourceType req = (case kind of TrafficShift \<Rightarrow> ResourceTypeService | PoolShift \<Rightarrow> ResourceTypeWorkerPool)"
    and "ParseAction (ar_Action req) = Inr act"
    and "\<And>j. j < k \<Longrightarrow> shift_reply (with_deadline late why E) kind (shift_percent act) (plan req)
           (after_progress (trace w) target kind) j = None"
    and "shift_reply (with_deadline late why E) kind (shift_percent act) (plan req)
           (after_progress (trace w) target kind) k = Some e"
    and "k < length (plan req)"
    and "late (shift_run (trace w) target kind (shift_percent act) (take (Suc k) (plan req)))"
  shows "\<exists>tail. trace (snd (run_state (approve_job late why E chk req target a) w)) =
       shift_run (trace w) target kind (shift_percent act) (take (Suc k) (plan req)) @ tail @
         [UpdateMessage target MsgTimedOut] \<and>
     gcp_calls tail = shift_calls kind 0 (take k (plan req)) \<and>
     (\<exists>r. OfferContinuation target (MsgShiftError e (late_note (take k (plan req)))) (Some r) None \<in> set tail) \<and>
     delivered late (shift_run (trace w) target kind (shift_percent act) (take (Suc k) (plan req))) tail = []"
proof -
  let ?sent = "shift_run (trace w) target kind (shift_percent act) (take (Suc k) (plan req))"
  let ?tail = "late_tail E ?sent target kind req (take k (plan req)) e"
  have "gcp_calls ?tail = shift_calls kind 0 (take k (plan req))"
    by (simp add: late_tail_def Let_def)
  moreover have "\<exists>r. OfferContinuation target (MsgShiftError e (late_note (take k (plan req)))) (Some r) None \<in> set ?tail"
    by (auto simp: late_tail_def Let_def)
  moreover have "delivered late ?sent ?tail = []"
    using assms(1,9) by (rule late_delivers_nothing)
  ultimately show ?thesis using late_approval[OF assms] by blast
qed

definition slow_clock :: "effect list \<Rightarrow> bool" where
  "slow_clock es \<longleftrightarrow> 3 \<le> length es"

theorem expired_shift_not_compensated_witness:
  "\<exists>tail. trace (snd (run_state (approve_job slow_clock (\<lambda>_. ''context deadline exceeded'') failing_env
        sample_checker sample_request sample_target CallerHumanOperator) empty_world)) =
     [UpdateMessage sample_target (MsgProgress TrafficShift),
      Gcp (ShiftTraffic ''p'' ''l'' ''a'' ''r1'' 30), Gcp (ShiftTraffic ''p'' ''l'' ''b'' ''r2'' 30)] @ tail @
     [UpdateMessage sample_target MsgTimedOut] \<and>
   gcp_calls tail = [ShiftTraffic ''p'' ''l'' ''a'' ''r1'' 0]"
proof -
  let ?why = "\<lambda>_ :: effect. ''context deadline exceeded''"
  have mono: "stays_expired slow_clock" by (simp add: stays_expired_def slow_clock_def)
  have free: "OperationKey sample_request \<notin> ms_keys (rw_store empty_world)"
    by (simp add: empty_world_def NewMemoryStore_def)
  have guards: "guards_hold failing_env sample_checker sample_request CallerHumanOperator (trace empty_world)"
    unfolding guards_hold_def by code_simp
  have ty: "ar_ResourceType sample_request =
      (case TrafficShift of TrafficShift \<Rightarrow> ResourceTypeService | PoolShift \<Rightarrow> ResourceTypeWorkerPool)"
    by code_simp
  have act: "ParseAction (ar_Action sample_request) = Inr \<lparr>act_Name = ''canary'', act_Percent = 30\<rparr>"
    by code_simp
  have pl: "plan sample_request =
      [\<lparr>sh_project = ''p'', sh_location = ''l'', sh_name = ''a'', sh_target = ''r1''\<rparr>,
       \<lparr>sh_project = ''p'', sh_location = ''l'', sh_name = ''b'', sh_target = ''r2''\<rparr>]" by code_simp
  have p: "shift_percent \<lparr>act_Name = ''canary'', act_Percent = 30\<rparr> = 30" by code_simp
  show ?thesis
    using expired_shift_not_compensated[OF mono free guards ty act, of 1 ?why sample_target "''quota''"]
    by (simp add: p pl shift_reply_def shift_run_def after_progress_def failing_env_def slow_clock_def
        shift_fn_def shift_calls_def empty_world_def) blast
qed

end
