(* ===== verification/Outbox_Race.thy ===== *)
theory Outbox_Race
  imports Transport_Correct
begin

text \<open>
  Concurrent writes into one outbox.  The subscriber calls the receiver from several goroutines, and
  \<open>OutboxWriter.WriteFile\<close> (\<open>internal/adapter/output/phonewave/writer.go\<close>) holds no lock: it reads the final name,
  writes a temporary file and renames it.  Here each of these file system calls is a step, and any number of
  writers is interleaved; a call may fail whenever it is made.
\<close>

section \<open>The steps\<close>

datatype writer_pc =
    Reading
  | Absent
  | Filling string
  | Filled string
  | Refused string string
  | Returned "write_error option"

record outbox =
  ob_files :: files
  ob_pc :: "nat \<Rightarrow> writer_pc"

definition goto :: "nat \<Rightarrow> writer_pc \<Rightarrow> files \<Rightarrow> outbox \<Rightarrow> outbox" where
  "goto i pc fs s = \<lparr>ob_files = fs, ob_pc = (ob_pc s)(i := pc)\<rparr>"

text \<open>The name and the content writer \<open>i\<close> was called with, and the path it writes to.\<close>

type_synonym jobs = "nat \<Rightarrow> string \<times> string"

abbreviation final_of :: "string \<Rightarrow> jobs \<Rightarrow> nat \<Rightarrow> string" where
  "final_of dir job i \<equiv> filepath_Join dir (fst (job i))"

text \<open>Filling a temporary file is its write, sync and close; after a failure anything may be left of it.\<close>

inductive write_step :: "string \<Rightarrow> jobs \<Rightarrow> outbox \<Rightarrow> outbox \<Rightarrow> bool" for dir job where
  ReadSame: "ob_pc s i = Reading \<Longrightarrow> ob_files s (final_of dir job i) = Some (snd (job i)) \<Longrightarrow>
     write_step dir job s (goto i (Returned None) (ob_files s) s)"
| ReadOther: "ob_pc s i = Reading \<Longrightarrow> ob_files s (final_of dir job i) = Some c \<Longrightarrow> c \<noteq> snd (job i) \<Longrightarrow>
     write_step dir job s (goto i (Returned (Some (ContentDiffers (fst (job i))))) (ob_files s) s)"
| ReadFails: "ob_pc s i = Reading \<Longrightarrow>
     write_step dir job s (goto i (Returned (Some (StatFailed e))) (ob_files s) s)"
| ReadAbsent: "ob_pc s i = Reading \<Longrightarrow> ob_files s (final_of dir job i) = None \<Longrightarrow>
     write_step dir job s (goto i Absent (ob_files s) s)"
| TempFails: "ob_pc s i = Absent \<Longrightarrow>
     write_step dir job s (goto i (Returned (Some (TempFailed e))) (ob_files s) s)"
| TempMade: "ob_pc s i = Absent \<Longrightarrow> tmp = filepath_Join dir (temp_name (fst (job i)) rnd) \<Longrightarrow>
     ob_files s tmp = None \<Longrightarrow>
     write_step dir job s (goto i (Filling tmp) ((ob_files s)(tmp \<mapsto> [])) s)"
| FillFails: "ob_pc s i = Filling tmp \<Longrightarrow> err \<in> {WriteFailed e, SyncFailed e, CloseFailed e} \<Longrightarrow>
     write_step dir job s (goto i (Returned (Some err)) ((ob_files s)(tmp := left)) s)"
| Fill: "ob_pc s i = Filling tmp \<Longrightarrow>
     write_step dir job s (goto i (Filled tmp) ((ob_files s)(tmp \<mapsto> snd (job i))) s)"
| Rename: "ob_pc s i = Filled tmp \<Longrightarrow>
     write_step dir job s
       (goto i (Returned None) ((ob_files s)(final_of dir job i := ob_files s tmp, tmp := None)) s)"
| RenameFails: "ob_pc s i = Filled tmp \<Longrightarrow> write_step dir job s (goto i (Refused tmp e) (ob_files s) s)"
| RereadSame: "ob_pc s i = Refused tmp e \<Longrightarrow> ob_files s (final_of dir job i) = Some (snd (job i)) \<Longrightarrow>
     left \<in> {None, ob_files s tmp} \<Longrightarrow>
     write_step dir job s (goto i (Returned None) ((ob_files s)(tmp := left)) s)"
| RereadOther: "ob_pc s i = Refused tmp e \<Longrightarrow> left \<in> {None, ob_files s tmp} \<Longrightarrow>
     write_step dir job s (goto i (Returned (Some (RenameFailed e))) ((ob_files s)(tmp := left)) s)"

definition outbox_start :: "files \<Rightarrow> outbox" where
  "outbox_start fs = \<lparr>ob_files = fs, ob_pc = (\<lambda>_. Reading)\<rparr>"

lemma goto_sel [simp]:
  "ob_files (goto i pc fs s) = fs"
  "ob_pc (goto i pc fs s) j = (if j = i then pc else ob_pc s j)"
  by (simp_all add: goto_def)

lemma goto_goto [simp]: "goto i pc' fs' (goto i pc fs s) = goto i pc' fs' s"
  by (simp add: goto_def)

section \<open>A whole write\<close>

text \<open>The write that is one step elsewhere is a run of these steps of one writer.\<close>

lemma fill_runs:
  assumes "ob_pc s i = Filling tmp" "ob_files s = fs(tmp \<mapsto> [])" "fs tmp = None"
    and "(r, fs') = (case wf_write w of
        Some (partial, e) \<Rightarrow> (Some (WriteFailed e), remove_temp w tmp (fs(tmp \<mapsto> partial)))
      | None \<Rightarrow>
          (let fs1 = fs(tmp \<mapsto> snd (job i))
           in case wf_sync w of
                Some e \<Rightarrow> (Some (SyncFailed e), remove_temp w tmp fs1)
              | None \<Rightarrow>
                  (case wf_close w of
                     Some e \<Rightarrow> (Some (CloseFailed e), remove_temp w tmp fs1)
                   | None \<Rightarrow>
                       (case wf_rename w of
                          Some e \<Rightarrow>
                            (if fs1 (final_of dir job i) = Some (snd (job i))
                             then (None, remove_temp w tmp fs1)
                             else (Some (RenameFailed e), remove_temp w tmp fs1))
                        | None \<Rightarrow> (None, (fs1(final_of dir job i \<mapsto> snd (job i)))(tmp := None))))))"
  shows "(write_step dir job)\<^sup>*\<^sup>* s (goto i (Returned r) fs' s)"
proof -
  let ?data = "snd (job i)"
  let ?full = "fs(tmp \<mapsto> ?data)"
  let ?s1 = "goto i (Filled tmp) ?full s"
  have filled: "write_step dir job s ?s1"
    using Fill[OF assms(1), of dir job] assms(2) by simp
  show ?thesis
  proof (cases "wf_write w = None \<and> wf_sync w = None \<and> wf_close w = None")
    case False
    then obtain err e left where "r = Some err" "err \<in> {WriteFailed e, SyncFailed e, CloseFailed e}"
      "fs' = (ob_files s)(tmp := left)"
      using assms(2-4) by (fastforce simp: remove_temp_def Let_def split: option.splits if_splits prod.splits)
    with FillFails[OF assms(1), of err e dir job left] show ?thesis by auto
  next
    case ok: True
    show ?thesis
    proof (cases "wf_rename w")
      case None
      with ok assms(4) have "r = None" "fs' = (?full(final_of dir job i := ?full tmp, tmp := None))" by simp_all
      with Rename[of ?s1 i tmp dir job] filled show ?thesis by auto
    next
      case (Some e)
      let ?s2 = "goto i (Refused tmp e) ?full s"
      have refused: "(write_step dir job)\<^sup>*\<^sup>* s ?s2"
        using RenameFails[of ?s1 i tmp dir job e] filled by auto
      obtain left where left: "fs' = ?full(tmp := left)" "left \<in> {None, ?full tmp}"
        using ok assms(4) Some by (auto simp: remove_temp_def Let_def split: if_splits)
      have r: "r = (if ?full (final_of dir job i) = Some ?data then None else Some (RenameFailed e))"
        using ok assms(4) Some by (auto simp: Let_def split: if_splits)
      have "write_step dir job ?s2 (goto i (Returned r) fs' s)"
      proof (cases "?full (final_of dir job i) = Some ?data")
        case True
        with RereadSame[of ?s2 i tmp e dir job left] left r show ?thesis by simp
      next
        case False
        with RereadOther[of ?s2 i tmp e left dir job] left r show ?thesis by simp
      qed
      with refused show ?thesis by simp
    qed
  qed
qed

lemma WriteFile_runs:
  assumes "WriteFile w dir (fst (job i)) (snd (job i)) (ob_files s) = (r, fs')"
    and "validateName (fst (job i)) = None" "wf_mkdir w = None" "ob_pc s i = Reading"
  shows "(write_step dir job)\<^sup>*\<^sup>* s (goto i (Returned r) fs' s)"
proof -
  let ?final = "final_of dir job i" and ?fs = "ob_files s"
  show ?thesis
  proof (cases "wf_read w")
    case (Some e)
    with assms have "r = Some (StatFailed e)" "fs' = ?fs" by (simp_all add: WriteFile_def Let_def)
    with ReadFails[OF assms(4), of dir job e] show ?thesis by auto
  next
    case readable: None
    show ?thesis
    proof (cases "?fs ?final")
      case (Some c)
      with assms readable have r: "r = (if c = snd (job i) then None else Some (ContentDiffers (fst (job i))))" "fs' = ?fs"
        by (auto simp: WriteFile_def Let_def)
      have "write_step dir job s (goto i (Returned r) fs' s)"
      proof (cases "c = snd (job i)")
        case True
        with ReadSame[of s i dir job] assms(4) Some r show ?thesis by simp
      next
        case False
        with ReadOther[of s i dir job c] assms(4) Some r show ?thesis by simp
      qed
      then show ?thesis by blast
    next
      case None
      let ?s1 = "goto i Absent ?fs s"
      have absent: "write_step dir job s ?s1" using assms(4) None by (rule ReadAbsent)
      have temp_fails: "(write_step dir job)\<^sup>*\<^sup>* s (goto i (Returned (Some (TempFailed e))) ?fs s)" for e
        using TempFails[of ?s1 i dir job e] absent by (simp add: converse_rtranclp_into_rtranclp)
      show ?thesis
      proof (cases "wf_temp w")
        case (Inl e)
        with assms readable None have "r = Some (TempFailed e)" "fs' = ?fs"
          by (simp_all add: WriteFile_def Let_def)
        with temp_fails show ?thesis by simp
      next
        case (Inr rnd)
        let ?tmp = "filepath_Join dir (temp_name (fst (job i)) rnd)"
        show ?thesis
        proof (cases "?fs ?tmp = None")
          case False
          with assms readable None Inr have "r = Some (TempFailed ''exists'')" "fs' = ?fs"
            by (simp_all add: WriteFile_def Let_def)
          with temp_fails show ?thesis by simp
        next
          case True
          let ?s2 = "goto i (Filling ?tmp) (?fs(?tmp \<mapsto> [])) s"
          have "write_step dir job ?s1 ?s2"
            using TempMade[of ?s1 i _ dir job rnd] True by simp
          with absent have made: "(write_step dir job)\<^sup>*\<^sup>* s ?s2" by auto
          have "(write_step dir job)\<^sup>*\<^sup>* ?s2 (goto i (Returned r) fs' ?s2)"
            by (rule fill_runs[where w = w and tmp = ?tmp and fs = ?fs])
              (use assms readable None Inr True in \<open>simp_all add: WriteFile_def Let_def\<close>)
          with made show ?thesis by simp
        qed
      qed
    qed
  qed
qed

section \<open>What the interleaving keeps\<close>

text \<open>The names a receiver writes to: one segment, ending in \<open>.md\<close>.\<close>

definition mail_name :: "string \<Rightarrow> bool" where
  "mail_name n \<longleftrightarrow> plain_name n \<and> suffix ''.md'' n"

lemma chooseFilename_mail: "chooseFilename m = Some n \<Longrightarrow> mail_name n"
  using chooseFilename_plain[of m n]
  by (auto simp: mail_name_def chooseFilename_def Let_def suffix_def split: if_splits)

lemma temp_is_no_mail: "\<not> suffix ''.md'' (temp_name n k)"
proof
  assume "suffix ''.md'' (temp_name n k)"
  then have "last (temp_name n k) = CHR ''d''" by (auto simp: suffix_def)
  moreover have "show_nat k \<noteq> []" "last (show_nat k) \<in> set (show_nat k)" using show_nat_digits[of k] by auto
  ultimately have "CHR ''d'' \<in> set (show_nat k)" by (auto simp: temp_name_def)
  with show_nat_digits[of k] show False by auto
qed

lemma temp_not_final:
  "mail_name m \<Longrightarrow> mail_name n \<Longrightarrow> filepath_Join dir (temp_name m k) \<noteq> filepath_Join dir n"
  using Join_plain_inj[of "temp_name m k" n dir] temp_name_plain[of m k] temp_is_no_mail[of m k]
  by (auto simp: mail_name_def)

fun temp_of :: "writer_pc \<Rightarrow> string option" where
  "temp_of (Filling tmp) = Some tmp"
| "temp_of (Filled tmp) = Some tmp"
| "temp_of (Refused tmp e) = Some tmp"
| "temp_of _ = None"

fun past_read :: "writer_pc \<Rightarrow> bool" where
  "past_read Reading = False"
| "past_read (Returned r) = False"
| "past_read _ = True"

fun complete_temp :: "writer_pc \<Rightarrow> bool" where
  "complete_temp (Filled tmp) = True"
| "complete_temp (Refused tmp e) = True"
| "complete_temp _ = False"

definition outbox_inv :: "string \<Rightarrow> jobs \<Rightarrow> files \<Rightarrow> outbox \<Rightarrow> bool" where
  "outbox_inv dir job fs0 s \<longleftrightarrow>
     (\<forall>p c. fs0 p = Some c \<longrightarrow> ob_files s p = Some c) \<and>
     (\<forall>i. past_read (ob_pc s i) \<longrightarrow> fs0 (final_of dir job i) = None) \<and>
     (\<forall>i tmp. temp_of (ob_pc s i) = Some tmp \<longrightarrow>
        (\<exists>rnd. tmp = filepath_Join dir (temp_name (fst (job i)) rnd)) \<and> fs0 tmp = None \<and>
        ob_files s tmp \<noteq> None \<and> (complete_temp (ob_pc s i) \<longrightarrow> ob_files s tmp = Some (snd (job i)))) \<and>
     (\<forall>i j tmp. temp_of (ob_pc s i) = Some tmp \<longrightarrow> temp_of (ob_pc s j) = Some tmp \<longrightarrow> i = j) \<and>
     (\<forall>n c. mail_name n \<longrightarrow> ob_files s (filepath_Join dir n) = Some c \<longrightarrow>
        fs0 (filepath_Join dir n) = Some c \<or>
        (\<exists>j. job j = (n, c) \<and> ob_pc s j = Returned None)) \<and>
     (\<forall>i. ob_pc s i = Returned None \<longrightarrow>
        (\<exists>j. fst (job j) = fst (job i) \<and> ob_pc s j = Returned None \<and>
             ob_files s (final_of dir job i) = Some (snd (job j))))"

lemma outbox_inv_start: "outbox_inv dir job fs (outbox_start fs)"
  by (simp add: outbox_inv_def outbox_start_def)

lemma outbox_inv_goto:
  assumes inv: "outbox_inv dir job fs0 s" and running: "ob_pc s i \<noteq> Returned None"
    and kept: "\<And>p c. fs0 p = Some c \<Longrightarrow> fs p = Some c"
    and unread: "past_read pc \<Longrightarrow> fs0 (final_of dir job i) = None"
    and own: "\<And>tmp. temp_of pc = Some tmp \<Longrightarrow>
        (\<exists>rnd. tmp = filepath_Join dir (temp_name (fst (job i)) rnd)) \<and> fs0 tmp = None \<and> fs tmp \<noteq> None \<and>
        (complete_temp pc \<longrightarrow> fs tmp = Some (snd (job i))) \<and> (\<forall>j. j \<noteq> i \<longrightarrow> temp_of (ob_pc s j) \<noteq> Some tmp)"
    and others: "\<And>j tmp. j \<noteq> i \<Longrightarrow> temp_of (ob_pc s j) = Some tmp \<Longrightarrow> fs tmp = ob_files s tmp"
    and finals: "\<And>n. mail_name n \<Longrightarrow> fs (filepath_Join dir n) = ob_files s (filepath_Join dir n) \<or>
        n = fst (job i) \<and> pc = Returned None"
    and acked: "pc = Returned None \<Longrightarrow> fs (final_of dir job i) = Some (snd (job i))"
    and names: "\<And>j. mail_name (fst (job j))"
  shows "outbox_inv dir job fs0 (goto i pc fs s)"
proof -
  let ?s = "goto i pc fs s"
  have other_finals: "fs0 (filepath_Join dir n) = Some c \<or> (\<exists>j. job j = (n, c) \<and> ob_pc ?s j = Returned None)"
    if "mail_name n" "fs (filepath_Join dir n) = Some c" for n c
    using finals[OF that(1)]
  proof
    assume "fs (filepath_Join dir n) = ob_files s (filepath_Join dir n)"
    with that inv consider "fs0 (filepath_Join dir n) = Some c" | j where "job j = (n, c)" "ob_pc s j = Returned None"
      unfolding outbox_inv_def by metis
    then show ?thesis using running by cases (auto intro: exI)
  next
    assume "n = fst (job i) \<and> pc = Returned None"
    with acked that show ?thesis by (intro disjI2 exI[of _ i]) (simp add: prod_eq_iff)
  qed
  have returned: "\<exists>j. fst (job j) = fst (job k) \<and> ob_pc ?s j = Returned None \<and>
      fs (final_of dir job k) = Some (snd (job j))" if k: "ob_pc ?s k = Returned None" for k
  proof (cases "pc = Returned None \<and> fst (job k) = fst (job i)")
    case True
    with acked show ?thesis by (intro exI[of _ i]) simp
  next
    case False
    with k have "k \<noteq> i" "ob_pc s k = Returned None" by (auto split: if_splits)
    then obtain j where "fst (job j) = fst (job k)" "ob_pc s j = Returned None"
      "ob_files s (final_of dir job k) = Some (snd (job j))"
      using inv unfolding outbox_inv_def by metis
    moreover have "fs (final_of dir job k) = ob_files s (final_of dir job k)"
      using finals[OF names[of k]] False by auto
    ultimately show ?thesis using running by (intro exI[of _ j]) auto
  qed
  have temps: "(\<exists>rnd. tmp = filepath_Join dir (temp_name (fst (job j)) rnd)) \<and> fs0 tmp = None \<and> fs tmp \<noteq> None \<and>
      (complete_temp (ob_pc ?s j) \<longrightarrow> fs tmp = Some (snd (job j)))"
    if "temp_of (ob_pc ?s j) = Some tmp" for j tmp
  proof (cases "j = i")
    case True
    with own that show ?thesis by simp
  next
    case False
    with that have "temp_of (ob_pc s j) = Some tmp" by simp
    with others[OF False this] inv False show ?thesis unfolding outbox_inv_def by simp
  qed
  have apart: "j = k" if "temp_of (ob_pc ?s j) = Some tmp" "temp_of (ob_pc ?s k) = Some tmp" for j k tmp
    using that own inv unfolding outbox_inv_def by (auto split: if_splits)
  have past: "fs0 (final_of dir job j) = None" if "past_read (ob_pc ?s j)" for j
    using that unread inv unfolding outbox_inv_def by (auto split: if_splits)
  show ?thesis
    unfolding outbox_inv_def goto_sel(1)
    using kept past temps apart other_finals returned by blast
qed

lemma outbox_inv_temp:
  assumes "outbox_inv dir job fs0 s" "\<And>j. mail_name (fst (job j))" "temp_of (ob_pc s i) = Some tmp"
  shows "fs0 tmp = None" "mail_name n \<Longrightarrow> tmp \<noteq> filepath_Join dir n" "j \<noteq> i \<Longrightarrow> temp_of (ob_pc s j) \<noteq> Some tmp"
    "complete_temp (ob_pc s i) \<Longrightarrow> ob_files s tmp = Some (snd (job i))"
proof -
  from assms(1,3) obtain rnd where tmp: "tmp = filepath_Join dir (temp_name (fst (job i)) rnd)" "fs0 tmp = None"
    "complete_temp (ob_pc s i) \<Longrightarrow> ob_files s tmp = Some (snd (job i))"
    unfolding outbox_inv_def by meson
  then show "fs0 tmp = None" "complete_temp (ob_pc s i) \<Longrightarrow> ob_files s tmp = Some (snd (job i))" by simp_all
  show "mail_name n \<Longrightarrow> tmp \<noteq> filepath_Join dir n"
    using temp_not_final[OF assms(2)[of i], of n dir rnd] tmp(1) by simp
  show "j \<noteq> i \<Longrightarrow> temp_of (ob_pc s j) \<noteq> Some tmp"
    using assms(1,3) unfolding outbox_inv_def by blast
qed

lemma outbox_invD:
  assumes "outbox_inv dir job fs0 s"
  shows "fs0 p = Some c \<Longrightarrow> ob_files s p = Some c"
    "past_read (ob_pc s i) \<Longrightarrow> fs0 (final_of dir job i) = None"
    "temp_of (ob_pc s i) = Some tmp \<Longrightarrow> \<exists>rnd. tmp = filepath_Join dir (temp_name (fst (job i)) rnd)"
    "temp_of (ob_pc s i) = Some tmp \<Longrightarrow> ob_files s tmp \<noteq> None"
  using assms unfolding outbox_inv_def by meson+

lemma outbox_inv_step:
  assumes "write_step dir job s s'" and names: "\<And>j. mail_name (fst (job j))" and inv: "outbox_inv dir job fs0 s"
  shows "outbox_inv dir job fs0 s'"
  using assms(1)
proof cases
  case (ReadSame i)
  then show ?thesis by (auto intro!: outbox_inv_goto[OF inv] simp: names outbox_invD[OF inv])
next
  case (ReadOther i c)
  then show ?thesis by (auto intro!: outbox_inv_goto[OF inv] simp: names outbox_invD[OF inv])
next
  case (ReadFails i e)
  then show ?thesis by (auto intro!: outbox_inv_goto[OF inv] simp: names outbox_invD[OF inv])
next
  case (ReadAbsent i)
  then have "fs0 (final_of dir job i) = None"
    using outbox_invD(1)[OF inv, of "final_of dir job i"] by (cases "fs0 (final_of dir job i)") auto
  with ReadAbsent show ?thesis by (auto intro!: outbox_inv_goto[OF inv] simp: names outbox_invD[OF inv])
next
  case (TempFails i e)
  then show ?thesis by (auto intro!: outbox_inv_goto[OF inv] simp: names outbox_invD[OF inv])
next
  case (TempMade i tmp rnd)
  have fresh: "fs0 tmp = None" using outbox_invD(1)[OF inv, of tmp] TempMade(4) by (cases "fs0 tmp") auto
  have unused: "temp_of (ob_pc s j) \<noteq> Some tmp" for j
    using outbox_invD(4)[OF inv, of j tmp] TempMade(4) by auto
  have "filepath_Join dir n \<noteq> tmp" if "mail_name n" for n
    using temp_not_final[OF names[of i] that, of dir rnd] TempMade(3) by simp
  note tf = this
  show ?thesis unfolding TempMade(1)
    by (rule outbox_inv_goto[OF inv])
      (use TempMade(2-4) fresh unused tf names outbox_invD[OF inv] in \<open>auto split: if_splits\<close>)
next
  case (FillFails i tmp err e left)
  then have t: "temp_of (ob_pc s i) = Some tmp" by simp
  note tf = outbox_inv_temp[OF inv names t]
  show ?thesis unfolding FillFails(1)
    by (rule outbox_inv_goto[OF inv]) (use FillFails tf names outbox_invD[OF inv] in \<open>auto split: if_splits\<close>)
next
  case (Fill i tmp)
  then have t: "temp_of (ob_pc s i) = Some tmp" by simp
  note tf = outbox_inv_temp[OF inv names t]
  show ?thesis unfolding Fill(1)
    by (rule outbox_inv_goto[OF inv]) (use Fill tf names outbox_invD[OF inv] in \<open>auto split: if_splits\<close>)
next
  case (Rename i tmp)
  then have t: "temp_of (ob_pc s i) = Some tmp" "complete_temp (ob_pc s i)" by simp_all
  note tf = outbox_inv_temp[OF inv names t(1)]
  have absent: "fs0 (final_of dir job i) = None" using outbox_invD(2)[OF inv] Rename by simp
  have j: "filepath_Join dir n = final_of dir job i \<Longrightarrow> n = fst (job i)" if "mail_name n" for n
    using Join_plain_inj that names[of i] by (auto simp: mail_name_def)
  have no_temp: "temp_of (ob_pc s k) \<noteq> Some (final_of dir job i)" for k
    using outbox_inv_temp(2)[OF inv names, of k "final_of dir job i" "fst (job i)"] names by auto
  show ?thesis unfolding Rename(1)
    by (rule outbox_inv_goto[OF inv]) (use Rename tf names outbox_invD[OF inv] absent j t no_temp in \<open>auto split: if_splits\<close>)
next
  case (RenameFails i tmp e)
  then have t: "temp_of (ob_pc s i) = Some tmp" "complete_temp (ob_pc s i)" by simp_all
  note tf = outbox_inv_temp[OF inv names t(1)]
  show ?thesis unfolding RenameFails(1)
    by (rule outbox_inv_goto[OF inv]) (use RenameFails tf names outbox_invD[OF inv] t in \<open>auto split: if_splits\<close>)
next
  case (RereadSame i tmp e left)
  then have t: "temp_of (ob_pc s i) = Some tmp" "complete_temp (ob_pc s i)" by simp_all
  note tf = outbox_inv_temp[OF inv names t(1)]
  show ?thesis unfolding RereadSame(1)
    by (rule outbox_inv_goto[OF inv]) (use RereadSame tf names outbox_invD[OF inv] t in \<open>auto split: if_splits\<close>)
next
  case (RereadOther i tmp e left)
  then have t: "temp_of (ob_pc s i) = Some tmp" "complete_temp (ob_pc s i)" by simp_all
  note tf = outbox_inv_temp[OF inv names t(1)]
  show ?thesis unfolding RereadOther(1)
    by (rule outbox_inv_goto[OF inv]) (use RereadOther tf names outbox_invD[OF inv] t in \<open>auto split: if_splits\<close>)
qed

lemma outbox_inv_reachable:
  assumes "(write_step dir job)\<^sup>*\<^sup>* (outbox_start fs0) s" "\<And>j. mail_name (fst (job j))"
  shows "outbox_inv dir job fs0 s"
  using assms(1)
  by (induction rule: rtranclp_induct) (auto intro: outbox_inv_start outbox_inv_step[OF _ assms(2)])

section \<open>Properties\<close>

text \<open>C34. What concurrent writes of one outbox guarantee.  However the file system calls of any number of writers
  interleave and fail, no file that was there at the beginning changes or disappears; a reader never sees a
  part of a message, since a file under a message name is either an old one or the complete content that an
  acknowledged writer was called with; and when a writer is acknowledged, a file with its name exists and
  holds the complete content of an acknowledged writer of that name, hence its own unless two writers
  carried different contents under one name.\<close>

theorem concurrent_writes_safe:
  assumes "(write_step dir job)\<^sup>*\<^sup>* (outbox_start fs0) s" and "\<And>j. mail_name (fst (job j))"
  shows "(fs0 p = Some c \<longrightarrow> ob_files s p = Some c) \<and>
    (mail_name n \<and> ob_files s (filepath_Join dir n) = Some d \<longrightarrow>
       fs0 (filepath_Join dir n) = Some d \<or> (\<exists>j. job j = (n, d) \<and> ob_pc s j = Returned None)) \<and>
    (ob_pc s i = Returned None \<longrightarrow>
       (\<exists>j. fst (job j) = fst (job i) \<and> ob_pc s j = Returned None \<and>
            ob_files s (final_of dir job i) = Some (snd (job j))) \<and>
       ((\<forall>j. fst (job j) = fst (job i) \<longrightarrow> snd (job j) = snd (job i)) \<longrightarrow>
            ob_files s (final_of dir job i) = Some (snd (job i))))"
proof -
  have inv: "outbox_inv dir job fs0 s" using assms by (rule outbox_inv_reachable)
  then have acked: "ob_pc s i = Returned None \<Longrightarrow> \<exists>j. fst (job j) = fst (job i) \<and> ob_pc s j = Returned None \<and>
      ob_files s (final_of dir job i) = Some (snd (job j))" unfolding outbox_inv_def by blast
  from inv have "fs0 p = Some c \<Longrightarrow> ob_files s p = Some c"
    "mail_name n \<Longrightarrow> ob_files s (filepath_Join dir n) = Some d \<Longrightarrow>
       fs0 (filepath_Join dir n) = Some d \<or> (\<exists>j. job j = (n, d) \<and> ob_pc s j = Returned None)"
    unfolding outbox_inv_def by blast+
  with acked show ?thesis by metis
qed

text \<open>The last guarantee cannot be had for two contents.  Two writers of one name that both look before either
  has renamed are both told that their message is stored, and only the later one is.\<close>

lemma acknowledged_and_lost:
  assumes names: "mail_name (fst (job 0))" "fst (job 1) = fst (job 0)" and diff: "snd (job 0) \<noteq> snd (job 1)"
  shows "\<exists>s. (write_step dir job)\<^sup>*\<^sup>* (outbox_start (\<lambda>_. None)) s \<and>
    ob_pc s 0 = Returned None \<and> ob_pc s 1 = Returned None \<and>
    (\<forall>p. ob_files s p \<noteq> Some (snd (job 0)))"
proof -
  let ?F = "final_of dir job 0"
  define T where "T k = filepath_Join dir (temp_name (fst (job 0)) k)" for k
  have tf: "T k \<noteq> ?F" "?F \<noteq> T k" for k
    using temp_not_final[OF names(1) names(1), of dir k] unfolding T_def by metis+
  have "temp_name (fst (job 0)) 0 \<noteq> temp_name (fst (job 0)) 1"
    unfolding temp_name_def same_append_eq by code_simp
  then have tt: "T 0 \<noteq> T 1" "T 1 \<noteq> T 0"
    unfolding T_def using Join_plain_inj[OF temp_name_plain temp_name_plain] names(1) mail_name_def by metis+
  note facts = tf tt names(2) diff diff[symmetric]
  define s0 where "s0 = outbox_start (\<lambda>_. None)"
  define s1 where "s1 = goto 0 Absent (ob_files s0) s0"
  define s2 where "s2 = goto 1 Absent (ob_files s1) s1"
  define s3 where "s3 = goto 0 (Filling (T 0)) ((ob_files s2)(T 0 \<mapsto> [])) s2"
  define s4 where "s4 = goto 1 (Filling (T 1)) ((ob_files s3)(T 1 \<mapsto> [])) s3"
  define s5 where "s5 = goto 0 (Filled (T 0)) ((ob_files s4)(T 0 \<mapsto> snd (job 0))) s4"
  define s6 where "s6 = goto 1 (Filled (T 1)) ((ob_files s5)(T 1 \<mapsto> snd (job 1))) s5"
  define s7 where "s7 = goto 0 (Returned None) ((ob_files s6)(final_of dir job 0 := ob_files s6 (T 0), T 0 := None)) s6"
  define s8 where "s8 = goto 1 (Returned None) ((ob_files s7)(final_of dir job 1 := ob_files s7 (T 1), T 1 := None)) s7"
  have start: "ob_files s0 p = None" "ob_pc s0 i = Reading" for p i
    by (simp_all add: s0_def outbox_start_def)
  have "write_step dir job s0 s1" unfolding s1_def by (rule ReadAbsent) (simp_all add: start)
  moreover have "write_step dir job s1 s2"
    unfolding s2_def by (rule ReadAbsent) (simp_all add: start s1_def)
  moreover have "write_step dir job s2 s3"
    unfolding s3_def by (rule TempMade[of _ _ _ _ _ 0]) (simp_all add: start s1_def s2_def T_def)
  moreover have "write_step dir job s3 s4"
    unfolding s4_def by (rule TempMade[of _ _ _ _ _ 1]) (use facts in \<open>simp_all add: start s1_def s2_def s3_def T_def\<close>)
  moreover have "write_step dir job s4 s5"
    unfolding s5_def by (rule Fill) (simp add: s3_def s4_def)
  moreover have "write_step dir job s5 s6"
    unfolding s6_def by (rule Fill) (simp add: s4_def s5_def)
  moreover have "write_step dir job s6 s7"
    unfolding s7_def by (rule Rename) (simp add: s5_def s6_def)
  moreover have "write_step dir job s7 s8"
    unfolding s8_def by (rule Rename) (simp add: s6_def s7_def)
  ultimately have run: "(write_step dir job)\<^sup>*\<^sup>* s0 s8" by (meson converse_rtranclp_into_rtranclp rtranclp.rtrancl_refl)
  have files: "ob_files s8 p = (if p = ?F then Some (snd (job 1)) else None)" for p
    using facts by (simp add: s8_def s7_def s6_def s5_def s4_def s3_def s2_def s1_def start)
  have "ob_pc s8 0 = Returned None" "ob_pc s8 1 = Returned None" by (simp_all add: s8_def s7_def)
  with run files diff show ?thesis unfolding s0_def by (intro exI[of _ s8]) auto
qed

definition two_jobs :: jobs where
  "two_jobs i = (''m.md'', if i = 0 then ''a'' else ''b'')"

lemma two_jobs_mail: "mail_name (fst (two_jobs j))"
  by (simp add: two_jobs_def mail_name_def plain_name_def slash_def suffix_def)

theorem concurrent_writes_safe_witness:
  "\<exists>s :: outbox. ob_pc s 0 = Returned None \<and> ob_pc s 1 = Returned None \<and>
     (\<exists>j. ob_pc s j = Returned None \<and> ob_files s (final_of ''/out'' two_jobs 0) = Some (snd (two_jobs j)))"
proof -
  have "snd (two_jobs 0) \<noteq> snd (two_jobs 1)" by (simp add: two_jobs_def)
  moreover have "fst (two_jobs 1) = fst (two_jobs 0)" by (simp add: two_jobs_def)
  ultimately obtain s where s: "(write_step ''/out'' two_jobs)\<^sup>*\<^sup>* (outbox_start (\<lambda>_. None)) s"
    "ob_pc s 0 = Returned None" "ob_pc s 1 = Returned None"
    using acknowledged_and_lost[of two_jobs "''/out''"] two_jobs_mail by blast
  from concurrent_writes_safe[OF s(1) two_jobs_mail, of "[]" "[]" "[]" "[]" 0, THEN conjunct2, THEN conjunct2,
      THEN mp, OF s(2), THEN conjunct1]
  have "\<exists>j. ob_pc s j = Returned None \<and>
      ob_files s (final_of ''/out'' two_jobs 0) = Some (snd (two_jobs j))" by blast
  with s(2,3) show ?thesis by (intro exI[of _ s]) simp
qed

end
