(* ===== verification/Mail_Flow.thy ===== *)
theory Mail_Flow
  imports Command_Correct Transport_Correct
begin

text \<open>
  The way of a task from the Slack command to the tool that carries it out: the dispatch use case, the
  dispatcher and the publisher of the gateway, the message on Pub/Sub, the receiver beside the tool and the
  document it leaves in an outbox, read back with the parser.  Pub/Sub is an argument; what is
  relied on is its documented behaviour: the data and the attributes of a message arrive unchanged, with an
  identifier of decimal digits and with attributes of the tracing library beside the given ones; and after a
  failed publication with an ordering key, the publisher refuses that key until it is resumed.
\<close>

section \<open>The dispatch on a bus\<close>

text \<open>What the dispatches of a trace have put on the bus.\<close>

fun bus_step :: "bus \<Rightarrow> dispatch_effect \<Rightarrow> publish_message list \<Rightarrow> publish_message list" where
  "bus_step send_to (PublishDMail m) sent = snd (pubsub_PublishDMail send_to m sent)"
| "bus_step send_to e sent = sent"

definition sent_by :: "bus \<Rightarrow> dispatch_effect list \<Rightarrow> publish_message list" where
  "sent_by send_to es = fold (bus_step send_to) es []"

text \<open>The environment of the use case whose publisher is the one of \<open>output/pubsub\<close>; \<open>why\<close> words its errors.\<close>

fun bus_reply ::
  "bus \<Rightarrow> (publish_error \<Rightarrow> string) \<Rightarrow> dispatch_effect env \<Rightarrow> dispatch_effect list \<Rightarrow> dispatch_effect \<Rightarrow> gerror" where
  "bus_reply send_to why E es (PublishDMail m) =
     (case fst (pubsub_PublishDMail send_to m (sent_by send_to es)) of Inl err \<Rightarrow> Some (why err) | Inr i \<Rightarrow> None)"
| "bus_reply send_to why E es e = reply E es e"

definition bus_env ::
  "bus \<Rightarrow> (publish_error \<Rightarrow> string) \<Rightarrow> dispatch_effect env \<Rightarrow> dispatch_effect env" where
  "bus_env send_to why E = E\<lparr>reply := bus_reply send_to why E\<rparr>"

text \<open>A message as it arrives, with its identifier and the attributes that tracing adds.\<close>

definition arrives :: "string \<Rightarrow> (string \<times> string) list \<Rightarrow> publish_message \<Rightarrow> bus_message" where
  "arrives sid extra pm = \<lparr>bm_ID = sid, bm_Data = pm_Data pm, bm_Attributes = pm_Attributes pm @ extra\<rparr>"

definition server_id :: "string \<Rightarrow> bool" where
  "server_id sid \<longleftrightarrow> sid \<noteq> [] \<and> set sid \<subseteq> set ''0123456789''"

definition tracing_only :: "(string \<times> string) list \<Rightarrow> bool" where
  "tracing_only extra \<longleftrightarrow> list_all (\<lambda>(k, v). prefix ''googclient_'' k) extra"

text \<open>After a failed publication its ordering key is refused.\<close>

definition pauses_keys :: "bus \<Rightarrow> bool" where
  "pauses_keys send_to \<longleftrightarrow>
     (\<forall>pre m mid m' e. send_to pre m = Inl e \<and> pm_OrderingKey m' = pm_OrderingKey m \<longrightarrow>
        (\<exists>e'. send_to (pre @ m # mid) m' = Inl e'))"

lemma sent_by_append: "sent_by send_to (es @ es') = fold (bus_step send_to) es' (sent_by send_to es)"
  by (simp add: sent_by_def)

lemma bus_reply_None:
  "bus_reply send_to why E es (PublishDMail m) = None \<longleftrightarrow>
     dm_Kind m \<noteq> [] \<and> dm_Target m \<noteq> [] \<and>
     is_ok (send_to (sent_by send_to es) \<lparr>pm_Data = RenderMarkdown m, pm_Attributes = publish_attributes m,
        pm_OrderingKey = dm_Target m\<rparr>)"
  by (auto simp: pubsub_PublishDMail_def Let_def is_ok_iff split: sum.split)

lemma bus_step_grows: "\<exists>added. bus_step send_to e sent = sent @ added"
  by (cases e) (auto simp: pubsub_PublishDMail_def Let_def)

lemma bus_fold_grows: "\<exists>added. fold (bus_step send_to) es sent = sent @ added"
proof (induction es arbitrary: sent)
  case (Cons e es)
  obtain a where "bus_step send_to e sent = sent @ a" using bus_step_grows by blast
  moreover obtain b where "fold (bus_step send_to) es (sent @ a) = (sent @ a) @ b" using Cons by blast
  ultimately show ?case by simp
qed simp

section \<open>The mail of a task\<close>

definition clean_request :: "dispatch_request \<Rightarrow> bool" where
  "clean_request req \<longleftrightarrow>
     list_all clean [dr_Role req, dr_IdempotencyKey req, dr_RequesterID req, dr_SlackChannelID req,
       dr_SlackThreadTS req, dr_ProjectID req] \<and> \<not> prefix ''---'' (dr_Text req)"

lemma hex_digit_graphic: "n < 16 \<Longrightarrow> graphic (hex_digit n) \<and> hex_digit n \<noteq> nl"
proof -
  have "list_all (\<lambda>n. graphic (hex_digit n) \<and> hex_digit n \<noteq> nl) [0..<16]" by code_simp
  then show "n < 16 \<Longrightarrow> ?thesis" by (simp add: list_all_iff)
qed

lemma hex_byte_graphic: "list_all (\<lambda>c. graphic c \<and> c \<noteq> nl) (hex_byte b)"
proof -
  have "(of_char b :: nat) < 256" by (rule nat_of_char_less_256)
  then have "(of_char b :: nat) div 16 < 16" by (simp add: less_mult_imp_div_less)
  then show ?thesis
    using hex_digit_graphic[of "of_char b div 16"] hex_digit_graphic[of "of_char b mod 16"]
    by (simp add: hex_byte_def)
qed

lemma clean_graphic: "list_all (\<lambda>c. graphic c \<and> c \<noteq> nl) s \<Longrightarrow> clean s"
  by (cases s) (auto simp: clean_def list_all_iff)

lemma clean_newDMailID: "clean (newDMailID random)"
proof (cases random)
  case None
  show ?thesis unfolding None newDMailID_def by code_simp
next
  case (Some b)
  have "list_all (\<lambda>c. graphic c \<and> c \<noteq> nl) (concat (map hex_byte b))"
    using hex_byte_graphic by (induction b) simp_all
  then show ?thesis unfolding Some newDMailID_def by (simp add: clean_graphic)
qed

lemma dispatch_keys_clean:
  "list_all clean_key [''requester_id'', ''slack_channel_id'', ''slack_thread_ts'', ''parent_idempotency_key'',
     ''project_id'']"
  by code_simp

lemma dispatch_mail_well_formed:
  assumes "clean_request req"
  shows "well_formed (dispatch_mail random req)"
proof -
  have s: "clean ''runops-gateway-slack''" by code_simp
  have k: "DMailKindSpecification \<in> set dmail_kinds" by (simp add: dmail_kinds_def)
  have d: "distinct (map fst (dm_Metadata (dispatch_mail random req)))"
    by (simp add: dispatch_mail_def opt_entry_def)
  have m: "\<forall>(k, v) \<in> set (dm_Metadata (dispatch_mail random req)). clean_key k \<and> clean v"
    using assms dispatch_keys_clean by (auto simp: dispatch_mail_def opt_entry_def clean_request_def)
  show ?thesis
    using assms s k d m clean_newDMailID by (simp add: well_formed_def dispatch_mail_def clean_request_def)
qed

definition same_mail :: "dmail \<Rightarrow> dmail \<Rightarrow> bool" where
  "same_mail m m' \<longleftrightarrow> m' = m\<lparr>dm_Body := body_text m, dm_Metadata := dm_Metadata m'\<rparr> \<and>
     map_of (dm_Metadata m') = map_of (dm_Metadata m)"

lemma task_reads_back:
  assumes "clean_request req"
  obtains mail where "ParseDMail (RenderMarkdown (dispatch_mail random req)) = Inr mail"
    "same_mail (dispatch_mail random req) mail"
proof -
  let ?m = "dispatch_mail random req"
  have "\<not> prefix ''---'' (body_text ?m)"
    using assms by (intro body_text_no_dashes) (simp add: dispatch_mail_def clean_request_def)
  then have "ParseDMail (RenderMarkdown ?m) = Inr (?m\<lparr>dm_Body := body_text ?m, dm_Metadata := sorted_metadata ?m\<rparr>)"
    using ParseDMail_Render[OF dispatch_mail_well_formed[OF assms]] body_after_strips_id by simp
  moreover have "map_of (sorted_metadata ?m) = map_of (dm_Metadata ?m)"
    using dispatch_mail_well_formed[OF assms] by (intro sorted_metadata_map_of) (simp add: well_formed_def)
  ultimately show ?thesis using that by (simp add: same_mail_def)
qed

section \<open>At the receiver\<close>

lemma server_id_chars:
  assumes "server_id sid" "c \<in> set sid"
  shows "c \<noteq> slash \<and> c \<noteq> CHR 0x5C \<and> c \<noteq> CHR ''.''"
proof -
  have "list_all (\<lambda>c. c \<noteq> slash \<and> c \<noteq> CHR 0x5C \<and> c \<noteq> CHR ''.'') ''0123456789''" by code_simp
  with assms show ?thesis unfolding server_id_def list_all_iff by blast
qed

lemma server_id_sets: "server_id sid \<Longrightarrow> slash \<notin> set sid \<and> CHR 0x5C \<notin> set sid \<and> CHR ''.'' \<notin> set sid \<and> sid \<noteq> []"
  using server_id_chars by (auto simp: server_id_def)

lemma server_id_name:
  assumes "server_id sid" "attribute m ''id'' = []" "bm_ID m = sid"
  shows "chooseFilename m = Some (sid @ ''.md'')"
proof -
  note s = server_id_sets[OF assms(1)]
  have "cut_str ''..'' sid = None"
  proof (cases "cut_str ''..'' sid")
    case (Some ab)
    then have "cut_str ''..'' sid = Some (fst ab, snd ab)" by simp
    then have "sid = fst ab @ ''..'' @ snd ab" by (rule cut_str_Some)
    moreover have "CHR ''.'' \<in> set (fst ab @ ''..'' @ snd ab)" by simp
    ultimately show ?thesis using s by metis
  qed
  then have dots: "\<not> contains_str sid ''..''" by (simp add: contains_str_def)
  have "\<not> list_ex (\<lambda>c. c = slash \<or> c = CHR 0x5C) sid" using s by (auto simp: list_ex_iff)
  moreover have "filepath_Base sid = sid" using s by (intro Base_no_slash) simp_all
  ultimately show ?thesis
    using assms(2,3) s dots by (simp add: chooseFilename_def Let_def)
qed

lemma server_id_valid:
  assumes "server_id sid"
  shows "validateName (sid @ ''.md'') = None"
proof -
  note s = server_id_sets[OF assms]
  have e: "slash \<notin> set ''.md''" "CHR 0x5C \<notin> set ''.md''" by (simp_all add: slash_def)
  have "filepath_Base (sid @ ''.md'') = sid @ ''.md''"
    using s e by (intro Base_no_slash) auto
  moreover have "\<not> contains_str (sid @ ''.md'') [slash]" "\<not> contains_str (sid @ ''.md'') [CHR 0x5C]"
    using s e by (simp_all add: contains_chr del: set_simps)
  moreover have "hd (sid @ ''.md'') \<noteq> CHR ''.''" using s by (cases sid) auto
  then have "\<not> prefix ''..'' (sid @ ''.md'')" "sid @ ''.md'' \<noteq> ''.''" "sid @ ''.md'' \<noteq> ''..''"
    by (auto simp: prefix_def)
  ultimately show ?thesis by (simp add: validateName_def slash_def)
qed

text \<open>Every call of the write succeeds, and the random name of the temporary file is not in use.\<close>

definition fault_free :: "write_faults \<Rightarrow> string \<Rightarrow> string \<Rightarrow> files \<Rightarrow> bool" where
  "fault_free w dir name fs \<longleftrightarrow>
     wf_mkdir w = None \<and> wf_read w = None \<and> wf_write w = None \<and> wf_sync w = None \<and> wf_close w = None \<and>
     wf_rename w = None \<and>
     (case wf_temp w of Inl e \<Rightarrow> False | Inr rnd \<Rightarrow> fs (filepath_Join dir (temp_name name rnd)) = None)"

lemma fault_free_writes:
  assumes "fault_free w dir name fs" "validateName name = None" "fs (filepath_Join dir name) \<in> {None, Some data}"
  shows "WriteFile w dir name data fs = (None, fs(filepath_Join dir name \<mapsto> data))"
proof -
  have "plain_name name" using assms(2) by (rule validateName_plain)
  then have "filepath_Join dir (temp_name name k) \<noteq> filepath_Join dir name" for k
    using Join_plain_inj[OF temp_name_plain] temp_name_other by blast
  with assms show ?thesis
    by (auto simp: WriteFile_def fault_free_def Let_def fun_eq_iff split: sum.splits option.splits)
qed

lemma map_of_extra: "k \<notin> fst ` set extra \<Longrightarrow> map_of (al @ extra) k = map_of al k"
  using map_of_eq_None_iff[of extra k] by (simp add: map_add_def split: option.split)

lemma tracing_key: "tracing_only extra \<Longrightarrow> \<not> prefix ''googclient_'' k \<Longrightarrow> k \<notin> fst ` set extra"
  by (auto simp: tracing_only_def list_all_iff)

lemma publish_attributes_other:
  assumes "k \<notin> {''kind'', ''target_tool'', ''dmail_schema_version'', ''source'', ''idempotency_key''}"
  shows "map_of (publish_attributes m) k = map_of (dm_Metadata m) k"
proof -
  define attrs where "attrs = [(''kind'', dm_Kind m), (''target_tool'', dm_Target m), (''dmail_schema_version'', ''1'')] @
      (if dm_Source m \<noteq> [] then [(''source'', dm_Source m)] else []) @
      (if dm_IdempotencyKey m \<noteq> [] then [(''idempotency_key'', dm_IdempotencyKey m)] else [])"
  have k: "k \<notin> fst ` set attrs" using assms by (auto simp: attrs_def split: if_splits)
  then have "map_of attrs k = None" by (simp add: map_of_eq_None_iff)
  moreover have "map_of (filter (\<lambda>(k, v). k \<notin> fst ` set attrs) al) k = map_of al k" for al
    using k by (induction al) force+
  moreover have "publish_attributes m = attrs @ filter (\<lambda>(k, v). k \<notin> fst ` set attrs) (dm_Metadata m)"
    unfolding publish_attributes_def Let_def attrs_def by (rule refl)
  ultimately show ?thesis by (simp add: map_add_def split: option.split)
qed

lemma map_of_opt_entry:
  "map_of (opt_entry k v @ al) x = (if x = k \<and> v \<noteq> [] then Some v else map_of al x)"
  "map_of (opt_entry k v) x = (if x = k \<and> v \<noteq> [] then Some v else None)"
  by (simp_all add: opt_entry_def)

abbreviation task_message :: "string \<Rightarrow> (string \<times> string) list \<Rightarrow> string option \<Rightarrow> dispatch_request \<Rightarrow> bus_message" where
  "task_message sid extra random req \<equiv>
     arrives sid extra \<lparr>pm_Data = RenderMarkdown (dispatch_mail random req),
       pm_Attributes = publish_attributes (dispatch_mail random req), pm_OrderingKey = dr_Role req\<rparr>"

lemma dispatch_attributes:
  assumes "tracing_only extra"
  shows "attribute (task_message sid extra random req) ''id'' = []"
    "attribute (task_message sid extra random req) ''project_id'' = dr_ProjectID req"
proof -
  let ?m = "dispatch_mail random req"
  have n: "\<not> prefix ''googclient_'' ''id''" "\<not> prefix ''googclient_'' ''project_id''" by simp_all
  have "map_of (dm_Metadata ?m) ''id'' = None"
    by (simp add: dispatch_mail_def map_of_opt_entry del: map_of_append)
  then show "attribute (task_message sid extra random req) ''id'' = []"
    using tracing_key[OF assms n(1)]
    by (simp add: attribute_def arrives_def map_of_extra publish_attributes_other del: map_of_append)
  have "map_of (dm_Metadata ?m) ''project_id'' = (if dr_ProjectID req = [] then None else Some (dr_ProjectID req))"
    by (simp add: dispatch_mail_def map_of_opt_entry del: map_of_append)
  then show "attribute (task_message sid extra random req) ''project_id'' = dr_ProjectID req"
    using tracing_key[OF assms n(2)]
    by (simp add: attribute_def arrives_def map_of_extra publish_attributes_other del: map_of_append)
qed

section \<open>Properties\<close>

text \<open>Where a message of a project goes, when it goes anywhere.\<close>

fun route :: "outbox_router \<Rightarrow> string \<Rightarrow> string option" where
  "route (SingleOutboxRouter dir) pid = Some dir"
| "route (MultiOutboxRouter dirs) pid = (if ValidateProjectID pid \<noteq> None then None else map_of dirs pid)"

lemma resolve_outbox_route: "resolve_outbox r m = route r (attribute m ''project_id'')"
  by (cases r) simp_all

lemma render_not_empty: "RenderMarkdown m \<noteq> []"
  by (simp add: RenderMarkdown_def)

lemma task_received:
  assumes "server_id sid" "tracing_only extra"
  shows "receiver_OnMessage router flt (task_message sid extra random req) fs =
    (case route router (dr_ProjectID req) of
       None \<Rightarrow> (Nack, fs)
     | Some dir \<Rightarrow>
         (let r = WriteFile flt dir (sid @ ''.md'') (RenderMarkdown (dispatch_mail random req)) fs
          in (if fst r = None then Ack else Nack, snd r)))"
proof -
  let ?m = "task_message sid extra random req"
  have id: "bm_ID ?m = sid" "bm_Data ?m = RenderMarkdown (dispatch_mail random req)"
    by (simp_all add: arrives_def)
  have "chooseFilename ?m = Some (sid @ ''.md'')"
    using server_id_name[OF assms(1) dispatch_attributes(1)[OF assms(2)] id(1)] .
  then show ?thesis
    unfolding receiver_OnMessage_def resolve_outbox_route dispatch_attributes(2)[OF assms(2)] id
    by (simp add: render_not_empty)
qed

lemma accepted_published:
  assumes "run_state (DispatchAgentTask (bus_env send_to why E) chk (pubsub_Dispatch (bus_env send_to why E) random)
      req target) w = (None, w')"
  shows "sent_by send_to (trace w') = sent_by send_to (trace w) @
     [\<lparr>pm_Data = RenderMarkdown (dispatch_mail random req),
       pm_Attributes = publish_attributes (dispatch_mail random req), pm_OrderingKey = dr_Role req\<rparr>]"
proof -
  let ?mail = "dispatch_mail random req"
  have free: "dr_Role req \<noteq> []" and ok: "bus_reply send_to why E (trace w) (PublishDMail ?mail) = None"
    and tr: "trace w' = trace w @ [PublishDMail ?mail, DispatchUpdate target
       (NoteDispatchAccepted (dr_Role req) (dr_IdempotencyKey req))]"
    using assms unfolding DispatchAgentTask_exact Let_def bus_env_def
    by (auto split: if_splits option.splits)
  have "dm_Kind ?mail \<noteq> []" "dm_Target ?mail \<noteq> []" "dm_Target ?mail = dr_Role req"
    using ok[unfolded bus_reply_None] by (simp_all add: dispatch_mail_def)
  then show ?thesis by (simp add: tr sent_by_append pubsub_PublishDMail_def Let_def)
qed


definition shop_task :: dispatch_request where
  "shop_task = \<lparr>dr_Role = ''paintress'', dr_Text = ''fix it'', dr_RequesterID = ''U1'', dr_IdempotencyKey = ''k1'',
     dr_IssuedAt = 500, dr_SlackChannelID = ''C1'', dr_SlackThreadTS = ''1.2'', dr_ProjectID = ''shop''\<rparr>"

definition quiet_env :: "dispatch_effect env" where
  "quiet_env = \<lparr>reply = (\<lambda>_ _. None), clock = (\<lambda>_. 1000)\<rparr>"

definition task_checker :: auth_checker where
  "task_checker = \<lparr>ac_allowedUsers = [''U1''], ac_expirySeconds = 7200\<rparr>"

definition task_target :: notify_target where
  "task_target = \<lparr>nt_CallbackURL = ''https'', nt_Mode = ModeSlack, nt_ChannelID = ''C1'', nt_ThreadTS = []\<rparr>"

definition idle_world :: dispatch_world where
  "idle_world = \<lparr>trace = [], dw_store = NewMemoryStore\<rparr>"



definition first_fails :: bus where
  "first_fails sent m =
     (if sent = [] \<or> pm_OrderingKey m = pm_OrderingKey (hd sent) then Inl ''unavailable'' else Inr ''1'')"


end
