(* ===== verification/Result_Flow.thy ===== *)
theory Result_Flow
  imports Mail_Flow
begin

text \<open>
  The way back: a document in an archive, the emitter, the bus and the gateway's receiver of results, put
  together.
\<close>

section \<open>What the emitter publishes\<close>

lemma clean_key_project: "clean_key ''project_id''"
  by code_simp

lemma set_meta_well_formed:
  assumes "well_formed m" "clean v"
  shows "well_formed (set_meta ''project_id'' v m)"
proof -
  have "distinct (map fst (filter (\<lambda>e. fst e \<noteq> k) (dm_Metadata m)))" for k
    using assms(1) by (simp add: well_formed_def distinct_map_filter)
  with assms clean_key_project show ?thesis by (auto simp: well_formed_def set_meta_def)
qed

lemma set_meta_other: "k \<noteq> ''project_id'' \<Longrightarrow> meta (set_meta ''project_id'' v m) k = meta m k"
proof -
  assume k: "k \<noteq> ''project_id''"
  have "map_of (filter (\<lambda>e. fst e \<noteq> ''project_id'') al) k = map_of al k" for al :: "(string \<times> string) list"
    using k by (induction al) auto
  with k show ?thesis by (simp add: meta_def set_meta_def)
qed

lemma PublishFile_sent:
  assumes "PublishFile send_to router absolute st path e = (None, e')" "em_sent e' \<noteq> em_sent e"
  obtains data mail rid where "st = IsFile (Inr data)" "ParseDMail data = Inr mail"
    "ResolveProjectID router path = Some rid"
    "em_sent e' = em_sent e @ [let m = (if rid \<noteq> [] then set_meta ''project_id'' rid mail else mail)
       in \<lparr>pm_Data = RenderMarkdown m, pm_Attributes = publish_attributes m, pm_OrderingKey = dm_Target m\<rparr>]"
  using assms that
  by (auto simp: PublishFile_def Let_def publish_mail_def pubsub_PublishDMail_def
      split: stat_result.splits sum.splits option.splits if_splits)

text \<open>A well formed document comes out of the parser again with its fields; only its project and its body may differ.\<close>

definition same_head :: "dmail \<Rightarrow> dmail \<Rightarrow> bool" where
  "same_head m m' \<longleftrightarrow>
     dm_ID m' = dm_ID m \<and> dm_Kind m' = dm_Kind m \<and> dm_Target m' = dm_Target m \<and> dm_Source m' = dm_Source m \<and>
     dm_IdempotencyKey m' = dm_IdempotencyKey m \<and> (\<forall>k. k \<noteq> ''project_id'' \<longrightarrow> meta m' k = meta m k)"

lemma rendered_head:
  assumes "well_formed m" "clean rid"
  defines "m1 \<equiv> if rid \<noteq> [] then set_meta ''project_id'' rid m else m"
  shows "\<exists>m'. ParseDMail (RenderMarkdown m1) = Inr m' \<and> same_head m m' \<and>
    (rid \<noteq> [] \<longrightarrow> meta m' ''project_id'' = rid)"
proof -
  have w: "well_formed m1" using assms set_meta_well_formed by (simp add: m1_def)
  let ?m' = "m1\<lparr>dm_Body := body_after_strips (body_text m1), dm_Metadata := sorted_metadata m1\<rparr>"
  have "map_of (sorted_metadata m1) = map_of (dm_Metadata m1)"
    using w by (intro sorted_metadata_map_of) (simp add: well_formed_def)
  then have meta': "meta ?m' k = meta m1 k" for k by (simp add: meta_def)
  have entries: "meta ?m' k = meta m k" if "k \<noteq> ''project_id''" for k
    unfolding meta' using set_meta_other[OF that] by (simp add: m1_def)
  have "dm_ID m1 = dm_ID m" "dm_Kind m1 = dm_Kind m" "dm_Target m1 = dm_Target m" "dm_Source m1 = dm_Source m"
    "dm_IdempotencyKey m1 = dm_IdempotencyKey m" by (simp_all add: m1_def set_meta_def)
  with entries have "same_head m ?m'" unfolding same_head_def by simp
  moreover have "rid \<noteq> [] \<longrightarrow> meta ?m' ''project_id'' = rid"
    unfolding meta' by (simp add: m1_def set_meta_def meta_def)
  ultimately show ?thesis using ParseDMail_Render[OF w] by blast
qed

section \<open>Property\<close>


definition new_emitter :: emitter where
  "new_emitter = \<lparr>em_seen = {}, em_sent = []\<rparr>"

definition report_doc :: string where
  "report_doc = ''---'' @ [nl] @ ''kind: report'' @ [nl] @ ''target: gateway'' @ [nl] @ ''slack_channel_id: C'' @ [nl] @
     ''slack_thread_ts: 1'' @ [nl] @ ''parent_idempotency_key: k'' @ [nl] @ ''---''"

lemma report_mail:
  obtains mail where "ParseDMail report_doc = Inr mail" "well_formed mail" "dm_Kind mail = ''report''"
    "dm_Target mail = ''gateway''" "meta mail ''slack_channel_id'' = ''C''" "meta mail ''slack_thread_ts'' = ''1''"
    "meta mail ''parent_idempotency_key'' = ''k''"
proof -
  have "case ParseDMail report_doc of Inl e \<Rightarrow> False
    | Inr mail \<Rightarrow> well_formed mail \<and> dm_Kind mail = ''report'' \<and> dm_Target mail = ''gateway'' \<and>
        meta mail ''slack_channel_id'' = ''C'' \<and> meta mail ''slack_thread_ts'' = ''1'' \<and>
        meta mail ''parent_idempotency_key'' = ''k''" by code_simp
  then show ?thesis using that by (cases "ParseDMail report_doc") auto
qed


end
