(* ===== verification/Daemon_Life.thy ===== *)
theory Daemon_Life
  imports Daemons Shutdown
begin

text \<open>
  The whole run of the two daemons (\<open>main\<close> in \<open>cmd/dmail-receiver/main.go\<close> and \<open>cmd/dmail-emitter/main.go\<close>): tracing,
  the client of Pub/Sub, the loop and the end of the process.  Deferred calls run in reverse order when \<open>main\<close>
  returns, and not at all on \<open>os.Exit\<close>.
\<close>

section \<open>Deferred calls\<close>

datatype daemon_event =
    TracerReady "tracer option"
  | ClientReady
  | Looped
  | ClientClosed
  | SignalsReset
  | TracerShutdown

record daemon =
  dn_events :: "daemon_event list"
  dn_deferred :: "daemon_event list"

definition does :: "daemon_event \<Rightarrow> daemon \<Rightarrow> daemon" where
  "does e d = d\<lparr>dn_events := dn_events d @ [e]\<rparr>"

definition defers :: "daemon_event \<Rightarrow> daemon \<Rightarrow> daemon" where
  "defers e d = d\<lparr>dn_deferred := e # dn_deferred d\<rparr>"

text \<open>Exit code and events of a process.\<close>

type_synonym process_end = "nat \<times> daemon_event list"

definition os_Exit :: "nat \<Rightarrow> daemon \<Rightarrow> process_end" where
  "os_Exit code d = (code, dn_events d)"

definition main_returns :: "daemon \<Rightarrow> process_end" where
  "main_returns d = (0, dn_events d @ dn_deferred d)"

definition fresh_daemon :: daemon where
  "fresh_daemon = \<lparr>dn_events = [], dn_deferred = []\<rparr>"

text \<open>What both do after the configuration: set the tracer, defer its shutdown, listen to signals.\<close>

definition traced :: "otel_host \<Rightarrow> getenv \<Rightarrow> string \<Rightarrow> daemon" where
  "traced H getenv service =
     defers SignalsReset
       (defers TracerShutdown (does (TracerReady (process_tracer H getenv service)) fresh_daemon))"

definition with_client :: "daemon \<Rightarrow> daemon" where
  "with_client d = defers ClientClosed (does ClientReady d)"

section \<open>The receiver\<close>

text \<open>\<open>ds\<close> are the deliveries with the faults they meet; the loop of the subscription ends with \<open>loop_err\<close>, and
  \<open>cancelled\<close> says whether a signal ended it.\<close>

definition receiver_process ::
  "otel_host \<Rightarrow> (string \<Rightarrow> gerror) \<Rightarrow> getenv \<Rightarrow> (write_faults \<times> bus_message) list \<Rightarrow> gerror \<Rightarrow> bool \<Rightarrow> files \<Rightarrow>
   process_end \<times> files" where
  "receiver_process H new_client getenv ds loop_err cancelled fs =
     (case receiver_loadConfig getenv of
        Inl e \<Rightarrow> (os_Exit 1 fresh_daemon, fs)
      | Inr cfg \<Rightarrow>
          (let d = traced H getenv ''dmail-receiver''
           in case receiver_main new_client getenv of
                Inl e \<Rightarrow> (os_Exit 1 d, fs)
              | Inr (subscription, router) \<Rightarrow>
                  (let d' = does Looped (with_client d); fs' = deliveries router ds fs
                   in if loop_err \<noteq> None \<and> \<not> cancelled then (os_Exit 1 d', fs')
                      else (main_returns d', fs'))))"

section \<open>The emitter\<close>

text \<open>The watcher reports its paths to \<open>PublishFile\<close>; what the file system says of a path may depend on
  all that was published before.\<close>

definition emit_path ::
  "bus \<Rightarrow> archive_router \<Rightarrow> (string \<Rightarrow> string) \<Rightarrow> (emitter \<Rightarrow> string \<Rightarrow> stat_result) \<Rightarrow> string \<Rightarrow> emitter \<Rightarrow> emitter" where
  "emit_path send_to router absolute stat path e = snd (PublishFile send_to router absolute (stat e path) path e)"

definition emitter_process ::
  "otel_host \<Rightarrow> (string \<Rightarrow> string \<Rightarrow> gerror) \<Rightarrow> getenv \<Rightarrow> ((string \<times> string) list \<Rightarrow> (string \<times> string) list) \<Rightarrow>
   ((string \<times> string) list \<Rightarrow> (string \<times> string) list) \<Rightarrow> (string \<Rightarrow> gerror) \<Rightarrow>
   (string \<Rightarrow> string + string list) \<Rightarrow> bus \<Rightarrow> (string \<Rightarrow> string) \<Rightarrow> (emitter \<Rightarrow> string \<Rightarrow> stat_result) \<Rightarrow>
   (watch_op set \<times> string) list \<Rightarrow> process_end \<times> emitter" where
  "emitter_process H new_publisher getenv order order' add list_dir send_to absolute stat evs =
     (let e0 = \<lparr>em_seen = {}, em_sent = []\<rparr>
      in case emitter_loadConfig getenv of
        Inl e \<Rightarrow> (os_Exit 1 fresh_daemon, e0)
      | Inr cfg \<Rightarrow>
          (let d = traced H getenv ''dmail-emitter''
           in case new_publisher (ec_projectID cfg) (ec_topic cfg) of
                Some e \<Rightarrow> (os_Exit 1 d, e0)
              | None \<Rightarrow>
                  (let d' = with_client d
                   in case emitter_main new_publisher getenv order order' of
                        Inl e \<Rightarrow> (os_Exit 1 d', e0)
                      | Inr (router, dirs) \<Rightarrow>
                          (let r = watcher_Run add list_dir (emit_path send_to router absolute stat) dirs evs e0
                           in if fst r \<noteq> None then (os_Exit 1 (does Looped d'), snd r)
                              else (main_returns (does Looped d'), snd r)))))"

lemmas life_defs = os_Exit_def main_returns_def traced_def with_client_def does_def defers_def fresh_daemon_def

section \<open>How they end\<close>

text \<open>Both daemons end with success exactly when they started and their loop was ended by a signal (the receiver
  also by an end of the subscription without an error).  Exactly then is the tracer shut down and the client
  closed, the client first.  After any failure the process leaves without both, so the spans of the messages it
  had handled are not exported.\<close>

lemma receiver_ends:
  "fst (fst (receiver_process H new_client getenv ds loop_err cancelled fs)) = 0 \<longleftrightarrow>
     is_ok (receiver_main new_client getenv) \<and> (loop_err = None \<or> cancelled)"
  "snd (fst (receiver_process H new_client getenv ds loop_err cancelled fs)) =
     (let ok = (fst (fst (receiver_process H new_client getenv ds loop_err cancelled fs)) = 0)
      in (if is_ok (receiver_loadConfig getenv) then [TracerReady (process_tracer H getenv ''dmail-receiver'')] else []) @
         (if is_ok (receiver_main new_client getenv) then [ClientReady, Looped] else []) @
         (if ok then [ClientClosed, SignalsReset, TracerShutdown] else []))"
  "snd (receiver_process H new_client getenv ds loop_err cancelled fs) =
     (case receiver_main new_client getenv of Inl e \<Rightarrow> fs | Inr (sub, router) \<Rightarrow> deliveries router ds fs)"
  by (auto simp: receiver_process_def receiver_main_def life_defs is_ok_iff Let_def split: sum.splits option.splits)

lemma emitter_main_started:
  assumes "emitter_main new_publisher getenv order order' = Inr r"
  obtains cfg where "emitter_loadConfig getenv = Inr cfg" "new_publisher (ec_projectID cfg) (ec_topic cfg) = None"
  using assms that unfolding emitter_main_def by (auto split: sum.splits option.splits)

lemma emitter_ends:
  assumes "emitter_process H new_publisher getenv order order' add list_dir send_to absolute stat evs = ((code, tr), e)"
  shows "(code = 0 \<longleftrightarrow>
      (\<exists>router dirs. emitter_main new_publisher getenv order order' = Inr (router, dirs) \<and>
         watcher_Run add list_dir (emit_path send_to router absolute stat) dirs evs \<lparr>em_seen = {}, em_sent = []\<rparr> = (None, e))) \<and>
    (TracerShutdown \<in> set tr \<longleftrightarrow> code = 0) \<and> (ClientClosed \<in> set tr \<longleftrightarrow> code = 0)"
proof (cases "emitter_main new_publisher getenv order order'")
  case (Inl err)
  with assms show ?thesis
    by (auto simp: emitter_process_def life_defs Let_def split: sum.splits option.splits)
next
  case (Inr started)
  obtain router dirs where s: "started = (router, dirs)" by (cases started)
  obtain cfg where "emitter_loadConfig getenv = Inr cfg" "new_publisher (ec_projectID cfg) (ec_topic cfg) = None"
    using emitter_main_started[OF Inr] .
  with assms Inr s show ?thesis
    by (cases "watcher_Run add list_dir (emit_path send_to router absolute stat) dirs evs \<lparr>em_seen = {}, em_sent = []\<rparr>")
      (auto simp: emitter_process_def life_defs Let_def split: if_splits)
qed

end
