(* ===== verification/Spec2Isabelle.thy ===== *)
theory Spec2Isabelle
  imports Runops_Correct Gateway_Flow Rpc_Idempotency Sqlite_Migrations Slack_Correct Notify_Correct Command_Correct
    Transport_Correct Cli Token_Flights Daemons State_Factory Shutdown Sqlite_Rows Sqlite_Open Click_Jobs Outbox_Race
    Result_Flow Daemon_Life
begin

text \<open>
  A model of runops-gateway, the service through which operators approve deployments, database migrations and
  changes of a project registry from Slack, the command line and two HTTP endpoints, and of the processes beside it.

  The program.  \<open>cmd/server\<close> is the gateway: it receives button clicks and slash commands of Slack, a REST and a
  JSON-RPC endpoint for administrators, and requests for GitHub tokens; it calls Cloud Run and Cloud SQL, keeps
  projects and pending requests in SQLite or Firestore, and exchanges D-Mails (Markdown documents with a YAML head)
  with tools of agents over Pub/Sub.  \<open>cmd/dmail-receiver\<close> and \<open>cmd/dmail-emitter\<close> run next to those tools and move
  D-Mails between Pub/Sub and directories.  \<open>cmd/runops\<close> is the command line.  The paths below are relative to
  \<open>internal/\<close> unless they begin with \<open>cmd/\<close>.

  How the model is written.  Go strings are lists of bytes (\<open>string\<close>), enumerations of Go that are strings stay
  strings, \<open>int64\<close> is \<open>64 word\<close> where its width matters (the age of a request, the replay window of Slack) and an
  \<open>int\<close> elsewhere.  A Go error is a constructor of an error type or, behind a port, its text in an option; a pair
  of value and error is a sum.  An operation on shared state takes the state and returns it.  A call of a port of
  the approval use case is a value of an effect type that is put on a trace and answered by an environment
  that may look at the trace, so every order of success and failure is covered.  The databases are a map with an oracle that
  says for every call whether the request or the reply is lost (\<open>Document_Store\<close>).  Concurrency is a step
  relation whose steps are the calls that are atomic in the code: under a mutex, one statement or transaction,
  one request.  The other definitions that model code compute.

  Theories and what they translate.

  Foundations.
  \<open>Gateway_Prelude\<close>: traces, environments, the state monad of a use case.
  \<open>Go_Strings\<close>, \<open>Go_Runes\<close>, \<open>Go_Json\<close>, \<open>Go_Paths\<close>, \<open>Go_Time\<close>: the parts of \<open>strings\<close>, \<open>strconv\<close>, UTF-8 conversion,
  the member rules of \<open>encoding/json\<close>, the lexical part of \<open>path/filepath\<close> and the calendar with the one layout
  of \<open>time\<close> that the source uses.
  \<open>Document_Store\<close>: what the storage adapters rely on.

  Approval of operations.
  \<open>Approval_Domain\<close>: \<open>core/domain/domain.go\<close>, the rules on actors, \<open>adapter/output/auth/checker.go\<close>.
  \<open>Lock_Store\<close>: \<open>adapter/output/state/memory.go\<close> and the store of used button tokens, with any number
  of concurrent holders (\<open>gate_step\<close>).
  \<open>Runops\<close>: the use case \<open>usecase/runops.go\<close>; \<open>Runops_Correct\<close> shows which calls it makes and under which guards.
  \<open>Gcp_Controller\<close>: \<open>adapter/output/gcp\<close>, the split of traffic and the wait for a backup.
  \<open>Operations\<close>: use case, controller and notifier put together; one theorem from the click to the requests.
  \<open>Click_Jobs\<close>: the jobs of a click under a context that expires (\<open>adapter/input/slack/handler.go\<close>).

  Slack.
  \<open>Slack_Buttons\<close>, \<open>Slack_Interactive\<close>, \<open>Slack_Command\<close>: \<open>adapter/input/slack\<close> with the dispatch use case
  \<open>usecase/dispatch_agent_task.go\<close>.  \<open>Block_Kit\<close>, \<open>Slack_Notify\<close>: \<open>adapter/output/slack\<close>.
  \<open>Slack_Correct\<close>, \<open>Command_Correct\<close>, \<open>Notify_Correct\<close>: signature and replay window, the guards of a click, single
  use, dispatch of what was confirmed, limits and destinations of messages, what a button loses.

  Changes of the registry.
  \<open>Project_Registry\<close>, \<open>Pending_Store\<close>: the domain values and both adapters of each store.
  \<open>Sqlite_Rows\<close>: the columns of SQLite, written and read back.
  \<open>State_Factory\<close>, \<open>Sqlite_Open\<close>, \<open>Sqlite_Migrations\<close>: choice of the backend, the opening of a file with its
  connection string, and the migration runner.
  \<open>Admin_Approval\<close>: \<open>usecase/admin_approval/orchestrator.go\<close>; \<open>Admin_Flow\<close> interleaves any number of its handlers
  database call by database call.
  \<open>Rpc_Core\<close>, \<open>Rpc_Http\<close>: envelope, dispatcher, methods, transport and token file of JSON-RPC;
  \<open>Rpc_Correct\<close>, \<open>Rpc_Idempotency\<close>: its answers, what it may record, the idempotency key.
  \<open>Admin_Rest\<close>: the REST endpoint.  \<open>Cli\<close>: the command line, equivalent to the endpoint on a registry.

  Credential broker.
  \<open>Broker\<close>: grants, sessions, identity tokens, verifiers, the GitHub broker, the cache and the handler.
  \<open>Token_Flights\<close>: the cache with concurrent callers.  \<open>Broker_Wiring\<close>: \<open>composition/\<close> and the key sources.
  \<open>Broker_Correct\<close>: who is let in, what a token opens, what a revocation stops.

  D-Mails.
  \<open>Dmail\<close>: \<open>core/domain/dmail.go\<close>.  \<open>Dmail_Transport\<close>: publisher, outbox writer, receiver, archive routers, emitter,
  watcher and the handler of results; \<open>Transport_Correct\<close>: delivery, single publication, routing.
  \<open>Outbox_Race\<close>: writes of one outbox interleaved call by call; a whole write is a run of these steps.
  \<open>Mail_Flow\<close>: dispatch, publisher, bus, receiver, outbox and parser put together; \<open>Result_Flow\<close>: the way
  of a result from an archive to the gateway.
  \<open>Daemons\<close>: \<open>cmd/dmail-emitter\<close> and \<open>cmd/dmail-receiver\<close>; \<open>Daemon_Life\<close>: their run until the end of the process.

  Processes.
  \<open>Server_Wiring\<close>: \<open>main\<close> and configuration of \<open>cmd/server\<close>, the routes; \<open>Server_Correct\<close>: when it starts and what requests
  can change.  \<open>Gateway_Flow\<close>: requests interleaved with the jobs that clicks started.  \<open>Shutdown\<close>: tracing, the
  order and the deadlines of the shutdown.

  Interfaces.  The ports are locales that the adapters interpret: \<open>state_store\<close> and \<open>consumed_store\<close> (the memory
  stores), \<open>project_registry\<close>, \<open>pending_store\<close> and the clients \<open>approval_backends\<close>, \<open>rpc_backend\<close>,
  \<open>rest_registry\<close>, \<open>cli_registry\<close> (each for SQLite and for Firestore), \<open>session_registry\<close> (memory and
  Firestore), and \<open>confined_notifier\<close> (the two notifiers and the one of the process).

  What the properties show, in groups: nothing reaches Google Cloud, GitHub, the registry or Slack except
  behind the guards of the code, also for the assembled processes and under interleaving; shifts are all or nothing and backups
  come first; the two backends and the two ways to the registry agree; records are permanent and resolved once;
  migrations, publications and flights happen once; documents, rows and buttons survive their round trip, or lose
  exactly what is stated; an accepted task reaches the outbox of its project, and what a failed publication or an
  expired context takes away is stated too; exactly when the process starts, a backup wait ends, a signature passes.

  Bounds.  No definition uses fuel.  The wait for a backup may last for ever and is a \<open>partial_function\<close>;
  \<open>backup_success_exact\<close> says exactly when it does.  All other loops end by structural recursion
  or a measure.  Step relations have no bound on the number of requests, handlers, callers or jobs.

  Arguments of the model, which stand for code outside the repository or for the world: SHA-256, HMAC and random bytes,
  base64, gzip, YAML and JSON text, media types, URL parsing, the form of instants; signature checks of JWTs
  and the key set; the answers of Slack, Google Cloud, GitHub, Secret Manager, Pub/Sub, the databases and
  the file system; the clock.  The hypotheses on them are stated in the theorems that need them, each
  with a witness: a codec that reads back what it wrote, identifiers of the registry that match their key, a bus that
  delivers data and attributes unchanged and refuses an ordering key after a failure.

  Not modelled.  Log lines and spans, except for the spans that a shutdown has to export, since no decision
  depends on them.  \<open>Close\<close> of clients other than those of Google Cloud, cancellation of single requests by context other than where
  it ends a wait or a click, and the HTTP mux of Go below the choice of the route.  The helpers of
  test suites under \<open>tests/utils\<close> and \<open>scripts/smoke\<close>.  Outside \<open>Outbox_Race\<close> a write to an outbox is one step.
\<close>

end
